(* ===== verification/Prelude.thy ===== *)
theory Prelude
  imports Complex_Main "HOL-Library.Word"
begin

section \<open>Shared vocabulary of the development\<close>

text \<open>
  This theory holds what every component uses: the machine integers of the Go code,
  identifiers, the error values, the state-and-error computations in which the services are
  written, Hoare triples for them, tables as lists of rows, and three interfaces (locales) that
  several components implement: a table of allowed transitions, a table claimed by
  \<open>INSERT .. ON CONFLICT DO NOTHING\<close>, and a store with optimistic locking.
\<close>

named_theorems go_defs \<open>definitions that a symbolic execution of a service unfolds\<close>
named_theorems hoare \<open>introduction rules for Hoare triples\<close>
named_theorems run \<open>when a computation returns a value: one equivalence per combinator\<close>
named_theorems effect \<open>what a database operation that succeeded has done\<close>

subsection \<open>Identifiers and machine integers\<close>

text \<open>A \<open>uuid.UUID\<close> is an array of 16 bytes; \<open>uuid.Nil\<close> is the all-zero one.\<close>

type_synonym uuid = "128 word"

abbreviation uuid_Nil :: uuid where
  "uuid_Nil \<equiv> 0"

text \<open>
  An \<open>int64\<close> (and Go's \<open>int\<close> on the 64-bit targets of the service) is a mathematical integer
  in range; each arithmetic operation of the code is followed by \<open>wrap64\<close>, the two's-complement
  wrap-around. Instants and durations are nanosecond counts.
\<close>

definition wrap64 :: "int \<Rightarrow> int" where
  "wrap64 x = (x + 2 ^ 63) mod 2 ^ 64 - 2 ^ 63"

definition in64 :: "int \<Rightarrow> bool" where
  "in64 x \<longleftrightarrow> - (2 ^ 63) \<le> x \<and> x < 2 ^ 63"

text \<open>Go's \<open>/\<close> and \<open>%\<close> truncate towards zero.\<close>

definition quot64 :: "int \<Rightarrow> int \<Rightarrow> int" where
  "quot64 a b = wrap64 (sgn a * sgn b * (\<bar>a\<bar> div \<bar>b\<bar>))"

definition rem64 :: "int \<Rightarrow> int \<Rightarrow> int" where
  "rem64 a b = a - sgn a * sgn b * (\<bar>a\<bar> div \<bar>b\<bar>) * b"

abbreviation Second :: int where
  "Second \<equiv> 1000000000"

lemma wrap64_id [simp]: "in64 x \<Longrightarrow> wrap64 x = x"
  by (simp add: wrap64_def in64_def)

lemma wrap64_in64 [simp]: "in64 (wrap64 x)"
proof -
  have "0 \<le> (x + 2 ^ 63) mod 2 ^ 64" and "(x + 2 ^ 63) mod 2 ^ 64 < 2 ^ 64"
    by simp_all
  then show ?thesis by (simp add: wrap64_def in64_def)
qed

lemma in64_between: "in64 a \<Longrightarrow> in64 b \<Longrightarrow> a \<le> x \<Longrightarrow> x \<le> b \<Longrightarrow> in64 x"
  by (simp add: in64_def)

lemma in64_0 [simp]: "in64 0" and in64_1 [simp]: "in64 1"
  by (simp_all add: in64_def)

lemma quot64_nonneg:
  assumes "0 \<le> a" "0 < b" "in64 a"
  shows "quot64 a b = a div b"
proof -
  have "sgn a * sgn b * (\<bar>a\<bar> div \<bar>b\<bar>) = a div b"
    using assms by (cases "a = 0") (simp_all add: sgn_if)
  moreover have "0 \<le> a div b" and "a div b \<le> a"
    using assms zdiv_mono2 [of a 1 b] by (simp_all add: pos_imp_zdiv_nonneg_iff)
  moreover from calculation have "in64 (a div b)"
    by (intro in64_between [OF in64_0 assms(3)])
  ultimately show ?thesis by (simp add: quot64_def)
qed

subsection \<open>Errors\<close>

text \<open>
  Go errors as values. \<open>Sentinel\<close> is a package-level \<open>errors.New\<close> compared by identity,
  \<open>Errorf\<close> a \<open>fmt.Errorf\<close> without a wrapped error, \<open>Wrapf\<close> one that wraps with \<open>%w\<close>. Only the
  constant part of a format is kept, not the identifiers printed into it. The remaining
  constructors are the error structs that the code inspects with \<open>errors.As\<close>.
\<close>

record GatewayError =
  ge_Category :: string
  ge_Code :: string
  ge_GatewayCode :: string
  ge_GatewayMessage :: string
  ge_Retryable :: bool

datatype go_error =
    Sentinel string
  | Errorf string
  | Wrapf string go_error
  | TxnInvalidTransition string string string
  | RefundInvalidTransition string string
  | OverRefund int int int
  | CircuitInvalidTransition string string
  | MissingRate string string
  | DisputeError string string
  | GatewayErr GatewayError

text \<open>\<open>errors.AsType\<close> walks the chain of wrapped errors.\<close>

fun as_GatewayError :: "go_error \<Rightarrow> GatewayError option" where
  "as_GatewayError (GatewayErr g) = Some g"
| "as_GatewayError (Wrapf _ e) = as_GatewayError e"
| "as_GatewayError _ = None"

fun as_OverRefund :: "go_error \<Rightarrow> go_error option" where
  "as_OverRefund (OverRefund a b c) = Some (OverRefund a b c)"
| "as_OverRefund (Wrapf _ e) = as_OverRefund e"
| "as_OverRefund _ = None"

text \<open>\<open>err.Error()\<close>, up to the printed identifiers and numbers.\<close>

fun err_msg :: "go_error \<Rightarrow> string" where
  "err_msg (Sentinel s) = s"
| "err_msg (Errorf s) = s"
| "err_msg (Wrapf s e) = s @ '': '' @ err_msg e"
| "err_msg (TxnInvalidTransition f t a) = ''transaction: invalid state transition '' @ f @ '' -> '' @ t"
| "err_msg (RefundInvalidTransition f t) = ''refund: invalid state transition '' @ f @ '' -> '' @ t"
| "err_msg (OverRefund _ _ _) = ''refund: amount would exceed original''"
| "err_msg (CircuitInvalidTransition f t) = ''circuit breaker: invalid transition '' @ f @ '' -> '' @ t"
| "err_msg (MissingRate f t) = ''fees: no exchange rate for '' @ f @ '' -> '' @ t"
| "err_msg (DisputeError c m) = m"
| "err_msg (GatewayErr g) =
     (if ge_GatewayMessage g \<noteq> ''''
      then ''gateway error ['' @ ge_Category g @ ''/'' @ ge_GatewayCode g @ '']: '' @ ge_GatewayMessage g
      else ''gateway error ['' @ ge_Category g @ ''/'' @ ge_Code g @ '']'')"

text \<open>\<open>strings.Contains\<close>.\<close>

fun has_prefix :: "string \<Rightarrow> string \<Rightarrow> bool" where
  "has_prefix [] s = True"
| "has_prefix (p # ps) [] = False"
| "has_prefix (p # ps) (c # cs) = (p = c \<and> has_prefix ps cs)"

fun contains :: "string \<Rightarrow> string \<Rightarrow> bool" where
  "contains sub [] = (sub = [])"
| "contains sub (c # cs) = (has_prefix sub (c # cs) \<or> contains sub cs)"

text \<open>
  \<open>strings.ToUpper\<close> and \<open>strings.EqualFold\<close> on the ASCII letters; currency codes and gateway
  names are ASCII.
\<close>

definition upper_char :: "char \<Rightarrow> char" where
  "upper_char c = (if 97 \<le> (of_char c :: nat) \<and> (of_char c :: nat) \<le> 122
     then char_of ((of_char c :: nat) - 32) else c)"

definition ToUpper :: "string \<Rightarrow> string" where
  "ToUpper s = map upper_char s"

definition EqualFold :: "string \<Rightarrow> string \<Rightarrow> bool" where
  "EqualFold a b \<longleftrightarrow> ToUpper a = ToUpper b"

lemma upper_char_idem [simp]: "upper_char (upper_char c) = upper_char c"
proof (cases "97 \<le> (of_char c :: nat) \<and> (of_char c :: nat) \<le> 122")
  case True
  then have "of_char (char_of ((of_char c :: nat) - 32)) = (of_char c :: nat) - 32"
    by (auto simp: take_bit_eq_mod intro!: mod_less)
  moreover from True have "\<not> 97 \<le> (of_char c :: nat) - 32" by linarith
  ultimately show ?thesis using True by (simp add: upper_char_def)
next
  case False
  then show ?thesis by (auto simp: upper_char_def)
qed

lemma ToUpper_idem [simp]: "ToUpper (ToUpper s) = ToUpper s"
  by (simp add: ToUpper_def)

lemma length_ToUpper [simp]: "length (ToUpper s) = length s"
  by (simp add: ToUpper_def)

subsection \<open>Computations with state and errors\<close>

text \<open>
  A Go function that touches the outside takes the state of the world and returns its error or
  its result, and the new state. \<open>bindE\<close> is the sequence of two calls with the usual
  \<open>if err != nil { return err }\<close> between them, \<open>wrapE\<close> adds the prefix of a wrapping
  \<open>fmt.Errorf\<close>, \<open>attempt\<close> hands the error to the caller as a value (\<open>_ = f()\<close>, or an error the
  code looks at).
\<close>

type_synonym ('w, 'a) comp = "'w \<Rightarrow> (go_error + 'a) \<times> 'w"

definition ok :: "'a \<Rightarrow> ('w, 'a) comp" where
  [go_defs]: "ok a w = (Inr a, w)"

definition throw :: "go_error \<Rightarrow> ('w, 'a) comp" where
  [go_defs]: "throw e w = (Inl e, w)"

definition bindE :: "('w, 'a) comp \<Rightarrow> ('a \<Rightarrow> ('w, 'b) comp) \<Rightarrow> ('w, 'b) comp" where
  [go_defs]: "bindE m f w = (case m w of (Inl e, w') \<Rightarrow> (Inl e, w') | (Inr a, w') \<Rightarrow> f a w')"

definition wrapE :: "string \<Rightarrow> ('w, 'a) comp \<Rightarrow> ('w, 'a) comp" where
  [go_defs]: "wrapE s m w = (case m w of (Inl e, w') \<Rightarrow> (Inl (Wrapf s e), w') | (Inr a, w') \<Rightarrow> (Inr a, w'))"

definition attempt :: "('w, 'a) comp \<Rightarrow> ('w, go_error + 'a) comp" where
  [go_defs]: "attempt m w = (case m w of (r, w') \<Rightarrow> (Inr r, w'))"

definition lift :: "go_error + 'a \<Rightarrow> ('w, 'a) comp" where
  [go_defs]: "lift r w = (r, w)"

definition reading :: "('w \<Rightarrow> 'a) \<Rightarrow> ('w, 'a) comp" where
  [go_defs]: "reading f w = (Inr (f w), w)"

definition changing :: "('w \<Rightarrow> 'w) \<Rightarrow> ('w, unit) comp" where
  [go_defs]: "changing f w = (Inr (), f w)"

text \<open>A Go loop over a slice whose body may return early with an error.\<close>

fun forE :: "'a list \<Rightarrow> ('a \<Rightarrow> ('w, unit) comp) \<Rightarrow> ('w, unit) comp" where
  "forE [] body = ok ()"
| "forE (x # xs) body = bindE (body x) (\<lambda>_. forE xs body)"

text \<open>A computation that returned a value did so step by step.\<close>

lemma bindE_Inr [run]:
  "bindE m f w = (Inr b, w') \<longleftrightarrow> (\<exists>a w1. m w = (Inr a, w1) \<and> f a w1 = (Inr b, w'))"
  by (auto simp: bindE_def split: prod.splits sum.splits)

lemma ok_Inr [run]: "ok a w = (Inr b, w') \<longleftrightarrow> b = a \<and> w' = w"
  by (auto simp: ok_def)

lemma throw_Inr [run]: "throw e w = (Inr b, w') \<longleftrightarrow> False"
  by (simp add: throw_def)

lemma lift_Inr [run]: "lift r w = (Inr b, w') \<longleftrightarrow> r = Inr b \<and> w' = w"
  by (auto simp: lift_def)

lemma reading_Inr [run]: "reading f w = (Inr b, w') \<longleftrightarrow> b = f w \<and> w' = w"
  by (auto simp: reading_def)

lemma changing_Inr [run]: "changing f w = (Inr b, w') \<longleftrightarrow> w' = f w"
  by (auto simp: changing_def)

lemma wrapE_Inr [run]: "wrapE s m w = (Inr b, w') \<longleftrightarrow> m w = (Inr b, w')"
  by (auto simp: wrapE_def split: prod.splits sum.splits)

lemma attempt_Inr [run]: "attempt m w = (Inr r, w') \<longleftrightarrow> m w = (r, w')"
  by (auto simp: attempt_def split: prod.splits)

subsection \<open>Hoare triples\<close>

text \<open>
  \<open>triple P m Q E\<close>: from a state with \<open>P\<close>, the computation either returns \<open>a\<close> in a state with
  \<open>Q a\<close> or fails with \<open>e\<close> in a state with \<open>E e\<close>. Computations are total functions, so this is total
  correctness. \<open>keeps\<close> is the special case of an invariant, whatever the outcome.
\<close>

definition triple ::
  "('w \<Rightarrow> bool) \<Rightarrow> ('w, 'a) comp \<Rightarrow> ('a \<Rightarrow> 'w \<Rightarrow> bool) \<Rightarrow> (go_error \<Rightarrow> 'w \<Rightarrow> bool) \<Rightarrow> bool" where
  "triple P m Q E \<longleftrightarrow> (\<forall>w. P w \<longrightarrow> (case m w of (Inl e, w') \<Rightarrow> E e w' | (Inr a, w') \<Rightarrow> Q a w'))"

definition keeps :: "('w \<Rightarrow> bool) \<Rightarrow> ('w, 'a) comp \<Rightarrow> bool" where
  "keeps I m \<longleftrightarrow> (\<forall>w. I w \<longrightarrow> I (snd (m w)))"

lemma tripleI:
  assumes "\<And>w a w'. P w \<Longrightarrow> m w = (Inr a, w') \<Longrightarrow> Q a w'"
    and "\<And>w e w'. P w \<Longrightarrow> m w = (Inl e, w') \<Longrightarrow> E e w'"
  shows "triple P m Q E"
  unfolding triple_def using assms by (auto split: prod.splits sum.splits)

lemma triple_okD: "triple P m Q E \<Longrightarrow> P w \<Longrightarrow> m w = (Inr a, w') \<Longrightarrow> Q a w'"
  unfolding triple_def by (force split: prod.splits sum.splits)

lemma triple_errD: "triple P m Q E \<Longrightarrow> P w \<Longrightarrow> m w = (Inl e, w') \<Longrightarrow> E e w'"
  unfolding triple_def by (force split: prod.splits sum.splits)

lemma triple_conseq:
  assumes "triple P' m Q' E'" "\<And>w. P w \<Longrightarrow> P' w"
    "\<And>a w. Q' a w \<Longrightarrow> Q a w" "\<And>e w. E' e w \<Longrightarrow> E e w"
  shows "triple P m Q E"
  using assms unfolding triple_def by (fastforce split: prod.splits sum.splits)

lemma keeps_ok [hoare]: "keeps I (ok a)"
  by (simp add: keeps_def ok_def)

lemma keeps_throw [hoare]: "keeps I (throw e)"
  by (simp add: keeps_def throw_def)

lemma keeps_lift [hoare]: "keeps I (lift r)"
  by (simp add: keeps_def lift_def)

lemma keeps_reading [hoare]: "keeps I (reading f)"
  by (simp add: keeps_def reading_def)

lemma keeps_changing: "(\<And>w. I w \<Longrightarrow> I (f w)) \<Longrightarrow> keeps I (changing f)"
  by (simp add: keeps_def changing_def)

lemma keeps_bindE [hoare]: "keeps I m \<Longrightarrow> (\<And>a. keeps I (f a)) \<Longrightarrow> keeps I (bindE m f)"
  unfolding keeps_def bindE_def by (auto split: prod.splits sum.splits)

lemma keeps_wrapE [hoare]: "keeps I m \<Longrightarrow> keeps I (wrapE s m)"
  unfolding keeps_def wrapE_def by (auto split: prod.splits sum.splits)

lemma keeps_attempt [hoare]: "keeps I m \<Longrightarrow> keeps I (attempt m)"
  unfolding keeps_def attempt_def by (auto split: prod.splits)

lemma keeps_if [hoare]: "(b \<Longrightarrow> keeps I m) \<Longrightarrow> (\<not> b \<Longrightarrow> keeps I m') \<Longrightarrow> keeps I (if b then m else m')"
  by simp

lemma keeps_case_option [hoare]:
  "(x = None \<Longrightarrow> keeps I m) \<Longrightarrow> (\<And>a. x = Some a \<Longrightarrow> keeps I (f a)) \<Longrightarrow>
   keeps I (case x of None \<Rightarrow> m | Some a \<Rightarrow> f a)"
  by (cases x) simp_all

lemma keeps_case_sum [hoare]:
  "(\<And>e. x = Inl e \<Longrightarrow> keeps I (g e)) \<Longrightarrow> (\<And>a. x = Inr a \<Longrightarrow> keeps I (f a)) \<Longrightarrow>
   keeps I (case x of Inl e \<Rightarrow> g e | Inr a \<Rightarrow> f a)"
  by (cases x) simp_all

lemma keeps_case_prod [hoare]:
  "(\<And>a b. x = (a, b) \<Longrightarrow> keeps I (f a b)) \<Longrightarrow> keeps I (case x of (a, b) \<Rightarrow> f a b)"
  by (cases x) simp

lemma keeps_forE [hoare]: "(\<And>x. x \<in> set xs \<Longrightarrow> keeps I (body x)) \<Longrightarrow> keeps I (forE xs body)"
  by (induction xs) (simp_all add: hoare)

text \<open>An invariant that the first step keeps from here, and the rest keeps from anywhere.\<close>

lemma bindE_snd: "I (snd (m w)) \<Longrightarrow> (\<And>a. keeps I (f a)) \<Longrightarrow> I (snd (bindE m f w))"
  unfolding keeps_def bindE_def by (auto split: prod.splits sum.splits)

lemma keepsD: "keeps I m \<Longrightarrow> I w \<Longrightarrow> m w = (r, w') \<Longrightarrow> I w'"
  unfolding keeps_def by (metis snd_conv)

subsection \<open>Tables as lists of rows\<close>

text \<open>
  A database table is the list of its rows in insertion order. \<open>key\<close> is the column that the
  schema declares \<open>PRIMARY KEY\<close> or \<open>UNIQUE\<close>.
\<close>

definition lookup_row :: "('r \<Rightarrow> 'k) \<Rightarrow> 'k \<Rightarrow> 'r list \<Rightarrow> 'r option" where
  [go_defs]: "lookup_row key k rs = find (\<lambda>r. key r = k) rs"

definition update_row :: "('r \<Rightarrow> 'k) \<Rightarrow> 'k \<Rightarrow> ('r \<Rightarrow> 'r) \<Rightarrow> 'r list \<Rightarrow> 'r list" where
  [go_defs]: "update_row key k f rs = map (\<lambda>r. if key r = k then f r else r) rs"

lemma lookup_row_Nil [simp]: "lookup_row key k [] = None"
  by (simp add: lookup_row_def)

lemma lookup_row_Cons [simp]:
  "lookup_row key k (r # rs) = (if key r = k then Some r else lookup_row key k rs)"
  by (simp add: lookup_row_def)

lemma lookup_row_None: "lookup_row key k rs = None \<longleftrightarrow> k \<notin> key ` set rs"
  by (induction rs) auto

lemma lookup_row_Some: "lookup_row key k rs = Some r \<Longrightarrow> key r = k \<and> r \<in> set rs"
  by (induction rs) (auto split: if_splits)

lemma lookup_row_append:
  "lookup_row key k (rs @ rs') =
     (case lookup_row key k rs of None \<Rightarrow> lookup_row key k rs' | Some r \<Rightarrow> Some r)"
  by (induction rs) auto

lemma lookup_row_mem:
  "distinct (map key rs) \<Longrightarrow> r \<in> set rs \<Longrightarrow> lookup_row key (key r) rs = Some r"
  by (induction rs) auto

text \<open>Updates never change the key column, so they keep it a key and act on one row.\<close>

lemma lookup_update_row [simp]:
  assumes "\<And>r. key (f r) = key r"
  shows "lookup_row key k (update_row key k' f rs) =
           (if k = k' then map_option f (lookup_row key k rs) else lookup_row key k rs)"
  using assms by (induction rs) (auto simp: update_row_def)

lemma update_row_keys [simp]:
  assumes "\<And>r. key (f r) = key r"
  shows "map key (update_row key k f rs) = map key rs"
  using assms by (induction rs) (auto simp: update_row_def)

lemma update_row_Nil [simp]: "update_row key k f [] = []"
  by (simp add: update_row_def)

lemma update_row_Cons [simp]:
  "update_row key k f (r # rs) = (if key r = k then f r else r) # update_row key k f rs"
  by (simp add: update_row_def)

lemma update_row_append [simp]:
  "update_row key k f (rs @ rs') = update_row key k f rs @ update_row key k f rs'"
  by (simp add: update_row_def)

lemma length_update_row [simp]: "length (update_row key k f rs) = length rs"
  by (simp add: update_row_def)

lemma update_row_absent: "k \<notin> key ` set rs \<Longrightarrow> update_row key k f rs = rs"
  by (induction rs) (auto simp: update_row_def)

lemma set_update_row:
  "r \<in> set (update_row key k f rs) \<longleftrightarrow>
     (r \<in> set rs \<and> key r \<noteq> k) \<or> (\<exists>r' \<in> set rs. key r' = k \<and> r = f r')"
  by (auto simp: update_row_def)

subsection \<open>Interface: a table of allowed transitions\<close>

text \<open>
  Four components (payments, refunds, disputes, circuit breakers) guard their status field by a
  table. The interface says what a provider promises of one move; the client lemma lifts it to
  runs: a set of statuses that the table does not leave is never left.
\<close>

fun run_moves :: "('e \<Rightarrow> 'm \<Rightarrow> go_error + 'e) \<Rightarrow> 'e \<Rightarrow> 'm list \<Rightarrow> go_error + 'e" where
  "run_moves fire e [] = Inr e"
| "run_moves fire e (m # ms) = (case fire e m of Inl err \<Rightarrow> Inl err | Inr e' \<Rightarrow> run_moves fire e' ms)"

locale transition_table =
  fixes allowed :: "'s \<Rightarrow> 's list"
    and status_of :: "'e \<Rightarrow> 's"
    and target :: "'m \<Rightarrow> 's"
    and fire :: "'e \<Rightarrow> 'm \<Rightarrow> go_error + 'e"
  assumes fire_allowed: "fire e m = Inr e' \<Longrightarrow> target m \<in> set (allowed (status_of e))"
    and fire_status: "fire e m = Inr e' \<Longrightarrow> status_of e' = target m"
begin

lemma run_closed:
  assumes "\<And>s. s \<in> C \<Longrightarrow> set (allowed s) \<subseteq> C" and "status_of e \<in> C"
    and "run_moves fire e ms = Inr e'"
  shows "status_of e' \<in> C"
  using assms(2,3)
proof (induction ms arbitrary: e)
  case Nil
  then show ?case by simp
next
  case (Cons m ms)
  then obtain e1 where e1: "fire e m = Inr e1" "run_moves fire e1 ms = Inr e'"
    by (auto split: sum.splits)
  have "target m \<in> C"
    using fire_allowed [OF e1(1)] assms(1) [OF Cons.prems(1)] by auto
  then show ?case
    using Cons.IH [OF _ e1(2)] fire_status [OF e1(1)] by simp
qed

lemma stuck:
  assumes "allowed (status_of e) = []"
  shows "\<exists>err. fire e m = Inl err"
proof (cases "fire e m")
  case (Inr e')
  from fire_allowed [OF this] assms show ?thesis by simp
qed simp

text \<open>An entity whose status has no exit is never moved again.\<close>

lemma run_stuck:
  assumes "allowed (status_of e) = []" and "run_moves fire e ms = Inr e'"
  shows "ms = [] \<and> e' = e"
proof (cases ms)
  case (Cons m ms')
  with stuck [OF assms(1), of m] assms(2) show ?thesis by auto
qed (use assms in simp)

end

subsection \<open>Interface: keys claimed at most once\<close>

text \<open>
  Leases, inbound webhook events and idempotency keys are all claimed by
  \<open>INSERT .. ON CONFLICT DO NOTHING\<close>; the caller learns from the row count whether it was first.
\<close>

fun claim_all :: "('k \<Rightarrow> 's \<Rightarrow> bool \<times> 's) \<Rightarrow> 'k list \<Rightarrow> 's \<Rightarrow> bool list \<times> 's" where
  "claim_all claim [] s = ([], s)"
| "claim_all claim (k # ks) s =
     (let (b, s1) = claim k s; (bs, s2) = claim_all claim ks s1 in (b # bs, s2))"

locale claim_table =
  fixes claim :: "'k \<Rightarrow> 's \<Rightarrow> bool \<times> 's"
    and held :: "'s \<Rightarrow> 'k set"
  assumes claim_first: "fst (claim k s) \<longleftrightarrow> k \<notin> held s"
    and claim_held: "held (snd (claim k s)) = insert k (held s)"
    and claim_again: "k \<in> held s \<Longrightarrow> snd (claim k s) = s"
begin

definition wins :: "'k \<Rightarrow> 'k list \<Rightarrow> 's \<Rightarrow> nat" where
  "wins k ks s = length (filter (\<lambda>(k', b). k' = k \<and> b) (zip ks (fst (claim_all claim ks s))))"

lemma at_most_one_winner: "wins k ks s = (if k \<in> held s \<or> k \<notin> set ks then 0 else 1)"
proof (induction ks arbitrary: s)
  case Nil
  then show ?case by (simp add: wins_def)
next
  case (Cons k' ks)
  obtain b s1 where c: "claim k' s = (b, s1)" by fastforce
  have b: "b \<longleftrightarrow> k' \<notin> held s" and h: "held s1 = insert k' (held s)"
    using claim_first [of k' s] claim_held [of k' s] c by simp_all
  have "wins k (k' # ks) s = (if k' = k \<and> b then 1 else 0) + wins k ks s1"
    by (simp add: wins_def c split: prod.splits)
  then show ?case
    using Cons.IH [of s1] b h by auto
qed

end

subsection \<open>Interface: a store with optimistic locking\<close>

text \<open>
  Payments and refunds are written with \<open>UPDATE .. SET version = version + 1 .. WHERE id = ..
  AND version = ..\<close>. A write succeeds only against the version it read, and it moves that version
  on, so of two writers that read the same version at most one succeeds.
\<close>

locale optimistic_store =
  fixes row :: "'s \<Rightarrow> 'k \<Rightarrow> 'r option"
    and key :: "'r \<Rightarrow> 'k"
    and ver :: "'r \<Rightarrow> int"
    and put :: "'r \<Rightarrow> 's \<Rightarrow> go_error + ('r \<times> 's)"
  assumes write_current: "put r s = Inr (r', s') \<Longrightarrow>
      \<exists>old. row s (key r) = Some old \<and> ver old = ver r"
    and write_moves: "put r s = Inr (r', s') \<Longrightarrow>
      key r' = key r \<and> ver r' = ver r + 1 \<and> map_option ver (row s' (key r)) = Some (ver r')"
    and write_frame: "put r s = Inr (r', s') \<Longrightarrow> k \<noteq> key r \<Longrightarrow> row s' k = row s k"
begin

lemma no_lost_update:
  assumes "put r1 s = Inr (r1', s1)" and "key r2 = key r1" and "ver r2 = ver r1"
  shows "\<exists>e. put r2 s1 = Inl e"
proof (cases "put r2 s1")
  case (Inr x)
  then obtain r2' s2 where p: "put r2 s1 = Inr (r2', s2)" by (cases x) auto
  obtain old where old: "row s1 (key r1) = Some old" "ver old = ver r1"
    using write_current [OF p] assms(2,3) by auto
  have "Some (ver old) = Some (ver r1')" and "ver r1' = ver r1 + 1"
    using write_moves [OF assms(1)] old(1) by auto
  with old(2) show ?thesis by (metis add_cancel_left_right option.inject zero_neq_one)
qed simp

end

end
