(* ===== verification/Float64.thy ===== *)
theory Float64
  imports Prelude
begin

section \<open>Go's float64 arithmetic\<close>

text \<open>
  A finite \<open>float64\<close> is the rational number it denotes, and each arithmetic operation of the code
  is the exact operation followed by \<open>f64\<close>: IEEE 754 rounding to 53 significant bits, ties to
  even. The exponent range is not bounded here: amounts are 64-bit integers and rates are
  \<open>NUMERIC(18,8)\<close>, so no intermediate value of the fee computation overflows or becomes
  subnormal. The fee component relies on four laws of rounding only, stated as the interface
  \<open>float_rounding\<close>; the interpretation proves them of \<open>f64\<close>.
\<close>

definition pow2 :: "int \<Rightarrow> rat" where
  "pow2 k = (if 0 \<le> k then 2 ^ nat k else 1 / 2 ^ nat (- k))"

fun bits :: "nat \<Rightarrow> nat" where
  "bits n = (if n = 0 then 0 else Suc (bits (n div 2)))"

declare bits.simps [simp del]

text \<open>The binary exponent of a positive rational: \<open>pow2 (expo x) \<le> x < pow2 (expo x + 1)\<close>.\<close>

definition expo :: "rat \<Rightarrow> int" where
  "expo x = (let (p, q) = quotient_of x; k = int (bits (nat p)) - int (bits (nat q))
             in if pow2 k \<le> x then k else k - 1)"

definition round_half_even :: "rat \<Rightarrow> int" where
  "round_half_even x =
     (let f = \<lfloor>x\<rfloor>; d = x - of_int f
      in if d < 1 / 2 then f else if 1 / 2 < d then f + 1 else if even f then f else f + 1)"

definition f64pos :: "rat \<Rightarrow> rat" where
  "f64pos x = (let u = pow2 (expo x - 52) in of_int (round_half_even (x / u)) * u)"

definition f64 :: "rat \<Rightarrow> rat" where
  "f64 x = (if x = 0 then 0 else if 0 < x then f64pos x else - f64pos (- x))"

text \<open>\<open>int64(math.Ceil(x))\<close>; out of range the amd64 conversion yields the smallest integer.\<close>

definition ceil64 :: "rat \<Rightarrow> int" where
  "ceil64 x = (if in64 \<lceil>x\<rceil> then \<lceil>x\<rceil> else - (2 ^ 63))"

subsection \<open>The interface\<close>

locale float_rounding =
  fixes rnd :: "rat \<Rightarrow> rat"
  assumes rnd_mono: "x \<le> y \<Longrightarrow> rnd x \<le> rnd y"
    and rnd_idem: "rnd (rnd x) = rnd x"
    and rnd_zero: "rnd 0 = 0"
    and rnd_one: "rnd 1 = 1"
    and rnd_rel: "\<bar>rnd x - x\<bar> \<le> \<bar>x\<bar> / 2 ^ 53"
begin

lemma rnd_nonneg: "0 \<le> x \<Longrightarrow> 0 \<le> rnd x"
  using rnd_mono [of 0 x] rnd_zero by simp

lemma rnd_nonpos: "x \<le> 0 \<Longrightarrow> rnd x \<le> 0"
  using rnd_mono [of x 0] rnd_zero by simp

lemma rnd_lower: "0 \<le> x \<Longrightarrow> x - x / 2 ^ 53 \<le> rnd x"
  using rnd_rel [of x] by linarith

lemma rnd_upper: "0 \<le> x \<Longrightarrow> rnd x \<le> x + x / 2 ^ 53"
  using rnd_rel [of x] by linarith

lemma rnd_pos: "0 < x \<Longrightarrow> 0 < rnd x"
proof -
  assume x: "0 < x"
  have "x / 2 ^ 53 < x" using x by (simp add: field_simps)
  with rnd_lower [of x] x show ?thesis by linarith
qed

text \<open>Dividing a representable number by a representable one of at most 1 never shrinks it.\<close>

lemma rnd_div_ge:
  assumes "rnd a = a" "0 \<le> a" "0 < d" "d \<le> 1"
  shows "a \<le> rnd (a / d)"
proof -
  have "a \<le> a / d" using assms by (simp add: pos_le_divide_eq mult_left_le)
  from rnd_mono [OF this] assms(1) show ?thesis by simp
qed

end

subsection \<open>Powers of two and binary exponents\<close>

lemma pow2_pos [simp]: "0 < pow2 k"
  by (simp add: pow2_def)

lemma pow2_nonneg [simp]: "0 \<le> pow2 k"
  by (rule less_imp_le) simp

lemma pow2_nz [simp]: "pow2 k \<noteq> 0"
  by (rule less_imp_neq [symmetric]) simp

lemma pow2_powi: "pow2 k = power_int 2 k"
  by (simp add: pow2_def power_int_def field_simps)

lemma pow2_add: "pow2 (a + b) = pow2 a * pow2 b"
  by (simp add: pow2_powi power_int_add)

lemma pow2_diff: "pow2 (a - b) = pow2 a / pow2 b"
  by (simp add: pow2_powi power_int_diff)

lemma pow2_mono: "a \<le> b \<Longrightarrow> pow2 a \<le> pow2 b"
  by (simp add: pow2_powi power_int_increasing)

lemma pow2_nat: "pow2 (int n) = 2 ^ n"
  by (simp add: pow2_def)

lemma pow2_numeral: "pow2 (numeral k) = 2 ^ numeral k"
  by (simp add: pow2_def)

lemma pow2_Suc: "pow2 (a + 1) = 2 * pow2 a"
  unfolding pow2_add by (simp add: pow2_def)

text \<open>The two ends of the binade of \<open>a\<close>, in units of the last place.\<close>

lemma pow2_ulp: "pow2 a = 2 ^ 52 * pow2 (a - 52)" "pow2 (a + 1) = 2 ^ 53 * pow2 (a - 52)"
proof -
  show *: "pow2 a = 2 ^ 52 * pow2 (a - 52)"
    using pow2_add [of 52 "a - 52"] unfolding pow2_numeral by simp
  show "pow2 (a + 1) = 2 ^ 53 * pow2 (a - 52)"
    unfolding pow2_Suc * by simp
qed

lemma bits_bounds: "0 < n \<Longrightarrow> 2 ^ (bits n - 1) \<le> n \<and> n < 2 ^ bits n \<and> 0 < bits n"
proof (induction n rule: bits.induct)
  case (1 n)
  show ?case
  proof (cases "n = 1")
    case True
    then show ?thesis by (simp add: bits.simps)
  next
    case False
    with "1.prems" have pos: "0 < n div 2" by simp
    with "1.IH" "1.prems" have IH: "2 ^ (bits (n div 2) - 1) \<le> n div 2" "n div 2 < 2 ^ bits (n div 2)"
      "0 < bits (n div 2)" by auto
    obtain m where m: "bits (n div 2) = Suc m" using IH(3) by (cases "bits (n div 2)") auto
    have "bits n = Suc (Suc m)" using "1.prems" m by (subst bits.simps) simp
    with IH m show ?thesis by simp arith
  qed
qed

lemma expo_bounds:
  assumes "0 < x"
  shows "pow2 (expo x) \<le> x" and "x < pow2 (expo x + 1)"
proof -
  obtain p q where pq: "quotient_of x = (p, q)" by fastforce
  have q: "0 < q" using quotient_of_denom_pos [OF pq] .
  have x: "x = of_int p / of_int q" using quotient_of_div [OF pq] .
  have p: "0 < p" using assms x q by (simp add: zero_less_divide_iff)
  define bp bq where "bp = bits (nat p)" and "bq = bits (nat q)"
  have bp: "2 ^ (bp - 1) \<le> nat p" "nat p < 2 ^ bp" "0 < bp"
    and bq: "2 ^ (bq - 1) \<le> nat q" "nat q < 2 ^ bq" "0 < bq"
    using bits_bounds [of "nat p"] bits_bounds [of "nat q"] p q by (auto simp: bp_def bq_def)
  have lo: "pow2 (int bp - 1) \<le> of_int p" "pow2 (int bq - 1) \<le> of_int q"
  proof -
    have "int (2 ^ (bp - 1)) \<le> p" "int (2 ^ (bq - 1)) \<le> q" using bp bq p q by linarith+
    then have "(of_int (int (2 ^ (bp - 1))) :: rat) \<le> of_int p" "(of_int (int (2 ^ (bq - 1))) :: rat) \<le> of_int q"
      by (simp_all only: of_int_le_iff)
    then show "pow2 (int bp - 1) \<le> of_int p" "pow2 (int bq - 1) \<le> of_int q"
      using bp(3) bq(3) by (simp_all add: pow2_nat [symmetric] of_nat_diff)
  qed
  have hi: "of_int p < pow2 (int bp)" "of_int q < pow2 (int bq)"
  proof -
    have "p < int (2 ^ bp)" "q < int (2 ^ bq)" using bp bq p q by linarith+
    then have "(of_int p :: rat) < of_int (int (2 ^ bp))" "(of_int q :: rat) < of_int (int (2 ^ bq))"
      by (simp_all only: of_int_less_iff)
    then show "of_int p < pow2 (int bp)" "of_int q < pow2 (int bq)"
      by (simp_all add: pow2_nat)
  qed
  define k where "k = int bp - int bq"
  have qr: "(0::rat) < of_int q" using q by simp
  have up: "x < pow2 (k + 1)"
  proof -
    have "x < pow2 (int bp) / of_int q" unfolding x using hi(1) qr by (rule divide_strict_right_mono)
    also have "\<dots> \<le> pow2 (int bp) / pow2 (int bq - 1)" using lo(2) qr by (intro divide_left_mono) (simp_all add: zero_less_mult_iff)
    also have "\<dots> = pow2 (k + 1)" by (simp add: k_def pow2_diff [symmetric] algebra_simps)
    finally show ?thesis .
  qed
  have down: "pow2 (k - 1) \<le> x"
  proof -
    have "pow2 (k - 1) = pow2 (int bp - 1) / pow2 (int bq)" by (simp add: k_def pow2_diff [symmetric] algebra_simps)
    also have "\<dots> \<le> pow2 (int bp - 1) / of_int q" using hi(2) qr by (intro divide_left_mono) simp_all
    also have "\<dots> \<le> x" unfolding x using lo(1) qr by (intro divide_right_mono) simp_all
    finally show ?thesis .
  qed
  have e: "expo x = (if pow2 k \<le> x then k else k - 1)"
    by (simp add: expo_def pq k_def bp_def bq_def)
  show "pow2 (expo x) \<le> x" using down by (simp add: e)
  show "x < pow2 (expo x + 1)" using up by (simp add: e)
qed

lemma expo_unique:
  assumes "pow2 k \<le> x" "x < pow2 (k + 1)"
  shows "expo x = k"
proof -
  have x: "0 < x" using assms(1) pow2_pos [of k] by linarith
  note b = expo_bounds [OF x]
  have "expo x < k + 1"
  proof (rule ccontr)
    assume "\<not> expo x < k + 1"
    then have "pow2 (k + 1) \<le> pow2 (expo x)" by (intro pow2_mono) simp
    with b(1) assms(2) show False by linarith
  qed
  moreover have "k < expo x + 1"
  proof (rule ccontr)
    assume "\<not> k < expo x + 1"
    then have "pow2 (expo x + 1) \<le> pow2 k" by (intro pow2_mono) simp
    with b(2) assms(1) show False by linarith
  qed
  ultimately show ?thesis by simp
qed

subsection \<open>Rounding to an integer\<close>

lemma round_half_even_mono: "x \<le> y \<Longrightarrow> round_half_even x \<le> round_half_even y"
proof -
  assume xy: "x \<le> y"
  have r: "round_half_even z = \<lfloor>z\<rfloor> \<or> round_half_even z = \<lfloor>z\<rfloor> + 1" for z
    by (simp add: round_half_even_def Let_def)
  have f: "\<lfloor>x\<rfloor> \<le> \<lfloor>y\<rfloor>" using xy by (rule floor_mono)
  show ?thesis
  proof (cases "\<lfloor>x\<rfloor> = \<lfloor>y\<rfloor>")
    case True
    with xy show ?thesis by (auto simp: round_half_even_def Let_def)
  next
    case False
    with f r [of x] r [of y] show ?thesis by auto
  qed
qed

lemma round_half_even_int [simp]: "round_half_even (of_int n) = n"
  by (simp add: round_half_even_def Let_def)

lemma round_half_even_err: "\<bar>of_int (round_half_even x) - x\<bar> \<le> 1 / 2"
proof -
  have "of_int \<lfloor>x\<rfloor> \<le> x" "x < of_int \<lfloor>x\<rfloor> + 1" by linarith+
  then show ?thesis by (auto simp: round_half_even_def Let_def abs_le_iff)
qed

lemma round_half_even_between:
  "of_int a \<le> x \<Longrightarrow> x \<le> of_int b \<Longrightarrow> a \<le> round_half_even x \<and> round_half_even x \<le> b"
  using round_half_even_mono [of "of_int a" x] round_half_even_mono [of x "of_int b"] by simp

subsection \<open>The laws hold of \<open>f64\<close>\<close>

lemma f64pos_scaled:
  assumes "0 < x"
  defines "u \<equiv> pow2 (expo x - 52)"
  shows "2 ^ 52 \<le> x / u" and "x / u < 2 ^ 53"
    and "2 ^ 52 \<le> round_half_even (x / u)" and "round_half_even (x / u) \<le> 2 ^ 53"
proof -
  have e: "pow2 (expo x) = 2 ^ 52 * u" "pow2 (expo x + 1) = 2 ^ 53 * u"
    unfolding u_def by (rule pow2_ulp)+
  have u: "0 < u" by (simp add: u_def)
  show lo: "2 ^ 52 \<le> x / u" and hi: "x / u < 2 ^ 53"
    using expo_bounds [OF assms(1)] u by (simp_all add: e pos_le_divide_eq pos_divide_less_eq)
  show "2 ^ 52 \<le> round_half_even (x / u)" and "round_half_even (x / u) \<le> 2 ^ 53"
    using round_half_even_between [of "2 ^ 52" "x / u" "2 ^ 53"] lo hi by simp_all
qed

lemma f64pos_range:
  assumes "0 < x"
  shows "pow2 (expo x) \<le> f64pos x" and "f64pos x \<le> pow2 (expo x + 1)"
proof -
  define u where "u = pow2 (expo x - 52)"
  define m where "m = round_half_even (x / u)"
  have e: "pow2 (expo x) = of_int (2 ^ 52) * u" "pow2 (expo x + 1) = of_int (2 ^ 53) * u"
    using pow2_ulp [of "expo x"] by (simp_all add: u_def)
  have u: "0 \<le> u" by (simp add: u_def)
  have f: "f64pos x = of_int m * u" by (simp add: f64pos_def u_def m_def Let_def)
  have m: "2 ^ 52 \<le> m" "m \<le> 2 ^ 53"
    using f64pos_scaled(3,4) [OF assms] by (simp_all add: m_def u_def)
  show "pow2 (expo x) \<le> f64pos x" "f64pos x \<le> pow2 (expo x + 1)"
    unfolding e f using m u by (simp_all only: mult_right_mono of_int_le_iff)
qed

lemma f64pos_pos: "0 < x \<Longrightarrow> 0 < f64pos x"
  using f64pos_range(1) [of x] pow2_pos [of "expo x"] by linarith

lemma f64pos_mono:
  assumes "0 < x" "x \<le> y"
  shows "f64pos x \<le> f64pos y"
proof -
  have y: "0 < y" using assms by simp
  have "expo x \<le> expo y"
  proof (rule ccontr)
    assume "\<not> expo x \<le> expo y"
    then have "pow2 (expo y + 1) \<le> pow2 (expo x)" by (intro pow2_mono) simp
    with expo_bounds(1) [OF assms(1)] expo_bounds(2) [OF y] assms(2) show False by linarith
  qed
  then consider "expo x = expo y" | "expo x + 1 \<le> expo y" by linarith
  then show ?thesis
  proof cases
    case 1
    define u where "u = pow2 (expo y - 52)"
    have u: "0 < u" by (simp add: u_def)
    have "x / u \<le> y / u" using assms(2) u by (simp add: divide_right_mono)
    then have "round_half_even (x / u) \<le> round_half_even (y / u)" by (rule round_half_even_mono)
    then show ?thesis using u by (simp add: f64pos_def 1 u_def [symmetric])
  next
    case 2
    have "f64pos x \<le> pow2 (expo x + 1)" by (rule f64pos_range(2) [OF assms(1)])
    also have "\<dots> \<le> pow2 (expo y)" using 2 by (rule pow2_mono)
    also have "\<dots> \<le> f64pos y" by (rule f64pos_range(1) [OF y])
    finally show ?thesis .
  qed
qed

lemma f64pos_exact:
  assumes "2 ^ 52 \<le> m" "m \<le> 2 ^ 53"
  shows "f64pos (of_int m * pow2 e) = of_int m * pow2 e"
proof (cases "m = 2 ^ 53")
  case True
  have "of_int m * pow2 e = pow2 (e + 53)" by (simp add: True pow2_add) (simp add: pow2_def)
  moreover have "expo (pow2 (e + 53)) = e + 53" by (rule expo_unique) (simp_all only: pow2_Suc order_refl, simp)
  moreover have "pow2 (e + 53) / pow2 (e + 53 - 52) = of_int (2 ^ 52)"
    using pow2_ulp(1) [of "e + 53"] by simp
  moreover have "of_int (2 ^ 52) * pow2 (e + 53 - 52) = pow2 (e + 53)"
    using pow2_ulp(1) [of "e + 53"] by simp
  ultimately show ?thesis
    by (simp only: f64pos_def Let_def round_half_even_int)
next
  case False
  have u: "0 < pow2 e" by simp
  have "expo (of_int m * pow2 e) = e + 52"
  proof (rule expo_unique)
    have "of_int (2 ^ 52) * pow2 e \<le> of_int m * pow2 e"
      using assms(1) by (simp only: mult_right_mono of_int_le_iff pow2_nonneg)
    then show "pow2 (e + 52) \<le> of_int m * pow2 e" by (simp add: pow2_add) (simp add: pow2_def)
    have "of_int m * pow2 e < of_int (2 ^ 53) * pow2 e"
    proof -
      have "m < 2 ^ 53" using assms(2) False by simp
      then have "(of_int m :: rat) < of_int (2 ^ 53)" by (simp only: of_int_less_iff)
      then show ?thesis using u by (rule mult_strict_right_mono)
    qed
    then show "of_int m * pow2 e < pow2 (e + 52 + 1)"
      by (simp add: pow2_add) (simp add: pow2_def)
  qed
  then show ?thesis by (simp add: f64pos_def)
qed

lemma f64pos_idem: "0 < x \<Longrightarrow> f64pos (f64pos x) = f64pos x"
  using f64pos_exact [OF f64pos_scaled(3,4), of x "expo x - 52"] by (simp add: f64pos_def Let_def)

lemma f64pos_rel:
  assumes "0 < x"
  shows "\<bar>f64pos x - x\<bar> \<le> x / 2 ^ 53"
proof -
  define u where "u = pow2 (expo x - 52)"
  have u: "0 < u" by (simp add: u_def)
  have "\<bar>f64pos x - x\<bar> = \<bar>(of_int (round_half_even (x / u)) - x / u) * u\<bar>"
    using u by (simp add: f64pos_def u_def [symmetric] left_diff_distrib)
  also have "\<dots> = \<bar>of_int (round_half_even (x / u)) - x / u\<bar> * u"
    using u by (simp add: abs_mult)
  also have "\<dots> \<le> 1 / 2 * u"
    using round_half_even_err u by (intro mult_right_mono) simp_all
  also have "\<dots> \<le> x / 2 ^ 53"
    using f64pos_scaled(1) [OF assms] u by (simp add: u_def [symmetric] pos_le_divide_eq)
  finally show ?thesis .
qed

interpretation f64: float_rounding f64
proof
  fix x y :: rat
  show "f64 x \<le> f64 y" if "x \<le> y"
  proof -
    consider "0 < x" | "x = 0" | "x < 0" "0 \<le> y" | "x < 0" "y < 0" by linarith
    then show ?thesis
    proof cases
      case 1 with that f64pos_mono show ?thesis by (simp add: f64_def)
    next
      case 2 with that f64pos_pos [of y] show ?thesis by (auto simp: f64_def)
    next
      case 3 then show ?thesis
        using f64pos_pos [of "- x"] f64pos_pos [of y] by (auto simp: f64_def)
    next
      case 4 with that f64pos_mono [of "- y" "- x"] show ?thesis by (simp add: f64_def)
    qed
  qed
  show "f64 (f64 x) = f64 x"
    using f64pos_idem [of x] f64pos_pos [of x] f64pos_idem [of "- x"] f64pos_pos [of "- x"]
    by (auto simp: f64_def)
  show "f64 0 = 0" by (simp add: f64_def)
  show "f64 1 = 1" using f64pos_exact [of "2 ^ 52" "- 52"] by (simp add: f64_def pow2_def)
  show "\<bar>f64 x - x\<bar> \<le> \<bar>x\<bar> / 2 ^ 53"
  proof (cases "x < 0")
    case True
    have "\<bar>f64 x - x\<bar> = \<bar>f64pos (- x) - (- x)\<bar>"
      using True by (simp add: f64_def)
    with f64pos_rel [of "- x"] True show ?thesis by simp
  next
    case False
    with f64pos_rel [of x] show ?thesis by (auto simp: f64_def)
  qed
qed

text \<open>Integers of up to 53 bits are represented exactly.\<close>

lemma f64_nat_exact: "0 \<le> n \<Longrightarrow> n \<le> 2 ^ 53 \<Longrightarrow> f64 (of_int n) = of_int n"
proof -
  assume n: "0 \<le> n" "n \<le> 2 ^ 53"
  show ?thesis
  proof (cases "n = 0")
    case False
    define e where "e = expo (of_int n)"
    have pos: "0 < (of_int n :: rat)" using n False by simp
    have b: "pow2 e \<le> of_int n" "of_int n < pow2 (e + 1)"
      using expo_bounds [OF pos] by (simp_all add: e_def)
    have e0: "0 \<le> e"
    proof (rule ccontr)
      assume "\<not> 0 \<le> e"
      then have "pow2 (e + 1) \<le> pow2 0" by (intro pow2_mono) simp
      with b(2) pos show False by (simp add: pow2_def)
    qed
    have e53: "e \<le> 53"
    proof (rule ccontr)
      assume "\<not> e \<le> 53"
      then have "pow2 54 \<le> pow2 e" by (intro pow2_mono) simp
      with b(1) have "of_int (2 ^ 54) \<le> (of_int n :: rat)" by (simp add: pow2_def)
      then have "2 ^ 54 \<le> n" by (simp only: of_int_le_iff)
      with n(2) show False by simp
    qed
    consider "e = 53" | "e \<le> 52" using e53 by linarith
    then show ?thesis
    proof cases
      case 1
      with b(1) have "of_int (2 ^ 53) \<le> (of_int n :: rat)" by (simp add: pow2_def)
      then have "n = 2 ^ 53" using n(2) by (simp only: of_int_le_iff)
      then show ?thesis using f64pos_exact [of "2 ^ 53" 0] by (simp add: f64_def pow2_def)
    next
      case 2
      define k where "k = nat (52 - e)"
      have k: "52 - e = int k" using 2 by (simp add: k_def)
      have m: "of_int (n * 2 ^ k) * pow2 (e - 52) = of_int n"
      proof -
        have "e - 52 = 0 - int k" using k by simp
        then have "pow2 (e - 52) = 1 / 2 ^ k"
          by (simp only: pow2_diff pow2_nat) (simp add: pow2_def)
        then show ?thesis by simp
      qed
      have p: "pow2 e * 2 ^ k = 2 ^ 52" "pow2 (e + 1) * 2 ^ k = 2 ^ 53"
        using pow2_add [of e "52 - e"] pow2_add [of "e + 1" "52 - e"]
        by (simp_all add: k [symmetric] pow2_nat [symmetric] pow2_numeral)
      have "of_int (2 ^ 52) \<le> (of_int (n * 2 ^ k) :: rat)"
        using b(1) p(1) by (metis (no_types) mult_right_mono of_int_mult of_int_numeral of_int_power zero_le_numeral zero_le_power)
      moreover have "(of_int (n * 2 ^ k) :: rat) \<le> of_int (2 ^ 53)"
        using b(2) p(2) by (metis (no_types) less_imp_le mult_right_mono of_int_mult of_int_numeral of_int_power zero_le_numeral zero_le_power)
      ultimately have "2 ^ 52 \<le> n * 2 ^ k" "n * 2 ^ k \<le> 2 ^ 53"
        by (simp_all only: of_int_le_iff)
      from f64pos_exact [OF this, of "e - 52"] show ?thesis
        using pos by (simp only: m) (simp add: f64_def)
    qed
  qed (simp add: f64_def)
qed

end
