(* ===== verification/Fees.thy ===== *)
theory Fees
  imports Float64
begin

section \<open>Fees and currency conversion (internal/domain/fees)\<close>

text \<open>
  The two-layer fee computation of \<open>fees.go\<close>: currency conversion with a markup, then a
  reverse-inclusive service fee and a fixed charge. Every floating-point operation of the source
  is the exact operation under \<open>f64\<close>, in the order of the source; \<open>int64(math.Ceil(..))\<close> is
  \<open>ceil64\<close>; sums of \<open>int64\<close> amounts wrap. The lemmas about rounding come from the interface
  \<open>float_rounding\<close>.
\<close>

record CurrencyRate =
  cr_FromCurrency :: string
  cr_ToCurrency :: string
  cr_Rate :: rat
  cr_MarkupPct :: rat
  cr_MarkupFixed :: rat

record Summary =
  s_Amount :: int
  s_Fees :: int
  s_Total :: int
  s_Currency :: string

record Exchange =
  ex_BaseRate :: rat
  ex_MarkupPct :: rat
  ex_Effective :: rat

record FeeDetail =
  fd_ServiceFee :: int
  fd_FixedCharge :: int
  fd_Total :: int
  fd_Exchange :: "Exchange option"

record GatewayPart =
  gp_Amount :: int
  gp_Currency :: string

record Breakdown =
  b_Summary :: Summary
  b_Fees :: FeeDetail
  b_Gateway :: "GatewayPart option"

subsection \<open>Operations\<close>

definition effective_rate :: "CurrencyRate \<Rightarrow> rat" where
  "effective_rate cr =
     f64 (f64 (cr_Rate cr + f64 (f64 (cr_Rate cr / 100) * cr_MarkupPct cr)) + cr_MarkupFixed cr)"

definition applyExchangeRate :: "rat \<Rightarrow> CurrencyRate \<Rightarrow> rat" where
  "applyExchangeRate amount cr = f64 (effective_rate cr * amount)"

definition computeServiceFee :: "rat \<Rightarrow> rat \<Rightarrow> rat" where
  "computeServiceFee amount ratio =
     (if ratio \<le> 0 \<or> 100 \<le> ratio then 0
      else f64 (f64 (amount / f64 (1 - f64 (ratio / 100))) - amount))"

fun findRate :: "CurrencyRate list \<Rightarrow> string \<Rightarrow> string \<Rightarrow> CurrencyRate option" where
  "findRate [] from to = None"
| "findRate (r # rs) from to =
     (if EqualFold (cr_FromCurrency r) (ToUpper from) \<and> EqualFold (cr_ToCurrency r) (ToUpper to)
      then Some r else findRate rs from to)"

definition convertBack :: "rat \<Rightarrow> CurrencyRate list \<Rightarrow> string \<Rightarrow> string \<Rightarrow> rat" where
  "convertBack amount rates from to =
     (case findRate rates from to of None \<Rightarrow> amount | Some r \<Rightarrow> applyExchangeRate amount r)"

definition calculateSameCurrency :: "int \<Rightarrow> string \<Rightarrow> rat \<Rightarrow> rat \<Rightarrow> Breakdown" where
  "calculateSameCurrency amount currency fixedCharge serviceFeeRatio =
     (let baseAmount = f64 (of_int amount);
          serviceFee = computeServiceFee baseAmount serviceFeeRatio;
          serviceFeeR = ceil64 serviceFee;
          fixedChargeR = ceil64 fixedCharge;
          totalFeesR = wrap64 (serviceFeeR + fixedChargeR);
          totalR = wrap64 (amount + totalFeesR)
      in \<lparr> b_Summary = \<lparr> s_Amount = amount, s_Fees = totalFeesR, s_Total = totalR, s_Currency = currency \<rparr>,
           b_Fees = \<lparr> fd_ServiceFee = serviceFeeR, fd_FixedCharge = fixedChargeR, fd_Total = totalFeesR,
                      fd_Exchange = None \<rparr>,
           b_Gateway = Some \<lparr> gp_Amount = totalR, gp_Currency = currency \<rparr> \<rparr>)"

definition calculateCrossCurrency ::
  "int \<Rightarrow> string \<Rightarrow> string \<Rightarrow> rat \<Rightarrow> rat \<Rightarrow> CurrencyRate list \<Rightarrow> CurrencyRate \<Rightarrow> Breakdown" where
  "calculateCrossCurrency amount txnCur gwCur fixedCharge serviceFeeRatio rates rate =
     (let gatewayBaseAmount = applyExchangeRate (f64 (of_int amount)) rate;
          serviceFeeGW = computeServiceFee gatewayBaseAmount serviceFeeRatio;
          totalFeesGW = f64 (serviceFeeGW + fixedCharge);
          gatewayTotal = f64 (gatewayBaseAmount + totalFeesGW);
          userServiceFee = convertBack serviceFeeGW rates gwCur txnCur;
          userFixedCharge = convertBack fixedCharge rates gwCur txnCur;
          serviceFeeR = ceil64 userServiceFee;
          fixedChargeR = ceil64 userFixedCharge;
          totalFeesR = wrap64 (serviceFeeR + fixedChargeR)
      in \<lparr> b_Summary = \<lparr> s_Amount = amount, s_Fees = totalFeesR, s_Total = wrap64 (amount + totalFeesR),
                         s_Currency = txnCur \<rparr>,
           b_Fees = \<lparr> fd_ServiceFee = serviceFeeR, fd_FixedCharge = fixedChargeR, fd_Total = totalFeesR,
                      fd_Exchange = Some \<lparr> ex_BaseRate = cr_Rate rate, ex_MarkupPct = cr_MarkupPct rate,
                                          ex_Effective = effective_rate rate \<rparr> \<rparr>,
           b_Gateway = Some \<lparr> gp_Amount = ceil64 gatewayTotal, gp_Currency = gwCur \<rparr> \<rparr>)"

definition Calculate ::
  "int \<Rightarrow> string \<Rightarrow> string \<Rightarrow> rat \<Rightarrow> rat \<Rightarrow> CurrencyRate list \<Rightarrow> go_error + Breakdown" where
  "Calculate amount transactionCurrency gatewayChargesCurrency fixedCharge serviceFeeRatio rates =
     (let txnCur = ToUpper transactionCurrency; gwCur = ToUpper gatewayChargesCurrency
      in if txnCur = gwCur then Inr (calculateSameCurrency amount txnCur fixedCharge serviceFeeRatio)
         else case findRate rates txnCur gwCur of
             None \<Rightarrow> Inl (MissingRate txnCur gwCur)
           | Some rate \<Rightarrow> Inr (calculateCrossCurrency amount txnCur gwCur fixedCharge serviceFeeRatio rates rate))"

definition Validate :: "Breakdown option \<Rightarrow> go_error + unit" where
  "Validate bo = (case bo of None \<Rightarrow> Inl (Errorf ''breakdown is nil'')
    | Some b \<Rightarrow>
       if s_Amount (b_Summary b) \<le> 0 then Inl (Errorf ''summary.amount must be positive'')
       else if (\<exists>g \<in> set_option (b_Gateway b). gp_Amount g \<le> 0) then Inl (Errorf ''gateway.amount must be positive'')
       else if s_Fees (b_Summary b) \<noteq> fd_Total (b_Fees b) then Inl (Errorf ''summary.fees must equal fees.total'')
       else if fd_Total (b_Fees b) \<noteq> wrap64 (fd_ServiceFee (b_Fees b) + fd_FixedCharge (b_Fees b))
         then Inl (Errorf ''fees.total must equal service_fee + fixed_charge'')
       else if s_Total (b_Summary b) \<noteq> wrap64 (s_Amount (b_Summary b) + s_Fees (b_Summary b))
         then Inl (Errorf ''summary.total must equal summary.amount + summary.fees'')
       else if (\<exists>g \<in> set_option (b_Gateway b). gp_Currency g = s_Currency (b_Summary b) \<and>
                  gp_Amount g \<noteq> s_Total (b_Summary b))
         then Inl (Errorf ''gateway.amount must equal summary.total in same-currency breakdown'')
       else Inr ())"

subsection \<open>The service fee\<close>

text \<open>A percentage below 100 that is a \<open>float64\<close> leaves a divisor that is still positive after rounding.\<close>

lemma ratio_below_100:
  assumes "f64 r = r" "0 < r" "r < 100"
  shows "r \<le> 100 - 1 / 2 ^ 46"
proof (cases "r < 64")
  case True
  then show ?thesis by simp
next
  case False
  have "expo r = 6"
    by (rule expo_unique) (use False assms(3) in \<open>simp_all add: pow2_def\<close>)
  with assms(1,2) have "r * 2 ^ 46 = of_int (round_half_even (r * 2 ^ 46))"
    by (simp add: f64_def f64pos_def Let_def pow2_def)
  then obtain m where m: "r = of_int m / 2 ^ 46"
    by (metis (no_types) nonzero_mult_div_cancel_right power_not_zero zero_neq_numeral)
  with assms(3) have "(of_int m :: rat) < of_int (100 * 2 ^ 46)" by simp
  then have "m \<le> 100 * 2 ^ 46 - 1" by (simp only: of_int_less_iff)
  then have "(of_int m :: rat) \<le> of_int (100 * 2 ^ 46 - 1)" by (simp only: of_int_le_iff)
  then show ?thesis by (simp add: m)
qed

definition fee_divisor :: "rat \<Rightarrow> rat" where
  "fee_divisor r = f64 (1 - f64 (r / 100))"

lemma fee_divisor_bounds:
  assumes "f64 r = r" "0 < r" "r < 100"
  shows "0 < fee_divisor r" "fee_divisor r \<le> 1"
proof -
  have "r / 100 \<le> 1 - 1 / 2 ^ 53"
    using ratio_below_100 [OF assms] by simp
  then have "f64 (r / 100) \<le> f64 (1 - 1 / 2 ^ 53)"
    by (rule f64.rnd_mono)
  also have "f64 (1 - 1 / 2 ^ 53) = 1 - 1 / 2 ^ 53"
    using f64pos_exact [of "2 ^ 53 - 1" "- 53"] by (simp add: f64_def pow2_def)
  also have "1 - 1 / 2 ^ 53 < (1 :: rat)" by simp
  finally have "0 < 1 - f64 (r / 100)" by simp
  then show "0 < fee_divisor r" unfolding fee_divisor_def by (rule f64.rnd_pos)
  have "0 \<le> f64 (r / 100)" using assms(2) by (intro f64.rnd_nonneg) simp
  then have "1 - f64 (r / 100) \<le> 1" by simp
  from f64.rnd_mono [OF this] show "fee_divisor r \<le> 1"
    by (simp add: fee_divisor_def f64.rnd_one)
qed

lemma computeServiceFee_nonneg:
  assumes "f64 a = a" "0 \<le> a" "f64 r = r"
  shows "0 \<le> computeServiceFee a r"
proof (cases "r \<le> 0 \<or> 100 \<le> r")
  case False
  have "a \<le> f64 (a / fee_divisor r)"
    using assms False fee_divisor_bounds [of r] by (intro f64.rnd_div_ge) auto
  then have "0 \<le> f64 (f64 (a / fee_divisor r) - a)"
    by (intro f64.rnd_nonneg) simp
  with False show ?thesis by (simp add: computeServiceFee_def fee_divisor_def)
qed (simp add: computeServiceFee_def)

text \<open>For percentages up to 90 the divisor is at least one eleventh, and within three units in the
  last place of the exact one.\<close>

lemma fee_divisor_close:
  assumes "0 < r" "r \<le> 90"
  shows "1 / 11 \<le> fee_divisor r" "\<bar>fee_divisor r - (1 - r / 100)\<bar> \<le> 3 / 2 ^ 53"
proof -
  let ?p = "f64 (r / 100)"
  have p: "?p \<le> r / 100 + r / 100 / 2 ^ 53" "r / 100 - r / 100 / 2 ^ 53 \<le> ?p"
    using f64.rnd_upper [of "r / 100"] f64.rnd_lower [of "r / 100"] assms(1) by simp_all
  have nn: "0 \<le> 1 - ?p" using p(1) assms by simp
  have "(1 - ?p) - (1 - ?p) / 2 ^ 53 \<le> fee_divisor r" "fee_divisor r \<le> (1 - ?p) + (1 - ?p) / 2 ^ 53"
    unfolding fee_divisor_def using f64.rnd_lower [OF nn] f64.rnd_upper [OF nn] by simp_all
  with p assms show "1 / 11 \<le> fee_divisor r" "\<bar>fee_divisor r - (1 - r / 100)\<bar> \<le> 3 / 2 ^ 53"
    unfolding abs_le_iff by (simp_all add: field_simps)
qed

lemma computeServiceFee_upper:
  assumes "0 \<le> a" "r \<le> 90"
  shows "computeServiceFee a r \<le> 12 * a"
proof (cases "r \<le> 0")
  case False
  then have d: "1 / 11 \<le> fee_divisor r" using fee_divisor_close(1) [of r] assms(2) by simp
  have dp: "0 < fee_divisor r" by (rule less_le_trans [OF _ d]) simp
  have "a * 1 \<le> a * (11 * fee_divisor r)"
    using d assms(1) by (intro mult_left_mono) simp_all
  then have "a / fee_divisor r \<le> 11 * a"
    using dp by (simp add: pos_divide_le_eq mult.commute mult.left_commute)
  then have "f64 (a / fee_divisor r) \<le> f64 (11 * a)" by (rule f64.rnd_mono)
  also have "\<dots> \<le> 11 * a + 11 * a / 2 ^ 53" using assms(1) by (intro f64.rnd_upper) simp
  finally have "f64 (a / fee_divisor r) - a \<le> 11 * a" using assms(1) by (simp add: field_simps)
  then have "f64 (f64 (a / fee_divisor r) - a) \<le> f64 (11 * a)" by (rule f64.rnd_mono)
  also have "\<dots> \<le> 11 * a + 11 * a / 2 ^ 53" using assms(1) by (intro f64.rnd_upper) simp
  also have "\<dots> \<le> 12 * a" using assms(1) by simp
  finally show ?thesis using False assms(2) by (simp add: computeServiceFee_def fee_divisor_def)
qed (use assms in \<open>simp add: computeServiceFee_def\<close>)

lemma quotient_close:
  fixes a d D e :: rat
  assumes "0 \<le> a" "1 / 11 \<le> d" "1 / 10 \<le> D" "\<bar>d - D\<bar> \<le> e"
  shows "\<bar>a / d - a / D\<bar> \<le> 110 * a * e"
proof -
  have pos: "0 < d" "0 < D" using assms(2,3) by (auto intro: less_le_trans [rotated])
  have i: "1 / d \<le> 11" "1 / D \<le> 10" using assms(2,3) pos by (simp_all add: pos_divide_le_eq)
  have "a / d - a / D = a * (D - d) * (1 / d * (1 / D))" using pos by (simp add: field_simps)
  then have "\<bar>a / d - a / D\<bar> = a * \<bar>d - D\<bar> * (1 / d * (1 / D))"
    using assms(1) pos by (simp add: abs_mult abs_minus_commute)
  also have "\<dots> \<le> (a * e) * (11 * 10)"
    using assms(1,4) i pos by (intro mult_mono mult_nonneg_nonneg) (auto intro: order.trans [of 0 "\<bar>d - D\<bar>"])
  finally show ?thesis by (simp add: ac_simps)
qed

text \<open>The rounding of the whole computation costs a few units in the last place of the amount.\<close>

lemma computeServiceFee_close:
  assumes a: "f64 a = a" "0 \<le> a" and r: "f64 r = r" "0 < r" "r \<le> 90"
  shows "\<bar>computeServiceFee a r - (a / (1 - r / 100) - a)\<bar> \<le> 353 * a / 2 ^ 53"
proof -
  define q where "q = f64 (a / fee_divisor r)"
  have d: "0 < fee_divisor r" "1 / 11 \<le> fee_divisor r" "\<bar>fee_divisor r - (1 - r / 100)\<bar> \<le> 3 / 2 ^ 53"
    using fee_divisor_bounds(1) [of r] fee_divisor_close [of r] r by simp_all
  have u: "a / fee_divisor r \<le> 11 * a"
    using d(1,2) mult_left_mono [of 1 "11 * fee_divisor r" a] a(2) by (simp add: pos_divide_le_eq ac_simps)
  have "\<bar>q - a / fee_divisor r\<bar> \<le> a / fee_divisor r / 2 ^ 53"
    unfolding q_def abs_le_iff
    using f64.rnd_lower [of "a / fee_divisor r"] f64.rnd_upper [of "a / fee_divisor r"] d(1) a(2) by simp
  also have "\<dots> \<le> 11 * a / 2 ^ 53" using u by (rule divide_right_mono) simp
  finally have q: "\<bar>q - a / fee_divisor r\<bar> \<le> 11 * (a / 2 ^ 53)" by simp
  have aq: "a \<le> q" unfolding q_def using fee_divisor_bounds [of r] r a by (intro f64.rnd_div_ge) auto
  have "11 * (a / 2 ^ 53) \<le> a" using a(2) by simp
  with q u have "q - a \<le> 12 * a" unfolding abs_le_iff by linarith
  then have "(q - a) / 2 ^ 53 \<le> 12 * a / 2 ^ 53" by (rule divide_right_mono) simp
  moreover have "\<bar>computeServiceFee a r - (q - a)\<bar> \<le> (q - a) / 2 ^ 53"
  proof -
    have "computeServiceFee a r = f64 (q - a)" using r by (simp add: computeServiceFee_def q_def fee_divisor_def)
    moreover have "0 \<le> q - a" using aq by simp
    ultimately show ?thesis unfolding abs_le_iff using f64.rnd_lower [of "q - a"] f64.rnd_upper [of "q - a"] by linarith
  qed
  moreover have "\<bar>a / fee_divisor r - a / (1 - r / 100)\<bar> \<le> 330 * (a / 2 ^ 53)"
    using quotient_close [OF a(2) d(2) _ d(3)] r(3) by simp
  ultimately show ?thesis using q unfolding abs_le_iff times_divide_eq_right [symmetric] by linarith
qed

subsection \<open>Properties\<close>

lemma ceil64_exact:
  assumes "0 \<le> x" "x \<le> of_int b" "b < 2 ^ 63"
  shows "ceil64 x = \<lceil>x\<rceil>"
proof -
  have "\<lceil>x\<rceil> \<le> b" "0 \<le> \<lceil>x\<rceil>" using assms(1,2) by (simp_all add: ceiling_le_iff le_ceiling_iff)
  then have "in64 \<lceil>x\<rceil>" unfolding in64_def using assms(3) by linarith
  then show ?thesis by (simp add: ceil64_def)
qed

lemma ceil64_between:
  assumes "0 \<le> x" "x \<le> of_int b" "b < 2 ^ 63"
  shows "x \<le> of_int (ceil64 x)" "0 \<le> ceil64 x" "ceil64 x \<le> b"
  using assms(1,2) by (simp_all add: ceil64_exact [OF assms] ceiling_le_iff le_ceiling_iff)

lemma fee_sums_in64:
  assumes "0 \<le> s" "s \<le> 12 * amount" "0 \<le> x" "x \<le> 2 ^ 53" "0 < amount" "amount \<le> 2 ^ 53"
  shows "in64 (s + x)" "in64 (amount + (s + x))"
  using assms by (simp_all add: in64_def)

lemma service_fee_int:
  assumes "0 < amount" "amount \<le> 2 ^ 53" "f64 ratio = ratio" "ratio \<le> 90"
  defines "fee \<equiv> computeServiceFee (f64 (of_int amount)) ratio"
  shows "0 \<le> ceil64 fee" "ceil64 fee \<le> 12 * amount" "fee \<le> of_int (ceil64 fee)"
proof -
  have a: "f64 (of_int amount) = of_int amount" using assms(1,2) by (simp add: f64_nat_exact)
  have "0 \<le> fee" unfolding fee_def a using assms a by (intro computeServiceFee_nonneg) simp_all
  moreover have "fee \<le> of_int (12 * amount)"
    unfolding fee_def a using computeServiceFee_upper [of "of_int amount" ratio] assms by simp
  moreover have "12 * amount < 2 ^ 63" using assms(2) by simp
  ultimately show "0 \<le> ceil64 fee" "ceil64 fee \<le> 12 * amount" "fee \<le> of_int (ceil64 fee)"
    by (intro ceil64_between(2,3,1) [where b = "12 * amount"]; simp)+
qed

text \<open>\<open>Calculate\<close> fails in exactly one case: the two currencies differ (up to case) and no rate
  from the transaction's to the gateway's currency is configured; the error then names the pair in
  upper case.\<close>

theorem Calculate_error_iff:
  "Calculate amount tc gc fixed ratio rates = Inl e \<longleftrightarrow>
     \<not> EqualFold tc gc \<and>
     \<not> (\<exists>r \<in> set rates. EqualFold (cr_FromCurrency r) tc \<and> EqualFold (cr_ToCurrency r) gc) \<and>
     e = MissingRate (ToUpper tc) (ToUpper gc)"
proof -
  have find: "findRate rates (ToUpper tc) (ToUpper gc) = None \<longleftrightarrow>
      \<not> (\<exists>r \<in> set rates. EqualFold (cr_FromCurrency r) tc \<and> EqualFold (cr_ToCurrency r) gc)"
    by (induction rates) (auto simp: EqualFold_def)
  show ?thesis
    unfolding find [symmetric]
    by (auto simp: Calculate_def Let_def EqualFold_def split: option.splits)
qed

text \<open>When gateway and payer use one currency, the breakdown that \<open>Calculate\<close> returns passes
  \<open>Validate\<close>, no sum in it wraps around, and the gateway is charged exactly amount plus fees. The
  ranges: an amount of at most 2^53 minor units, a fixed charge likewise, a percentage that is a
  \<open>float64\<close> of at most 90.\<close>

theorem same_currency_breakdown_valid:
  assumes "0 < amount" "amount \<le> 2 ^ 53" "0 \<le> fixed" "fixed \<le> 2 ^ 53"
    and "f64 ratio = ratio" "ratio \<le> 90" and "EqualFold tc gc"
  shows "\<exists>b g. Calculate amount tc gc fixed ratio rates = Inr b \<and> Validate (Some b) = Inr () \<and>
           b_Gateway b = Some g \<and>
           0 \<le> fd_ServiceFee (b_Fees b) \<and> 0 \<le> fd_FixedCharge (b_Fees b) \<and>
           s_Total (b_Summary b) = amount + fd_ServiceFee (b_Fees b) + fd_FixedCharge (b_Fees b) \<and>
           gp_Amount g = s_Total (b_Summary b)"
proof -
  note sf = service_fee_int [OF assms(1,2,5,6)]
  have fx: "0 \<le> ceil64 fixed" "ceil64 fixed \<le> 2 ^ 53"
    using ceil64_between [of fixed "2 ^ 53"] assms(3,4) by simp_all
  let ?s = "ceil64 (computeServiceFee (f64 (of_int amount)) ratio)"
  have w: "wrap64 (?s + ceil64 fixed) = ?s + ceil64 fixed"
    "wrap64 (amount + (?s + ceil64 fixed)) = amount + (?s + ceil64 fixed)"
    using fee_sums_in64 [OF sf(1,2) fx assms(1,2)] by simp_all
  show ?thesis
    using assms(1,7) sf(1) fx(1) w
    by (simp add: Calculate_def Let_def EqualFold_def calculateSameCurrency_def Validate_def)
qed

theorem same_currency_breakdown_valid_witness:
  "\<exists>b g. Calculate 10000 ''usd'' ''USD'' 30 50 [] = Inr b \<and> Validate (Some b) = Inr () \<and>
           b_Gateway b = Some g \<and>
           0 \<le> fd_ServiceFee (b_Fees b) \<and> 0 \<le> fd_FixedCharge (b_Fees b) \<and>
           s_Total (b_Summary b) = 10000 + fd_ServiceFee (b_Fees b) + fd_FixedCharge (b_Fees b) \<and>
           gp_Amount g = s_Total (b_Summary b)"
proof (rule same_currency_breakdown_valid)
  show "f64 50 = 50" using f64_nat_exact [of 50] by simp
  show "EqualFold ''usd'' ''USD''" by code_simp
qed simp_all

text \<open>C30. Reverse-inclusive pricing: the charge without its fixed part is the exact price
  amount / (1 - ratio/100), of which the gateway's percentage leaves the payment amount, rounded up to a
  whole minor unit. It is never below that price and less than one minor unit above it, up to the error of
  the four floating-point operations, 353 units in the last place of the amount (which for the amount of
  2^40 minor units is less than 0.05). The fixed part is rounded up by itself. The ranges: an amount and
  a fixed charge of at most 2^53 minor units and a percentage between 0 and 90.\<close>

theorem merchant_made_whole:
  assumes "0 < amount" "amount \<le> 2 ^ 53" "0 \<le> fixed" "fixed \<le> 2 ^ 53"
    and "f64 ratio = ratio" "0 \<le> ratio" "ratio \<le> 90" and b: "b = calculateSameCurrency amount cur fixed ratio"
  shows "fd_FixedCharge (b_Fees b) = \<lceil>fixed\<rceil> \<and>
    of_int amount / (1 - ratio / 100) - 353 * of_int amount / 2 ^ 53 \<le> of_int (s_Total (b_Summary b) - \<lceil>fixed\<rceil>) \<and>
    of_int (s_Total (b_Summary b) - \<lceil>fixed\<rceil>) < of_int amount / (1 - ratio / 100) + 353 * of_int amount / 2 ^ 53 + 1"
proof -
  note sf = service_fee_int [OF assms(1,2,5,7)]
  define fee where "fee = computeServiceFee (of_int amount) ratio"
  have a: "f64 (of_int amount) = of_int amount" using assms(1,2) by (simp add: f64_nat_exact)
  have fx: "ceil64 fixed = \<lceil>fixed\<rceil>" "0 \<le> ceil64 fixed" "ceil64 fixed \<le> 2 ^ 53"
    using ceil64_exact [of fixed "2 ^ 53"] ceil64_between [of fixed "2 ^ 53"] assms(3,4) by simp_all
  have "0 \<le> fee" "fee \<le> of_int (12 * amount)"
    unfolding fee_def using computeServiceFee_nonneg [OF a] computeServiceFee_upper [of "of_int amount" ratio] assms by simp_all
  moreover have "12 * amount < 2 ^ 63" using assms(2) by simp
  ultimately have s: "ceil64 fee = \<lceil>fee\<rceil>" by (rule ceil64_exact)
  have "in64 (\<lceil>fee\<rceil> + \<lceil>fixed\<rceil>)" "in64 (amount + (\<lceil>fee\<rceil> + \<lceil>fixed\<rceil>))"
    using sf(1,2) fx(2,3) assms(1,2) unfolding a fee_def [symmetric] s fx(1)
    by (auto intro: fee_sums_in64)
  note w = this [THEN wrap64_id]
  have tot: "s_Total (b_Summary b) - \<lceil>fixed\<rceil> = amount + \<lceil>fee\<rceil>" "fd_FixedCharge (b_Fees b) = \<lceil>fixed\<rceil>"
    by (simp_all only: b calculateSameCurrency_def Let_def a fee_def [symmetric] s fx(1) w Breakdown.simps Summary.simps FeeDetail.simps)
  have "\<bar>fee - (of_int amount / (1 - ratio / 100) - of_int amount)\<bar> \<le> 353 * of_int amount / 2 ^ 53"
  proof (cases "ratio = 0")
    case False
    then show ?thesis unfolding fee_def using a assms by (intro computeServiceFee_close) simp_all
  qed (use assms(1) in \<open>simp add: fee_def computeServiceFee_def\<close>)
  moreover have "fee \<le> of_int \<lceil>fee\<rceil>" "of_int \<lceil>fee\<rceil> < fee + 1" by linarith+
  ultimately show ?thesis unfolding tot of_int_add abs_le_iff by linarith
qed

theorem merchant_made_whole_witness:
  "fd_FixedCharge (b_Fees (calculateSameCurrency 10000 ''USD'' 30 50)) = \<lceil>30 :: rat\<rceil> \<and>
    of_int 10000 / (1 - 50 / 100) - 353 * of_int 10000 / 2 ^ 53
      \<le> (of_int (s_Total (b_Summary (calculateSameCurrency 10000 ''USD'' 30 50)) - \<lceil>30 :: rat\<rceil>) :: rat) \<and>
    of_int (s_Total (b_Summary (calculateSameCurrency 10000 ''USD'' 30 50)) - \<lceil>30 :: rat\<rceil>)
      < of_int 10000 / (1 - 50 / 100) + 353 * of_int 10000 / 2 ^ 53 + (1 :: rat)"
proof (rule merchant_made_whole)
  show "f64 50 = 50" using f64_nat_exact [of 50] by simp
qed simp_all

text \<open>Fees are shown to the payer in the payer's currency only when the reverse rate is
  configured too: without it \<open>convertBack\<close> hands the gateway-currency figures through, and the
  total adds them to the amount as if they were in the payer's currency.\<close>

theorem missing_reverse_rate_shows_gateway_fees:
  assumes "\<not> EqualFold tc gc" "findRate rates (ToUpper tc) (ToUpper gc) = Some rate"
    and "findRate rates (ToUpper gc) (ToUpper tc) = None"
  shows "\<exists>b. Calculate amount tc gc fixed 0 rates = Inr b \<and> fd_FixedCharge (b_Fees b) = ceil64 fixed \<and>
     s_Currency (b_Summary b) = ToUpper tc"
  using assms by (simp add: Calculate_def Let_def EqualFold_def calculateCrossCurrency_def convertBack_def)

theorem missing_reverse_rate_shows_gateway_fees_witness:
  "\<exists>b. Calculate 100 ''USD'' ''BDT'' 5000 0
         [\<lparr> cr_FromCurrency = ''USD'', cr_ToCurrency = ''BDT'', cr_Rate = 110, cr_MarkupPct = 0, cr_MarkupFixed = 0 \<rparr>]
        = Inr b \<and> fd_FixedCharge (b_Fees b) = ceil64 5000 \<and> s_Currency (b_Summary b) = ToUpper ''USD''"
  by (rule missing_reverse_rate_shows_gateway_fees
        [where rate = "\<lparr> cr_FromCurrency = ''USD'', cr_ToCurrency = ''BDT'', cr_Rate = 110, cr_MarkupPct = 0, cr_MarkupFixed = 0 \<rparr>"])
     code_simp+

end
