(* ===== verification/Transaction.thy ===== *)
theory Transaction
  imports Fees
begin

section \<open>The payment aggregate (internal/domain/transaction)\<close>

text \<open>
  \<open>Txn\<close> and its status machine, from \<open>transaction.go\<close> and \<open>state_machine.go\<close>. The reads of the
  clock and of the random source (\<open>time.Now\<close>, \<open>uuid.NewV7\<close>, \<open>uuid.NewString\<close>) are arguments.
  \<open>Status\<close> is a Go string; the constructor \<open>StatusOther\<close> stands for the strings that are none of
  the constants, for which the transition table has no entry. Metadata values are opaque JSON.
\<close>

datatype Status =
    StatusPending | StatusProcessing | StatusAuthorized | StatusCaptured | StatusSettled
  | StatusFailed | StatusCancelled | StatusRefundPending | StatusPartiallyRefunded
  | StatusRefunded | StatusRefundFailed | StatusDisputed | StatusOther string

fun status_str :: "Status \<Rightarrow> string" where
  "status_str StatusPending = ''PENDING''"
| "status_str StatusProcessing = ''PROCESSING''"
| "status_str StatusAuthorized = ''AUTHORIZED''"
| "status_str StatusCaptured = ''CAPTURED''"
| "status_str StatusSettled = ''SETTLED''"
| "status_str StatusFailed = ''FAILED''"
| "status_str StatusCancelled = ''CANCELLED''"
| "status_str StatusRefundPending = ''REFUND_PENDING''"
| "status_str StatusPartiallyRefunded = ''PARTIALLY_REFUNDED''"
| "status_str StatusRefunded = ''REFUNDED''"
| "status_str StatusRefundFailed = ''REFUND_FAILED''"
| "status_str StatusDisputed = ''DISPUTED''"
| "status_str (StatusOther s) = s"

record FailureReason =
  fr_Category :: string
  fr_Code :: string
  fr_GatewayCode :: string
  fr_GatewayMessage :: string
  fr_Source :: string

record CardDetails =
  cd_CardBrand :: string
  cd_Last4 :: string
  cd_Network :: string
  cd_RiskScore :: rat
  cd_AuthCode :: string

record UPIDetails =
  upi_VPA :: string
  upi_UPITransactionID :: string
  upi_PayerBank :: string

record NetbankingDetails =
  nb_BankCode :: string
  nb_BankReferenceID :: string

record WalletDetails =
  wd_WalletProvider :: string
  wd_WalletTransactionID :: string

record MethodDetails =
  md_Card :: "CardDetails option"
  md_UPI :: "UPIDetails option"
  md_Netbanking :: "NetbankingDetails option"
  md_Wallet :: "WalletDetails option"

record Txn =
  t_ID :: uuid
  t_TenantID :: uuid
  t_UserID :: uuid
  t_Amount :: int
  t_Currency :: string
  t_PaymentMethod :: string
  t_Status :: Status
  t_CaptureMode :: string
  t_Version :: int
  t_GatewayID :: string
  t_GatewayReferenceID :: string
  t_GatewayIdempotencyKey :: string
  t_AttemptedGateway :: string
  t_ActualGateway :: string
  t_OriginalGateway :: string
  t_EstimatedTimeoutSeconds :: int
  t_FailureReason :: "FailureReason option"
  t_MethodDetails :: "MethodDetails option"
  t_Metadata :: "(string \<times> string) list"
  t_Description :: string
  t_CustomerID :: uuid
  t_CustomerEmail :: string
  t_CancelIntent :: bool
  t_CancelRequestedBy :: string
  t_CancelRequestedAt :: "int option"
  t_CancelRequestedVia :: string
  t_ProcessingStartedAt :: "int option"
  t_ProcessingTimeout :: "int option"
  t_CallbackURL :: string
  t_RedirectURL :: string
  t_TokenHash :: string
  t_GatewayFeeEstimate :: "int option"
  t_GatewayFeeCurrency :: string
  t_GatewayFeeModelVersion :: int
  t_FeeBreakdown :: "Breakdown option"
  t_GatewayAmount :: "int option"
  t_GatewayCurrency :: string
  t_CreatedAt :: int
  t_UpdatedAt :: int

abbreviation PaymentMethodCard :: string where "PaymentMethodCard \<equiv> ''card''"
abbreviation PaymentMethodUPI :: string where "PaymentMethodUPI \<equiv> ''upi''"
abbreviation PaymentMethodNetbanking :: string where "PaymentMethodNetbanking \<equiv> ''netbanking''"
abbreviation PaymentMethodWallet :: string where "PaymentMethodWallet \<equiv> ''wallet''"
abbreviation ActorSystem :: string where "ActorSystem \<equiv> ''system''"
abbreviation ActorTenant :: string where "ActorTenant \<equiv> ''tenant''"
abbreviation ActorOps :: string where "ActorOps \<equiv> ''ops''"
abbreviation ActorGateway :: string where "ActorGateway \<equiv> ''gateway''"
abbreviation FailureReasonSourceGateway :: string where "FailureReasonSourceGateway \<equiv> ''gateway''"
abbreviation FailureReasonSourceInternal :: string where "FailureReasonSourceInternal \<equiv> ''internal''"
abbreviation FailureReasonSourceTimeout :: string where "FailureReasonSourceTimeout \<equiv> ''timeout''"
abbreviation CaptureModeAuto :: string where "CaptureModeAuto \<equiv> ''auto''"
abbreviation CaptureModeManual :: string where "CaptureModeManual \<equiv> ''manual''"

definition validCaptureModes :: "string list" where
  "validCaptureModes = [CaptureModeAuto, CaptureModeManual]"

definition validPaymentMethods :: "string list" where
  "validPaymentMethods = [PaymentMethodCard, PaymentMethodUPI, PaymentMethodNetbanking, PaymentMethodWallet]"

subsection \<open>Operations\<close>

fun IsTerminal :: "Status \<Rightarrow> bool" where
  "IsTerminal s = (s \<in> set [StatusCaptured, StatusSettled, StatusFailed, StatusCancelled,
     StatusRefundPending, StatusPartiallyRefunded, StatusRefunded, StatusRefundFailed, StatusDisputed])"

text \<open>The part of \<open>Txn\<close> that \<open>New\<close> leaves at Go's zero values.\<close>

definition zero_Txn :: Txn where
  "zero_Txn = \<lparr> t_ID = uuid_Nil, t_TenantID = uuid_Nil, t_UserID = uuid_Nil, t_Amount = 0, t_Currency = '''',
     t_PaymentMethod = '''', t_Status = StatusOther '''', t_CaptureMode = '''', t_Version = 0, t_GatewayID = '''',
     t_GatewayReferenceID = '''', t_GatewayIdempotencyKey = '''', t_AttemptedGateway = '''', t_ActualGateway = '''',
     t_OriginalGateway = '''', t_EstimatedTimeoutSeconds = 0, t_FailureReason = None, t_MethodDetails = None,
     t_Metadata = [], t_Description = '''', t_CustomerID = uuid_Nil, t_CustomerEmail = '''', t_CancelIntent = False,
     t_CancelRequestedBy = '''', t_CancelRequestedAt = None, t_CancelRequestedVia = '''',
     t_ProcessingStartedAt = None, t_ProcessingTimeout = None, t_CallbackURL = '''', t_RedirectURL = '''',
     t_TokenHash = '''', t_GatewayFeeEstimate = None, t_GatewayFeeCurrency = '''', t_GatewayFeeModelVersion = 0,
     t_FeeBreakdown = None, t_GatewayAmount = None, t_GatewayCurrency = '''', t_CreatedAt = 0, t_UpdatedAt = 0 \<rparr>"

definition New ::
  "uuid \<Rightarrow> uuid \<Rightarrow> int \<Rightarrow> string \<Rightarrow> string \<Rightarrow> string \<Rightarrow> uuid \<Rightarrow> string \<Rightarrow> string \<Rightarrow> (string \<times> string) list \<Rightarrow>
   int \<Rightarrow> string \<Rightarrow> int \<Rightarrow> uuid \<Rightarrow> string \<Rightarrow> go_error + Txn" where
  "New tenantID userID amount currency method gatewayID customerID customerEmail description metadata
     estimatedTimeoutSec captureMode now newID newKey =
    (if amount \<le> 0 then Inl (Errorf ''amount must be positive'')
     else if length currency \<noteq> 3 \<or> currency \<noteq> ToUpper currency
       then Inl (Errorf ''currency must be ISO 4217 uppercase 3-letter code'')
     else if method \<notin> set validPaymentMethods then Inl (Errorf ''invalid payment method'')
     else if tenantID = uuid_Nil then Inl (Errorf ''tenantID must not be nil'')
     else if gatewayID = '''' then Inl (Errorf ''gatewayID must not be empty'')
     else if estimatedTimeoutSec \<le> 0 then Inl (Errorf ''estimatedTimeoutSec must be positive'')
     else let captureMode = (if captureMode = '''' then CaptureModeAuto else captureMode)
     in if captureMode \<notin> set validCaptureModes then Inl (Errorf ''invalid capture mode'')
     else Inr (zero_Txn \<lparr> t_ID := newID, t_TenantID := tenantID, t_UserID := userID, t_Amount := amount,
       t_Currency := currency, t_PaymentMethod := method, t_Status := StatusPending, t_CaptureMode := captureMode,
       t_Version := 1, t_GatewayID := gatewayID, t_GatewayIdempotencyKey := newKey,
       t_EstimatedTimeoutSeconds := estimatedTimeoutSec, t_CustomerID := customerID,
       t_CustomerEmail := customerEmail, t_Description := description, t_Metadata := metadata,
       t_CreatedAt := now, t_UpdatedAt := now \<rparr>))"

definition SetCancelIntent :: "Txn \<Rightarrow> string \<Rightarrow> string \<Rightarrow> int \<Rightarrow> Txn" where
  "SetCancelIntent t actor via now = t \<lparr> t_CancelIntent := True, t_CancelRequestedBy := actor,
     t_CancelRequestedAt := Some now, t_CancelRequestedVia := via, t_UpdatedAt := now \<rparr>"

definition IsLeaseExpired :: "Txn \<Rightarrow> int \<Rightarrow> bool" where
  "IsLeaseExpired t now =
     (if t_Status t \<noteq> StatusProcessing then False
      else case (t_ProcessingStartedAt t, t_ProcessingTimeout t) of
          (Some s, Some d) \<Rightarrow> s + d < now
        | _ \<Rightarrow> False)"

definition HasGatewayDiscrepancy :: "Txn \<Rightarrow> bool" where
  "HasGatewayDiscrepancy t \<longleftrightarrow> t_ActualGateway t \<noteq> '''' \<and> t_AttemptedGateway t \<noteq> t_ActualGateway t"

definition Validate_Txn :: "Txn \<Rightarrow> go_error + unit" where
  "Validate_Txn t =
    (if t_ID t = uuid_Nil then Inl (Errorf ''transaction ID must not be nil'')
     else if t_TenantID t = uuid_Nil then Inl (Errorf ''tenantID must not be nil'')
     else if t_UserID t = uuid_Nil then Inl (Errorf ''userID must not be nil'')
     else if t_Amount t \<le> 0 then Inl (Errorf ''amount must be positive'')
     else if length (t_Currency t) \<noteq> 3 \<or> t_Currency t \<noteq> ToUpper (t_Currency t)
       then Inl (Errorf ''currency must be ISO 4217 uppercase 3-letter code'')
     else if t_PaymentMethod t \<notin> set validPaymentMethods then Inl (Errorf ''invalid payment method'')
     else if t_GatewayID t = '''' then Inl (Errorf ''gatewayID must not be empty'')
     else if t_EstimatedTimeoutSeconds t \<le> 0 then Inl (Errorf ''estimatedTimeoutSeconds must be positive'')
     else Inr ())"

text \<open>\<open>state_machine.go\<close>\<close>

fun transitionTable :: "Status \<Rightarrow> Status list" where
  "transitionTable StatusPending =
     [StatusProcessing, StatusAuthorized, StatusCaptured, StatusFailed, StatusCancelled]"
| "transitionTable StatusProcessing = [StatusCaptured, StatusAuthorized, StatusFailed, StatusCancelled]"
| "transitionTable StatusAuthorized = [StatusProcessing, StatusCaptured, StatusFailed, StatusCancelled]"
| "transitionTable StatusCaptured =
     [StatusSettled, StatusRefundPending, StatusRefunded, StatusRefundFailed, StatusDisputed]"
| "transitionTable StatusSettled = [StatusRefundPending, StatusRefunded, StatusRefundFailed, StatusDisputed]"
| "transitionTable StatusFailed = [StatusCancelled]"
| "transitionTable StatusRefundPending = [StatusRefunded, StatusRefundFailed, StatusPartiallyRefunded]"
| "transitionTable StatusPartiallyRefunded = [StatusRefundPending, StatusRefunded, StatusRefundFailed]"
| "transitionTable StatusRefunded = []"
| "transitionTable StatusRefundFailed = [StatusRefundPending]"
| "transitionTable StatusDisputed = [StatusCaptured, StatusRefunded]"
| "transitionTable StatusCancelled = []"
| "transitionTable (StatusOther s) = []"

definition isValidTransition :: "Status \<Rightarrow> Status \<Rightarrow> bool" where
  "isValidTransition from to \<longleftrightarrow> to \<in> set (transitionTable from)"

definition applyTransitionEffects :: "Txn \<Rightarrow> Status \<Rightarrow> Status \<Rightarrow> Txn" where
  "applyTransitionEffects tx from to =
     (if to = StatusFailed \<or> to = StatusCancelled \<or> to = StatusCaptured \<or> to = StatusSettled \<or> to = StatusAuthorized
      then if from = StatusProcessing
           then tx \<lparr> t_ProcessingStartedAt := None, t_ProcessingTimeout := None \<rparr> else tx
      else tx)"

definition TransitionState :: "Txn \<Rightarrow> Status \<Rightarrow> string \<Rightarrow> int \<Rightarrow> go_error + Txn" where
  "TransitionState tx toState actor now =
    (if \<not> isValidTransition (t_Status tx) toState
       then Inl (TxnInvalidTransition (status_str (t_Status tx)) (status_str toState) actor)
     else if t_Status tx = StatusFailed \<and> toState = StatusCancelled \<and> \<not> t_CancelIntent tx
       then Inl (Errorf ''transaction: cancel intent required for FAILED -> CANCELLED'')
     else Inr (applyTransitionEffects (tx \<lparr> t_Status := toState, t_UpdatedAt := now \<rparr>) (t_Status tx) toState))"

definition ValidTransitionsFrom :: "Status \<Rightarrow> Status list" where
  "ValidTransitionsFrom s = transitionTable s"

definition AllStatuses :: "Status list" where
  "AllStatuses = [StatusPending, StatusProcessing, StatusAuthorized, StatusCaptured, StatusSettled, StatusFailed,
     StatusCancelled, StatusRefundPending, StatusPartiallyRefunded, StatusRefunded, StatusRefundFailed, StatusDisputed]"

subsection \<open>Lemmas\<close>

text \<open>The transition rejects or rewrites three groups of fields, nothing else.\<close>

lemma TransitionState_Inr:
  assumes "TransitionState tx s actor now = Inr tx'"
  shows "isValidTransition (t_Status tx) s" "t_Status tx' = s" "t_UpdatedAt tx' = now" "t_ID tx' = t_ID tx"
    "t_Version tx' = t_Version tx" "t_Amount tx' = t_Amount tx" "t_TenantID tx' = t_TenantID tx"
    "t_CancelIntent tx' = t_CancelIntent tx" "t_GatewayAmount tx' = t_GatewayAmount tx"
    "t_GatewayID tx' = t_GatewayID tx"
  using assms by (auto simp: TransitionState_def applyTransitionEffects_def split: if_splits)

text \<open>The lease fields are present only while a gateway call is outstanding.\<close>

definition lease_ok :: "Txn \<Rightarrow> bool" where
  "lease_ok t \<longleftrightarrow> t_Status t \<noteq> StatusProcessing \<longrightarrow> t_ProcessingStartedAt t = None \<and> t_ProcessingTimeout t = None"

lemma TransitionState_lease_ok:
  "TransitionState tx s actor now = Inr tx' \<Longrightarrow> lease_ok tx \<Longrightarrow> lease_ok tx'"
  by (auto simp: TransitionState_def applyTransitionEffects_def isValidTransition_def lease_ok_def split: if_splits)

text \<open>One move of the machine, with the actor and the instant at which it is made.\<close>

definition txn_move :: "Txn \<Rightarrow> Status \<times> string \<times> int \<Rightarrow> go_error + Txn" where
  "txn_move tx m = TransitionState tx (fst m) (fst (snd m)) (snd (snd m))"

interpretation txn: transition_table transitionTable t_Status fst txn_move
  by unfold_locales
     (auto simp: txn_move_def isValidTransition_def dest: TransitionState_Inr)

subsection \<open>Properties\<close>

definition money_taken :: "Status set" where
  "money_taken = {StatusCaptured, StatusSettled, StatusRefundPending, StatusPartiallyRefunded, StatusRefunded,
     StatusRefundFailed, StatusDisputed}"

text \<open>C31. Money that was captured stays accounted for: along every sequence of accepted moves, by
  any actors at any times, a payment that has been captured only reaches captured, settled,
  disputed or refund statuses; it never goes back to an uncaptured one, to FAILED or to CANCELLED.\<close>

theorem captured_never_lost:
  assumes "t_Status tx \<in> money_taken" "run_moves txn_move tx ms = Inr tx'"
  shows "t_Status tx' \<in> money_taken"
  by (rule txn.run_closed [OF _ assms]) (auto simp: money_taken_def)

theorem captured_never_lost_witness:
  "t_Status (zero_Txn \<lparr> t_Status := StatusCaptured \<rparr>) \<in> money_taken \<and>
   (\<exists>tx'. run_moves txn_move (zero_Txn \<lparr> t_Status := StatusCaptured \<rparr>)
            [(StatusRefundPending, ''system'', 5), (StatusRefunded, ''gateway'', 9)] = Inr tx' \<and>
          t_Status tx' \<in> money_taken)"
proof -
  let ?t = "zero_Txn \<lparr> t_Status := StatusCaptured \<rparr>"
  have c: "t_Status ?t \<in> money_taken" by (simp add: money_taken_def)
  have r: "run_moves txn_move ?t [(StatusRefundPending, ''system'', 5), (StatusRefunded, ''gateway'', 9)]
      = Inr (zero_Txn \<lparr> t_Status := StatusRefunded, t_UpdatedAt := 9 \<rparr>)"
    by (simp add: txn_move_def TransitionState_def isValidTransition_def applyTransitionEffects_def)
  show ?thesis
    by (intro conjI c exI) (rule r, rule captured_never_lost [OF c r])
qed

text \<open>C32. A payment keeps its identity, amount, tenant and version under every accepted sequence of
  moves, and if it starts without stale lease fields outside PROCESSING, it stays so: leaving
  PROCESSING always clears the lease.\<close>

theorem moves_keep_identity_and_lease:
  assumes "run_moves txn_move tx ms = Inr tx'" "lease_ok tx"
  shows "lease_ok tx' \<and> t_ID tx' = t_ID tx \<and> t_Amount tx' = t_Amount tx \<and> t_TenantID tx' = t_TenantID tx \<and>
    t_Version tx' = t_Version tx"
  using assms
proof (induction ms arbitrary: tx)
  case (Cons m ms)
  then obtain tx1 where tx1: "txn_move tx m = Inr tx1" "run_moves txn_move tx1 ms = Inr tx'"
    by (auto split: sum.splits)
  note step = tx1(1) [unfolded txn_move_def]
  show ?case
    using Cons.IH [OF tx1(2) TransitionState_lease_ok [OF step Cons.prems(2)]] TransitionState_Inr [OF step]
    by simp
qed simp

theorem moves_keep_identity_and_lease_witness:
  "\<exists>tx'. run_moves txn_move (zero_Txn \<lparr> t_Status := StatusProcessing, t_ProcessingStartedAt := Some 1,
            t_ProcessingTimeout := Some 30 \<rparr>) [(StatusFailed, ''gateway'', 7)] = Inr tx' \<and>
         t_ProcessingTimeout tx' = None"
proof -
  let ?t = "zero_Txn \<lparr> t_Status := StatusProcessing, t_ProcessingStartedAt := Some 1, t_ProcessingTimeout := Some 30 \<rparr>"
  have r: "run_moves txn_move ?t [(StatusFailed, ''gateway'', 7)] =
      Inr (?t \<lparr> t_Status := StatusFailed, t_UpdatedAt := 7, t_ProcessingStartedAt := None, t_ProcessingTimeout := None \<rparr>)"
    by (simp add: txn_move_def TransitionState_def isValidTransition_def applyTransitionEffects_def)
  have "lease_ok ?t" by (simp add: lease_ok_def)
  from moves_keep_identity_and_lease [OF r this]
  show ?thesis by (intro exI conjI) (rule r, simp add: lease_ok_def)
qed

text \<open>\<open>New\<close> accepts exactly the requests that satisfy the documented conditions, and builds a PENDING
  payment of version 1, with the identifier it drew and no lease or cancel intent, that passes \<open>Validate\<close> when
  the identifier is fresh and there is a user (which \<open>New\<close> does not check).\<close>

lemma New_accepts:
  "(\<exists>t. New tenantID userID amount currency method gatewayID cid cem descr meta timeout cm now newID newKey = Inr t)
     \<longleftrightarrow> 0 < amount \<and> length currency = 3 \<and> ToUpper currency = currency \<and> method \<in> set validPaymentMethods \<and>
         tenantID \<noteq> uuid_Nil \<and> gatewayID \<noteq> '''' \<and> 0 < timeout \<and> cm \<in> set ('''' # validCaptureModes)"
  unfolding New_def Let_def by (simp add: validCaptureModes_def not_le eq_commute [of currency]) blast

lemma New_valid:
  assumes "New tenantID userID amount currency method gatewayID cid cem descr meta timeout cm now newID newKey = Inr t"
  shows "t_Status t = StatusPending" "t_Version t = 1" "t_ID t = newID" "lease_ok t" "\<not> t_CancelIntent t"
    "newID \<noteq> uuid_Nil \<Longrightarrow> userID \<noteq> uuid_Nil \<Longrightarrow> Validate_Txn t = Inr ()"
  using assms unfolding New_def Let_def
  by (auto simp: Validate_Txn_def zero_Txn_def lease_ok_def validCaptureModes_def simp flip: not_le split: if_splits)

text \<open>\<open>IsTerminal\<close> is exactly "can no longer be cancelled by a fresh cancel request": of the known
  statuses, the non-terminal ones are those from which the machine allows CANCELLED without a
  cancel intent.\<close>

theorem IsTerminal_iff_not_cancellable:
  "\<not> IsTerminal s \<and> s \<in> set AllStatuses \<longleftrightarrow>
     (\<exists>t'. TransitionState (tx \<lparr> t_Status := s, t_CancelIntent := False \<rparr>) StatusCancelled actor now = Inr t')"
  by (cases s) (simp_all add: AllStatuses_def TransitionState_def isValidTransition_def)

end
