(* ===== verification/Refund_Domain.thy ===== *)
theory Refund_Domain
  imports Transaction
begin

section \<open>The refund aggregate (internal/domain/refund)\<close>

text \<open>
  \<open>Refund\<close>, its status machine and the constructor with the over-refund guard, from
  \<open>refund.go\<close>. The package declares a \<open>FailureReason\<close> of the same shape as the payment's; the
  model uses one record for both. Constructors and functions whose names the payment package has
  too carry the prefix \<open>refund_\<close>.
\<close>

datatype RefundStatus =
    StatusInitiated | RStatusProcessing | RStatusRefunded | RStatusFailed | RStatusOther string

fun refund_status_str :: "RefundStatus \<Rightarrow> string" where
  "refund_status_str StatusInitiated = ''REFUND_INITIATED''"
| "refund_status_str RStatusProcessing = ''REFUND_PROCESSING''"
| "refund_status_str RStatusRefunded = ''REFUNDED''"
| "refund_status_str RStatusFailed = ''REFUND_FAILED''"
| "refund_status_str (RStatusOther s) = s"

record Refund =
  rf_ID :: uuid
  rf_TransactionID :: uuid
  rf_Amount :: int
  rf_Reason :: string
  rf_Status :: RefundStatus
  rf_InitiatedBy :: string
  rf_GatewayRefundID :: string
  rf_AttemptedGateway :: string
  rf_ActualGateway :: string
  rf_Attempts :: int
  rf_FailureReason :: "FailureReason option"
  rf_InitiatedAt :: int
  rf_ResolvedAt :: "int option"
  rf_Version :: int

definition refund_IsTerminal :: "RefundStatus \<Rightarrow> bool" where
  "refund_IsTerminal s \<longleftrightarrow> s = RStatusRefunded \<or> s = RStatusFailed"

fun refund_transitionTable :: "RefundStatus \<Rightarrow> RefundStatus list" where
  "refund_transitionTable StatusInitiated = [RStatusProcessing, RStatusFailed]"
| "refund_transitionTable RStatusProcessing = [RStatusRefunded, RStatusFailed]"
| "refund_transitionTable RStatusFailed = [RStatusProcessing]"
| "refund_transitionTable RStatusRefunded = []"
| "refund_transitionTable (RStatusOther s) = []"

definition refund_New ::
  "uuid \<Rightarrow> int \<Rightarrow> int \<Rightarrow> int \<Rightarrow> string \<Rightarrow> string \<Rightarrow> uuid \<Rightarrow> int \<Rightarrow> go_error + Refund" where
  "refund_New transactionID amount originalAmount alreadyRefunded reason initiatedBy newID now =
    (if transactionID = uuid_Nil then Inl (Errorf ''refund: transactionID must not be nil'')
     else if amount \<le> 0 then Inl (Errorf ''refund: amount must be > 0'')
     else if reason = '''' then Inl (Errorf ''refund: reason must not be empty'')
     else if initiatedBy = '''' then Inl (Errorf ''refund: initiatedBy must not be empty'')
     else if originalAmount \<le> 0 then Inl (Errorf ''refund: originalAmount must be > 0'')
     else if alreadyRefunded < 0 then Inl (Errorf ''refund: alreadyRefunded must be >= 0'')
     else if alreadyRefunded > originalAmount then Inl (Errorf ''refund: alreadyRefunded exceeds originalAmount'')
     else if wrap64 (alreadyRefunded + amount) > originalAmount
       then Inl (OverRefund originalAmount alreadyRefunded amount)
     else Inr \<lparr> rf_ID = newID, rf_TransactionID = transactionID, rf_Amount = amount, rf_Reason = reason,
       rf_Status = StatusInitiated, rf_InitiatedBy = initiatedBy, rf_GatewayRefundID = '''',
       rf_AttemptedGateway = '''', rf_ActualGateway = '''', rf_Attempts = 0, rf_FailureReason = None,
       rf_InitiatedAt = now, rf_ResolvedAt = None, rf_Version = 1 \<rparr>)"

definition refund_Transition :: "Refund \<Rightarrow> RefundStatus \<Rightarrow> int \<Rightarrow> go_error + Refund" where
  "refund_Transition r toState now =
    (if toState \<in> set (refund_transitionTable (rf_Status r))
     then Inr (r \<lparr> rf_Status := toState, rf_ResolvedAt := (if refund_IsTerminal toState then Some now else None) \<rparr>)
     else Inl (RefundInvalidTransition (refund_status_str (rf_Status r)) (refund_status_str toState)))"

definition refund_IsRetryable :: "Refund \<Rightarrow> bool" where
  "refund_IsRetryable r \<longleftrightarrow> rf_Status r = RStatusFailed"

subsection \<open>Lemmas\<close>

text \<open>A refund is resolved exactly when its status is final.\<close>

definition refund_wf :: "Refund \<Rightarrow> bool" where
  "refund_wf r \<longleftrightarrow> 0 < rf_Amount r \<and> rf_TransactionID r \<noteq> uuid_Nil \<and>
     (rf_ResolvedAt r \<noteq> None \<longleftrightarrow> refund_IsTerminal (rf_Status r))"

lemma refund_Transition_Inr:
  assumes "refund_Transition r s now = Inr r'"
  shows "s \<in> set (refund_transitionTable (rf_Status r))" "rf_Status r' = s" "rf_ID r' = rf_ID r"
    "rf_Amount r' = rf_Amount r" "rf_Version r' = rf_Version r" "rf_TransactionID r' = rf_TransactionID r"
    "refund_wf r \<Longrightarrow> refund_wf r'"
  using assms by (auto simp: refund_Transition_def refund_wf_def refund_IsTerminal_def split: if_splits)

definition refund_move :: "Refund \<Rightarrow> RefundStatus \<times> int \<Rightarrow> go_error + Refund" where
  "refund_move r m = refund_Transition r (fst m) (snd m)"

interpretation rfd: transition_table refund_transitionTable rf_Status fst refund_move
  by unfold_locales (auto simp: refund_move_def dest: refund_Transition_Inr)

subsection \<open>Properties\<close>

text \<open>The over-refund guard: for arguments of type \<open>int64\<close> whose sum is one too, \<open>New\<close> builds a
  refund exactly when the request is well-formed and what was already refunded plus the request
  stays within the original amount; the refund is then well-formed, INITIATED, of version 1.\<close>

theorem refund_New_guard:
  assumes "in64 (already + amount)"
  shows "(\<exists>r. refund_New txnID amount original already reason actor newID now = Inr r)
      \<longleftrightarrow> txnID \<noteq> uuid_Nil \<and> 0 < amount \<and> reason \<noteq> '''' \<and> actor \<noteq> '''' \<and> 0 \<le> already \<and> already + amount \<le> original"
    and "refund_New txnID amount original already reason actor newID now = Inr r \<Longrightarrow> refund_wf r \<and>
      rf_Status r = StatusInitiated \<and> rf_Version r = 1 \<and> rf_Amount r = amount \<and> rf_TransactionID r = txnID \<and> rf_ID r = newID"
  using assms by (auto simp: refund_New_def refund_wf_def refund_IsTerminal_def split: if_splits)

theorem refund_New_guard_witness:
  "\<exists>r. refund_New 1 40 100 60 ''r'' ''ops'' 2 0 = Inr r"
  using refund_New_guard(1) [of 60 40 1 100 "''r''" "''ops''" 2 0] by (simp add: in64_def)

text \<open>Without that range the guard fails: after any earlier refund, a request for the largest
  \<open>int64\<close> makes the sum wrap to a negative number, and \<open>New\<close> accepts it whatever the original
  amount.\<close>

theorem refund_New_overflow:
  assumes "txnID \<noteq> uuid_Nil" "reason \<noteq> ''''" "actor \<noteq> ''''" "0 < already" "already \<le> original" "original < 2 ^ 63"
  shows "\<exists>r. refund_New txnID (2 ^ 63 - 1) original already reason actor newID now = Inr r \<and>
             original < rf_Amount r + already"
proof -
  have "(already + (2 ^ 63 - 1) + 2 ^ 63) mod 2 ^ 64 = (already - 1 :: int)"
  proof -
    have "already + (2 ^ 63 - 1) + 2 ^ 63 = (already - 1) + 2 ^ 64" by simp
    then have "(already + (2 ^ 63 - 1) + 2 ^ 63) mod 2 ^ 64 = (already - 1) mod (2 ^ 64 :: int)"
      by (simp only: mod_add_self2)
    also have "\<dots> = already - 1" using assms by (intro mod_pos_pos_trivial) simp_all
    finally show ?thesis .
  qed
  then have "wrap64 (already + (2 ^ 63 - 1)) = already - 1 - 2 ^ 63"
    by (simp only: wrap64_def)
  with assms show ?thesis by (simp add: refund_New_def)
qed

theorem refund_New_overflow_witness:
  "\<exists>r. refund_New 1 (2 ^ 63 - 1) 100 1 ''r'' ''ops'' 2 0 = Inr r \<and> (100 :: int) < rf_Amount r + 1"
  by (rule refund_New_overflow) simp_all

text \<open>A completed refund is final: no sequence of moves changes a REFUNDED refund, and along
  every sequence of accepted moves a well-formed refund keeps its amount and stays resolved
  exactly in the final statuses.\<close>

theorem refund_moves_sound:
  assumes "run_moves refund_move r ms = Inr r'" "refund_wf r"
  shows "refund_wf r' \<and> rf_Amount r' = rf_Amount r \<and> (rf_Status r = RStatusRefunded \<longrightarrow> r' = r)"
proof -
  have "refund_wf r' \<and> rf_Amount r' = rf_Amount r"
    using assms
  proof (induction ms arbitrary: r)
    case (Cons m ms)
    then obtain r1 where r1: "refund_move r m = Inr r1" "run_moves refund_move r1 ms = Inr r'"
      by (auto split: sum.splits)
    note step = r1(1) [unfolded refund_move_def]
    show ?case
      using Cons.IH [OF r1(2)] refund_Transition_Inr [OF step] Cons.prems(2) by simp
  qed simp
  moreover have "rf_Status r = RStatusRefunded \<longrightarrow> r' = r"
    using rfd.run_stuck [OF _ assms(1)] by simp
  ultimately show ?thesis by simp
qed

definition sample_refund :: Refund where
  "sample_refund = \<lparr> rf_ID = 2, rf_TransactionID = 1, rf_Amount = 40, rf_Reason = ''r'', rf_Status = StatusInitiated,
     rf_InitiatedBy = ''ops'', rf_GatewayRefundID = '''', rf_AttemptedGateway = '''', rf_ActualGateway = '''',
     rf_Attempts = 0, rf_FailureReason = None, rf_InitiatedAt = 0, rf_ResolvedAt = None, rf_Version = 1 \<rparr>"

theorem refund_moves_sound_witness:
  "\<exists>r'. run_moves refund_move sample_refund
          [(RStatusProcessing, 1), (RStatusFailed, 2), (RStatusProcessing, 3), (RStatusRefunded, 4)] = Inr r' \<and>
        refund_wf r' \<and> rf_Amount r' = rf_Amount sample_refund"
proof -
  have r: "run_moves refund_move sample_refund
      [(RStatusProcessing, 1), (RStatusFailed, 2), (RStatusProcessing, 3), (RStatusRefunded, 4)] =
      Inr (sample_refund \<lparr> rf_Status := RStatusRefunded, rf_ResolvedAt := Some 4 \<rparr>)"
    by (simp add: refund_move_def refund_Transition_def sample_refund_def refund_IsTerminal_def)
  have "refund_wf sample_refund" by (simp add: refund_wf_def sample_refund_def refund_IsTerminal_def)
  from refund_moves_sound [OF r this] r show ?thesis by blast
qed

end
