(* ===== verification/Dispute_Domain.thy ===== *)
theory Dispute_Domain
  imports Float64
begin

section \<open>Disputes (internal/domain/dispute)\<close>

text \<open>
  The dispute record and its own table of moves, from \<open>dispute.go\<close> and \<open>evidence.go\<close>. \<open>Status\<close> is a
  Go string; \<open>DStatusOther\<close> stands for the strings that are none of the constants. A gateway event
  carries the status as text, which the code converts without looking at it.
\<close>

datatype DisputeStatus =
    DStatusNeedsResponse | DStatusUnderReview | DStatusWon | DStatusLost | DStatusAccepted | DStatusExpired
  | DStatusOther string

fun dispute_status_str :: "DisputeStatus \<Rightarrow> string" where
  "dispute_status_str DStatusNeedsResponse = ''NEEDS_RESPONSE''"
| "dispute_status_str DStatusUnderReview = ''UNDER_REVIEW''"
| "dispute_status_str DStatusWon = ''WON''"
| "dispute_status_str DStatusLost = ''LOST''"
| "dispute_status_str DStatusAccepted = ''ACCEPTED''"
| "dispute_status_str DStatusExpired = ''EXPIRED''"
| "dispute_status_str (DStatusOther s) = s"

text \<open>The conversion \<open>dispute.Status(s)\<close>.\<close>

definition dispute_status :: "string \<Rightarrow> DisputeStatus" where
  "dispute_status s =
     (case find (\<lambda>d. dispute_status_str d = s)
        [DStatusNeedsResponse, DStatusUnderReview, DStatusWon, DStatusLost, DStatusAccepted, DStatusExpired] of
        Some d \<Rightarrow> d | None \<Rightarrow> DStatusOther s)"

record Dispute =
  dp_ID :: uuid
  dp_TransactionID :: uuid
  dp_GatewayID :: string
  dp_GatewayDisputeID :: string
  dp_Reason :: string
  dp_Status :: DisputeStatus
  dp_Amount :: int
  dp_Currency :: string
  dp_EvidenceDueBy :: "int option"
  dp_EvidenceSubmittedAt :: "int option"
  dp_CreatedAt :: int
  dp_ResolvedAt :: "int option"

record Evidence =
  evd_ID :: uuid
  evd_DisputeID :: uuid
  evd_Type :: string
  evd_FileURL :: string
  evd_Notes :: string
  evd_SubmittedAt :: int

definition EvidenceTypes :: "string list" where
  "EvidenceTypes = [''RECEIPT'', ''INVOICE'', ''CUSTOMER_COMMS'', ''TERMS_OF_SERVICE'', ''REFUND_POLICY'',
     ''CANCELLATION_POLICY'', ''OTHER'']"

fun dispute_validTransitions :: "DisputeStatus \<Rightarrow> DisputeStatus list" where
  "dispute_validTransitions DStatusNeedsResponse = [DStatusUnderReview, DStatusAccepted, DStatusExpired]"
| "dispute_validTransitions DStatusUnderReview = [DStatusWon, DStatusLost, DStatusAccepted]"
| "dispute_validTransitions _ = []"

abbreviation ErrDisputeInvalidTransition :: go_error where
  "ErrDisputeInvalidTransition \<equiv> DisputeError ''INVALID_TRANSITION'' ''invalid status transition''"
abbreviation ErrDisputeNotFound :: go_error where
  "ErrDisputeNotFound \<equiv> DisputeError ''NOT_FOUND'' ''dispute not found''"

definition dispute_resolved :: "DisputeStatus \<Rightarrow> bool" where
  "dispute_resolved s \<longleftrightarrow> s \<in> set [DStatusWon, DStatusLost, DStatusAccepted, DStatusExpired]"

text \<open>\<open>time.Until\<close> saturates at the ends of \<open>int64\<close>.\<close>

definition time_Until :: "int \<Rightarrow> int \<Rightarrow> int" where
  "time_Until now t = max (- (2 ^ 63)) (min (2 ^ 63 - 1) (t - now))"

definition IsUrgent :: "Dispute \<Rightarrow> int \<Rightarrow> int \<Rightarrow> bool" where
  "IsUrgent d warningDays now = (case dp_EvidenceDueBy d of
      None \<Rightarrow> False
    | Some due \<Rightarrow>
        if dp_Status d \<noteq> DStatusNeedsResponse \<and> dp_Status d \<noteq> DStatusUnderReview then False
        else time_Until now due \<le> wrap64 (wrap64 (warningDays * 24) * (3600 * Second)))"

text \<open>\<open>Duration.Hours\<close> and the conversion \<open>int(x)\<close>, which drops the fraction.\<close>

definition duration_Hours :: "int \<Rightarrow> rat" where
  "duration_Hours d = f64 (f64 (of_int (quot64 d (3600 * Second))) + f64 (f64 (of_int (rem64 d (3600 * Second))) / of_int (3600 * Second)))"

definition trunc64 :: "rat \<Rightarrow> int" where
  "trunc64 x = (let n = (if 0 \<le> x then \<lfloor>x\<rfloor> else \<lceil>x\<rceil>) in if in64 n then n else - (2 ^ 63))"

definition DaysUntilDue :: "Dispute \<Rightarrow> int \<Rightarrow> int option" where
  "DaysUntilDue d now = (case dp_EvidenceDueBy d of
      None \<Rightarrow> None
    | Some due \<Rightarrow> Some (trunc64 (f64 (duration_Hours (time_Until now due) / 24))))"

definition CanSubmitEvidence :: "Dispute \<Rightarrow> bool" where
  "CanSubmitEvidence d \<longleftrightarrow> dp_Status d = DStatusNeedsResponse \<or> dp_Status d = DStatusUnderReview"

definition dispute_Transition :: "Dispute \<Rightarrow> DisputeStatus \<Rightarrow> int \<Rightarrow> go_error + Dispute" where
  "dispute_Transition d to now =
    (if to \<in> set (dispute_validTransitions (dp_Status d))
     then Inr (let d' = d \<lparr> dp_Status := to \<rparr> in if dispute_resolved to then d' \<lparr> dp_ResolvedAt := Some now \<rparr> else d')
     else Inl ErrDisputeInvalidTransition)"

lemma dispute_status_str_inverse [simp]: "dispute_status_str (dispute_status s) = s"
  by (auto simp: dispute_status_def split: option.splits dest!: find_Some_iff [THEN iffD1])

definition dispute_move :: "Dispute \<Rightarrow> DisputeStatus \<times> int \<Rightarrow> go_error + Dispute" where
  "dispute_move d m = dispute_Transition d (fst m) (snd m)"

interpretation dispute_table: transition_table dispute_validTransitions dp_Status fst dispute_move
  by unfold_locales (auto simp: dispute_move_def dispute_Transition_def Let_def split: if_splits)

lemma resolved_has_no_moves: "dispute_resolved s \<Longrightarrow> dispute_validTransitions s = []"
  by (auto simp: dispute_resolved_def)

end
