(* ===== verification/Reconciliation_Domain.thy ===== *)
theory Reconciliation_Domain
  imports Prelude
begin

section \<open>Reconciliation (internal/domain/reconciliation)\<close>

text \<open>
  Jobs that compare the payments of a period with the settlement report of a gateway, the entries
  they write for what does not match (exchange rates are only carried along), and the test whether an entry may be resolved automatically,
  from \<open>reconciliation.go\<close>. Of the messages only the constant part is kept.
\<close>

abbreviation JobStatusPending :: string where "JobStatusPending \<equiv> ''PENDING''"
abbreviation JobStatusRunning :: string where "JobStatusRunning \<equiv> ''RUNNING''"
abbreviation JobStatusCompleted :: string where "JobStatusCompleted \<equiv> ''COMPLETED''"
abbreviation JobStatusFailed :: string where "JobStatusFailed \<equiv> ''FAILED''"

datatype MismatchType =
    MismatchStatus | MismatchAmount | MismatchFee | MismatchMissingInternal | MismatchMissingGateway

fun mismatch_str :: "MismatchType \<Rightarrow> string" where
  "mismatch_str MismatchStatus = ''STATUS_MISMATCH''"
| "mismatch_str MismatchAmount = ''AMOUNT_MISMATCH''"
| "mismatch_str MismatchFee = ''FEE_MISMATCH''"
| "mismatch_str MismatchMissingInternal = ''MISSING_INTERNAL''"
| "mismatch_str MismatchMissingGateway = ''MISSING_GATEWAY''"

abbreviation ResolutionUnresolved :: string where "ResolutionUnresolved \<equiv> ''UNRESOLVED''"
abbreviation ResolutionResolved :: string where "ResolutionResolved \<equiv> ''RESOLVED''"

record ReconJob =
  rj_ID :: uuid
  rj_GatewayID :: string
  rj_TenantID :: "uuid option"
  rj_TransactionID :: "uuid option"
  rj_PeriodStart :: "int option"
  rj_PeriodEnd :: "int option"
  rj_Status :: string
  rj_TriggeredBy :: string
  rj_Actor :: string
  rj_MismatchCount :: int
  rj_Error :: string
  rj_StartedAt :: "int option"
  rj_CompletedAt :: "int option"
  rj_CreatedAt :: int

record ReconEntry =
  re_ID :: uuid
  re_JobID :: uuid
  re_TransactionID :: uuid
  re_InternalStatus :: string
  re_GatewayStatus :: string
  re_InternalAmount :: int
  re_GatewayAmount :: int
  re_InternalFees :: "int option"
  re_GatewayFees :: "int option"
  re_FXRateApplied :: "rat option"
  re_FXRateAtSettlement :: "rat option"
  re_FeeMismatchReason :: string
  re_MismatchType :: MismatchType
  re_ResolutionStatus :: string
  re_ResolvedBy :: string
  re_ResolvedAt :: "int option"
  re_Notes :: string
  re_AutoResolutionAction :: string
  re_AutoResolutionAt :: "int option"
  re_AutoResolutionBy :: string
  re_CreatedAt :: int

record AutoResolutionConfig =
  arc_PaymentMethod :: string
  arc_Region :: string
  arc_ThresholdBPS :: int
  arc_AbsoluteCapPaise :: int
  arc_Action :: string

definition IsCritical :: "MismatchType \<Rightarrow> bool" where
  "IsCritical m \<longleftrightarrow> m = MismatchStatus \<or> m = MismatchMissingInternal"

definition EligibleForAutoResolution :: "ReconEntry \<Rightarrow> AutoResolutionConfig \<Rightarrow> bool \<times> string" where
  "EligibleForAutoResolution e cfg =
    (if re_MismatchType e \<noteq> MismatchAmount then (False, ''mismatch type requires manual review'')
     else let discrepancy = wrap64 (re_GatewayAmount e - re_InternalAmount e);
              discrepancy = (if discrepancy < 0 then wrap64 (- discrepancy) else discrepancy);
              settledAmount = re_GatewayAmount e
       in if settledAmount = 0 then (False, ''gateway amount is zero, cannot compute percentage'')
          else let threshold = arc_ThresholdBPS cfg;
                   pctCheck = discrepancy \<le> wrap64 (wrap64 (quot64 settledAmount 10000 * threshold) +
                     quot64 (wrap64 (rem64 settledAmount 10000 * threshold)) 10000);
                   absCheck = discrepancy \<le> arc_AbsoluteCapPaise cfg
            in if \<not> pctCheck then (False, ''percentage check failed'')
               else if \<not> absCheck then (False, ''absolute cap check failed'')
               else (True, ''''))"

subsection \<open>The percentage test\<close>

lemma rem64_nonneg: "0 \<le> a \<Longrightarrow> 0 < b \<Longrightarrow> rem64 a b = a mod b"
  by (cases "a = 0") (simp_all add: rem64_def sgn_if minus_div_mult_eq_mod)

text \<open>The split quotient is the floor of the exact one.\<close>

lemma split_quotient:
  fixes s t :: int
  assumes "0 < m"
  shows "s div m * t + (s mod m) * t div m = s * t div m"
proof -
  have "s * t = (s mod m) * t + m * (s div m * t)"
    by (metis (no_types) distrib_right mod_mult_div_eq mult.assoc)
  then show ?thesis using assms by (simp add: mult.commute)
qed

lemma threshold_exact:
  assumes "0 < s" "0 \<le> t" "t \<le> 10000" "in64 s"
  shows "wrap64 (wrap64 (quot64 s 10000 * t) + quot64 (wrap64 (rem64 s 10000 * t)) 10000) = s * t div 10000"
proof -
  have q: "0 \<le> s div 10000 * t" "s div 10000 * t \<le> s div 10000 * 10000"
    using assms by (simp_all add: mult_left_mono pos_imp_zdiv_nonneg_iff)
  then have iq: "in64 (s div 10000 * t)" using assms(4) by (auto simp: in64_def)
  have "0 \<le> (s mod 10000) * t" "(s mod 10000) * t \<le> 10000 * 10000"
    using assms mult_mono [of "s mod 10000" 10000 t 10000] by simp_all
  then have ir: "in64 ((s mod 10000) * t)" and n: "0 \<le> (s mod 10000) * t" by (auto simp: in64_def)
  have "s * t div 10000 \<le> s * 10000 div 10000" using assms by (intro zdiv_mono1 mult_left_mono) auto
  moreover have "0 \<le> s * t div 10000" using assms by (simp add: pos_imp_zdiv_nonneg_iff)
  ultimately have "in64 (s * t div 10000)" using assms(1,4) by (simp add: in64_def)
  then show ?thesis
    using assms iq ir n by (simp add: quot64_nonneg rem64_nonneg split_quotient)
qed

text \<open>C23. The overflow-free percentage test of the automatic resolution is exact: for amounts that are
  \<open>int64\<close> and a threshold of at most 100 percent, an amount mismatch is eligible precisely when the
  difference is at most the given share of the settled amount and at most the cap.\<close>

theorem auto_resolution_exact:
  assumes "0 < re_GatewayAmount e" "in64 (re_GatewayAmount e)" "0 \<le> re_InternalAmount e" "in64 (re_InternalAmount e)"
    "0 \<le> arc_ThresholdBPS cfg" "arc_ThresholdBPS cfg \<le> 10000" "re_MismatchType e = MismatchAmount"
  shows "fst (EligibleForAutoResolution e cfg) \<longleftrightarrow>
    \<bar>re_GatewayAmount e - re_InternalAmount e\<bar> * 10000 \<le> arc_ThresholdBPS cfg * re_GatewayAmount e \<and>
    \<bar>re_GatewayAmount e - re_InternalAmount e\<bar> \<le> arc_AbsoluteCapPaise cfg"
proof -
  let ?d = "re_GatewayAmount e - re_InternalAmount e"
  have "in64 ?d" "in64 (- ?d)" using assms by (auto simp: in64_def)
  then have d: "(if wrap64 ?d < 0 then wrap64 (- wrap64 ?d) else wrap64 ?d) = \<bar>?d\<bar>" by simp
  have le_div: "a \<le> x div 10000 \<longleftrightarrow> a * 10000 \<le> x" for a x :: int
    using zdiv_mono1 [of "a * 10000" x 10000] mult_right_mono [of a "x div 10000" 10000] div_mult_mod_eq [of x 10000]
      pos_mod_sign [of 10000 x] by linarith
  have "\<bar>?d\<bar> \<le> re_GatewayAmount e * arc_ThresholdBPS cfg div 10000 \<longleftrightarrow>
      \<bar>?d\<bar> * 10000 \<le> arc_ThresholdBPS cfg * re_GatewayAmount e"
    unfolding le_div by (simp add: mult.commute)
  then show ?thesis
    using assms unfolding EligibleForAutoResolution_def Let_def d threshold_exact [OF assms(1,5,6,2)] by simp
qed

definition zero_Entry :: ReconEntry where
  "zero_Entry = \<lparr> re_ID = uuid_Nil, re_JobID = uuid_Nil, re_TransactionID = uuid_Nil, re_InternalStatus = '''', re_GatewayStatus = '''',
     re_InternalAmount = 0, re_GatewayAmount = 0, re_InternalFees = None, re_GatewayFees = None, re_FXRateApplied = None,
     re_FXRateAtSettlement = None, re_FeeMismatchReason = '''', re_MismatchType = MismatchStatus,
     re_ResolutionStatus = ResolutionUnresolved, re_ResolvedBy = '''', re_ResolvedAt = None, re_Notes = '''',
     re_AutoResolutionAction = '''', re_AutoResolutionAt = None, re_AutoResolutionBy = '''', re_CreatedAt = 0 \<rparr>"

theorem auto_resolution_exact_witness:
  "fst (EligibleForAutoResolution
     (zero_Entry \<lparr> re_InternalAmount := 9223372036854775000, re_GatewayAmount := 9223372036854775007, re_MismatchType := MismatchAmount \<rparr>)
     \<lparr> arc_PaymentMethod = ''card'', arc_Region = '''', arc_ThresholdBPS = 10, arc_AbsoluteCapPaise = 100000, arc_Action = ''AUTO_INVOICED'' \<rparr>)"
  by (subst auto_resolution_exact) (simp_all add: in64_def)

end
