(* ===== verification/Gateway_Domain.thy ===== *)
theory Gateway_Domain
  imports Float64
begin

section \<open>Gateway health and configuration (internal/domain/gateway)\<close>

text \<open>
  The circuit breaker of \<open>gateway.go\<close> with its cooldown, the scores and alert levels computed from
  discrepancy rates, and the provider configurations of \<open>tenant_config.go\<close>. \<open>EffectiveRate\<close> and
  \<open>IsResolved\<close> (an irrational decay factor, used by no service) are not modelled.
\<close>

datatype CircuitState = StateClosed | StateOpen | StateHalfOpen | CircuitStateOther string

fun circuit_str :: "CircuitState \<Rightarrow> string" where
  "circuit_str StateClosed = ''CLOSED''"
| "circuit_str StateOpen = ''OPEN''"
| "circuit_str StateHalfOpen = ''HALF_OPEN''"
| "circuit_str (CircuitStateOther s) = s"

record CircuitBreaker =
  cb_GatewayID :: string
  cb_State :: CircuitState
  cb_CooldownUntil :: int
  cb_ConsecutiveFailures :: int
  cb_LastKnownReliabilityScore :: int

text \<open>The zero \<open>time.Time\<close> is midnight of 1 January of year 1, in nanoseconds from 1970.\<close>

definition zero_Time :: int where
  "zero_Time = - 62135596800 * Second"

fun circuit_transitionTable :: "CircuitState \<Rightarrow> CircuitState list" where
  "circuit_transitionTable StateClosed = [StateOpen]"
| "circuit_transitionTable StateOpen = [StateHalfOpen]"
| "circuit_transitionTable StateHalfOpen = [StateClosed, StateOpen]"
| "circuit_transitionTable (CircuitStateOther s) = []"

definition cb_IsRoutable :: "CircuitBreaker \<Rightarrow> bool" where
  "cb_IsRoutable cb \<longleftrightarrow> cb_State cb = StateClosed \<or> cb_State cb = StateHalfOpen"

definition ShouldTransitionToHalfOpen :: "CircuitBreaker \<Rightarrow> int \<Rightarrow> bool" where
  "ShouldTransitionToHalfOpen cb now \<longleftrightarrow> cb_State cb = StateOpen \<and> cb_CooldownUntil cb < now"

definition CooldownDuration :: "int \<Rightarrow> int" where
  "CooldownDuration consecutiveFailures =
    (let f = (if consecutiveFailures \<le> 0 then 1 else consecutiveFailures);
         f = (if f > 4 then 4 else f);
         d = 60 * Second * 2 ^ nat (f - 1);
         mx = 240 * Second
     in if d > mx then mx else d)"

definition cb_Transition :: "CircuitBreaker \<Rightarrow> CircuitState \<Rightarrow> int \<Rightarrow> go_error + CircuitBreaker" where
  "cb_Transition cb to now =
    (if to \<notin> set (circuit_transitionTable (cb_State cb))
     then Inl (CircuitInvalidTransition (circuit_str (cb_State cb)) (circuit_str to))
     else let from = cb_State cb; cb = cb \<lparr> cb_State := to \<rparr>; n = cb_ConsecutiveFailures cb + 1
     in Inr (if from = StateClosed \<and> to = StateOpen
             then cb \<lparr> cb_ConsecutiveFailures := n, cb_CooldownUntil := now + CooldownDuration n \<rparr>
             else if from = StateOpen \<and> to = StateHalfOpen then cb \<lparr> cb_CooldownUntil := zero_Time \<rparr>
             else if from = StateHalfOpen \<and> to = StateClosed
             then cb \<lparr> cb_ConsecutiveFailures := 0, cb_CooldownUntil := zero_Time \<rparr>
             else if from = StateHalfOpen \<and> to = StateOpen
             then cb \<lparr> cb_ConsecutiveFailures := n, cb_CooldownUntil := now + CooldownDuration n \<rparr>
             else cb))"

subsection \<open>Discrepancy metrics\<close>

record DiscrepancyMetrics =
  dm_GatewayID :: string
  dm_Rate5Min :: rat
  dm_Rate30Min :: rat
  dm_Rate24H :: rat

datatype AlertLevel = AlertLevelNone | AlertLevelInvestigate | AlertLevelAlert | AlertLevelAutoDisable

text \<open>\<open>int(x)\<close> of a float truncates towards zero.\<close>

definition ReliabilityScore :: "DiscrepancyMetrics \<Rightarrow> int" where
  "ReliabilityScore d =
    (if dm_Rate24H d > f64 (1 / 5) then 0
     else let x = f64 (f64 (1 - dm_Rate24H d) * 100); score = (if x \<ge> 0 then \<lfloor>x\<rfloor> else \<lceil>x\<rceil>)
     in if score > 100 then 100 else score)"

definition CurrentAlertLevel :: "DiscrepancyMetrics \<Rightarrow> AlertLevel" where
  "CurrentAlertLevel d =
    (if dm_Rate5Min d > f64 (1 / 5) then AlertLevelAutoDisable
     else if dm_Rate5Min d > f64 (1 / 20) then AlertLevelAlert
     else if dm_Rate24H d > f64 (1 / 50) then AlertLevelInvestigate
     else AlertLevelNone)"

subsection \<open>Provider configurations\<close>

text \<open>
  A config payload is the raw JSON of a flat object. \<open>json.Unmarshal\<close> into a struct of strings
  matches field names up to case, lets the last occurrence win, ignores other fields and leaves
  a field with \<open>null\<close> unchanged; a value of another type is an error.
\<close>

datatype json_value = JString string | JNull | JOther

datatype raw_json = RawEmpty | RawMalformed | RawObject "(string \<times> json_value) list"

fun decode_field :: "string \<Rightarrow> string \<Rightarrow> (string \<times> json_value) list \<Rightarrow> string option" where
  "decode_field name acc [] = Some acc"
| "decode_field name acc ((k, v) # fs) =
     (if EqualFold k name
      then (case v of JString s \<Rightarrow> decode_field name s fs | JNull \<Rightarrow> decode_field name acc fs | JOther \<Rightarrow> None)
      else decode_field name acc fs)"

datatype ProviderConfig =
    StripeConfig string string string string
  | RazorpayConfig string string string string string
  | FIBConfig string string string string

abbreviation ProviderStripe :: string where "ProviderStripe \<equiv> ''stripe''"
abbreviation ProviderRazorpay :: string where "ProviderRazorpay \<equiv> ''razorpay''"
abbreviation ProviderFIB :: string where "ProviderFIB \<equiv> ''fib''"

definition ValidProvider :: "string \<Rightarrow> bool" where
  "ValidProvider p \<longleftrightarrow> p \<in> set [ProviderStripe, ProviderRazorpay, ProviderFIB]"

fun Validate_ProviderConfig :: "ProviderConfig \<Rightarrow> go_error + unit" where
  "Validate_ProviderConfig (StripeConfig apiKey baseURL webhookSecret publishableKey) =
    (if apiKey = '''' then Inl (Errorf ''stripe: api_key is required'')
     else if length apiKey < 10 then Inl (Errorf ''stripe: api_key looks too short'')
     else Inr ())"
| "Validate_ProviderConfig (RazorpayConfig keyID keySecret baseURL publishableKey webhookSecret) =
    (if keyID = '''' then Inl (Errorf ''razorpay: key_id is required'')
     else if keySecret = '''' then Inl (Errorf ''razorpay: key_secret is required'')
     else Inr ())"
| "Validate_ProviderConfig (FIBConfig clientID clientSecret baseURL callbackURL) =
    (if clientID = '''' then Inl (Errorf ''fib: client_id is required'')
     else if clientSecret = '''' then Inl (Errorf ''fib: client_secret is required'')
     else if baseURL = '''' then Inl (Errorf ''fib: base_url is required'')
     else Inr ())"

fun Provider_of :: "ProviderConfig \<Rightarrow> string" where
  "Provider_of (StripeConfig _ _ _ _) = ProviderStripe"
| "Provider_of (RazorpayConfig _ _ _ _ _) = ProviderRazorpay"
| "Provider_of (FIBConfig _ _ _ _) = ProviderFIB"

text \<open>\<open>json.Unmarshal\<close> of the payload into the struct of the provider; \<open>None\<close> is its error.\<close>

definition unmarshal_config :: "string \<Rightarrow> raw_json \<Rightarrow> ProviderConfig option" where
  "unmarshal_config provider raw =
    (case raw of
       RawObject fs \<Rightarrow>
         (let f = (\<lambda>name. decode_field name '''' fs)
          in if provider = ProviderStripe then
               (case (f ''api_key'', f ''base_url'', f ''webhook_secret'', f ''publishable_key'') of
                  (Some a, Some b, Some w, Some p) \<Rightarrow> Some (StripeConfig a b w p) | _ \<Rightarrow> None)
             else if provider = ProviderRazorpay then
               (case (f ''key_id'', f ''key_secret'', f ''base_url'', f ''publishable_key'', f ''webhook_secret'') of
                  (Some k, Some s, Some b, Some p, Some w) \<Rightarrow> Some (RazorpayConfig k s b p w) | _ \<Rightarrow> None)
             else
               (case (f ''client_id'', f ''client_secret'', f ''base_url'', f ''callback_url'') of
                  (Some c, Some s, Some b, Some u) \<Rightarrow> Some (FIBConfig c s b u) | _ \<Rightarrow> None))
     | _ \<Rightarrow> None)"

definition ParseProviderConfig :: "string \<Rightarrow> raw_json \<Rightarrow> go_error + ProviderConfig" where
  "ParseProviderConfig provider raw =
    (if raw = RawEmpty then Inl (Errorf ''provider: config payload is empty'')
     else if ValidProvider provider then
       (case unmarshal_config provider raw of
          None \<Rightarrow> Inl (Errorf (provider @ '': unmarshal config''))
        | Some cfg \<Rightarrow> (case Validate_ProviderConfig cfg of Inl e \<Rightarrow> Inl e | Inr _ \<Rightarrow> Inr cfg))
     else Inl (Errorf ''unsupported provider''))"

definition ExtractWebhookSecret :: "string \<Rightarrow> raw_json \<Rightarrow> go_error + string" where
  "ExtractWebhookSecret provider raw =
    (case ParseProviderConfig provider raw of
       Inl e \<Rightarrow> Inl e
     | Inr (StripeConfig apiKey baseURL webhookSecret publishableKey) \<Rightarrow> Inr webhookSecret
     | Inr (RazorpayConfig keyID keySecret baseURL publishableKey webhookSecret) \<Rightarrow>
         Inr (if webhookSecret \<noteq> '''' then webhookSecret else keySecret)
     | Inr (FIBConfig clientID clientSecret baseURL callbackURL) \<Rightarrow> Inr '''')"

subsection \<open>Lemmas\<close>

lemma CooldownDuration_cases:
  "CooldownDuration n =
     (if n \<le> 1 then 60 * Second else if n = 2 then 120 * Second else 240 * Second)"
proof -
  consider "n \<le> 1" | "n = 2" | "n = 3" | "4 \<le> n" by linarith
  then show ?thesis
    by cases (simp_all add: CooldownDuration_def Let_def numeral_eq_Suc)
qed

lemma ParseProviderConfig_Inr:
  "ParseProviderConfig provider raw = Inr cfg \<Longrightarrow> Validate_ProviderConfig cfg = Inr () \<and> Provider_of cfg = provider"
  by (auto simp: ParseProviderConfig_def unmarshal_config_def ValidProvider_def Let_def
      split: if_splits option.splits sum.splits raw_json.splits prod.splits)

definition circuit_move :: "CircuitBreaker \<Rightarrow> CircuitState \<times> int \<Rightarrow> go_error + CircuitBreaker" where
  "circuit_move cb m = cb_Transition cb (fst m) (snd m)"

interpretation cbm: transition_table circuit_transitionTable cb_State fst circuit_move
  by unfold_locales (auto simp: circuit_move_def cb_Transition_def Let_def split: if_splits)

end
