(* ===== verification/Circuit_Store.thy ===== *)
theory Circuit_Store
  imports Gateway_Domain
begin

section \<open>Circuit breakers in Valkey (internal/adapters/valkey, internal/app/gateway)\<close>

text \<open>
  The breaker of each gateway is a JSON record in Valkey, changed only by Lua scripts, which run
  atomically: each script is one function on the stored record. Around them: the Go store
  (\<open>circuit_breaker.go\<close>), the two adapters of \<open>cmd/server/api.go\<close> (counting outcomes, and routing
  with lazy recovery) and \<open>Service.ListActiveGateways\<close>. A field that the JSON lacks is \<open>None\<close>.
  When Valkey is down every operation fails. Lua numbers are doubles; the counts and epochs here
  are integers far below 2^53, on which they are exact.
\<close>

record cbRecord =
  rec_state :: "CircuitState option"
  rec_cooldown_until :: "int option"
  rec_consecutive_failures :: "int option"
  rec_last_known_score :: "int option"

record cb_store =
  cb_up :: bool
  cb_recs :: "string \<Rightarrow> cbRecord option"

definition empty_rec :: cbRecord where
  "empty_rec = \<lparr> rec_state = None, rec_cooldown_until = None, rec_consecutive_failures = None,
     rec_last_known_score = None \<rparr>"

text \<open>\<open>raw and cjson.decode(raw) or {}\<close> and \<open>cb.state or 'CLOSED'\<close>\<close>

definition lua_cb :: "cbRecord option \<Rightarrow> cbRecord" where
  "lua_cb raw = (case raw of None \<Rightarrow> empty_rec | Some r \<Rightarrow> r)"

definition lua_state :: "cbRecord \<Rightarrow> CircuitState" where
  "lua_state cb = (case rec_state cb of None \<Rightarrow> StateClosed | Some s \<Rightarrow> s)"

definition lua_fails :: "cbRecord \<Rightarrow> int" where
  "lua_fails cb = (case rec_consecutive_failures cb of None \<Rightarrow> 0 | Some n \<Rightarrow> n)"

subsection \<open>The scripts\<close>

definition cbTransitionLua :: "CircuitState \<Rightarrow> int \<Rightarrow> int \<Rightarrow> cbRecord option \<Rightarrow> int \<times> cbRecord option" where
  "cbTransitionLua to cooldown fails raw =
    (let cb = lua_cb raw; from = lua_state cb;
         ok = (from = StateClosed \<and> to = StateOpen) \<or> (from = StateOpen \<and> to = StateHalfOpen) \<or>
              (from = StateHalfOpen \<and> (to = StateClosed \<or> to = StateOpen))
     in if \<not> ok then (0, raw)
        else (1, Some (cb \<lparr> rec_state := Some to, rec_cooldown_until := Some cooldown,
                            rec_consecutive_failures := Some fails \<rparr>)))"

text \<open>\<open>math.floor(60 * (2 ^ (fails - 1)))\<close>, capped\<close>

definition lua_cooldown_secs :: "int \<Rightarrow> int" where
  "lua_cooldown_secs fails =
    (let secs = (if 1 \<le> fails then 60 * 2 ^ nat (fails - 1) else 60 div 2 ^ nat (1 - fails))
     in if secs > 240 then 240 else secs)"

definition cbRecordFailureLua :: "int \<Rightarrow> int \<Rightarrow> cbRecord option \<Rightarrow> (int \<times> int) \<times> cbRecord option" where
  "cbRecordFailureLua threshold now_epoch raw =
    (let cb = lua_cb raw; state = lua_state cb; fails = lua_fails cb + 1
     in if state = StateHalfOpen \<or> (state = StateClosed \<and> fails \<ge> threshold)
        then ((1, fails), Some (cb \<lparr> rec_cooldown_until := Some (now_epoch + lua_cooldown_secs fails),
                                     rec_state := Some StateOpen, rec_consecutive_failures := Some fails \<rparr>))
        else ((0, fails), Some (cb \<lparr> rec_state := Some state, rec_consecutive_failures := Some fails \<rparr>)))"

definition cbRecordSuccessLua :: "cbRecord option \<Rightarrow> cbRecord option" where
  "cbRecordSuccessLua raw =
    (let cb = lua_cb raw; state = lua_state cb;
         state = (if state = StateHalfOpen then StateClosed else state)
     in Some (cb \<lparr> rec_state := Some state, rec_consecutive_failures := Some 0, rec_cooldown_until := Some 0 \<rparr>))"

definition cbSetScoreLua :: "int \<Rightarrow> cbRecord option \<Rightarrow> cbRecord option" where
  "cbSetScoreLua score raw =
    (let cb = lua_cb raw in Some (cb \<lparr> rec_last_known_score := Some score, rec_state := Some (lua_state cb) \<rparr>))"

subsection \<open>The store\<close>

definition put_rec :: "string \<Rightarrow> cbRecord option \<Rightarrow> cb_store \<Rightarrow> cb_store" where
  "put_rec gid r s = s \<lparr> cb_recs := (cb_recs s)(gid := r) \<rparr>"

definition cb_Get :: "string \<Rightarrow> cb_store \<Rightarrow> go_error + CircuitBreaker" where
  "cb_Get gid s =
    (if \<not> cb_up s then Inl (Errorf ''circuit_breaker: get'')
     else case cb_recs s gid of
         None \<Rightarrow> Inr \<lparr> cb_GatewayID = gid, cb_State = StateClosed, cb_CooldownUntil = zero_Time,
                     cb_ConsecutiveFailures = 0, cb_LastKnownReliabilityScore = 0 \<rparr>
       | Some r \<Rightarrow> Inr \<lparr> cb_GatewayID = gid,
           cb_State = (case rec_state r of None \<Rightarrow> CircuitStateOther '''' | Some st \<Rightarrow> st),
           cb_CooldownUntil = (case rec_cooldown_until r of
               Some c \<Rightarrow> if c > 0 then c * Second else zero_Time | None \<Rightarrow> zero_Time),
           cb_ConsecutiveFailures = lua_fails r,
           cb_LastKnownReliabilityScore = (case rec_last_known_score r of None \<Rightarrow> 0 | Some n \<Rightarrow> n) \<rparr>)"

definition cb_store_Transition ::
  "CircuitBreaker \<Rightarrow> CircuitState \<Rightarrow> int \<Rightarrow> cb_store \<Rightarrow> (go_error + CircuitBreaker) \<times> cb_store" where
  "cb_store_Transition cb to now s =
    (let newFails = (if to = StateOpen then cb_ConsecutiveFailures cb + 1
                     else if to = StateClosed then 0 else cb_ConsecutiveFailures cb);
         cooldownEpoch = (if to = StateOpen then (now + CooldownDuration newFails) div Second else 0)
     in if \<not> cb_up s then (Inl (Errorf ''circuit_breaker: transition script''), s)
        else let (n, r) = cbTransitionLua to cooldownEpoch newFails (cb_recs s (cb_GatewayID cb))
        in if n = 0 then (Inl (Errorf ''circuit_breaker: invalid transition''), s)
           else (Inr (cb \<lparr> cb_State := to, cb_ConsecutiveFailures := newFails,
                    cb_CooldownUntil := (if cooldownEpoch > 0 then cooldownEpoch * Second else zero_Time) \<rparr>),
                 put_rec (cb_GatewayID cb) r s))"

definition cb_RecordFailure :: "int \<Rightarrow> string \<Rightarrow> int \<Rightarrow> cb_store \<Rightarrow> (go_error + bool \<times> int) \<times> cb_store" where
  "cb_RecordFailure threshold gid now s =
    (if \<not> cb_up s then (Inl (Errorf ''circuit_breaker: record failure''), s)
     else let ((opened, fails), r) = cbRecordFailureLua threshold (now div Second) (cb_recs s gid)
     in (Inr (opened = 1, fails), put_rec gid r s))"

definition cb_RecordSuccess :: "string \<Rightarrow> cb_store \<Rightarrow> (go_error + unit) \<times> cb_store" where
  "cb_RecordSuccess gid s =
    (if \<not> cb_up s then (Inl (Errorf ''circuit_breaker: record success''), s)
     else (Inr (), put_rec gid (cbRecordSuccessLua (cb_recs s gid)) s))"

definition cb_SetLastKnownScore :: "string \<Rightarrow> int \<Rightarrow> cb_store \<Rightarrow> (go_error + unit) \<times> cb_store" where
  "cb_SetLastKnownScore gid score s =
    (if \<not> cb_up s then (Inl (Errorf ''circuit_breaker: set last known score''), s)
     else (Inr (), put_rec gid (cbSetScoreLua score (cb_recs s gid)) s))"

text \<open>\<open>gatewaysBreakerAdapter.IsRoutable\<close>: the answer, the error beside it, and the store.\<close>

definition IsRoutable :: "string \<Rightarrow> int \<Rightarrow> cb_store \<Rightarrow> (bool \<times> go_error option) \<times> cb_store" where
  "IsRoutable gid now s =
    (case cb_Get gid s of
       Inl e \<Rightarrow> ((True, Some e), s)
     | Inr cb \<Rightarrow>
         if cb_IsRoutable cb then ((True, None), s)
         else if \<not> ShouldTransitionToHalfOpen cb now then ((False, None), s)
         else (case cb_store_Transition cb StateHalfOpen now s of
                 (Inl _, s') \<Rightarrow> ((False, None), s')
               | (Inr _, s') \<Rightarrow> ((True, None), s')))"

text \<open>\<open>Service.ListActiveGateways\<close>: the loop over the configured gateways. A failed check keeps
  the gateway.\<close>

fun routable_gateways :: "('cfg \<Rightarrow> string) \<Rightarrow> int \<Rightarrow> 'cfg option list \<Rightarrow> cb_store \<Rightarrow> 'cfg list \<times> cb_store" where
  "routable_gateways gid_of now [] s = ([], s)"
| "routable_gateways gid_of now (None # cfgs) s = routable_gateways gid_of now cfgs s"
| "routable_gateways gid_of now (Some cfg # cfgs) s =
    (case IsRoutable (gid_of cfg) now s of
       ((routable, err), s1) \<Rightarrow>
         (case routable_gateways gid_of now cfgs s1 of
            (out, s2) \<Rightarrow> (if err \<noteq> None \<or> routable then cfg # out else out, s2)))"

subsection \<open>Lemmas\<close>

lemmas cb_defs = cb_Get_def cb_store_Transition_def cb_RecordFailure_def cb_RecordSuccess_def
  cb_SetLastKnownScore_def IsRoutable_def put_rec_def cbTransitionLua_def cbRecordFailureLua_def
  cbRecordSuccessLua_def cbSetScoreLua_def lua_cb_def empty_rec_def Let_def


lemma lua_cooldown_bounds: "lua_cooldown_secs n \<le> 240"
  by (simp add: lua_cooldown_secs_def Let_def)

text \<open>The operations that the service performs on one gateway's breaker, with their instants.\<close>

datatype cb_op = OpFailure int | OpSuccess | OpScore int | OpRoute int

fun cb_step :: "int \<Rightarrow> string \<Rightarrow> cb_op \<Rightarrow> cb_store \<Rightarrow> cb_store" where
  "cb_step threshold gid (OpFailure now) s = snd (cb_RecordFailure threshold gid now s)"
| "cb_step threshold gid OpSuccess s = snd (cb_RecordSuccess gid s)"
| "cb_step threshold gid (OpScore n) s = snd (cb_SetLastKnownScore gid n s)"
| "cb_step threshold gid (OpRoute now) s = snd (IsRoutable gid now s)"

definition cb_run :: "int \<Rightarrow> string \<Rightarrow> cb_op list \<Rightarrow> cb_store \<Rightarrow> cb_store" where
  "cb_run threshold gid ops s = fold (cb_step threshold gid) ops s"

definition gw_state :: "string \<Rightarrow> cb_store \<Rightarrow> CircuitState" where
  "gw_state gid s = lua_state (lua_cb (cb_recs s gid))"

text \<open>Invariant of a record: a known state, written whenever the record is, and a cooldown that ends
  at most four minutes after the last operation.\<close>

definition rec_ok :: "int \<Rightarrow> cbRecord option \<Rightarrow> bool" where
  "rec_ok T r \<longleftrightarrow> (case r of None \<Rightarrow> True | Some c \<Rightarrow>
     rec_state c \<in> {Some StateClosed, Some StateOpen, Some StateHalfOpen} \<and>
     (rec_state c = Some StateOpen \<longrightarrow> (\<exists>u. rec_cooldown_until c = Some u \<and> u \<le> T div Second + 240)))"

fun op_time :: "int \<Rightarrow> cb_op \<Rightarrow> int" where
  "op_time T (OpFailure now) = now"
| "op_time T (OpRoute now) = now"
| "op_time T _ = T"

lemma cb_step_ok:
  assumes "rec_ok T (cb_recs s gid)" "0 \<le> T" "op_time T op \<le> T"
  shows "rec_ok T (cb_recs (cb_step threshold gid op s) gid)"
proof (cases op)
  case (OpFailure now)
  have "now div Second + lua_cooldown_secs n \<le> T div Second + 240" for n
    using lua_cooldown_bounds [of n] assms(3) OpFailure zdiv_mono1 [of now T Second] by simp
  then show ?thesis
    using assms OpFailure by (auto simp: cb_defs rec_ok_def lua_state_def split: option.splits)
next
  case OpSuccess
  have "0 \<le> T div Second + 240" using assms(2) by (simp add: pos_imp_zdiv_nonneg_iff add_nonneg_nonneg)
  then show ?thesis
    using assms OpSuccess by (auto simp: cb_defs rec_ok_def lua_state_def split: option.splits)
next
  case (OpScore n)
  then show ?thesis
    using assms by (auto simp: cb_defs rec_ok_def lua_state_def split: option.splits)
next
  case (OpRoute now)
  then show ?thesis
    using assms
    by (auto simp: cb_defs rec_ok_def lua_state_def cb_IsRoutable_def ShouldTransitionToHalfOpen_def
        split: option.splits)
qed

lemma cb_run_ok:
  assumes "rec_ok T (cb_recs s gid)" "0 \<le> T" "\<And>op. op \<in> set ops \<Longrightarrow> op_time T op \<le> T"
  shows "rec_ok T (cb_recs (cb_run threshold gid ops s) gid)"
  using assms unfolding cb_run_def
  by (induction ops arbitrary: s) (simp_all add: cb_step_ok)

lemma cb_step_up: "cb_up (cb_step threshold gid op s) = cb_up s"
  by (cases op) (auto simp: cb_defs split: option.splits prod.splits)

lemma cb_run_up: "cb_up (cb_run threshold gid ops s) = cb_up s"
  unfolding cb_run_def by (induction ops arbitrary: s) (simp_all add: cb_step_up)

lemma routable_after_cooldown:
  assumes "rec_ok T (cb_recs s gid)" "cb_up s" "0 \<le> T" "T + 240 * Second < now"
  shows "fst (IsRoutable gid now s) = (True, None)"
proof -
  have z: "zero_Time < now" using assms(3,4) by (simp add: zero_Time_def)
  have c: "u * Second < now" if "u \<le> T div Second + 240" for u
  proof -
    have "u * Second \<le> (T div Second) * Second + 240 * Second"
      using mult_right_mono [OF that, of Second] by (simp add: distrib_right)
    also have "\<dots> \<le> T + 240 * Second"
      using div_mult_mod_eq [of T Second] pos_mod_sign [of Second T] by linarith
    finally show ?thesis using assms(4) by simp
  qed
  show ?thesis
    using assms(1,2) z c
    by (auto simp: cb_defs rec_ok_def lua_state_def cb_IsRoutable_def ShouldTransitionToHalfOpen_def
        split: option.splits)
qed

subsection \<open>The breaker that the scripts implement\<close>











subsection \<open>Properties\<close>

text \<open>C34. The transition script of the store accepts exactly the moves of the domain's transition table: from the stored state
  it moves to the given one, with the given cooldown and count, when the table lists the move, and otherwise answers 0
  and leaves the record as it is.\<close>

theorem scripts_follow_transition_table:
  "cbTransitionLua to cooldown fails raw =
    (if to \<in> set (circuit_transitionTable (lua_state (lua_cb raw)))
     then (1, Some ((lua_cb raw) \<lparr> rec_state := Some to, rec_cooldown_until := Some cooldown, rec_consecutive_failures := Some fails \<rparr>))
     else (0, raw))"
  by (cases "lua_state (lua_cb raw)") (auto simp: cbTransitionLua_def Let_def)

text \<open>Whatever the stored record and the operation, the state of the gateway stays or makes such a move, and the breakers of
  other gateways are untouched.\<close>

lemma steps_follow_transition_table:
  "(gw_state gid (cb_step threshold gid op s) = gw_state gid s \<or>
    gw_state gid (cb_step threshold gid op s) \<in> set (circuit_transitionTable (gw_state gid s))) \<and>
   (gid' = gid \<or> cb_recs (cb_step threshold gid op s) gid' = cb_recs s gid')"
  by (cases op)
     (auto simp: gw_state_def cb_defs lua_state_def cb_IsRoutable_def ShouldTransitionToHalfOpen_def
       split: option.splits)

text \<open>A gateway is never locked out for good: whatever was recorded up to an instant \<open>T\<close>, once
  more than four minutes have passed since, the routing check answers yes (after moving an OPEN
  breaker to HALF_OPEN) without an error.\<close>

theorem gateway_recovers:
  assumes "cb_up s" "cb_recs s gid = None" "0 \<le> T" "\<forall>op \<in> set ops. op_time T op \<le> T" "T + 240 * Second < now"
  shows "fst (IsRoutable gid now (cb_run threshold gid ops s)) = (True, None) \<and>
         gw_state gid (snd (IsRoutable gid now (cb_run threshold gid ops s))) \<in> {StateClosed, StateHalfOpen}"
proof -
  let ?s = "cb_run threshold gid ops s"
  have r: "rec_ok T (cb_recs ?s gid)"
    using assms by (intro cb_run_ok) (simp_all add: rec_ok_def)
  have up: "cb_up ?s" using assms(1) by (simp add: cb_run_up)
  have fst: "fst (IsRoutable gid now ?s) = (True, None)"
    by (rule routable_after_cooldown [OF r up assms(3,5)])
  moreover have "gw_state gid (snd (IsRoutable gid now ?s)) \<in> {StateClosed, StateHalfOpen}"
    using fst r up
    by (auto simp: gw_state_def cb_defs rec_ok_def lua_state_def cb_IsRoutable_def split: option.splits if_splits)
  ultimately show ?thesis by simp
qed

definition fresh_store :: cb_store where
  "fresh_store = \<lparr> cb_up = True, cb_recs = (\<lambda>_. None) \<rparr>"

theorem gateway_recovers_witness:
  "gw_state ''stripe'' (cb_run 2 ''stripe'' [OpFailure (5 * Second), OpFailure (6 * Second)] fresh_store) = StateOpen \<and>
   fst (IsRoutable ''stripe'' (300 * Second)
     (cb_run 2 ''stripe'' [OpFailure (5 * Second), OpFailure (6 * Second)] fresh_store)) = (True, None)"
proof
  show "gw_state ''stripe'' (cb_run 2 ''stripe'' [OpFailure (5 * Second), OpFailure (6 * Second)] fresh_store) = StateOpen"
    by (simp add: gw_state_def cb_run_def cb_defs lua_state_def lua_fails_def fresh_store_def)
  show "fst (IsRoutable ''stripe'' (300 * Second)
      (cb_run 2 ''stripe'' [OpFailure (5 * Second), OpFailure (6 * Second)] fresh_store)) = (True, None)"
    by (rule gateway_recovers [where T = "6 * Second", THEN conjunct1]) (simp_all add: fresh_store_def)
qed



text \<open>A success reported while the breaker is OPEN (a call that was under way when it opened)
  ends the cooldown at once: the state stays OPEN but the routing check lets traffic through at the
  next instant, however long the cooldown was to last.\<close>

theorem late_success_ends_cooldown:
  assumes "cb_up s" "gw_state gid s = StateOpen" "0 \<le> now"
  shows "gw_state gid (snd (cb_RecordSuccess gid s)) = StateOpen \<and>
         fst (IsRoutable gid now (snd (cb_RecordSuccess gid s))) = (True, None)"
  using assms
  by (auto simp: gw_state_def cb_defs lua_state_def cb_IsRoutable_def ShouldTransitionToHalfOpen_def zero_Time_def
      split: option.splits)

theorem late_success_ends_cooldown_witness:
  "\<exists>s. gw_state ''fib'' s = StateOpen \<and> fst (IsRoutable ''fib'' 1 s) = (False, None) \<and>
       fst (IsRoutable ''fib'' 1 (snd (cb_RecordSuccess ''fib'' s))) = (True, None)"
proof -
  let ?s = "cb_step 1 ''fib'' (OpFailure 0) fresh_store"
  have up: "cb_up ?s" by (simp add: cb_step_up fresh_store_def del: cb_step.simps)
  have o: "gw_state ''fib'' ?s = StateOpen" "fst (IsRoutable ''fib'' 1 ?s) = (False, None)"
    by (simp_all add: gw_state_def cb_defs lua_state_def lua_fails_def fresh_store_def lua_cooldown_secs_def
        cb_IsRoutable_def ShouldTransitionToHalfOpen_def)
  from late_success_ends_cooldown [OF up o(1), of 1] o show ?thesis by auto
qed

end
