(* ===== verification/Ports.thy ===== *)
theory Ports
  imports Refund_Domain Dispute_Domain Reconciliation_Domain Circuit_Store
begin

section \<open>Ports (internal/ports): gateways, events, configuration\<close>

text \<open>
  The types that cross component boundaries: requests to and responses of payment gateways, outbox
  events, audit entries, notifications, and the environment of a service. JSON documents are
  trees; marshalling and unmarshalling them is the identity, so the branches for marshalling
  errors do not exist here.

  The environment \<open>env\<close> holds what is outside the program: the gateways (each a function of the
  calls it has received so far and of the request), the random source, SHA-256, and the contents of
  the configuration tables, which the modelled services only read. The optional collaborators of
  the services are wired as \<open>cmd/server\<close> wires them, all present; \<open>ev_idem\<close> says whether the
  idempotency guard is. \<open>ev_null_string\<close> is what the driver \<open>pgx\<close> makes of a \<open>NULL\<close> column that is scanned
  into a Go string.
\<close>

datatype json = JStr string | JInt int | JUuid uuid | JTime int | JObj "(string \<times> json) list" | JBool bool

subsection \<open>Gateway calls (ports/gateway.go)\<close>

datatype GatewayPaymentStatus =
    GatewayPaymentStatusPending | GatewayPaymentStatusProcessing | GatewayPaymentStatusAuthorized
  | GatewayPaymentStatusSucceeded | GatewayPaymentStatusFailed | GatewayPaymentStatusCancelled
  | GatewayPaymentStatusRefunded | GatewayPaymentStatusAmbiguous | GatewayPaymentStatusOther string

datatype GatewayRefundStatus =
    GatewayRefundStatusInitiated | GatewayRefundStatusProcessing | GatewayRefundStatusCompleted
  | GatewayRefundStatusFailed | GatewayRefundStatusOther string

abbreviation ErrorCategoryNetworkTimeout :: string where "ErrorCategoryNetworkTimeout \<equiv> ''network_timeout''"
abbreviation ErrorCategoryGatewayError :: string where "ErrorCategoryGatewayError \<equiv> ''gateway_error''"
abbreviation ErrorCategoryAmbiguous :: string where "ErrorCategoryAmbiguous \<equiv> ''ambiguous''"

record GatewayPaymentRequest =
  gpr_TransactionID :: uuid
  gpr_TenantID :: uuid
  gpr_Amount :: int
  gpr_Currency :: string
  gpr_PaymentMethod :: string
  gpr_IdempotencyKey :: string
  gpr_Metadata :: "(string \<times> string) list"
  gpr_CustomerEmail :: string
  gpr_Description :: string
  gpr_AttemptNumber :: int

record GatewayStatusRequest =
  gsr_TransactionID :: uuid
  gsr_TenantID :: uuid
  gsr_GatewayReferenceID :: string
  gsr_IdempotencyKey :: string

record GatewayRefundRequest =
  grr_RefundID :: uuid
  grr_TransactionID :: uuid
  grr_TenantID :: uuid
  grr_GatewayReferenceID :: string
  grr_Amount :: int
  grr_Currency :: string
  grr_Reason :: string
  grr_IdempotencyKey :: string

record GatewayCaptureRequest =
  gcr_TransactionID :: uuid
  gcr_GatewayReferenceID :: string
  gcr_IdempotencyKey :: string
  gcr_Amount :: int
  gcr_Currency :: string

datatype GatewayMethodResponse =
    GatewayCardResponse CardDetails
  | GatewayUPIResponse UPIDetails
  | GatewayNetbankingResponse NetbankingDetails
  | GatewayWalletResponse WalletDetails
  | NoMethodResponse

record GatewayPaymentResponse =
  gp_GatewayReferenceID :: string
  gp_Status :: GatewayPaymentStatus
  gp_RespAmount :: int
  gp_RespCurrency :: string
  gp_ErrorCode :: string
  gp_ErrorMessage :: string
  gp_MethodResponse :: GatewayMethodResponse
  gp_GatewayMetadata :: "(string \<times> json) list"

record GatewayCaptureResponse =
  gc_GatewayReferenceID :: string
  gc_Status :: GatewayPaymentStatus
  gc_Amount :: int
  gc_Currency :: string
  gc_ErrorCode :: string
  gc_ErrorMessage :: string

record GatewayRefundResponse =
  gr_GatewayRefundID :: string
  gr_Status :: GatewayRefundStatus
  gr_Amount :: int
  gr_Currency :: string

datatype gw_call =
    CallInitiate string GatewayPaymentRequest
  | CallStatus string GatewayStatusRequest
  | CallRefund string GatewayRefundRequest
  | CallCapture string GatewayCaptureRequest

text \<open>
  \<open>ports.GatewayAdapter\<close>: what a gateway answers may depend on all calls made so far. An adapter
  that returns no error returns a response.
\<close>

record GatewayAdapter =
  InitiatePayment :: "gw_call list \<Rightarrow> GatewayPaymentRequest \<Rightarrow> go_error + GatewayPaymentResponse"
  CheckStatus :: "gw_call list \<Rightarrow> GatewayStatusRequest \<Rightarrow> go_error + GatewayPaymentResponse"
  GwRefund :: "gw_call list \<Rightarrow> GatewayRefundRequest \<Rightarrow> go_error + GatewayRefundResponse"
  CapturePayment :: "gw_call list \<Rightarrow> GatewayCaptureRequest \<Rightarrow> go_error + GatewayCaptureResponse"

subsection \<open>Events (ports/outbox.go), audit (ports/audit.go), notifications\<close>

record OutboxEvent =
  oe_ID :: uuid
  oe_AggregateID :: uuid
  oe_AggregateType :: string
  oe_EventType :: string
  oe_Payload :: json
  oe_EventVersion :: int
  oe_AggregateVersion :: int
  oe_NextAttemptAt :: "int option"

abbreviation EventTypeTransactionCreated :: string where "EventTypeTransactionCreated \<equiv> ''TRANSACTION_CREATED''"
abbreviation EventTypeTransactionCaptured :: string where "EventTypeTransactionCaptured \<equiv> ''TRANSACTION_CAPTURED''"
abbreviation EventTypeTransactionFailed :: string where "EventTypeTransactionFailed \<equiv> ''TRANSACTION_FAILED''"
abbreviation EventTypeTransactionCancelled :: string where "EventTypeTransactionCancelled \<equiv> ''TRANSACTION_CANCELLED''"
abbreviation EventTypeTransactionAuthorized :: string where "EventTypeTransactionAuthorized \<equiv> ''TRANSACTION_AUTHORIZED''"
abbreviation EventTypeTransactionSettled :: string where "EventTypeTransactionSettled \<equiv> ''TRANSACTION_SETTLED''"
abbreviation EventTypeRefundInitiated :: string where "EventTypeRefundInitiated \<equiv> ''REFUND_INITIATED''"
abbreviation EventTypeRefundSucceeded :: string where "EventTypeRefundSucceeded \<equiv> ''REFUND_SUCCEEDED''"
abbreviation EventTypeRefundFailed :: string where "EventTypeRefundFailed \<equiv> ''REFUND_FAILED''"
abbreviation EventTypeTransactionCallback :: string where "EventTypeTransactionCallback \<equiv> ''TRANSACTION_CALLBACK''"
abbreviation EventTypeGatewayInitiate :: string where "EventTypeGatewayInitiate \<equiv> ''GATEWAY_INITIATE''"

fun EventTypeForTransactionStatus :: "Status \<Rightarrow> string option" where
  "EventTypeForTransactionStatus StatusCaptured = Some EventTypeTransactionCaptured"
| "EventTypeForTransactionStatus StatusCancelled = Some EventTypeTransactionCancelled"
| "EventTypeForTransactionStatus StatusAuthorized = Some EventTypeTransactionAuthorized"
| "EventTypeForTransactionStatus StatusFailed = Some EventTypeTransactionFailed"
| "EventTypeForTransactionStatus StatusSettled = Some EventTypeTransactionSettled"
| "EventTypeForTransactionStatus StatusRefunded = Some EventTypeRefundSucceeded"
| "EventTypeForTransactionStatus _ = None"

record AuditEntry =
  ae_ID :: uuid
  ae_TransactionID :: "uuid option"
  ae_EventType :: string
  ae_Actor :: string
  ae_PreviousState :: string
  ae_NewState :: string
  ae_Reason :: string

abbreviation AuditEventTypeStateChange :: string where "AuditEventTypeStateChange \<equiv> ''STATE_CHANGE''"
abbreviation AuditEventTypeOpsAction :: string where "AuditEventTypeOpsAction \<equiv> ''OPS_ACTION''"
abbreviation AuditEventTypeWebhookReceived :: string where "AuditEventTypeWebhookReceived \<equiv> ''WEBHOOK_RECEIVED''"
abbreviation AuditEventTypeRefundInitiated :: string where "AuditEventTypeRefundInitiated \<equiv> ''REFUND_INITIATED''"

record Notification =
  n_ID :: uuid
  n_TenantID :: uuid
  n_UserID :: "uuid option"
  n_Type :: string
  n_Channel :: string
  n_Recipient :: string
  n_TemplateName :: string
  n_TemplateData :: "(string \<times> json) list"

record Preference =
  p_Type :: string
  p_Channel :: string
  p_Enabled :: bool
  p_RecipientOverride :: string

record TenantWebhookConfig =
  twc_EndpointURL :: string
  twc_SigningSecret :: string
  twc_IsActive :: bool

record TenantWebhookDelivery =
  twd_TenantID :: uuid
  twd_TransactionID :: uuid
  twd_EventType :: string
  twd_Payload :: json
  twd_EndpointURL :: string

text \<open>What leaves the service through a mail server, an SMS provider or the HTTP client of the webhook
  worker: identifier, address, event, body and signature of a webhook.\<close>

datatype sent_message =
    SentEmail string string string string
  | SentSMS string string
  | SentWebhook uuid string string json "string option"

subsection \<open>Configuration (ports/config.go) and the environment\<close>

record GatewayFeeModel =
  fm_FixedFee :: int
  fm_PercentageBPS :: int
  fm_InterchangeCap :: "int option"
  fm_DiscountVolumeThreshold :: int
  fm_ChargesCurrency :: string

definition CalculateFee :: "GatewayFeeModel \<Rightarrow> int \<Rightarrow> int \<Rightarrow> int" where
  "CalculateFee f amountUnits discountVolumeUnits =
    (let fee = wrap64 (quot64 (wrap64 (amountUnits * fm_PercentageBPS f)) 10000 + fm_FixedFee f);
         fee = (case fm_InterchangeCap f of Some cap \<Rightarrow> if fee > cap then cap else fee | None \<Rightarrow> fee)
     in if fm_DiscountVolumeThreshold f > 0 \<and> discountVolumeUnits > fm_DiscountVolumeThreshold f
        then quot64 (wrap64 (fee * 95)) 100 else fee)"

record env =
  ev_registry :: "string \<Rightarrow> GatewayAdapter option"
  ev_gateway_active :: "string \<Rightarrow> go_error + bool"
  ev_processing_timeout :: "string \<Rightarrow> string \<Rightarrow> go_error + int"
  ev_fee_model :: "string \<Rightarrow> string \<Rightarrow> go_error + GatewayFeeModel option"
  ev_currency_rates :: "uuid \<Rightarrow> go_error + CurrencyRate list"
  ev_preferences :: "uuid \<Rightarrow> uuid option \<Rightarrow> go_error + Preference list"
  ev_tenant_webhook :: "uuid \<Rightarrow> go_error + TenantWebhookConfig option"
  ev_uuid :: "nat \<Rightarrow> uuid"
  ev_token :: "nat \<Rightarrow> string"
  ev_sha256 :: "string \<Rightarrow> string"
  ev_uuid_str :: "uuid \<Rightarrow> string"
  ev_uuid_parse :: "string \<Rightarrow> uuid option"
  ev_itoa :: "int \<Rightarrow> string"
  ev_shard_count :: nat
  ev_cb_threshold :: int
  ev_idem :: bool
  ev_null_string :: "go_error + string"

end
