(* ===== verification/Intents.thy ===== *)
theory Intents
  imports Prelude
begin

section \<open>Intents (internal/adapters/valkey/intents.go)\<close>

text \<open>
  How many payments are being driven through a gateway right now: a sorted set per gateway, whose
  members are payments and whose scores are the Unix times at which they no longer count. The whole
  key has an expiry of its own, which every new member sets again.
\<close>

record intent_store =
  in_up :: bool
  in_sets :: "string \<Rightarrow> (uuid \<times> int) list"
  in_expire :: "string \<Rightarrow> int option"

definition live_set :: "string \<Rightarrow> int \<Rightarrow> intent_store \<Rightarrow> (uuid \<times> int) list" where
  "live_set gid now s = (case in_expire s gid of
     Some e \<Rightarrow> if e \<le> now then [] else in_sets s gid
   | None \<Rightarrow> in_sets s gid)"

definition zadd :: "uuid \<Rightarrow> int \<Rightarrow> (uuid \<times> int) list \<Rightarrow> (uuid \<times> int) list" where
  "zadd m score xs = filter (\<lambda>(m', _). m' \<noteq> m) xs @ [(m, score)]"

definition defaultIntentTTL :: int where "defaultIntentTTL = 60 * Second"
definition intentTTLBuffer :: int where "intentTTLBuffer = 30 * Second"

definition EnterProcessing :: "string \<Rightarrow> uuid \<Rightarrow> int \<Rightarrow> int \<Rightarrow> intent_store \<Rightarrow> (go_error + unit) \<times> intent_store" where
  "EnterProcessing gid txnID ttl0 now s =
    (if \<not> in_up s then (Inl (Errorf ''intents: enter''), s)
     else let ttl = (if ttl0 \<le> 0 then defaultIntentTTL else ttl0);
              expiry = (now + ttl) div Second
          in (Inr (), s \<lparr> in_sets := (in_sets s)(gid := zadd txnID expiry (live_set gid now s)),
                          in_expire := (in_expire s)(gid \<mapsto> now + quot64 (wrap64 (ttl + intentTTLBuffer)) Second * Second) \<rparr>))"

definition ExitProcessing :: "string \<Rightarrow> uuid \<Rightarrow> int \<Rightarrow> intent_store \<Rightarrow> (go_error + unit) \<times> intent_store" where
  "ExitProcessing gid txnID now s =
    (if \<not> in_up s then (Inl (Errorf ''intents: exit''), s)
     else (Inr (), s \<lparr> in_sets := (in_sets s)(gid := filter (\<lambda>(m, _). m \<noteq> txnID) (live_set gid now s)) \<rparr>))"

text \<open>\<open>ZREMRANGEBYSCORE 0 now\<close> and \<open>ZCARD\<close>.\<close>

definition purge_intents :: "string \<Rightarrow> int \<Rightarrow> intent_store \<Rightarrow> intent_store" where
  "purge_intents gid now s = s \<lparr> in_sets := (in_sets s)(gid :=
     filter (\<lambda>(_, score). \<not> (0 \<le> score \<and> score \<le> now div Second)) (live_set gid now s)) \<rparr>"

fun count_intents :: "string list \<Rightarrow> int \<Rightarrow> (string \<rightharpoonup> nat) \<Rightarrow> intent_store \<Rightarrow> (string \<rightharpoonup> nat) \<times> intent_store" where
  "count_intents [] now out s = (out, s)"
| "count_intents (g # gs) now out s = (let s1 = purge_intents g now s
     in count_intents gs now (out(g \<mapsto> length (in_sets s1 g))) s1)"

definition ActiveIntents :: "string list \<Rightarrow> int \<Rightarrow> intent_store \<Rightarrow> (go_error + (string \<rightharpoonup> nat)) \<times> intent_store" where
  "ActiveIntents gids now s =
    (if gids = [] then (Inr (\<lambda>_. None), s)
     else if \<not> in_up s then (Inl (Errorf ''intents: active count''), s)
     else case count_intents gids now (\<lambda>_. None) s of (out, s') \<Rightarrow> (Inr out, s'))"

subsection \<open>Properties\<close>

text \<open>The key's expiry undercuts its members: when a payment with a long timeout is in progress
  and another one with a short timeout enters the same gateway, then 31 seconds after the short
  timeout neither is counted any more, although the first one's own time is not over.\<close>

theorem short_timeout_drops_long_intent:
  assumes "in_up s" "a \<noteq> b" "0 < n" "n + 31 < m" "m < 2 ^ 30" "0 \<le> now"
  shows "fst (ActiveIntents [g] (now + (n + 31) * Second)
     (snd (EnterProcessing g b (n * Second) now (snd (EnterProcessing g a (m * Second) now s))))) = Inr [g \<mapsto> 0]"
proof -
  have "quot64 (wrap64 (n * Second + intentTTLBuffer)) Second = n + 30"
  proof -
    have e: "n * Second + intentTTLBuffer = (n + 30) * Second" by (simp add: intentTTLBuffer_def)
    have "in64 ((n + 30) * Second)" using assms(3-5) by (simp add: in64_def)
    then show ?thesis using assms(3) by (simp add: e quot64_nonneg)
  qed
  then show ?thesis
    using assms by (simp add: EnterProcessing_def ActiveIntents_def purge_intents_def live_set_def Let_def)
qed

theorem short_timeout_drops_long_intent_witness:
  "fst (ActiveIntents [''stripe''] (41 * Second)
     (snd (EnterProcessing ''stripe'' 2 (10 * Second) 0 (snd (EnterProcessing ''stripe'' 1 (300 * Second) 0
       \<lparr> in_up = True, in_sets = (\<lambda>_. []), in_expire = (\<lambda>_. None) \<rparr>))))) = Inr [''stripe'' \<mapsto> 0]"
  using short_timeout_drops_long_intent [of "\<lparr> in_up = True, in_sets = (\<lambda>_. []), in_expire = (\<lambda>_. None) \<rparr>" 1 2 10 300 0 "''stripe''"]
  by simp

end
