(* ===== verification/Store.thy ===== *)
theory Store
  imports Ports Intents
begin

section \<open>The database and its repositories (internal/adapters/postgres)\<close>

text \<open>
  The state of the world that the services act on, transactions, and the repositories. A table is
  the list of its rows; each SQL statement is a function on the tables. A \<open>pgx\<close> transaction is a
  frame on a stack: the changes it has made so far, applied to whatever is committed (READ
  COMMITTED), and whether Postgres has aborted it. \<open>WithinTx\<close> always opens a new frame, as
  \<open>Transactor.WithinTx\<close> always takes a new connection from the pool. A statement that needs a row
  that an enclosing frame has changed waits for a lock that this same goroutine holds; it ends with
  the context, which then fails every later statement too. The audit log is written through the pool
  only, never in a transaction of a service; its rows are kept beside the other tables.

  \<open>w_budget\<close> is the fault model: with \<open>Some n\<close>, the database answers \<open>n\<close> more statements
  (\<open>BEGIN\<close> and \<open>COMMIT\<close> included) and none after that: a crash, a lost connection or a cancelled
  request at an arbitrary point. Stored timestamps are exact here (Postgres keeps microseconds),
  reads go to the primary, and the transaction cache is up.
\<close>

subsection \<open>Tables\<close>

record RefundRow =
  rr_refund :: Refund
  rr_updated_at :: int

record LeaseRow =
  l_idempotency_key :: uuid
  l_payment_intent_id :: uuid
  l_acquired_at :: int
  l_ttl_sec :: int
  l_cached_response :: "json option"

record IdemRow =
  i_composite_key_hash :: string
  i_request_hash :: string
  i_response :: json
  i_status :: string
  i_created_at :: int
  i_expires_at :: int

datatype OutboxStatus = OutboxPending | OutboxPublishing | OutboxPublished | OutboxFailed

record OutboxRow =
  o_id :: uuid
  o_aggregate_id :: uuid
  o_aggregate_type :: string
  o_event_type :: string
  o_payload :: json
  o_shard_index :: nat
  o_event_version :: int
  o_aggregate_version :: int
  o_status :: OutboxStatus
  o_created_at :: int
  o_next_attempt_at :: int
  o_attempts :: int
  o_locked_at :: "int option"
  o_last_error :: string

record DeadLetterRow =
  dl_id :: uuid
  dl_original_event_id :: uuid
  dl_aggregate_id :: uuid
  dl_aggregate_type :: string
  dl_event_type :: string
  dl_payload :: json
  dl_event_version :: int
  dl_aggregate_version :: int
  dl_failure_reason :: string
  dl_failed_at :: int
  dl_resolved_at :: "int option"
  dl_resolved_by :: string

record NotificationRow =
  nr_notification :: Notification
  nr_status :: string
  nr_attempts :: int
  nr_last_error :: "string option"
  nr_sent_at :: "int option"
  nr_created_at :: int
  nr_locked_at :: "int option"

record DeliveryRow =
  dv_id :: uuid
  dv_delivery :: TenantWebhookDelivery
  dv_status :: string
  dv_attempts :: int
  dv_last_error :: string
  dv_next_attempt_at :: int
  dv_locked_at :: "int option"

text \<open>Columns of the reconciliation tables that may be \<open>NULL\<close> and that the code reads into plain strings.\<close>

record JobRow =
  jr_job :: ReconJob
  jr_error :: "string option"

record EntryRow =
  er_entry :: ReconEntry
  er_resolved_by :: "string option"
  er_notes :: "string option"
  er_auto_action :: "string option"
  er_auto_by :: "string option"

record db =
  db_transactions :: "Txn list"
  db_refunds :: "RefundRow list"
  db_leases :: "LeaseRow list"
  db_idem :: "IdemRow list"
  db_outbox :: "OutboxRow list"
  db_dead_letters :: "DeadLetterRow list"
  db_webhook_events :: "(string \<times> string) list"
  db_gateway_metadata :: "(uuid \<times> string \<times> json) list"
  db_notifications :: "NotificationRow list"
  db_tw_deliveries :: "DeliveryRow list"
  db_disputes :: "Dispute list"
  db_evidence :: "Evidence list"
  db_recon_jobs :: "JobRow list"
  db_recon_entries :: "EntryRow list"

record world =
  w_db :: db
  w_tx :: "((db \<Rightarrow> db) \<times> bool) list"
  w_budget :: "nat option"
  w_audit :: "AuditEntry list"
  w_cache :: "uuid \<Rightarrow> Txn option"
  w_refcache :: "string \<times> string \<Rightarrow> uuid option"
  w_cb :: cb_store
  w_intents :: intent_store
  w_bus :: "(uuid \<times> Status) list"
  w_calls :: "gw_call list"
  w_clock :: int
  w_seq :: nat
  w_sent :: "sent_message list"

abbreviation txn_of :: "db \<Rightarrow> uuid \<Rightarrow> Txn option" where
  "txn_of d tid \<equiv> lookup_row t_ID tid (db_transactions d)"

abbreviation refund_of :: "db \<Rightarrow> uuid \<Rightarrow> RefundRow option" where
  "refund_of d tid \<equiv> lookup_row (\<lambda>r. rf_ID (rr_refund r)) tid (db_refunds d)"

subsection \<open>Statements and transactions (transactor.go, outbox.go)\<close>

definition cur_db :: "world \<Rightarrow> db" where
  "cur_db w = (case w_tx w of [] \<Rightarrow> w_db w | (d, _) # _ \<Rightarrow> d (w_db w))"

definition put_db :: "(db \<Rightarrow> db) \<Rightarrow> world \<Rightarrow> world" where
  "put_db f w = (case w_tx w of [] \<Rightarrow> w \<lparr> w_db := f (w_db w) \<rparr>
     | (d, a) # fs \<Rightarrow> w \<lparr> w_tx := (f \<circ> d, a) # fs \<rparr>)"

text \<open>The database answers, on whatever connection.\<close>

definition answer :: "(world, unit) comp" where
  "answer w = (if w_budget w = Some 0 then (Inl (Errorf ''postgres: connection lost''), w)
     else (Inr (), w \<lparr> w_budget := map_option (\<lambda>n. n - 1) (w_budget w) \<rparr>))"

definition aborted :: "world \<Rightarrow> bool" where
  "aborted w = (case w_tx w of [] \<Rightarrow> False | (_, a) # _ \<Rightarrow> a)"

definition stmt :: "(world, unit) comp" where
  "stmt w = (if aborted w then (Inl (Errorf ''current transaction is aborted''), w) else answer w)"

definition query :: "(db \<Rightarrow> 'a) \<Rightarrow> (world, 'a) comp" where
  "query f = bindE stmt (\<lambda>_. reading (\<lambda>w. f (cur_db w)))"

definition exec :: "(db \<Rightarrow> db) \<Rightarrow> (world, unit) comp" where
  "exec f = bindE stmt (\<lambda>_. changing (put_db f))"

text \<open>A statement through the pool, outside the transaction of the context.\<close>

definition exec_pool :: "(db \<Rightarrow> db) \<Rightarrow> (world, unit) comp" where
  "exec_pool f = bindE answer (\<lambda>_. changing (\<lambda>w. w \<lparr> w_db := f (w_db w) \<rparr>))"

text \<open>A statement rejected by a constraint aborts its transaction.\<close>

definition sql_error :: "string \<Rightarrow> (world, 'a) comp" where
  "sql_error s w = (Inl (Errorf s),
     (case w_tx w of [] \<Rightarrow> w | (d, _) # fs \<Rightarrow> w \<lparr> w_tx := (d, True) # fs \<rparr>))"

text \<open>Rows of \<open>transactions\<close> that an enclosing transaction has changed are locked by it.\<close>

definition locked_by_outer :: "uuid \<Rightarrow> world \<Rightarrow> bool" where
  "locked_by_outer tid w = list_ex (\<lambda>(d, _). txn_of (d (w_db w)) tid \<noteq> txn_of (w_db w) tid) (tl (w_tx w))"

definition lock_txn_row :: "uuid \<Rightarrow> (world, unit) comp" where
  "lock_txn_row tid w = (if locked_by_outer tid w
     then (Inl (Errorf ''context deadline exceeded''), w \<lparr> w_budget := Some 0 \<rparr>) else (Inr (), w))"

definition txFromContext :: "(world, unit) comp" where
  "txFromContext w = (if w_tx w = [] then (Inl (Errorf ''postgres: no transaction in context''), w) else (Inr (), w))"

definition begin_tx :: "(world, unit) comp" where
  "begin_tx = bindE answer (\<lambda>_. changing (\<lambda>w. w \<lparr> w_tx := (\<lambda>d. d, False) # w_tx w \<rparr>))"

definition rollback :: "world \<Rightarrow> world" where
  "rollback w = w \<lparr> w_tx := tl (w_tx w) \<rparr>"

definition commit_tx :: "(world, unit) comp" where
  "commit_tx w = (if aborted w then (Inl (Errorf ''commit unexpectedly resulted in rollback''), rollback w)
     else case answer w of
         (Inl e, w') \<Rightarrow> (Inl e, rollback w')
       | (Inr _, w') \<Rightarrow> (Inr (), rollback (w' \<lparr> w_db := cur_db w' \<rparr>)))"

definition WithinTx :: "(world, 'a) comp \<Rightarrow> (world, 'a) comp" where
  "WithinTx fn = bindE (wrapE ''postgres: begin tx'' begin_tx) (\<lambda>_ w.
     case fn w of
       (Inl e, w') \<Rightarrow> (Inl e, rollback w')
     | (Inr a, w') \<Rightarrow> (case commit_tx w' of
           (Inl e, w'') \<Rightarrow> (Inl (Wrapf ''postgres: commit tx'' e), w'')
         | (Inr _, w'') \<Rightarrow> (Inr a, w'')))"

text \<open>\<open>defer\<close>, the clock and the random source.\<close>

definition deferring :: "(world \<Rightarrow> world) \<Rightarrow> (world, 'a) comp \<Rightarrow> (world, 'a) comp" where
  "deferring f m w = (case m w of (r, w') \<Rightarrow> (r, f w'))"

definition Now :: "(world, int) comp" where
  "Now = reading w_clock"

definition NewUUID :: "env \<Rightarrow> (world, uuid) comp" where
  "NewUUID ev w = (Inr (ev_uuid ev (w_seq w)), w \<lparr> w_seq := Suc (w_seq w) \<rparr>)"

subsection \<open>Payments (transaction.go)\<close>

abbreviation ErrNotFound :: go_error where "ErrNotFound \<equiv> Sentinel ''transaction not found''"
abbreviation ErrVersionConflict :: go_error where "ErrVersionConflict \<equiv> Sentinel ''transaction version conflict''"

definition invalidateCache :: "uuid \<Rightarrow> world \<Rightarrow> world" where
  "invalidateCache tid w = w \<lparr> w_cache := (w_cache w)(tid := None) \<rparr>"

text \<open>The table constraints that an inserted row can violate: the primary key and the \<open>CHECK\<close>s.\<close>

definition txn_insert_ok :: "Txn \<Rightarrow> db \<Rightarrow> bool" where
  "txn_insert_ok t d \<longleftrightarrow> txn_of d (t_ID t) = None \<and> 0 < t_Amount t \<and> t_Currency t = ToUpper (t_Currency t) \<and>
     length (t_Currency t) = 3 \<and> t_PaymentMethod t \<in> set validPaymentMethods \<and> t_Status t \<in> set AllStatuses \<and>
     t_CaptureMode t \<in> set validCaptureModes \<and> 1 \<le> t_Version t \<and> 0 < t_EstimatedTimeoutSeconds t"

definition Txn_Insert :: "Txn \<Rightarrow> (world, unit) comp" where
  "Txn_Insert t = bindE txFromContext (\<lambda>_. bindE (query (txn_insert_ok t)) (\<lambda>allowed.
     if allowed then changing (put_db (\<lambda>d. d \<lparr> db_transactions := db_transactions d @ [t] \<rparr>))
     else sql_error ''transaction: insert''))"

definition Txn_GetByID :: "uuid \<Rightarrow> (world, Txn) comp" where
  "Txn_GetByID tid = bindE (reading (\<lambda>w. w_cache w tid)) (\<lambda>c. case c of
       Some txn \<Rightarrow> ok txn
     | None \<Rightarrow> bindE (query (\<lambda>d. txn_of d tid)) (\<lambda>row. case row of
           None \<Rightarrow> throw ErrNotFound
         | Some txn \<Rightarrow> bindE (changing (\<lambda>w. w \<lparr> w_cache := (w_cache w)(tid \<mapsto> txn) \<rparr>)) (\<lambda>_. ok txn)))"

definition GetByGatewayReference :: "string \<Rightarrow> string \<Rightarrow> (world, Txn option) comp" where
  "GetByGatewayReference gatewayID reference =
    (let from_db = query (\<lambda>d. find (\<lambda>t. t_GatewayID t = gatewayID \<and> t_GatewayReferenceID t = reference) (db_transactions d))
     in if reference = '''' then from_db
        else bindE (reading (\<lambda>w. w_refcache w (gatewayID, reference))) (\<lambda>c. case c of
            None \<Rightarrow> from_db
          | Some txnID \<Rightarrow> if txnID = uuid_Nil then from_db
              else bindE (attempt (Txn_GetByID txnID)) (\<lambda>r. case r of Inr txn \<Rightarrow> ok (Some txn) | Inl _ \<Rightarrow> from_db)))"

definition status_cols :: "Txn \<Rightarrow> int \<Rightarrow> Txn \<Rightarrow> Txn" where
  "status_cols t now row = row \<lparr> t_Status := t_Status t, t_Version := t_Version row + 1,
     t_ActualGateway := t_ActualGateway t, t_GatewayReferenceID := t_GatewayReferenceID t,
     t_FailureReason := t_FailureReason t, t_MethodDetails := t_MethodDetails t,
     t_ProcessingStartedAt := t_ProcessingStartedAt t, t_ProcessingTimeout := t_ProcessingTimeout t,
     t_FeeBreakdown := t_FeeBreakdown t, t_GatewayAmount := t_GatewayAmount t,
     t_GatewayCurrency := t_GatewayCurrency t, t_UpdatedAt := now \<rparr>"

text \<open>The guarded \<open>UPDATE .. WHERE id = .. AND version = .. RETURNING version\<close>, with the query that
  tells a missing row from a stale version.\<close>

definition sql_update_status :: "int \<Rightarrow> Txn \<Rightarrow> db \<Rightarrow> go_error + (Txn \<times> db)" where
  "sql_update_status now t d = (case txn_of d (t_ID t) of
       None \<Rightarrow> Inl ErrNotFound
     | Some row \<Rightarrow>
         if t_Version row \<noteq> t_Version t then Inl ErrVersionConflict
         else Inr (t \<lparr> t_Version := t_Version row + 1 \<rparr>,
                   d \<lparr> db_transactions := update_row t_ID (t_ID t) (status_cols t now) (db_transactions d) \<rparr>))"

definition run_update :: "(db \<Rightarrow> go_error + ('a \<times> db)) \<Rightarrow> (world, 'a) comp" where
  "run_update upd = bindE stmt (\<lambda>_. bindE (reading (\<lambda>w. upd (cur_db w))) (\<lambda>r. case r of
       Inl e \<Rightarrow> bindE stmt (\<lambda>_. throw e)
     | Inr (a, _) \<Rightarrow> bindE (changing (put_db (\<lambda>d. case upd d of Inr (_, d') \<Rightarrow> d' | Inl _ \<Rightarrow> d))) (\<lambda>_. ok a)))"

definition Txn_UpdateStatus :: "Txn \<Rightarrow> (world, Txn) comp" where
  "Txn_UpdateStatus t = deferring (invalidateCache (t_ID t))
    (bindE txFromContext (\<lambda>_. bindE Now (\<lambda>now. bindE (lock_txn_row (t_ID t)) (\<lambda>_.
       if t_Status t \<notin> set AllStatuses then bindE stmt (\<lambda>_. sql_error ''transaction: update status'')
       else run_update (sql_update_status now t)))))"

definition Txn_SetCancelIntent :: "uuid \<Rightarrow> string \<Rightarrow> string \<Rightarrow> (world, bool) comp" where
  "Txn_SetCancelIntent tid actor via = deferring (invalidateCache tid)
    (bindE Now (\<lambda>now. bindE (lock_txn_row tid) (\<lambda>_. bindE (query (\<lambda>d. txn_of d tid)) (\<lambda>row.
       case row of
         None \<Rightarrow> ok False
       | Some t \<Rightarrow>
           if t_CancelIntent t then ok False
           else if actor \<notin> set [ActorSystem, ActorTenant, ActorOps, ActorGateway] \<or>
                   via \<notin> set [''api'', ''dashboard'', ''ops-tool'']
             then sql_error ''transaction: set cancel intent''
           else bindE (changing (put_db (\<lambda>d. d \<lparr> db_transactions := update_row t_ID tid
                   (\<lambda>r. r \<lparr> t_CancelIntent := True, t_CancelRequestedBy := actor, t_CancelRequestedAt := Some now,
                            t_CancelRequestedVia := via, t_UpdatedAt := now \<rparr>) (db_transactions d) \<rparr>)))
                (\<lambda>_. ok True)))))"

definition lease_overdue :: "int \<Rightarrow> Txn \<Rightarrow> bool" where
  "lease_overdue now t = (t_Status t = StatusProcessing \<and>
     (case (t_ProcessingStartedAt t, t_ProcessingTimeout t) of (Some s, Some d) \<Rightarrow> s + d < now | _ \<Rightarrow> False))"

definition ListExpiredLeaseIDs :: "(world, uuid list) comp" where
  "ListExpiredLeaseIDs = wrapE ''transaction: list expired lease ids'' (bindE Now (\<lambda>now.
     query (\<lambda>d. map t_ID (filter (lease_overdue now) (db_transactions d)))))"

definition sql_update_reference :: "int \<Rightarrow> uuid \<Rightarrow> string \<Rightarrow> int \<Rightarrow> db \<Rightarrow> go_error + (string \<times> db)" where
  "sql_update_reference now tid ref expectedVersion d = (case txn_of d tid of
       None \<Rightarrow> Inl ErrNotFound
     | Some row \<Rightarrow>
         if t_Version row \<noteq> expectedVersion then Inl ErrVersionConflict
         else Inr (t_GatewayID row, d \<lparr> db_transactions := update_row t_ID tid
                (\<lambda>r. r \<lparr> t_GatewayReferenceID := ref, t_UpdatedAt := now \<rparr>) (db_transactions d) \<rparr>))"

definition UpdateGatewayReference :: "uuid \<Rightarrow> string \<Rightarrow> int \<Rightarrow> (world, unit) comp" where
  "UpdateGatewayReference tid gatewayRefID expectedVersion = deferring (invalidateCache tid)
    (bindE txFromContext (\<lambda>_. bindE Now (\<lambda>now. bindE (lock_txn_row tid) (\<lambda>_.
     bindE (run_update (sql_update_reference now tid gatewayRefID expectedVersion)) (\<lambda>gwID.
       if gatewayRefID = '''' then ok ()
       else bindE (attempt stmt) (\<lambda>r. case r of
           Inl _ \<Rightarrow> ok ()
         | Inr _ \<Rightarrow> if gwID = '''' then ok ()
             else changing (\<lambda>w. w \<lparr> w_refcache := (w_refcache w)((gwID, gatewayRefID) \<mapsto> tid) \<rparr>)))))))"

end
