(* ===== verification/Repositories.thy ===== *)
theory Repositories
  imports Store
begin

section \<open>The other repositories (internal/adapters/postgres)\<close>

text \<open>
  Refunds, leases, idempotency keys, inbound webhook events, the outbox, the audit log,
  notifications and tenant webhooks. Pure functions \<open>sql_..\<close> are the single statements, on which the
  interfaces of the prelude are interpreted; the repository methods run them on the world.
\<close>

subsection \<open>Refunds (refund.go)\<close>

abbreviation ErrRefundNotFound :: go_error where "ErrRefundNotFound \<equiv> Sentinel ''refund not found''"
abbreviation ErrRefundVersionConflict :: go_error where "ErrRefundVersionConflict \<equiv> Sentinel ''refund version conflict''"

abbreviation rr_id :: "RefundRow \<Rightarrow> uuid" where "rr_id r \<equiv> rf_ID (rr_refund r)"

fun refund_status_known :: "RefundStatus \<Rightarrow> bool" where
  "refund_status_known (RStatusOther _) = False"
| "refund_status_known _ = True"

definition refund_insert_ok :: "Refund \<Rightarrow> db \<Rightarrow> bool" where
  "refund_insert_ok rf d \<longleftrightarrow> refund_of d (rf_ID rf) = None \<and> txn_of d (rf_TransactionID rf) \<noteq> None \<and> 0 < rf_Amount rf \<and>
     refund_status_known (rf_Status rf) \<and> 1 \<le> rf_Version rf \<and> 0 \<le> rf_Attempts rf"

definition Refund_Insert :: "Refund \<Rightarrow> (world, unit) comp" where
  "Refund_Insert rf = bindE txFromContext (\<lambda>_. bindE Now (\<lambda>now. bindE (query (refund_insert_ok rf)) (\<lambda>allowed.
     if allowed then changing (put_db (\<lambda>d. d \<lparr> db_refunds := db_refunds d @ [\<lparr> rr_refund = rf, rr_updated_at = now \<rparr>] \<rparr>))
     else sql_error ''refund: insert'')))"

definition Refund_GetByID :: "uuid \<Rightarrow> (world, Refund) comp" where
  "Refund_GetByID rid = bindE (query (\<lambda>d. refund_of d rid)) (\<lambda>row. case row of
     None \<Rightarrow> throw ErrRefundNotFound | Some r \<Rightarrow> ok (rr_refund r))"

text \<open>\<open>SUM(amount)\<close> over the refunds that are under way or done; a sum that is no \<open>int64\<close> does not
  scan.\<close>

definition active_refund :: "uuid \<Rightarrow> RefundRow \<Rightarrow> bool" where
  "active_refund tid r \<longleftrightarrow> rf_TransactionID (rr_refund r) = tid \<and>
     rf_Status (rr_refund r) \<in> {StatusInitiated, RStatusProcessing, RStatusRefunded}"

definition active_sum :: "uuid \<Rightarrow> db \<Rightarrow> int" where
  "active_sum tid d = sum_list (map (\<lambda>r. rf_Amount (rr_refund r)) (filter (active_refund tid) (db_refunds d)))"

definition SumActiveRefunds :: "uuid \<Rightarrow> (world, int) comp" where
  "SumActiveRefunds tid = bindE txFromContext (\<lambda>_. bindE (query (active_sum tid)) (\<lambda>s.
     if in64 s then ok s else throw (Errorf ''refund: sum active refunds'')))"

definition refund_cols :: "Refund \<Rightarrow> int \<Rightarrow> RefundRow \<Rightarrow> RefundRow" where
  "refund_cols rf now row = \<lparr> rr_refund = (rr_refund row) \<lparr> rf_Status := rf_Status rf,
       rf_Version := rf_Version (rr_refund row) + 1, rf_GatewayRefundID := rf_GatewayRefundID rf,
       rf_ActualGateway := rf_ActualGateway rf, rf_Attempts := rf_Attempts rf,
       rf_FailureReason := rf_FailureReason rf, rf_ResolvedAt := rf_ResolvedAt rf \<rparr>,
     rr_updated_at = now \<rparr>"

definition sql_update_refund :: "int \<Rightarrow> Refund \<Rightarrow> db \<Rightarrow> go_error + (Refund \<times> db)" where
  "sql_update_refund now rf d = (case refund_of d (rf_ID rf) of
       None \<Rightarrow> Inl ErrRefundNotFound
     | Some row \<Rightarrow>
         if rf_Version (rr_refund row) \<noteq> rf_Version rf then Inl ErrRefundVersionConflict
         else Inr (rf \<lparr> rf_Version := rf_Version (rr_refund row) + 1 \<rparr>,
                   d \<lparr> db_refunds := update_row rr_id (rf_ID rf) (refund_cols rf now) (db_refunds d) \<rparr>))"

definition Refund_UpdateStatus :: "Refund \<Rightarrow> (world, Refund) comp" where
  "Refund_UpdateStatus rf = bindE txFromContext (\<lambda>_. bindE Now (\<lambda>now.
     if \<not> refund_status_known (rf_Status rf) \<or> rf_Attempts rf < 0
     then bindE stmt (\<lambda>_. sql_error ''refund: update status'')
     else run_update (sql_update_refund now rf)))"

definition ExistsByReason :: "uuid \<Rightarrow> string \<Rightarrow> (world, bool) comp" where
  "ExistsByReason tid reason = wrapE ''refund: exists by reason'' (query (\<lambda>d.
     list_ex (\<lambda>r. rf_TransactionID (rr_refund r) = tid \<and> rf_Reason (rr_refund r) = reason) (db_refunds d)))"

definition LockParentTransaction :: "uuid \<Rightarrow> (world, unit) comp" where
  "LockParentTransaction tid = bindE txFromContext (\<lambda>_. bindE (lock_txn_row tid) (\<lambda>_.
     bindE (query (\<lambda>d. txn_of d tid)) (\<lambda>row. case row of None \<Rightarrow> throw ErrNotFound | Some _ \<Rightarrow> ok ())))"

text \<open>The guarded single-row claim; \<open>None\<close> means that another caller won.\<close>

definition sql_claim_refund :: "int \<Rightarrow> Refund \<Rightarrow> db \<Rightarrow> (Refund \<times> db) option" where
  "sql_claim_refund now rf d = (case refund_of d (rf_ID rf) of
       None \<Rightarrow> None
     | Some row \<Rightarrow>
         if rf_Status (rr_refund row) \<in> {StatusInitiated, RStatusProcessing} \<and> rf_Version (rr_refund row) = rf_Version rf
         then Some (rf \<lparr> rf_Status := RStatusProcessing, rf_Attempts := rf_Attempts rf + 1,
                         rf_Version := rf_Version (rr_refund row) + 1 \<rparr>,
           d \<lparr> db_refunds := update_row rr_id (rf_ID rf)
                (\<lambda>r. \<lparr> rr_refund = (rr_refund r) \<lparr> rf_Status := RStatusProcessing,
                         rf_Version := rf_Version (rr_refund r) + 1, rf_Attempts := rf_Attempts (rr_refund r) + 1 \<rparr>,
                       rr_updated_at = now \<rparr>) (db_refunds d) \<rparr>)
         else None)"

definition ClaimProcessing :: "Refund \<Rightarrow> (world, Refund option) comp" where
  "ClaimProcessing rf = bindE Now (\<lambda>now. bindE (query (\<lambda>d. sql_claim_refund now rf d)) (\<lambda>r. case r of
       None \<Rightarrow> ok None
     | Some (rf', _) \<Rightarrow> bindE (changing (put_db (\<lambda>d. case sql_claim_refund now rf d of
           Some (_, d') \<Rightarrow> d' | None \<Rightarrow> d))) (\<lambda>_. ok (Some rf'))))"

definition ListStaleRefunds :: "int \<Rightarrow> int \<Rightarrow> int \<Rightarrow> (world, uuid list) comp" where
  "ListStaleRefunds olderThan maxAttempts limit = bindE Now (\<lambda>now.
     let limit = (if limit \<le> 0 then 100 else limit)
     in query (\<lambda>d. map rr_id (take (nat limit) (sort_key rr_updated_at (filter (\<lambda>r.
          rf_Status (rr_refund r) \<in> {StatusInitiated, RStatusProcessing} \<and> rf_Attempts (rr_refund r) < maxAttempts \<and>
          rr_updated_at r < now - olderThan) (db_refunds d))))))"

subsection \<open>Leases (lease.go)\<close>

definition sql_insert_lease :: "int \<Rightarrow> uuid \<Rightarrow> int \<Rightarrow> uuid \<Rightarrow> db \<Rightarrow> bool \<times> db" where
  "sql_insert_lease now tid ttlSec key d =
    (if lookup_row l_idempotency_key key (db_leases d) \<noteq> None then (False, d)
     else (True, d \<lparr> db_leases := db_leases d @ [\<lparr> l_idempotency_key = key, l_payment_intent_id = tid,
        l_acquired_at = now, l_ttl_sec = ttlSec, l_cached_response = None \<rparr>] \<rparr>))"

text \<open>The insert runs in the transaction of the context (\<open>Acquire\<close>) or on the pool
  (\<open>TryAcquireDirect\<close>); the foreign key and the \<open>CHECK\<close> on the TTL can reject it.\<close>

definition lease_ok_row :: "uuid \<Rightarrow> int \<Rightarrow> db \<Rightarrow> bool" where
  "lease_ok_row tid ttlSec d \<longleftrightarrow> 0 < ttlSec \<and> txn_of d tid \<noteq> None"

definition Lease_Acquire :: "uuid \<Rightarrow> uuid \<Rightarrow> int \<Rightarrow> (world, bool \<times> json option) comp" where
  "Lease_Acquire key tid ttlSec = bindE txFromContext (\<lambda>_. bindE Now (\<lambda>now.
     bindE (query (\<lambda>d. (fst (sql_insert_lease now tid ttlSec key d), lease_ok_row tid ttlSec d))) (\<lambda>(fresh, allowed).
       if fresh then if allowed
         then bindE (changing (put_db (\<lambda>d. snd (sql_insert_lease now tid ttlSec key d)))) (\<lambda>_. ok (True, None))
         else sql_error ''lease: acquire''
       else bindE (query (\<lambda>d. lookup_row l_idempotency_key key (db_leases d))) (\<lambda>row. case row of
           None \<Rightarrow> ok (False, None) | Some l \<Rightarrow> ok (False, l_cached_response l)))))"

definition WriteCachedResponse :: "uuid \<Rightarrow> json \<Rightarrow> (world, unit) comp" where
  "WriteCachedResponse key response = bindE txFromContext (\<lambda>_. wrapE ''lease: write cached response''
     (exec (\<lambda>d. d \<lparr> db_leases := update_row l_idempotency_key key (\<lambda>l. l \<lparr> l_cached_response := Some response \<rparr>) (db_leases d) \<rparr>)))"

definition TryAcquireDirect :: "uuid \<Rightarrow> uuid \<Rightarrow> int \<Rightarrow> (world, bool) comp" where
  "TryAcquireDirect key tid ttlSec = wrapE ''lease: try acquire direct'' (bindE Now (\<lambda>now. bindE answer (\<lambda>_.
     bindE (reading (\<lambda>w. (fst (sql_insert_lease now tid ttlSec key (w_db w)), lease_ok_row tid ttlSec (w_db w)))) (\<lambda>(fresh, allowed).
       if fresh then if allowed
         then bindE (changing (\<lambda>w. w \<lparr> w_db := snd (sql_insert_lease now tid ttlSec key (w_db w)) \<rparr>)) (\<lambda>_. ok True)
         else throw (Errorf ''processing_lease constraint'')
       else ok False))))"

definition Lease_DeleteExpired :: "(world, int) comp" where
  "Lease_DeleteExpired = wrapE ''lease: delete expired'' (bindE Now (\<lambda>now.
     let stale = (\<lambda>l. l_acquired_at l < now - l_ttl_sec l * Second)
     in bindE (reading (\<lambda>w. int (length (filter stale (db_leases (w_db w)))))) (\<lambda>n.
        bindE (exec_pool (\<lambda>d. d \<lparr> db_leases := filter (\<lambda>l. \<not> stale l) (db_leases d) \<rparr>)) (\<lambda>_. ok n))))"

subsection \<open>Idempotency keys (idempotency.go)\<close>

definition sql_reserve :: "int \<Rightarrow> string \<Rightarrow> string \<Rightarrow> db \<Rightarrow> bool \<times> db" where
  "sql_reserve now requestHash composite d =
    (if lookup_row i_composite_key_hash composite (db_idem d) \<noteq> None then (False, d)
     else (True, d \<lparr> db_idem := db_idem d @ [\<lparr> i_composite_key_hash = composite, i_request_hash = requestHash,
        i_response = JObj [], i_status = ''PROCESSING'', i_created_at = now, i_expires_at = now + 86400 * Second \<rparr>] \<rparr>))"

definition Reserve :: "string \<Rightarrow> string \<Rightarrow> (world, bool) comp" where
  "Reserve composite requestHash = wrapE ''idempotency: reserve'' (bindE Now (\<lambda>now.
     bindE (query (\<lambda>d. fst (sql_reserve now requestHash composite d))) (\<lambda>fresh.
     bindE (changing (put_db (\<lambda>d. snd (sql_reserve now requestHash composite d)))) (\<lambda>_. ok fresh))))"

definition Lookup :: "string \<Rightarrow> (world, IdemRow option) comp" where
  "Lookup composite = wrapE ''idempotency: lookup'' (query (\<lambda>d. lookup_row i_composite_key_hash composite (db_idem d)))"

definition Complete :: "string \<Rightarrow> json \<Rightarrow> (world, unit) comp" where
  "Complete composite response = wrapE ''idempotency: complete'' (exec (\<lambda>d. d \<lparr> db_idem :=
     update_row i_composite_key_hash composite (\<lambda>r. r \<lparr> i_response := response, i_status := ''COMPLETED'' \<rparr>) (db_idem d) \<rparr>))"

definition Release :: "string \<Rightarrow> (world, unit) comp" where
  "Release composite = wrapE ''idempotency: release'' (exec (\<lambda>d. d \<lparr> db_idem :=
     filter (\<lambda>r. i_composite_key_hash r \<noteq> composite) (db_idem d) \<rparr>))"

text \<open>\<open>int64(olderThan.Seconds())\<close> drops the fraction of a second.\<close>

definition SweepStaleProcessing :: "int \<Rightarrow> (world, int) comp" where
  "SweepStaleProcessing olderThan = wrapE ''idempotency: sweep stale processing'' (bindE Now (\<lambda>now.
     let stale = (\<lambda>r. i_status r = ''PROCESSING'' \<and> i_created_at r < now - quot64 olderThan Second * Second)
     in bindE (reading (\<lambda>w. int (length (filter stale (db_idem (w_db w)))))) (\<lambda>n.
        bindE (exec_pool (\<lambda>d. d \<lparr> db_idem := filter (\<lambda>r. \<not> stale r) (db_idem d) \<rparr>)) (\<lambda>_. ok n))))"

definition Idem_DeleteExpired :: "(world, int) comp" where
  "Idem_DeleteExpired = wrapE ''idempotency: delete expired'' (bindE Now (\<lambda>now.
     bindE (reading (\<lambda>w. int (length (filter (\<lambda>r. i_expires_at r < now) (db_idem (w_db w)))))) (\<lambda>n.
     bindE (exec_pool (\<lambda>d. d \<lparr> db_idem := filter (\<lambda>r. \<not> i_expires_at r < now) (db_idem d) \<rparr>)) (\<lambda>_. ok n))))"

subsection \<open>Inbound webhooks (webhook.go)\<close>

definition sql_record_event :: "string \<times> string \<Rightarrow> db \<Rightarrow> bool \<times> db" where
  "sql_record_event k d = (if k \<in> set (db_webhook_events d) then (False, d)
     else (True, d \<lparr> db_webhook_events := db_webhook_events d @ [k] \<rparr>))"

definition RecordEvent :: "string \<Rightarrow> string \<Rightarrow> (world, bool) comp" where
  "RecordEvent eventID gatewayID = bindE txFromContext (\<lambda>_. wrapE ''webhook: record event''
     (bindE (query (\<lambda>d. fst (sql_record_event (eventID, gatewayID) d))) (\<lambda>fresh.
      bindE (changing (put_db (\<lambda>d. snd (sql_record_event (eventID, gatewayID) d)))) (\<lambda>_. ok fresh))))"

definition InsertGatewayMetadata :: "uuid \<Rightarrow> string \<Rightarrow> json \<Rightarrow> (world, unit) comp" where
  "InsertGatewayMetadata tid gatewayID payload = bindE txFromContext (\<lambda>_.
     bindE (query (\<lambda>d. txn_of d tid \<noteq> None)) (\<lambda>allowed.
     if allowed then changing (put_db (\<lambda>d. d \<lparr> db_gateway_metadata := db_gateway_metadata d @ [(tid, gatewayID, payload)] \<rparr>))
     else sql_error ''webhook: insert raw metadata''))"

subsection \<open>The outbox (outbox.go)\<close>

text \<open>\<open>ShardIndex\<close>: FNV-1a over the 16 bytes of the identifier, most significant byte first.\<close>

definition uuid_bytes :: "uuid \<Rightarrow> 8 word list" where
  "uuid_bytes u = map (\<lambda>i. ucast (drop_bit (8 * (15 - i)) u)) [0 ..< 16]"

definition fnv1a :: "8 word list \<Rightarrow> 32 word" where
  "fnv1a bs = fold (\<lambda>b h. (Bit_Operations.xor h (ucast b)) * 16777619) bs 2166136261"

definition ShardIndex :: "uuid \<Rightarrow> nat \<Rightarrow> nat" where
  "ShardIndex aggregateID shardCount = nat (uint (fnv1a (uuid_bytes aggregateID)) mod int shardCount)"

definition outbox_row :: "env \<Rightarrow> OutboxEvent \<Rightarrow> uuid \<Rightarrow> int \<Rightarrow> OutboxRow" where
  "outbox_row ev e rid now = \<lparr> o_id = rid, o_aggregate_id = oe_AggregateID e, o_aggregate_type = oe_AggregateType e,
     o_event_type = oe_EventType e, o_payload = oe_Payload e,
     o_shard_index = ShardIndex (oe_AggregateID e) (ev_shard_count ev),
     o_event_version = (if oe_EventVersion e = 0 then 1 else oe_EventVersion e),
     o_aggregate_version = oe_AggregateVersion e, o_status = OutboxPending, o_created_at = now,
     o_next_attempt_at = (case oe_NextAttemptAt e of None \<Rightarrow> now | Some t \<Rightarrow> t), o_attempts = 0,
     o_locked_at = None, o_last_error = '''' \<rparr>"

definition Outbox_Write :: "env \<Rightarrow> OutboxEvent \<Rightarrow> (world, unit) comp" where
  "Outbox_Write ev e = bindE txFromContext (\<lambda>_.
     bindE (if oe_ID e = uuid_Nil then NewUUID ev else ok (oe_ID e)) (\<lambda>rid. bindE Now (\<lambda>now.
     wrapE ''outbox: write event'' (exec (\<lambda>d. d \<lparr> db_outbox := db_outbox d @ [outbox_row ev e rid now] \<rparr>)))))"

subsection \<open>Audit log (audit.go)\<close>

text \<open>The insert goes through the pool: the foreign key sees committed payments only. The primary
  key is the identifier that the caller put into the entry.\<close>

definition audit_insert_ok :: "AuditEntry \<Rightarrow> world \<Rightarrow> bool" where
  "audit_insert_ok e w \<longleftrightarrow> ae_ID e \<notin> ae_ID ` set (w_audit w) \<and>
     ae_Actor e \<in> set [ActorSystem, ActorTenant, ActorOps, ActorGateway] \<and>
     (case ae_TransactionID e of None \<Rightarrow> True | Some tid \<Rightarrow> txn_of (w_db w) tid \<noteq> None)"

definition WriteEntry :: "AuditEntry \<Rightarrow> (world, unit) comp" where
  "WriteEntry e = wrapE ''audit: insert entry'' (bindE answer (\<lambda>_. bindE (reading (audit_insert_ok e)) (\<lambda>allowed.
     if allowed then changing (\<lambda>w. w \<lparr> w_audit := w_audit w @ [e] \<rparr>)
     else throw (Errorf ''audit_log constraint''))))"

text \<open>The services build entries without an identifier and ignore the outcome of the write.\<close>

definition audit :: "uuid \<Rightarrow> string \<Rightarrow> string \<Rightarrow> string \<Rightarrow> string \<Rightarrow> string \<Rightarrow> (world, unit) comp" where
  "audit tid eventType actor previous new reason =
     bindE (attempt (WriteEntry \<lparr> ae_ID = uuid_Nil, ae_TransactionID = Some tid, ae_EventType = eventType,
       ae_Actor = actor, ae_PreviousState = previous, ae_NewState = new, ae_Reason = reason \<rparr>)) (\<lambda>_. ok ())"

subsection \<open>Notifications and tenant webhooks (notification, tenantwebhook)\<close>

definition Notification_Insert :: "Notification \<Rightarrow> (world, unit) comp" where
  "Notification_Insert n = bindE txFromContext (\<lambda>_. bindE Now (\<lambda>now.
     exec (\<lambda>d. d \<lparr> db_notifications := db_notifications d @ [\<lparr> nr_notification = n, nr_status = ''PENDING'', nr_attempts = 0,
       nr_last_error = None, nr_sent_at = None, nr_created_at = now, nr_locked_at = None \<rparr>] \<rparr>)))"

definition Notification_Dispatch :: "env \<Rightarrow> Notification \<Rightarrow> (world, unit) comp" where
  "Notification_Dispatch ev n = bindE (lift (ev_preferences ev (n_TenantID n) (n_UserID n))) (\<lambda>prefs.
     let pref = find (\<lambda>p. p_Type p = n_Type n \<and> p_Channel p = n_Channel n) prefs;
         enabled = (case pref of None \<Rightarrow> True | Some p \<Rightarrow> p_Enabled p);
         recipient = (case pref of None \<Rightarrow> n_Recipient n
                        | Some p \<Rightarrow> if p_RecipientOverride p \<noteq> '''' then p_RecipientOverride p else n_Recipient n)
     in if \<not> enabled then ok ()
        else bindE (NewUUID ev) (\<lambda>nid. Notification_Insert (n \<lparr> n_Recipient := recipient, n_ID := nid \<rparr>)))"

definition WriteDelivery :: "env \<Rightarrow> TenantWebhookDelivery \<Rightarrow> (world, unit) comp" where
  "WriteDelivery ev d = bindE txFromContext (\<lambda>_. bindE (NewUUID ev) (\<lambda>did. bindE Now (\<lambda>now.
     bindE (query (\<lambda>b. txn_of b (twd_TransactionID d) \<noteq> None)) (\<lambda>allowed.
     if allowed then changing (put_db (\<lambda>b. b \<lparr> db_tw_deliveries := db_tw_deliveries b @ [\<lparr> dv_id = did, dv_delivery = d,
       dv_status = ''PENDING'', dv_attempts = 0, dv_last_error = '''', dv_next_attempt_at = now, dv_locked_at = None \<rparr>] \<rparr>))
     else sql_error ''merchant webhook: write delivery''))))"

definition TenantWebhook_Dispatch :: "env \<Rightarrow> uuid \<Rightarrow> uuid \<Rightarrow> string \<Rightarrow> json \<Rightarrow> (world, unit) comp" where
  "TenantWebhook_Dispatch ev tenantID tid eventType payload =
    (case ev_tenant_webhook ev tenantID of
       Inl e \<Rightarrow> throw (Wrapf ''tenant_webhook: load config'' e)
     | Inr None \<Rightarrow> ok ()
     | Inr (Some cfg) \<Rightarrow>
         if \<not> twc_IsActive cfg \<or> twc_EndpointURL cfg = '''' then ok ()
         else WriteDelivery ev \<lparr> twd_TenantID = tenantID, twd_TransactionID = tid, twd_EventType = eventType,
                twd_Payload = payload, twd_EndpointURL = twc_EndpointURL cfg \<rparr>)"

definition Publish :: "uuid \<Rightarrow> Status \<Rightarrow> (world, unit) comp" where
  "Publish tid st = changing (\<lambda>w. w \<lparr> w_bus := w_bus w @ [(tid, st)] \<rparr>)"

end
