(* ===== verification/Store_Rules.thy ===== *)
theory Store_Rules
  imports Repositories
begin

section \<open>Rules for database code\<close>

text \<open>
  What the repositories promise, in the form in which the service proofs use it: the interfaces of
  the prelude interpreted on the SQL statements, an invariant \<open>tx_inv\<close> that every operation inside a
  transaction keeps (the committed tables do not change, the frames below stay, cached payments are
  committed ones), the effect of each operation that succeeds, and the rules for \<open>WithinTx\<close>.
\<close>

subsection \<open>The interfaces\<close>

lemma status_cols_simps [simp]:
  "t_ID (status_cols t now r) = t_ID r" "t_Status (status_cols t now r) = t_Status t"
  "t_Version (status_cols t now r) = t_Version r + 1" "t_Amount (status_cols t now r) = t_Amount r"
  "t_CancelIntent (status_cols t now r) = t_CancelIntent r" "t_TenantID (status_cols t now r) = t_TenantID r"
  by (simp_all add: status_cols_def)

lemma refund_cols_simps [simp]:
  "rf_ID (rr_refund (refund_cols rf now r)) = rf_ID (rr_refund r)"
  "rf_Status (rr_refund (refund_cols rf now r)) = rf_Status rf"
  "rf_Version (rr_refund (refund_cols rf now r)) = rf_Version (rr_refund r) + 1"
  "rf_Amount (rr_refund (refund_cols rf now r)) = rf_Amount (rr_refund r)"
  "rf_TransactionID (rr_refund (refund_cols rf now r)) = rf_TransactionID (rr_refund r)"
  by (simp_all add: refund_cols_def)

interpretation txns: optimistic_store txn_of t_ID t_Version "sql_update_status now" for now
  by unfold_locales (auto simp: sql_update_status_def split: option.splits if_splits)

interpretation refunds: optimistic_store "\<lambda>d k. map_option rr_refund (refund_of d k)" rf_ID rf_Version "sql_update_refund now" for now
  by unfold_locales (auto simp: sql_update_refund_def split: option.splits if_splits)

lemma lookup_row_snoc [simp]:
  "lookup_row key k (rs @ [r]) = (case lookup_row key k rs of None \<Rightarrow> if key r = k then Some r else None | Some x \<Rightarrow> Some x)"
  by (simp add: lookup_row_append split: option.split)

interpretation leases: claim_table "\<lambda>key. sql_insert_lease now tid ttl key" "\<lambda>d. l_idempotency_key ` set (db_leases d)"
  for now tid ttl
  by unfold_locales (auto simp: sql_insert_lease_def lookup_row_None)

interpretation idem_keys: claim_table "\<lambda>c. sql_reserve now rh c" "\<lambda>d. i_composite_key_hash ` set (db_idem d)" for now rh
  by unfold_locales (auto simp: sql_reserve_def lookup_row_None)

interpretation webhook_keys: claim_table sql_record_event "\<lambda>d. set (db_webhook_events d)"
  by unfold_locales (auto simp: sql_record_event_def)

subsection \<open>When a statement succeeds\<close>

definition can :: "world \<Rightarrow> bool" where
  "can w \<longleftrightarrow> \<not> aborted w \<and> w_budget w \<noteq> Some 0"

definition spend :: "world \<Rightarrow> world" where
  "spend w = w \<lparr> w_budget := map_option (\<lambda>n. n - 1) (w_budget w) \<rparr>"

lemma spend_simps [simp]:
  "w_db (spend w) = w_db w" "w_tx (spend w) = w_tx w" "cur_db (spend w) = cur_db w" "aborted (spend w) = aborted w"
  "w_cache (spend w) = w_cache w" "w_calls (spend w) = w_calls w" "w_clock (spend w) = w_clock w"
  "w_seq (spend w) = w_seq w" "w_audit (spend w) = w_audit w" "w_bus (spend w) = w_bus w" "w_cb (spend w) = w_cb w"
  "w_refcache (spend w) = w_refcache w"
  by (simp_all add: spend_def cur_db_def aborted_def split: list.split)

lemma put_db_simps [simp]:
  "cur_db (put_db f w) = f (cur_db w)" "aborted (put_db f w) = aborted w" "w_budget (put_db f w) = w_budget w"
  "w_cache (put_db f w) = w_cache w" "w_calls (put_db f w) = w_calls w" "w_clock (put_db f w) = w_clock w"
  "w_seq (put_db f w) = w_seq w" "w_audit (put_db f w) = w_audit w" "w_bus (put_db f w) = w_bus w"
  "w_cb (put_db f w) = w_cb w" "w_refcache (put_db f w) = w_refcache w"
  "w_tx (put_db f w) = [] \<longleftrightarrow> w_tx w = []" "tl (w_tx (put_db f w)) = tl (w_tx w)"
  by (auto simp: put_db_def cur_db_def aborted_def split: list.splits)

lemma put_db_in_tx [simp]: "w_tx w \<noteq> [] \<Longrightarrow> w_db (put_db f w) = w_db w"
  by (auto simp: put_db_def split: list.splits)

lemma stmt_Inr [run]: "stmt w = (Inr u, w') \<longleftrightarrow> can w \<and> w' = spend w"
  by (auto simp: stmt_def answer_def can_def spend_def)

lemma answer_Inr [run]: "answer w = (Inr u, w') \<longleftrightarrow> w_budget w \<noteq> Some 0 \<and> w' = spend w"
  by (auto simp: answer_def spend_def)

lemma query_Inr [run]: "query f w = (Inr a, w') \<longleftrightarrow> can w \<and> a = f (cur_db w) \<and> w' = spend w"
  by (auto simp: query_def run)

lemma exec_Inr [run]: "exec f w = (Inr u, w') \<longleftrightarrow> can w \<and> w' = put_db f (spend w)"
  by (auto simp: exec_def run)

lemma sql_error_Inr [run]: "sql_error s w = (Inr u, w') \<longleftrightarrow> False"
  by (simp add: sql_error_def)

lemma txFromContext_Inr [run]: "txFromContext w = (Inr u, w') \<longleftrightarrow> w_tx w \<noteq> [] \<and> w' = w"
  by (auto simp: txFromContext_def)

lemma lock_txn_row_Inr [run]: "lock_txn_row i w = (Inr u, w') \<longleftrightarrow> \<not> locked_by_outer i w \<and> w' = w"
  by (auto simp: lock_txn_row_def)

lemma Now_Inr [run]: "Now w = (Inr t, w') \<longleftrightarrow> t = w_clock w \<and> w' = w"
  by (simp add: Now_def run)

lemma NewUUID_Inr [run]: "NewUUID ev w = (Inr u, w') \<longleftrightarrow> u = ev_uuid ev (w_seq w) \<and> w' = w \<lparr> w_seq := Suc (w_seq w) \<rparr>"
  by (auto simp: NewUUID_def)

lemma deferring_Inr [run]: "deferring f m w = (Inr a, w') \<longleftrightarrow> (\<exists>w1. m w = (Inr a, w1) \<and> w' = f w1)"
  by (auto simp: deferring_def split: prod.splits)

lemma run_update_Inr [run]:
  "run_update upd w = (Inr a, w') \<longleftrightarrow> can w \<and>
     (\<exists>d'. upd (cur_db w) = Inr (a, d') \<and>
       w' = put_db (\<lambda>d. case upd d of Inr (_, d') \<Rightarrow> d' | Inl _ \<Rightarrow> d) (spend w))"
  by (cases "upd (cur_db w)") (auto simp: run_update_def run)

text \<open>Fields that only bookkeeping changes.\<close>

lemma world_upd_simps [simp]:
  "cur_db (w \<lparr> w_cache := c \<rparr>) = cur_db w" "cur_db (w \<lparr> w_seq := n \<rparr>) = cur_db w" "cur_db (w \<lparr> w_bus := b \<rparr>) = cur_db w"
  "cur_db (w \<lparr> w_audit := au \<rparr>) = cur_db w" "cur_db (w \<lparr> w_refcache := rc \<rparr>) = cur_db w"
  "cur_db (w \<lparr> w_budget := bu \<rparr>) = cur_db w" "cur_db (w \<lparr> w_calls := ca \<rparr>) = cur_db w" "cur_db (w \<lparr> w_cb := cb \<rparr>) = cur_db w"
  "cur_db (w \<lparr> w_intents := it \<rparr>) = cur_db w" "cur_db (invalidateCache i w) = cur_db w"
  "w_db (invalidateCache i w) = w_db w" "w_tx (invalidateCache i w) = w_tx w"
  "w_clock (invalidateCache i w) = w_clock w" "w_seq (invalidateCache i w) = w_seq w"
  "w_calls (invalidateCache i w) = w_calls w"
  by (simp_all add: cur_db_def invalidateCache_def split: list.split)

subsection \<open>The invariant inside a transaction\<close>

definition coh :: "world \<Rightarrow> bool" where
  "coh w \<longleftrightarrow> (\<forall>i t. w_cache w i = Some t \<longrightarrow> txn_of (w_db w) i = Some t)"

definition coh_view :: "world \<Rightarrow> bool" where
  "coh_view w \<longleftrightarrow> (\<forall>i t. w_cache w i = Some t \<longrightarrow> txn_of (cur_db w) i = Some t)"

definition tx_inv :: "db \<Rightarrow> ((db \<Rightarrow> db) \<times> bool) list \<Rightarrow> world \<Rightarrow> bool" where
  "tx_inv D fs w \<longleftrightarrow> w_db w = D \<and> (\<exists>d a. w_tx w = (d, a) # fs) \<and> coh w \<and> coh_view w"

lemma tx_inv_same:
  assumes "tx_inv D fs w" "w_db w' = w_db w" "w_cache w' = w_cache w" "cur_db w' = cur_db w"
    and "\<exists>d a. w_tx w' = (d, a) # tl (w_tx w)"
  shows "tx_inv D fs w'"
  using assms by (auto simp: tx_inv_def coh_def coh_view_def)

lemma keeps_answer [hoare]: "keeps (tx_inv D fs) answer"
  by (auto simp: keeps_def answer_def tx_inv_def coh_def coh_view_def)

lemma keeps_stmt [hoare]: "keeps (tx_inv D fs) stmt"
  using keeps_answer [of D fs] by (auto simp: keeps_def stmt_def)

lemma keeps_query [hoare]: "keeps (tx_inv D fs) (query f)"
  unfolding query_def by (intro hoare)

text \<open>A change that leaves the payments alone.\<close>

lemma keeps_put_db [hoare]:
  "(\<And>d. db_transactions (f d) = db_transactions d) \<Longrightarrow> keeps (tx_inv D fs) (changing (put_db f))"
  by (auto simp: keeps_def changing_def put_db_def tx_inv_def coh_def coh_view_def cur_db_def)

lemma keeps_exec [hoare]:
  "(\<And>d. db_transactions (f d) = db_transactions d) \<Longrightarrow> keeps (tx_inv D fs) (exec f)"
  unfolding exec_def by (intro hoare)

lemma keeps_sql_error [hoare]: "keeps (tx_inv D fs) (sql_error s)"
  by (auto simp: keeps_def sql_error_def tx_inv_def coh_def coh_view_def cur_db_def)

lemma keeps_lock_txn_row [hoare]: "keeps (tx_inv D fs) (lock_txn_row i)"
  by (auto simp: keeps_def lock_txn_row_def tx_inv_def coh_def coh_view_def)

lemma keeps_txFromContext [hoare]: "keeps (tx_inv D fs) txFromContext"
  by (auto simp: keeps_def txFromContext_def)

lemma keeps_Now [hoare]: "keeps I Now"
  unfolding Now_def by (intro hoare)

lemma keeps_NewUUID [hoare]: "keeps (tx_inv D fs) (NewUUID ev)"
  by (auto simp: keeps_def NewUUID_def tx_inv_def coh_def coh_view_def)

lemma keeps_bookkeeping [hoare]:
  "keeps (tx_inv D fs) (changing (\<lambda>w. w \<lparr> w_refcache := f1 w \<rparr>))"
  "keeps (tx_inv D fs) (changing (\<lambda>w. w \<lparr> w_bus := f2 w \<rparr>))"
  "keeps (tx_inv D fs) (changing (\<lambda>w. w \<lparr> w_audit := f3 w \<rparr>))"
  by (auto simp: keeps_def changing_def tx_inv_def coh_def coh_view_def)

text \<open>A change of one payment, after which its cache entry is dropped.\<close>

lemma keeps_invalidate:
  assumes "keeps (\<lambda>w. w_db w = D \<and> (\<exists>d a. w_tx w = (d, a) # fs) \<and> coh w \<and>
      (\<forall>j t. j \<noteq> i \<longrightarrow> w_cache w j = Some t \<longrightarrow> txn_of (cur_db w) j = Some t)) m"
  shows "keeps (tx_inv D fs) (deferring (invalidateCache i) m)"
proof (unfold keeps_def, intro allI impI)
  fix w assume w: "tx_inv D fs w"
  obtain r w1 where m: "m w = (r, w1)" by fastforce
  have "w_db w1 = D \<and> (\<exists>d a. w_tx w1 = (d, a) # fs) \<and> coh w1 \<and>
      (\<forall>j t. j \<noteq> i \<longrightarrow> w_cache w1 j = Some t \<longrightarrow> txn_of (cur_db w1) j = Some t)"
    by (rule keepsD [OF assms _ m]) (use w in \<open>auto simp: tx_inv_def coh_view_def\<close>)
  then show "tx_inv D fs (snd (deferring (invalidateCache i) m w))"
    by (auto simp: deferring_def m tx_inv_def coh_def coh_view_def invalidateCache_def)
qed

lemma keeps_off_row:
  fixes D fs i
  defines "I \<equiv> \<lambda>w. w_db w = D \<and> (\<exists>d a. w_tx w = (d, a) # fs) \<and> coh w \<and>
      (\<forall>j t. j \<noteq> i \<longrightarrow> w_cache w j = Some t \<longrightarrow> txn_of (cur_db w) j = Some t)"
  shows "keeps I stmt" "keeps I txFromContext" "keeps I Now" "keeps I (lock_txn_row j)" "keeps I (query f)"
    "keeps I (sql_error s)" "keeps I (changing (\<lambda>w. w \<lparr> w_refcache := g w \<rparr>))"
    "(\<And>d j. j \<noteq> i \<Longrightarrow> txn_of (h d) j = txn_of d j) \<Longrightarrow> keeps I (changing (put_db h))"
proof -
  show s: "keeps I stmt"
    by (auto simp: keeps_def stmt_def answer_def I_def coh_def)
  show "keeps I txFromContext" "keeps I Now" "keeps I (lock_txn_row j)"
    "keeps I (sql_error s)" "keeps I (changing (\<lambda>w. w \<lparr> w_refcache := g w \<rparr>))"
    by (auto simp: keeps_def txFromContext_def Now_def reading_def lock_txn_row_def changing_def sql_error_def I_def coh_def
        cur_db_def)
  show "keeps I (query f)" unfolding query_def by (intro hoare s)
  show "(\<And>d j. j \<noteq> i \<Longrightarrow> txn_of (h d) j = txn_of d j) \<Longrightarrow> keeps I (changing (put_db h))"
    by (auto simp: keeps_def changing_def put_db_def I_def coh_def cur_db_def)
qed

lemma sql_update_status_frame:
  "j \<noteq> t_ID t \<Longrightarrow> txn_of (case sql_update_status now t d of Inr (_, d') \<Rightarrow> d' | Inl _ \<Rightarrow> d) j = txn_of d j"
  by (simp add: sql_update_status_def split: option.splits)

lemma sql_update_reference_frame:
  "j \<noteq> i \<Longrightarrow> txn_of (case sql_update_reference now i g v d of Inr (_, d') \<Rightarrow> d' | Inl _ \<Rightarrow> d) j = txn_of d j"
  by (simp add: sql_update_reference_def split: option.splits)

lemma keeps_Txn_UpdateStatus [hoare]: "keeps (tx_inv D fs) (Txn_UpdateStatus t)"
  unfolding Txn_UpdateStatus_def run_update_def
  by (rule keeps_invalidate) (intro hoare keeps_off_row sql_update_status_frame; assumption)

lemma keeps_UpdateGatewayReference [hoare]: "keeps (tx_inv D fs) (UpdateGatewayReference i g v)"
  unfolding UpdateGatewayReference_def run_update_def
  by (rule keeps_invalidate) (intro hoare keeps_off_row sql_update_reference_frame; assumption)

lemma keeps_Txn_SetCancelIntent [hoare]: "keeps (tx_inv D fs) (Txn_SetCancelIntent i a v)"
  unfolding Txn_SetCancelIntent_def
  by (rule keeps_invalidate) (intro hoare keeps_off_row; simp)

lemma query_cases: "(\<exists>e. query f w = (Inl e, w)) \<or> query f w = (Inr (f (cur_db w)), spend w)"
  by (auto simp: query_def bindE_def stmt_def answer_def reading_def spend_def)

lemma tx_inv_spend [simp]: "tx_inv D fs (spend w) = tx_inv D fs w"
  by (simp add: tx_inv_def coh_def coh_view_def)

lemma keeps_Txn_Insert [hoare]: "keeps (tx_inv D fs) (Txn_Insert t)"
proof (unfold keeps_def, intro allI impI)
  fix w assume w: "tx_inv D fs w"
  then have tx: "txFromContext w = (Inr (), w)" by (auto simp: tx_inv_def txFromContext_def)
  have ins: "tx_inv D fs (put_db (\<lambda>d. d \<lparr> db_transactions := db_transactions d @ [t] \<rparr>) (spend w))"
    if "txn_of (cur_db w) (t_ID t) = None"
    using w that by (auto simp: tx_inv_def coh_def coh_view_def put_db_def spend_def cur_db_def split: option.splits)
  from query_cases [of "txn_insert_ok t" w] show "tx_inv D fs (snd (Txn_Insert t w))"
  proof
    assume "\<exists>e. query (txn_insert_ok t) w = (Inl e, w)"
    then show ?thesis using w tx by (auto simp: Txn_Insert_def bindE_def)
  next
    assume q: "query (txn_insert_ok t) w = (Inr (txn_insert_ok t (cur_db w)), spend w)"
    show ?thesis
      using w ins keeps_sql_error [of D fs, unfolded keeps_def, rule_format, of "spend w"]
      by (auto simp: Txn_Insert_def bindE_def tx q changing_def txn_insert_ok_def)
  qed
qed

lemma keeps_WriteEntry [hoare]: "keeps (tx_inv D fs) (WriteEntry e)"
  unfolding WriteEntry_def by (intro hoare)

lemma keeps_audit [hoare]: "keeps (tx_inv D fs) (audit i et a p n r)"
  unfolding audit_def by (intro hoare)

lemma keeps_Publish [hoare]: "keeps (tx_inv D fs) (Publish i st)"
  unfolding Publish_def by (intro hoare)

lemma no_txn_change [simp]:
  "db_transactions (case sql_update_refund now rf d of Inr (_, d') \<Rightarrow> d' | Inl _ \<Rightarrow> d) = db_transactions d"
  "db_transactions (case sql_claim_refund now rf d of Some (_, d') \<Rightarrow> d' | None \<Rightarrow> d) = db_transactions d"
  "db_transactions (snd (sql_insert_lease now i ttl k d)) = db_transactions d"
  "db_transactions (snd (sql_reserve now h c d)) = db_transactions d"
  "db_transactions (snd (sql_record_event ek d)) = db_transactions d"
  by (simp_all add: sql_update_refund_def sql_claim_refund_def sql_insert_lease_def sql_reserve_def sql_record_event_def
      split: option.splits)

lemma keeps_repo [hoare]:
  "keeps (tx_inv D fs) (Refund_Insert rf)" "keeps (tx_inv D fs) (Refund_GetByID i)"
  "keeps (tx_inv D fs) (SumActiveRefunds i)" "keeps (tx_inv D fs) (Refund_UpdateStatus rf)"
  "keeps (tx_inv D fs) (ExistsByReason i s)" "keeps (tx_inv D fs) (LockParentTransaction i)"
  "keeps (tx_inv D fs) (ClaimProcessing rf)" "keeps (tx_inv D fs) (Lease_Acquire k i m)"
  "keeps (tx_inv D fs) (WriteCachedResponse k j)" "keeps (tx_inv D fs) (Reserve c h)"
  "keeps (tx_inv D fs) (Lookup c)" "keeps (tx_inv D fs) (Complete c j)" "keeps (tx_inv D fs) (Release c)"
  "keeps (tx_inv D fs) (RecordEvent s g)" "keeps (tx_inv D fs) (InsertGatewayMetadata i g j)"
  "keeps (tx_inv D fs) (Outbox_Write ev oe)" "keeps (tx_inv D fs) (Notification_Dispatch ev n)"
  "keeps (tx_inv D fs) (TenantWebhook_Dispatch ev u i s j)"
  unfolding Refund_Insert_def Refund_GetByID_def SumActiveRefunds_def Refund_UpdateStatus_def ExistsByReason_def
    LockParentTransaction_def ClaimProcessing_def Lease_Acquire_def WriteCachedResponse_def Reserve_def Lookup_def
    Complete_def Release_def RecordEvent_def InsertGatewayMetadata_def Outbox_Write_def Notification_Insert_def
    Notification_Dispatch_def WriteDelivery_def TenantWebhook_Dispatch_def run_update_def Let_def
  by (intro hoare; simp)+

subsection \<open>\<open>WithinTx\<close>\<close>

definition open_tx :: "world \<Rightarrow> world" where
  "open_tx w = (spend w) \<lparr> w_tx := (\<lambda>d. d, False) # w_tx w \<rparr>"

lemma open_tx_simps [simp]:
  "w_db (open_tx w) = w_db w" "cur_db (open_tx w) = w_db w" "w_tx (open_tx w) = (\<lambda>d. d, False) # w_tx w"
  "w_cache (open_tx w) = w_cache w" "w_clock (open_tx w) = w_clock w" "w_seq (open_tx w) = w_seq w"
  "w_calls (open_tx w) = w_calls w" "w_audit (open_tx w) = w_audit w"
  by (simp_all add: open_tx_def cur_db_def)

lemma tx_inv_open: "coh w \<Longrightarrow> tx_inv (w_db w) (w_tx w) (open_tx w)"
  by (auto simp: tx_inv_def coh_def coh_view_def)

definition close_tx :: "world \<Rightarrow> world" where
  "close_tx w = rollback ((spend w) \<lparr> w_db := cur_db w \<rparr>)"

lemma close_tx_simps [simp]:
  "w_db (close_tx w) = cur_db w" "w_tx (close_tx w) = tl (w_tx w)" "w_cache (close_tx w) = w_cache w"
  "w_clock (close_tx w) = w_clock w" "w_seq (close_tx w) = w_seq w" "w_calls (close_tx w) = w_calls w"
  "w_audit (close_tx w) = w_audit w"
  by (simp_all add: close_tx_def rollback_def)

lemma rollback_simps [simp]:
  "w_db (rollback w) = w_db w" "w_tx (rollback w) = tl (w_tx w)" "w_cache (rollback w) = w_cache w"
  "w_clock (rollback w) = w_clock w" "w_seq (rollback w) = w_seq w" "w_calls (rollback w) = w_calls w"
  by (simp_all add: rollback_def)

lemma WithinTx_Inr [run]:
  "WithinTx fn w = (Inr a, w') \<longleftrightarrow>
     w_budget w \<noteq> Some 0 \<and> (\<exists>w1. fn (open_tx w) = (Inr a, w1) \<and> can w1 \<and> w' = close_tx w1)"
  unfolding WithinTx_def begin_tx_def run
  by (auto simp: run open_tx_def commit_tx_def answer_def can_def close_tx_def spend_def rollback_def
      split: prod.splits sum.splits if_splits)

text \<open>A transaction that fails changes no table, whatever its body did before; and a transaction
  always restores the stack and keeps the cache honest.\<close>

lemma WithinTx_Inl_at:
  assumes "\<And>r w1. fn (open_tx w) = (r, w1) \<Longrightarrow> tx_inv (w_db w) (w_tx w) w1" "coh w" "WithinTx fn w = (Inl e, w')"
  shows "w_db w' = w_db w \<and> w_tx w' = w_tx w \<and> coh w'"
proof (cases "w_budget w = Some 0")
  case True
  then show ?thesis
    using assms by (auto simp: WithinTx_def begin_tx_def bindE_def wrapE_def answer_def coh_def)
next
  case False
  obtain r w1 where fn: "fn (open_tx w) = (r, w1)" by fastforce
  from assms(1) [OF fn] obtain d a where w1: "w_db w1 = w_db w" "w_tx w1 = (d, a) # w_tx w" "coh w1"
    by (auto simp: tx_inv_def)
  have "WithinTx fn w = (case fn (open_tx w) of
       (Inl e, w') \<Rightarrow> (Inl e, rollback w')
     | (Inr a, w') \<Rightarrow> (case commit_tx w' of
           (Inl e, w'') \<Rightarrow> (Inl (Wrapf ''postgres: commit tx'' e), w'') | (Inr _, w'') \<Rightarrow> (Inr a, w'')))"
    using False by (simp add: WithinTx_def begin_tx_def bindE_def wrapE_def answer_def changing_def open_tx_def spend_def)
  then show ?thesis
    using assms(3) w1
    by (auto simp: fn commit_tx_def answer_def coh_def split: sum.splits prod.splits if_splits)
qed

lemma WithinTx_Inl:
  assumes "\<And>D fs. keeps (tx_inv D fs) fn" "coh w" "WithinTx fn w = (Inl e, w')"
  shows "w_db w' = w_db w \<and> w_tx w' = w_tx w \<and> coh w'"
  by (rule WithinTx_Inl_at [OF keepsD [OF assms(1) tx_inv_open [OF assms(2)]] assms(2,3)])

text \<open>What holds of the committed tables when no transaction is open.\<close>

definition settled :: "(db \<Rightarrow> bool) \<Rightarrow> world \<Rightarrow> bool" where
  "settled P w \<longleftrightarrow> w_tx w = [] \<and> coh w \<and> P (w_db w)"

lemma WithinTx_post_at:
  assumes "\<And>r w1. fn (open_tx w) = (r, w1) \<Longrightarrow> tx_inv (w_db w) (w_tx w) w1" "settled P w" "WithinTx fn w = (r, w')"
    and "\<And>a w2. fn (open_tx w) = (Inr a, w2) \<Longrightarrow> P (cur_db w2)"
  shows "settled P w'"
proof (cases r)
  case (Inl e)
  have "WithinTx fn w = (Inl e, w')" using assms(3) Inl by simp
  from WithinTx_Inl_at [OF _ _ this] assms(1,2) show ?thesis by (auto simp: settled_def)
next
  case (Inr a)
  with assms(3) obtain w1 where w1: "fn (open_tx w) = (Inr a, w1)" "w' = close_tx w1" by (auto simp: run)
  have "tx_inv (w_db w) [] w1" using assms(1) [OF w1(1)] assms(2) by (simp add: settled_def)
  with assms(4) [OF w1(1)] w1(2) show ?thesis
    by (auto simp: settled_def tx_inv_def coh_def coh_view_def)
qed

lemma WithinTx_post:
  assumes "\<And>D fs. keeps (tx_inv D fs) fn" "settled P w" "WithinTx fn w = (r, w')"
    and "\<And>a w2. fn (open_tx w) = (Inr a, w2) \<Longrightarrow> P (cur_db w2)"
  shows "settled P w'"
proof (rule WithinTx_post_at [OF _ assms(2,3)])
  show "tx_inv (w_db w) (w_tx w) w1" if "fn (open_tx w) = (r, w1)" for r w1
    using keepsD [OF assms(1) tx_inv_open that] assms(2) by (simp add: settled_def)
qed (rule assms(4))

lemma keeps_WithinTx:
  assumes "\<And>D fs. keeps (tx_inv D fs) fn"
    and "\<And>w a w2. settled P w \<Longrightarrow> fn (open_tx w) = (Inr a, w2) \<Longrightarrow> P (cur_db w2)"
  shows "keeps (settled P) (WithinTx fn)"
proof (unfold keeps_def, intro allI impI)
  fix w assume w: "settled P w"
  obtain r w1 where e: "WithinTx fn w = (r, w1)" by fastforce
  have "settled P w1" by (rule WithinTx_post [OF assms(1) w e]) (rule assms(2) [OF w])
  with e show "settled P (snd (WithinTx fn w))" by simp
qed

lemma Txn_GetByID_settled:
  assumes "settled P w" "Txn_GetByID i w = (r, w')"
  shows "settled P w'" "w_db w' = w_db w" "w_calls w' = w_calls w"
    "r = Inr t \<Longrightarrow> txn_of (w_db w) i = Some t \<and> t_ID t = i"
  using assms lookup_row_Some [of t_ID i "db_transactions (w_db w)" t]
  by (auto simp: Txn_GetByID_def settled_def coh_def bindE_def reading_def query_def stmt_def answer_def changing_def
      throw_def ok_def cur_db_def aborted_def split: option.splits if_splits sum.splits prod.splits)

lemma settled_same: "settled P w \<Longrightarrow> w_db w' = w_db w \<Longrightarrow> w_tx w' = w_tx w \<Longrightarrow> w_cache w' = w_cache w \<Longrightarrow> settled P w'"
  by (simp add: settled_def coh_def)

lemma keeps_settled [hoare]:
  "keeps (settled P) answer" "keeps (settled P) stmt" "keeps (settled P) (query f)" "keeps (settled P) Now"
  "keeps (settled P) (NewUUID ev)" "keeps (settled P) (audit i et a p n rs)" "keeps (settled P) (Publish i st)"
  by (auto simp: keeps_def answer_def stmt_def query_def Now_def NewUUID_def audit_def WriteEntry_def Publish_def
      bindE_def reading_def changing_def wrapE_def attempt_def throw_def ok_def settled_def coh_def)

lemma keeps_settled_GetByID [hoare]: "keeps (settled P) (Txn_GetByID i)"
  using Txn_GetByID_settled(1) unfolding keeps_def by (metis prod.collapse)

subsection \<open>Effects of the operations that succeed\<close>

text \<open>The tables on which the services decide; the others only collect messages to send.\<close>

definition core :: "db \<Rightarrow> Txn list \<times> RefundRow list \<times> LeaseRow list \<times> IdemRow list \<times> OutboxRow list \<times>
    (string \<times> string) list \<times> DeadLetterRow list" where
  "core d = (db_transactions d, db_refunds d, db_leases d, db_idem d, db_outbox d, db_webhook_events d, db_dead_letters d)"

lemma Txn_Insert_effect [effect]:
  "Txn_Insert t w = (Inr u, w') \<Longrightarrow> txn_insert_ok t (cur_db w) \<and>
     cur_db w' = (cur_db w) \<lparr> db_transactions := db_transactions (cur_db w) @ [t] \<rparr>"
  by (auto simp: Txn_Insert_def run split: if_splits)

lemma Txn_UpdateStatus_effect [effect]:
  "Txn_UpdateStatus t w = (Inr t', w') \<Longrightarrow>
     \<exists>row. txn_of (cur_db w) (t_ID t) = Some row \<and> t_Version row = t_Version t \<and> t_Status t \<in> set AllStatuses \<and>
       t' = t \<lparr> t_Version := t_Version t + 1 \<rparr> \<and>
       cur_db w' = (cur_db w) \<lparr> db_transactions :=
         update_row t_ID (t_ID t) (status_cols t (w_clock w)) (db_transactions (cur_db w)) \<rparr>"
  by (auto simp: Txn_UpdateStatus_def run sql_update_status_def split: if_splits option.splits)

lemma UpdateGatewayReference_effect [effect]:
  "UpdateGatewayReference i g v w = (Inr u, w') \<Longrightarrow>
     \<exists>row. txn_of (cur_db w) i = Some row \<and> t_Version row = v \<and>
       cur_db w' = (cur_db w) \<lparr> db_transactions :=
         update_row t_ID i (\<lambda>r. r \<lparr> t_GatewayReferenceID := g, t_UpdatedAt := w_clock w \<rparr>) (db_transactions (cur_db w)) \<rparr>"
  unfolding UpdateGatewayReference_def
  by (auto simp: run stmt_def answer_def sql_update_reference_def split: if_splits option.splits sum.splits)

lemma Txn_SetCancelIntent_effect [effect]:
  "Txn_SetCancelIntent i a v w = (Inr b, w') \<Longrightarrow>
     cur_db w' = (if b then (cur_db w) \<lparr> db_transactions :=
         update_row t_ID i (\<lambda>r. r \<lparr> t_CancelIntent := True, t_CancelRequestedBy := a,
           t_CancelRequestedAt := Some (w_clock w), t_CancelRequestedVia := v, t_UpdatedAt := w_clock w \<rparr>)
           (db_transactions (cur_db w)) \<rparr> else cur_db w) \<and>
     b = (case txn_of (cur_db w) i of None \<Rightarrow> False | Some t \<Rightarrow> \<not> t_CancelIntent t)"
  by (auto simp: Txn_SetCancelIntent_def run split: if_splits option.splits)

lemma Outbox_Write_effect [effect]:
  "Outbox_Write ev e w = (Inr u, w') \<Longrightarrow>
     \<exists>rid. cur_db w' = (cur_db w) \<lparr> db_outbox := db_outbox (cur_db w) @ [outbox_row ev e rid (w_clock w)] \<rparr>"
  by (auto simp: Outbox_Write_def run split: if_splits)

lemma Refund_Insert_effect [effect]:
  "Refund_Insert rf w = (Inr u, w') \<Longrightarrow> refund_insert_ok rf (cur_db w) \<and>
     cur_db w' = (cur_db w) \<lparr> db_refunds := db_refunds (cur_db w) @ [\<lparr> rr_refund = rf, rr_updated_at = w_clock w \<rparr>] \<rparr>"
  by (auto simp: Refund_Insert_def run split: if_splits)

lemma Refund_UpdateStatus_effect [effect]:
  "Refund_UpdateStatus rf w = (Inr rf', w') \<Longrightarrow>
     \<exists>row. refund_of (cur_db w) (rf_ID rf) = Some row \<and> rf_Version (rr_refund row) = rf_Version rf \<and>
       rf' = rf \<lparr> rf_Version := rf_Version rf + 1 \<rparr> \<and>
       cur_db w' = (cur_db w) \<lparr> db_refunds := update_row rr_id (rf_ID rf) (refund_cols rf (w_clock w)) (db_refunds (cur_db w)) \<rparr>"
  by (auto simp: Refund_UpdateStatus_def run sql_update_refund_def split: if_splits option.splits)

lemma SumActiveRefunds_effect [effect]:
  "SumActiveRefunds i w = (Inr s, w') \<Longrightarrow> s = active_sum i (cur_db w) \<and> cur_db w' = cur_db w \<and> in64 s"
  by (auto simp: SumActiveRefunds_def run split: if_splits)

lemma LockParentTransaction_effect [effect]:
  "LockParentTransaction i w = (Inr u, w') \<Longrightarrow> cur_db w' = cur_db w"
  by (auto simp: LockParentTransaction_def run split: option.splits)

lemma Reserve_effect [effect]:
  "Reserve c h w = (Inr b, w') \<Longrightarrow> (b, cur_db w') = sql_reserve (w_clock w) h c (cur_db w)"
  by (auto simp: Reserve_def run)

lemma Complete_effect [effect]:
  "Complete c j w = (Inr u, w') \<Longrightarrow> cur_db w' = (cur_db w) \<lparr> db_idem :=
     update_row i_composite_key_hash c (\<lambda>r. r \<lparr> i_response := j, i_status := ''COMPLETED'' \<rparr>) (db_idem (cur_db w)) \<rparr>"
  by (auto simp: Complete_def run)

lemma Lookup_effect [effect]:
  "Lookup c w = (Inr r, w') \<Longrightarrow> r = lookup_row i_composite_key_hash c (db_idem (cur_db w)) \<and> cur_db w' = cur_db w"
  by (auto simp: Lookup_def run)

lemma RecordEvent_effect [effect]:
  "RecordEvent e g w = (Inr b, w') \<Longrightarrow> (b, cur_db w') = sql_record_event (e, g) (cur_db w)"
  by (auto simp: RecordEvent_def run)

lemma WriteCachedResponse_effect [effect]:
  "WriteCachedResponse k j w = (Inr u, w') \<Longrightarrow> cur_db w' = (cur_db w) \<lparr> db_leases :=
     update_row l_idempotency_key k (\<lambda>l. l \<lparr> l_cached_response := Some j \<rparr>) (db_leases (cur_db w)) \<rparr>"
  by (auto simp: WriteCachedResponse_def run)

lemma InsertGatewayMetadata_effect [effect]:
  "InsertGatewayMetadata i g j w = (Inr u, w') \<Longrightarrow> core (cur_db w') = core (cur_db w)"
  by (auto simp: InsertGatewayMetadata_def run core_def split: if_splits)

lemma audit_effect [effect]: "audit i et a p n r w = (x, w') \<Longrightarrow> x = Inr () \<and> cur_db w' = cur_db w \<and> w_clock w' = w_clock w"
  by (auto simp: audit_def WriteEntry_def bindE_def attempt_def wrapE_def answer_def reading_def changing_def throw_def ok_def
      split: if_splits)

text \<open>Messages to customers and tenants touch no other table, whether or not they can be queued.\<close>

lemma cur_core_put: "(\<And>d. core (f d) = core d) \<Longrightarrow> core (cur_db (put_db f w)) = core (cur_db w)"
  by simp

lemma keeps_core [hoare]:
  "keeps (\<lambda>w. core (cur_db w) = C) answer" "keeps (\<lambda>w. core (cur_db w) = C) stmt"
  "keeps (\<lambda>w. core (cur_db w) = C) txFromContext" "keeps (\<lambda>w. core (cur_db w) = C) (NewUUID ev)"
  "keeps (\<lambda>w. core (cur_db w) = C) (query f)" "keeps (\<lambda>w. core (cur_db w) = C) (sql_error s)"
  by (auto simp: keeps_def answer_def stmt_def txFromContext_def NewUUID_def query_def bindE_def reading_def sql_error_def
      cur_db_def split: list.splits)

lemma keeps_core_put [hoare]: "(\<And>d. core (f d) = core d) \<Longrightarrow> keeps (\<lambda>w. core (cur_db w) = C) (changing (put_db f))"
  by (simp add: keeps_def changing_def)

lemma keeps_core_dispatch [hoare]:
  "keeps (\<lambda>w. core (cur_db w) = C) (Notification_Dispatch ev n)"
  "keeps (\<lambda>w. core (cur_db w) = C) (TenantWebhook_Dispatch ev u i s j)"
  unfolding Notification_Dispatch_def Notification_Insert_def TenantWebhook_Dispatch_def WriteDelivery_def exec_def Let_def
  by (intro hoare; simp add: core_def)+

subsection \<open>The log of gateway calls\<close>

text \<open>Database code calls no gateway.\<close>

lemma keeps_calls_prims [hoare]:
  "keeps (\<lambda>w. C (w_calls w)) answer" "keeps (\<lambda>w. C (w_calls w)) stmt" "keeps (\<lambda>w. C (w_calls w)) txFromContext"
  "keeps (\<lambda>w. C (w_calls w)) (sql_error s)" "keeps (\<lambda>w. C (w_calls w)) (lock_txn_row i)" "keeps (\<lambda>w. C (w_calls w)) (NewUUID ev)"
  "keeps (\<lambda>w. C (w_calls w)) (changing (put_db f))" "keeps (\<lambda>w. C (w_calls w)) (changing (\<lambda>w. w \<lparr> w_cache := f1 w \<rparr>))"
  "keeps (\<lambda>w. C (w_calls w)) (changing (\<lambda>w. w \<lparr> w_refcache := f2 w \<rparr>))" "keeps (\<lambda>w. C (w_calls w)) (changing (\<lambda>w. w \<lparr> w_bus := f3 w \<rparr>))"
  "keeps (\<lambda>w. C (w_calls w)) (changing (\<lambda>w. w \<lparr> w_audit := f4 w \<rparr>))" "keeps (\<lambda>w. C (w_calls w)) (changing (\<lambda>w. w \<lparr> w_db := f5 w \<rparr>))"
  "keeps (\<lambda>w. C (w_calls w)) (changing (\<lambda>w. w \<lparr> w_intents := f6 w \<rparr>))" "keeps (\<lambda>w. C (w_calls w)) Now"
  by (auto simp: keeps_def answer_def stmt_def txFromContext_def sql_error_def lock_txn_row_def NewUUID_def changing_def
      Now_def reading_def split: list.splits)

lemma keeps_calls_deferring [hoare]:
  "keeps (\<lambda>w. C (w_calls w)) m \<Longrightarrow> keeps (\<lambda>w. C (w_calls w)) (deferring (invalidateCache i) m)"
  by (auto simp: keeps_def deferring_def invalidateCache_def split: prod.splits)

lemma keeps_calls_WithinTx [hoare]:
  assumes "keeps (\<lambda>w. C (w_calls w)) fn"
  shows "keeps (\<lambda>w. C (w_calls w)) (WithinTx fn)"
proof -
  have "keeps (\<lambda>w. C (w_calls w)) (\<lambda>w. case fn w of
       (Inl e, w') \<Rightarrow> (Inl e, rollback w')
     | (Inr a, w') \<Rightarrow> (case commit_tx w' of
           (Inl e, w'') \<Rightarrow> (Inl (Wrapf ''postgres: commit tx'' e), w'') | (Inr _, w'') \<Rightarrow> (Inr a, w'')))"
    using assms by (auto simp: keeps_def rollback_def commit_tx_def answer_def split: prod.splits sum.splits if_splits)
  moreover have "keeps (\<lambda>w. C (w_calls w)) (changing (\<lambda>w. w \<lparr> w_tx := x # w_tx w \<rparr>))" for x
    by (simp add: keeps_def changing_def)
  ultimately show ?thesis unfolding WithinTx_def begin_tx_def by (intro hoare)
qed

lemma keeps_calls_exec [hoare]:
  "keeps (\<lambda>w. C (w_calls w)) (query f)" "keeps (\<lambda>w. C (w_calls w)) (exec h)" "keeps (\<lambda>w. C (w_calls w)) (exec_pool h)"
  "keeps (\<lambda>w. C (w_calls w)) (run_update upd)"
  unfolding query_def exec_def exec_pool_def run_update_def by (intro hoare)+

lemma keeps_calls_repo [hoare]:
  "keeps (\<lambda>w. C (w_calls w)) (Txn_Insert t)" "keeps (\<lambda>w. C (w_calls w)) (Txn_GetByID i)"
  "keeps (\<lambda>w. C (w_calls w)) (Txn_UpdateStatus t)" "keeps (\<lambda>w. C (w_calls w)) (UpdateGatewayReference i g v)"
  "keeps (\<lambda>w. C (w_calls w)) (Txn_SetCancelIntent i ac va)" "keeps (\<lambda>w. C (w_calls w)) (GetByGatewayReference g rs)"
  "keeps (\<lambda>w. C (w_calls w)) (Refund_Insert rf)" "keeps (\<lambda>w. C (w_calls w)) (Refund_GetByID i)"
  "keeps (\<lambda>w. C (w_calls w)) (SumActiveRefunds i)" "keeps (\<lambda>w. C (w_calls w)) (Refund_UpdateStatus rf)"
  "keeps (\<lambda>w. C (w_calls w)) (ExistsByReason i s)" "keeps (\<lambda>w. C (w_calls w)) (LockParentTransaction i)"
  "keeps (\<lambda>w. C (w_calls w)) (ClaimProcessing rf)" "keeps (\<lambda>w. C (w_calls w)) (Lease_Acquire k i m)"
  "keeps (\<lambda>w. C (w_calls w)) (TryAcquireDirect k i m)" "keeps (\<lambda>w. C (w_calls w)) (WriteCachedResponse k j)"
  "keeps (\<lambda>w. C (w_calls w)) (Reserve c h)" "keeps (\<lambda>w. C (w_calls w)) (Lookup c)"
  "keeps (\<lambda>w. C (w_calls w)) (Complete c j)" "keeps (\<lambda>w. C (w_calls w)) (RecordEvent s g)"
  "keeps (\<lambda>w. C (w_calls w)) (InsertGatewayMetadata i g j)" "keeps (\<lambda>w. C (w_calls w)) (Outbox_Write ev oe)"
  "keeps (\<lambda>w. C (w_calls w)) (Notification_Dispatch ev n)" "keeps (\<lambda>w. C (w_calls w)) (TenantWebhook_Dispatch ev u i s j)"
  "keeps (\<lambda>w. C (w_calls w)) (audit i et ac pv nx rs)" "keeps (\<lambda>w. C (w_calls w)) (Publish i st)"
  unfolding Txn_Insert_def Txn_GetByID_def Txn_UpdateStatus_def UpdateGatewayReference_def Txn_SetCancelIntent_def
    GetByGatewayReference_def Refund_Insert_def Refund_GetByID_def SumActiveRefunds_def Refund_UpdateStatus_def ExistsByReason_def
    LockParentTransaction_def ClaimProcessing_def Lease_Acquire_def TryAcquireDirect_def WriteCachedResponse_def Reserve_def
    Lookup_def Complete_def RecordEvent_def InsertGatewayMetadata_def Outbox_Write_def Notification_Insert_def
    Notification_Dispatch_def WriteDelivery_def TenantWebhook_Dispatch_def audit_def WriteEntry_def Publish_def Let_def
  by (intro hoare)+

subsection \<open>What the tables look like from inside\<close>

text \<open>A property of the tables as the innermost transaction sees them.\<close>

definition in_view :: "(db \<Rightarrow> bool) \<Rightarrow> world \<Rightarrow> bool" where
  "in_view P w \<longleftrightarrow> P (cur_db w)"

lemma keeps_view_prims [hoare]:
  "keeps (in_view P) answer" "keeps (in_view P) stmt" "keeps (in_view P) txFromContext"
  "keeps (in_view P) (sql_error s)" "keeps (in_view P) (lock_txn_row j)" "keeps (in_view P) (NewUUID ev)"
  "keeps (in_view P) (changing (\<lambda>w. w \<lparr> w_refcache := f2 w \<rparr>))"
  "keeps (in_view P) (changing (\<lambda>w. w \<lparr> w_bus := f3 w \<rparr>))" "keeps (in_view P) (changing (\<lambda>w. w \<lparr> w_audit := f4 w \<rparr>))"
  "keeps (in_view P) (changing (\<lambda>w. w \<lparr> w_cache := f5 w \<rparr>))"
  by (auto simp: keeps_def in_view_def answer_def stmt_def txFromContext_def sql_error_def lock_txn_row_def NewUUID_def
      changing_def reading_def cur_db_def split: list.splits)

lemma keeps_view_put [hoare]: "(\<And>d. P d \<Longrightarrow> P (f d)) \<Longrightarrow> keeps (in_view P) (changing (put_db f))"
  by (simp add: keeps_def changing_def in_view_def)

lemma keeps_view_exec [hoare]:
  "keeps (in_view P) (query g)" "(\<And>d. P d \<Longrightarrow> P (h d)) \<Longrightarrow> keeps (in_view P) (exec h)"
  unfolding query_def exec_def by (intro hoare; simp)+

lemma keeps_view_deferring [hoare]: "keeps (in_view P) m \<Longrightarrow> keeps (in_view P) (deferring (invalidateCache j) m)"
  by (auto simp: keeps_def deferring_def in_view_def split: prod.splits)

text \<open>A statement that a constraint guards.\<close>

lemma keeps_view_guarded:
  assumes "\<And>d. P d \<Longrightarrow> g d \<Longrightarrow> P (f d)"
  shows "keeps (in_view P) (bindE (query g) (\<lambda>allowed. if allowed then changing (put_db f) else sql_error s))"
proof (unfold keeps_def, intro allI impI)
  fix w assume w: "in_view P w"
  have "in_view P (snd ((sql_error s :: (world, unit) comp) v))" if "in_view P v" for v
    using that by (auto simp: in_view_def sql_error_def cur_db_def split: list.splits)
  with query_cases [of g w] w assms
  show "in_view P (snd (bindE (query g) (\<lambda>allowed. if allowed then changing (put_db f) else sql_error s) w))"
    by (auto simp: bindE_def changing_def in_view_def)
qed

end
