(* ===== verification/Idempotency.thy ===== *)
theory Idempotency
  imports Store_Rules
begin

section \<open>Idempotent execution (internal/app/idempotency)\<close>

text \<open>
  \<open>Guard.Execute\<close> runs an operation under a claimed key, in one database transaction with the claim
  and the stored response. The operation is an argument, as in the source; besides its response it
  returns what the Go closure leaves in captured variables.
\<close>

datatype Verdict = Created | Replayed | InProgress | KeyReused

abbreviation ErrKeyRequired :: go_error where "ErrKeyRequired \<equiv> Sentinel ''idempotency: key required''"

abbreviation statusCompleted :: string where "statusCompleted \<equiv> ''COMPLETED''"

definition Execute ::
  "string \<Rightarrow> string \<Rightarrow> (world, json \<times> 'a) comp \<Rightarrow> (world, Verdict \<times> json option \<times> 'a option) comp" where
  "Execute composite requestHash op = WithinTx (bindE (Reserve composite requestHash) (\<lambda>claimed.
     if \<not> claimed then
       bindE (Lookup composite) (\<lambda>found. ok (case found of
           None \<Rightarrow> (InProgress, None, None)
         | Some row \<Rightarrow>
             if i_request_hash row \<noteq> requestHash then (KeyReused, None, None)
             else if i_status row \<noteq> statusCompleted then (InProgress, None, None)
             else (Replayed, Some (i_response row), None)))
     else bindE op (\<lambda>(response, captured).
       bindE (Complete composite response) (\<lambda>_. ok (Created, Some response, Some captured)))))"

definition Composite :: "env \<Rightarrow> string \<Rightarrow> string \<Rightarrow> string \<Rightarrow> string" where
  "Composite ev merchant operation key = ev_sha256 ev (merchant @ '':'' @ operation @ '':'' @ key)"

fun join_parts :: "string list \<Rightarrow> string" where
  "join_parts [] = ''''"
| "join_parts [p] = p"
| "join_parts (p # q # ps) = p @ [CHR 0x1F] @ join_parts (q # ps)"

definition RequestHash :: "env \<Rightarrow> string list \<Rightarrow> string" where
  "RequestHash ev parts = ev_sha256 ev (join_parts parts)"

subsection \<open>Lemmas\<close>

lemma keeps_Execute_body:
  assumes "keeps (tx_inv D fs) op"
  shows "keeps (tx_inv D fs) (bindE (Reserve composite requestHash) (\<lambda>claimed.
     if \<not> claimed then
       bindE (Lookup composite) (\<lambda>found. ok (case found of
           None \<Rightarrow> (InProgress, None, None)
         | Some row \<Rightarrow>
             if i_request_hash row \<noteq> requestHash then (KeyReused, None, None)
             else if i_status row \<noteq> statusCompleted then (InProgress, None, None)
             else (Replayed, Some (i_response row), None)))
     else bindE op (\<lambda>(response, captured).
       bindE (Complete composite response) (\<lambda>_. ok (Created, Some response, Some captured)))))"
  using assms by (intro hoare)

text \<open>An operation that the guard runs inside its transaction and that leaves the key table alone.\<close>

definition guarded_op :: "(world, 'a) comp \<Rightarrow> bool" where
  "guarded_op op \<longleftrightarrow> (\<forall>D fs. keeps (tx_inv D fs) op) \<and>
     (\<forall>w a w'. op w = (Inr a, w') \<longrightarrow> db_idem (cur_db w') = db_idem (cur_db w))"

lemma Execute_Inl:
  assumes "\<And>D fs. keeps (tx_inv D fs) op" "coh w" "Execute c h op w = (Inl e, w')"
  shows "w_db w' = w_db w \<and> w_tx w' = w_tx w \<and> coh w'"
  using assms(3) unfolding Execute_def
  by (intro WithinTx_Inl [OF keeps_Execute_body [OF assms(1)] assms(2)])

text \<open>The world in which a claimed operation starts.\<close>

definition claimed_world :: "string \<Rightarrow> string \<Rightarrow> world \<Rightarrow> world" where
  "claimed_world c h w = put_db (\<lambda>d. snd (sql_reserve (w_clock w) h c d)) (spend (open_tx w))"

lemma claimed_world_simps [simp]:
  "w_db (claimed_world c h w) = w_db w" "cur_db (claimed_world c h w) = snd (sql_reserve (w_clock w) h c (w_db w))"
  "w_cache (claimed_world c h w) = w_cache w" "w_calls (claimed_world c h w) = w_calls w"
  "w_clock (claimed_world c h w) = w_clock w" "w_seq (claimed_world c h w) = w_seq w" "w_tx (claimed_world c h w) \<noteq> []"
  "tl (w_tx (claimed_world c h w)) = w_tx w"
  by (simp_all add: claimed_world_def)

lemma claimed_world_inv: "coh w \<Longrightarrow> tx_inv (w_db w) (w_tx w) (claimed_world c h w)"
proof -
  assume c: "coh w"
  have "keeps (tx_inv (w_db w) (w_tx w)) (changing (put_db (\<lambda>d. snd (sql_reserve (w_clock w) h c d))))" by (intro hoare) simp
  from keepsD [OF this, of "spend (open_tx w)" "Inr ()" "claimed_world c h w"] tx_inv_open [OF c]
  show ?thesis by (simp add: changing_def claimed_world_def)
qed

lemma Execute_Created:
  assumes "Execute c h op w = (Inr (Created, r, x), w')"
  obtains w2 j a where
    "lookup_row i_composite_key_hash c (db_idem (w_db w)) = None"
    "op (claimed_world c h w) = (Inr (j, a), w2)" "r = Some j" "x = Some a"
    "w_db w' = (cur_db w2) \<lparr> db_idem := update_row i_composite_key_hash c
        (\<lambda>r. r \<lparr> i_response := j, i_status := statusCompleted \<rparr>) (db_idem (cur_db w2)) \<rparr>"
    "w_tx w' = tl (w_tx w2)" "w_cache w' = w_cache w2" "w_calls w' = w_calls w2"
proof -
  let ?w1 = "claimed_world c h w"
  from assms obtain w2 j a where
    "fst (sql_reserve (w_clock w) h c (w_db w))" "op ?w1 = (Inr (j, a), w2)" "r = Some j" "x = Some a"
    "w' = close_tx (put_db (\<lambda>d. d \<lparr> db_idem := update_row i_composite_key_hash c
        (\<lambda>r. r \<lparr> i_response := j, i_status := statusCompleted \<rparr>) (db_idem d) \<rparr>) (spend w2))"
    unfolding Execute_def Reserve_def Lookup_def Complete_def claimed_world_def
    by (auto simp: run split: if_splits option.splits)
  then show thesis
    by (intro that [of j a w2]) (auto simp: sql_reserve_def split: if_splits)
qed

lemma Execute_not_Created:
  assumes "Execute c h op w = (Inr (v, r, x), w')" "v \<noteq> Created"
  shows "\<exists>row. lookup_row i_composite_key_hash c (db_idem (w_db w)) = Some row \<and>
    (v, r, x) = (if i_request_hash row \<noteq> h then (KeyReused, None, None)
                 else if i_status row \<noteq> statusCompleted then (InProgress, None, None)
                 else (Replayed, Some (i_response row), None)) \<and>
    w_db w' = w_db w \<and> w_tx w' = w_tx w \<and> w_cache w' = w_cache w \<and> w_calls w' = w_calls w \<and>
    w_clock w' = w_clock w \<and> w_seq w' = w_seq w"
  using assms unfolding Execute_def Reserve_def Lookup_def Complete_def
  by (auto simp: run sql_reserve_def split: if_splits option.splits)

lemma Execute_claimed_key:
  assumes "lookup_row i_composite_key_hash c (db_idem (w_db w)) = Some row" "w_budget w = None"
  shows "fst (Execute c h op w) = Inr (if i_request_hash row \<noteq> h then (KeyReused, None, None)
                 else if i_status row \<noteq> statusCompleted then (InProgress, None, None)
                 else (Replayed, Some (i_response row), None)) \<and>
    w_db (snd (Execute c h op w)) = w_db w \<and> w_calls (snd (Execute c h op w)) = w_calls w"
  using assms
  by (simp add: Execute_def WithinTx_def begin_tx_def Reserve_def Lookup_def go_defs answer_def query_def stmt_def
      aborted_def cur_db_def put_db_def sql_reserve_def commit_tx_def rollback_def Now_def)

lemma Execute_post:
  assumes "\<And>D fs. keeps (tx_inv D fs) op" "settled P w" "Execute c h op w = (r, w')"
    and "\<And>d x. P (d \<lparr> db_idem := x \<rparr>) = P d"
    and "\<And>j a w2. op (claimed_world c h w) = (Inr (j, a), w2) \<Longrightarrow> P (cur_db w2)"
  shows "settled P w'"
proof (cases r)
  case (Inl e)
  with Execute_Inl [OF assms(1), of w c h e w'] assms(2,3) show ?thesis by (simp add: settled_def)
next
  case (Inr x)
  obtain v y z where x: "x = (v, y, z)" by (cases x)
  show ?thesis
  proof (cases "v = Created")
    case True
    with Inr x assms(3) have "Execute c h op w = (Inr (Created, y, z), w')" by simp
    from Execute_Created [OF this] obtain w2 j a where op: "op (claimed_world c h w) = (Inr (j, a), w2)"
      and w': "w_db w' = (cur_db w2) \<lparr> db_idem := update_row i_composite_key_hash c
          (\<lambda>r. r \<lparr> i_response := j, i_status := statusCompleted \<rparr>) (db_idem (cur_db w2)) \<rparr>"
        "w_tx w' = tl (w_tx w2)" "w_cache w' = w_cache w2" .
    have "tx_inv (w_db w) [] w2"
      using keepsD [OF assms(1) claimed_world_inv op] assms(2) by (simp add: settled_def)
    with assms(4) assms(5) [OF op] w' show ?thesis
      by (auto simp: settled_def tx_inv_def coh_def coh_view_def)
  next
    case False
    with Inr x assms(3) Execute_not_Created [of c h op w v y z w'] assms(2) show ?thesis
      by (auto simp: settled_def coh_def)
  qed
qed

subsection \<open>Properties\<close>

text \<open>C33. A key executes at most once: after a run that returned Created, a second run with the same
  key and request, whatever operation it carries, returns Replayed with the first run's response,
  performs no operation and changes no table.\<close>

theorem Execute_replays:
  assumes "guarded_op op" "coh w" "w_budget w' = None"
    and "Execute c h op w = (Inr (Created, r, x), w')"
  shows "fst (Execute c h op' w') = Inr (Replayed, r, None) \<and> w_db (snd (Execute c h op' w')) = w_db w' \<and>
         w_calls (snd (Execute c h op' w')) = w_calls w'"
proof -
  from Execute_Created [OF assms(4)] obtain w2 j a where
    none: "lookup_row i_composite_key_hash c (db_idem (w_db w)) = None"
    and op: "op (claimed_world c h w) = (Inr (j, a), w2)" and r: "r = Some j"
    and db: "w_db w' = (cur_db w2) \<lparr> db_idem := update_row i_composite_key_hash c
        (\<lambda>r. r \<lparr> i_response := j, i_status := statusCompleted \<rparr>) (db_idem (cur_db w2)) \<rparr>" .
  have "db_idem (cur_db w2) = db_idem (snd (sql_reserve (w_clock w) h c (w_db w)))"
    using assms(1) op unfolding guarded_op_def by fastforce
  then have "\<exists>row. lookup_row i_composite_key_hash c (db_idem (w_db w')) = Some row \<and> i_request_hash row = h \<and>
      i_status row = statusCompleted \<and> i_response row = j"
    using none by (simp add: db sql_reserve_def)
  then obtain row where "lookup_row i_composite_key_hash c (db_idem (w_db w')) = Some row" "i_request_hash row = h"
    "i_status row = statusCompleted" "i_response row = j" by blast
  with Execute_claimed_key [of c w' row h op'] assms(3) r show ?thesis by simp
qed

definition sample_db :: db where
  "sample_db = \<lparr> db_transactions = [], db_refunds = [], db_leases = [], db_idem = [], db_outbox = [], db_dead_letters = [],
     db_webhook_events = [], db_gateway_metadata = [], db_notifications = [], db_tw_deliveries = [],
     db_disputes = [], db_evidence = [], db_recon_jobs = [], db_recon_entries = [] \<rparr>"

definition sample_world :: world where
  "sample_world = \<lparr> w_db = sample_db, w_tx = [], w_budget = None, w_audit = [], w_cache = (\<lambda>_. None), w_refcache = (\<lambda>_. None),
     w_cb = fresh_store,
     w_intents = \<lparr> in_up = True, in_sets = (\<lambda>_. []), in_expire = (\<lambda>_. None) \<rparr>, w_bus = [], w_calls = [], w_clock = 1000, w_seq = 0, w_sent = [] \<rparr>"

theorem Execute_replays_witness:
  "fst (Execute ''c'' ''h'' (ok (JInt 9, ())) (snd (Execute ''c'' ''h'' (ok (JInt 7, ())) sample_world)))
     = Inr (Replayed, Some (JInt 7), None)"
proof -
  let ?op = "ok (JInt 7, ()) :: (world, json \<times> unit) comp"
  have g: "guarded_op ?op" by (auto simp: guarded_op_def hoare run)
  have r: "fst (Execute ''c'' ''h'' ?op sample_world) = Inr (Created, Some (JInt 7), Some ())"
    and b: "w_budget (snd (Execute ''c'' ''h'' ?op sample_world)) = None"
    by (simp_all add: Execute_def WithinTx_def begin_tx_def Reserve_def Lookup_def Complete_def go_defs answer_def query_def
        stmt_def exec_def aborted_def cur_db_def put_db_def sql_reserve_def commit_tx_def rollback_def Now_def sample_world_def
        sample_db_def)
  have e: "Execute ''c'' ''h'' ?op sample_world =
      (Inr (Created, Some (JInt 7), Some ()), snd (Execute ''c'' ''h'' ?op sample_world))"
    using r by (metis prod.collapse)
  have "coh sample_world" by (simp add: coh_def sample_world_def)
  from Execute_replays [OF g this b e, of "ok (JInt 9, ())"] show ?thesis by simp
qed

text \<open>A key is bound to its request: with the key taken, a run with another request hash returns
  KeyReused, and one whose first run has not completed returns InProgress; neither performs the
  operation or changes a table.\<close>

theorem Execute_conflicts:
  assumes "lookup_row i_composite_key_hash c (db_idem (w_db w)) = Some row" "w_budget w = None"
    and "i_request_hash row \<noteq> h \<or> i_status row \<noteq> statusCompleted"
  shows "fst (Execute c h op w) = Inr (if i_request_hash row \<noteq> h then KeyReused else InProgress, None, None) \<and>
    w_db (snd (Execute c h op w)) = w_db w \<and> w_calls (snd (Execute c h op w)) = w_calls w"
  using Execute_claimed_key [OF assms(1,2), of h op] assms(3) by auto

definition taken_world :: world where
  "taken_world = sample_world \<lparr> w_db := sample_db \<lparr> db_idem := [\<lparr> i_composite_key_hash = ''c'', i_request_hash = ''h'',
     i_response = JObj [], i_status = ''PROCESSING'', i_created_at = 0, i_expires_at = 0 \<rparr>] \<rparr> \<rparr>"

theorem Execute_conflicts_witness:
  "fst (Execute ''c'' ''other'' (ok (JInt 7, ())) taken_world) = Inr (KeyReused, None, None) \<and>
   fst (Execute ''c'' ''h'' (ok (JInt 7, ())) taken_world) = Inr (InProgress, None, None)"
  using Execute_conflicts [of "''c''" taken_world "\<lparr> i_composite_key_hash = ''c'', i_request_hash = ''h'',
     i_response = JObj [], i_status = ''PROCESSING'', i_created_at = 0, i_expires_at = 0 \<rparr>" "''other''" "ok (JInt 7, ())"]
    Execute_conflicts [of "''c''" taken_world "\<lparr> i_composite_key_hash = ''c'', i_request_hash = ''h'',
     i_response = JObj [], i_status = ''PROCESSING'', i_created_at = 0, i_expires_at = 0 \<rparr>" "''h''" "ok (JInt 7, ())"]
  by (simp add: taken_world_def sample_world_def sample_db_def)

end
