(* ===== verification/Refund_Service.thy ===== *)
theory Refund_Service
  imports Idempotency
begin

section \<open>Refunds (internal/app/refund)\<close>

text \<open>
  \<open>service.go\<close> (initiating a refund under the idempotency guard) and \<open>process.go\<close> (driving it
  through the gateway, retrying it, and refunding a payment that was cancelled while its capture was
  under way).
\<close>

subsection \<open>Initiating (service.go)\<close>

abbreviation ErrNotRefundable :: go_error where
  "ErrNotRefundable \<equiv> Sentinel ''refund: transaction is not in a refundable state''"

abbreviation ReasonCancelResolution :: string where "ReasonCancelResolution \<equiv> ''cancel_resolution''"

definition isRefundableStatus :: "Status \<Rightarrow> bool" where
  "isRefundableStatus s \<longleftrightarrow> s \<in> {StatusCaptured, StatusSettled, StatusPartiallyRefunded, StatusRefundFailed}"

record InitiateInput =
  ii_TransactionID :: uuid
  ii_Amount :: int
  ii_Reason :: string
  ii_InitiatedBy :: string
  ii_IdempotencyKey :: string

definition refund_event :: "uuid \<Rightarrow> string \<Rightarrow> json \<Rightarrow> int \<Rightarrow> OutboxEvent" where
  "refund_event rid et payload ver = \<lparr> oe_ID = uuid_Nil, oe_AggregateID = rid, oe_AggregateType = ''refund'',
     oe_EventType = et, oe_Payload = payload, oe_EventVersion = 1, oe_AggregateVersion = ver, oe_NextAttemptAt = None \<rparr>"

definition insertRefund :: "env \<Rightarrow> InitiateInput \<Rightarrow> Txn \<Rightarrow> (world, Refund) comp" where
  "insertRefund ev inp parent =
    bindE (LockParentTransaction (ii_TransactionID inp)) (\<lambda>_.
    bindE (SumActiveRefunds (ii_TransactionID inp)) (\<lambda>alreadyRefunded.
    bindE (NewUUID ev) (\<lambda>rid. bindE Now (\<lambda>now.
    bindE (lift (refund_New (ii_TransactionID inp) (ii_Amount inp) (t_Amount parent) alreadyRefunded
                   (ii_Reason inp) (ii_InitiatedBy inp) rid now)) (\<lambda>r0.
    let r = r0 \<lparr> rf_AttemptedGateway := t_GatewayID parent \<rparr> in
    bindE (wrapE ''insert refund'' (Refund_Insert r)) (\<lambda>_.
    bindE (wrapE ''write refund event'' (Outbox_Write ev (refund_event (rf_ID r) EventTypeRefundInitiated
        (JObj [(''refund_id'', JUuid (rf_ID r)), (''transaction_id'', JUuid (ii_TransactionID inp)),
               (''tenant_id'', JUuid (t_TenantID parent)), (''user_id'', JUuid (t_UserID parent)),
               (''amount'', JInt (rf_Amount r)), (''reason'', JStr (rf_Reason r)),
               (''aggregate_version'', JInt (rf_Version r))]) (rf_Version r)))) (\<lambda>_.
    bindE (audit (rf_TransactionID r) AuditEventTypeRefundInitiated (ii_InitiatedBy inp) ''''
             (refund_status_str (rf_Status r)) (ii_Reason inp)) (\<lambda>_.
    ok r))))))))"

text \<open>The body of the transaction: move the parent to REFUND_PENDING and insert the refund.\<close>

definition initiate_tx :: "env \<Rightarrow> InitiateInput \<Rightarrow> Txn \<Rightarrow> (world, Refund) comp" where
  "initiate_tx ev inp parent =
    bindE Now (\<lambda>now. bindE (lift (TransitionState parent StatusRefundPending ActorSystem now)) (\<lambda>parent1.
    bindE (Txn_UpdateStatus parent1) (\<lambda>parent2. insertRefund ev inp parent2)))"

definition mapInitiateError :: "go_error \<Rightarrow> go_error" where
  "mapInitiateError e = (case as_OverRefund e of Some over \<Rightarrow> over | None \<Rightarrow> Wrapf ''refund: initiate'' e)"

definition mapE :: "(go_error \<Rightarrow> go_error) \<Rightarrow> (world, 'a) comp \<Rightarrow> (world, 'a) comp" where
  "mapE f m w = (case m w of (Inl e, w') \<Rightarrow> (Inl (f e), w') | (Inr a, w') \<Rightarrow> (Inr a, w'))"

text \<open>The switch on the verdict: the stored response of a replay names the refund.\<close>

fun stored_refund :: "json option \<Rightarrow> uuid option" where
  "stored_refund (Some (JObj [(_, JUuid rid)])) = Some rid"
| "stored_refund _ = None"

definition initiate_result :: "Verdict \<times> json option \<times> Refund option \<Rightarrow> (world, Verdict \<times> Refund option) comp" where
  "initiate_result x = (case x of (verdict, response, created) \<Rightarrow>
     case verdict of
       Created \<Rightarrow> ok (Created, created)
     | Replayed \<Rightarrow> (case stored_refund response of
           Some rid \<Rightarrow> bindE (wrapE ''refund: reload idempotent refund'' (Refund_GetByID rid)) (\<lambda>rf. ok (Replayed, Some rf))
         | None \<Rightarrow> throw (Errorf ''refund: decode idempotent response''))
     | _ \<Rightarrow> ok (verdict, None))"

definition initiate_op :: "env \<Rightarrow> InitiateInput \<Rightarrow> Txn \<Rightarrow> (world, json \<times> Refund) comp" where
  "initiate_op ev inp parent = bindE (initiate_tx ev inp parent) (\<lambda>r. ok (JObj [(''refund_id'', JUuid (rf_ID r))], r))"

definition initiate_loaded :: "env \<Rightarrow> InitiateInput \<Rightarrow> Txn \<Rightarrow> (world, Verdict \<times> Refund option) comp" where
  "initiate_loaded ev inp parent =
    (if \<not> isRefundableStatus (t_Status parent) then throw ErrNotRefundable
     else if \<not> ev_idem ev then
       bindE (mapE mapInitiateError (WithinTx (initiate_tx ev inp parent))) (\<lambda>rf. ok (Created, Some rf))
     else if ii_IdempotencyKey inp = '''' then throw ErrKeyRequired
     else bindE (mapE mapInitiateError (Execute
             (Composite ev (ev_uuid_str ev (t_TenantID parent)) ''initiate_refund'' (ii_IdempotencyKey inp))
             (RequestHash ev [ev_uuid_str ev (ii_TransactionID inp), ev_itoa ev (ii_Amount inp), ii_Reason inp, ii_InitiatedBy inp])
             (initiate_op ev inp parent))) initiate_result)"

definition InitiateRefund :: "env \<Rightarrow> InitiateInput \<Rightarrow> (world, Verdict \<times> Refund option) comp" where
  "InitiateRefund ev inp =
    bindE (wrapE ''refund: load transaction'' (Txn_GetByID (ii_TransactionID inp))) (initiate_loaded ev inp)"

subsection \<open>Driving a refund through its gateway (process.go)\<close>

record refundOutcome =
  ro_terminal :: bool
  ro_newStatus :: RefundStatus
  ro_failureReason :: "FailureReason option"

definition not_terminal :: refundOutcome where
  "not_terminal = \<lparr> ro_terminal = False, ro_newStatus = RStatusOther '''', ro_failureReason = None \<rparr>"

definition gateway_reason :: "GatewayError \<Rightarrow> FailureReason" where
  "gateway_reason g = \<lparr> fr_Category = ge_Category g, fr_Code = ge_Code g, fr_GatewayCode = ge_GatewayCode g,
     fr_GatewayMessage = ge_GatewayMessage g, fr_Source = FailureReasonSourceGateway \<rparr>"

definition resolveRefundOutcome :: "GatewayRefundResponse option \<Rightarrow> GatewayError option \<Rightarrow> refundOutcome" where
  "resolveRefundOutcome resp gwErr = (case gwErr of
      Some g \<Rightarrow>
        if ge_Category g \<in> set [ErrorCategoryAmbiguous, ErrorCategoryNetworkTimeout, ErrorCategoryGatewayError] then not_terminal
        else \<lparr> ro_terminal = True, ro_newStatus = RStatusFailed, ro_failureReason = Some (gateway_reason g) \<rparr>
    | None \<Rightarrow> (case resp of
        None \<Rightarrow> not_terminal
      | Some r \<Rightarrow>
          if gr_Status r = GatewayRefundStatusCompleted
          then \<lparr> ro_terminal = True, ro_newStatus = RStatusRefunded, ro_failureReason = None \<rparr>
          else if gr_Status r = GatewayRefundStatusFailed
          then \<lparr> ro_terminal = True, ro_newStatus = RStatusFailed, ro_failureReason = Some \<lparr> fr_Category = ''gateway_refund_failed'',
                 fr_Code = '''', fr_GatewayCode = '''', fr_GatewayMessage = '''', fr_Source = FailureReasonSourceGateway \<rparr> \<rparr>
          else not_terminal))"

text \<open>The amount to refund at the gateway: the share of the fee-inclusive charge.\<close>

definition gateway_refund_amount :: "Txn \<Rightarrow> Refund \<Rightarrow> int \<times> string" where
  "gateway_refund_amount parent rf = (case t_GatewayAmount parent of
      None \<Rightarrow> (rf_Amount rf, t_Currency parent)
    | Some ga \<Rightarrow> (quot64 (wrap64 (ga * rf_Amount rf)) (t_Amount parent), t_GatewayCurrency parent))"

definition to_GatewayError :: "string \<Rightarrow> go_error \<Rightarrow> GatewayError" where
  "to_GatewayError code e = (case as_GatewayError e of Some g \<Rightarrow> g
     | None \<Rightarrow> \<lparr> ge_Category = ErrorCategoryGatewayError, ge_Code = code, ge_GatewayCode = '''',
                ge_GatewayMessage = err_msg e, ge_Retryable = False \<rparr>)"

definition log_call :: "gw_call \<Rightarrow> (world, unit) comp" where
  "log_call c = changing (\<lambda>w. w \<lparr> w_calls := w_calls w @ [c] \<rparr>)"

definition refund_callGateway ::
  "string \<Rightarrow> GatewayAdapter \<Rightarrow> Refund \<Rightarrow> Txn \<Rightarrow> (world, GatewayRefundResponse option \<times> GatewayError option) comp" where
  "refund_callGateway gid adapter rf parent =
    (let (gwAmount, gwCurrency) = gateway_refund_amount parent rf;
         req = \<lparr> grr_RefundID = rf_ID rf, grr_TransactionID = rf_TransactionID rf, grr_TenantID = t_TenantID parent,
                 grr_GatewayReferenceID = t_GatewayReferenceID parent, grr_Amount = gwAmount, grr_Currency = gwCurrency,
                 grr_Reason = rf_Reason rf, grr_IdempotencyKey = '''' \<rparr>
     in bindE (reading w_calls) (\<lambda>calls. bindE (log_call (CallRefund gid req)) (\<lambda>_.
        ok (case GwRefund adapter calls req of
              Inl e \<Rightarrow> (None, Some (to_GatewayError ''refund_call_failed'' e))
            | Inr r \<Rightarrow> (Some r, None)))))"

definition transitionParentOnRefundResult :: "Txn \<Rightarrow> refundOutcome \<Rightarrow> (world, Txn) comp" where
  "transitionParentOnRefundResult parent oc = bindE Now (\<lambda>now.
     bindE (wrapE ''refund: sum active refunds for parent'' (SumActiveRefunds (t_ID parent))) (\<lambda>alreadyRefunded.
     if ro_newStatus oc = RStatusRefunded then
       if alreadyRefunded \<ge> t_Amount parent then lift (TransitionState parent StatusRefunded ActorSystem now)
       else lift (TransitionState parent StatusPartiallyRefunded ActorSystem now)
     else if alreadyRefunded > 0 then ok parent
     else lift (TransitionState parent StatusRefundFailed ActorSystem now)))"

definition refund_terminal_event :: "Refund \<Rightarrow> RefundStatus \<Rightarrow> OutboxEvent" where
  "refund_terminal_event rf st = refund_event (rf_ID rf)
     (if st = RStatusRefunded then EventTypeRefundSucceeded else EventTypeRefundFailed)
     (JObj [(''refund_id'', JUuid (rf_ID rf)), (''transaction_id'', JUuid (rf_TransactionID rf)),
            (''status'', JStr (refund_status_str st)), (''gateway_refund_id'', JStr (rf_GatewayRefundID rf)),
            (''amount'', JInt (rf_Amount rf)), (''aggregate_version'', JInt (rf_Version rf))]) (rf_Version rf)"

definition notify :: "env \<Rightarrow> Txn \<Rightarrow> string \<Rightarrow> (string \<times> json) list \<Rightarrow> (world, unit) comp" where
  "notify ev t typ data = bindE (attempt (Notification_Dispatch ev \<lparr> n_ID = uuid_Nil, n_TenantID = t_TenantID t,
     n_UserID = Some (t_UserID t), n_Type = typ, n_Channel = ''EMAIL'', n_Recipient = t_CustomerEmail t,
     n_TemplateName = typ, n_TemplateData = data \<rparr>)) (\<lambda>_. ok ())"

definition refund_dispatchTerminalNotification :: "env \<Rightarrow> Txn \<Rightarrow> Refund \<Rightarrow> refundOutcome \<Rightarrow> (world, unit) comp" where
  "refund_dispatchTerminalNotification ev parent rf oc =
    (let data = [(''amount'', JInt (rf_Amount rf)), (''currency'', JStr (t_Currency parent)), (''transaction_id'', JUuid (t_ID parent))]
     in if t_CustomerEmail parent = '''' then ok ()
        else if ro_newStatus oc = RStatusRefunded then notify ev parent ''REFUND_COMPLETED'' data
        else if ro_newStatus oc = RStatusFailed then notify ev parent ''REFUND_FAILED''
          (data @ [(''reason'', JStr (case ro_failureReason oc of None \<Rightarrow> '''' | Some r \<Rightarrow> fr_GatewayMessage r))])
        else ok ())"

definition refund_dispatchTenantWebhook :: "env \<Rightarrow> Txn \<Rightarrow> Refund \<Rightarrow> refundOutcome \<Rightarrow> (world, unit) comp" where
  "refund_dispatchTenantWebhook ev parent rf oc =
    (let payload = JObj [(''refund_id'', JUuid (rf_ID rf)), (''transaction_id'', JUuid (t_ID parent)),
           (''status'', JStr (refund_status_str (ro_newStatus oc))), (''amount'', JInt (rf_Amount rf))];
         send = (\<lambda>et. bindE (attempt (TenantWebhook_Dispatch ev (t_TenantID parent) (t_ID parent) et payload)) (\<lambda>_. ok ()))
     in if ro_newStatus oc = RStatusRefunded then send EventTypeRefundSucceeded
        else if ro_newStatus oc = RStatusFailed then send EventTypeRefundFailed
        else ok ())"

definition refund_announce :: "env \<Rightarrow> Txn \<Rightarrow> Refund \<Rightarrow> refundOutcome \<Rightarrow> (world, unit) comp" where
  "refund_announce ev parent rf oc =
     bindE (refund_dispatchTerminalNotification ev parent rf oc) (\<lambda>_.
     bindE (refund_dispatchTenantWebhook ev parent rf oc) (\<lambda>_.
     Publish (t_ID parent) (if ro_newStatus oc = RStatusRefunded then StatusRefunded
              else if ro_newStatus oc = RStatusFailed then StatusRefundFailed else StatusOther '''')))"

definition finish_tx :: "env \<Rightarrow> Refund \<Rightarrow> Txn \<Rightarrow> refundOutcome \<Rightarrow> (world, Refund) comp" where
  "finish_tx ev rf parent oc = bindE Now (\<lambda>now.
     bindE (lift (refund_Transition rf (ro_newStatus oc) now)) (\<lambda>rf1.
     bindE (Refund_UpdateStatus (rf1 \<lparr> rf_FailureReason := ro_failureReason oc \<rparr>)) (\<lambda>rf2.
     bindE (transitionParentOnRefundResult parent oc) (\<lambda>parent1.
     bindE (Txn_UpdateStatus parent1) (\<lambda>parent2.
     bindE (Outbox_Write ev (refund_terminal_event rf2 (ro_newStatus oc))) (\<lambda>_.
     bindE (refund_announce ev parent2 rf2 oc) (\<lambda>_. ok rf2)))))))"

text \<open>What follows the gateway's answer: an ambiguous refund stays in flight, a terminal one is
  finished in one transaction with its parent and its event.\<close>

definition settle_refund ::
  "env \<Rightarrow> Refund \<Rightarrow> Txn \<Rightarrow> GatewayRefundResponse option \<times> GatewayError option \<Rightarrow> (world, Refund) comp" where
  "settle_refund ev rf1 parent ans =
    (let (resp, gwErr) = ans;
         oc = resolveRefundOutcome resp gwErr;
         rf2 = (case resp of None \<Rightarrow> rf1 | Some r \<Rightarrow> rf1 \<lparr> rf_GatewayRefundID := gr_GatewayRefundID r \<rparr>);
         rf3 = rf2 \<lparr> rf_ActualGateway := rf_AttemptedGateway rf2 \<rparr>
     in if \<not> ro_terminal oc then wrapE ''refund: persist in-flight'' (WithinTx (Refund_UpdateStatus rf3))
        else bindE (wrapE ''refund: finalize'' (WithinTx (finish_tx ev rf3 parent oc))) (\<lambda>rf4.
             bindE (audit (rf_TransactionID rf4) AuditEventTypeStateChange ActorSystem
                      (refund_status_str RStatusProcessing) (refund_status_str (ro_newStatus oc)) ''refund_processed'') (\<lambda>_.
             ok rf4)))"

definition runRefund :: "env \<Rightarrow> Refund \<Rightarrow> (world, Refund) comp" where
  "runRefund ev rf =
    bindE (wrapE ''refund: load parent'' (Txn_GetByID (rf_TransactionID rf))) (\<lambda>parent.
    case ev_registry ev (rf_AttemptedGateway rf) of
      None \<Rightarrow> throw (Errorf ''refund: resolve adapter'')
    | Some adapter \<Rightarrow>
      bindE (wrapE ''refund: claim'' (ClaimProcessing rf)) (\<lambda>claim. case claim of
        None \<Rightarrow> bindE (attempt (Refund_GetByID (rf_ID rf))) (\<lambda>r. case r of
            Inl e \<Rightarrow> throw (Errorf ''panic: nil pointer dereference'')
          | Inr rf' \<Rightarrow> ok rf')
      | Some rf1 \<Rightarrow> bindE (refund_callGateway (rf_AttemptedGateway rf) adapter rf1 parent) (settle_refund ev rf1 parent)))"

definition ProcessRefund :: "env \<Rightarrow> uuid \<Rightarrow> (world, Refund) comp" where
  "ProcessRefund ev refundID = bindE (wrapE ''refund: load refund'' (Refund_GetByID refundID)) (\<lambda>rf.
     if rf_Status rf \<noteq> StatusInitiated then ok rf else runRefund ev rf)"

definition RetryStaleRefund :: "env \<Rightarrow> uuid \<Rightarrow> (world, Refund) comp" where
  "RetryStaleRefund ev refundID = bindE (wrapE ''refund: load refund'' (Refund_GetByID refundID)) (\<lambda>rf.
     if rf_Status rf \<noteq> RStatusProcessing then ok rf else runRefund ev rf)"

definition ResolveCancelRefund :: "env \<Rightarrow> uuid \<Rightarrow> int \<Rightarrow> (world, unit) comp" where
  "ResolveCancelRefund ev transactionID amount =
    bindE (ExistsByReason transactionID ReasonCancelResolution) (\<lambda>exists.
    if exists then ok ()
    else bindE (attempt (InitiateRefund ev \<lparr> ii_TransactionID = transactionID, ii_Amount = amount,
           ii_Reason = ReasonCancelResolution, ii_InitiatedBy = ''system:cancel_resolution'',
           ii_IdempotencyKey = ''cancel-resolution:'' @ ev_uuid_str ev transactionID \<rparr>)) (\<lambda>r. case r of
       Inl e \<Rightarrow> (case as_OverRefund e of Some _ \<Rightarrow> ok ()
                  | None \<Rightarrow> throw (Wrapf ''refund: cancel resolution'' e))
     | Inr (_, None) \<Rightarrow> ok ()
     | Inr (_, Some rf) \<Rightarrow> bindE (wrapE ''refund: process cancel resolution'' (ProcessRefund ev (rf_ID rf))) (\<lambda>_. ok ())))"

subsection \<open>The refund budget\<close>

text \<open>The invariant: refunds have distinct identifiers and positive amounts, and for every payment
  those under way or done add up to at most its amount (amounts below 2^62); a payment that does not
  exist has none.\<close>

definition contrib :: "uuid \<Rightarrow> RefundRow \<Rightarrow> int" where
  "contrib i r = (if active_refund i r then rf_Amount (rr_refund r) else 0)"

definition refunds_within :: "db \<Rightarrow> bool" where
  "refunds_within d \<longleftrightarrow> distinct (map rr_id (db_refunds d)) \<and> (\<forall>r \<in> set (db_refunds d). 0 < rf_Amount (rr_refund r)) \<and>
     (\<forall>i t. txn_of d i = Some t \<longrightarrow> active_sum i d \<le> t_Amount t \<and> t_Amount t < 2 ^ 62) \<and>
     (\<forall>i. txn_of d i = None \<longrightarrow> active_sum i d \<le> 0)"

lemma active_sum_contrib: "active_sum i d = sum_list (map (contrib i) (db_refunds d))"
proof -
  have "sum_list (map (\<lambda>r. rf_Amount (rr_refund r)) (filter (active_refund i) rs)) = sum_list (map (contrib i) rs)" for rs
    by (induction rs) (simp_all add: contrib_def)
  then show ?thesis by (simp add: active_sum_def)
qed

lemma active_sum_other [simp]:
  "active_sum i (d \<lparr> db_transactions := a \<rparr>) = active_sum i d" "active_sum i (d \<lparr> db_idem := b \<rparr>) = active_sum i d"
  "active_sum i (d \<lparr> db_outbox := c \<rparr>) = active_sum i d" "active_sum i (d \<lparr> db_leases := e \<rparr>) = active_sum i d"
  by (simp_all add: active_sum_def)

lemma contrib_nonneg: "0 < rf_Amount (rr_refund r) \<Longrightarrow> 0 \<le> contrib i r"
  by (simp add: contrib_def)

lemma active_sum_nonneg: "refunds_within d \<Longrightarrow> 0 \<le> active_sum i d"
  by (auto simp: active_sum_contrib refunds_within_def intro!: sum_list_nonneg contrib_nonneg)

lemma sum_update_le:
  assumes "\<And>r. r \<in> set rs \<Longrightarrow> rr_id r = k \<Longrightarrow> contrib i (f r) \<le> contrib i r"
  shows "sum_list (map (contrib i) (update_row rr_id k f rs)) \<le> sum_list (map (contrib i) rs)"
  using assms
proof (induction rs)
  case (Cons r rs)
  have "sum_list (map (contrib i) (update_row rr_id k f rs)) \<le> sum_list (map (contrib i) rs)"
    using Cons by simp
  moreover have "contrib i (if rr_id r = k then f r else r) \<le> contrib i r"
    using Cons.prems [of r] by simp
  ultimately show ?case by (simp add: add_mono)
qed simp

text \<open>Writing a status over a refund that is under way never uses more of the budget.\<close>

lemma refunds_within_update:
  assumes "refunds_within d" "refund_of d k = Some row" "active_refund (rf_TransactionID (rr_refund row)) row"
    and "\<And>r. rr_id (f r) = rr_id r" "\<And>r. rf_Amount (rr_refund (f r)) = rf_Amount (rr_refund r)"
      "\<And>r. rf_TransactionID (rr_refund (f r)) = rf_TransactionID (rr_refund r)"
  shows "refunds_within (d \<lparr> db_refunds := update_row rr_id k f (db_refunds d) \<rparr>)"
proof -
  have le: "active_sum i (d \<lparr> db_refunds := update_row rr_id k f (db_refunds d) \<rparr>) \<le> active_sum i d" for i
    unfolding active_sum_contrib
  proof (simp, rule sum_update_le)
    fix r assume r: "r \<in> set (db_refunds d)" "rr_id r = k"
    then have "r = row"
      using assms(1,2) lookup_row_mem [of rr_id "db_refunds d" r] by (simp add: refunds_within_def)
    moreover have "0 < rf_Amount (rr_refund r)" using assms(1) r(1) by (simp add: refunds_within_def)
    ultimately show "contrib i (f r) \<le> contrib i r"
      using assms(3,5,6) by (auto simp: contrib_def active_refund_def)
  qed
  show ?thesis
    using assms(1) assms(4,5) order_trans [OF le]
    by (auto simp: refunds_within_def set_update_row)
qed

lemma refunds_within_txns:
  assumes "refunds_within d" "\<And>r. t_ID (f r) = t_ID r" "\<And>r. t_Amount (f r) = t_Amount r"
  shows "refunds_within (d \<lparr> db_transactions := update_row t_ID k f (db_transactions d) \<rparr>)"
  using assms by (auto simp: refunds_within_def)

lemma refunds_within_other [simp]:
  "refunds_within (d \<lparr> db_idem := x \<rparr>) = refunds_within d"
  "refunds_within (d \<lparr> db_outbox := y \<rparr>) = refunds_within d"
  by (simp_all add: refunds_within_def)

lemma refunds_within_core: "core d' = core d \<Longrightarrow> refunds_within d' = refunds_within d"
  by (simp add: refunds_within_def core_def active_sum_def)

lemma keeps_initiate_tx: "keeps (tx_inv D fs) (initiate_tx ev inp parent)"
  unfolding initiate_tx_def insertRefund_def Let_def by (intro hoare)

lemma insertRefund_within:
  assumes "insertRefund ev inp parent w = (Inr r, w')" "refunds_within (cur_db w)"
    and "txn_of (cur_db w) (ii_TransactionID inp) = Some t" "t_Amount parent = t_Amount t" "ii_Amount inp < 2 ^ 62"
  shows "refunds_within (cur_db w')"
proof -
  let ?i = "ii_TransactionID inp"
  from assms(1) obtain rid now r0 tm where
    new: "refund_New ?i (ii_Amount inp) (t_Amount parent) (active_sum ?i (cur_db w)) (ii_Reason inp) (ii_InitiatedBy inp) rid now = Inr r0"
    and ins: "refund_insert_ok (r0 \<lparr> rf_AttemptedGateway := t_GatewayID parent \<rparr>) (cur_db w)"
      "db_refunds (cur_db w') = db_refunds (cur_db w) @
         [\<lparr> rr_refund = r0 \<lparr> rf_AttemptedGateway := t_GatewayID parent \<rparr>, rr_updated_at = tm \<rparr>]"
      "db_transactions (cur_db w') = db_transactions (cur_db w)"
    unfolding insertRefund_def Let_def
    by (auto simp: run dest!: effect)
  from new have r0: "rf_Amount r0 = ii_Amount inp" "rf_TransactionID r0 = ?i" "0 < ii_Amount inp"
    "wrap64 (active_sum ?i (cur_db w) + ii_Amount inp) \<le> t_Amount parent" "rf_ID r0 = rid"
    by (auto simp: refund_New_def split: if_splits)
  have t: "active_sum ?i (cur_db w) \<le> t_Amount t" "t_Amount t < 2 ^ 62"
    using assms(2,3) by (auto simp: refunds_within_def)
  have "in64 (active_sum ?i (cur_db w) + ii_Amount inp)"
    using t active_sum_nonneg [OF assms(2), of ?i] r0(3) assms(5) by (simp add: in64_def)
  with r0(4) have sum: "active_sum ?i (cur_db w) + ii_Amount inp \<le> t_Amount t" using assms(4) by simp
  have "?i \<in> t_ID ` set (db_transactions (cur_db w))"
    using assms(3) lookup_row_None [of t_ID ?i "db_transactions (cur_db w)"] by auto
  then show ?thesis
    using assms(2,3) ins sum t r0
    by (auto simp: refunds_within_def active_sum_contrib contrib_def active_refund_def refund_insert_ok_def lookup_row_None)
qed

lemma initiate_tx_within:
  assumes "initiate_tx ev inp parent w = (Inr r, w')" "refunds_within (cur_db w)"
    and "txn_of (cur_db w) (ii_TransactionID inp) = Some parent" "ii_Amount inp < 2 ^ 62"
  shows "refunds_within (cur_db w')"
proof -
  from assms(1) obtain now p1 p2 w1 where
    ts: "TransitionState parent StatusRefundPending ActorSystem now = Inr p1"
    and us: "Txn_UpdateStatus p1 w = (Inr p2, w1)" and ins: "insertRefund ev inp p2 w1 = (Inr r, w')"
    by (auto simp: initiate_tx_def run)
  have p1: "t_ID p1 = ii_TransactionID inp" "t_Amount p1 = t_Amount parent"
    using TransitionState_Inr [OF ts] lookup_row_Some [OF assms(3)] by simp_all
  have eff: "p2 = p1 \<lparr> t_Version := t_Version p1 + 1 \<rparr>"
    "cur_db w1 = (cur_db w) \<lparr> db_transactions := update_row t_ID (t_ID p1) (status_cols p1 (w_clock w)) (db_transactions (cur_db w)) \<rparr>"
    using Txn_UpdateStatus_effect [OF us] by auto
  have "refunds_within (cur_db w1)"
    unfolding eff(2) by (rule refunds_within_txns [OF assms(2)]) simp_all
  moreover have "txn_of (cur_db w1) (ii_TransactionID inp) = Some (status_cols p1 (w_clock w) parent)"
    using assms(3) p1(1) by (simp add: eff(2))
  ultimately show ?thesis
    using p1(2) assms(4)
    by (intro insertRefund_within [OF ins, where t = "status_cols p1 (w_clock w) parent"]) (auto simp: eff(1))
qed

lemma mapE_result: "mapE f m w = (r, w') \<Longrightarrow> \<exists>r'. m w = (r', w')"
  by (auto simp: mapE_def split: prod.splits sum.splits)

lemma keeps_initiate_result: "keeps (settled refunds_within) (initiate_result x)"
proof -
  have "keeps (settled refunds_within) (Refund_GetByID rid)" for rid
    unfolding Refund_GetByID_def by (intro hoare)
  then show ?thesis
    unfolding initiate_result_def
    by (auto intro!: hoare split: prod.split Verdict.split option.split)
qed

lemma keeps_snd: "keeps I m \<Longrightarrow> I w \<Longrightarrow> I (snd (m w))"
  by (simp add: keeps_def)

lemma snd_wrapE: "snd (wrapE s m w) = snd (m w)"
  by (simp add: wrapE_def split: prod.split sum.split)

lemma snd_mapE: "snd (mapE f m w) = snd (m w)"
  by (simp add: mapE_def split: prod.split sum.split)

lemma initiate_within_tx:
  assumes "settled refunds_within w" "txn_of (w_db w) (ii_TransactionID inp) = Some parent" "ii_Amount inp < 2 ^ 62"
  shows "settled refunds_within (snd (WithinTx (initiate_tx ev inp parent) w))"
proof -
  obtain r w1 where e: "WithinTx (initiate_tx ev inp parent) w = (r, w1)" by fastforce
  have "settled refunds_within w1"
    using initiate_tx_within [of ev inp parent "open_tx w"] assms
    by (intro WithinTx_post [OF keeps_initiate_tx assms(1) e]) (auto simp: settled_def)
  with e show ?thesis by simp
qed

lemma initiate_within_Execute:
  assumes "settled refunds_within w" "txn_of (w_db w) (ii_TransactionID inp) = Some parent" "ii_Amount inp < 2 ^ 62"
  shows "settled refunds_within (snd (Execute c h (initiate_op ev inp parent) w))"
proof -
  have k: "keeps (tx_inv D fs) (initiate_op ev inp parent)" for D fs
    unfolding initiate_op_def by (intro hoare keeps_initiate_tx)
  obtain r w1 where e: "Execute c h (initiate_op ev inp parent) w = (r, w1)" by fastforce
  have "settled refunds_within w1"
  proof (rule Execute_post [OF k assms(1) e])
    fix j a w2 assume "initiate_op ev inp parent (claimed_world c h w) = (Inr (j, a), w2)"
    then have op: "initiate_tx ev inp parent (claimed_world c h w) = (Inr a, w2)" by (auto simp: initiate_op_def run)
    show "refunds_within (cur_db w2)"
      by (rule initiate_tx_within [OF op]) (use assms in \<open>simp_all add: settled_def sql_reserve_def\<close>)
  qed simp
  with e show ?thesis by simp
qed

text \<open>Initiating a refund keeps the budget, wherever the database stops answering.\<close>

lemma InitiateRefund_within:
  assumes "ii_Amount inp < 2 ^ 62"
  shows "keeps (settled refunds_within) (InitiateRefund ev inp)"
proof (unfold keeps_def, intro allI impI)
  fix w assume w: "settled refunds_within w"
  obtain r0 w0 where g: "Txn_GetByID (ii_TransactionID inp) w = (r0, w0)" by fastforce
  note g' = Txn_GetByID_settled [OF w g]
  show "settled refunds_within (snd (InitiateRefund ev inp w))"
  proof (cases r0)
    case (Inl e)
    then show ?thesis using g g'(1) by (simp add: InitiateRefund_def bindE_def wrapE_def)
  next
    case (Inr parent)
    have p: "txn_of (w_db w0) (ii_TransactionID inp) = Some parent" using g'(2,4) Inr by simp
    have "settled refunds_within (snd (initiate_loaded ev inp parent w0))"
    proof (cases "isRefundableStatus (t_Status parent)")
      case True
      have "settled refunds_within (snd (bindE (mapE mapInitiateError (WithinTx (initiate_tx ev inp parent))) (\<lambda>rf. ok (Created, Some rf)) w0))"
        by (rule bindE_snd) (simp_all add: snd_mapE initiate_within_tx [OF g'(1) p assms] hoare)
      moreover have "settled refunds_within (snd (bindE (mapE mapInitiateError (Execute c h (initiate_op ev inp parent))) initiate_result w0))" for c h
        by (rule bindE_snd) (simp_all add: snd_mapE initiate_within_Execute [OF g'(1) p assms] keeps_initiate_result)
      ultimately show ?thesis using g'(1) by (simp add: initiate_loaded_def throw_def)
    qed (use g'(1) in \<open>simp add: initiate_loaded_def throw_def\<close>)
    moreover have "InitiateRefund ev inp w = initiate_loaded ev inp parent w0"
      using Inr g by (simp add: InitiateRefund_def bindE_def wrapE_def)
    ultimately show ?thesis by simp
  qed
qed

subsection \<open>Processing keeps the budget\<close>

definition in_processing :: "uuid \<Rightarrow> db \<Rightarrow> bool" where
  "in_processing k d \<longleftrightarrow> (case refund_of d k of None \<Rightarrow> False | Some row \<Rightarrow> rf_Status (rr_refund row) = RStatusProcessing)"

lemma in_processing_update:
  assumes "refunds_within d" "in_processing k d" "\<And>r. rr_id (f r) = rr_id r"
    "\<And>r. rf_Amount (rr_refund (f r)) = rf_Amount (rr_refund r)"
    "\<And>r. rf_TransactionID (rr_refund (f r)) = rf_TransactionID (rr_refund r)"
  shows "refunds_within (d \<lparr> db_refunds := update_row rr_id k f (db_refunds d) \<rparr>)"
proof -
  from assms(2) obtain row where "refund_of d k = Some row" "rf_Status (rr_refund row) = RStatusProcessing"
    by (auto simp: in_processing_def split: option.splits)
  with assms show ?thesis by (intro refunds_within_update [of d k row f]) (auto simp: active_refund_def)
qed

lemma sql_claim_within:
  assumes "refunds_within d" "sql_claim_refund now rf d = Some (rf', d')"
  shows "refunds_within d'" "in_processing (rf_ID rf) d'" "rf_ID rf' = rf_ID rf" "rf_AttemptedGateway rf' = rf_AttemptedGateway rf"
proof -
  from assms(2) obtain row where row: "refund_of d (rf_ID rf) = Some row"
    "rf_Status (rr_refund row) \<in> {StatusInitiated, RStatusProcessing}"
    and d': "d' = d \<lparr> db_refunds := update_row rr_id (rf_ID rf) (\<lambda>r. \<lparr> rr_refund = (rr_refund r) \<lparr> rf_Status := RStatusProcessing,
                         rf_Version := rf_Version (rr_refund r) + 1, rf_Attempts := rf_Attempts (rr_refund r) + 1 \<rparr>,
                       rr_updated_at = now \<rparr>) (db_refunds d) \<rparr>"
    by (auto simp: sql_claim_refund_def split: option.splits if_splits)
  show "refunds_within d'" unfolding d'
    by (rule refunds_within_update [OF assms(1) row(1)]) (use row(2) in \<open>auto simp: active_refund_def\<close>)
  show "in_processing (rf_ID rf) d'" using row(1) by (simp add: in_processing_def d')
  show "rf_ID rf' = rf_ID rf" "rf_AttemptedGateway rf' = rf_AttemptedGateway rf"
    using assms(2) by (auto simp: sql_claim_refund_def split: option.splits if_splits)
qed

lemma ClaimProcessing_within:
  assumes "settled refunds_within w" "ClaimProcessing rf w = (r, w')"
  shows "settled refunds_within w'"
    "r = Inr (Some rf') \<Longrightarrow> settled (\<lambda>d. refunds_within d \<and> in_processing (rf_ID rf') d) w'"
proof -
  have "settled refunds_within w' \<and> (\<forall>rf'. r = Inr (Some rf') \<longrightarrow> settled (\<lambda>d. refunds_within d \<and> in_processing (rf_ID rf') d) w')"
    using query_cases [of "\<lambda>d. sql_claim_refund (w_clock w) rf d" w]
  proof
    assume "\<exists>e. query (\<lambda>d. sql_claim_refund (w_clock w) rf d) w = (Inl e, w)"
    then show ?thesis using assms by (auto simp: ClaimProcessing_def bindE_def Now_def reading_def)
  next
    assume q: "query (\<lambda>d. sql_claim_refund (w_clock w) rf d) w = (Inr (sql_claim_refund (w_clock w) rf (cur_db w)), spend w)"
    show ?thesis
    proof (cases "sql_claim_refund (w_clock w) rf (w_db w)")
      case None
      with q assms show ?thesis
        by (auto simp: ClaimProcessing_def bindE_def Now_def reading_def ok_def settled_def coh_def cur_db_def)
    next
      case (Some x)
      obtain rf1 d1 where x: "x = (rf1, d1)" by (cases x)
      have d: "refunds_within d1" "in_processing (rf_ID rf1) d1" "db_transactions d1 = db_transactions (w_db w)"
        using sql_claim_within [of "w_db w" "w_clock w" rf rf1 d1] assms(1) Some x
          no_txn_change(2) [where now = "w_clock w" and rf = rf and d = "w_db w"] by (auto simp: settled_def)
      have "w' = put_db (\<lambda>d. case sql_claim_refund (w_clock w) rf d of Some (_, d') \<Rightarrow> d' | None \<Rightarrow> d) (spend w)" "r = Inr (Some rf1)"
        using assms q Some x
        by (auto simp: ClaimProcessing_def bindE_def Now_def reading_def ok_def changing_def settled_def cur_db_def)
      then show ?thesis
        using assms(1) Some x d by (auto simp: settled_def coh_def put_db_def)
    qed
  qed
  then show "settled refunds_within w'"
    "r = Inr (Some rf') \<Longrightarrow> settled (\<lambda>d. refunds_within d \<and> in_processing (rf_ID rf') d) w'" by auto
qed

lemma keeps_notify [hoare]: "keeps (tx_inv D fs) (notify ev t typ xs)" "keeps (\<lambda>w. core (cur_db w) = C) (notify ev t typ xs)"
  unfolding notify_def by (intro hoare)+

lemma keeps_core_Publish [hoare]: "keeps (\<lambda>w. core (cur_db w) = C) (Publish i st)"
  by (auto simp: keeps_def Publish_def changing_def)

lemma keeps_refund_dispatch [hoare]:
  "keeps (tx_inv D fs) (refund_dispatchTerminalNotification ev p rf oc)" "keeps (tx_inv D fs) (refund_dispatchTenantWebhook ev p rf oc)"
  "keeps (\<lambda>w. core (cur_db w) = C) (refund_dispatchTerminalNotification ev p rf oc)"
  "keeps (\<lambda>w. core (cur_db w) = C) (refund_dispatchTenantWebhook ev p rf oc)"
  unfolding refund_dispatchTerminalNotification_def refund_dispatchTenantWebhook_def Let_def by (intro hoare)+

lemma keeps_refund_announce [hoare]:
  "keeps (tx_inv D fs) (refund_announce ev p rf oc)" "keeps (\<lambda>w. core (cur_db w) = C) (refund_announce ev p rf oc)"
  unfolding refund_announce_def by (intro hoare)+

lemma keeps_finish_tx: "keeps (tx_inv D fs) (finish_tx ev rf p oc)"
  unfolding finish_tx_def transitionParentOnRefundResult_def by (intro hoare)

lemma transitionParent_effect:
  "transitionParentOnRefundResult p oc w = (Inr p', w') \<Longrightarrow> cur_db w' = cur_db w \<and> t_ID p' = t_ID p \<and> w_clock w' = w_clock w"
  by (auto simp: transitionParentOnRefundResult_def SumActiveRefunds_def run split: if_splits dest: TransitionState_Inr(4))

lemma core_tail:
  assumes "\<And>C. keeps (\<lambda>w. core (cur_db w) = C) m" "m w1 = (r, w2)"
  shows "core (cur_db w2) = core (cur_db w1)"
  using keepsD [OF assms(1) _ assms(2)] by simp

lemma finish_tx_within:
  assumes "finish_tx ev rf p oc w = (Inr r, w')" "refunds_within (cur_db w)" "in_processing (rf_ID rf) (cur_db w)"
  shows "refunds_within (cur_db w')"
proof -
  from assms(1) obtain rf1 rf2 w1 p1 w2 p2 w3 w4 where
    tr: "refund_Transition rf (ro_newStatus oc) (w_clock w) = Inr rf1"
    and us: "Refund_UpdateStatus (rf1 \<lparr> rf_FailureReason := ro_failureReason oc \<rparr>) w = (Inr rf2, w1)"
    and tp: "transitionParentOnRefundResult p oc w1 = (Inr p1, w2)"
    and ut: "Txn_UpdateStatus p1 w2 = (Inr p2, w3)"
    and ow: "Outbox_Write ev (refund_terminal_event rf2 (ro_newStatus oc)) w3 = (Inr (), w4)"
    and tl: "refund_announce ev p2 rf2 oc w4 = (Inr (), w')"
    unfolding finish_tx_def by (auto simp: run)
  have "refunds_within (cur_db w1)"
    using Refund_UpdateStatus_effect [OF us] refund_Transition_Inr(3) [OF tr] assms(2,3)
    by (auto intro!: in_processing_update)
  then have "refunds_within (cur_db w2)" using transitionParent_effect [OF tp] by simp
  then have "refunds_within (cur_db w3)"
    using Txn_UpdateStatus_effect [OF ut] by (auto intro!: refunds_within_txns)
  then have "refunds_within (cur_db w4)" using Outbox_Write_effect [OF ow] by auto
  moreover have "core (cur_db w') = core (cur_db w4)"
    by (rule core_tail [OF keeps_refund_announce(2) tl])
  ultimately show ?thesis using refunds_within_core by blast
qed

lemma keeps_settled_Refund_GetByID [hoare]: "keeps (settled P) (Refund_GetByID i)"
  unfolding Refund_GetByID_def by (intro hoare)

lemma keeps_settled_calls [hoare]: "keeps (settled P) (refund_callGateway g ad rf p)"
  by (auto simp: refund_callGateway_def Let_def log_call_def keeps_def settled_def coh_def bindE_def reading_def changing_def ok_def
      split: prod.split)

lemma settle_refund_within:
  assumes "settled (\<lambda>d. refunds_within d \<and> in_processing (rf_ID rf) d) w"
  shows "settled refunds_within (snd (settle_refund ev rf p x w))"
proof -
  have w: "settled refunds_within w" using assms by (simp add: settled_def)
  have fly: "settled refunds_within (snd (WithinTx (Refund_UpdateStatus rf') w))" if "rf_ID rf' = rf_ID rf" for rf'
  proof -
    obtain r w1 where e: "WithinTx (Refund_UpdateStatus rf') w = (r, w1)" by fastforce
    have "settled refunds_within w1"
    proof (rule WithinTx_post [OF keeps_repo(4) w e])
      fix a w2 assume "Refund_UpdateStatus rf' (open_tx w) = (Inr a, w2)"
      from Refund_UpdateStatus_effect [OF this] assms that show "refunds_within (cur_db w2)"
        by (auto simp: settled_def intro!: in_processing_update)
    qed
    with e show ?thesis by simp
  qed
  have fin: "settled refunds_within (snd (WithinTx (finish_tx ev rf' p oc) w))" if "rf_ID rf' = rf_ID rf" for rf' oc
  proof -
    obtain r w1 where e: "WithinTx (finish_tx ev rf' p oc) w = (r, w1)" by fastforce
    have "settled refunds_within w1"
    proof (rule WithinTx_post [OF keeps_finish_tx w e])
      fix a w2 assume "finish_tx ev rf' p oc (open_tx w) = (Inr a, w2)"
      from finish_tx_within [OF this] assms that show "refunds_within (cur_db w2)" by (simp add: settled_def)
    qed
    with e show ?thesis by simp
  qed
  have fin': "settled refunds_within (snd (bindE (wrapE s (WithinTx (finish_tx ev rf' p oc))) (\<lambda>rf4.
      bindE (audit (rf_TransactionID rf4) et ac ps ns rs) (\<lambda>_. ok rf4)) w))"
    if "rf_ID rf' = rf_ID rf" for rf' oc s et ac ps ns rs
    by (rule bindE_snd) (use fin [OF that] in \<open>auto simp: snd_wrapE intro!: hoare\<close>)
  show ?thesis
    unfolding settle_refund_def Let_def
    by (cases x) (simp add: snd_wrapE fly fin' split: option.split)
qed

lemma runRefund_within: "keeps (settled refunds_within) (runRefund ev rf)"
proof -
  have claim: "keeps (settled refunds_within) (bindE (wrapE s (ClaimProcessing rf)) (\<lambda>claim. case claim of
        None \<Rightarrow> bindE (attempt (Refund_GetByID (rf_ID rf))) (\<lambda>r. case r of
            Inl e \<Rightarrow> throw (Errorf ''panic: nil pointer dereference'') | Inr rf' \<Rightarrow> ok rf')
      | Some rf1 \<Rightarrow> bindE (refund_callGateway g ad rf1 p) (settle_refund ev rf1 p)))" (is "keeps _ (bindE _ ?next)") for s g ad p
  proof (unfold keeps_def, intro allI impI)
    fix w assume w: "settled refunds_within w"
    obtain r w1 where c: "ClaimProcessing rf w = (r, w1)" by fastforce
    note c' = ClaimProcessing_within [OF w c]
    have none: "keeps (settled refunds_within) (?next None)" by (simp) (intro hoare)
    have some: "settled refunds_within (snd (bindE (refund_callGateway g ad rf1 p) (settle_refund ev rf1 p) w1))"
      if "r = Inr (Some rf1)" for rf1
    proof -
      obtain y w2 where call: "refund_callGateway g ad rf1 p w1 = (y, w2)" by fastforce
      have w2: "settled (\<lambda>d. refunds_within d \<and> in_processing (rf_ID rf1) d) w2"
        by (rule keepsD [OF keeps_settled_calls c'(2) [OF that] call])
      then have "settled refunds_within w2" by (simp add: settled_def)
      with settle_refund_within [OF w2] call show ?thesis by (cases y) (simp_all add: bindE_def)
    qed
    show "settled refunds_within (snd (bindE (wrapE s (ClaimProcessing rf)) ?next w))"
      using c c'(1) some none
      by (cases r) (auto simp: bindE_def [of "wrapE s (ClaimProcessing rf)"] wrapE_def keeps_def split: option.splits)
  qed
  show ?thesis unfolding runRefund_def by (intro hoare claim)
qed

lemma Process_within: "keeps (settled refunds_within) (ProcessRefund ev i)" "keeps (settled refunds_within) (RetryStaleRefund ev i)"
  unfolding ProcessRefund_def RetryStaleRefund_def by (intro hoare runRefund_within)+

lemma ResolveCancelRefund_within:
  assumes "amount < 2 ^ 62"
  shows "keeps (settled refunds_within) (ResolveCancelRefund ev i amount)"
  unfolding ResolveCancelRefund_def ExistsByReason_def
  by (intro hoare InitiateRefund_within Process_within) (use assms in simp_all)

subsection \<open>Properties\<close>

datatype refund_op =
    OpInitiate InitiateInput
  | OpProcess uuid
  | OpRetry uuid
  | OpResolveCancel uuid int

primrec run_refund_op :: "env \<Rightarrow> refund_op \<Rightarrow> world \<Rightarrow> world" where
  "run_refund_op ev (OpInitiate inp) w = snd (InitiateRefund ev inp w)"
| "run_refund_op ev (OpProcess i) w = snd (ProcessRefund ev i w)"
| "run_refund_op ev (OpRetry i) w = snd (RetryStaleRefund ev i w)"
| "run_refund_op ev (OpResolveCancel i amount) w = snd (ResolveCancelRefund ev i amount w)"

primrec op_amount :: "refund_op \<Rightarrow> int" where
  "op_amount (OpInitiate inp) = ii_Amount inp"
| "op_amount (OpProcess i) = 0"
| "op_amount (OpRetry i) = 0"
| "op_amount (OpResolveCancel i amount) = amount"

lemma run_refund_op_within:
  assumes "settled refunds_within w" "op_amount op < 2 ^ 62"
  shows "settled refunds_within (run_refund_op ev op w)"
proof (cases op)
  case (OpInitiate inp)
  then show ?thesis using keeps_snd [OF InitiateRefund_within assms(1)] assms(2) by simp
next
  case (OpResolveCancel i a)
  then show ?thesis using keeps_snd [OF ResolveCancelRefund_within assms(1)] assms(2) by simp
qed (simp_all add: keeps_snd [OF Process_within(1) assms(1)] keeps_snd [OF Process_within(2) assms(1)])

text \<open>Proration rounds down, so shares add up to at most the share of the sum.\<close>

lemma share_eq:
  fixes ga a n :: int
  assumes "0 \<le> ga" "0 < n" "0 \<le> a" "a \<le> n" "ga * n < 2 ^ 63"
  shows "quot64 (wrap64 (ga * a)) n = ga * a div n"
proof -
  have "ga * a \<le> ga * n" "0 \<le> ga * a" using assms by (simp_all add: mult_left_mono)
  moreover from this have "in64 (ga * a)" using assms(5) by (simp add: in64_def)
  ultimately show ?thesis using assms(2) by (simp add: quot64_nonneg)
qed

lemma shares_le:
  fixes ga n :: int
  assumes "0 < n"
  shows "sum_list (map (\<lambda>a. ga * a div n) as) \<le> ga * sum_list as div n"
proof (induction as)
  case (Cons a as)
  have "0 \<le> (ga * a mod n + ga * sum_list as mod n) div n"
    using assms by (simp add: pos_imp_zdiv_nonneg_iff)
  then show ?case
    using Cons.IH div_add1_eq [of "ga * a" "ga * sum_list as" n] by (simp add: distrib_left)
qed simp

lemma sum_list_member_le: "(\<forall>x \<in> set xs. 0 \<le> x) \<Longrightarrow> (x :: int) \<in> set xs \<Longrightarrow> x \<le> sum_list xs"
  by (induction xs) (auto intro: add_increasing add_increasing2 sum_list_nonneg)

text \<open>C29. The gateway is never asked to refund more than it charged: the amounts sent for any refunds
  that fit the payment's amount are nonnegative and add up to at most the fee-inclusive charge, and a
  full refund sends exactly the charge (as long as the product of charge and amount fits an int64).\<close>

theorem prorated_refunds_within_charge:
  assumes "t_GatewayAmount p = Some ga" "0 \<le> ga" "0 < t_Amount p" "ga * t_Amount p < 2 ^ 63"
    and "\<forall>r \<in> set rs. 0 < rf_Amount r" "sum_list (map rf_Amount rs) \<le> t_Amount p"
  shows "sum_list (map (\<lambda>r. fst (gateway_refund_amount p r)) rs) \<le> ga \<and>
    (\<forall>r \<in> set rs. 0 \<le> fst (gateway_refund_amount p r)) \<and>
    (\<forall>r. rf_Amount r = t_Amount p \<longrightarrow> gateway_refund_amount p r = (ga, t_GatewayCurrency p))"
proof -
  have share: "gateway_refund_amount p r = (ga * rf_Amount r div t_Amount p, t_GatewayCurrency p)"
    if "0 \<le> rf_Amount r" "rf_Amount r \<le> t_Amount p" for r
    using share_eq [OF assms(2,3) that assms(4)] by (simp add: gateway_refund_amount_def assms(1))
  have bound: "rf_Amount r \<le> t_Amount p" if "r \<in> set rs" for r
  proof -
    have "rf_Amount r \<le> sum_list (map rf_Amount rs)"
      using assms(5) that by (intro sum_list_member_le) auto
    with assms(6) show ?thesis by simp
  qed
  have fits: "gateway_refund_amount p r = (ga * rf_Amount r div t_Amount p, t_GatewayCurrency p)" if "r \<in> set rs" for r
    using share [of r] bound [OF that] assms(5) that by force
  have "sum_list (map (\<lambda>r. fst (gateway_refund_amount p r)) rs) = sum_list (map (\<lambda>a. ga * a div t_Amount p) (map rf_Amount rs))"
    using fits by (simp add: o_def cong: map_cong)
  also have "\<dots> \<le> ga * sum_list (map rf_Amount rs) div t_Amount p" by (rule shares_le [OF assms(3)])
  also have "\<dots> \<le> ga * t_Amount p div t_Amount p" using assms(2,3,6) by (intro zdiv_mono1) (simp_all add: mult_left_mono)
  finally have "sum_list (map (\<lambda>r. fst (gateway_refund_amount p r)) rs) \<le> ga" using assms(3) by simp
  moreover have "0 \<le> fst (gateway_refund_amount p r)" if "r \<in> set rs" for r
  proof -
    have "0 \<le> ga * rf_Amount r" using assms(2,5) that by (intro mult_nonneg_nonneg) (auto intro: less_imp_le)
    then show ?thesis using fits [OF that] assms(3) by (simp add: pos_imp_zdiv_nonneg_iff)
  qed
  moreover have "gateway_refund_amount p r = (ga, t_GatewayCurrency p)" if "rf_Amount r = t_Amount p" for r
    using share [of r] that assms(3) by simp
  ultimately show ?thesis by blast
qed

definition refund_of_amount :: "int \<Rightarrow> Refund" where
  "refund_of_amount a = sample_refund \<lparr> rf_Amount := a \<rparr>"

theorem prorated_refunds_within_charge_witness:
  "sum_list (map (\<lambda>r. fst (gateway_refund_amount (zero_Txn \<lparr> t_Amount := 100, t_GatewayAmount := Some 103 \<rparr>) r))
     [refund_of_amount 33, refund_of_amount 67]) \<le> 103"
  using prorated_refunds_within_charge [of "zero_Txn \<lparr> t_Amount := 100, t_GatewayAmount := Some 103 \<rparr>" 103
      "[refund_of_amount 33, refund_of_amount 67]"]
  by (simp add: refund_of_amount_def)

text \<open>Beyond that bound the product wraps: for a charge and an amount of 2^32 minor units each, a
  full refund of a captured payment asks the gateway to return nothing.\<close>

theorem proration_overflow:
  assumes "t_GatewayAmount p = Some (2 ^ 32)" "t_Amount p = 2 ^ 32" "rf_Amount rf = t_Amount p"
  shows "gateway_refund_amount p rf = (0, t_GatewayCurrency p)"
  using assms by (simp add: gateway_refund_amount_def wrap64_def quot64_def)

theorem proration_overflow_witness:
  "gateway_refund_amount (zero_Txn \<lparr> t_GatewayAmount := Some (2 ^ 32), t_Amount := 2 ^ 32, t_GatewayCurrency := ''USD'' \<rparr>)
     (refund_of_amount (2 ^ 32)) = (0, ''USD'')"
  using proration_overflow [of "zero_Txn \<lparr> t_GatewayAmount := Some (2 ^ 32), t_Amount := 2 ^ 32, t_GatewayCurrency := ''USD'' \<rparr>"
      "refund_of_amount (2 ^ 32)"]
  by (simp add: refund_of_amount_def)

text \<open>A small system: one captured payment, one gateway that completes its first refund and rejects
  the later ones.\<close>

definition sample_adapter :: GatewayAdapter where
  "sample_adapter = \<lparr> InitiatePayment = (\<lambda>_ _. Inl (Errorf ''unused'')), CheckStatus = (\<lambda>_ _. Inl (Errorf ''unused'')),
     GwRefund = (\<lambda>calls req. if calls = [] then Inr \<lparr> gr_GatewayRefundID = ''re_1'', gr_Status = GatewayRefundStatusCompleted,
        gr_Amount = grr_Amount req, gr_Currency = grr_Currency req \<rparr>
      else Inl (GatewayErr \<lparr> ge_Category = ''DECLINED'', ge_Code = ''no'', ge_GatewayCode = '''', ge_GatewayMessage = ''no'', ge_Retryable = False \<rparr>)),
     CapturePayment = (\<lambda>_ _. Inl (Errorf ''unused'')) \<rparr>"

definition sample_env :: env where
  "sample_env = \<lparr> ev_registry = (\<lambda>g. if g = ''stripe'' then Some sample_adapter else None), ev_gateway_active = (\<lambda>_. Inr True),
     ev_processing_timeout = (\<lambda>_ _. Inr (30 * Second)), ev_fee_model = (\<lambda>_ _. Inr None), ev_currency_rates = (\<lambda>_. Inr []),
     ev_preferences = (\<lambda>_ _. Inr []), ev_tenant_webhook = (\<lambda>_. Inr None), ev_uuid = (\<lambda>n. of_nat n + 100), ev_token = (\<lambda>_. ''tok''),
     ev_sha256 = (\<lambda>s. s), ev_uuid_str = (\<lambda>_. ''u''), ev_uuid_parse = (\<lambda>_. None), ev_itoa = (\<lambda>_. ''n''), ev_shard_count = 4, ev_cb_threshold = 3,
     ev_idem = False, ev_null_string = Inl (Errorf ''cannot scan NULL into *string'') \<rparr>"

definition captured_payment :: Txn where
  "captured_payment = zero_Txn \<lparr> t_ID := 1, t_TenantID := 7, t_UserID := 8, t_Amount := 100, t_Currency := ''USD'',
     t_Status := StatusCaptured, t_Version := 5, t_GatewayID := ''stripe'' \<rparr>"

definition captured_world :: world where
  "captured_world = sample_world \<lparr> w_db := sample_db \<lparr> db_transactions := [captured_payment] \<rparr> \<rparr>"

definition sample_input :: "int \<Rightarrow> InitiateInput" where
  "sample_input a = \<lparr> ii_TransactionID = 1, ii_Amount = a, ii_Reason = ''r'', ii_InitiatedBy = ''ops'', ii_IdempotencyKey = ''k'' \<rparr>"

text \<open>Symbolic evaluation of the database code.\<close>

lemmas db_eval = go_defs WithinTx_def begin_tx_def answer_def query_def stmt_def exec_def aborted_def cur_db_def put_db_def
  commit_tx_def rollback_def Now_def NewUUID_def txFromContext_def lock_txn_row_def locked_by_outer_def run_update_def
  deferring_def invalidateCache_def Txn_GetByID_def Txn_UpdateStatus_def sql_update_status_def status_cols_def
  LockParentTransaction_def SumActiveRefunds_def active_sum_def active_refund_def Refund_Insert_def refund_insert_ok_def
  Refund_GetByID_def Refund_UpdateStatus_def sql_update_refund_def refund_cols_def ClaimProcessing_def sql_claim_refund_def
  Outbox_Write_def audit_def WriteEntry_def audit_insert_ok_def Publish_def Notification_Dispatch_def TenantWebhook_Dispatch_def
  Let_def TransitionState_def isValidTransition_def applyTransitionEffects_def AllStatuses_def in64_def wrap64_def

lemmas sample_defs = sample_env_def captured_world_def captured_payment_def sample_world_def sample_db_def sample_input_def
  zero_Txn_def sample_adapter_def sample_refund_def

lemmas refund_eval = InitiateRefund_def initiate_loaded_def isRefundableStatus_def mapE_def initiate_tx_def insertRefund_def
  refund_New_def refund_event_def ProcessRefund_def runRefund_def refund_callGateway_def gateway_refund_amount_def log_call_def
  settle_refund_def resolveRefundOutcome_def to_GatewayError_def not_terminal_def gateway_reason_def finish_tx_def
  refund_Transition_def transitionParentOnRefundResult_def refund_announce_def refund_dispatchTerminalNotification_def
  refund_dispatchTenantWebhook_def refund_terminal_event_def notify_def

text \<open>What concerns a payment.\<close>

primrec op_concerns :: "db \<Rightarrow> uuid \<Rightarrow> refund_op \<Rightarrow> bool" where
  "op_concerns d i (OpInitiate inp) \<longleftrightarrow> ii_TransactionID inp = i"
| "op_concerns d i (OpProcess k) \<longleftrightarrow> (case refund_of d k of None \<Rightarrow> False | Some row \<Rightarrow> rf_TransactionID (rr_refund row) = i)"
| "op_concerns d i (OpRetry k) \<longleftrightarrow> (case refund_of d k of None \<Rightarrow> False | Some row \<Rightarrow> rf_TransactionID (rr_refund row) = i)"
| "op_concerns d i (OpResolveCancel j amount) \<longleftrightarrow> j = i"

definition refunds_over :: "uuid \<Rightarrow> db \<Rightarrow> bool" where
  "refunds_over i d \<longleftrightarrow> (\<forall>r \<in> set (db_refunds d). rf_TransactionID (rr_refund r) = i \<longrightarrow>
     rf_Status (rr_refund r) \<notin> {StatusInitiated, RStatusProcessing})"

lemma InitiateRefund_pending:
  assumes "settled (\<lambda>d. d = D) w" "txn_of D (ii_TransactionID inp) = Some t" "\<not> isRefundableStatus (t_Status t)"
    "InitiateRefund ev inp w = (r, w')"
  shows "(\<exists>e. r = Inl e) \<and> settled (\<lambda>d. d = D) w'"
proof -
  obtain r0 w0 where g: "Txn_GetByID (ii_TransactionID inp) w = (r0, w0)" by fastforce
  note g' = Txn_GetByID_settled [OF assms(1) g]
  have D: "w_db w = D" using assms(1) by (simp add: settled_def)
  have "r0 = Inr t1 \<Longrightarrow> t1 = t" for t1 using g'(4) [of t1] assms(2) D by simp
  with g g'(1) assms(3,4) show ?thesis
    by (cases r0) (auto simp: InitiateRefund_def bindE_def wrapE_def initiate_loaded_def throw_def)
qed

lemma processing_over:
  assumes "settled (\<lambda>d. d = D) w" "refunds_over i D" "refund_of D k = Some row" "rf_TransactionID (rr_refund row) = i"
  shows "settled (\<lambda>d. d = D) (snd (ProcessRefund ev k w))" "settled (\<lambda>d. d = D) (snd (RetryStaleRefund ev k w))"
proof -
  have "rf_Status (rr_refund row) \<notin> {StatusInitiated, RStatusProcessing}"
    using assms(2-4) lookup_row_Some [OF assms(3)] by (auto simp: refunds_over_def)
  moreover have "Refund_GetByID k w = (Inr rf, w') \<Longrightarrow> rf = rr_refund row" for rf w'
    using assms(1,3) by (auto simp: Refund_GetByID_def run settled_def cur_db_def split: option.splits)
  moreover have "settled (\<lambda>d. d = D) (snd (Refund_GetByID k w))"
    by (rule keeps_snd [OF keeps_settled_Refund_GetByID assms(1)])
  ultimately show "settled (\<lambda>d. d = D) (snd (ProcessRefund ev k w))" "settled (\<lambda>d. d = D) (snd (RetryStaleRefund ev k w))"
    by (auto simp: ProcessRefund_def RetryStaleRefund_def bindE_def wrapE_def ok_def split: prod.splits sum.splits)
qed

lemma ResolveCancelRefund_refused:
  assumes "keeps P (ExistsByReason i ReasonCancelResolution)" "P w"
    and "\<And>w1 r w2. P w1 \<Longrightarrow> InitiateRefund ev \<lparr> ii_TransactionID = i, ii_Amount = amount, ii_Reason = ReasonCancelResolution,
        ii_InitiatedBy = ''system:cancel_resolution'', ii_IdempotencyKey = ''cancel-resolution:'' @ ev_uuid_str ev i \<rparr> w1 = (r, w2) \<Longrightarrow>
        (\<exists>e. r = Inl e) \<and> P w2"
  shows "P (snd (ResolveCancelRefund ev i amount w))"
proof -
  let ?inp = "\<lparr> ii_TransactionID = i, ii_Amount = amount, ii_Reason = ReasonCancelResolution,
        ii_InitiatedBy = ''system:cancel_resolution'', ii_IdempotencyKey = ''cancel-resolution:'' @ ev_uuid_str ev i \<rparr>"
  obtain x w1 where x: "ExistsByReason i ReasonCancelResolution w = (x, w1)" by fastforce
  with assms(1,2) have w1: "P w1" by (metis keeps_snd snd_conv)
  obtain r w2 where r: "InitiateRefund ev ?inp w1 = (r, w2)" by fastforce
  from assms(3) [OF w1 r] obtain e where e: "r = Inl e" "P w2" by blast
  show ?thesis
  proof (cases x)
    case (Inr b)
    then show ?thesis unfolding ResolveCancelRefund_def bindE_def [of "ExistsByReason _ _"] x
      using w1 r e by (simp add: bindE_def attempt_def ok_def throw_def split: option.split)
  qed (use x w1 in \<open>simp add: ResolveCancelRefund_def bindE_def\<close>)
qed

text \<open>C35. A partly refunded payment can be stranded: once a payment is REFUND_PENDING and none of its
  refunds is under way (which is how a failed refund after an earlier completed one leaves it, as the
  witness computes), no refund operation that concerns it changes any table; new refunds are refused and
  finished ones are not run again.\<close>

theorem pending_without_refunds_is_stuck:
  assumes "w_tx w = []" "coh w" "txn_of (w_db w) i = Some t" "t_Status t = StatusRefundPending" "refunds_over i (w_db w)"
    and "op_concerns (w_db w) i op"
  shows "w_db (run_refund_op ev op w) = w_db w"
proof -
  have w: "settled (\<lambda>d. d = w_db w) w" using assms(1,2) by (simp add: settled_def)
  have nr: "\<not> isRefundableStatus (t_Status t)" by (simp add: isRefundableStatus_def assms(4))
  show ?thesis
  proof (cases op)
    case (OpInitiate inp)
    obtain r w' where e: "InitiateRefund ev inp w = (r, w')" by fastforce
    with InitiateRefund_pending [OF w _ nr e] assms(3,6) OpInitiate show ?thesis by (simp add: settled_def)
  next
    case (OpResolveCancel j amount)
    let ?inp = "\<lparr> ii_TransactionID = i, ii_Amount = amount, ii_Reason = ReasonCancelResolution,
        ii_InitiatedBy = ''system:cancel_resolution'', ii_IdempotencyKey = ''cancel-resolution:'' @ ev_uuid_str ev i \<rparr>"
    have init: "settled (\<lambda>d. d = w_db w) w1 \<Longrightarrow> InitiateRefund ev ?inp w1 = (r, w2) \<Longrightarrow>
        (\<exists>e. r = Inl e) \<and> settled (\<lambda>d. d = w_db w) w2" for w1 r w2
      using InitiateRefund_pending [of "w_db w" w1 ?inp t ev r w2] assms(3) nr by simp
    have "keeps (settled (\<lambda>d. d = w_db w)) (ExistsByReason i ReasonCancelResolution)"
      unfolding ExistsByReason_def by (intro hoare)
    then have "settled (\<lambda>d. d = w_db w) (snd (ResolveCancelRefund ev i amount w))"
      by (rule ResolveCancelRefund_refused [where P = "settled (\<lambda>d. d = w_db w)", OF _ w]) (rule init)
    then show ?thesis using OpResolveCancel assms(6) by (simp add: settled_def)
  qed (use assms(5,6) processing_over [OF w] in \<open>auto simp: settled_def split: option.splits\<close>)
qed

text \<open>60 of 100 are refunded; the other 40 are about to be refused by the gateway.\<close>

definition pending_world :: world where
  "pending_world = sample_world \<lparr> w_db := sample_db \<lparr>
     db_transactions := [captured_payment \<lparr> t_Status := StatusRefundPending \<rparr>],
     db_refunds := [\<lparr> rr_refund = sample_refund \<lparr> rf_Amount := 60, rf_Status := RStatusRefunded \<rparr>, rr_updated_at = 0 \<rparr>,
       \<lparr> rr_refund = sample_refund \<lparr> rf_ID := 3, rf_AttemptedGateway := ''stripe'' \<rparr>, rr_updated_at = 0 \<rparr>] \<rparr>,
     w_calls := [CallStatus ''stripe'' \<lparr> gsr_TransactionID = 1, gsr_TenantID = 7, gsr_GatewayReferenceID = '''', gsr_IdempotencyKey = '''' \<rparr>] \<rparr>"

theorem pending_without_refunds_is_stuck_witness:
  "w_db (run_refund_op sample_env (OpInitiate (sample_input 40)) (run_refund_op sample_env (OpProcess 3) pending_world))
     = w_db (run_refund_op sample_env (OpProcess 3) pending_world)"
proof -
  let ?w = "run_refund_op sample_env (OpProcess 3) pending_world"
  have "settled refunds_within pending_world"
    by (auto simp: settled_def coh_def refunds_within_def pending_world_def sample_defs active_sum_def active_refund_def lookup_row_def)
  then have s: "settled refunds_within ?w" using run_refund_op_within [of pending_world "OpProcess 3" sample_env] by simp
  have "map_option t_Status (txn_of (w_db ?w) 1) = Some StatusRefundPending" "refunds_over 1 (w_db ?w)"
    by (simp_all add: db_eval sample_defs refund_eval pending_world_def refunds_over_def)
  then obtain t where "txn_of (w_db ?w) 1 = Some t" "t_Status t = StatusRefundPending" "refunds_over 1 (w_db ?w)" by auto
  with s show ?thesis
    using pending_without_refunds_is_stuck [of ?w 1 t "OpInitiate (sample_input 40)" sample_env]
    by (simp add: settled_def sample_input_def)
qed

end
