(* ===== verification/Payment.thy ===== *)
theory Payment
  imports Refund_Service
begin

section \<open>Payments (internal/app/payment)\<close>

text \<open>
  \<open>gateway.go\<close> (the calls to a gateway, what an answer means, and the transaction that records it),
  \<open>checkout_token.go\<close>, \<open>service.go\<close> (creating, initiating, authorizing, capturing, settling) and
  \<open>process.go\<close> (the lease-guarded driver and the recovery of expired leases). A gateway call returns
  the gateway's error or its response; the Go functions return both as pointers of which exactly one
  is nil.
\<close>

subsection \<open>Gateway calls and outcomes (gateway.go)\<close>

record outcome =
  oc_terminal :: bool
  oc_newStatus :: Status
  oc_failureReason :: "FailureReason option"

type_synonym gw_answer = "GatewayError + GatewayPaymentResponse"

definition in_flight :: outcome where
  "in_flight = \<lparr> oc_terminal = False, oc_newStatus = StatusOther '''', oc_failureReason = None \<rparr>"

definition ended :: "Status \<Rightarrow> outcome" where
  "ended s = \<lparr> oc_terminal = True, oc_newStatus = s, oc_failureReason = None \<rparr>"

definition failed_with :: "FailureReason \<Rightarrow> outcome" where
  "failed_with r = \<lparr> oc_terminal = True, oc_newStatus = StatusFailed, oc_failureReason = Some r \<rparr>"

definition declined :: "GatewayPaymentResponse \<Rightarrow> FailureReason" where
  "declined r = \<lparr> fr_Category = ''gateway_declined'', fr_Code = gp_ErrorCode r, fr_GatewayCode = gp_ErrorCode r,
     fr_GatewayMessage = gp_ErrorMessage r, fr_Source = FailureReasonSourceGateway \<rparr>"

definition error_outcome :: "GatewayError \<Rightarrow> outcome" where
  "error_outcome g = (if ge_Category g = ErrorCategoryAmbiguous \<or> ge_Category g = ErrorCategoryNetworkTimeout
     then in_flight else failed_with (gateway_reason g))"

definition resolveOutcome :: "gw_answer \<Rightarrow> outcome" where
  "resolveOutcome ans = (case ans of
      Inl g \<Rightarrow> error_outcome g
    | Inr r \<Rightarrow> (case gp_Status r of
        GatewayPaymentStatusSucceeded \<Rightarrow> ended StatusCaptured
      | GatewayPaymentStatusAuthorized \<Rightarrow> ended StatusAuthorized
      | GatewayPaymentStatusFailed \<Rightarrow> failed_with (declined r)
      | GatewayPaymentStatusCancelled \<Rightarrow> ended StatusCancelled
      | _ \<Rightarrow> in_flight))"

definition resolveAuthorizeOutcome :: "gw_answer \<Rightarrow> outcome" where
  "resolveAuthorizeOutcome ans = (case ans of
      Inl g \<Rightarrow> error_outcome g
    | Inr r \<Rightarrow> (case gp_Status r of
        GatewayPaymentStatusSucceeded \<Rightarrow> ended StatusAuthorized
      | GatewayPaymentStatusPending \<Rightarrow> ended StatusAuthorized
      | GatewayPaymentStatusAuthorized \<Rightarrow> ended StatusAuthorized
      | GatewayPaymentStatusFailed \<Rightarrow> failed_with (declined r)
      | GatewayPaymentStatusCancelled \<Rightarrow> ended StatusCancelled
      | _ \<Rightarrow> in_flight))"

definition resolveCaptureOutcome :: "gw_answer \<Rightarrow> outcome" where
  "resolveCaptureOutcome ans = (case ans of
      Inl g \<Rightarrow> error_outcome g
    | Inr r \<Rightarrow> (case gp_Status r of
        GatewayPaymentStatusSucceeded \<Rightarrow> ended StatusCaptured
      | GatewayPaymentStatusFailed \<Rightarrow> failed_with (declined r)
      | GatewayPaymentStatusCancelled \<Rightarrow> ended StatusCancelled
      | _ \<Rightarrow> in_flight))"

definition newStatusOr :: "outcome \<Rightarrow> Status \<Rightarrow> Status" where
  "newStatusOr oc current = (if oc_terminal oc then oc_newStatus oc else current)"

definition gatewayAmountFor :: "Txn \<Rightarrow> int \<times> string" where
  "gatewayAmountFor txn = (case t_GatewayAmount txn of
     Some a \<Rightarrow> (a, t_GatewayCurrency txn) | None \<Rightarrow> (t_Amount txn, t_Currency txn))"

definition initiate_request :: "Txn \<Rightarrow> int \<times> string \<Rightarrow> GatewayPaymentRequest" where
  "initiate_request txn money = \<lparr> gpr_TransactionID = t_ID txn, gpr_TenantID = t_TenantID txn, gpr_Amount = fst money,
     gpr_Currency = snd money, gpr_PaymentMethod = t_PaymentMethod txn, gpr_IdempotencyKey = t_GatewayIdempotencyKey txn,
     gpr_Metadata = t_Metadata txn, gpr_CustomerEmail = t_CustomerEmail txn, gpr_Description = t_Description txn,
     gpr_AttemptNumber = 1 \<rparr>"

text \<open>A call is logged, then answered by the adapter.\<close>

definition gateway_call :: "gw_call \<Rightarrow> (gw_call list \<Rightarrow> go_error + 'r) \<Rightarrow> (world, go_error + 'r) comp" where
  "gateway_call c respond = bindE (reading w_calls) (\<lambda>calls. bindE (log_call c) (\<lambda>_. ok (respond calls)))"

definition as_answer :: "string \<Rightarrow> go_error + 'r \<Rightarrow> GatewayError + 'r" where
  "as_answer code r = (case r of Inl e \<Rightarrow> Inl (to_GatewayError code e) | Inr x \<Rightarrow> Inr x)"

definition callGateway :: "string \<Rightarrow> GatewayAdapter \<Rightarrow> Txn \<Rightarrow> (world, gw_answer) comp" where
  "callGateway gid adapter txn = (let req = initiate_request txn (gatewayAmountFor txn)
     in bindE (gateway_call (CallInitiate gid req) (\<lambda>calls. InitiatePayment adapter calls req)) (\<lambda>r.
        ok (as_answer ''gateway_call_failed'' r)))"

definition checkStatus :: "string \<Rightarrow> GatewayAdapter \<Rightarrow> Txn \<Rightarrow> (world, gw_answer) comp" where
  "checkStatus gid adapter txn = (let req = \<lparr> gsr_TransactionID = t_ID txn, gsr_TenantID = t_TenantID txn,
         gsr_GatewayReferenceID = t_GatewayReferenceID txn, gsr_IdempotencyKey = t_GatewayIdempotencyKey txn \<rparr>
     in bindE (gateway_call (CallStatus gid req) (\<lambda>calls. CheckStatus adapter calls req)) (\<lambda>r.
        ok (as_answer ''status_check_failed'' r)))"

definition isGatewayHealthFailure :: "gw_answer \<Rightarrow> bool" where
  "isGatewayHealthFailure ans = (case ans of Inr _ \<Rightarrow> False
     | Inl g \<Rightarrow> ge_Category g \<in> set [ErrorCategoryNetworkTimeout, ErrorCategoryGatewayError, ErrorCategoryAmbiguous])"

text \<open>\<open>circuitBreakerAdapter\<close> of \<open>cmd/server/api.go\<close>.\<close>

definition breaker_RecordFailure :: "env \<Rightarrow> string \<Rightarrow> (world, unit) comp" where
  "breaker_RecordFailure ev gid w = (case cb_RecordFailure (ev_cb_threshold ev) gid (w_clock w) (w_cb w) of
     (Inl e, s) \<Rightarrow> (Inl e, w \<lparr> w_cb := s \<rparr>) | (Inr _, s) \<Rightarrow> (Inr (), w \<lparr> w_cb := s \<rparr>))"

definition breaker_RecordSuccess :: "string \<Rightarrow> (world, unit) comp" where
  "breaker_RecordSuccess gid w = (case cb_RecordSuccess gid (w_cb w) of (r, s) \<Rightarrow> (r, w \<lparr> w_cb := s \<rparr>))"

definition recordBreaker :: "env \<Rightarrow> string \<Rightarrow> gw_answer \<Rightarrow> (world, unit) comp" where
  "recordBreaker ev gid ans = bindE (attempt (if isGatewayHealthFailure ans
     then breaker_RecordFailure ev gid else breaker_RecordSuccess gid)) (\<lambda>_. ok ())"

definition enterIntent :: "string \<Rightarrow> uuid \<Rightarrow> int \<Rightarrow> (world, unit) comp" where
  "enterIntent gid tid ttl = changing (\<lambda>w. w \<lparr> w_intents := snd (EnterProcessing gid tid ttl (w_clock w) (w_intents w)) \<rparr>)"

definition exitIntent :: "string \<Rightarrow> uuid \<Rightarrow> (world, unit) comp" where
  "exitIntent gid tid = changing (\<lambda>w. w \<lparr> w_intents := snd (ExitProcessing gid tid (w_clock w) (w_intents w)) \<rparr>)"

fun toMethodDetails :: "GatewayMethodResponse \<Rightarrow> MethodDetails option" where
  "toMethodDetails (GatewayCardResponse c) = Some \<lparr> md_Card = Some c, md_UPI = None, md_Netbanking = None, md_Wallet = None \<rparr>"
| "toMethodDetails (GatewayUPIResponse u) = Some \<lparr> md_Card = None, md_UPI = Some u, md_Netbanking = None, md_Wallet = None \<rparr>"
| "toMethodDetails (GatewayNetbankingResponse n) = Some \<lparr> md_Card = None, md_UPI = None, md_Netbanking = Some n, md_Wallet = None \<rparr>"
| "toMethodDetails (GatewayWalletResponse x) = Some \<lparr> md_Card = None, md_UPI = None, md_Netbanking = None, md_Wallet = Some x \<rparr>"
| "toMethodDetails NoMethodResponse = None"

subsection \<open>Recording an outcome (gateway.go)\<close>

definition txn_event :: "Txn \<Rightarrow> string \<Rightarrow> json \<Rightarrow> OutboxEvent" where
  "txn_event txn et payload = \<lparr> oe_ID = uuid_Nil, oe_AggregateID = t_ID txn, oe_AggregateType = ''transaction'',
     oe_EventType = et, oe_Payload = payload, oe_EventVersion = 1, oe_AggregateVersion = t_Version txn,
     oe_NextAttemptAt = None \<rparr>"

definition buildTerminalEvent :: "Txn \<Rightarrow> Status \<Rightarrow> OutboxEvent option" where
  "buildTerminalEvent txn status = (case EventTypeForTransactionStatus status of
      None \<Rightarrow> None
    | Some et \<Rightarrow> Some (txn_event txn et (JObj [(''transaction_id'', JUuid (t_ID txn)), (''status'', JStr (status_str status)),
        (''gateway'', JStr (t_ActualGateway txn)), (''gateway_reference_id'', JStr (t_GatewayReferenceID txn)),
        (''amount'', JInt (t_Amount txn)), (''aggregate_version'', JInt (t_Version txn))])))"

definition write_terminal :: "env \<Rightarrow> Txn \<Rightarrow> Status \<Rightarrow> (world, unit) comp" where
  "write_terminal ev txn status = (case buildTerminalEvent txn status of None \<Rightarrow> ok () | Some e \<Rightarrow> Outbox_Write ev e)"

definition write_callback :: "env \<Rightarrow> Txn \<Rightarrow> Status \<Rightarrow> (world, unit) comp" where
  "write_callback ev txn status = (if t_CallbackURL txn = '''' then ok ()
     else Outbox_Write ev (txn_event txn EventTypeTransactionCallback (JObj [(''transaction_id'', JUuid (t_ID txn)),
       (''status'', JStr (status_str status)), (''callback_url'', JStr (t_CallbackURL txn))])))"

definition dispatchTerminalNotification :: "env \<Rightarrow> Txn \<Rightarrow> Status \<Rightarrow> FailureReason option \<Rightarrow> (world, unit) comp" where
  "dispatchTerminalNotification ev txn status reason =
    (let data = [(''amount'', JInt (t_Amount txn)), (''currency'', JStr (t_Currency txn)), (''transaction_id'', JUuid (t_ID txn))]
     in if t_CustomerEmail txn = '''' then ok ()
        else if status = StatusCaptured then notify ev txn ''PAYMENT_SUCCESS'' data
        else if status = StatusFailed then notify ev txn ''PAYMENT_FAILURE''
          (data @ (case reason of None \<Rightarrow> [] | Some r \<Rightarrow> [(''reason'', JStr (fr_GatewayMessage r))]))
        else ok ())"

definition dispatchTenantWebhook :: "env \<Rightarrow> Txn \<Rightarrow> Status \<Rightarrow> (world, unit) comp" where
  "dispatchTenantWebhook ev txn status =
    (let payload = JObj [(''transaction_id'', JUuid (t_ID txn)), (''status'', JStr (status_str status)),
           (''amount'', JInt (t_Amount txn)), (''currency'', JStr (t_Currency txn))];
         send = (\<lambda>et. bindE (attempt (TenantWebhook_Dispatch ev (t_TenantID txn) (t_ID txn) et payload)) (\<lambda>_. ok ()))
     in if status = StatusCaptured then send EventTypeTransactionCaptured
        else if status = StatusFailed then send EventTypeTransactionFailed
        else if status = StatusCancelled then send EventTypeTransactionCancelled
        else ok ())"

text \<open>The transaction of \<open>finalize\<close>: the move, the row, the events, the messages and the cached
  response of the lease.\<close>

definition finalize_move :: "Txn \<Rightarrow> outcome \<Rightarrow> (world, Txn) comp" where
  "finalize_move txn oc = (if \<not> oc_terminal oc then ok txn
     else bindE Now (\<lambda>now. bindE (lift (TransitionState txn (oc_newStatus oc) ActorGateway now)) (\<lambda>t1.
       bindE (audit (t_ID t1) AuditEventTypeStateChange ActorGateway (status_str (t_Status txn))
                (status_str (oc_newStatus oc)) ''gateway_finalize'') (\<lambda>_.
       ok (t1 \<lparr> t_FailureReason := oc_failureReason oc \<rparr>)))))"

definition finalize_messages :: "env \<Rightarrow> Txn \<Rightarrow> outcome \<Rightarrow> (world, unit) comp" where
  "finalize_messages ev txn oc = (if \<not> oc_terminal oc then ok ()
     else bindE (write_terminal ev txn (oc_newStatus oc)) (\<lambda>_.
          bindE (write_callback ev txn (oc_newStatus oc)) (\<lambda>_.
          bindE (dispatchTerminalNotification ev txn (oc_newStatus oc) (oc_failureReason oc)) (\<lambda>_.
          dispatchTenantWebhook ev txn (oc_newStatus oc)))))"

definition finalize_tx :: "env \<Rightarrow> Txn \<Rightarrow> outcome \<Rightarrow> json \<Rightarrow> (world, Txn) comp" where
  "finalize_tx ev txn oc cached = bindE (finalize_move txn oc) (\<lambda>t1. bindE (Txn_UpdateStatus t1) (\<lambda>t2.
     bindE (finalize_messages ev t2 oc) (\<lambda>_. bindE (WriteCachedResponse (t_ID t2) cached) (\<lambda>_. ok t2))))"

definition resolveCancelIfRequested :: "env \<Rightarrow> Txn \<Rightarrow> outcome \<Rightarrow> (world, unit) comp" where
  "resolveCancelIfRequested ev txn oc =
    (if \<not> oc_terminal oc \<or> oc_newStatus oc \<noteq> StatusCaptured then ok ()
     else if \<not> t_CancelIntent txn then ok ()
     else bindE (attempt (ResolveCancelRefund ev (t_ID txn) (t_Amount txn))) (\<lambda>_. ok ()))"

definition note_response :: "Txn \<Rightarrow> GatewayPaymentResponse option \<Rightarrow> Txn" where
  "note_response txn resp = (case resp of None \<Rightarrow> txn
     | Some r \<Rightarrow>
        let t1 = (if gp_GatewayReferenceID r = '''' then txn else txn \<lparr> t_GatewayReferenceID := gp_GatewayReferenceID r \<rparr>)
        in case toMethodDetails (gp_MethodResponse r) of None \<Rightarrow> t1 | Some md \<Rightarrow> t1 \<lparr> t_MethodDetails := Some md \<rparr>)"

definition resp_of :: "gw_answer \<Rightarrow> GatewayPaymentResponse option" where
  "resp_of ans = (case ans of Inl _ \<Rightarrow> None | Inr r \<Rightarrow> Some r)"

definition finalize :: "env \<Rightarrow> Txn \<Rightarrow> GatewayPaymentResponse option \<Rightarrow> outcome \<Rightarrow> (world, Txn) comp" where
  "finalize ev txn0 resp oc =
    (let t1 = note_response txn0 resp; txn = t1 \<lparr> t_ActualGateway := t_GatewayID t1 \<rparr>;
         cached = JObj [(''status'', JStr (status_str (newStatusOr oc (t_Status txn)))),
                        (''gateway_reference_id'', JStr (t_GatewayReferenceID txn))]
     in bindE (wrapE ''payment: finalize'' (WithinTx (finalize_tx ev txn oc cached))) (\<lambda>t2.
        bindE (if oc_terminal oc then bindE (Publish (t_ID t2) (oc_newStatus oc)) (\<lambda>_. exitIntent (t_GatewayID t2) (t_ID t2))
               else ok ()) (\<lambda>_.
        bindE (resolveCancelIfRequested ev t2 oc) (\<lambda>_. ok t2))))"

subsection \<open>Checkout tokens (checkout_token.go)\<close>

definition GenerateToken :: "env \<Rightarrow> (world, string \<times> string) comp" where
  "GenerateToken ev w = (let raw = ev_token ev (w_seq w) in (Inr (raw, ev_sha256 ev raw), w \<lparr> w_seq := Suc (w_seq w) \<rparr>))"

definition VerifyToken :: "env \<Rightarrow> string \<Rightarrow> string \<Rightarrow> bool" where
  "VerifyToken ev raw hash \<longleftrightarrow> ev_sha256 ev raw = hash"

subsection \<open>Initiating at the gateway (service.go)\<close>

text \<open>The two-layer fees of a payment, before the gateway is called: the payment with its breakdown,
  and the amount and currency to charge. A breakdown that is not valid is only logged.\<close>

definition model_fees :: "GatewayFeeModel \<Rightarrow> rat \<times> rat" where
  "model_fees fm = (if 0 < fm_FixedFee fm then f64 (of_int (fm_FixedFee fm)) else 0,
     if 0 < fm_PercentageBPS fm then f64 (f64 (of_int (fm_PercentageBPS fm)) / 100) else 0)"

definition charges_currency :: "GatewayFeeModel \<Rightarrow> string \<Rightarrow> string" where
  "charges_currency fm currency = (if fm_ChargesCurrency fm = '''' then currency else fm_ChargesCurrency fm)"

definition initiate_fees :: "env \<Rightarrow> Txn \<Rightarrow> go_error + Txn \<times> int \<times> string" where
  "initiate_fees ev txn = (case ev_fee_model ev (t_GatewayID txn) (t_PaymentMethod txn) of
      Inl e \<Rightarrow> Inl (Wrapf ''gateway-initiate: load fee model'' e)
    | Inr None \<Rightarrow> Inr (txn, t_Amount txn, t_Currency txn)
    | Inr (Some fm) \<Rightarrow> (case ev_currency_rates ev (t_TenantID txn) of
        Inl e \<Rightarrow> Inl (Wrapf ''gateway-initiate: load currency rates'' e)
      | Inr rates \<Rightarrow>
          (let (fixedFee, ratio) = model_fees fm
           in case Calculate (t_Amount txn) (t_Currency txn) (charges_currency fm (t_Currency txn)) fixedFee ratio rates of
             Inl e \<Rightarrow> Inl (Wrapf ''gateway-initiate: fee calculation'' e)
           | Inr breakdown \<Rightarrow> (case Validate (Some breakdown) of
               Inl _ \<Rightarrow> Inr (txn, t_Amount txn, t_Currency txn)
             | Inr _ \<Rightarrow>
                 let t1 = txn \<lparr> t_FeeBreakdown := Some breakdown \<rparr>
                 in case b_Gateway breakdown of
                      None \<Rightarrow> Inr (t1, t_Amount txn, t_Currency txn)
                    | Some g \<Rightarrow> Inr (t1 \<lparr> t_GatewayAmount := Some (gp_Amount g), t_GatewayCurrency := gp_Currency g \<rparr>,
                                     gp_Amount g, gp_Currency g)))))"

definition lease_ttl :: "Txn \<Rightarrow> int" where
  "lease_ttl txn = (if t_EstimatedTimeoutSeconds txn \<le> 0 then 30 else t_EstimatedTimeoutSeconds txn)"

definition initiate_record :: "Txn \<Rightarrow> GatewayPaymentResponse \<Rightarrow> (world, unit) comp" where
  "initiate_record txn resp =
    bindE (wrapE ''update gateway reference'' (UpdateGatewayReference (t_ID txn) (gp_GatewayReferenceID resp) (t_Version txn))) (\<lambda>_.
    let t1 = txn \<lparr> t_GatewayReferenceID := gp_GatewayReferenceID resp \<rparr> in
    bindE (if gp_GatewayMetadata resp = [] then ok ()
           else wrapE ''insert raw metadata'' (InsertGatewayMetadata (t_ID txn) (t_GatewayID txn) (JObj (gp_GatewayMetadata resp)))) (\<lambda>_.
    bindE Now (\<lambda>now.
    bindE (wrapE ''transition to processing'' (lift (TransitionState t1 StatusProcessing ActorSystem now))) (\<lambda>t2.
    bindE (audit (t_ID t2) AuditEventTypeStateChange ActorSystem (status_str StatusPending) (status_str (t_Status t2))
             ''gateway_initiate'') (\<lambda>_.
    bindE (wrapE ''update status'' (Txn_UpdateStatus t2)) (\<lambda>t3.
    Publish (t_ID t3) StatusProcessing))))))"

definition initiate_leased :: "env \<Rightarrow> Txn \<Rightarrow> (world, unit) comp" where
  "initiate_leased ev txn = (case ev_registry ev (t_GatewayID txn) of
      None \<Rightarrow> throw (Errorf ''gateway-initiate: resolve adapter'')
    | Some adapter \<Rightarrow>
        bindE (lift (initiate_fees ev txn)) (\<lambda>(t1, money).
        let req = initiate_request t1 money in
        bindE (gateway_call (CallInitiate (t_GatewayID t1) req) (\<lambda>calls. InitiatePayment adapter calls req)) (\<lambda>r. case r of
            Inl e \<Rightarrow> bindE (attempt (breaker_RecordFailure ev (t_GatewayID t1))) (\<lambda>_.
                     throw (Wrapf ''gateway-initiate: gateway call failed'' e))
          | Inr resp \<Rightarrow> WithinTx (initiate_record t1 resp))))"

definition ProcessGatewayInitiate :: "env \<Rightarrow> uuid \<Rightarrow> (world, unit) comp" where
  "ProcessGatewayInitiate ev transactionID =
    bindE (wrapE ''gateway-initiate: load transaction'' (Txn_GetByID transactionID)) (\<lambda>txn.
    if t_GatewayReferenceID txn \<noteq> '''' then ok ()
    else if t_Status txn \<noteq> StatusPending then ok ()
    else bindE (wrapE ''gateway-initiate: acquire lease'' (TryAcquireDirect (t_ID txn) (t_ID txn) (lease_ttl txn))) (\<lambda>acquired.
      if \<not> acquired then ok () else initiate_leased ev txn))"

text \<open>\<open>syncInitiate\<close> always returns a payment, and the error of the initiation beside it.\<close>

definition syncInitiate :: "env \<Rightarrow> Txn \<Rightarrow> (world, Txn \<times> go_error option) comp" where
  "syncInitiate ev txn = bindE (attempt (ProcessGatewayInitiate ev (t_ID txn))) (\<lambda>r.
     bindE (attempt (Txn_GetByID (t_ID txn))) (\<lambda>l.
     ok (case l of Inl _ \<Rightarrow> txn | Inr reloaded \<Rightarrow> reloaded, case r of Inl e \<Rightarrow> Some e | Inr _ \<Rightarrow> None)))"

subsection \<open>Creating a payment (service.go)\<close>

abbreviation ErrNoGateway :: go_error where
  "ErrNoGateway \<equiv> Sentinel ''payment: no eligible gateway for transaction''"

abbreviation ErrInvalidTransition :: go_error where
  "ErrInvalidTransition \<equiv> Sentinel ''payment: invalid state transition''"

record CreateInput =
  ci_TenantID :: uuid
  ci_UserID :: uuid
  ci_GatewayID :: string
  ci_Amount :: int
  ci_Currency :: string
  ci_PaymentMethod :: string
  ci_CaptureMode :: string
  ci_CustomerID :: uuid
  ci_CustomerEmail :: string
  ci_Description :: string
  ci_Metadata :: "(string \<times> string) list"
  ci_CallbackURL :: string
  ci_RedirectURL :: string
  ci_IdempotencyKey :: string

record CreateResult =
  res_Verdict :: Verdict
  res_Transaction :: "Txn option"
  res_Token :: string

definition identityKey :: "env \<Rightarrow> CreateInput \<Rightarrow> string" where
  "identityKey ev inp = ev_uuid_str ev (ci_TenantID inp) @ '':'' @ ev_uuid_str ev (ci_UserID inp) @ '':'' @ ci_GatewayID inp"

definition estimate_fees :: "env \<Rightarrow> CreateInput \<Rightarrow> Txn \<Rightarrow> Txn" where
  "estimate_fees ev inp txn = (case ev_fee_model ev (ci_GatewayID inp) (ci_PaymentMethod inp) of
      Inr (Some fm) \<Rightarrow>
        (let cur = charges_currency fm (ci_Currency inp); (fixedFee, ratio) = model_fees fm
         in case Calculate (ci_Amount inp) cur cur fixedFee ratio [] of
              Inl _ \<Rightarrow> txn
            | Inr bd \<Rightarrow> txn \<lparr> t_GatewayFeeEstimate := Some (s_Fees (b_Summary bd)), t_GatewayFeeCurrency := cur,
                             t_GatewayFeeModelVersion := 1 \<rparr>)
    | _ \<Rightarrow> txn)"

definition created_events :: "Txn \<Rightarrow> OutboxEvent list" where
  "created_events txn =
     txn_event txn EventTypeTransactionCreated (JObj [(''transaction_id'', JUuid (t_ID txn)), (''tenant_id'', JUuid (t_TenantID txn)),
       (''user_id'', JUuid (t_UserID txn)), (''amount'', JInt (t_Amount txn)), (''currency'', JStr (t_Currency txn)),
       (''payment_method'', JStr (t_PaymentMethod txn)), (''gateway'', JStr (t_GatewayID txn)),
       (''status'', JStr (status_str (t_Status txn))), (''created_at'', JTime (t_CreatedAt txn)),
       (''aggregate_version'', JInt (t_Version txn))]) #
     (if t_CaptureMode txn = CaptureModeAuto
      then [txn_event txn EventTypeGatewayInitiate (JObj [(''transaction_id'', JUuid (t_ID txn)),
              (''tenant_id'', JUuid (t_TenantID txn)), (''gateway_id'', JStr (t_GatewayID txn))])]
      else [])"

definition create_tx :: "env \<Rightarrow> Txn \<Rightarrow> (world, unit) comp" where
  "create_tx ev txn = bindE (wrapE ''insert transaction'' (Txn_Insert txn)) (\<lambda>_.
     bindE (audit (t_ID txn) AuditEventTypeStateChange ActorSystem '''' (status_str (t_Status txn)) ''payment_created'') (\<lambda>_.
     forE (created_events txn) (\<lambda>e. wrapE ''write outbox event'' (Outbox_Write ev e))))"

text \<open>Everything before the database: the payment and the raw token. \<open>timeout.Seconds()\<close> of a
  configured timeout, which is a whole number of seconds, is exact.\<close>

definition build_payment :: "env \<Rightarrow> CreateInput \<Rightarrow> (world, Txn \<times> string) comp" where
  "build_payment ev inp =
    (let gid = ci_GatewayID inp in
     if gid = '''' then throw ErrNoGateway
     else bindE (wrapE ''payment: gateway config'' (lift (ev_gateway_active ev gid))) (\<lambda>active.
       if \<not> active then throw ErrNoGateway
       else bindE (wrapE ''payment: processing timeout'' (lift (ev_processing_timeout ev gid (ci_PaymentMethod inp)))) (\<lambda>timeout.
       let timeoutSec = quot64 timeout Second in
       if timeoutSec \<le> 0 then throw (Errorf ''payment: invalid processing timeout'')
       else if ci_TenantID inp = uuid_Nil then throw (Errorf ''payment: tenant_id is required'')
       else bindE Now (\<lambda>now. bindE (NewUUID ev) (\<lambda>tid. bindE (NewUUID ev) (\<lambda>key.
       bindE (wrapE ''payment: build transaction'' (lift (New (ci_TenantID inp) (ci_UserID inp) (ci_Amount inp) (ci_Currency inp)
         (ci_PaymentMethod inp) gid (ci_CustomerID inp) (ci_CustomerEmail inp) (ci_Description inp) (ci_Metadata inp)
         timeoutSec (ci_CaptureMode inp) now tid (ev_uuid_str ev key)))) (\<lambda>t0.
       let t1 = estimate_fees ev inp (t0 \<lparr> t_TenantID := ci_TenantID inp, t_UserID := ci_UserID inp, t_AttemptedGateway := gid,
                  t_CallbackURL := ci_CallbackURL inp, t_RedirectURL := ci_RedirectURL inp \<rparr>) in
       bindE (wrapE ''payment: generate token'' (GenerateToken ev)) (\<lambda>(raw, hash). ok (t1 \<lparr> t_TokenHash := hash \<rparr>, raw)))))))))"

text \<open>After the insert: auto-capture payments are initiated at once. The error of the initiation is
  returned beside the result.\<close>

definition created_result :: "env \<Rightarrow> Txn \<Rightarrow> string \<Rightarrow> bool \<Rightarrow> (world, CreateResult \<times> go_error option) comp" where
  "created_result ev txn raw initiate = (if \<not> initiate
     then ok (\<lparr> res_Verdict = Created, res_Transaction = Some txn, res_Token = raw \<rparr>, None)
     else bindE (syncInitiate ev txn) (\<lambda>(reloaded, err).
          ok (\<lparr> res_Verdict = Created, res_Transaction = Some reloaded, res_Token = raw \<rparr>, err)))"

fun stored_payment :: "json option \<Rightarrow> (uuid \<times> string) option" where
  "stored_payment (Some (JObj [(_, JUuid tid), (_, JStr tok)])) = Some (tid, tok)"
| "stored_payment _ = None"

definition replayed_result :: "env \<Rightarrow> json option \<Rightarrow> (world, CreateResult \<times> go_error option) comp" where
  "replayed_result ev response = (case stored_payment response of
      None \<Rightarrow> throw (Errorf ''payment: decode idempotent response'')
    | Some (tid, tok) \<Rightarrow> bindE (wrapE ''payment: reload idempotent transaction'' (Txn_GetByID tid)) (\<lambda>reloaded.
        bindE (if t_CaptureMode reloaded = CaptureModeAuto
               then bindE (syncInitiate ev reloaded) (\<lambda>(t, _). ok t) else ok reloaded) (\<lambda>t.
        ok (\<lparr> res_Verdict = Replayed, res_Transaction = Some t, res_Token = tok \<rparr>, None))))"

definition create_op :: "env \<Rightarrow> Txn \<Rightarrow> string \<Rightarrow> (world, json \<times> unit) comp" where
  "create_op ev txn raw = bindE (create_tx ev txn) (\<lambda>_.
     ok (JObj [(''transaction_id'', JUuid (t_ID txn)), (''token'', JStr raw)], ()))"

definition create_verdict :: "env \<Rightarrow> Txn \<Rightarrow> string \<Rightarrow> Verdict \<times> json option \<times> unit option \<Rightarrow> (world, CreateResult \<times> go_error option) comp" where
  "create_verdict ev txn raw x = (case x of (verdict, response, _) \<Rightarrow> case verdict of
      Created \<Rightarrow> created_result ev txn raw (t_CaptureMode txn = CaptureModeAuto)
    | Replayed \<Rightarrow> replayed_result ev response
    | _ \<Rightarrow> ok (\<lparr> res_Verdict = verdict, res_Transaction = None, res_Token = '''' \<rparr>, None))"

definition Create :: "env \<Rightarrow> CreateInput \<Rightarrow> (world, CreateResult \<times> go_error option) comp" where
  "Create ev inp = bindE (build_payment ev inp) (\<lambda>(txn, raw).
     if \<not> ev_idem ev then
       bindE (WithinTx (create_tx ev txn)) (\<lambda>_. created_result ev txn raw (t_CaptureMode txn \<noteq> CaptureModeManual))
     else if ci_IdempotencyKey inp = '''' then throw ErrKeyRequired
     else bindE (Execute (Composite ev (identityKey ev inp) ''create_payment'' (ci_IdempotencyKey inp))
            (RequestHash ev [identityKey ev inp, ev_itoa ev (ci_Amount inp), ci_Currency inp, ci_PaymentMethod inp,
               ci_CallbackURL inp, ci_RedirectURL inp])
            (create_op ev txn raw)) (create_verdict ev txn raw))"

subsection \<open>Authorizing, capturing, settling (service.go)\<close>

definition begin_processing :: "Txn \<Rightarrow> (world, Txn) comp" where
  "begin_processing txn = bindE Now (\<lambda>now. bindE (lift (TransitionState txn StatusProcessing ActorSystem now)) (\<lambda>t1.
     Txn_UpdateStatus (t1 \<lparr> t_ProcessingStartedAt := Some now,
       t_ProcessingTimeout := Some (wrap64 (t_EstimatedTimeoutSeconds txn * Second)) \<rparr>)))"

text \<open>What \<open>Authorize\<close> and \<open>Capture\<close> share: the move to PROCESSING, the lease, and for the holder of the
  lease the gateway call with its outcome.\<close>

definition under_lease :: "env \<Rightarrow> Txn \<Rightarrow> (GatewayAdapter \<Rightarrow> Txn \<Rightarrow> (world, gw_answer) comp) \<Rightarrow> (gw_answer \<Rightarrow> outcome) \<Rightarrow> (world, Txn) comp" where
  "under_lease ev txn0 call resolve =
    bindE (mapE (\<lambda>_. ErrInvalidTransition) (WithinTx (begin_processing txn0))) (\<lambda>txn.
    bindE (wrapE ''payment: acquire lease'' (TryAcquireDirect (t_ID txn) (t_ID txn) (lease_ttl txn))) (\<lambda>acquired.
    if \<not> acquired then wrapE ''payment: reload transaction'' (Txn_GetByID (t_ID txn))
    else case ev_registry ev (t_GatewayID txn) of
        None \<Rightarrow> throw (Errorf ''payment: resolve adapter'')
      | Some adapter \<Rightarrow> bindE (call adapter txn) (\<lambda>ans.
          bindE (recordBreaker ev (t_GatewayID txn) ans) (\<lambda>_.
          if \<not> oc_terminal (resolve ans) then ok txn else finalize ev txn (resp_of ans) (resolve ans)))))"

definition Authorize :: "env \<Rightarrow> uuid \<Rightarrow> (world, Txn) comp" where
  "Authorize ev transactionID = bindE (wrapE ''payment: load transaction'' (Txn_GetByID transactionID)) (\<lambda>txn.
     if t_CaptureMode txn \<noteq> CaptureModeManual then throw (Errorf ''payment: authorize requires manual capture mode'')
     else under_lease ev txn (\<lambda>adapter t. callGateway (t_GatewayID t) adapter t) resolveAuthorizeOutcome)"

definition captureGateway :: "string \<Rightarrow> GatewayAdapter \<Rightarrow> Txn \<Rightarrow> (world, gw_answer) comp" where
  "captureGateway gid adapter txn = (let (gwAmount, gwCurrency) = gatewayAmountFor txn;
       req = \<lparr> gcr_TransactionID = t_ID txn, gcr_GatewayReferenceID = t_GatewayReferenceID txn, gcr_IdempotencyKey = '''',
               gcr_Amount = gwAmount, gcr_Currency = gwCurrency \<rparr>
     in bindE (gateway_call (CallCapture gid req) (\<lambda>calls. CapturePayment adapter calls req)) (\<lambda>r.
        ok (case as_answer ''capture_call_failed'' r of Inl g \<Rightarrow> Inl g
          | Inr c \<Rightarrow> Inr \<lparr> gp_GatewayReferenceID = gc_GatewayReferenceID c, gp_Status = gc_Status c, gp_RespAmount = gc_Amount c,
               gp_RespCurrency = gc_Currency c, gp_ErrorCode = gc_ErrorCode c, gp_ErrorMessage = gc_ErrorMessage c,
               gp_MethodResponse = NoMethodResponse, gp_GatewayMetadata = [] \<rparr>)))"

definition Capture :: "env \<Rightarrow> uuid \<Rightarrow> (world, Txn) comp" where
  "Capture ev transactionID = bindE (wrapE ''payment: load transaction'' (Txn_GetByID transactionID)) (\<lambda>txn.
     if t_Status txn \<noteq> StatusAuthorized then throw ErrInvalidTransition
     else under_lease ev txn (\<lambda>adapter t. captureGateway (t_GatewayID t) adapter t) resolveCaptureOutcome)"

definition settle_tx :: "env \<Rightarrow> Txn \<Rightarrow> (world, Txn) comp" where
  "settle_tx ev txn = bindE Now (\<lambda>now. bindE (lift (TransitionState txn StatusSettled ActorSystem now)) (\<lambda>t1.
     bindE (wrapE ''payment: update status'' (Txn_UpdateStatus t1)) (\<lambda>t2.
     bindE (write_terminal ev t2 StatusSettled) (\<lambda>_.
     bindE (audit (t_ID t2) AuditEventTypeStateChange ActorSystem (status_str (t_Status txn)) (status_str StatusSettled)
              ''manual_settle'') (\<lambda>_. ok t2)))))"

definition Settle :: "env \<Rightarrow> uuid \<Rightarrow> (world, Txn) comp" where
  "Settle ev transactionID = bindE (wrapE ''payment: load transaction'' (Txn_GetByID transactionID)) (\<lambda>txn.
     mapE (\<lambda>_. ErrInvalidTransition) (WithinTx (settle_tx ev txn)))"

subsection \<open>The lease-guarded driver and the reaper's recovery (process.go)\<close>

definition process_tx :: "Txn \<Rightarrow> (world, bool \<times> Txn) comp" where
  "process_tx txn = bindE (Lease_Acquire (t_ID txn) (t_ID txn) (t_EstimatedTimeoutSeconds txn)) (\<lambda>(acquired, _).
     if \<not> acquired then bindE (Txn_GetByID (t_ID txn)) (\<lambda>current. ok (False, current))
     else bindE (begin_processing txn) (\<lambda>t. ok (True, t)))"

definition attemptGateways :: "env \<Rightarrow> GatewayAdapter \<Rightarrow> Txn \<Rightarrow> (world, gw_answer) comp" where
  "attemptGateways ev adapter txn = bindE (callGateway (t_GatewayID txn) adapter txn) (\<lambda>ans.
     bindE (recordBreaker ev (t_GatewayID txn) ans) (\<lambda>_. ok ans))"

definition ProcessPayment :: "env \<Rightarrow> uuid \<Rightarrow> (world, Txn) comp" where
  "ProcessPayment ev transactionID = bindE (wrapE ''payment: load transaction'' (Txn_GetByID transactionID)) (\<lambda>txn.
     if t_Status txn \<noteq> StatusPending then ok txn
     else case ev_registry ev (t_GatewayID txn) of
         None \<Rightarrow> throw (Errorf ''payment: resolve adapter'')
       | Some adapter \<Rightarrow>
         bindE (wrapE ''payment: begin processing'' (WithinTx (process_tx txn))) (\<lambda>(acquired, t1).
         if \<not> acquired then ok t1
         else bindE (enterIntent (t_GatewayID t1) (t_ID t1) (wrap64 (t_EstimatedTimeoutSeconds txn * Second))) (\<lambda>_.
              bindE (attemptGateways ev adapter t1) (\<lambda>ans. finalize ev t1 (resp_of ans) (resolveOutcome ans)))))"

definition RecoverExpiredLease :: "env \<Rightarrow> uuid \<Rightarrow> (world, Txn) comp" where
  "RecoverExpiredLease ev transactionID = bindE (wrapE ''payment: load stuck transaction'' (Txn_GetByID transactionID)) (\<lambda>txn.
     bindE Now (\<lambda>now.
     if t_Status txn \<noteq> StatusProcessing \<or> \<not> IsLeaseExpired txn now then ok txn
     else let gid = (if t_ActualGateway txn = '''' then t_GatewayID txn else t_ActualGateway txn)
       in case ev_registry ev gid of
            None \<Rightarrow> throw (Errorf ''payment: resolve adapter'')
          | Some adapter \<Rightarrow>
              let t1 = txn \<lparr> t_GatewayID := gid \<rparr>
              in bindE (checkStatus gid adapter t1) (\<lambda>ans. bindE (recordBreaker ev gid ans) (\<lambda>_.
                 if \<not> oc_terminal (resolveOutcome ans) then ok t1
                 else finalize ev t1 (resp_of ans) (resolveOutcome ans)))))"

end
