(* ===== verification/Refund_Frame.thy ===== *)
theory Refund_Frame
  imports Refund_Service
begin

section \<open>What refunds leave alone\<close>

text \<open>
  Payments are refunded in the middle of other operations (a capture that finds a cancel request).
  A property of the tables that only depends on payments outside the refund statuses, and that more
  outbox events do not break, is kept by every refund operation, wherever the database stops
  answering. The locale collects what such a property has to satisfy; the components that call the
  refund service interpret it.
\<close>

subsection \<open>Rules for whole operations\<close>

lemma keeps_Execute:
  assumes "\<And>D fs. keeps (tx_inv D fs) op" "\<And>d x. P (d \<lparr> db_idem := x \<rparr>) = P d"
    and "\<And>w a w2. P (cur_db w) \<Longrightarrow> op w = (Inr a, w2) \<Longrightarrow> P (cur_db w2)"
  shows "keeps (settled P) (Execute c h op)"
proof (unfold keeps_def, intro allI impI)
  fix w assume w: "settled P w"
  obtain r w1 where e: "Execute c h op w = (r, w1)" by fastforce
  have "P (cur_db (claimed_world c h w))" using w by (simp add: settled_def sql_reserve_def assms(2))
  then have "settled P w1" by (intro Execute_post [OF assms(1) w e assms(2)]) (rule assms(3))
  with e show "settled P (snd (Execute c h op w))" by simp
qed

lemma keeps_mapE [hoare]: "keeps I m \<Longrightarrow> keeps I (mapE f m)"
  by (simp add: keeps_def snd_mapE)

subsection \<open>The frame of a refund\<close>

lemma keeps_ClaimProcessing:
  assumes "\<And>d x. Q (d \<lparr> db_refunds := x \<rparr>) = Q d"
  shows "keeps (settled Q) (ClaimProcessing rf)"
proof (unfold keeps_def, intro allI impI)
  fix w assume w: "settled Q w"
  define f where "f = (\<lambda>d. case sql_claim_refund (w_clock w) rf d of Some (_, d') \<Rightarrow> d' | None \<Rightarrow> d)"
  have "\<exists>x. f d = d \<lparr> db_refunds := x \<rparr>" for d
  proof (cases "sql_claim_refund (w_clock w) rf d")
    case None
    then show ?thesis by (intro exI [of _ "db_refunds d"]) (simp add: f_def)
  next
    case (Some y)
    then show ?thesis by (auto simp: f_def sql_claim_refund_def split: option.splits if_splits)
  qed
  then obtain x where "f (w_db w) = (w_db w) \<lparr> db_refunds := x \<rparr>" by blast
  then have "settled Q (put_db f (spend w))"
    using w by (simp add: settled_def coh_def put_db_def assms)
  note put = this [unfolded f_def]
  show "settled Q (snd (ClaimProcessing rf w))"
    using query_cases [of "\<lambda>d. sql_claim_refund (w_clock w) rf d" w] w put
    by (auto simp: ClaimProcessing_def bindE_def Now_def reading_def changing_def ok_def settled_def coh_def split: option.splits)
qed

lemma outbox_row_pending [simp]: "o_status (outbox_row ev e rid now) = OutboxPending"
  by (simp add: outbox_row_def)

definition refund_statuses :: "Status set" where
  "refund_statuses = {StatusRefundPending, StatusPartiallyRefunded, StatusRefunded, StatusRefundFailed}"

text \<open>Properties that do not look at idempotency keys and queued messages, and that more outbox events
  do not break.\<close>

locale table_closed =
  fixes P :: "db \<Rightarrow> bool"
  assumes idem_free: "P (d \<lparr> db_idem := x \<rparr>) = P d"
    and core_only: "core d' = core d \<Longrightarrow> P d' = P d"
    and outbox_grows: "P d \<Longrightarrow> o_status e = OutboxPending \<Longrightarrow> P (d \<lparr> db_outbox := db_outbox d @ [e] \<rparr>)"

locale refund_closed = table_closed P for P :: "db \<Rightarrow> bool" +
  assumes refunds_free: "P (d \<lparr> db_refunds := y \<rparr>) = P d"
    and refund_status: "P d \<Longrightarrow> txn_of d (t_ID t) = Some row \<Longrightarrow> t_Status t \<in> refund_statuses \<or> t_Status t = t_Status row \<Longrightarrow>
      P (d \<lparr> db_transactions := update_row t_ID (t_ID t) (status_cols t now) (db_transactions d) \<rparr>)"
begin

lemma insertRefund_keeps:
  assumes "insertRefund ev inp parent w = (Inr r, w')" "P (cur_db w)"
  shows "P (cur_db w')"
proof -
  from assms(1) obtain x ev' e' rid now where
    w': "cur_db w' = (cur_db w) \<lparr> db_refunds := x, db_outbox := db_outbox (cur_db w) @ [outbox_row ev' e' rid now] \<rparr>"
    unfolding insertRefund_def Let_def by (auto simp: run dest!: effect)
  define e where "e = outbox_row ev' e' rid now"
  have e: "o_status e = OutboxPending" by (simp add: e_def)
  from w' have "cur_db w' = (cur_db w \<lparr> db_refunds := x \<rparr>) \<lparr> db_outbox := db_outbox (cur_db w \<lparr> db_refunds := x \<rparr>) @ [e] \<rparr>"
    by (simp add: e_def)
  then show ?thesis using outbox_grows [of "cur_db w \<lparr> db_refunds := x \<rparr>" e] e assms(2) by (simp add: refunds_free)
qed

lemma initiate_tx_keeps:
  assumes "initiate_tx ev inp parent w = (Inr r, w')" "P (cur_db w)"
  shows "P (cur_db w')"
proof -
  from assms(1) obtain now p1 p2 w1 where
    ts: "TransitionState parent StatusRefundPending ActorSystem now = Inr p1"
    and us: "Txn_UpdateStatus p1 w = (Inr p2, w1)" and ins: "insertRefund ev inp p2 w1 = (Inr r, w')"
    by (auto simp: initiate_tx_def run)
  have "P (cur_db w1)"
    using Txn_UpdateStatus_effect [OF us] TransitionState_Inr(2) [OF ts] refund_status [OF assms(2)]
    by (auto simp: refund_statuses_def)
  then show ?thesis by (rule insertRefund_keeps [OF ins])
qed

lemma InitiateRefund_keeps: "keeps (settled P) (InitiateRefund ev inp)"
proof -
  have tx: "keeps (settled P) (WithinTx (initiate_tx ev inp parent))" for parent
    by (rule keeps_WithinTx [OF keeps_initiate_tx], erule initiate_tx_keeps) (simp add: settled_def)
  have k: "keeps (tx_inv D fs) (initiate_op ev inp parent)" for D fs parent
    unfolding initiate_op_def by (intro hoare keeps_initiate_tx)
  have ex: "keeps (settled P) (Execute c h (initiate_op ev inp parent))" for c h parent
    by (rule keeps_Execute [OF k idem_free]) (auto simp: initiate_op_def run dest: initiate_tx_keeps)
  have res: "keeps (settled P) (initiate_result x)" for x
    unfolding initiate_result_def by (auto intro!: hoare split: prod.split Verdict.split option.split)
  show ?thesis
    unfolding InitiateRefund_def initiate_loaded_def by (intro hoare tx ex res)
qed

lemma Refund_UpdateStatus_keeps: "Refund_UpdateStatus rf w = (Inr rf', w') \<Longrightarrow> P (cur_db w) \<Longrightarrow> P (cur_db w')"
  using Refund_UpdateStatus_effect [of rf w rf' w'] by (auto simp: refunds_free)

lemma finish_tx_keeps:
  assumes "finish_tx ev rf p oc w = (Inr r, w')" "P (cur_db w)" "txn_of (cur_db w) (t_ID p) = Some p"
  shows "P (cur_db w')"
proof -
  from assms(1) obtain rf1 rf2 w1 p1 w2 p2 w3 w4 where
    us: "Refund_UpdateStatus (rf1 \<lparr> rf_FailureReason := ro_failureReason oc \<rparr>) w = (Inr rf2, w1)"
    and tp: "transitionParentOnRefundResult p oc w1 = (Inr p1, w2)"
    and ut: "Txn_UpdateStatus p1 w2 = (Inr p2, w3)"
    and ow: "Outbox_Write ev (refund_terminal_event rf2 (ro_newStatus oc)) w3 = (Inr (), w4)"
    and tl: "refund_announce ev p2 rf2 oc w4 = (Inr (), w')"
    unfolding finish_tx_def by (auto simp: run)
  have 1: "P (cur_db w1)" by (rule Refund_UpdateStatus_keeps [OF us assms(2)])
  have row: "txn_of (cur_db w1) (t_ID p) = Some p" using Refund_UpdateStatus_effect [OF us] assms(3) by auto
  have 2: "cur_db w2 = cur_db w1" "t_ID p1 = t_ID p" using transitionParent_effect [OF tp] by simp_all
  have "t_Status p1 \<in> refund_statuses \<or> t_Status p1 = t_Status p"
    using tp unfolding transitionParentOnRefundResult_def
    by (auto simp: run refund_statuses_def split: if_splits dest: TransitionState_Inr(2))
  then have 3: "P (cur_db w3)"
    using Txn_UpdateStatus_effect [OF ut] refund_status [OF 1, of p1 p] row 2 by auto
  have 4: "P (cur_db w4)" using Outbox_Write_effect [OF ow] outbox_grows [OF 3] by auto
  have "core (cur_db w') = core (cur_db w4)" by (rule core_tail [OF keeps_refund_announce(2) tl])
  with core_only 4 show ?thesis by blast
qed

lemma settle_refund_keeps:
  assumes "settled (\<lambda>d. P d \<and> txn_of d (t_ID p) = Some p) w"
  shows "settled P (snd (settle_refund ev rf p x w))"
proof -
  have fly: "settled P (snd (WithinTx (Refund_UpdateStatus rf') w))" for rf'
    by (rule keeps_snd [OF keeps_WithinTx [OF keeps_repo(4)]])
       (use assms in \<open>auto simp: settled_def intro: Refund_UpdateStatus_keeps\<close>)
  have fin: "settled P (snd (WithinTx (finish_tx ev rf' p oc) w))" for rf' oc
  proof -
    obtain r w1 where e: "WithinTx (finish_tx ev rf' p oc) w = (r, w1)" by fastforce
    have "settled P w1"
      by (rule WithinTx_post [OF keeps_finish_tx _ e])
         (use assms in \<open>auto simp: settled_def intro: finish_tx_keeps\<close>)
    with e show ?thesis by simp
  qed
  have fin': "settled P (snd (bindE (wrapE s (WithinTx (finish_tx ev rf' p oc))) (\<lambda>rf4.
      bindE (audit (rf_TransactionID rf4) et ac ps ns rs) (\<lambda>_. ok rf4)) w))" for rf' oc s et ac ps ns rs
    by (rule bindE_snd) (use fin in \<open>auto simp: snd_wrapE intro!: hoare\<close>)
  show ?thesis
    unfolding settle_refund_def Let_def
    by (cases x) (simp add: snd_wrapE fly fin' split: option.split)
qed

lemma runRefund_keeps: "keeps (settled P) (runRefund ev rf)"
proof (unfold keeps_def, intro allI impI)
  fix w assume w: "settled P w"
  obtain r0 w0 where g: "Txn_GetByID (rf_TransactionID rf) w = (r0, w0)" by fastforce
  note g' = Txn_GetByID_settled [OF w g]
  show "settled P (snd (runRefund ev rf w))"
  proof (cases r0)
    case (Inl e)
    then show ?thesis using g g'(1) by (simp add: runRefund_def bindE_def wrapE_def)
  next
    case (Inr p)
    let ?Q = "\<lambda>d. P d \<and> txn_of d (t_ID p) = Some p"
    have w0: "settled ?Q w0" using g'(1,2,4) Inr by (auto simp: settled_def)
    have weak: "settled ?Q v \<Longrightarrow> settled P v" for v by (simp add: settled_def)
    have run: "settled P (snd (bindE (refund_callGateway gid ad rf1 p) (settle_refund ev rf1 p) v))"
      if "settled ?Q v" for gid ad rf1 v
    proof -
      obtain y v2 where call: "refund_callGateway gid ad rf1 p v = (y, v2)" by fastforce
      have v2: "settled ?Q v2" by (rule keepsD [OF keeps_settled_calls that call])
      with settle_refund_keeps [OF v2] weak [OF v2] call show ?thesis by (cases y) (simp_all add: bindE_def)
    qed
    obtain r1 w1 where c: "ClaimProcessing rf w0 = (r1, w1)" by fastforce
    have w1: "settled ?Q w1"
      by (rule keepsD [OF keeps_ClaimProcessing w0 c]) (simp add: refunds_free)
    have reload: "keeps (settled P) (bindE (attempt (Refund_GetByID (rf_ID rf))) (\<lambda>r. case r of
            Inl e \<Rightarrow> throw (Errorf ''panic: nil pointer dereference'') | Inr rf' \<Rightarrow> ok rf'))"
      by (intro hoare)
    note none = keeps_snd [OF reload weak [OF w1]]
    show ?thesis
      using Inr g c none run [OF w1] weak [OF w1] weak [OF w0]
      by (cases r1) (auto simp: runRefund_def bindE_def [of "wrapE _ _"] wrapE_def throw_def split: option.splits)
  qed
qed

lemma ProcessRefund_keeps: "keeps (settled P) (ProcessRefund ev i)" "keeps (settled P) (RetryStaleRefund ev i)"
  unfolding ProcessRefund_def RetryStaleRefund_def by (intro hoare runRefund_keeps)+

lemma ResolveCancelRefund_keeps: "keeps (settled P) (ResolveCancelRefund ev i amount)"
  unfolding ResolveCancelRefund_def ExistsByReason_def by (intro hoare InitiateRefund_keeps ProcessRefund_keeps)

lemma run_refund_op_keeps: "settled P w \<Longrightarrow> settled P (run_refund_op ev op w)"
  using InitiateRefund_keeps ProcessRefund_keeps ResolveCancelRefund_keeps
  by (cases op) (simp_all add: keeps_def)

end

end
