(* ===== verification/Payment_Rules.thy ===== *)
theory Payment_Rules
  imports Payment Refund_Frame
begin

section \<open>Invariants of the payment service\<close>

text \<open>
  The transactional outbox: a payment is never in a status that was not announced by an event written
  in the same database transaction. And the lease: a gateway is asked to charge a payment at most
  once as long as its lease row stands.
\<close>

subsection \<open>Inside a transaction\<close>

lemma keeps_tx_messages [hoare]:
  "keeps (tx_inv D fs) (write_terminal ev t s)" "keeps (tx_inv D fs) (write_callback ev t s)"
  "keeps (tx_inv D fs) (dispatchTerminalNotification ev t s r)" "keeps (tx_inv D fs) (dispatchTenantWebhook ev t s)"
  unfolding write_terminal_def write_callback_def dispatchTerminalNotification_def dispatchTenantWebhook_def Let_def
  by (intro hoare)+

lemma keeps_core_messages [hoare]:
  "keeps (\<lambda>w. core (cur_db w) = C) (dispatchTerminalNotification ev t s r)"
  "keeps (\<lambda>w. core (cur_db w) = C) (dispatchTenantWebhook ev t s)"
  unfolding dispatchTerminalNotification_def dispatchTenantWebhook_def Let_def by (intro hoare)+

lemma keeps_tx_bodies [hoare]:
  "keeps (tx_inv D fs) (finalize_move t oc)" "keeps (tx_inv D fs) (finalize_messages ev t oc)"
  "keeps (tx_inv D fs) (begin_processing t)" "keeps (tx_inv D fs) (create_tx ev t)"
  "keeps (tx_inv D fs) (initiate_record t resp)" "keeps (tx_inv D fs) (settle_tx ev t)"
  unfolding finalize_move_def finalize_messages_def begin_processing_def create_tx_def initiate_record_def settle_tx_def Let_def
  by (intro hoare)+

lemma keeps_finalize_tx [hoare]: "keeps (tx_inv D fs) (finalize_tx ev t oc c)"
  unfolding finalize_tx_def by (intro hoare)

lemma keeps_create_op [hoare]: "keeps (tx_inv D fs) (create_op ev t raw)"
  unfolding create_op_def by (intro hoare)

subsection \<open>The outbox announces every status\<close>

definition has_event :: "db \<Rightarrow> uuid \<Rightarrow> string \<Rightarrow> bool" where
  "has_event d i et \<longleftrightarrow> (\<exists>e \<in> set (db_outbox d). o_aggregate_id e = i \<and> o_event_type e = et)"

text \<open>Refunds are announced under their own identifiers, by the refund service.\<close>

definition status_event :: "Status \<Rightarrow> string option" where
  "status_event s = (if s \<in> refund_statuses then None else EventTypeForTransactionStatus s)"

lemma status_event_simps [simp]:
  "status_event StatusPending = None" "status_event StatusProcessing = None"
  "status_event StatusSettled = Some EventTypeTransactionSettled"
  by (simp_all add: status_event_def refund_statuses_def)

definition announced :: "db \<Rightarrow> bool" where
  "announced d \<longleftrightarrow> distinct (map t_ID (db_transactions d)) \<and> (\<forall>t \<in> set (db_transactions d).
     has_event d (t_ID t) EventTypeTransactionCreated \<and>
     (\<forall>et. status_event (t_Status t) = Some et \<longrightarrow> has_event d (t_ID t) et))"

lemma announced_cong:
  "db_transactions d' = db_transactions d \<Longrightarrow> db_outbox d' = db_outbox d \<Longrightarrow> announced d' = announced d"
  by (simp add: announced_def has_event_def)

lemma announced_free [simp]:
  "announced (d \<lparr> db_idem := a \<rparr>) = announced d" "announced (d \<lparr> db_refunds := b \<rparr>) = announced d"
  "announced (d \<lparr> db_leases := c \<rparr>) = announced d"
  by (simp_all add: announced_def has_event_def)

lemma announced_core: "core d' = core d \<Longrightarrow> announced d' = announced d"
  by (rule announced_cong) (simp_all add: core_def)

text \<open>A payment changes its status together with the events that the new status needs.\<close>

lemma announced_move:
  assumes "announced d" "db_transactions d' = update_row t_ID i f (db_transactions d)" "db_outbox d' = db_outbox d @ es"
    and "\<And>r. t_ID (f r) = t_ID r"
    and "\<And>r et. r \<in> set (db_transactions d) \<Longrightarrow> t_ID r = i \<Longrightarrow> status_event (t_Status (f r)) = Some et \<Longrightarrow>
      status_event (t_Status r) = Some et \<or> (\<exists>e \<in> set es. o_aggregate_id e = i \<and> o_event_type e = et)"
  shows "announced d'"
proof -
  have grow: "has_event d j et \<Longrightarrow> has_event d' j et" for j et
    by (auto simp: has_event_def assms(3))
  have "has_event d' (t_ID t) EventTypeTransactionCreated \<and>
     (\<forall>et. status_event (t_Status t) = Some et \<longrightarrow> has_event d' (t_ID t) et)" if "t \<in> set (db_transactions d')" for t
  proof -
    from that obtain r where r: "r \<in> set (db_transactions d)" "t = (if t_ID r = i then f r else r)"
      by (auto simp: assms(2) set_update_row)
    have old: "has_event d (t_ID r) EventTypeTransactionCreated"
      "status_event (t_Status r) = Some et \<Longrightarrow> has_event d (t_ID r) et" for et
      using assms(1) r(1) by (auto simp: announced_def)
    have tr: "t_ID t = t_ID r" using r(2) assms(4) by simp
    have "has_event d' (t_ID t) et" if "status_event (t_Status t) = Some et" for et
    proof (cases "t_ID r = i")
      case True
      with that r(2) assms(5) [OF r(1) True] have "status_event (t_Status r) = Some et \<or>
          (\<exists>e \<in> set es. o_aggregate_id e = i \<and> o_event_type e = et)" by simp
      then show ?thesis using old(2) grow tr True by (auto simp: has_event_def assms(3))
    next
      case False
      with that r(2) old(2) grow tr show ?thesis by simp
    qed
    with grow [OF old(1)] tr show ?thesis by simp
  qed
  moreover have "distinct (map t_ID (db_transactions d'))"
    using assms(1,4) by (simp add: announced_def assms(2))
  ultimately show ?thesis by (simp add: announced_def)
qed

lemma announced_outbox: "announced d \<Longrightarrow> announced (d \<lparr> db_outbox := db_outbox d @ [e] \<rparr>)"
  by (auto simp: announced_def has_event_def)

interpretation ann: refund_closed announced
proof
  fix d and t row :: Txn and now :: int
  assume a: "announced d" and row: "txn_of d (t_ID t) = Some row"
    and s: "t_Status t \<in> refund_statuses \<or> t_Status t = t_Status row"
  have "r = row" if "r \<in> set (db_transactions d)" "t_ID r = t_ID t" for r
    using a row that lookup_row_mem [of t_ID "db_transactions d" r] by (simp add: announced_def)
  then show "announced (d \<lparr> db_transactions := update_row t_ID (t_ID t) (status_cols t now) (db_transactions d) \<rparr>)"
    using s by (intro announced_move [OF a, of _ "t_ID t" "status_cols t now" "[]"]) (auto simp: status_event_def)
qed (simp_all only: announced_free announced_outbox, rule announced_core)

subsection \<open>What the transactions of the service write\<close>

lemma begin_processing_effect:
  assumes "begin_processing t w = (Inr t', w')"
  shows "\<exists>f. db_transactions (cur_db w') = update_row t_ID (t_ID t) f (db_transactions (cur_db w)) \<and>
      db_outbox (cur_db w') = db_outbox (cur_db w) \<and> (\<forall>r. t_ID (f r) = t_ID r \<and> t_Status (f r) = StatusProcessing)"
    "t_Status t' = StatusProcessing" "t_ID t' = t_ID t"
proof -
  from assms obtain t1 where ts: "TransitionState t StatusProcessing ActorSystem (w_clock w) = Inr t1"
    and us: "Txn_UpdateStatus (t1 \<lparr> t_ProcessingStartedAt := Some (w_clock w),
       t_ProcessingTimeout := Some (wrap64 (t_EstimatedTimeoutSeconds t * Second)) \<rparr>) w = (Inr t', w')"
    by (auto simp: begin_processing_def run)
  note p = TransitionState_Inr [OF ts]
  from Txn_UpdateStatus_effect [OF us] p show
    "\<exists>f. db_transactions (cur_db w') = update_row t_ID (t_ID t) f (db_transactions (cur_db w)) \<and>
      db_outbox (cur_db w') = db_outbox (cur_db w) \<and> (\<forall>r. t_ID (f r) = t_ID r \<and> t_Status (f r) = StatusProcessing)"
    by (intro exI [of _ "status_cols (t1 \<lparr> t_ProcessingStartedAt := Some (w_clock w),
       t_ProcessingTimeout := Some (wrap64 (t_EstimatedTimeoutSeconds t * Second)) \<rparr>) (w_clock w)"]) auto
  show "t_Status t' = StatusProcessing" "t_ID t' = t_ID t" using Txn_UpdateStatus_effect [OF us] p by auto
qed

lemma begin_processing_announced:
  assumes "begin_processing t w = (Inr t', w')" "announced (cur_db w)"
  shows "announced (cur_db w')"
proof -
  from begin_processing_effect(1) [OF assms(1)] obtain f where
    f: "db_transactions (cur_db w') = update_row t_ID (t_ID t) f (db_transactions (cur_db w))"
      "db_outbox (cur_db w') = db_outbox (cur_db w)" "\<And>r. t_ID (f r) = t_ID r" "\<And>r. t_Status (f r) = StatusProcessing" by blast
  show ?thesis
    by (rule announced_move [OF assms(2) f(1), of "[]"]) (simp_all add: f)
qed

lemma write_terminal_effect:
  "write_terminal ev t s w = (Inr u, w') \<Longrightarrow> \<exists>es. cur_db w' = (cur_db w) \<lparr> db_outbox := db_outbox (cur_db w) @ es \<rparr> \<and>
     (\<forall>et. EventTypeForTransactionStatus s = Some et \<longrightarrow> (\<exists>e \<in> set es. o_aggregate_id e = t_ID t \<and> o_event_type e = et))"
proof (cases "EventTypeForTransactionStatus s")
  case None
  moreover assume "write_terminal ev t s w = (Inr u, w')"
  ultimately show ?thesis
    by (intro exI [of _ "[]"]) (simp add: write_terminal_def buildTerminalEvent_def run)
next
  case (Some et)
  assume "write_terminal ev t s w = (Inr u, w')"
  with Some have "Outbox_Write ev (the (buildTerminalEvent t s)) w = (Inr u, w')"
    by (simp add: write_terminal_def buildTerminalEvent_def)
  from Outbox_Write_effect [OF this] Some show ?thesis
    by (force simp: buildTerminalEvent_def txn_event_def outbox_row_def)
qed

lemma write_callback_effect:
  "write_callback ev t s w = (Inr u, w') \<Longrightarrow> \<exists>es. cur_db w' = (cur_db w) \<lparr> db_outbox := db_outbox (cur_db w) @ es \<rparr>"
proof (cases "t_CallbackURL t = ''''")
  case True
  moreover assume "write_callback ev t s w = (Inr u, w')"
  ultimately show ?thesis by (intro exI [of _ "[]"]) (simp add: write_callback_def run)
qed (auto simp: write_callback_def dest!: Outbox_Write_effect)

lemma finalize_messages_effect:
  assumes "finalize_messages ev t oc w = (Inr u, w')"
  shows "\<exists>es. db_transactions (cur_db w') = db_transactions (cur_db w) \<and> db_outbox (cur_db w') = db_outbox (cur_db w) @ es \<and>
     (\<forall>et. oc_terminal oc \<and> EventTypeForTransactionStatus (oc_newStatus oc) = Some et \<longrightarrow>
       (\<exists>e \<in> set es. o_aggregate_id e = t_ID t \<and> o_event_type e = et))"
proof (cases "oc_terminal oc")
  case False
  with assms show ?thesis by (intro exI [of _ "[]"]) (simp add: finalize_messages_def run)
next
  case True
  with assms obtain w1 w2 w3 where 1: "write_terminal ev t (oc_newStatus oc) w = (Inr (), w1)"
    and 2: "write_callback ev t (oc_newStatus oc) w1 = (Inr (), w2)"
    and 3: "dispatchTerminalNotification ev t (oc_newStatus oc) (oc_failureReason oc) w2 = (Inr (), w3)"
    and 4: "dispatchTenantWebhook ev t (oc_newStatus oc) w3 = (Inr u, w')"
    unfolding finalize_messages_def by (auto simp: run)
  have "core (cur_db w') = core (cur_db w2)"
    using core_tail [OF keeps_core_messages(1) 3] core_tail [OF keeps_core_messages(2) 4] by simp
  then have "db_transactions (cur_db w') = db_transactions (cur_db w2)" "db_outbox (cur_db w') = db_outbox (cur_db w2)"
    by (simp_all add: core_def)
  moreover obtain es1 where "cur_db w1 = (cur_db w) \<lparr> db_outbox := db_outbox (cur_db w) @ es1 \<rparr>"
      "\<forall>et. EventTypeForTransactionStatus (oc_newStatus oc) = Some et \<longrightarrow>
        (\<exists>e \<in> set es1. o_aggregate_id e = t_ID t \<and> o_event_type e = et)"
    using write_terminal_effect [OF 1] by blast
  moreover obtain es2 where "cur_db w2 = (cur_db w1) \<lparr> db_outbox := db_outbox (cur_db w1) @ es2 \<rparr>"
    using write_callback_effect [OF 2] by blast
  ultimately show ?thesis by (intro exI [of _ "es1 @ es2"]) auto
qed

lemma finalize_tx_announced:
  assumes "finalize_tx ev t oc c w = (Inr t', w')" "announced (cur_db w)" "oc_terminal oc \<or> t_Status t = StatusProcessing"
  shows "announced (cur_db w')"
proof -
  from assms(1) obtain t1 w1 t2 w2 w3 where mv: "finalize_move t oc w = (Inr t1, w1)"
    and us: "Txn_UpdateStatus t1 w1 = (Inr t2, w2)" and ms: "finalize_messages ev t2 oc w2 = (Inr (), w3)"
    and wc: "WriteCachedResponse (t_ID t2) c w3 = (Inr (), w')"
    unfolding finalize_tx_def by (auto simp: run)
  have m: "cur_db w1 = cur_db w" "t_ID t1 = t_ID t" "t_Status t1 = (if oc_terminal oc then oc_newStatus oc else t_Status t)"
    using mv by (auto simp: finalize_move_def run split: if_splits dest!: audit_effect dest: TransitionState_Inr)
  obtain row where u: "t2 = t1 \<lparr> t_Version := t_Version t1 + 1 \<rparr>"
      "cur_db w2 = (cur_db w1) \<lparr> db_transactions := update_row t_ID (t_ID t1) (status_cols t1 (w_clock w1)) (db_transactions (cur_db w1)) \<rparr>"
    using Txn_UpdateStatus_effect [OF us] by auto
  obtain es where es: "db_transactions (cur_db w3) = db_transactions (cur_db w2)" "db_outbox (cur_db w3) = db_outbox (cur_db w2) @ es"
     "\<forall>et. oc_terminal oc \<and> EventTypeForTransactionStatus (oc_newStatus oc) = Some et \<longrightarrow>
       (\<exists>e \<in> set es. o_aggregate_id e = t_ID t2 \<and> o_event_type e = et)"
    using finalize_messages_effect [OF ms] by blast
  have "announced (cur_db w3)"
  proof (rule announced_move [OF assms(2), of _ "t_ID t" "status_cols t1 (w_clock w1)" es])
    fix r et assume "status_event (t_Status (status_cols t1 (w_clock w1) r)) = Some et"
    then show "status_event (t_Status r) = Some et \<or> (\<exists>e \<in> set es. o_aggregate_id e = t_ID t \<and> o_event_type e = et)"
      using es(3) m assms(3) u(1) by (auto simp: status_event_def split: if_splits)
  qed (use es(1,2) u(2) m in simp_all)
  then show ?thesis using WriteCachedResponse_effect [OF wc] by auto
qed

lemma settle_tx_announced:
  assumes "settle_tx ev t w = (Inr t', w')" "announced (cur_db w)"
  shows "announced (cur_db w')"
proof -
  from assms(1) obtain t1 t2 w2 w3 where ts: "TransitionState t StatusSettled ActorSystem (w_clock w) = Inr t1"
    and us: "Txn_UpdateStatus t1 w = (Inr t2, w2)" and wt: "write_terminal ev t2 StatusSettled w2 = (Inr (), w3)"
    and au: "audit (t_ID t2) AuditEventTypeStateChange ActorSystem (status_str (t_Status t)) (status_str StatusSettled)
              ''manual_settle'' w3 = (Inr (), w')"
    unfolding settle_tx_def by (auto simp: run)
  obtain es where es: "cur_db w3 = (cur_db w2) \<lparr> db_outbox := db_outbox (cur_db w2) @ es \<rparr>"
     "\<exists>e \<in> set es. o_aggregate_id e = t_ID t2 \<and> o_event_type e = EventTypeTransactionSettled"
    using write_terminal_effect [OF wt] by auto
  have u: "t_ID t2 = t_ID t1" "t_Status t1 = StatusSettled"
      "cur_db w2 = (cur_db w) \<lparr> db_transactions := update_row t_ID (t_ID t1) (status_cols t1 (w_clock w)) (db_transactions (cur_db w)) \<rparr>"
    using Txn_UpdateStatus_effect [OF us] TransitionState_Inr [OF ts] by auto
  have "announced (cur_db w3)"
    by (rule announced_move [OF assms(2), of _ "t_ID t1" "status_cols t1 (w_clock w)" es])
       (use es u in \<open>auto simp: status_event_def refund_statuses_def\<close>)
  with audit_effect [OF au] show ?thesis by simp
qed

lemma create_tx_announced:
  assumes "create_tx ev t w = (Inr u, w')" "announced (cur_db w)" "t_Status t = StatusPending"
  shows "announced (cur_db w')"
proof -
  from assms(1) obtain w1 w2 where ins: "Txn_Insert t w = (Inr (), w1)"
    and au: "audit (t_ID t) AuditEventTypeStateChange ActorSystem '''' (status_str (t_Status t)) ''payment_created'' w1 = (Inr (), w2)"
    and ev: "forE (created_events t) (\<lambda>e. wrapE ''write outbox event'' (Outbox_Write ev e)) w2 = (Inr u, w')"
    unfolding create_tx_def by (auto simp: run)
  have i: "txn_of (cur_db w) (t_ID t) = None" "cur_db w2 = (cur_db w) \<lparr> db_transactions := db_transactions (cur_db w) @ [t] \<rparr>"
    using Txn_Insert_effect [OF ins] audit_effect [OF au] by (auto simp: txn_insert_ok_def)
  have "\<exists>es. cur_db w' = (cur_db w2) \<lparr> db_outbox := db_outbox (cur_db w2) @ es \<rparr> \<and>
      (\<exists>e \<in> set es. o_aggregate_id e = t_ID t \<and> o_event_type e = EventTypeTransactionCreated)"
  proof (cases "t_CaptureMode t = CaptureModeAuto")
    case True
    with ev show ?thesis
      by (auto simp: created_events_def txn_event_def run outbox_row_def dest!: Outbox_Write_effect)
  next
    case False
    with ev show ?thesis
      by (auto simp: created_events_def txn_event_def run outbox_row_def dest!: Outbox_Write_effect)
  qed
  then obtain es where es: "cur_db w' = (cur_db w2) \<lparr> db_outbox := db_outbox (cur_db w2) @ es \<rparr>"
      "\<exists>e \<in> set es. o_aggregate_id e = t_ID t \<and> o_event_type e = EventTypeTransactionCreated" by blast
  have "has_event (cur_db w) j et \<Longrightarrow> has_event (cur_db w') j et" for j et
    by (auto simp: has_event_def es(1) i(2))
  moreover have "has_event (cur_db w') (t_ID t) EventTypeTransactionCreated"
    using es by (auto simp: has_event_def)
  ultimately show ?thesis
    using assms(2,3) i by (auto simp: announced_def es(1) lookup_row_None)
qed

lemma initiate_record_effect:
  assumes "initiate_record t resp w = (Inr u, w')"
  shows "\<exists>f. db_transactions (cur_db w') = update_row t_ID (t_ID t) f (db_transactions (cur_db w)) \<and>
      db_outbox (cur_db w') = db_outbox (cur_db w) \<and> db_leases (cur_db w') = db_leases (cur_db w) \<and>
      (\<forall>r. t_ID (f r) = t_ID r \<and> t_Status (f r) = StatusProcessing \<and>
           t_ProcessingStartedAt (f r) = t_ProcessingStartedAt t \<and> t_ProcessingTimeout (f r) = t_ProcessingTimeout t)"
proof -
  let ?t1 = "t \<lparr> t_GatewayReferenceID := gp_GatewayReferenceID resp \<rparr>"
  from assms obtain w1 w2 w3 t2 t3 w4 where
    ug: "UpdateGatewayReference (t_ID t) (gp_GatewayReferenceID resp) (t_Version t) w = (Inr (), w1)"
    and md: "(if gp_GatewayMetadata resp = [] then ok ()
           else wrapE ''insert raw metadata'' (InsertGatewayMetadata (t_ID t) (t_GatewayID t) (JObj (gp_GatewayMetadata resp)))) w1 = (Inr (), w2)"
    and ts: "TransitionState ?t1 StatusProcessing ActorSystem (w_clock w2) = Inr t2"
    and au: "audit (t_ID t2) AuditEventTypeStateChange ActorSystem (status_str StatusPending) (status_str (t_Status t2))
             ''gateway_initiate'' w2 = (Inr (), w3)"
    and us: "Txn_UpdateStatus t2 w3 = (Inr t3, w4)" and pb: "Publish (t_ID t3) StatusProcessing w4 = (Inr u, w')"
    unfolding initiate_record_def Let_def by (auto simp: run)
  obtain g where g: "cur_db w1 = (cur_db w) \<lparr> db_transactions := update_row t_ID (t_ID t) g (db_transactions (cur_db w)) \<rparr>"
    "\<And>r. t_ID (g r) = t_ID r" using UpdateGatewayReference_effect [OF ug] by auto
  have "core (cur_db w2) = core (cur_db w1)" using md by (auto simp: run split: if_splits dest!: InsertGatewayMetadata_effect)
  then have 2: "db_transactions (cur_db w2) = db_transactions (cur_db w1)" "db_outbox (cur_db w2) = db_outbox (cur_db w1)"
    "db_leases (cur_db w2) = db_leases (cur_db w1)" by (simp_all add: core_def)
  have 3: "cur_db w3 = cur_db w2" "w_clock w3 = w_clock w2" using audit_effect [OF au] by simp_all
  have t2: "t_ID t2 = t_ID t" "t_Status t2 = StatusProcessing" "t_ProcessingStartedAt t2 = t_ProcessingStartedAt t"
    "t_ProcessingTimeout t2 = t_ProcessingTimeout t"
    using ts by (auto simp: TransitionState_def applyTransitionEffects_def split: if_splits)
  have 4: "cur_db w4 = (cur_db w3) \<lparr> db_transactions := update_row t_ID (t_ID t) (status_cols t2 (w_clock w3)) (db_transactions (cur_db w3)) \<rparr>"
    using Txn_UpdateStatus_effect [OF us] t2(1) by auto
  have 5: "cur_db w' = cur_db w4" using pb by (auto simp: Publish_def run)
  have "update_row t_ID (t_ID t) (status_cols t2 (w_clock w3)) (update_row t_ID (t_ID t) g rs) =
      update_row t_ID (t_ID t) (\<lambda>r. status_cols t2 (w_clock w3) (g r)) rs" for rs
    by (induction rs) (simp_all add: g(2))
  then show ?thesis
    using g 2 3 4 5 t2 by (intro exI [of _ "\<lambda>r. status_cols t2 (w_clock w3) (g r)"]) (auto simp: status_cols_def)
qed

lemma initiate_record_announced:
  assumes "initiate_record t resp w = (Inr u, w')" "announced (cur_db w)"
  shows "announced (cur_db w')"
proof -
  from initiate_record_effect [OF assms(1)] obtain f where
    f: "db_transactions (cur_db w') = update_row t_ID (t_ID t) f (db_transactions (cur_db w))"
      "db_outbox (cur_db w') = db_outbox (cur_db w)" "\<And>r. t_ID (f r) = t_ID r" "\<And>r. t_Status (f r) = StatusProcessing" by blast
  show ?thesis by (rule announced_move [OF assms(2) f(1), of "[]"]) (simp_all add: f)
qed

subsection \<open>Whole operations\<close>

lemma keeps_bindE_post:
  assumes "keeps I m" "\<And>w a w'. I w \<Longrightarrow> m w = (Inr a, w') \<Longrightarrow> Q a" "\<And>a. Q a \<Longrightarrow> keeps I (f a)"
  shows "keeps I (bindE m f)"
proof (unfold keeps_def, intro allI impI)
  fix w assume w: "I w"
  obtain r w1 where m: "m w = (r, w1)" by fastforce
  have w1: "I w1" by (rule keepsD [OF assms(1) w m])
  show "I (snd (bindE m f w))"
  proof (cases r)
    case (Inr a)
    with assms(2) [OF w] m have "Q a" by simp
    with assms(3) w1 m Inr show ?thesis by (simp add: bindE_def keeps_def)
  qed (use m w1 in \<open>simp add: bindE_def\<close>)
qed

lemma keeps_settled_service [hoare]:
  "keeps (settled P) (log_call c)" "keeps (settled P) (breaker_RecordFailure ev gid)" "keeps (settled P) (breaker_RecordSuccess gid)"
  "keeps (settled P) (enterIntent gid i ttl)" "keeps (settled P) (exitIntent gid i)" "keeps (settled P) (GenerateToken ev)"
  by (auto simp: keeps_def log_call_def breaker_RecordFailure_def breaker_RecordSuccess_def enterIntent_def exitIntent_def
      GenerateToken_def changing_def settled_def coh_def Let_def split: prod.splits sum.splits)

lemma keeps_settled_gateway [hoare]:
  "keeps (settled P) (gateway_call c respond)" "keeps (settled P) (callGateway gid ad t)" "keeps (settled P) (checkStatus gid ad t)"
  "keeps (settled P) (captureGateway gid ad t)" "keeps (settled P) (recordBreaker ev gid ans)" "keeps (settled P) (attemptGateways ev ad t)"
  unfolding gateway_call_def callGateway_def checkStatus_def captureGateway_def recordBreaker_def attemptGateways_def Let_def
  by (intro hoare)+

lemma keeps_TryAcquireDirect:
  assumes "\<And>d x. P (d \<lparr> db_leases := x \<rparr>) = P d"
  shows "keeps (settled P) (TryAcquireDirect k i ttl)"
proof -
  have "settled P w \<Longrightarrow> settled P (w \<lparr> w_db := snd (sql_insert_lease now i ttl k (w_db w)) \<rparr>)" for w now
    by (simp add: settled_def coh_def sql_insert_lease_def assms)
  then have "keeps (settled P) (changing (\<lambda>w. w \<lparr> w_db := snd (sql_insert_lease now i ttl k (w_db w)) \<rparr>))" for now
    by (rule keeps_changing)
  then show ?thesis unfolding TryAcquireDirect_def by (intro hoare)
qed

lemma New_pending:
  "New te u a c m g ci ce ds md ts cm now i k = Inr t \<Longrightarrow> t_Status t = StatusPending"
  by (auto simp: New_def Let_def split: if_splits)

lemma estimate_fees_status [simp]: "t_Status (estimate_fees ev inp t) = t_Status t"
  by (simp add: estimate_fees_def Let_def split: sum.split option.split prod.split)

lemma build_payment_pending:
  "build_payment ev inp w = (Inr (t, raw), w') \<Longrightarrow> t_Status t = StatusPending"
  by (auto simp: build_payment_def Let_def run dest!: New_pending split: if_splits)

lemma keeps_settled_build [hoare]: "keeps (settled P) (build_payment ev inp)"
  unfolding build_payment_def Let_def by (intro hoare)

lemma Lease_Acquire_refused:
  "Lease_Acquire k i ttl w = (Inr (False, x), w') \<Longrightarrow> cur_db w' = cur_db w"
  by (auto simp: Lease_Acquire_def run split: if_splits option.splits)

lemma Lease_Acquire_effect:
  "Lease_Acquire k i ttl w = (Inr (True, x), w') \<Longrightarrow> k \<notin> l_idempotency_key ` set (db_leases (cur_db w)) \<and>
     cur_db w' = (cur_db w) \<lparr> db_leases := db_leases (cur_db w) @ [\<lparr> l_idempotency_key = k, l_payment_intent_id = i,
        l_acquired_at = w_clock w, l_ttl_sec = ttl, l_cached_response = None \<rparr>] \<rparr>"
  by (auto simp: Lease_Acquire_def run sql_insert_lease_def lookup_row_None split: if_splits option.splits)

lemma Txn_GetByID_clean:
  assumes "tx_inv D fs w" "db_transactions (cur_db w) = db_transactions D"
  shows "tx_inv D fs (snd (Txn_GetByID i w))" "core (cur_db (snd (Txn_GetByID i w))) = core (cur_db w)"
proof -
  have "tx_inv D fs (snd (Txn_GetByID i w)) \<and> core (cur_db (snd (Txn_GetByID i w))) = core (cur_db w)"
    using query_cases [of "\<lambda>d. txn_of d i" w] assms
    by (auto simp: Txn_GetByID_def bindE_def reading_def changing_def throw_def ok_def tx_inv_def coh_def coh_view_def
        split: option.splits if_splits)
  then show "tx_inv D fs (snd (Txn_GetByID i w))" "core (cur_db (snd (Txn_GetByID i w))) = core (cur_db w)" by auto
qed

lemma process_tx_inv:
  assumes "process_tx t (open_tx w) = (r, w1)" "coh w"
  shows "tx_inv (w_db w) (w_tx w) w1"
proof -
  let ?I = "tx_inv (w_db w) (w_tx w)"
  obtain x w2 where la: "Lease_Acquire (t_ID t) (t_ID t) (t_EstimatedTimeoutSeconds t) (open_tx w) = (x, w2)" by fastforce
  have w2: "?I w2" by (rule keepsD [OF keeps_repo(8) tx_inv_open [OF assms(2)] la])
  show ?thesis
  proof (cases x)
    case (Inl e)
    with assms(1) la w2 show ?thesis by (simp add: process_tx_def bindE_def)
  next
    case (Inr y)
    obtain acq z where y: "y = (acq, z)" by (cases y)
    show ?thesis
    proof (cases acq)
      case True
      have "keeps ?I (bindE (begin_processing t) (\<lambda>t. ok (True, t)))" by (intro hoare)
      from keeps_snd [OF this w2] assms(1) la Inr y True show ?thesis by (simp add: process_tx_def bindE_def [of "Lease_Acquire _ _ _"])
    next
      case False
      have "cur_db w2 = w_db w" using Lease_Acquire_refused la Inr y False by fastforce
      then have g: "?I (snd (Txn_GetByID (t_ID t) w2))" by (intro Txn_GetByID_clean [OF w2]) simp
      have "?I (snd (bindE (Txn_GetByID (t_ID t)) (\<lambda>current. ok (False, current)) w2))"
        by (rule bindE_snd [where m = "Txn_GetByID (t_ID t)" and w = w2 and I = ?I, OF g]) (intro hoare)
      with assms(1) la Inr y False show ?thesis by (simp add: process_tx_def bindE_def [of "Lease_Acquire _ _ _"])
    qed
  qed
qed

lemma process_tx_cases:
  assumes "process_tx t w = (Inr (acq, t1), w')"
  obtains (refused) "\<not> acq" "core (cur_db w') = core (cur_db w)"
  | (acquired) w1 where "acq" "begin_processing t w1 = (Inr t1, w')"
      "t_ID t \<notin> l_idempotency_key ` set (db_leases (cur_db w))"
      "\<exists>l. l_idempotency_key l = t_ID t \<and> cur_db w1 = (cur_db w) \<lparr> db_leases := db_leases (cur_db w) @ [l] \<rparr>"
proof -
  from assms obtain b x w1 where la: "Lease_Acquire (t_ID t) (t_ID t) (t_EstimatedTimeoutSeconds t) w = (Inr (b, x), w1)"
    and rest: "(if \<not> b then bindE (Txn_GetByID (t_ID t)) (\<lambda>current. ok (False, current))
     else bindE (begin_processing t) (\<lambda>t. ok (True, t))) w1 = (Inr (acq, t1), w')"
    unfolding process_tx_def by (auto simp: run)
  show thesis
  proof (cases b)
    case True
    have l: "\<exists>l. l_idempotency_key l = t_ID t \<and> cur_db w1 = (cur_db w) \<lparr> db_leases := db_leases (cur_db w) @ [l] \<rparr>"
      by (rule exI [of _ "\<lparr> l_idempotency_key = t_ID t, l_payment_intent_id = t_ID t, l_acquired_at = w_clock w,
        l_ttl_sec = t_EstimatedTimeoutSeconds t, l_cached_response = None \<rparr>"])
        (use Lease_Acquire_effect la True in simp)
    show thesis
      by (rule acquired [OF _ _ _ l]) (use rest la True Lease_Acquire_effect in \<open>auto simp: run\<close>)
  next
    case False
    with rest have g: "\<not> acq" "Txn_GetByID (t_ID t) w1 = (Inr t1, w')" by (auto simp: run)
    have "core (cur_db w') = core (cur_db w1)"
      using g(2) by (auto simp: Txn_GetByID_def run split: option.splits)
    with g(1) Lease_Acquire_refused la False show thesis by (intro refused) auto
  qed
qed

lemma process_tx_announced:
  assumes "process_tx t w = (Inr x, w')" "announced (cur_db w)"
  shows "announced (cur_db w')"
proof -
  obtain acq t1 where x: "x = (acq, t1)" by (cases x)
  from assms(1) [unfolded x] show ?thesis
  proof (cases rule: process_tx_cases)
    case refused
    with assms(2) announced_core show ?thesis by blast
  next
    case (acquired w1)
    then have "announced (cur_db w1)" using assms(2) by auto
    with acquired(2) begin_processing_announced show ?thesis by blast
  qed
qed

lemma keeps_process_tx: "keeps (settled announced) (WithinTx (process_tx t))"
proof (unfold keeps_def, intro allI impI)
  fix w assume w: "settled announced w"
  obtain r w1 where e: "WithinTx (process_tx t) w = (r, w1)" by fastforce
  have "settled announced w1"
  proof (rule WithinTx_post_at [OF _ w e])
    show "tx_inv (w_db w) (w_tx w) w1" if "process_tx t (open_tx w) = (r, w1)" for r w1
      using process_tx_inv [OF that] w by (simp add: settled_def)
    show "announced (cur_db w2)" if "process_tx t (open_tx w) = (Inr a, w2)" for a w2
      using process_tx_announced [OF that] w by (simp add: settled_def)
  qed
  with e show "settled announced (snd (WithinTx (process_tx t) w))" by simp
qed

lemma keeps_finalize:
  assumes "oc_terminal oc \<or> t_Status t = StatusProcessing"
  shows "keeps (settled announced) (finalize ev t resp oc)"
proof -
  have s: "t_Status (note_response t resp) = t_Status t"
    by (auto simp: note_response_def Let_def split: option.splits)
  have tx: "keeps (settled announced) (WithinTx (finalize_tx ev t' oc c))" if "t_Status t' = t_Status t" for t' c
    by (rule keeps_WithinTx [OF keeps_finalize_tx])
       (use assms that in \<open>auto simp: settled_def dest!: finalize_tx_announced\<close>)
  show ?thesis
    unfolding finalize_def resolveCancelIfRequested_def Let_def
    by (intro hoare tx ann.ResolveCancelRefund_keeps) (simp add: s)
qed

lemmas announced_leases = keeps_TryAcquireDirect [where P = announced, OF announced_free(3)]

lemma keeps_begin: "keeps (settled announced) (WithinTx (begin_processing t))"
  by (rule keeps_WithinTx [OF keeps_tx_bodies(3)]) (auto simp: settled_def dest!: begin_processing_announced)

lemma keeps_initiate_leased: "keeps (settled announced) (initiate_leased ev t)"
proof -
  have "keeps (settled announced) (WithinTx (initiate_record t1 resp))" for t1 resp
    by (rule keeps_WithinTx [OF keeps_tx_bodies(5)]) (auto simp: settled_def dest!: initiate_record_announced)
  then show ?thesis unfolding initiate_leased_def Let_def by (intro hoare)
qed

lemma keeps_ProcessGatewayInitiate: "keeps (settled announced) (ProcessGatewayInitiate ev i)"
  unfolding ProcessGatewayInitiate_def by (intro hoare announced_leases keeps_initiate_leased)

lemma keeps_syncInitiate: "keeps (settled announced) (syncInitiate ev t)"
  unfolding syncInitiate_def by (intro hoare keeps_ProcessGatewayInitiate)

lemma keeps_Create: "keeps (settled announced) (Create ev inp)"
proof -
  have tx: "keeps (settled announced) (WithinTx (create_tx ev t))" if "t_Status t = StatusPending" for t
    by (rule keeps_WithinTx [OF keeps_tx_bodies(4)]) (use that in \<open>auto simp: settled_def dest!: create_tx_announced\<close>)
  have ex: "keeps (settled announced) (Execute c h (create_op ev t raw))" if "t_Status t = StatusPending" for c h t raw
    by (rule keeps_Execute [OF keeps_create_op])
       (use that in \<open>auto simp: create_op_def run dest!: create_tx_announced\<close>)
  have res: "keeps (settled announced) (created_result ev t raw b)" "keeps (settled announced) (replayed_result ev j)"
    "keeps (settled announced) (create_verdict ev t raw x)" for t raw b j x
    unfolding created_result_def replayed_result_def create_verdict_def
    by (auto intro!: hoare keeps_syncInitiate split: prod.split Verdict.split option.split)
  show ?thesis
    unfolding Create_def
    by (rule keeps_bindE_post [where Q = "\<lambda>(t, raw). t_Status t = StatusPending"])
       (auto intro!: hoare tx ex res dest: build_payment_pending)
qed

lemma keeps_under_lease:
  assumes "\<And>ad t. keeps (settled announced) (call ad t)"
  shows "keeps (settled announced) (under_lease ev t call resolve)"
  unfolding under_lease_def by (intro hoare assms keeps_begin announced_leases keeps_finalize) simp

lemma keeps_payment_ops:
  "keeps (settled announced) (Authorize ev i)" "keeps (settled announced) (Capture ev i)"
  "keeps (settled announced) (Settle ev i)" "keeps (settled announced) (RecoverExpiredLease ev i)"
proof -
  have settle: "keeps (settled announced) (WithinTx (settle_tx ev t))" for t
    by (rule keeps_WithinTx [OF keeps_tx_bodies(6)]) (auto simp: settled_def dest!: settle_tx_announced)
  show "keeps (settled announced) (Authorize ev i)" "keeps (settled announced) (Capture ev i)"
    "keeps (settled announced) (Settle ev i)"
    unfolding Authorize_def Capture_def Settle_def by (intro hoare keeps_under_lease settle)+
  show "keeps (settled announced) (RecoverExpiredLease ev i)"
    unfolding RecoverExpiredLease_def Let_def by (intro hoare keeps_finalize) simp
qed

lemma keeps_ProcessPayment: "keeps (settled announced) (ProcessPayment ev i)"
proof -
  have post: "\<not> acq \<or> t_Status t1 = StatusProcessing"
    if "wrapE s (WithinTx (process_tx t)) w = (Inr (acq, t1), w')" for s t w acq t1 w'
  proof -
    from that obtain w1 where "process_tx t (open_tx w) = (Inr (acq, t1), w1)" by (auto simp: run)
    then show ?thesis by (cases rule: process_tx_cases) (auto dest: begin_processing_effect(2))
  qed
  have body: "keeps (settled announced) (bindE (wrapE s (WithinTx (process_tx t))) (\<lambda>(acquired, t1).
         if \<not> acquired then ok t1
         else bindE (enterIntent (t_GatewayID t1) (t_ID t1) ttl) (\<lambda>_.
              bindE (attemptGateways ev ad t1) (\<lambda>ans. finalize ev t1 (resp_of ans) (resolveOutcome ans)))))" for s t ttl ad
    by (rule keeps_bindE_post [where Q = "\<lambda>(acq, t1). \<not> acq \<or> t_Status t1 = StatusProcessing"])
       (auto intro!: hoare keeps_process_tx keeps_finalize dest: post)
  show ?thesis
    unfolding ProcessPayment_def
    by (rule keeps_bindE, rule keeps_wrapE, rule keeps_settled_GetByID, rule keeps_if, rule keeps_ok,
        rule keeps_case_option, rule keeps_throw, rule body)
qed

subsection \<open>Histories\<close>

datatype payment_op =
    OpCreate CreateInput
  | OpGatewayInitiate uuid
  | OpProcessPayment uuid
  | OpAuthorize uuid
  | OpCapture uuid
  | OpSettle uuid
  | OpRecover uuid
  | OpRefund refund_op

primrec run_payment_op :: "env \<Rightarrow> payment_op \<Rightarrow> world \<Rightarrow> world" where
  "run_payment_op ev (OpCreate inp) w = snd (Create ev inp w)"
| "run_payment_op ev (OpGatewayInitiate i) w = snd (ProcessGatewayInitiate ev i w)"
| "run_payment_op ev (OpProcessPayment i) w = snd (ProcessPayment ev i w)"
| "run_payment_op ev (OpAuthorize i) w = snd (Authorize ev i w)"
| "run_payment_op ev (OpCapture i) w = snd (Capture ev i w)"
| "run_payment_op ev (OpSettle i) w = snd (Settle ev i w)"
| "run_payment_op ev (OpRecover i) w = snd (RecoverExpiredLease ev i w)"
| "run_payment_op ev (OpRefund op) w = run_refund_op ev op w"

primrec run_payment_ops :: "env \<Rightarrow> (payment_op \<times> int \<times> nat option) list \<Rightarrow> world \<Rightarrow> world" where
  "run_payment_ops ev [] w = w"
| "run_payment_ops ev (x # xs) w = (case x of (op, now, budget) \<Rightarrow>
     run_payment_ops ev xs (run_payment_op ev op (w \<lparr> w_clock := now, w_budget := budget \<rparr>)))"

lemma run_payment_op_announced: "settled announced w \<Longrightarrow> settled announced (run_payment_op ev op w)"
  using keeps_snd [OF keeps_Create, of w ev] keeps_snd [OF keeps_ProcessGatewayInitiate, of w ev]
    keeps_snd [OF keeps_ProcessPayment, of w ev] keeps_snd [OF keeps_payment_ops(1), of w ev]
    keeps_snd [OF keeps_payment_ops(2), of w ev] keeps_snd [OF keeps_payment_ops(3), of w ev]
    keeps_snd [OF keeps_payment_ops(4), of w ev] ann.run_refund_op_keeps [of w ev]
  by (cases op) simp_all

text \<open>A system with a gateway that captures what it is asked to charge.\<close>

definition answering :: "GatewayPaymentStatus \<Rightarrow> GatewayPaymentResponse" where
  "answering st = \<lparr> gp_GatewayReferenceID = ''ref'', gp_Status = st, gp_RespAmount = 100, gp_RespCurrency = ''USD'', gp_ErrorCode = '''',
     gp_ErrorMessage = '''', gp_MethodResponse = NoMethodResponse, gp_GatewayMetadata = [] \<rparr>"

definition capturing_env :: env where
  "capturing_env = sample_env \<lparr> ev_registry := (\<lambda>_. Some (sample_adapter \<lparr>
     InitiatePayment := (\<lambda>_ _. Inr (answering GatewayPaymentStatusSucceeded)) \<rparr>)) \<rparr>"

definition manual_input :: CreateInput where
  "manual_input = \<lparr> ci_TenantID = 7, ci_UserID = 8, ci_GatewayID = ''stripe'', ci_Amount = 100, ci_Currency = ''USD'',
     ci_PaymentMethod = ''card'', ci_CaptureMode = CaptureModeManual, ci_CustomerID = 9, ci_CustomerEmail = '''', ci_Description = '''',
     ci_Metadata = [], ci_CallbackURL = '''', ci_RedirectURL = '''', ci_IdempotencyKey = ''k'' \<rparr>"

lemmas payment_eval = Create_def build_payment_def New_def estimate_fees_def GenerateToken_def create_tx_def created_events_def
  created_result_def txn_event_def Txn_Insert_def txn_insert_ok_def ProcessPayment_def process_tx_def Lease_Acquire_def
  sql_insert_lease_def begin_processing_def enterIntent_def exitIntent_def attemptGateways_def callGateway_def gateway_call_def
  log_call_def recordBreaker_def isGatewayHealthFailure_def breaker_RecordSuccess_def as_answer_def resolveOutcome_def resp_of_def
  finalize_def finalize_tx_def finalize_move_def finalize_messages_def note_response_def write_terminal_def write_callback_def
  buildTerminalEvent_def dispatchTerminalNotification_def dispatchTenantWebhook_def WriteCachedResponse_def
  resolveCancelIfRequested_def ended_def lease_ok_row_def quot64_def

definition sample_history :: "(payment_op \<times> int \<times> nat option) list" where
  "sample_history = [(OpCreate manual_input, 1000, None), (OpProcessPayment 100, 1001, None), (OpProcessPayment 100, 1002, None)]"

lemma usd_upper: "ToUpper ''USD'' = ''USD''"
  by code_simp

lemma fresh_success: "cb_RecordSuccess g fresh_store = (Inr (), put_rec g (cbRecordSuccessLua None) fresh_store)"
  by (simp add: cb_RecordSuccess_def fresh_store_def)

lemmas history_eval = usd_upper fresh_success validCaptureModes_def validPaymentMethods_def db_eval sample_defs payment_eval capturing_env_def answering_def manual_input_def sample_history_def

lemma sample_history_captured:
  "map (\<lambda>t. (t_ID t, t_Status t)) (db_transactions (w_db (run_payment_ops capturing_env sample_history sample_world)))
     = [(100, StatusCaptured)]"
  by (simp add: history_eval)

end
