(* ===== verification/Payment_Charges.thy ===== *)
theory Payment_Charges
  imports Payment_Rules
begin

section \<open>One charge per lease\<close>

text \<open>
  A gateway is asked to charge a payment (to initiate or to capture it) only by the operation that
  inserted the lease row of the payment, and that operation asks once. So as long as no lease row is
  deleted, every payment is charged at most once, in whatever order the operations run and wherever
  they are cut off.
\<close>

fun charges :: "uuid \<Rightarrow> gw_call \<Rightarrow> bool" where
  "charges i (CallInitiate g req) \<longleftrightarrow> gpr_TransactionID req = i"
| "charges i (CallCapture g req) \<longleftrightarrow> gcr_TransactionID req = i"
| "charges i (CallStatus g req) \<longleftrightarrow> False"
| "charges i (CallRefund g req) \<longleftrightarrow> False"

definition charge_count :: "uuid \<Rightarrow> gw_call list \<Rightarrow> nat" where
  "charge_count i calls = length (filter (charges i) calls)"

text \<open>The calls that initiate, and those that capture, a payment.\<close>

fun initiates :: "uuid \<Rightarrow> gw_call \<Rightarrow> bool" where
  "initiates i (CallInitiate g req) \<longleftrightarrow> gpr_TransactionID req = i"
| "initiates i _ \<longleftrightarrow> False"

fun captures :: "uuid \<Rightarrow> gw_call \<Rightarrow> bool" where
  "captures i (CallCapture g req) \<longleftrightarrow> gcr_TransactionID req = i"
| "captures i _ \<longleftrightarrow> False"

lemma charge_count_split:
  "charge_count i cs = length (filter (initiates i) cs) + length (filter (captures i) cs)"
proof (induction cs)
  case (Cons c cs)
  then show ?case by (cases c) (simp_all add: charge_count_def)
qed (simp add: charge_count_def)

definition lease_keys :: "db \<Rightarrow> uuid set" where
  "lease_keys d = l_idempotency_key ` set (db_leases d)"

definition lease_cover :: "(uuid \<Rightarrow> nat) \<Rightarrow> db \<Rightarrow> bool" where
  "lease_cover c d \<longleftrightarrow> (\<forall>i. c i \<le> 1 \<and> (i \<notin> lease_keys d \<longrightarrow> c i = 0))"

definition single_charge :: "world \<Rightarrow> bool" where
  "single_charge w \<longleftrightarrow> settled (lease_cover (\<lambda>i. charge_count i (w_calls w))) w"

subsection \<open>Lease rows stay\<close>

lemma lease_keys_free [simp]:
  "lease_keys (d \<lparr> db_transactions := a \<rparr>) = lease_keys d" "lease_keys (d \<lparr> db_refunds := b \<rparr>) = lease_keys d"
  "lease_keys (d \<lparr> db_idem := c \<rparr>) = lease_keys d" "lease_keys (d \<lparr> db_outbox := e \<rparr>) = lease_keys d"
  "lease_keys (d \<lparr> db_gateway_metadata := m \<rparr>) = lease_keys d" "lease_keys (d \<lparr> db_notifications := n \<rparr>) = lease_keys d"
  "lease_keys (d \<lparr> db_tw_deliveries := q \<rparr>) = lease_keys d"
  by (simp_all add: lease_keys_def)

lemma lease_keys_core: "core d' = core d \<Longrightarrow> lease_keys d' = lease_keys d"
  by (simp add: lease_keys_def core_def)

interpretation cov: refund_closed "lease_cover c" for c
  by unfold_locales (auto simp: lease_cover_def dest: lease_keys_core)

lemma keeps_leases_prims [hoare]:
  "keeps (\<lambda>w. lease_keys (cur_db w) = K) answer" "keeps (\<lambda>w. lease_keys (cur_db w) = K) stmt"
  "keeps (\<lambda>w. lease_keys (cur_db w) = K) txFromContext" "keeps (\<lambda>w. lease_keys (cur_db w) = K) (sql_error s)"
  "keeps (\<lambda>w. lease_keys (cur_db w) = K) (lock_txn_row i)" "keeps (\<lambda>w. lease_keys (cur_db w) = K) (NewUUID ev)"
  "keeps (\<lambda>w. lease_keys (cur_db w) = K) Now" "keeps (\<lambda>w. lease_keys (cur_db w) = K) (changing (\<lambda>w. w \<lparr> w_refcache := f2 w \<rparr>))"
  "keeps (\<lambda>w. lease_keys (cur_db w) = K) (changing (\<lambda>w. w \<lparr> w_bus := f3 w \<rparr>))"
  "keeps (\<lambda>w. lease_keys (cur_db w) = K) (changing (\<lambda>w. w \<lparr> w_audit := f4 w \<rparr>))"
  by (auto simp: keeps_def answer_def stmt_def txFromContext_def sql_error_def lock_txn_row_def NewUUID_def changing_def
      Now_def reading_def cur_db_def split: list.splits)

lemma keeps_leases_put [hoare]:
  "(\<And>d. lease_keys (f d) = lease_keys d) \<Longrightarrow> keeps (\<lambda>w. lease_keys (cur_db w) = K) (changing (put_db f))"
  by (simp add: keeps_def changing_def)

lemma keeps_leases_exec [hoare]:
  "keeps (\<lambda>w. lease_keys (cur_db w) = K) (query g)"
  "(\<And>d. lease_keys (h d) = lease_keys d) \<Longrightarrow> keeps (\<lambda>w. lease_keys (cur_db w) = K) (exec h)"
  unfolding query_def exec_def by (intro hoare; simp)+

lemma keeps_leases_deferring [hoare]:
  "keeps (\<lambda>w. lease_keys (cur_db w) = K) m \<Longrightarrow> keeps (\<lambda>w. lease_keys (cur_db w) = K) (deferring (invalidateCache i) m)"
  by (auto simp: keeps_def deferring_def split: prod.splits)

lemma lease_keys_updates [simp]:
  "lease_keys (case sql_update_status now t d of Inr (_, d') \<Rightarrow> d' | Inl _ \<Rightarrow> d) = lease_keys d"
  "lease_keys (case sql_update_reference now i g v d of Inr (_, d') \<Rightarrow> d' | Inl _ \<Rightarrow> d) = lease_keys d"
  "lease_keys (d \<lparr> db_leases := update_row l_idempotency_key k (\<lambda>l. l \<lparr> l_cached_response := x \<rparr>) (db_leases d) \<rparr>) = lease_keys d"
proof -
  show "lease_keys (d \<lparr> db_leases := update_row l_idempotency_key k (\<lambda>l. l \<lparr> l_cached_response := x \<rparr>) (db_leases d) \<rparr>) = lease_keys d"
    unfolding lease_keys_def set_map [symmetric] by (simp del: set_map)
qed (simp_all add: sql_update_status_def sql_update_reference_def split: option.splits)

lemma keeps_leases_repo [hoare]:
  "keeps (\<lambda>w. lease_keys (cur_db w) = K) (Txn_Insert t)" "keeps (\<lambda>w. lease_keys (cur_db w) = K) (Txn_UpdateStatus t)"
  "keeps (\<lambda>w. lease_keys (cur_db w) = K) (UpdateGatewayReference i g v)" "keeps (\<lambda>w. lease_keys (cur_db w) = K) (WriteCachedResponse i j)"
  "keeps (\<lambda>w. lease_keys (cur_db w) = K) (InsertGatewayMetadata i g j)" "keeps (\<lambda>w. lease_keys (cur_db w) = K) (Outbox_Write ev e)"
  "keeps (\<lambda>w. lease_keys (cur_db w) = K) (Notification_Dispatch ev n)"
  "keeps (\<lambda>w. lease_keys (cur_db w) = K) (TenantWebhook_Dispatch ev u i s j)"
  "keeps (\<lambda>w. lease_keys (cur_db w) = K) (audit i et ac pv nx rs)" "keeps (\<lambda>w. lease_keys (cur_db w) = K) (Publish i st)"
  unfolding Txn_Insert_def Txn_UpdateStatus_def UpdateGatewayReference_def WriteCachedResponse_def InsertGatewayMetadata_def
    Outbox_Write_def Notification_Dispatch_def Notification_Insert_def TenantWebhook_Dispatch_def WriteDelivery_def audit_def
    WriteEntry_def Publish_def run_update_def Let_def
  by (intro hoare; simp)+

lemma keeps_leases_bodies [hoare]:
  "keeps (\<lambda>w. lease_keys (cur_db w) = K) (begin_processing t)" "keeps (\<lambda>w. lease_keys (cur_db w) = K) (create_tx ev t)"
  "keeps (\<lambda>w. lease_keys (cur_db w) = K) (create_op ev t raw)" "keeps (\<lambda>w. lease_keys (cur_db w) = K) (initiate_record t resp)"
  "keeps (\<lambda>w. lease_keys (cur_db w) = K) (settle_tx ev t)" "keeps (\<lambda>w. lease_keys (cur_db w) = K) (finalize_tx ev t oc c)"
  unfolding begin_processing_def create_tx_def create_op_def initiate_record_def settle_tx_def finalize_tx_def finalize_move_def
    finalize_messages_def write_terminal_def write_callback_def dispatchTerminalNotification_def dispatchTenantWebhook_def
    notify_def Let_def
  by (intro hoare)+

lemma keeps_cover_WithinTx:
  assumes "\<And>D fs. keeps (tx_inv D fs) fn" "\<And>K. keeps (\<lambda>w. lease_keys (cur_db w) = K) fn"
  shows "keeps (settled (lease_cover c)) (WithinTx fn)"
proof (rule keeps_WithinTx [OF assms(1)])
  fix w a w2 assume w: "settled (lease_cover c) w" and f: "fn (open_tx w) = (Inr a, w2)"
  have "lease_keys (cur_db w2) = lease_keys (w_db w)" by (rule keepsD [OF assms(2) _ f]) simp
  with w show "lease_cover c (cur_db w2)" by (simp add: settled_def lease_cover_def)
qed

lemma keeps_cover_create: "keeps (settled (lease_cover c)) (Execute k h (create_op ev t raw))"
proof (rule keeps_Execute [OF keeps_create_op])
  fix w a w2 assume "lease_cover c (cur_db w)" and f: "create_op ev t raw w = (Inr a, w2)"
  moreover have "lease_keys (cur_db w2) = lease_keys (cur_db w)" by (rule keepsD [OF keeps_leases_bodies(3) _ f]) simp
  ultimately show "lease_cover c (cur_db w2)" by (simp add: lease_cover_def)
qed (simp add: lease_cover_def)

text \<open>Code that moves under lease rows that stay, and calls a gateway only to refund or to ask.\<close>

definition charge_blind :: "(gw_call list \<Rightarrow> bool) \<Rightarrow> bool" where
  "charge_blind C \<longleftrightarrow> (\<forall>cs g r. C (cs @ [CallRefund g r]) = C cs) \<and> (\<forall>cs g r. C (cs @ [CallStatus g r]) = C cs)"

definition no_charge :: "(world, 'a) comp \<Rightarrow> bool" where
  "no_charge m \<longleftrightarrow> (\<forall>c. keeps (settled (lease_cover c)) m) \<and> (\<forall>C. charge_blind C \<longrightarrow> keeps (\<lambda>w. C (w_calls w)) m)"

lemma no_charge_single:
  assumes "no_charge m"
  shows "keeps single_charge m"
proof (unfold keeps_def single_charge_def, intro allI impI)
  fix w assume w: "settled (lease_cover (\<lambda>i. charge_count i (w_calls w))) w"
  let ?c = "\<lambda>i. charge_count i (w_calls w)" and ?C = "\<lambda>cs. (\<lambda>i. charge_count i cs) = (\<lambda>i. charge_count i (w_calls w))"
  have "charge_blind ?C" by (simp add: charge_blind_def charge_count_def)
  moreover have "\<forall>C. charge_blind C \<longrightarrow> keeps (\<lambda>w. C (w_calls w)) m" using assms by (simp add: no_charge_def)
  ultimately have "keeps (\<lambda>v. ?C (w_calls v)) m" by blast
  then have "?C (w_calls (snd (m w)))" by (simp add: keeps_def)
  moreover have "settled (lease_cover ?c) (snd (m w))" using assms w by (simp add: no_charge_def keeps_def)
  ultimately show "settled (lease_cover (\<lambda>i. charge_count i (w_calls (snd (m w))))) (snd (m w))" by simp
qed

lemma keeps_calls_log [hoare]:
  "charge_blind C \<Longrightarrow> keeps (\<lambda>w. C (w_calls w)) (log_call (CallRefund g r))"
  "charge_blind C \<Longrightarrow> keeps (\<lambda>w. C (w_calls w)) (log_call (CallStatus g q))"
  by (simp_all add: keeps_def log_call_def changing_def charge_blind_def)

lemma keeps_calls_service [hoare]:
  "keeps (\<lambda>w. C (w_calls w)) (breaker_RecordFailure ev gid)" "keeps (\<lambda>w. C (w_calls w)) (breaker_RecordSuccess gid)"
  "keeps (\<lambda>w. C (w_calls w)) (GenerateToken ev)"
  by (auto simp: keeps_def breaker_RecordFailure_def breaker_RecordSuccess_def GenerateToken_def Let_def
      split: prod.splits sum.splits)

lemma keeps_calls_bodies [hoare]:
  "keeps (\<lambda>w. C (w_calls w)) (begin_processing t)" "keeps (\<lambda>w. C (w_calls w)) (create_tx ev t)"
  "keeps (\<lambda>w. C (w_calls w)) (initiate_record t resp)" "keeps (\<lambda>w. C (w_calls w)) (settle_tx ev t)"
  "keeps (\<lambda>w. C (w_calls w)) (finalize_tx ev t oc c)" "keeps (\<lambda>w. C (w_calls w)) (process_tx t)"
  "keeps (\<lambda>w. C (w_calls w)) (initiate_tx ev inp t)" "keeps (\<lambda>w. C (w_calls w)) (finish_tx ev rf t ro)"
  "keeps (\<lambda>w. C (w_calls w)) (recordBreaker ev gid ans)" "keeps (\<lambda>w. C (w_calls w)) (build_payment ev ci)"
  "keeps (\<lambda>w. C (w_calls w)) (enterIntent gid i ttl)" "keeps (\<lambda>w. C (w_calls w)) (exitIntent gid i)"
  unfolding begin_processing_def create_tx_def initiate_record_def settle_tx_def finalize_tx_def finalize_move_def
    finalize_messages_def write_terminal_def write_callback_def dispatchTerminalNotification_def dispatchTenantWebhook_def
    notify_def process_tx_def initiate_tx_def insertRefund_def finish_tx_def transitionParentOnRefundResult_def refund_announce_def
    refund_dispatchTerminalNotification_def refund_dispatchTenantWebhook_def recordBreaker_def build_payment_def
    enterIntent_def exitIntent_def Let_def
  by (intro hoare)+

lemma keeps_calls_Execute [hoare]:
  "keeps (\<lambda>w. C (w_calls w)) op \<Longrightarrow> keeps (\<lambda>w. C (w_calls w)) (Execute k h op)"
  unfolding Execute_def by (intro hoare)

lemma keeps_calls_InitiateRefund [hoare]: "keeps (\<lambda>w. C (w_calls w)) (InitiateRefund ev inp)"
proof -
  have "keeps (\<lambda>w. C (w_calls w)) (initiate_result x)" for x
    unfolding initiate_result_def by (auto intro!: hoare split: prod.split Verdict.split option.split)
  then show ?thesis unfolding InitiateRefund_def initiate_loaded_def initiate_op_def by (intro hoare)
qed

lemma keeps_calls_refunds [hoare]:
  assumes "charge_blind C"
  shows "keeps (\<lambda>w. C (w_calls w)) (ProcessRefund ev i)" "keeps (\<lambda>w. C (w_calls w)) (RetryStaleRefund ev i)"
    "keeps (\<lambda>w. C (w_calls w)) (ResolveCancelRefund ev i a)"
proof -
  have run: "keeps (\<lambda>w. C (w_calls w)) (runRefund ev rf)" for rf
    unfolding runRefund_def refund_callGateway_def settle_refund_def Let_def by (intro hoare assms)
  show p: "keeps (\<lambda>w. C (w_calls w)) (ProcessRefund ev i)" "keeps (\<lambda>w. C (w_calls w)) (RetryStaleRefund ev i)" for i
    unfolding ProcessRefund_def RetryStaleRefund_def by (intro hoare run)+
  show "keeps (\<lambda>w. C (w_calls w)) (ResolveCancelRefund ev i a)"
    unfolding ResolveCancelRefund_def by (intro hoare p)
qed

lemma no_charge_refunds: "no_charge (InitiateRefund ev inp)" "no_charge (ProcessRefund ev i)" "no_charge (RetryStaleRefund ev i)"
  "no_charge (ResolveCancelRefund ev i a)"
  by (simp_all add: no_charge_def hoare cov.InitiateRefund_keeps cov.ProcessRefund_keeps cov.ResolveCancelRefund_keeps)

text \<open>Between the insert of the lease row and the call, the payment has not been charged.\<close>

definition slot :: "uuid \<Rightarrow> world \<Rightarrow> bool" where
  "slot i w \<longleftrightarrow> single_charge w \<and> charge_count i (w_calls w) = 0 \<and> i \<in> lease_keys (w_db w)"

lemma gateway_call_slot:
  assumes "slot i w" "\<And>j. charges j c \<Longrightarrow> j = i"
  shows "single_charge (snd (gateway_call c respond w))"
proof -
  have "charge_count j (w_calls w) \<le> 1" "j \<notin> lease_keys (w_db w) \<Longrightarrow> charge_count j (w_calls w) = 0" for j
    using assms(1) by (auto simp: slot_def single_charge_def settled_def lease_cover_def)
  then have "charge_count j (w_calls w @ [c]) \<le> 1 \<and> (j \<notin> lease_keys (w_db w) \<longrightarrow> charge_count j (w_calls w @ [c]) = 0)" for j
    using assms by (cases "charges j c") (auto simp: slot_def charge_count_def)
  then show ?thesis
    using assms(1) by (simp add: gateway_call_def log_call_def bindE_def reading_def changing_def ok_def slot_def
        single_charge_def settled_def coh_def lease_cover_def)
qed

lemma TryAcquireDirect_slot:
  assumes "single_charge w" "TryAcquireDirect i j ttl w = (r, w')"
  shows "single_charge w'" "r = Inr True \<Longrightarrow> slot i w'"
proof -
  have "single_charge w' \<and> (r = Inr True \<longrightarrow> slot i w')"
    using assms
    by (auto simp: TryAcquireDirect_def bindE_def wrapE_def Now_def reading_def answer_def changing_def ok_def throw_def
        sql_insert_lease_def lookup_row_None single_charge_def settled_def coh_def lease_cover_def lease_keys_def slot_def
        split: if_splits)
  then show "single_charge w'" "r = Inr True \<Longrightarrow> slot i w'" by auto
qed

subsection \<open>The operations\<close>

lemma no_charge_finalize: "no_charge (finalize ev t resp oc)"
proof -
  have tx: "keeps (settled (lease_cover c)) (WithinTx (finalize_tx ev t' oc j))" for c t' j
    by (rule keeps_cover_WithinTx [OF keeps_finalize_tx keeps_leases_bodies(6)])
  have "keeps (settled (lease_cover c)) (finalize ev t resp oc)" for c
    unfolding finalize_def resolveCancelIfRequested_def Let_def by (intro hoare tx cov.ResolveCancelRefund_keeps)
  moreover have "keeps (\<lambda>w. C (w_calls w)) (finalize ev t resp oc)" if "charge_blind C" for C
    unfolding finalize_def resolveCancelIfRequested_def Let_def by (intro hoare that)
  ultimately show ?thesis by (simp add: no_charge_def)
qed

lemmas single_finalize = no_charge_single [OF no_charge_finalize]

lemma single_prims [hoare]:
  "keeps single_charge Now" "keeps single_charge (recordBreaker ev gid ans)" "keeps single_charge (Txn_GetByID i)"
  "keeps single_charge (build_payment ev inp)" "keeps single_charge (breaker_RecordFailure ev gid)"
  "keeps single_charge (enterIntent gid i ttl)"
  by (rule no_charge_single, simp add: no_charge_def hoare)+

lemma single_WithinTx:
  assumes "\<And>D fs. keeps (tx_inv D fs) fn" "\<And>K. keeps (\<lambda>w. lease_keys (cur_db w) = K) fn" "\<And>C. keeps (\<lambda>w. C (w_calls w)) fn"
  shows "keeps single_charge (WithinTx fn)"
  by (rule no_charge_single) (simp add: no_charge_def keeps_cover_WithinTx [OF assms(1,2)] keeps_calls_WithinTx [OF assms(3)])

lemmas single_txs = single_WithinTx [OF keeps_tx_bodies(3) keeps_leases_bodies(1) keeps_calls_bodies(1)]
  single_WithinTx [OF keeps_tx_bodies(4) keeps_leases_bodies(2) keeps_calls_bodies(2)]
  single_WithinTx [OF keeps_tx_bodies(5) keeps_leases_bodies(4) keeps_calls_bodies(3)]
  single_WithinTx [OF keeps_tx_bodies(6) keeps_leases_bodies(5) keeps_calls_bodies(4)]

lemma keeps_calls_create_op [hoare]: "keeps (\<lambda>w. C (w_calls w)) (create_op ev t raw)"
  unfolding create_op_def by (intro hoare)

lemma single_Execute_create: "keeps single_charge (Execute k h (create_op ev t raw))"
  by (rule no_charge_single) (simp add: no_charge_def keeps_cover_create hoare)

text \<open>The holder of a fresh lease calls the gateway once, for its payment.\<close>

lemma initiate_fees_ID: "initiate_fees ev t = Inr (t1, money) \<Longrightarrow> t_ID t1 = t_ID t"
  by (auto simp: initiate_fees_def Let_def split: sum.splits option.splits prod.splits)

lemma initiate_leased_single: "slot (t_ID t) w \<Longrightarrow> single_charge (snd (initiate_leased ev t w))"
proof -
  assume w: "slot (t_ID t) w"
  then have s: "single_charge w" by (simp add: slot_def)
  show ?thesis
  proof (cases "ev_registry ev (t_GatewayID t)")
    case None
    with s show ?thesis by (simp add: initiate_leased_def throw_def)
  next
    case (Some ad)
    show ?thesis
    proof (cases "initiate_fees ev t")
      case (Inl e)
      with s Some show ?thesis by (simp add: initiate_leased_def bindE_def lift_def)
    next
      case (Inr x)
      obtain t1 money where x: "x = (t1, money)" by (cases x)
      let ?req = "initiate_request t1 money"
      let ?call = "gateway_call (CallInitiate (t_GatewayID t1) ?req) (\<lambda>calls. InitiatePayment ad calls ?req)"
      let ?rest = "\<lambda>r. case r of
            Inl e \<Rightarrow> bindE (attempt (breaker_RecordFailure ev (t_GatewayID t1))) (\<lambda>_.
                     throw (Wrapf ''gateway-initiate: gateway call failed'' e))
          | Inr resp \<Rightarrow> WithinTx (initiate_record t1 resp)"
      have c: "single_charge (snd (?call w))"
        using initiate_fees_ID Inr x by (intro gateway_call_slot [OF w]) (auto simp: initiate_request_def)
      have "single_charge (snd (bindE ?call ?rest w))"
        by (rule bindE_snd [where m = ?call and w = w and I = single_charge, OF c]) (intro hoare single_txs)
      then show ?thesis using Some Inr x by (simp add: initiate_leased_def bindE_def [of "lift _"] lift_def Let_def)
    qed
  qed
qed

lemma TryAcquireDirect_then:
  assumes "single_charge w" "\<And>w1. slot i w1 \<Longrightarrow> single_charge (snd (f True w1))" "keeps single_charge (f False)"
  shows "single_charge (snd (bindE (wrapE s (TryAcquireDirect i j ttl)) f w))"
proof -
  obtain r w1 where a: "TryAcquireDirect i j ttl w = (r, w1)" by fastforce
  note a' = TryAcquireDirect_slot [OF assms(1) a]
  show ?thesis
  proof (cases r)
    case (Inl e)
    with a a'(1) show ?thesis by (simp add: bindE_def wrapE_def)
  next
    case (Inr b)
    then show ?thesis
      using a a' assms(2,3) by (cases b) (simp_all add: bindE_def wrapE_def keeps_def)
  qed
qed

lemma single_ProcessGatewayInitiate: "keeps single_charge (ProcessGatewayInitiate ev i)"
proof -
  have body: "keeps single_charge (bindE (wrapE s (TryAcquireDirect (t_ID t) (t_ID t) ttl)) (\<lambda>acquired.
      if \<not> acquired then ok () else initiate_leased ev t))" for s t ttl
    by (unfold keeps_def, intro allI impI, rule TryAcquireDirect_then)
       (simp_all add: initiate_leased_single hoare)
  show ?thesis
    unfolding ProcessGatewayInitiate_def
    by (rule keeps_bindE, rule keeps_wrapE, rule single_prims(3), rule keeps_if, rule keeps_ok, rule keeps_if, rule keeps_ok,
        rule body)
qed

lemma single_Create: "keeps single_charge (Create ev inp)"
proof -
  have sync: "keeps single_charge (syncInitiate ev t)" for t
    unfolding syncInitiate_def by (intro hoare single_ProcessGatewayInitiate)
  have res: "keeps single_charge (created_result ev t raw b)" "keeps single_charge (replayed_result ev j)"
    "keeps single_charge (create_verdict ev t raw x)" for t raw b j x
    unfolding created_result_def replayed_result_def create_verdict_def
    by (auto intro!: hoare sync split: prod.split Verdict.split option.split)
  show ?thesis
    unfolding Create_def by (auto intro!: hoare single_txs single_Execute_create res)
qed

lemma called_single:
  assumes "slot i w" "\<And>v. slot i v \<Longrightarrow> single_charge (snd (call v))"
  shows "single_charge (snd (bindE call (\<lambda>ans. bindE (recordBreaker ev gid ans) (\<lambda>_.
     if \<not> oc_terminal (resolve ans) then ok t else finalize ev t (resp_of ans) (resolve ans))) w))"
  by (rule bindE_snd [where m = call and w = w and I = single_charge, OF assms(2) [OF assms(1)]])
     (intro hoare single_finalize)

lemma callGateway_single: "slot (t_ID t) w \<Longrightarrow> single_charge (snd (callGateway gid ad t w))"
  unfolding callGateway_def Let_def
  by (rule bindE_snd [where I = single_charge and w = w]) (auto intro!: gateway_call_slot hoare simp: initiate_request_def)

lemma captureGateway_single: "slot (t_ID t) w \<Longrightarrow> single_charge (snd (captureGateway gid ad t w))"
  unfolding captureGateway_def Let_def case_prod_beta
  by (rule bindE_snd [where I = single_charge and w = w]) (auto intro!: gateway_call_slot hoare)

lemma single_under_lease:
  assumes "\<And>ad t w. slot (t_ID t) w \<Longrightarrow> single_charge (snd (call ad t w))"
  shows "keeps single_charge (under_lease ev t call resolve)"
proof -
  have body: "keeps single_charge (bindE (wrapE s (TryAcquireDirect (t_ID t) (t_ID t) ttl)) (\<lambda>acquired.
    if \<not> acquired then wrapE s2 (Txn_GetByID (t_ID t))
    else case ev_registry ev (t_GatewayID t) of
        None \<Rightarrow> throw e
      | Some adapter \<Rightarrow> bindE (call adapter t) (\<lambda>ans.
          bindE (recordBreaker ev (t_GatewayID t) ans) (\<lambda>_.
          if \<not> oc_terminal (resolve ans) then ok t else finalize ev t (resp_of ans) (resolve ans)))))" for s t ttl s2 e
    by (unfold keeps_def, intro allI impI, rule TryAcquireDirect_then)
       (auto intro!: hoare called_single assms simp: throw_def slot_def split: option.split)
  show ?thesis
    unfolding under_lease_def by (rule keeps_bindE, rule keeps_mapE, rule single_txs(1), rule body)
qed

lemma single_payment_ops:
  "keeps single_charge (Authorize ev i)" "keeps single_charge (Capture ev i)" "keeps single_charge (Settle ev i)"
  unfolding Authorize_def Capture_def Settle_def
  by (auto intro!: hoare single_under_lease callGateway_single captureGateway_single single_txs)

lemma single_RecoverExpiredLease: "keeps single_charge (RecoverExpiredLease ev i)"
proof -
  have st: "keeps single_charge (checkStatus gid ad t)" for gid ad t
    unfolding checkStatus_def gateway_call_def Let_def
    by (rule no_charge_single) (simp add: no_charge_def, intro conjI allI impI; intro hoare; assumption?)
  show ?thesis unfolding RecoverExpiredLease_def Let_def by (intro hoare single_finalize st)
qed

lemma process_tx_leases:
  assumes "process_tx t w = (Inr (acq, t1), w')"
  shows "\<not> acq \<Longrightarrow> lease_keys (cur_db w') = lease_keys (cur_db w)"
    "acq \<Longrightarrow> t_ID t1 = t_ID t \<and> t_ID t \<notin> lease_keys (cur_db w) \<and>
       lease_keys (cur_db w') = insert (t_ID t) (lease_keys (cur_db w))"
proof -
  from assms have "(\<not> acq \<longrightarrow> lease_keys (cur_db w') = lease_keys (cur_db w)) \<and> (acq \<longrightarrow> t_ID t1 = t_ID t \<and>
      t_ID t \<notin> lease_keys (cur_db w) \<and> lease_keys (cur_db w') = insert (t_ID t) (lease_keys (cur_db w)))"
  proof (cases rule: process_tx_cases)
    case refused
    with lease_keys_core [OF refused(2)] show ?thesis by simp
  next
    case (acquired w1)
    have "lease_keys (cur_db w') = lease_keys (cur_db w1)"
      by (rule keepsD [OF keeps_leases_bodies(1) _ acquired(2)]) simp
    moreover have "lease_keys (cur_db w1) = insert (t_ID t) (lease_keys (cur_db w))"
      using acquired(4) by (auto simp: lease_keys_def)
    ultimately show ?thesis
      using acquired(1,3) begin_processing_effect(3) [OF acquired(2)] by (simp add: lease_keys_def)
  qed
  then show "\<not> acq \<Longrightarrow> lease_keys (cur_db w') = lease_keys (cur_db w)"
    "acq \<Longrightarrow> t_ID t1 = t_ID t \<and> t_ID t \<notin> lease_keys (cur_db w) \<and>
       lease_keys (cur_db w') = insert (t_ID t) (lease_keys (cur_db w))" by auto
qed

lemma process_tx_slot:
  assumes "single_charge w" "WithinTx (process_tx t) w = (r, w')"
  shows "single_charge w'" "r = Inr (True, t1) \<Longrightarrow> slot (t_ID t1) w'"
proof -
  let ?c = "\<lambda>i. charge_count i (w_calls w)"
  have calls: "w_calls w' = w_calls w"
    by (rule keepsD [OF keeps_calls_WithinTx [OF keeps_calls_bodies(6), of "\<lambda>cs. cs = w_calls w"] _ assms(2)]) simp
  have w: "settled (lease_cover ?c) w" using assms(1) by (simp add: single_charge_def)
  have "settled (lease_cover ?c) w'"
  proof (rule WithinTx_post_at [OF _ w assms(2)])
    show "tx_inv (w_db w) (w_tx w) w1" if "process_tx t (open_tx w) = (r, w1)" for r w1
      using process_tx_inv [OF that] w by (simp add: settled_def)
    show "lease_cover ?c (cur_db w2)" if "process_tx t (open_tx w) = (Inr a, w2)" for a w2
    proof (cases a)
      case (Pair acq t1)
      show ?thesis
        using w process_tx_leases [OF that [unfolded Pair]] by (cases acq) (auto simp: settled_def lease_cover_def)
    qed
  qed
  then show s: "single_charge w'" by (simp add: single_charge_def calls)
  assume "r = Inr (True, t1)"
  with assms(2) obtain w1 where w1: "process_tx t (open_tx w) = (Inr (True, t1), w1)" "w' = close_tx w1"
    by (auto simp: run)
  have "t_ID t1 \<notin> lease_keys (w_db w)" "t_ID t1 \<in> lease_keys (w_db w')"
    using process_tx_leases(2) [OF w1(1)] w1(2) by auto
  then show "slot (t_ID t1) w'" using s w calls by (simp add: slot_def settled_def lease_cover_def)
qed

lemma single_ProcessPayment: "keeps single_charge (ProcessPayment ev i)"
proof -
  have slot_enter: "slot j v \<Longrightarrow> slot j (snd (enterIntent g j' ttl v))" for j v g j' ttl
    by (simp add: slot_def enterIntent_def changing_def single_charge_def settled_def coh_def)
  have drive: "single_charge (snd (bindE (enterIntent g (t_ID t1) ttl) (\<lambda>_. bindE (attemptGateways ev ad t1)
      (\<lambda>ans. finalize ev t1 (resp_of ans) (resolveOutcome ans))) w))" if "slot (t_ID t1) w" for g t1 ttl ad w
  proof -
    obtain w1 where w1: "enterIntent g (t_ID t1) ttl w = (Inr (), w1)" by (simp add: enterIntent_def changing_def)
    with slot_enter [OF that, of g "t_ID t1" ttl] have "slot (t_ID t1) w1" by simp
    from callGateway_single [OF this] have "single_charge (snd (attemptGateways ev ad t1 w1))"
      unfolding attemptGateways_def by (rule bindE_snd) (intro hoare)
    then have "single_charge (snd (bindE (attemptGateways ev ad t1)
        (\<lambda>ans. finalize ev t1 (resp_of ans) (resolveOutcome ans)) w1))"
      by (rule bindE_snd) (intro single_finalize)
    with w1 show ?thesis by (simp add: bindE_def [of "enterIntent _ _ _"])
  qed
  have body: "keeps single_charge (bindE (wrapE s (WithinTx (process_tx t))) (\<lambda>(acquired, t1).
         if \<not> acquired then ok t1
         else bindE (enterIntent (t_GatewayID t1) (t_ID t1) ttl) (\<lambda>_.
              bindE (attemptGateways ev ad t1) (\<lambda>ans. finalize ev t1 (resp_of ans) (resolveOutcome ans)))))" for s t ttl ad
  proof (unfold keeps_def, intro allI impI)
    fix w assume w: "single_charge w"
    obtain r w1 where p: "WithinTx (process_tx t) w = (r, w1)" by fastforce
    note p' = process_tx_slot [OF w p]
    show "single_charge (snd (bindE (wrapE s (WithinTx (process_tx t))) (\<lambda>(acquired, t1).
         if \<not> acquired then ok t1
         else bindE (enterIntent (t_GatewayID t1) (t_ID t1) ttl) (\<lambda>_.
              bindE (attemptGateways ev ad t1) (\<lambda>ans. finalize ev t1 (resp_of ans) (resolveOutcome ans)))) w))"
      using p' drive by (cases r) (auto simp: bindE_def [of "wrapE _ _"] wrapE_def p ok_def)
  qed
  show ?thesis
    unfolding ProcessPayment_def
    by (rule keeps_bindE, rule keeps_wrapE, rule single_prims(3), rule keeps_if, rule keeps_ok,
        rule keeps_case_option, rule keeps_throw, rule body)
qed

lemma run_payment_op_single: "single_charge w \<Longrightarrow> single_charge (run_payment_op ev op w)"
proof (cases op)
  case (OpRefund rop)
  assume "single_charge w"
  with OpRefund show ?thesis
    by (cases rop) (simp_all add: keeps_snd [OF no_charge_single [OF no_charge_refunds(1)]]
        keeps_snd [OF no_charge_single [OF no_charge_refunds(2)]] keeps_snd [OF no_charge_single [OF no_charge_refunds(3)]]
        keeps_snd [OF no_charge_single [OF no_charge_refunds(4)]])
qed (simp_all add: keeps_snd [OF single_Create] keeps_snd [OF single_ProcessGatewayInitiate] keeps_snd [OF single_ProcessPayment]
    keeps_snd [OF single_payment_ops(1)] keeps_snd [OF single_payment_ops(2)] keeps_snd [OF single_payment_ops(3)]
    keeps_snd [OF single_RecoverExpiredLease])

end
