(* ===== verification/Cancellation.thy ===== *)
theory Cancellation
  imports Payment_Rules
begin

section \<open>Cancel requests (internal/app/cancel)\<close>

text \<open>
  A cancel request only sets a mark on the payment; the operation that learns the gateway's answer
  acts on it. The request runs inside the transaction of its idempotency key.
\<close>

datatype CancelOutcome = OutcomeRequested | OutcomeAlreadyTerminal | CancelOutcomeOther string

fun cancel_outcome_str :: "CancelOutcome \<Rightarrow> string" where
  "cancel_outcome_str OutcomeRequested = ''CANCEL_REQUESTED''"
| "cancel_outcome_str OutcomeAlreadyTerminal = ''ALREADY_TERMINAL''"
| "cancel_outcome_str (CancelOutcomeOther s) = s"

abbreviation CancelErrNotFound :: go_error where
  "CancelErrNotFound \<equiv> Sentinel ''cancel: transaction not found''"

record CancelInput =
  cn_TransactionID :: uuid
  cn_TenantID :: uuid
  cn_By :: string
  cn_Via :: string
  cn_IdempotencyKey :: string

definition mark_cancelled :: "CancelInput \<Rightarrow> Txn \<Rightarrow> (world, unit) comp" where
  "mark_cancelled inp txn = bindE (wrapE ''cancel: set intent''
       (Txn_SetCancelIntent (cn_TransactionID inp) (cn_By inp) (cn_Via inp))) (\<lambda>was_set.
     if was_set then audit (cn_TransactionID inp) AuditEventTypeOpsAction (cn_By inp) (status_str (t_Status txn))
         (status_str (t_Status txn)) ''cancel_intent_set''
     else ok ())"

definition cancel_loaded :: "CancelInput \<Rightarrow> Txn \<Rightarrow> (world, CancelOutcome \<times> Status) comp" where
  "cancel_loaded inp txn =
    (if cn_TenantID inp \<noteq> uuid_Nil \<and> t_TenantID txn \<noteq> cn_TenantID inp then throw CancelErrNotFound
     else if IsTerminal (t_Status txn) then ok (OutcomeAlreadyTerminal, t_Status txn)
     else if t_CancelIntent txn then ok (OutcomeRequested, t_Status txn)
     else bindE (mark_cancelled inp txn) (\<lambda>_. ok (OutcomeRequested, t_Status txn)))"

definition cancel_load_error :: "go_error \<Rightarrow> go_error" where
  "cancel_load_error e = (if contains ''not found'' (err_msg e) then CancelErrNotFound
     else Wrapf ''cancel: load transaction'' e)"

definition cancel :: "CancelInput \<Rightarrow> (world, CancelOutcome \<times> Status) comp" where
  "cancel inp = bindE (mapE cancel_load_error (Txn_GetByID (cn_TransactionID inp))) (cancel_loaded inp)"

definition cancel_op :: "CancelInput \<Rightarrow> (world, json \<times> CancelOutcome \<times> Status) comp" where
  "cancel_op inp = bindE (cancel inp) (\<lambda>(o1, st).
     ok (JObj [(''outcome'', JStr (cancel_outcome_str o1)), (''status'', JStr (status_str st))], o1, st))"

text \<open>A replay turns the stored strings back into an outcome and a status.\<close>

definition parse_outcome :: "string \<Rightarrow> CancelOutcome" where
  "parse_outcome s = (if s = ''CANCEL_REQUESTED'' then OutcomeRequested
     else if s = ''ALREADY_TERMINAL'' then OutcomeAlreadyTerminal else CancelOutcomeOther s)"

definition parse_status :: "string \<Rightarrow> Status" where
  "parse_status s = (case find (\<lambda>st. status_str st = s) AllStatuses of Some st \<Rightarrow> st | None \<Rightarrow> StatusOther s)"

fun stored_cancel :: "json option \<Rightarrow> (CancelOutcome \<times> Status) option" where
  "stored_cancel (Some (JObj [(_, JStr a), (_, JStr b)])) = Some (parse_outcome a, parse_status b)"
| "stored_cancel _ = None"

type_synonym CancelResult = "Verdict \<times> (CancelOutcome \<times> Status) option"

definition cancel_result :: "Verdict \<times> json option \<times> (CancelOutcome \<times> Status) option \<Rightarrow> (world, CancelResult) comp" where
  "cancel_result x = (case x of (verdict, response, captured) \<Rightarrow> case verdict of
      Created \<Rightarrow> ok (verdict, captured)
    | Replayed \<Rightarrow> (case stored_cancel response of
          None \<Rightarrow> throw (Errorf ''cancel: decode idempotent response'')
        | Some stored \<Rightarrow> ok (verdict, Some stored))
    | _ \<Rightarrow> ok (verdict, None))"

definition Cancel :: "env \<Rightarrow> CancelInput \<Rightarrow> (world, CancelResult) comp" where
  "Cancel ev inp =
    (if \<not> ev_idem ev then bindE (cancel inp) (\<lambda>r. ok (Created, Some r))
     else if cn_IdempotencyKey inp = '''' then throw ErrKeyRequired
     else bindE (Execute (Composite ev (ev_uuid_str ev (cn_TransactionID inp)) ''cancel_payment'' (cn_IdempotencyKey inp))
            (RequestHash ev [ev_uuid_str ev (cn_TransactionID inp), cn_By inp, cn_Via inp]) (cancel_op inp)) cancel_result)"

subsection \<open>Transactions that read before they write\<close>

text \<open>Inside a transaction a payment may be read through the cache as long as the transaction has not
  changed the payments.\<close>

definition clean :: "db \<Rightarrow> ((db \<Rightarrow> db) \<times> bool) list \<Rightarrow> world \<Rightarrow> bool" where
  "clean D fs w \<longleftrightarrow> tx_inv D fs w \<and> db_transactions (cur_db w) = db_transactions D"

definition leads :: "('w \<Rightarrow> bool) \<Rightarrow> ('w \<Rightarrow> bool) \<Rightarrow> ('w, 'a) comp \<Rightarrow> bool" where
  "leads J I m \<longleftrightarrow> (\<forall>w. J w \<longrightarrow> I (snd (m w)))"

lemma leads_bindE:
  assumes "keeps J m" "\<And>a. leads J I (f a)" "\<And>w. J w \<Longrightarrow> I w"
  shows "leads J I (bindE m f)"
  using assms unfolding leads_def keeps_def bindE_def by (auto split: prod.splits sum.splits)

lemma leads_keeps: "keeps I m \<Longrightarrow> (\<And>w. J w \<Longrightarrow> I w) \<Longrightarrow> leads J I m"
  by (simp add: leads_def keeps_def)

lemma leads_if: "(b \<Longrightarrow> leads J I m) \<Longrightarrow> (\<not> b \<Longrightarrow> leads J I m') \<Longrightarrow> leads J I (if b then m else m')"
  by simp

lemma leads_case_option:
  "leads J I m \<Longrightarrow> (\<And>a. leads J I (f a)) \<Longrightarrow> leads J I (case x of None \<Rightarrow> m | Some a \<Rightarrow> f a)"
  by (cases x) simp_all

lemma leads_case_sum:
  "(\<And>e. leads J I (g e)) \<Longrightarrow> (\<And>a. leads J I (f a)) \<Longrightarrow> leads J I (case x of Inl e \<Rightarrow> g e | Inr a \<Rightarrow> f a)"
  by (cases x) simp_all

lemma leads_case_prod: "(\<And>a b. leads J I (f a b)) \<Longrightarrow> leads J I (case x of (a, b) \<Rightarrow> f a b)"
  by (cases x) simp

lemma clean_tx_inv: "clean D fs w \<Longrightarrow> tx_inv D fs w"
  by (simp add: clean_def)

lemma clean_open: "coh w \<Longrightarrow> clean (w_db w) (w_tx w) (open_tx w)"
  by (simp add: clean_def tx_inv_open)

lemma keeps_txns [hoare]:
  "keeps (\<lambda>w. db_transactions (cur_db w) = T) stmt" "keeps (\<lambda>w. db_transactions (cur_db w) = T) txFromContext"
  "keeps (\<lambda>w. db_transactions (cur_db w) = T) (sql_error s)" "keeps (\<lambda>w. db_transactions (cur_db w) = T) Now"
  "keeps (\<lambda>w. db_transactions (cur_db w) = T) (query f)"
  "(\<And>d. db_transactions (g d) = db_transactions d) \<Longrightarrow> keeps (\<lambda>w. db_transactions (cur_db w) = T) (changing (put_db g))"
  by (auto simp: keeps_def stmt_def answer_def txFromContext_def sql_error_def Now_def reading_def query_def bindE_def changing_def
      cur_db_def put_db_def split: list.splits)

lemma keeps_txns_repo [hoare]:
  "keeps (\<lambda>w. db_transactions (cur_db w) = T) (Reserve c h)" "keeps (\<lambda>w. db_transactions (cur_db w) = T) (Lookup c)"
  "keeps (\<lambda>w. db_transactions (cur_db w) = T) (RecordEvent s g)"
  "keeps (\<lambda>w. db_transactions (cur_db w) = T) (InsertGatewayMetadata i g j)"
  unfolding Reserve_def Lookup_def RecordEvent_def InsertGatewayMetadata_def by (intro hoare; simp)+

lemma keeps_cleanI: "keeps (tx_inv D fs) m \<Longrightarrow> keeps (\<lambda>w. db_transactions (cur_db w) = db_transactions D) m \<Longrightarrow> keeps (clean D fs) m"
  by (simp add: keeps_def clean_def)

lemma keeps_clean_repo [hoare]:
  "keeps (clean D fs) (Reserve c h)" "keeps (clean D fs) (Lookup c)" "keeps (clean D fs) (RecordEvent s g)"
  "keeps (clean D fs) (InsertGatewayMetadata i g j)" "keeps (clean D fs) (query f)" "keeps (clean D fs) Now"
  by (intro keeps_cleanI hoare)+

lemma keeps_clean_GetByID [hoare]: "keeps (clean D fs) (Txn_GetByID i)"
  using Txn_GetByID_clean by (auto simp: keeps_def clean_def core_def)

lemma keeps_clean_GetByGatewayReference [hoare]: "keeps (clean D fs) (GetByGatewayReference g r)"
  unfolding GetByGatewayReference_def Let_def by (intro hoare)

text \<open>An operation under an idempotency key that starts by reading.\<close>

lemma Execute_leads:
  assumes "\<And>D fs. leads (clean D fs) (tx_inv D fs) op" "\<And>d x. P (d \<lparr> db_idem := x \<rparr>) = P d"
    and "\<And>w a w2. settled P w \<Longrightarrow> op (claimed_world c h w) = (Inr a, w2) \<Longrightarrow> P (cur_db w2)"
  shows "keeps (settled P) (Execute c h op)"
proof (unfold keeps_def, intro allI impI)
  fix w assume w: "settled P w"
  let ?body = "bindE (Reserve c h) (\<lambda>claimed.
     if \<not> claimed then
       bindE (Lookup c) (\<lambda>found. ok (case found of
           None \<Rightarrow> (InProgress, None, None)
         | Some row \<Rightarrow>
             if i_request_hash row \<noteq> h then (KeyReused, None, None)
             else if i_status row \<noteq> statusCompleted then (InProgress, None, None)
             else (Replayed, Some (i_response row), None)))
     else bindE op (\<lambda>(response, captured).
       bindE (Complete c response) (\<lambda>_. ok (Created, Some response, Some captured))))"
  have tail: "leads (clean D fs) (tx_inv D fs) (bindE op (\<lambda>(response, captured).
       bindE (Complete c response) (\<lambda>_. ok (Created, Some response, Some captured))))" for D fs
  proof (unfold leads_def, intro allI impI)
    fix v assume "clean D fs v"
    then have "tx_inv D fs (snd (op v))" using assms(1) by (simp add: leads_def)
    then show "tx_inv D fs (snd (bindE op (\<lambda>(response, captured).
       bindE (Complete c response) (\<lambda>_. ok (Created, Some response, Some captured))) v))"
      by (rule bindE_snd) (intro hoare)
  qed
  have body: "leads (clean D fs) (tx_inv D fs) ?body" for D fs
    by (intro leads_bindE leads_if tail hoare leads_keeps) (simp_all add: clean_tx_inv)
  have inv: "tx_inv (w_db w) (w_tx w) w1" if "?body (open_tx w) = (r, w1)" for r w1
    using body [of "w_db w" "w_tx w"] clean_open [of w] w that by (auto simp: leads_def settled_def)
  show "settled P (snd (Execute c h op w))"
  proof (cases "Execute c h op w")
    case (Pair r w1)
    have "settled P w1"
    proof (cases r)
      case (Inl e)
      have "WithinTx ?body w = (Inl e, w1)" using Pair Inl by (simp add: Execute_def)
      from WithinTx_Inl_at [OF _ _ this] inv w show ?thesis by (auto simp: settled_def)
    next
      case (Inr x)
      obtain v y z where x: "x = (v, y, z)" by (cases x)
      show ?thesis
      proof (cases "v = Created")
        case True
        with Inr x Pair have e: "Execute c h op w = (Inr (Created, y, z), w1)" by simp
        from Execute_Created [OF e] obtain w2 j a where op: "op (claimed_world c h w) = (Inr (j, a), w2)"
          and db: "w_db w1 = (cur_db w2) \<lparr> db_idem := update_row i_composite_key_hash c
            (\<lambda>r. r \<lparr> i_response := j, i_status := statusCompleted \<rparr>) (db_idem (cur_db w2)) \<rparr>"
            "w_tx w1 = tl (w_tx w2)" "w_cache w1 = w_cache w2" .
        have "clean (w_db w) (w_tx w) (claimed_world c h w)"
          using claimed_world_inv [of w c h] w by (simp add: clean_def settled_def)
        with assms(1) op have "tx_inv (w_db w) (w_tx w) w2" by (metis leads_def snd_conv)
        with db w assms(2) assms(3) [OF w op] show ?thesis
          by (auto simp: settled_def tx_inv_def coh_def coh_view_def)
      next
        case False
        with Execute_not_Created [of c h op w v y z w1] Inr x Pair w show ?thesis by (auto simp: settled_def coh_def)
      qed
    qed
    with Pair show ?thesis by simp
  qed
qed

subsection \<open>What a cancel request leaves alone\<close>

definition cancel_cols :: "string \<Rightarrow> int \<Rightarrow> string \<Rightarrow> Txn \<Rightarrow> Txn" where
  "cancel_cols a now v r = r \<lparr> t_CancelIntent := True, t_CancelRequestedBy := a, t_CancelRequestedAt := Some now,
     t_CancelRequestedVia := v, t_UpdatedAt := now \<rparr>"

lemma cancel_cols_keeps [simp]:
  "t_ID (cancel_cols a now v r) = t_ID r" "t_Status (cancel_cols a now v r) = t_Status r"
  "t_Version (cancel_cols a now v r) = t_Version r" "t_CancelIntent (cancel_cols a now v r)"
  "t_Amount (cancel_cols a now v r) = t_Amount r"
  by (simp_all add: cancel_cols_def)

definition mark_row :: "uuid \<Rightarrow> string \<Rightarrow> int \<Rightarrow> string \<Rightarrow> db \<Rightarrow> db" where
  "mark_row i a now v d = d \<lparr> db_transactions := update_row t_ID i (cancel_cols a now v) (db_transactions d) \<rparr>"

lemma SetCancelIntent_cases:
  assumes "Txn_SetCancelIntent i a v w = (r, w')"
  shows "cur_db w' = cur_db w \<or> (\<exists>t. txn_of (cur_db w) i = Some t \<and> \<not> t_CancelIntent t \<and> cur_db w' = mark_row i a (w_clock w) v (cur_db w))"
    "w_tx w = [] \<Longrightarrow> coh w \<Longrightarrow> w_tx w' = [] \<and> coh w'"
proof -
  let ?put = "put_db (mark_row i a (w_clock w) v) (spend w)"
  have put: "put_db (\<lambda>d. d \<lparr> db_transactions := update_row t_ID i (\<lambda>r. r \<lparr> t_CancelIntent := True, t_CancelRequestedBy := a,
       t_CancelRequestedAt := Some (w_clock w), t_CancelRequestedVia := v, t_UpdatedAt := w_clock w \<rparr>) (db_transactions d) \<rparr>) u
       = put_db (mark_row i a (w_clock w) v) u" for u a v
    by (simp add: mark_row_def [abs_def] cancel_cols_def [abs_def])
  have "w' = invalidateCache i w \<or> w' = invalidateCache i (w \<lparr> w_budget := Some 0 \<rparr>) \<or> w' = invalidateCache i (spend w) \<or>
      w' = invalidateCache i (snd ((sql_error [] :: (world, unit) comp) (spend w))) \<or>
      (\<exists>t. txn_of (cur_db w) i = Some t \<and> \<not> t_CancelIntent t \<and> w' = invalidateCache i ?put)"
    using assms query_cases [of "\<lambda>d. txn_of d i" w]
    by (auto simp: Txn_SetCancelIntent_def deferring_def bindE_def Now_def reading_def lock_txn_row_def changing_def ok_def put
        sql_error_def split: option.splits if_splits)
  then show "cur_db w' = cur_db w \<or> (\<exists>t. txn_of (cur_db w) i = Some t \<and> \<not> t_CancelIntent t \<and> cur_db w' = mark_row i a (w_clock w) v (cur_db w))"
    "w_tx w = [] \<Longrightarrow> coh w \<Longrightarrow> w_tx w' = [] \<and> coh w'"
    by (auto simp: invalidateCache_def sql_error_def cur_db_def put_db_def coh_def mark_row_def split: list.splits if_splits)
qed

lemma keeps_mark_cancelled [hoare]: "keeps (tx_inv D fs) (mark_cancelled inp t)"
  unfolding mark_cancelled_def by (intro hoare)

lemma cancel_leads: "leads (clean D fs) (tx_inv D fs) (cancel_op inp)"
proof -
  have "leads (clean D fs) (tx_inv D fs) (cancel inp)"
    unfolding cancel_def cancel_loaded_def
    by (intro leads_bindE leads_if leads_keeps [OF keeps_ok] leads_keeps [OF keeps_throw] leads_keeps [OF keeps_bindE] hoare)
       (simp_all add: clean_tx_inv)
  then show ?thesis
    unfolding cancel_op_def leads_def by (auto intro!: bindE_snd [where I = "tx_inv D fs"] hoare)
qed

text \<open>The payments that a request may mark: those of the tenant that are not over yet.\<close>

definition markable :: "CancelInput \<Rightarrow> Txn \<Rightarrow> bool" where
  "markable inp t \<longleftrightarrow> \<not> IsTerminal (t_Status t) \<and> \<not> t_CancelIntent t \<and> (cn_TenantID inp = uuid_Nil \<or> t_TenantID t = cn_TenantID inp)"

lemma markable_once [simp]: "\<not> markable inp (cancel_cols a now v t)"
  by (simp add: markable_def)

lemma mark_cancelled_cases:
  assumes "mark_cancelled inp t w = (r, w')"
  shows "cur_db w' = cur_db w \<or> cur_db w' = mark_row (cn_TransactionID inp) (cn_By inp) (w_clock w) (cn_Via inp) (cur_db w)"
    "w_tx w = [] \<Longrightarrow> coh w \<Longrightarrow> w_tx w' = [] \<and> coh w'"
proof -
  obtain x w1 where s: "Txn_SetCancelIntent (cn_TransactionID inp) (cn_By inp) (cn_Via inp) w = (x, w1)" by fastforce
  have a: "cur_db w' = cur_db w1 \<and> w_tx w' = w_tx w1 \<and> w_db w' = w_db w1 \<and> w_cache w' = w_cache w1"
    using assms s
    by (cases x) (auto simp: mark_cancelled_def bindE_def wrapE_def ok_def audit_def WriteEntry_def attempt_def answer_def reading_def
        changing_def throw_def split: if_splits)
  note S = SetCancelIntent_cases [OF s]
  show "cur_db w' = cur_db w \<or> cur_db w' = mark_row (cn_TransactionID inp) (cn_By inp) (w_clock w) (cn_Via inp) (cur_db w)"
    using S(1) a by auto
  show "w_tx w' = [] \<and> coh w'" if "w_tx w = []" "coh w" using S(2) that a by (simp add: coh_def)
qed

lemma cancel_cases:
  assumes "cancel inp w = (r, w')" "coh_view w"
  shows "cur_db w' = cur_db w \<or> (\<exists>t. txn_of (cur_db w) (cn_TransactionID inp) = Some t \<and> markable inp t \<and>
      cur_db w' = mark_row (cn_TransactionID inp) (cn_By inp) (w_clock w) (cn_Via inp) (cur_db w))"
    "w_tx w = [] \<Longrightarrow> coh w \<Longrightarrow> w_tx w' = [] \<and> coh w'"
proof -
  let ?i = "cn_TransactionID inp"
  obtain y w1 where g: "Txn_GetByID ?i w = (y, w1)" by fastforce
  have g1: "cur_db w1 = cur_db w" "w_clock w1 = w_clock w" "y = Inr t \<Longrightarrow> txn_of (cur_db w) ?i = Some t" for t
    using g assms(2) query_cases [of "\<lambda>d. txn_of d ?i" w]
    by (auto simp: Txn_GetByID_def bindE_def reading_def changing_def throw_def ok_def coh_view_def split: option.splits)
  have g2: "w_tx w1 = [] \<and> coh w1" if "w_tx w = []" "coh w"
    using Txn_GetByID_settled(1) [OF _ g, of "\<lambda>_. True"] that by (simp add: settled_def)
  have c: "w' = w1 \<or> (\<exists>t u. y = Inr t \<and> markable inp t \<and> mark_cancelled inp t w1 = (u, w'))"
    using assms(1) g
    by (cases y) (auto simp: cancel_def mapE_def bindE_def cancel_loaded_def throw_def ok_def markable_def split: if_splits sum.splits prod.splits)
  show "cur_db w' = cur_db w \<or> (\<exists>t. txn_of (cur_db w) ?i = Some t \<and> markable inp t \<and>
      cur_db w' = mark_row ?i (cn_By inp) (w_clock w) (cn_Via inp) (cur_db w))"
    using c g1 mark_cancelled_cases(1) by (metis (no_types))
  show "w_tx w' = [] \<and> coh w'" if "w_tx w = []" "coh w"
    using c g2 [OF that] mark_cancelled_cases(2) by blast
qed

text \<open>A request keeps every property of the tables that marking a payment keeps.\<close>

lemma keeps_Cancel:
  assumes idem: "\<And>d x. P (d \<lparr> db_idem := x \<rparr>) = P d"
    and mark: "\<And>d t now. P d \<Longrightarrow> txn_of d (cn_TransactionID inp) = Some t \<Longrightarrow> markable inp t \<Longrightarrow>
      P (mark_row (cn_TransactionID inp) (cn_By inp) now (cn_Via inp) d)"
  shows "keeps (settled P) (Cancel ev inp)"
proof -
  have step: "P (cur_db w')" if "cancel inp w = (r, w')" "coh_view w" "P (cur_db w)" for w r w'
    using cancel_cases(1) [OF that(1,2)] mark [OF that(3)] that(3) by auto
  have plain: "keeps (settled P) (cancel inp)"
  proof (unfold keeps_def, intro allI impI)
    fix w assume w: "settled P w"
    obtain r w' where c: "cancel inp w = (r, w')" by fastforce
    have v: "coh_view w" using w by (simp add: settled_def coh_def coh_view_def cur_db_def)
    have "w_tx w' = []" "coh w'" using cancel_cases(2) [OF c v] w by (simp_all add: settled_def)
    with step [OF c v] w c show "settled P (snd (cancel inp w))" by (simp add: settled_def cur_db_def)
  qed
  have ex: "keeps (settled P) (Execute c h (cancel_op inp))" for c h
  proof (rule Execute_leads [OF cancel_leads idem])
    fix w a w2 assume w: "settled P w" and o: "cancel_op inp (claimed_world c h w) = (Inr a, w2)"
    from o obtain x where x: "cancel inp (claimed_world c h w) = (Inr x, w2)" unfolding cancel_op_def by (auto simp: run)
    have "coh_view (claimed_world c h w)"
      using claimed_world_inv [of w c h] w by (auto simp: settled_def tx_inv_def)
    then show "P (cur_db w2)"
      by (rule step [OF x]) (use w in \<open>auto simp: sql_reserve_def settled_def idem\<close>)
  qed
  have res: "keeps (settled P) (cancel_result x)" for x
    unfolding cancel_result_def by (auto intro!: hoare split: prod.split Verdict.split option.split)
  show ?thesis unfolding Cancel_def by (intro hoare plain ex res)
qed

locale cancel_closed = table_closed P for P :: "db \<Rightarrow> bool" +
  assumes cancel_mark: "P d \<Longrightarrow> P (mark_row i a now v d)"
begin

lemma Cancel_keeps: "keeps (settled P) (Cancel ev inp)"
  by (rule keeps_Cancel [OF idem_free]) (rule cancel_mark)

end

interpretation ann: cancel_closed announced
proof
  fix d i a now v assume a: "announced d"
  show "announced (mark_row i a now v d)"
    by (rule announced_move [OF a, of _ i "cancel_cols a now v" "[]"]) (simp_all add: mark_row_def)
qed

text \<open>C37. A cancel request only marks: whatever its outcome and wherever the database stops answering, it
  changes no status, amount or version, and the only payment it touches is the one it names, when
  that belongs to the tenant, is not over and carries no earlier request.\<close>

theorem cancel_only_marks:
  assumes "coh w" "w_tx w = []"
  shows "txn_of (w_db (snd (Cancel ev inp w))) j = txn_of (w_db w) j \<or>
    (\<exists>t now. j = cn_TransactionID inp \<and> txn_of (w_db w) j = Some t \<and> markable inp t \<and>
       txn_of (w_db (snd (Cancel ev inp w))) j = Some (cancel_cols (cn_By inp) now (cn_Via inp) t))"
proof -
  define P where "P d \<longleftrightarrow> txn_of d j = txn_of (w_db w) j \<or>
    (\<exists>t now. j = cn_TransactionID inp \<and> txn_of (w_db w) j = Some t \<and> markable inp t \<and>
       txn_of d j = Some (cancel_cols (cn_By inp) now (cn_Via inp) t))" for d
  have "keeps (settled P) (Cancel ev inp)"
  proof (rule keeps_Cancel)
    fix d t now assume "P d" "txn_of d (cn_TransactionID inp) = Some t" "markable inp t"
    then show "P (mark_row (cn_TransactionID inp) (cn_By inp) now (cn_Via inp) d)"
      by (cases "j = cn_TransactionID inp") (auto simp: P_def mark_row_def eq_commute [of "Some _" "txn_of _ _"])
  qed (simp add: P_def)
  moreover have "settled P w" using assms by (simp add: settled_def P_def)
  ultimately have "P (w_db (snd (Cancel ev inp w)))" by (simp add: keeps_def settled_def)
  then show ?thesis by (simp add: P_def)
qed

theorem cancel_only_marks_witness:
  "txn_of (w_db (snd (Cancel sample_env \<lparr> cn_TransactionID = 1, cn_TenantID = 9, cn_By = ''tenant'', cn_Via = ''api'',
      cn_IdempotencyKey = ''k'' \<rparr> captured_world))) 1 = Some captured_payment"
proof -
  have "coh captured_world" "w_tx captured_world = []" by (simp_all add: coh_def captured_world_def sample_world_def)
  from cancel_only_marks [OF this, where ev = sample_env and j = 1 and inp = "\<lparr> cn_TransactionID = 1, cn_TenantID = 9,
      cn_By = ''tenant'', cn_Via = ''api'', cn_IdempotencyKey = ''k'' \<rparr>"] show ?thesis
    by (auto simp: markable_def captured_world_def captured_payment_def sample_db_def)
qed

end
