(* ===== verification/Inbound_Webhook.thy ===== *)
theory Inbound_Webhook
  imports Cancellation
begin

section \<open>Webhooks from the gateways (internal/app/webhook)\<close>

text \<open>
  A gateway reports a payment's status by calling back. The event is recorded, matched to a payment
  and applied in one database transaction; a request to cancel that waits for the capture is resolved
  inside that same transaction, as the source does it.
\<close>

record WebhookEvent =
  we_EventID :: string
  we_GatewayReferenceID :: string
  we_Status :: string

record WebhookOutcome =
  wo_Duplicate :: bool
  wo_UnknownTxn :: bool
  wo_Resolved :: bool
  wo_Status :: Status
  wo_TransactionID :: uuid

definition no_outcome :: WebhookOutcome where
  "no_outcome = \<lparr> wo_Duplicate = False, wo_UnknownTxn = False, wo_Resolved = False, wo_Status = StatusOther '''',
     wo_TransactionID = uuid_Nil \<rparr>"

definition mapWebhookStatus :: "string \<Rightarrow> Status option" where
  "mapWebhookStatus s =
    (if s \<in> set [''succeeded'', ''success'', ''captured'', ''paid''] then Some StatusCaptured
     else if s = ''authorized'' then Some StatusAuthorized
     else if s \<in> set [''failed'', ''failure''] then Some StatusFailed
     else if s \<in> set [''cancelled'', ''canceled''] then Some StatusCancelled
     else if s = ''refunded'' then Some StatusRefunded
     else None)"

definition webhook_event :: "Txn \<Rightarrow> Status \<Rightarrow> string \<Rightarrow> OutboxEvent option" where
  "webhook_event txn status gatewayID = (case EventTypeForTransactionStatus status of
      None \<Rightarrow> None
    | Some et \<Rightarrow> Some (txn_event txn et (JObj [(''transaction_id'', JUuid (t_ID txn)), (''status'', JStr (status_str status)),
        (''gateway'', JStr gatewayID), (''source'', JStr ''webhook''), (''aggregate_version'', JInt (t_Version txn))])))"

definition webhook_dispatchTerminalNotification :: "env \<Rightarrow> Txn \<Rightarrow> Status \<Rightarrow> (world, unit) comp" where
  "webhook_dispatchTerminalNotification ev txn status =
    (let data = [(''amount'', JInt (t_Amount txn)), (''currency'', JStr (t_Currency txn)), (''transaction_id'', JUuid (t_ID txn))];
         reason = (case t_FailureReason txn of None \<Rightarrow> '''' | Some r \<Rightarrow> fr_GatewayMessage r)
     in if t_CustomerEmail txn = '''' then ok ()
        else if status = StatusCaptured then notify ev txn ''PAYMENT_SUCCESS'' data
        else if status = StatusFailed then notify ev txn ''PAYMENT_FAILURE'' (data @ [(''reason'', JStr reason)])
        else ok ())"

definition webhook_resolveCancelIfRequested :: "env \<Rightarrow> Txn \<Rightarrow> Status \<Rightarrow> (world, unit) comp" where
  "webhook_resolveCancelIfRequested ev txn status =
    (if status \<noteq> StatusCaptured \<or> \<not> t_CancelIntent txn then ok ()
     else bindE (attempt (ResolveCancelRefund ev (t_ID txn) (t_Amount txn))) (\<lambda>_. ok ()))"

text \<open>The failure reason of a FAILED webhook, and what is written once the move is accepted.\<close>

definition webhook_reason :: FailureReason where
  "webhook_reason = \<lparr> fr_Category = ''gateway_webhook_failed'', fr_Code = '''', fr_GatewayCode = '''', fr_GatewayMessage = '''',
     fr_Source = FailureReasonSourceGateway \<rparr>"

definition webhook_messages :: "env \<Rightarrow> string \<Rightarrow> Txn \<Rightarrow> Status \<Rightarrow> (world, unit) comp" where
  "webhook_messages ev gatewayID txn newStatus =
    bindE (audit (t_ID txn) AuditEventTypeWebhookReceived ActorGateway (status_str StatusProcessing) (status_str newStatus)
             ''webhook_received'') (\<lambda>_.
    bindE (case webhook_event txn newStatus gatewayID of None \<Rightarrow> ok () | Some e \<Rightarrow> Outbox_Write ev e) (\<lambda>_.
    bindE (write_callback ev txn newStatus) (\<lambda>_.
    bindE (webhook_dispatchTerminalNotification ev txn newStatus) (\<lambda>_.
    dispatchTenantWebhook ev txn newStatus))))"

definition webhook_apply :: "env \<Rightarrow> string \<Rightarrow> WebhookEvent \<Rightarrow> Txn \<Rightarrow> (world, WebhookOutcome) comp" where
  "webhook_apply ev gatewayID e txn = (case mapWebhookStatus (we_Status e) of
      None \<Rightarrow> ok (no_outcome \<lparr> wo_Status := t_Status txn \<rparr>)
    | Some newStatus \<Rightarrow>
        if newStatus = t_Status txn then ok (no_outcome \<lparr> wo_Status := t_Status txn \<rparr>)
        else bindE Now (\<lambda>now. case TransitionState txn newStatus ActorGateway now of
            Inl _ \<Rightarrow> ok (no_outcome \<lparr> wo_Status := t_Status txn \<rparr>)
          | Inr t0 \<Rightarrow>
              let t1 = (if newStatus = StatusFailed then t0 \<lparr> t_FailureReason := Some webhook_reason \<rparr> else t0)
              in bindE (Txn_UpdateStatus t1) (\<lambda>t2.
                 bindE (webhook_messages ev gatewayID t2 newStatus) (\<lambda>_.
                 bindE (webhook_resolveCancelIfRequested ev t2 newStatus) (\<lambda>_.
                 ok (no_outcome \<lparr> wo_Resolved := True, wo_Status := newStatus, wo_TransactionID := t_ID t2 \<rparr>))))))"

definition webhook_tx :: "env \<Rightarrow> string \<Rightarrow> WebhookEvent \<Rightarrow> json \<Rightarrow> (world, WebhookOutcome) comp" where
  "webhook_tx ev gatewayID e raw = bindE (RecordEvent (we_EventID e) gatewayID) (\<lambda>recorded.
     if \<not> recorded then ok (no_outcome \<lparr> wo_Duplicate := True \<rparr>)
     else bindE (wrapE ''lookup transaction'' (GetByGatewayReference gatewayID (we_GatewayReferenceID e))) (\<lambda>found.
       case found of
         None \<Rightarrow> ok (no_outcome \<lparr> wo_UnknownTxn := True \<rparr>)
       | Some txn \<Rightarrow> bindE (InsertGatewayMetadata (t_ID txn) gatewayID raw) (\<lambda>_. webhook_apply ev gatewayID e txn)))"

definition webhook_Process :: "env \<Rightarrow> string \<Rightarrow> WebhookEvent \<Rightarrow> json \<Rightarrow> (world, WebhookOutcome) comp" where
  "webhook_Process ev gatewayID e raw =
    bindE (wrapE ''webhook: process'' (WithinTx (webhook_tx ev gatewayID e raw))) (\<lambda>outcome.
    bindE (if wo_Duplicate outcome then ok ()
           else if wo_Resolved outcome then Publish (wo_TransactionID outcome) (wo_Status outcome)
           else ok ()) (\<lambda>_. ok outcome))"

subsection \<open>What a webhook writes\<close>

text \<open>The payment that a reference names: through the reference cache when it knows the reference.\<close>

definition lookup_ref :: "string \<Rightarrow> string \<Rightarrow> db \<Rightarrow> (string \<times> string \<Rightarrow> uuid option) \<Rightarrow> Txn option" where
  "lookup_ref g r d rc =
    (let from_db = find (\<lambda>t. t_GatewayID t = g \<and> t_GatewayReferenceID t = r) (db_transactions d)
     in if r = '''' then from_db
        else case rc (g, r) of
            None \<Rightarrow> from_db
          | Some i \<Rightarrow> if i = uuid_Nil then from_db else case txn_of d i of None \<Rightarrow> from_db | Some t \<Rightarrow> Some t)"

lemma GetByID_clean_cases:
  assumes "clean D fs w" "Txn_GetByID i w = (x, w')"
  shows "clean D fs w'" "cur_db w' = cur_db w" "w_refcache w' = w_refcache w" "w_clock w' = w_clock w"
    "x = Inr t \<Longrightarrow> txn_of D i = Some t" "x = Inl e \<Longrightarrow> txn_of D i = None \<or> (\<forall>f. \<exists>e. query f w' = (Inl e, w'))"
proof -
  show "clean D fs w'" by (rule keepsD [OF keeps_clean_GetByID assms])
  have q: "query f w = (Inl e, w) \<Longrightarrow> \<exists>e. query g w = (Inl e, w)" for f :: "db \<Rightarrow> Txn option" and g :: "db \<Rightarrow> 'b" and e
    by (auto simp: query_def bindE_def stmt_def answer_def reading_def split: if_splits)
  have c: "w_cache w i = Some t \<Longrightarrow> txn_of D i = Some t" for t
    using assms(1) by (auto simp: clean_def tx_inv_def coh_def)
  have d: "txn_of (cur_db w) i = txn_of D i" using assms(1) by (simp add: clean_def)
  show "cur_db w' = cur_db w" "w_refcache w' = w_refcache w" "w_clock w' = w_clock w"
    "x = Inr t \<Longrightarrow> txn_of D i = Some t" "x = Inl e \<Longrightarrow> txn_of D i = None \<or> (\<forall>f. \<exists>e. query f w' = (Inl e, w'))"
    using assms(2) query_cases [of "\<lambda>d. txn_of d i" w] q c d
    by (auto simp: Txn_GetByID_def bindE_def reading_def changing_def throw_def ok_def split: option.splits)
qed

lemma GetByGatewayReference_result:
  assumes "clean D fs w" "GetByGatewayReference g r w = (Inr x, w')"
  shows "x = lookup_ref g r D (w_refcache w) \<and> cur_db w' = cur_db w \<and> w_clock w' = w_clock w"
proof -
  let ?find = "\<lambda>d. find (\<lambda>t. t_GatewayID t = g \<and> t_GatewayReferenceID t = r) (db_transactions d)"
  have d: "?find (cur_db w) = ?find D" using assms(1) by (simp add: clean_def)
  show ?thesis
  proof (cases "r = '''' \<or> w_refcache w (g, r) = None \<or> w_refcache w (g, r) = Some uuid_Nil")
    case True
    then have "query ?find w = (Inr x, w')"
      using assms(2) by (cases "r = ''''") (auto simp: GetByGatewayReference_def Let_def bindE_def reading_def)
    then show ?thesis using query_cases [of ?find w] True d by (auto simp: lookup_ref_def Let_def)
  next
    case False
    then obtain i where i: "w_refcache w (g, r) = Some i" "i \<noteq> uuid_Nil" "r \<noteq> ''''" by auto
    obtain y w1 where y: "Txn_GetByID i w = (y, w1)" by fastforce
    note G = GetByID_clean_cases [OF assms(1) y]
    show ?thesis
    proof (cases y)
      case (Inr t)
      with assms(2) i y have "x = Some t" "w' = w1"
        by (auto simp: GetByGatewayReference_def Let_def bindE_def reading_def attempt_def ok_def)
      with G Inr i show ?thesis by (simp add: lookup_ref_def Let_def)
    next
      case (Inl e)
      with assms(2) i y have q: "query ?find w1 = (Inr x, w')"
        by (auto simp: GetByGatewayReference_def Let_def bindE_def reading_def attempt_def ok_def)
      have "\<not> (\<exists>e. query ?find w1 = (Inl e, w1))" using q by simp
      with G(6) [OF Inl] have "txn_of D i = None" by blast
      with q query_cases [of ?find w1] G(2,4) i d show ?thesis by (auto simp: lookup_ref_def Let_def)
    qed
  qed
qed

lemma keeps_tx_webhook [hoare]:
  "keeps (tx_inv D fs) (webhook_dispatchTerminalNotification ev t s)"
  "keeps (\<lambda>w. core (cur_db w) = C) (webhook_dispatchTerminalNotification ev t s)"
  "keeps (tx_inv D fs) (webhook_messages ev g t s)"
proof -
  show n: "keeps (tx_inv D fs) (webhook_dispatchTerminalNotification ev t s)"
    "keeps (\<lambda>w. core (cur_db w) = C) (webhook_dispatchTerminalNotification ev t s)"
    unfolding webhook_dispatchTerminalNotification_def notify_def Let_def by (intro hoare)+
  show "keeps (tx_inv D fs) (webhook_messages ev g t s)"
    unfolding webhook_messages_def by (intro hoare n)
qed

lemma webhook_messages_effect:
  assumes "webhook_messages ev g t s w = (Inr u, w')"
  shows "\<exists>es. core (cur_db w') = core ((cur_db w) \<lparr> db_outbox := db_outbox (cur_db w) @ es \<rparr>) \<and>
     (\<forall>et. EventTypeForTransactionStatus s = Some et \<longrightarrow> (\<exists>e \<in> set es. o_aggregate_id e = t_ID t \<and> o_event_type e = et))"
proof -
  from assms obtain w1 w2 w3 w4 where
    1: "audit (t_ID t) AuditEventTypeWebhookReceived ActorGateway (status_str StatusProcessing) (status_str s) ''webhook_received'' w = (Inr (), w1)"
    and 2: "(case webhook_event t s g of None \<Rightarrow> ok () | Some e \<Rightarrow> Outbox_Write ev e) w1 = (Inr (), w2)"
    and 3: "write_callback ev t s w2 = (Inr (), w3)" and 4: "webhook_dispatchTerminalNotification ev t s w3 = (Inr (), w4)"
    and 5: "dispatchTenantWebhook ev t s w4 = (Inr u, w')"
    unfolding webhook_messages_def by (auto simp: run)
  have c: "core (cur_db w') = core (cur_db w3)"
    using core_tail [OF keeps_tx_webhook(2) 4] core_tail [OF keeps_core_messages(2) 5] by simp
  obtain es1 where e1: "cur_db w2 = (cur_db w) \<lparr> db_outbox := db_outbox (cur_db w) @ es1 \<rparr>"
      "\<forall>et. EventTypeForTransactionStatus s = Some et \<longrightarrow> (\<exists>e \<in> set es1. o_aggregate_id e = t_ID t \<and> o_event_type e = et)"
  proof (cases "EventTypeForTransactionStatus s")
    case None
    with 2 audit_effect [OF 1] show thesis by (intro that [of "[]"]) (simp_all add: webhook_event_def run)
  next
    case (Some et)
    with 2 have "Outbox_Write ev (the (webhook_event t s g)) w1 = (Inr (), w2)" by (simp add: webhook_event_def)
    from Outbox_Write_effect [OF this] obtain rid where
      "cur_db w2 = (cur_db w1) \<lparr> db_outbox := db_outbox (cur_db w1) @ [outbox_row ev (the (webhook_event t s g)) rid (w_clock w1)] \<rparr>" ..
    with audit_effect [OF 1] Some show thesis
      by (intro that [of "[outbox_row ev (the (webhook_event t s g)) rid (w_clock w1)]"])
         (simp_all add: webhook_event_def txn_event_def outbox_row_def)
  qed
  obtain es2 where "cur_db w3 = (cur_db w2) \<lparr> db_outbox := db_outbox (cur_db w2) @ es2 \<rparr>"
    using write_callback_effect [OF 3] by blast
  with c e1 show ?thesis by (intro exI [of _ "es1 @ es2"]) (auto simp: core_def)
qed

text \<open>A capture that finds a request to cancel is resolved inside the transaction.\<close>

definition cancel_waits :: "WebhookEvent \<Rightarrow> Txn \<Rightarrow> bool" where
  "cancel_waits e t \<longleftrightarrow> mapWebhookStatus (we_Status e) = Some StatusCaptured \<and> t_CancelIntent t \<and>
     isValidTransition (t_Status t) StatusCaptured"

lemma webhook_resolve_idle:
  assumes "\<not> cancel_waits e t" "mapWebhookStatus (we_Status e) = Some ns" "isValidTransition (t_Status t) ns"
    and "t_CancelIntent t2 = t_CancelIntent t"
  shows "webhook_resolveCancelIfRequested ev t2 ns = ok ()"
  using assms by (cases "ns = StatusCaptured") (auto simp: webhook_resolveCancelIfRequested_def cancel_waits_def)

lemma webhook_apply_cases:
  assumes "webhook_apply ev g e t w = (Inr oc, w')" "\<not> cancel_waits e t"
  obtains (ignored) "w' = w" "oc = no_outcome \<lparr> wo_Status := t_Status t \<rparr>"
      "\<And>ns. mapWebhookStatus (we_Status e) = Some ns \<Longrightarrow> ns = t_Status t \<or> (\<exists>er. TransitionState t ns ActorGateway (w_clock w) = Inl er)"
  | (applied) ns t1 es where "mapWebhookStatus (we_Status e) = Some ns" "isValidTransition (t_Status t) ns"
      "t_ID t1 = t_ID t" "t_Status t1 = ns" "wo_Resolved oc"
      "core (cur_db w') = core ((cur_db w) \<lparr> db_transactions := update_row t_ID (t_ID t) (status_cols t1 (w_clock w))
         (db_transactions (cur_db w)), db_outbox := db_outbox (cur_db w) @ es \<rparr>)"
      "\<forall>et. EventTypeForTransactionStatus ns = Some et \<longrightarrow> (\<exists>e \<in> set es. o_aggregate_id e = t_ID t \<and> o_event_type e = et)"
      "\<exists>row. txn_of (cur_db w) (t_ID t) = Some row \<and> t_Version row = t_Version t"
proof (cases "mapWebhookStatus (we_Status e)")
  case None
  with assms(1) show thesis by (intro ignored) (simp_all add: webhook_apply_def run)
next
  case (Some ns)
  show thesis
  proof (cases "ns = t_Status t")
    case True
    with Some assms(1) show thesis by (intro ignored) (simp_all add: webhook_apply_def run)
  next
    case ne: False
    show thesis
    proof (cases "TransitionState t ns ActorGateway (w_clock w)")
      case (Inl er)
      with Some ne assms(1) show thesis
        by (intro ignored) (simp_all add: webhook_apply_def run)
    next
      case (Inr t0)
      define t1 where "t1 = (if ns = StatusFailed then t0 \<lparr> t_FailureReason := Some webhook_reason \<rparr> else t0)"
      note ts = TransitionState_Inr [OF Inr]
      have v: "isValidTransition (t_Status t) ns" using Inr by (auto simp: TransitionState_def split: if_splits)
      from Some ne Inr assms(1) obtain t2 w1 w2 where us: "Txn_UpdateStatus t1 w = (Inr t2, w1)"
        and ms: "webhook_messages ev g t2 ns w1 = (Inr (), w2)"
        and rc: "webhook_resolveCancelIfRequested ev t2 ns w2 = (Inr (), w')" and oc: "wo_Resolved oc"
        unfolding webhook_apply_def t1_def Let_def by (auto simp: run)
      obtain row where u: "txn_of (cur_db w) (t_ID t1) = Some row" "t_Version row = t_Version t1"
        "t2 = t1 \<lparr> t_Version := t_Version t1 + 1 \<rparr>"
        "cur_db w1 = (cur_db w) \<lparr> db_transactions := update_row t_ID (t_ID t1) (status_cols t1 (w_clock w)) (db_transactions (cur_db w)) \<rparr>"
        using Txn_UpdateStatus_effect [OF us] by auto
      have t1: "t_ID t1 = t_ID t" "t_Status t1 = ns" "t_CancelIntent t1 = t_CancelIntent t" "t_Version t1 = t_Version t"
        using ts Inr by (auto simp: t1_def TransitionState_def applyTransitionEffects_def split: if_splits)
      have "w' = w2" using rc webhook_resolve_idle [OF assms(2) Some v, of t2 ev] u(3) t1(3) by (simp add: ok_def)
      moreover obtain es where es: "core (cur_db w2) = core ((cur_db w1) \<lparr> db_outbox := db_outbox (cur_db w1) @ es \<rparr>)"
        "\<forall>et. EventTypeForTransactionStatus ns = Some et \<longrightarrow> (\<exists>e \<in> set es. o_aggregate_id e = t_ID t2 \<and> o_event_type e = et)"
        using webhook_messages_effect [OF ms] by blast
      ultimately show thesis
        using u t1 oc by (intro applied [OF Some v, of t1 es]) (simp_all add: core_def)
    qed
  qed
qed

lemma webhook_tx_cases:
  assumes "webhook_tx ev g e raw (open_tx w) = (Inr oc, w')" "coh w"
    and "\<And>t. lookup_ref g (we_GatewayReferenceID e) (w_db w) (w_refcache w) = Some t \<Longrightarrow> \<not> cancel_waits e t"
  obtains (duplicate) "(we_EventID e, g) \<in> set (db_webhook_events (w_db w))" "oc = no_outcome \<lparr> wo_Duplicate := True \<rparr>"
      "core (cur_db w') = core (w_db w)"
  | (recorded) "(we_EventID e, g) \<notin> set (db_webhook_events (w_db w))" "\<not> wo_Resolved oc" "\<not> wo_Duplicate oc"
      "wo_UnknownTxn oc = (lookup_ref g (we_GatewayReferenceID e) (w_db w) (w_refcache w) = None)"
      "core (cur_db w') = core ((w_db w) \<lparr> db_webhook_events := db_webhook_events (w_db w) @ [(we_EventID e, g)] \<rparr>)"
  | (applied) t t1 es where "(we_EventID e, g) \<notin> set (db_webhook_events (w_db w))" "wo_Resolved oc"
      "lookup_ref g (we_GatewayReferenceID e) (w_db w) (w_refcache w) = Some t"
      "mapWebhookStatus (we_Status e) = Some (t_Status t1)" "isValidTransition (t_Status t) (t_Status t1)" "t_ID t1 = t_ID t"
      "core (cur_db w') = core ((w_db w) \<lparr> db_webhook_events := db_webhook_events (w_db w) @ [(we_EventID e, g)],
         db_transactions := update_row t_ID (t_ID t) (status_cols t1 (w_clock w)) (db_transactions (w_db w)),
         db_outbox := db_outbox (w_db w) @ es \<rparr>)"
      "\<forall>et. EventTypeForTransactionStatus (t_Status t1) = Some et \<longrightarrow> (\<exists>e \<in> set es. o_aggregate_id e = t_ID t \<and> o_event_type e = et)"
      "\<exists>row. txn_of (w_db w) (t_ID t) = Some row \<and> t_Version row = t_Version t"
proof -
  let ?k = "(we_EventID e, g)"
  from assms(1) obtain b w1 where rec: "RecordEvent (we_EventID e) g (open_tx w) = (Inr b, w1)"
    and rest: "(if \<not> b then ok (no_outcome \<lparr> wo_Duplicate := True \<rparr>)
     else bindE (wrapE ''lookup transaction'' (GetByGatewayReference g (we_GatewayReferenceID e))) (\<lambda>found.
       case found of None \<Rightarrow> ok (no_outcome \<lparr> wo_UnknownTxn := True \<rparr>)
       | Some txn \<Rightarrow> bindE (InsertGatewayMetadata (t_ID txn) g raw) (\<lambda>_. webhook_apply ev g e txn))) w1 = (Inr oc, w')"
    unfolding webhook_tx_def by (auto simp: run)
  have r: "(b, cur_db w1) = sql_record_event ?k (w_db w)" using RecordEvent_effect [OF rec] by simp
  have c1: "clean (w_db w) (w_tx w) w1" by (rule keepsD [OF keeps_clean_repo(3) clean_open [OF assms(2)] rec])
  have m: "w_refcache w1 = w_refcache w" "w_clock w1 = w_clock w"
    using rec by (auto simp: RecordEvent_def run open_tx_def spend_def)
  show thesis
  proof (cases b)
    case False
    with rest r show thesis by (intro duplicate) (auto simp: run sql_record_event_def split: if_splits)
  next
    case True
    with r have new: "?k \<notin> set (db_webhook_events (w_db w))"
      and d1: "cur_db w1 = (w_db w) \<lparr> db_webhook_events := db_webhook_events (w_db w) @ [?k] \<rparr>"
      by (auto simp: sql_record_event_def split: if_splits)
    from rest True obtain found w2 where gr: "GetByGatewayReference g (we_GatewayReferenceID e) w1 = (Inr found, w2)"
      and rest2: "(case found of None \<Rightarrow> ok (no_outcome \<lparr> wo_UnknownTxn := True \<rparr>)
       | Some txn \<Rightarrow> bindE (InsertGatewayMetadata (t_ID txn) g raw) (\<lambda>_. webhook_apply ev g e txn)) w2 = (Inr oc, w')"
      by (auto simp: run)
    note f = GetByGatewayReference_result [OF c1 gr]
    show thesis
    proof (cases found)
      case None
      with rest2 f d1 new m show thesis by (intro recorded) (auto simp: run no_outcome_def)
    next
      case (Some t)
      with rest2 obtain w3 where im: "InsertGatewayMetadata (t_ID t) g raw w2 = (Inr (), w3)"
        and ap: "webhook_apply ev g e t w3 = (Inr oc, w')" by (auto simp: run)
      have t: "lookup_ref g (we_GatewayReferenceID e) (w_db w) (w_refcache w) = Some t" using f Some m by simp
      have c3: "core (cur_db w3) = core (cur_db w1)" using InsertGatewayMetadata_effect [OF im] f by simp
      have k3: "w_clock w3 = w_clock w" using im f m by (auto simp: InsertGatewayMetadata_def run split: if_splits)
      from ap assms(3) [OF t] show thesis
      proof (cases rule: webhook_apply_cases)
        case ignored
        then show thesis using c3 d1 new t by (intro recorded) (simp_all add: no_outcome_def)
      next
        case (applied ns t1 es)
        then show thesis using c3 d1 new t k3 by (intro that(3) [of t t1 es]) (simp_all add: core_def)
      qed
    qed
  qed
qed

lemma keeps_webhook_apply:
  assumes "\<not> cancel_waits e t"
  shows "keeps (tx_inv D fs) (webhook_apply ev g e t)"
proof -
  have res: "keeps (tx_inv D fs) (webhook_resolveCancelIfRequested ev t2 ns)"
    if "mapWebhookStatus (we_Status e) = Some ns" "t_CancelIntent t2 = t_CancelIntent t"
      "TransitionState t ns ActorGateway now = Inr t0" for t2 ns now t0
    by (simp add: webhook_resolve_idle [OF assms that(1) TransitionState_Inr(1) [OF that(3)] that(2)] hoare)
  have up: "t_CancelIntent t2 = t_CancelIntent t"
    if "Txn_UpdateStatus (if ns = StatusFailed then t0 \<lparr> t_FailureReason := Some webhook_reason \<rparr> else t0) w = (Inr t2, w')"
      "TransitionState t ns ActorGateway now = Inr t0" for ns t0 t2 w w' now
    using Txn_UpdateStatus_effect [OF that(1)] TransitionState_Inr(8) [OF that(2)] by (auto split: if_splits)
  show ?thesis
    unfolding webhook_apply_def Let_def
    by (rule keeps_case_option, rule keeps_ok, rule keeps_if, rule keeps_ok, rule keeps_bindE, rule keeps_Now,
        rule keeps_case_sum, rule keeps_ok, rule keeps_bindE_post [where Q = "\<lambda>t2. t_CancelIntent t2 = t_CancelIntent t"],
        rule keeps_Txn_UpdateStatus, erule (1) up, intro hoare res; assumption)
qed

lemma webhook_tx_inv:
  assumes "webhook_tx ev g e raw (open_tx w) = (r, w')" "coh w"
    and "\<And>t. lookup_ref g (we_GatewayReferenceID e) (w_db w) (w_refcache w) = Some t \<Longrightarrow> \<not> cancel_waits e t"
  shows "tx_inv (w_db w) (w_tx w) w'"
proof -
  obtain x w1 where rec: "RecordEvent (we_EventID e) g (open_tx w) = (x, w1)" by fastforce
  have c1: "clean (w_db w) (w_tx w) w1" by (rule keepsD [OF keeps_clean_repo(3) clean_open [OF assms(2)] rec])
  show ?thesis
  proof (cases "x = Inr True")
    case False
    then have "w' = w1" using assms(1) rec by (cases x) (auto simp: webhook_tx_def bindE_def ok_def)
    with c1 show ?thesis by (simp add: clean_tx_inv)
  next
    case True
    obtain y w2 where gr: "GetByGatewayReference g (we_GatewayReferenceID e) w1 = (y, w2)" by fastforce
    have c2: "clean (w_db w) (w_tx w) w2" by (rule keepsD [OF keeps_clean_GetByGatewayReference c1 gr])
    show ?thesis
    proof (cases "\<exists>t. y = Inr (Some t)")
      case False
      then have "w' = w2"
        using assms(1) rec gr True by (auto simp: webhook_tx_def bindE_def wrapE_def ok_def split: sum.splits option.splits)
      with c2 show ?thesis by (simp add: clean_tx_inv)
    next
      case y: True
      then obtain t where t: "y = Inr (Some t)" ..
      have "w_refcache w1 = w_refcache w" using rec True by (auto simp: RecordEvent_def run open_tx_def spend_def)
      with GetByGatewayReference_result [OF c1, of g "we_GatewayReferenceID e" "Some t" w2] gr t assms(3)
      have "\<not> cancel_waits e t" by simp
      then have k: "keeps (tx_inv (w_db w) (w_tx w)) (bindE (InsertGatewayMetadata (t_ID t) g raw) (\<lambda>_. webhook_apply ev g e t))"
        by (intro hoare keeps_webhook_apply)
      have "bindE (InsertGatewayMetadata (t_ID t) g raw) (\<lambda>_. webhook_apply ev g e t) w2 = (r, w')"
        using assms(1) rec gr True t by (simp add: webhook_tx_def bindE_def [of "RecordEvent _ _"] bindE_def [of "wrapE _ _"] wrapE_def)
      from keepsD [OF k clean_tx_inv [OF c2] this] show ?thesis .
    qed
  qed
qed

text \<open>A property of the tables that recording an event and a move with its events do not break.\<close>

locale webhook_closed = cancel_closed P for P :: "db \<Rightarrow> bool" +
  assumes events_free: "P (d \<lparr> db_webhook_events := x \<rparr>) = P d"
    and announced_status: "P d \<Longrightarrow>
      \<forall>et. EventTypeForTransactionStatus (t_Status t) = Some et \<longrightarrow> (\<exists>e \<in> set es. o_aggregate_id e = i \<and> o_event_type e = et) \<Longrightarrow>
      P (d \<lparr> db_transactions := update_row t_ID i (status_cols t now) (db_transactions d), db_outbox := db_outbox d @ es \<rparr>)"
begin

lemma webhook_keeps:
  assumes "settled P w"
    and "\<And>t. lookup_ref g (we_GatewayReferenceID e) (w_db w) (w_refcache w) = Some t \<Longrightarrow> \<not> cancel_waits e t"
  shows "settled P (snd (webhook_Process ev g e raw w))"
proof -
  have c: "coh w" and p: "P (w_db w)" using assms(1) by (simp_all add: settled_def)
  obtain r w1 where f: "WithinTx (webhook_tx ev g e raw) w = (r, w1)" by fastforce
  have "settled P w1"
  proof (rule WithinTx_post_at [OF webhook_tx_inv [OF _ c assms(2)] assms(1) f])
    fix oc w2 assume tx: "webhook_tx ev g e raw (open_tx w) = (Inr oc, w2)"
    show "P (cur_db w2)"
    proof (rule webhook_tx_cases [OF tx c assms(2)], assumption, goal_cases duplicate recorded applied)
      case duplicate
      with p core_only [OF duplicate(3)] show ?thesis by simp
    next
      case recorded
      with p core_only [OF recorded(5)] show ?thesis by (simp add: events_free)
    next
      case (applied t t1 es)
      have "P ((w_db w) \<lparr> db_webhook_events := db_webhook_events (w_db w) @ [(we_EventID e, g)] \<rparr>)" using p by (simp add: events_free)
      from announced_status [OF this, of t1 es "t_ID t" "w_clock w"] applied(8) core_only [OF applied(7)] show ?thesis by simp
    qed
  qed
  then show ?thesis
    using f \<open>settled P w1\<close>
    by (cases r) (auto simp: webhook_Process_def bindE_def wrapE_def ok_def Publish_def changing_def settled_def coh_def)
qed

end

interpretation ann: webhook_closed announced
proof
  fix d and t :: Txn and es :: "OutboxRow list" and i now
  assume a: "announced d" and e: "\<forall>et. EventTypeForTransactionStatus (t_Status t) = Some et \<longrightarrow> (\<exists>e \<in> set es. o_aggregate_id e = i \<and> o_event_type e = et)"
  show "announced (d \<lparr> db_transactions := update_row t_ID i (status_cols t now) (db_transactions d), db_outbox := db_outbox d @ es \<rparr>)"
    by (rule announced_move [OF a, of _ i "status_cols t now" es]) (use e in \<open>auto simp: status_event_def split: if_splits\<close>)
qed (simp add: announced_def has_event_def)

subsection \<open>Properties\<close>

lemma webhook_Process_Inr:
  assumes "webhook_Process ev g e raw w = (Inr oc, w')"
  obtains w1 where "webhook_tx ev g e raw (open_tx w) = (Inr oc, w1)" "w_db w' = cur_db w1"
proof -
  from assms obtain w1 where "webhook_tx ev g e raw (open_tx w) = (Inr oc, w1)" "w_db w' = w_db (close_tx w1)"
    unfolding webhook_Process_def by (auto simp: run Publish_def split: if_splits)
  then show thesis by (intro that) simp_all
qed

lemma webhook_recorded:
  assumes "webhook_Process ev g e raw w = (Inr oc, w')" "coh w"
    and "\<And>t. lookup_ref g (we_GatewayReferenceID e) (w_db w) (w_refcache w) = Some t \<Longrightarrow> \<not> cancel_waits e t"
  shows "(we_EventID e, g) \<in> set (db_webhook_events (w_db w'))"
proof -
  from webhook_Process_Inr [OF assms(1)] obtain w1 where
    tx: "webhook_tx ev g e raw (open_tx w) = (Inr oc, w1)" and w': "w_db w' = cur_db w1" .
  have ev: "core d = core d' \<Longrightarrow> db_webhook_events d = db_webhook_events d'" for d d' by (simp add: core_def)
  show ?thesis
    by (rule webhook_tx_cases [OF tx assms(2,3)], assumption) (auto simp: w' dest!: ev)
qed

lemma webhook_duplicate:
  assumes "(we_EventID e, g) \<in> set (db_webhook_events (w_db w))" "w_budget w = None" "w_tx w = []"
  shows "\<exists>w'. webhook_Process ev g e raw w = (Inr (no_outcome \<lparr> wo_Duplicate := True \<rparr>), w') \<and>
     w_db w' = w_db w \<and> w_bus w' = w_bus w \<and> w_calls w' = w_calls w"
  using assms
  by (simp add: webhook_Process_def webhook_tx_def RecordEvent_def WithinTx_def begin_tx_def go_defs answer_def query_def stmt_def
      aborted_def cur_db_def put_db_def sql_record_event_def commit_tx_def rollback_def txFromContext_def no_outcome_def)

text \<open>C6. A webhook event is applied at most once: when an event was processed, any later delivery of it,
  with whatever content, is reported as a duplicate, changes no table, calls no gateway and publishes
  nothing. (A capture that meets a waiting cancel request is excluded: it does not commit.)\<close>

theorem webhook_applied_once:
  assumes "webhook_Process ev g e raw w = (Inr oc, w1)" "coh w"
    and "\<And>t. lookup_ref g (we_GatewayReferenceID e) (w_db w) (w_refcache w) = Some t \<Longrightarrow> \<not> cancel_waits e t"
    and "set (db_webhook_events (w_db w1)) \<subseteq> set (db_webhook_events (w_db w2))" "w_tx w2 = []" "w_budget w2 = None"
    and "we_EventID e' = we_EventID e"
  shows "\<exists>w3. webhook_Process ev g e' raw' w2 = (Inr (no_outcome \<lparr> wo_Duplicate := True \<rparr>), w3) \<and>
     w_db w3 = w_db w2 \<and> w_bus w3 = w_bus w2 \<and> w_calls w3 = w_calls w2"
proof -
  have "(we_EventID e, g) \<in> set (db_webhook_events (w_db w1))" by (rule webhook_recorded [OF assms(1-3)])
  then show ?thesis using assms(4-7) by (intro webhook_duplicate) auto
qed

text \<open>C36. A webhook that comes too late is harmless: when the status it reports is not a move that the
  payment can make, no payment, refund, lease, key or outbox event changes.\<close>

theorem late_webhook_ignored:
  assumes "webhook_Process ev g e raw w = (Inr oc, w')" "coh w"
    and "lookup_ref g (we_GatewayReferenceID e) (w_db w) (w_refcache w) = Some t"
    and "\<And>ns. mapWebhookStatus (we_Status e) = Some ns \<Longrightarrow> \<not> isValidTransition (t_Status t) ns"
  shows "\<not> wo_Resolved oc \<and> core (w_db w') = core ((w_db w) \<lparr> db_webhook_events := db_webhook_events (w_db w') \<rparr>)"
proof -
  have n: "\<not> cancel_waits e t'" if "lookup_ref g (we_GatewayReferenceID e) (w_db w) (w_refcache w) = Some t'" for t'
    using assms(3,4) that by (auto simp: cancel_waits_def)
  from webhook_Process_Inr [OF assms(1)] obtain w1 where
    tx: "webhook_tx ev g e raw (open_tx w) = (Inr oc, w1)" and w': "w_db w' = cur_db w1" .
  show ?thesis
    by (rule webhook_tx_cases [OF tx assms(2) n], assumption) (use assms(3,4) in \<open>auto simp: w' core_def no_outcome_def\<close>)
qed

text \<open>C39. An event that arrives before the reference of its payment is stored is lost: it is recorded, and
  when the gateway sends it again, after the payment has its reference, it counts as a duplicate and
  the payment keeps its status.\<close>

theorem early_webhook_lost:
  assumes "webhook_Process ev g e raw w = (Inr oc, w1)" "coh w"
    and "lookup_ref g (we_GatewayReferenceID e) (w_db w) (w_refcache w) = None"
    and "set (db_webhook_events (w_db w1)) \<subseteq> set (db_webhook_events (w_db w2))" "w_tx w2 = []" "w_budget w2 = None"
  shows "db_transactions (w_db w1) = db_transactions (w_db w) \<and> w_db (snd (webhook_Process ev g e raw w2)) = w_db w2"
proof
  have n: "\<not> cancel_waits e t" if "lookup_ref g (we_GatewayReferenceID e) (w_db w) (w_refcache w) = Some t" for t
    using assms(3) that by simp
  from webhook_Process_Inr [OF assms(1)] obtain v where
    tx: "webhook_tx ev g e raw (open_tx w) = (Inr oc, v)" and w1: "w_db w1 = cur_db v" .
  show "db_transactions (w_db w1) = db_transactions (w_db w)"
    by (rule webhook_tx_cases [OF tx assms(2) n], assumption) (use assms(3) in \<open>auto simp: w1 core_def\<close>)
  have "(we_EventID e, g) \<in> set (db_webhook_events (w_db w2))" using webhook_recorded [OF assms(1,2) n] assms(4) by auto
  from webhook_duplicate [OF this assms(6,5), of ev raw] show "w_db (snd (webhook_Process ev g e raw w2)) = w_db w2" by auto
qed

text \<open>A payment at its gateway, with or without a request to cancel, and the event that it was paid.\<close>

definition processing_payment :: "bool \<Rightarrow> Txn" where
  "processing_payment b = zero_Txn \<lparr> t_ID := 1, t_TenantID := 7, t_UserID := 8, t_Amount := 100, t_Currency := ''USD'',
     t_Status := StatusProcessing, t_Version := 2, t_GatewayID := ''stripe'', t_GatewayReferenceID := ''ref'', t_CancelIntent := b \<rparr>"

definition webhook_world :: "Txn list \<Rightarrow> world" where
  "webhook_world ts = sample_world \<lparr> w_db := sample_db \<lparr> db_transactions := ts \<rparr> \<rparr>"

definition gateway_event :: "string \<Rightarrow> WebhookEvent" where
  "gateway_event st = \<lparr> we_EventID = ''e1'', we_GatewayReferenceID = ''ref'', we_Status = st \<rparr>"

lemmas webhook_eval = db_eval sample_defs webhook_Process_def webhook_tx_def RecordEvent_def sql_record_event_def
  GetByGatewayReference_def InsertGatewayMetadata_def webhook_apply_def mapWebhookStatus_def webhook_messages_def webhook_event_def
  txn_event_def write_callback_def webhook_dispatchTerminalNotification_def dispatchTenantWebhook_def
  webhook_resolveCancelIfRequested_def processing_payment_def webhook_world_def gateway_event_def no_outcome_def

lemma paid_event_applied:
  "fst (webhook_Process sample_env ''stripe'' (gateway_event ''paid'') (JObj []) (webhook_world [processing_payment False]))
     = Inr (no_outcome \<lparr> wo_Resolved := True, wo_Status := StatusCaptured, wo_TransactionID := 1 \<rparr>)"
  by (simp add: webhook_eval)

lemma paid_event_facts:
  "coh (webhook_world ts)" "w_tx (snd (webhook_Process sample_env ''stripe'' (gateway_event st) (JObj []) (webhook_world []))) = []"
  "w_budget (snd (webhook_Process sample_env ''stripe'' (gateway_event st) (JObj []) (webhook_world []))) = None"
  "w_tx (snd (webhook_Process sample_env ''stripe'' (gateway_event ''paid'') (JObj []) (webhook_world [processing_payment False]))) = []"
  "w_budget (snd (webhook_Process sample_env ''stripe'' (gateway_event ''paid'') (JObj []) (webhook_world [processing_payment False]))) = None"
  by (simp_all add: webhook_eval coh_def)

theorem webhook_applied_once_witness:
  "\<exists>w3. webhook_Process sample_env ''stripe'' (gateway_event ''failed'') (JObj [])
      (snd (webhook_Process sample_env ''stripe'' (gateway_event ''paid'') (JObj []) (webhook_world [processing_payment False])))
     = (Inr (no_outcome \<lparr> wo_Duplicate := True \<rparr>), w3)"
proof -
  let ?w = "webhook_world [processing_payment False]" and ?e = "gateway_event ''paid''"
  let ?r = "webhook_Process sample_env ''stripe'' ?e (JObj []) ?w"
  have r: "?r = (Inr (no_outcome \<lparr> wo_Resolved := True, wo_Status := StatusCaptured, wo_TransactionID := 1 \<rparr>), snd ?r)"
    using paid_event_applied by (metis prod.collapse)
  have n: "\<not> cancel_waits ?e t"
    if "lookup_ref ''stripe'' (we_GatewayReferenceID ?e) (w_db ?w) (w_refcache ?w) = Some t" for t
    using that by (auto simp: lookup_ref_def cancel_waits_def webhook_eval)
  show ?thesis
    using webhook_applied_once [OF r paid_event_facts(1) n, of "snd ?r" "gateway_event ''failed''" "JObj []"] paid_event_facts(4,5)
    by (auto simp: gateway_event_def)
qed

theorem late_webhook_ignored_witness:
  "db_transactions (w_db (snd (webhook_Process sample_env ''stripe'' (gateway_event ''failed'') (JObj [])
      (webhook_world [captured_payment \<lparr> t_GatewayReferenceID := ''ref'' \<rparr>])))) = [captured_payment \<lparr> t_GatewayReferenceID := ''ref'' \<rparr>]"
proof -
  let ?t = "captured_payment \<lparr> t_GatewayReferenceID := ''ref'' \<rparr>"
  let ?w = "webhook_world [?t]" and ?e = "gateway_event ''failed''"
  let ?r = "webhook_Process sample_env ''stripe'' ?e (JObj []) ?w"
  have "fst ?r = Inr (no_outcome \<lparr> wo_Status := StatusCaptured \<rparr>)" by (simp add: webhook_eval)
  then have r: "?r = (Inr (no_outcome \<lparr> wo_Status := StatusCaptured \<rparr>), snd ?r)" by (metis prod.collapse)
  have "lookup_ref ''stripe'' (we_GatewayReferenceID ?e) (w_db ?w) (w_refcache ?w) = Some ?t"
    by (simp add: lookup_ref_def webhook_eval)
  from late_webhook_ignored [OF r paid_event_facts(1) this] show ?thesis
    by (auto simp: core_def webhook_world_def sample_db_def mapWebhookStatus_def gateway_event_def isValidTransition_def captured_payment_def)
qed

theorem early_webhook_lost_witness:
  "w_db (snd (webhook_Process sample_env ''stripe'' (gateway_event ''paid'') (JObj [])
      ((snd (webhook_Process sample_env ''stripe'' (gateway_event ''paid'') (JObj []) (webhook_world [])))
        \<lparr> w_db := sample_db \<lparr> db_webhook_events := [(''e1'', ''stripe'')], db_transactions := [processing_payment False] \<rparr> \<rparr>)))
     = sample_db \<lparr> db_webhook_events := [(''e1'', ''stripe'')], db_transactions := [processing_payment False] \<rparr>"
proof -
  let ?w = "webhook_world []" and ?e = "gateway_event ''paid''"
  let ?r = "webhook_Process sample_env ''stripe'' ?e (JObj []) ?w"
  let ?d = "sample_db \<lparr> db_webhook_events := [(''e1'', ''stripe'')], db_transactions := [processing_payment False] \<rparr>"
  have "fst ?r = Inr (no_outcome \<lparr> wo_UnknownTxn := True \<rparr>)" by (simp add: webhook_eval)
  then have r: "?r = (Inr (no_outcome \<lparr> wo_UnknownTxn := True \<rparr>), snd ?r)" by (metis prod.collapse)
  have l: "lookup_ref ''stripe'' (we_GatewayReferenceID ?e) (w_db ?w) (w_refcache ?w) = None"
    by (simp add: lookup_ref_def webhook_eval)
  have "set (db_webhook_events (w_db (snd ?r))) \<subseteq> set (db_webhook_events ?d)" by (simp add: webhook_eval)
  then show ?thesis
    using early_webhook_lost [OF r paid_event_facts(1) l, of "(snd ?r) \<lparr> w_db := ?d \<rparr>"] paid_event_facts(2,3) by simp
qed

text \<open>An update of a payment that an enclosing transaction has changed waits for itself.\<close>

definition expired :: go_error where
  "expired = Errorf ''context deadline exceeded''"

definition waits_for :: "uuid \<Rightarrow> world \<Rightarrow> bool" where
  "waits_for i v \<longleftrightarrow> w_tx v \<noteq> [] \<and> list_ex (\<lambda>(d, _). txn_of (d (w_db v)) i \<noteq> txn_of (w_db v) i) (tl (w_tx v))"

lemma update_deadlock:
  assumes "waits_for (t_ID t) v"
  shows "Txn_UpdateStatus t v = (Inl expired, invalidateCache (t_ID t) (v \<lparr> w_budget := Some 0 \<rparr>))"
  using assms
  by (simp add: Txn_UpdateStatus_def deferring_def bindE_def txFromContext_def Now_def reading_def lock_txn_row_def locked_by_outer_def
      waits_for_def expired_def)

lemma initiate_tx_deadlock:
  assumes "waits_for (t_ID p) v" "t_Status p = StatusCaptured"
  shows "initiate_tx ev inp p v = (Inl expired, invalidateCache (t_ID p) (v \<lparr> w_budget := Some 0 \<rparr>))"
proof -
  obtain p1 where tr: "TransitionState p StatusRefundPending ActorSystem (w_clock v) = Inr p1"
    using assms(2) by (auto simp: TransitionState_def isValidTransition_def)
  have "t_ID p1 = t_ID p" using TransitionState_Inr [OF tr] by simp
  then show ?thesis using update_deadlock [of p1 v] assms(1)
    by (simp add: initiate_tx_def bindE_def Now_def reading_def lift_def tr)
qed

lemma WithinTx_failed:
  assumes "w_budget v = None" "fn (open_tx v) = (Inl er, v')"
  shows "WithinTx fn v = (Inl er, rollback v')"
  using assms by (simp add: WithinTx_def bindE_def wrapE_def begin_tx_def answer_def changing_def open_tx_def spend_def)

text \<open>Nothing changed but the budget, which is used up, and the cache.\<close>

definition gave_up :: "world \<Rightarrow> world \<Rightarrow> bool" where
  "gave_up v v' \<longleftrightarrow> w_budget v' = Some 0 \<and> w_db v' = w_db v \<and> w_tx v' = w_tx v \<and> w_calls v' = w_calls v"

lemma initiate_deadlock:
  assumes v: "w_budget v = None" "waits_for (t_ID p) (v \<lparr> w_tx := x # w_tx v \<rparr>)" and p: "t_Status p = StatusCaptured"
    and key: "ev_idem ev \<Longrightarrow> lookup_row i_composite_key_hash (Composite ev (ev_uuid_str ev (t_TenantID p)) ''initiate_refund''
       (ii_IdempotencyKey inp)) (db_idem (w_db v)) = None" "ii_IdempotencyKey inp \<noteq> ''''"
  shows "\<exists>v'. initiate_loaded ev inp p v = (Inl (Wrapf ''refund: initiate'' expired), v') \<and> gave_up v v'"
proof -
  have r: "isRefundableStatus (t_Status p)" by (simp add: isRefundableStatus_def p)
  have m: "mapInitiateError expired = Wrapf ''refund: initiate'' expired" by (simp add: mapInitiateError_def expired_def)
  have wait: "waits_for (t_ID p) u" if "w_db u = w_db v" "w_tx u = y # w_tx v" for u y
    using v(2) that by (simp add: waits_for_def)
  show ?thesis
  proof (cases "ev_idem ev")
    case False
    have "waits_for (t_ID p) (open_tx v)" by (rule wait) simp_all
    from WithinTx_failed [where fn = "initiate_tx ev inp p", OF v(1) initiate_tx_deadlock [OF this p]]
    have "WithinTx (initiate_tx ev inp p) v = (Inl expired, rollback (invalidateCache (t_ID p) ((open_tx v) \<lparr> w_budget := Some 0 \<rparr>)))" .
    then show ?thesis using False r m
      by (simp add: initiate_loaded_def bindE_def mapE_def gave_up_def rollback_def invalidateCache_def open_tx_def)
  next
    case True
    let ?c = "Composite ev (ev_uuid_str ev (t_TenantID p)) ''initiate_refund'' (ii_IdempotencyKey inp)"
    let ?h = "RequestHash ev [ev_uuid_str ev (ii_TransactionID inp), ev_itoa ev (ii_Amount inp), ii_Reason inp, ii_InitiatedBy inp]"
    have res: "Reserve ?c ?h (open_tx v) = (Inr True, claimed_world ?c ?h v)"
      using v(1) key(1) [OF True]
      by (simp add: Reserve_def wrapE_def bindE_def Now_def reading_def query_def stmt_def aborted_def answer_def changing_def ok_def
          claimed_world_def sql_reserve_def open_tx_def spend_def cur_db_def)
    have tx: "w_tx (claimed_world ?c ?h v) = y # w_tx v" if "y = hd (w_tx (claimed_world ?c ?h v))" for y
      using that by (metis claimed_world_simps(7,8) list.collapse)
    have "waits_for (t_ID p) (claimed_world ?c ?h v)" by (rule wait [OF _ tx]) simp_all
    note d = initiate_tx_deadlock [OF this p, of ev inp]
    have "Execute ?c ?h (initiate_op ev inp p) v =
        (Inl expired, rollback (invalidateCache (t_ID p) ((claimed_world ?c ?h v) \<lparr> w_budget := Some 0 \<rparr>)))"
      unfolding Execute_def by (rule WithinTx_failed [OF v(1)]) (simp add: bindE_def res initiate_op_def d)
    then show ?thesis using True r m key(2)
      by (simp add: initiate_loaded_def bindE_def mapE_def gave_up_def rollback_def invalidateCache_def)
  qed
qed

lemma resolve_deadlock:
  assumes v: "w_tx v = [(f, False)]" "w_budget v = None" "w_cache v i = None"
    and p: "txn_of (f (w_db v)) i = Some p" "t_ID p = i" "t_Status p = StatusCaptured" "txn_of (w_db v) i \<noteq> Some p"
    and none: "\<not> list_ex (\<lambda>r. rf_TransactionID (rr_refund r) = i \<and> rf_Reason (rr_refund r) = ReasonCancelResolution) (db_refunds (f (w_db v)))"
    and key: "ev_idem ev \<Longrightarrow> lookup_row i_composite_key_hash (Composite ev (ev_uuid_str ev (t_TenantID p)) ''initiate_refund''
       (''cancel-resolution:'' @ ev_uuid_str ev i)) (db_idem (w_db v)) = None"
  shows "\<exists>er v'. ResolveCancelRefund ev i amt v = (Inl er, v') \<and> gave_up v v'"
proof -
  define inp where "inp = \<lparr> ii_TransactionID = i, ii_Amount = amt, ii_Reason = ReasonCancelResolution, ii_InitiatedBy = ''system:cancel_resolution'',
           ii_IdempotencyKey = ''cancel-resolution:'' @ ev_uuid_str ev i \<rparr>"
  have cur: "cur_db v = f (w_db v)" "\<not> aborted v" using v(1) by (simp_all add: cur_db_def aborted_def)
  have ex: "ExistsByReason i ReasonCancelResolution v = (Inr False, v)"
    using v(2) cur none by (simp add: ExistsByReason_def wrapE_def query_def bindE_def stmt_def answer_def reading_def)
  define v1 where "v1 = v \<lparr> w_cache := (w_cache v)(i \<mapsto> p) \<rparr>"
  have get: "Txn_GetByID i v = (Inr p, v1)"
    using v(2,3) cur p(1) by (simp add: Txn_GetByID_def bindE_def reading_def query_def stmt_def answer_def changing_def ok_def v1_def)
  have "waits_for (t_ID p) (v1 \<lparr> w_tx := x # w_tx v1 \<rparr>)" for x using p v by (simp add: waits_for_def v1_def)
  then obtain v' where v': "initiate_loaded ev inp p v1 = (Inl (Wrapf ''refund: initiate'' expired), v')" "gave_up v1 v'"
    using initiate_deadlock [of v1 p undefined ev inp] v(2) p(3) key by (auto simp: v1_def inp_def)
  then have "InitiateRefund ev inp v = (Inl (Wrapf ''refund: initiate'' expired), v')"
    by (simp add: InitiateRefund_def bindE_def wrapE_def get inp_def)
  moreover have "as_OverRefund (Wrapf ''refund: initiate'' expired) = None" by (simp add: expired_def)
  ultimately have "ResolveCancelRefund ev i amt v = (Inl (Wrapf ''refund: cancel resolution'' (Wrapf ''refund: initiate'' expired)), v')"
    unfolding ResolveCancelRefund_def inp_def [symmetric] by (simp add: bindE_def ex attempt_def throw_def)
  then show ?thesis using v'(2) by (auto simp: gave_up_def v1_def)
qed


definition unspent :: "gw_call list \<Rightarrow> world \<Rightarrow> bool" where
  "unspent C v \<longleftrightarrow> w_budget v = None \<and> length (w_tx v) = 1 \<and> w_calls v = C"

lemma keeps_unspent_deferring [hoare]: "keeps (unspent C) m \<Longrightarrow> keeps (unspent C) (deferring (invalidateCache i) m)"
  unfolding keeps_def deferring_def by (force simp: unspent_def invalidateCache_def split: prod.splits)

lemma keeps_unspent [hoare]:
  "keeps (unspent C) answer" "keeps (unspent C) stmt" "keeps (unspent C) (query q)" "keeps (unspent C) txFromContext" "keeps (unspent C) Now" "keeps (unspent C) (NewUUID ev)"
  "keeps (unspent C) (changing (put_db h))" "keeps (unspent C) (sql_error m)" "keeps (unspent C) (lock_txn_row i)"
  by (auto simp: keeps_def unspent_def answer_def stmt_def query_def txFromContext_def Now_def NewUUID_def put_db_def sql_error_def
      lock_txn_row_def locked_by_outer_def go_defs length_Suc_conv split: list.splits)

lemma keeps_unspent_more [hoare]:
  "keeps (unspent C) (exec h)" "keeps (unspent C) (run_update u)" "keeps (unspent C) (audit a b c d k l)" "keeps (unspent C) (Outbox_Write ev oe)"
  "keeps (unspent C) (Notification_Dispatch ev n)" "keeps (unspent C) (TenantWebhook_Dispatch ev tn i et pl)" "keeps (unspent C) (Txn_GetByID i)"
proof -
  show x: "keeps (unspent C) (exec h)" for h unfolding exec_def by (intro hoare)
  have "keeps (unspent C) (changing (\<lambda>w. w \<lparr> w_audit := w_audit w @ [e] \<rparr>))" for e by (simp add: keeps_def changing_def unspent_def)
  then show "keeps (unspent C) (audit a b c d k l)" unfolding audit_def WriteEntry_def by (intro hoare)
  show "keeps (unspent C) (run_update u)" unfolding run_update_def by (intro hoare)
  show "keeps (unspent C) (Outbox_Write ev oe)" unfolding Outbox_Write_def by (intro hoare x)
  show "keeps (unspent C) (Notification_Dispatch ev n)" unfolding Notification_Dispatch_def Notification_Insert_def Let_def by (intro hoare x)
  show "keeps (unspent C) (TenantWebhook_Dispatch ev tn i et pl)" unfolding TenantWebhook_Dispatch_def WriteDelivery_def Let_def by (intro hoare x)
  have "keeps (unspent C) (changing (\<lambda>w. w \<lparr> w_cache := (w_cache w)(i \<mapsto> t) \<rparr>))" for t by (simp add: keeps_def changing_def unspent_def)
  then show "keeps (unspent C) (Txn_GetByID i)" unfolding Txn_GetByID_def by (intro hoare)
qed

lemma keeps_unspent_webhook [hoare]:
  "keeps (unspent C) (RecordEvent s g)" "keeps (unspent C) (GetByGatewayReference g r)" "keeps (unspent C) (InsertGatewayMetadata i g raw)"
  "keeps (unspent C) (Txn_UpdateStatus t)" "keeps (unspent C) (webhook_messages ev g t st)"
proof -
  show "keeps (unspent C) (RecordEvent s g)" "keeps (unspent C) (GetByGatewayReference g r)" "keeps (unspent C) (InsertGatewayMetadata i g raw)"
    unfolding RecordEvent_def GetByGatewayReference_def InsertGatewayMetadata_def Let_def by (intro hoare)+
  show "keeps (unspent C) (Txn_UpdateStatus t)" unfolding Txn_UpdateStatus_def by (intro hoare)
  show "keeps (unspent C) (webhook_messages ev g t st)"
    unfolding webhook_messages_def write_callback_def webhook_dispatchTerminalNotification_def notify_def dispatchTenantWebhook_def Let_def
    by (intro hoare)
qed

text \<open>A transaction that cannot commit.\<close>

definition doomed :: "db \<Rightarrow> gw_call list \<Rightarrow> (go_error + 'a) \<times> world \<Rightarrow> bool" where
  "doomed D C x \<longleftrightarrow> w_db (snd x) = D \<and> w_calls (snd x) = C \<and> ((\<exists>e. fst x = Inl e) \<or> aborted (snd x) \<or> w_budget (snd x) = Some 0)"

lemma WithinTx_doomed:
  assumes "w_budget w = None" "doomed D C (fn (open_tx w))"
  shows "\<exists>e w'. WithinTx fn w = (Inl e, w') \<and> w_db w' = D \<and> w_calls w' = C"
proof -
  obtain r v where fn: "fn (open_tx w) = (r, v)" by fastforce
  have b: "begin_tx w = (Inr (), open_tx w)" using assms(1) by (simp add: begin_tx_def bindE_def answer_def changing_def open_tx_def spend_def)
  show ?thesis
  proof (cases r)
    case (Inr a)
    have "\<exists>e. commit_tx v = (Inl e, rollback v)" using assms(2) fn Inr by (auto simp: doomed_def commit_tx_def answer_def)
    then show ?thesis using assms(2) fn Inr b by (auto simp: WithinTx_def bindE_def wrapE_def doomed_def)
  qed (use assms(2) fn b in \<open>auto simp: WithinTx_def bindE_def wrapE_def doomed_def\<close>)
qed

lemma doomed_bindE:
  assumes "m v = (r, v1)" "w_db v1 = D" "w_calls v1 = C" "\<And>a. r = Inr a \<Longrightarrow> doomed D C (f a v1)"
  shows "doomed D C (bindE m f v)"
  using assms by (cases r) (auto simp: bindE_def doomed_def)

lemma attempt_then: "bindE (bindE (attempt m) (\<lambda>_. ok ())) (\<lambda>_. ok x) = bindE (attempt m) (\<lambda>_. ok x)"
  by (rule ext) (auto simp: bindE_def attempt_def ok_def split: prod.splits)

lemma resolve_doomed:
  assumes v: "tx_inv D [] v" "w_budget v = None" "w_calls v = C"
    and p: "txn_of (cur_db v) i = Some p" "t_ID p = i" "t_Status p = StatusCaptured" "txn_of D i \<noteq> Some p"
    and none: "\<not> list_ex (\<lambda>r. rf_TransactionID (rr_refund r) = i \<and> rf_Reason (rr_refund r) = ReasonCancelResolution) (db_refunds (cur_db v))"
    and key: "ev_idem ev \<Longrightarrow> lookup_row i_composite_key_hash (Composite ev (ev_uuid_str ev (t_TenantID p)) ''initiate_refund''
       (''cancel-resolution:'' @ ev_uuid_str ev i)) (db_idem D) = None"
  shows "doomed D C (bindE (attempt (ResolveCancelRefund ev i amt)) (\<lambda>_. ok x) v)"
proof -
  obtain f a where tx: "w_tx v = [(f, a)]" and D: "w_db v = D" using v(1) by (auto simp: tx_inv_def)
  have cur: "cur_db v = f D" using tx D by (simp add: cur_db_def)
  show ?thesis
  proof (cases a)
    case True
    then have ab: "aborted v" using tx by (simp add: aborted_def)
    then have "ExistsByReason i ReasonCancelResolution v = (Inl (Wrapf ''refund: exists by reason'' (Errorf ''current transaction is aborted'')), v)"
      by (simp add: ExistsByReason_def wrapE_def query_def bindE_def stmt_def)
    then show ?thesis using ab D v(3) by (simp add: doomed_def bindE_def attempt_def ResolveCancelRefund_def ok_def)
  next
    case False
    have "w_cache v i = None"
      using v(1) p(1,4) D by (cases "w_cache v i") (auto simp: tx_inv_def coh_def coh_view_def)
    then obtain er v' where "ResolveCancelRefund ev i amt v = (Inl er, v')" "gave_up v v'"
      using resolve_deadlock [of v f i p ev amt] tx False v(2) D cur p none key by auto
    then show ?thesis using D v(3) by (simp add: doomed_def bindE_def attempt_def ok_def gave_up_def)
  qed
qed

lemma webhook_apply_doomed:
  assumes v: "tx_inv D [] v" "unspent C v" "core (cur_db v) = core (D \<lparr> db_webhook_events := evs \<rparr>)"
    and t: "cancel_waits e t" "txn_of D (t_ID t) = Some t"
    and none: "\<not> list_ex (\<lambda>r. rf_TransactionID (rr_refund r) = t_ID t \<and> rf_Reason (rr_refund r) = ReasonCancelResolution) (db_refunds D)"
    and key: "ev_idem ev \<Longrightarrow> lookup_row i_composite_key_hash (Composite ev (ev_uuid_str ev (t_TenantID t)) ''initiate_refund''
       (''cancel-resolution:'' @ ev_uuid_str ev (t_ID t))) (db_idem D) = None"
  shows "doomed D C (webhook_apply ev g e t v)"
proof -
  have ns: "mapWebhookStatus (we_Status e) = Some StatusCaptured" "t_CancelIntent t" "isValidTransition (t_Status t) StatusCaptured"
    using t(1) by (simp_all add: cancel_waits_def)
  have ne: "t_Status t \<noteq> StatusCaptured" using ns(3) by (auto simp: isValidTransition_def)
  obtain t0 where tr: "TransitionState t StatusCaptured ActorGateway (w_clock v) = Inr t0" using ns(3) by (simp add: TransitionState_def)
  note t0 = TransitionState_Inr [OF tr]
  obtain u v1 where us: "Txn_UpdateStatus t0 v = (u, v1)" by fastforce
  have i1: "tx_inv D [] v1" "unspent C v1" "w_calls v1 = C"
    using keepsD [OF keeps_Txn_UpdateStatus v(1) us] keepsD [OF keeps_unspent_webhook(4) v(2) us] by (simp_all add: unspent_def)
  have "doomed D C (bindE (Txn_UpdateStatus t0) (\<lambda>t2. bindE (webhook_messages ev g t2 StatusCaptured) (\<lambda>_.
      bindE (webhook_resolveCancelIfRequested ev t2 StatusCaptured) (\<lambda>_. ok (oc t2)))) v)" for oc :: "Txn \<Rightarrow> WebhookOutcome"
  proof (rule doomed_bindE, rule us)
    show "w_db v1 = D" "w_calls v1 = C" using i1 by (simp_all add: tx_inv_def)
    fix t2 assume u: "u = Inr t2"
    from Txn_UpdateStatus_effect [OF us [unfolded u]] t0 have t2: "t2 = t0 \<lparr> t_Version := t_Version t + 1 \<rparr>"
      and c1: "cur_db v1 = (cur_db v) \<lparr> db_transactions := update_row t_ID (t_ID t) (status_cols t0 (w_clock v)) (db_transactions (cur_db v)) \<rparr>"
      by auto
    obtain m v2 where ms: "webhook_messages ev g t2 StatusCaptured v1 = (m, v2)" by fastforce
    have i2: "tx_inv D [] v2" "unspent C v2" "w_calls v2 = C"
      using keepsD [OF keeps_tx_webhook(3) i1(1) ms] keepsD [OF keeps_unspent_webhook(5) i1(2) ms] by (simp_all add: unspent_def)
    show "doomed D C (bindE (webhook_messages ev g t2 StatusCaptured) (\<lambda>_. bindE (webhook_resolveCancelIfRequested ev t2 StatusCaptured) (\<lambda>_. ok (oc t2))) v1)"
    proof (rule doomed_bindE, rule ms)
      show "w_db v2 = D" "w_calls v2 = C" using i2 by (simp_all add: tx_inv_def)
      fix z assume "m = Inr z"
      with webhook_messages_effect [of ev g t2 StatusCaptured v1 z v2] ms obtain es where
        c2: "core (cur_db v2) = core ((cur_db v1) \<lparr> db_outbox := db_outbox (cur_db v1) @ es \<rparr>)" by blast
      define p where "p = status_cols t0 (w_clock v) t"
      have "db_transactions (cur_db v2) = update_row t_ID (t_ID t) (status_cols t0 (w_clock v)) (db_transactions D)"
        using c1 c2 v(3) by (simp add: core_def)
      then have p: "txn_of (cur_db v2) (t_ID t) = Some p" using t(2) by (simp add: p_def lookup_update_row)
      have p': "t_ID p = t_ID t" "t_Status p = StatusCaptured" "t_TenantID p = t_TenantID t"
        using t0 by (simp_all add: p_def status_cols_def)
      then have p'': "txn_of D (t_ID t) \<noteq> Some p" using t(2) ne by auto
      have "doomed D C (bindE (attempt (ResolveCancelRefund ev (t_ID t) (t_Amount t2))) (\<lambda>_. ok (oc t2)) v2)"
        by (rule resolve_doomed [OF i2(1) _ i2(3) p p'(1,2) p'']) (use i2(2) none key p'(3) c1 c2 v(3) in \<open>simp_all add: unspent_def core_def\<close>)
      then show "doomed D C (bindE (webhook_resolveCancelIfRequested ev t2 StatusCaptured) (\<lambda>_. ok (oc t2)) v2)"
        using t2 t0 ns(2) by (simp add: webhook_resolveCancelIfRequested_def attempt_then)
    qed
  qed
  then show ?thesis using ns(1) ne tr by (simp add: webhook_apply_def bindE_def [of "reading _"] Now_def reading_def Let_def)
qed

text \<open>C40. A capture reported for a payment with a waiting cancel request cannot be recorded: the cancel resolution
  runs in a second transaction that waits for the row that the first has changed, while the first waits for it. Whenever
  the payment has no refund for the cancellation yet, the call fails and leaves the database as it was, so that
  the gateway's next delivery meets the same situation.\<close>

theorem webhook_cancel_deadlock:
  assumes "w_tx w = []" "coh w" "w_budget w = None" "(we_EventID e, g) \<notin> set (db_webhook_events (w_db w))"
    and "lookup_ref g (we_GatewayReferenceID e) (w_db w) (w_refcache w) = Some t" "txn_of (w_db w) (t_ID t) = Some t" "cancel_waits e t"
    and "\<not> list_ex (\<lambda>r. rf_TransactionID (rr_refund r) = t_ID t \<and> rf_Reason (rr_refund r) = ReasonCancelResolution) (db_refunds (w_db w))"
    and "ev_idem ev \<Longrightarrow> lookup_row i_composite_key_hash (Composite ev (ev_uuid_str ev (t_TenantID t)) ''initiate_refund''
       (''cancel-resolution:'' @ ev_uuid_str ev (t_ID t))) (db_idem (w_db w)) = None"
  shows "\<exists>er w'. webhook_Process ev g e raw w = (Inl er, w') \<and> w_db w' = w_db w \<and> w_calls w' = w_calls w"
proof -
  let ?D = "w_db w" and ?C = "w_calls w"
  have i0: "tx_inv ?D [] (open_tx w)" "clean ?D [] (open_tx w)" "unspent ?C (open_tx w)"
    using tx_inv_open [OF assms(2)] clean_open [OF assms(2)] assms(1,3) by (simp_all add: unspent_def open_tx_def spend_def)
  obtain x w1 where rec: "RecordEvent (we_EventID e) g (open_tx w) = (x, w1)" by fastforce
  have i1: "clean ?D [] w1" "unspent ?C w1"
    using keepsD [OF keeps_clean_repo(3) i0(2) rec] keepsD [OF keeps_unspent_webhook(1) i0(3) rec] by simp_all
  have "doomed ?D ?C (webhook_tx ev g e raw (open_tx w))"
    unfolding webhook_tx_def
  proof (rule doomed_bindE, rule rec)
    show "w_db w1 = ?D" "w_calls w1 = ?C" using i1 by (simp_all add: clean_def tx_inv_def unspent_def)
    fix b assume b: "x = Inr b"
    have "(b, cur_db w1) = sql_record_event (we_EventID e, g) ?D" using RecordEvent_effect [OF rec [unfolded b]] by simp
    then have b': "b" "cur_db w1 = ?D \<lparr> db_webhook_events := db_webhook_events ?D @ [(we_EventID e, g)] \<rparr>"
      using assms(4) by (simp_all add: sql_record_event_def)
    have rc: "w_refcache w1 = w_refcache w" using rec b by (auto simp: RecordEvent_def run open_tx_def spend_def)
    obtain y w2 where gr: "wrapE ''lookup transaction'' (GetByGatewayReference g (we_GatewayReferenceID e)) w1 = (y, w2)" by fastforce
    have i2: "clean ?D [] w2" "unspent ?C w2"
      using keepsD [OF keeps_wrapE [OF keeps_clean_GetByGatewayReference] i1(1) gr] keepsD [OF keeps_wrapE [OF keeps_unspent_webhook(2)] i1(2) gr]
      by simp_all
    have "doomed ?D ?C (bindE (wrapE ''lookup transaction'' (GetByGatewayReference g (we_GatewayReferenceID e))) (\<lambda>found.
       case found of None \<Rightarrow> ok (no_outcome \<lparr> wo_UnknownTxn := True \<rparr>)
       | Some txn \<Rightarrow> bindE (InsertGatewayMetadata (t_ID txn) g raw) (\<lambda>_. webhook_apply ev g e txn)) w1)"
    proof (rule doomed_bindE, rule gr)
      show "w_db w2 = ?D" "w_calls w2 = ?C" using i2 by (simp_all add: clean_def tx_inv_def unspent_def)
      fix found assume "y = Inr found"
      then have "GetByGatewayReference g (we_GatewayReferenceID e) w1 = (Inr found, w2)" using gr by (simp add: run)
      from GetByGatewayReference_result [OF i1(1) this] rc assms(5) have f: "found = Some t" and c2: "cur_db w2 = cur_db w1" by simp_all
      obtain z w3 where im: "InsertGatewayMetadata (t_ID t) g raw w2 = (z, w3)" by fastforce
      have "keeps (tx_inv ?D []) (InsertGatewayMetadata (t_ID t) g raw)" by (intro hoare)
      from keepsD [OF this clean_tx_inv [OF i2(1)] im] keepsD [OF keeps_unspent_webhook(3) i2(2) im]
      have i3: "tx_inv ?D [] w3" "unspent ?C w3" by simp_all
      show "doomed ?D ?C ((case found of None \<Rightarrow> ok (no_outcome \<lparr> wo_UnknownTxn := True \<rparr>)
       | Some txn \<Rightarrow> bindE (InsertGatewayMetadata (t_ID txn) g raw) (\<lambda>_. webhook_apply ev g e txn)) w2)"
        unfolding f option.case
      proof (rule doomed_bindE, rule im)
        show "w_db w3 = ?D" "w_calls w3 = ?C" using i3 by (simp_all add: tx_inv_def unspent_def)
        fix u assume "z = Inr u"
        with im have "core (cur_db w3) = core (cur_db w2)" using InsertGatewayMetadata_effect by blast
        then show "doomed ?D ?C (webhook_apply ev g e t w3)"
          by (intro webhook_apply_doomed [OF i3, where evs = "db_webhook_events ?D @ [(we_EventID e, g)]"] assms) (simp_all add: c2 b'(2))
      qed
    qed
    then show "doomed ?D ?C ((if \<not> b then ok (no_outcome \<lparr> wo_Duplicate := True \<rparr>)
       else bindE (wrapE ''lookup transaction'' (GetByGatewayReference g (we_GatewayReferenceID e))) (\<lambda>found.
         case found of None \<Rightarrow> ok (no_outcome \<lparr> wo_UnknownTxn := True \<rparr>)
         | Some txn \<Rightarrow> bindE (InsertGatewayMetadata (t_ID txn) g raw) (\<lambda>_. webhook_apply ev g e txn))) w1)" using b'(1) by simp
  qed
  from WithinTx_doomed [where fn = "webhook_tx ev g e raw", OF assms(3) this] show ?thesis by (auto simp: webhook_Process_def bindE_def wrapE_def)
qed

theorem webhook_cancel_deadlock_witness:
  "\<exists>er w'. webhook_Process (sample_env \<lparr> ev_idem := True \<rparr>) ''stripe'' (gateway_event ''paid'') (JObj []) (webhook_world [processing_payment True])
     = (Inl er, w') \<and> w_db w' = w_db (webhook_world [processing_payment True])"
  using webhook_cancel_deadlock [of "webhook_world [processing_payment True]" "gateway_event ''paid''" "''stripe''" "processing_payment True"
      "sample_env \<lparr> ev_idem := True \<rparr>" "JObj []"]
  by (auto simp: coh_def lookup_ref_def cancel_waits_def webhook_eval isValidTransition_def lookup_row_def)

end
