(* ===== verification/Service_Steps.thy ===== *)
theory Service_Steps
  imports Payment_Charges Inbound_Webhook
begin

section \<open>The service as a transition system\<close>

text \<open>
  What can happen to the state of the service: an operation of the payment or refund service, a
  cancel request, a webhook from a gateway, a sweep of the idempotency keys, and between them the
  clock moves and the database becomes available or not. Operations follow each other in any order
  and any number, and each of them may be cut off anywhere; the properties hold in every state that
  can be reached. \<open>B\<close> says which operations are requested: all of them, or those with amounts in range. A webhook that captures a payment with a waiting cancel request is left out: it
  deadlocks with itself and its transaction does not commit. Expired leases are not deleted.
\<close>

inductive service_step :: "env \<Rightarrow> (payment_op \<Rightarrow> bool) \<Rightarrow> world \<Rightarrow> world \<Rightarrow> bool" for ev B where
  payment: "B op \<Longrightarrow> service_step ev B w (run_payment_op ev op w)"
| cancel: "service_step ev B w (snd (Cancel ev inp w))"
| webhook: "(\<And>t. lookup_ref g (we_GatewayReferenceID e) (w_db w) (w_refcache w) = Some t \<Longrightarrow> \<not> cancel_waits e t) \<Longrightarrow>
    service_step ev B w (snd (webhook_Process ev g e raw w))"
| sweep: "service_step ev B w (snd (SweepStaleProcessing age w))"
| expire: "service_step ev B w (snd (Idem_DeleteExpired w))"
| outside: "service_step ev B w (w \<lparr> w_clock := now, w_budget := b \<rparr>)"

inductive_cases service_stepE: "service_step ev B w w'"

abbreviation reaches :: "env \<Rightarrow> (payment_op \<Rightarrow> bool) \<Rightarrow> world \<Rightarrow> world \<Rightarrow> bool" where
  "reaches ev B \<equiv> (service_step ev B)\<^sup>*\<^sup>*"

lemma reaches_invariant:
  assumes "reaches ev B w w'" "I w" "\<And>v v'. service_step ev B v v' \<Longrightarrow> I v \<Longrightarrow> I v'"
  shows "I w'"
  using assms(1,2) by (induction rule: rtranclp_induct) (auto intro: assms(3))

lemma reaches_history: "(\<And>op now b. (op, now, b) \<in> set ops \<Longrightarrow> B op) \<Longrightarrow> reaches ev B w (run_payment_ops ev ops w)"
proof (induction ops arbitrary: w)
  case (Cons x ops)
  obtain op now b where x: "x = (op, now, b)" by (cases x)
  have "service_step ev B w (w \<lparr> w_clock := now, w_budget := b \<rparr>)" by (rule outside)
  moreover have "service_step ev B (w \<lparr> w_clock := now, w_budget := b \<rparr>) (run_payment_op ev op (w \<lparr> w_clock := now, w_budget := b \<rparr>))"
    by (rule payment) (rule Cons.prems [of op now b], simp add: x)
  moreover have "reaches ev B v (run_payment_ops ev ops v)" for v using Cons.IH Cons.prems by (metis list.set_intros(2))
  ultimately show ?case unfolding x by (simp, meson converse_rtranclp_into_rtranclp)
qed simp

lemma keeps_settled_pool [hoare]:
  "(\<And>d. P d \<Longrightarrow> P (f d)) \<Longrightarrow> (\<And>d. db_transactions (f d) = db_transactions d) \<Longrightarrow> keeps (settled P) (exec_pool f)"
  unfolding exec_pool_def
  by (intro hoare) (auto intro!: keeps_changing simp: settled_def coh_def)

lemma keeps_sweeps:
  assumes "\<And>d x. P (d \<lparr> db_idem := x \<rparr>) = P d"
  shows "keeps (settled P) (SweepStaleProcessing age)" "keeps (settled P) Idem_DeleteExpired"
  unfolding SweepStaleProcessing_def Idem_DeleteExpired_def Let_def by (intro hoare; simp add: assms)+

subsection \<open>Charges\<close>

lemma lease_keys_more [simp]:
  "lease_keys (d \<lparr> db_webhook_events := x \<rparr>) = lease_keys d" "lease_keys (mark_row i a now v d) = lease_keys d"
  by (simp_all add: lease_keys_def mark_row_def)

interpretation cov: webhook_closed "lease_cover c" for c
  by unfold_locales (simp_all add: lease_cover_def)

lemma keeps_calls_Cancel: "keeps (\<lambda>w. C (w_calls w)) (Cancel ev inp)"
proof -
  have "keeps (\<lambda>w. C (w_calls w)) (cancel_result x)" for x
    unfolding cancel_result_def by (auto intro!: hoare split: prod.split Verdict.split option.split)
  then show ?thesis
    unfolding Cancel_def cancel_op_def cancel_def cancel_loaded_def mark_cancelled_def by (intro hoare)
qed

lemma keeps_calls_webhook: "charge_blind C \<Longrightarrow> keeps (\<lambda>w. C (w_calls w)) (webhook_Process ev g e raw)"
  unfolding webhook_Process_def webhook_tx_def webhook_apply_def webhook_messages_def webhook_dispatchTerminalNotification_def
    webhook_resolveCancelIfRequested_def write_callback_def dispatchTenantWebhook_def notify_def Let_def
  by (intro hoare)

lemma no_charge_at:
  assumes "single_charge w" "\<And>c. settled (lease_cover c) w \<Longrightarrow> settled (lease_cover c) (snd (m w))"
    and "\<And>C. charge_blind C \<Longrightarrow> keeps (\<lambda>w. C (w_calls w)) m"
  shows "single_charge (snd (m w))"
proof -
  let ?C = "\<lambda>cs. (\<lambda>i. charge_count i cs) = (\<lambda>i. charge_count i (w_calls w))"
  have "charge_blind ?C" by (simp add: charge_blind_def charge_count_def)
  from assms(3) [OF this] have "?C (w_calls (snd (m w)))" by (simp add: keeps_def)
  with assms(1,2) show ?thesis by (simp add: single_charge_def)
qed

lemma step_single_charge: "service_step ev B w w' \<Longrightarrow> single_charge w \<Longrightarrow> single_charge w'"
proof (induction rule: service_step.cases)
  case (webhook w1 g e raw)
  show ?thesis
    unfolding webhook(2) by (rule no_charge_at) (use webhook in \<open>auto intro: cov.webhook_keeps keeps_calls_webhook\<close>)
next
  case (sweep w1 age)
  have "no_charge (SweepStaleProcessing age)"
    by (simp add: no_charge_def keeps_sweeps lease_cover_def) (simp add: SweepStaleProcessing_def Let_def hoare)
  then show ?thesis using sweep keeps_snd [OF no_charge_single] by blast
next
  case (expire w1)
  have "no_charge Idem_DeleteExpired"
    by (simp add: no_charge_def keeps_sweeps lease_cover_def) (simp add: Idem_DeleteExpired_def Let_def hoare)
  then show ?thesis using expire keeps_snd [OF no_charge_single] by blast
next
  case (cancel w1 inp)
  have "no_charge (Cancel ev inp)" by (simp add: no_charge_def cov.Cancel_keeps keeps_calls_Cancel)
  then show ?thesis using cancel keeps_snd [OF no_charge_single] by blast
next
  case (payment w1 op)
  then show ?thesis using run_payment_op_single by blast
next
  case (outside w1 now b)
  then show ?thesis by (simp add: single_charge_def settled_def coh_def)
qed

text \<open>C2. A payment is initiated at most once and captured at most once: in every state that the service can
  reach, with any clock readings, any gateway answers and any loss of the database, the gateways have
  received at most one initiate call and at most one capture call for each payment, when at the start only
  payments with a lease row had been sent. So a payment that is authorized first and captured later is
  asked for once in each of the two ways. The deletion of expired leases is not one of these steps (after it a
  payment may be sent again, under the same key), nor is the webhook that deadlocks with itself.\<close>

theorem charged_at_most_once:
  assumes "reaches ev B w w'" "single_charge w"
  shows "length (filter (initiates i) (w_calls w')) \<le> 1 \<and> length (filter (captures i) (w_calls w')) \<le> 1"
proof -
  have "charge_count i (w_calls w') \<le> 1"
    using reaches_invariant [where I = single_charge, OF assms step_single_charge]
    by (simp add: single_charge_def settled_def lease_cover_def)
  then show ?thesis unfolding charge_count_split by linarith
qed

theorem charged_at_most_once_witness:
  "length (filter (initiates 100) (w_calls (run_payment_ops capturing_env sample_history sample_world))) \<le> 1"
proof -
  let ?w = "run_payment_ops capturing_env sample_history sample_world"
  have "reaches capturing_env (\<lambda>_. True) sample_world ?w" by (rule reaches_history) simp
  moreover have "single_charge sample_world"
    by (simp add: single_charge_def settled_def coh_def lease_cover_def charge_count_def sample_world_def)
  ultimately show ?thesis by (intro conjunct1 [OF charged_at_most_once])
qed

end
