(* ===== verification/Ring.thy ===== *)
theory Ring
  imports Prelude
begin

section \<open>Shards and workers (internal/relay/ring/ring.go)\<close>

text \<open>
  Which relay worker polls which shard of the outbox: a consistent-hash ring with 128 positions per
  worker; a shard belongs to the first two distinct workers clockwise from its own position. Every
  worker computes the ring for itself. Counts and indices are naturals. \<open>sort.Slice\<close> leaves the order
  of equal positions open; here the sort is stable.
\<close>

definition vnodesPerWorker :: nat where "vnodesPerWorker = 128"
definition ReplicationFactor :: nat where "ReplicationFactor = 2"

text \<open>\<open>strconv.Itoa\<close> on naturals.\<close>

fun Itoa :: "nat \<Rightarrow> string" where
  "Itoa n = (if n < 10 then [char_of (48 + n)] else Itoa (n div 10) @ [char_of (48 + n mod 10)])"

definition mix64 :: "64 word \<Rightarrow> 64 word" where
  "mix64 x0 = (let x1 = (Bit_Operations.xor x0 (drop_bit 30 x0)) * 0xbf58476d1ce4e5b9;
                   x2 = (Bit_Operations.xor x1 (drop_bit 27 x1)) * 0x94d049bb133111eb
               in Bit_Operations.xor x2 (drop_bit 31 x2))"

definition fnv64a :: "string \<Rightarrow> 64 word" where
  "fnv64a s = fold (\<lambda>c h. (Bit_Operations.xor h (of_nat (of_char c))) * 1099511628211) s 14695981039346656037"

definition hashKey :: "string \<Rightarrow> 64 word" where
  "hashKey s = mix64 (fnv64a s)"

record vnode =
  vn_pos :: "64 word"
  vn_worker :: nat

definition vnodes :: "nat \<Rightarrow> vnode list" where
  "vnodes w = map (\<lambda>v. \<lparr> vn_pos = hashKey (''worker:'' @ Itoa w @ '':vnode:'' @ Itoa v), vn_worker = w \<rparr>) [0 ..< vnodesPerWorker]"

definition build_ring :: "nat \<Rightarrow> vnode list" where
  "build_ring workerCount = sort_key vn_pos (concat (map vnodes [0 ..< workerCount]))"

text \<open>\<open>sort.Search\<close>: the first index whose position is not below the hash; past the end it wraps.\<close>

definition start_index :: "64 word \<Rightarrow> vnode list \<Rightarrow> nat" where
  "start_index h ring = (let idx = length (takeWhile (\<lambda>v. vn_pos v < h) ring) in if idx = length ring then 0 else idx)"

text \<open>The walk: \<open>set\<close> and \<open>seen\<close> hold the same workers. It may use one step for each position of the
  ring; it does not end before \<open>rf\<close> workers are found.\<close>

fun walk :: "nat \<Rightarrow> vnode list \<Rightarrow> nat \<Rightarrow> nat \<Rightarrow> nat list \<Rightarrow> nat list option" where
  "walk fuel ring rf idx found =
    (if rf \<le> length found then Some found
     else case fuel of 0 \<Rightarrow> None
      | Suc n \<Rightarrow>
          let w = vn_worker (ring ! idx);
              found' = (if w \<in> set found then found else found @ [w]);
              idx' = (if idx + 1 = length ring then 0 else idx + 1)
          in walk n ring rf idx' found')"

declare walk.simps [simp del] Itoa.simps [simp del]

definition replica_set :: "vnode list \<Rightarrow> nat \<Rightarrow> nat \<Rightarrow> nat list option" where
  "replica_set ring rf shard = walk (length ring) ring rf (start_index (hashKey (''shard:'' @ Itoa shard)) ring) []"

definition replicaSets :: "nat \<Rightarrow> nat \<Rightarrow> nat list option list" where
  "replicaSets workerCount shardCount =
    (if workerCount \<le> 1 then replicate shardCount (Some [0])
     else map (replica_set (build_ring workerCount) (min ReplicationFactor workerCount)) [0 ..< shardCount])"

definition OwnedShards :: "nat \<Rightarrow> nat \<Rightarrow> nat \<Rightarrow> nat list" where
  "OwnedShards workerIndex workerCount shardCount =
    filter (\<lambda>shard. case replicaSets workerCount shardCount ! shard of Some s \<Rightarrow> workerIndex \<in> set s | None \<Rightarrow> False)
      [0 ..< shardCount]"

subsection \<open>The walk as a list\<close>

text \<open>The distinct elements of a list in the order of their first occurrence.\<close>

fun firsts :: "'a list \<Rightarrow> 'a list" where
  "firsts [] = []"
| "firsts (x # xs) = x # filter (\<lambda>y. y \<noteq> x) (firsts xs)"

lemma set_firsts [simp]: "set (firsts xs) = set xs"
  by (induction xs) auto

lemma distinct_firsts [simp]: "distinct (firsts xs)"
  by (induction xs) auto

lemma firsts_filter: "firsts (filter P xs) = filter P (firsts xs)"
  by (induction xs) (auto simp: filter_filter conj_commute intro: filter_cong)

lemma length_firsts: "length (firsts xs) = card (set xs)"
  by (metis distinct_card distinct_firsts set_firsts)

lemma firsts_snoc: "firsts (xs @ [x]) = (if x \<in> set xs then firsts xs else firsts xs @ [x])"
  by (induction xs) auto

lemma take_firsts_append: "n \<le> length (firsts xs) \<Longrightarrow> take n (firsts (xs @ ys)) = take n (firsts xs)"
proof (induction ys rule: rev_induct)
  case (snoc y ys)
  have "length (firsts xs) \<le> length (firsts (xs @ ys))" by (simp add: length_firsts card_mono)
  moreover have "firsts (xs @ ys @ [y]) = (if y \<in> set (xs @ ys) then firsts (xs @ ys) else firsts (xs @ ys) @ [y])"
    using firsts_snoc [of "xs @ ys" y] by simp
  ultimately show ?case using snoc by simp
qed simp

lemma walk_prefix:
  assumes "ring \<noteq> []" "idx < length ring" "k + fuel = length ring" "idx = (i + k) mod length ring" "i < length ring"
    and "found = firsts (map vn_worker (take k (rotate i ring)))" "rf \<le> card (vn_worker ` set ring)" "length found \<le> rf"
  shows "walk fuel ring rf idx found = Some (take rf (firsts (map vn_worker (rotate i ring))))"
  using assms
proof (induction fuel arbitrary: k idx found)
  case 0
  then have "k = length ring" by simp
  then have f: "found = firsts (map vn_worker (rotate i ring))" using 0 by simp
  then have "length found = card (vn_worker ` set ring)" by (simp add: length_firsts)
  with 0 f show ?case by (simp add: walk.simps)
next
  case (Suc fuel)
  let ?ws = "map vn_worker (rotate i ring)"
  have k: "k < length ring" using Suc.prems by simp
  show ?case
  proof (cases "rf \<le> length found")
    case True
    have "?ws = map vn_worker (take k (rotate i ring)) @ map vn_worker (drop k (rotate i ring))" by (metis append_take_drop_id map_append)
    with take_firsts_append [of rf "map vn_worker (take k (rotate i ring))" "map vn_worker (drop k (rotate i ring))"] True Suc.prems
    show ?thesis by (simp add: walk.simps)
  next
    case False
    have nth: "rotate i ring ! k = ring ! idx" using k Suc.prems by (simp add: nth_rotate add.commute)
    then have t: "map vn_worker (take (Suc k) (rotate i ring)) = map vn_worker (take k (rotate i ring)) @ [vn_worker (ring ! idx)]"
      using k by (simp add: take_Suc_conv_app_nth)
    have f': "(if vn_worker (ring ! idx) \<in> set found then found else found @ [vn_worker (ring ! idx)])
        = firsts (map vn_worker (take (Suc k) (rotate i ring)))"
      unfolding t firsts_snoc using Suc.prems(6) by simp
    have "idx + 1 = length ring \<Longrightarrow> (i + Suc k) mod length ring = 0" "idx + 1 < length ring \<Longrightarrow> (i + Suc k) mod length ring = idx + 1"
      using Suc.prems(4) by (simp_all add: mod_Suc)
    with Suc.prems(2) have i': "(if idx + 1 = length ring then 0 else idx + 1) = (i + Suc k) mod length ring" by auto
    have "walk fuel ring rf ((i + Suc k) mod length ring) (firsts (map vn_worker (take (Suc k) (rotate i ring))))
        = Some (take rf (firsts ?ws))"
    proof (rule Suc.IH)
      show "length (firsts (map vn_worker (take (Suc k) (rotate i ring)))) \<le> rf"
        unfolding f' [symmetric] using False by auto
    qed (use Suc.prems in auto)
    then show ?thesis using False by (subst walk.simps) (simp only: f' i' Let_def nat.case if_False)
  qed
qed

text \<open>Clockwise from a hash: first the positions not below it, then the others.\<close>

definition clockwise :: "64 word \<Rightarrow> vnode list \<Rightarrow> vnode list" where
  "clockwise h ring = filter (\<lambda>v. \<not> vn_pos v < h) ring @ filter (\<lambda>v. vn_pos v < h) ring"

lemma sorted_split:
  assumes "sorted (map f xs)"
  shows "takeWhile (\<lambda>v. f v < h) xs = filter (\<lambda>v. f v < h) xs" "dropWhile (\<lambda>v. f v < h) xs = filter (\<lambda>v. \<not> f v < h) xs"
  using assms
  by (induction xs) (auto simp: eq_commute [of "[]"] filter_empty_conv intro!: filter_True [symmetric] dest: order.strict_trans1)

lemma rotate_start: "sorted (map vn_pos ring) \<Longrightarrow> rotate (start_index h ring) ring = clockwise h ring"
proof (cases "length (takeWhile (\<lambda>v. vn_pos v < h) ring) = length ring")
  case True
  then have "\<forall>v \<in> set ring. vn_pos v < h"
    by (metis length_takeWhile_le nat_less_le not_less nth_length_takeWhile nth_take set_takeWhileD takeWhile_eq_take take_all_iff order_refl)
  then have "clockwise h ring = ring" by (simp add: clockwise_def filter_empty_conv)
  with True show ?thesis by (simp add: start_index_def)
next
  case False
  let ?t = "takeWhile (\<lambda>v. vn_pos v < h) ring"
  assume s: "sorted (map vn_pos ring)"
  have "length ?t < length ring" using False length_takeWhile_le [of "\<lambda>v. vn_pos v < h" ring] by simp
  moreover have "take (length ?t) ring = ?t" "drop (length ?t) ring = dropWhile (\<lambda>v. vn_pos v < h) ring"
    by (metis append_eq_conv_conj takeWhile_dropWhile_id)+
  ultimately show ?thesis using False sorted_split [OF s, of h] by (simp add: start_index_def rotate_drop_take clockwise_def)
qed

lemma vnodes_worker: "vn_worker ` set (vnodes w) = {w}"
proof -
  have "0 < vnodesPerWorker" by (simp add: vnodesPerWorker_def)
  then show ?thesis by (simp add: vnodes_def image_image image_constant_conv)
qed

lemma ring_workers: "vn_worker ` set (build_ring n) = {0 ..< n}"
proof -
  have "vn_worker ` set (build_ring n) = (\<Union>w \<in> {0 ..< n}. vn_worker ` set (vnodes w))" by (auto simp: build_ring_def)
  then show ?thesis by (simp add: vnodes_worker)
qed

lemma replica_set_eq:
  assumes "rf \<le> n" "0 < n"
  shows "replica_set (build_ring n) rf s =
    Some (take rf (firsts (map vn_worker (clockwise (hashKey (''shard:'' @ Itoa s)) (build_ring n)))))"
proof -
  let ?r = "build_ring n"
  have ne: "?r \<noteq> []" using ring_workers [of n] assms(2) by force
  have st: "start_index h ?r < length ?r" for h
    using ne length_takeWhile_le [of "\<lambda>v. vn_pos v < h" ?r] by (auto simp: start_index_def Let_def)
  have "sorted (map vn_pos ?r)" by (simp add: build_ring_def)
  from rotate_start [OF this] walk_prefix [OF ne st, where k = 0 and fuel = "length ?r" and found = "[]" and rf = rf] st ne assms(1) ring_workers [of n]
  show ?thesis by (simp add: replica_set_def)
qed

lemma set_clockwise [simp]: "set (clockwise h ring) = set ring"
  by (auto simp: clockwise_def)

subsection \<open>Properties\<close>

text \<open>C38. Every shard is served: for any number of workers, the set of every shard has two distinct
  workers (one when there is only one worker), all of them existing ones, and the search for them ends
  within one turn of the ring. So every shard is polled by at least one worker.\<close>

theorem every_shard_served:
  assumes "0 < workerCount" "shard < shardCount"
  shows "\<exists>ws. replicaSets workerCount shardCount ! shard = Some ws \<and> distinct ws \<and> length ws = min ReplicationFactor workerCount \<and>
    set ws \<subseteq> {0 ..< workerCount} \<and> (\<forall>w. shard \<in> set (OwnedShards w workerCount shardCount) \<longleftrightarrow> w \<in> set ws)"
proof -
  have own: "shard \<in> set (OwnedShards w workerCount shardCount) \<longleftrightarrow>
      (case replicaSets workerCount shardCount ! shard of Some s \<Rightarrow> w \<in> set s | None \<Rightarrow> False)" for w
    using assms(2) by (simp add: OwnedShards_def)
  show ?thesis
  proof (cases "workerCount \<le> 1")
    case True
    with assms own show ?thesis by (simp add: replicaSets_def ReplicationFactor_def)
  next
    case False
    let ?rf = "min ReplicationFactor workerCount"
    let ?ws = "firsts (map vn_worker (clockwise (hashKey (''shard:'' @ Itoa shard)) (build_ring workerCount)))"
    have r: "replicaSets workerCount shardCount ! shard = Some (take ?rf ?ws)"
      using False assms by (simp add: replicaSets_def replica_set_eq)
    have l: "length ?ws = workerCount" by (simp add: length_firsts ring_workers)
    have "set (take ?rf ?ws) \<subseteq> {0 ..< workerCount}" using set_take_subset [of ?rf ?ws] by (auto simp: ring_workers)
    with r l own show ?thesis by (auto simp: min_def)
  qed
qed

theorem every_shard_served_witness:
  "\<exists>ws. replicaSets 3 64 ! 5 = Some ws \<and> distinct ws \<and> length ws = 2"
  using every_shard_served [of 3 5 64] by (auto simp: ReplicationFactor_def)

text \<open>Scaling out moves as little as possible: when one worker is added, the set of a shard either
  stays as it is or gains the new worker in place of its last one; no shard moves between two workers
  that were there before.\<close>

theorem ring_grows_by_new_worker:
  assumes "2 \<le> n" "shard < shardCount"
    and "replicaSets n shardCount ! shard = Some old" "replicaSets (Suc n) shardCount ! shard = Some new"
  shows "new = old \<or> (n \<in> set new \<and> filter (\<lambda>w. w \<noteq> n) new = butlast old)"
proof -
  define h where "h = hashKey (''shard:'' @ Itoa shard)"
  define ws where "ws = firsts (map vn_worker (clockwise h (build_ring (Suc n))))"
  have ring: "filter (\<lambda>v. vn_worker v \<noteq> n) (build_ring (Suc n)) = build_ring n"
  proof -
    have "filter (\<lambda>v. vn_worker v \<noteq> n) (concat (map vnodes [0 ..< Suc n])) = concat (map vnodes [0 ..< n])"
      by (auto simp: filter_concat vnodes_def filter_map o_def filter_empty_conv intro!: arg_cong [of _ _ concat] filter_True)
    then show ?thesis by (simp add: build_ring_def filter_sort)
  qed
  have "clockwise h (build_ring n) = filter (\<lambda>v. vn_worker v \<noteq> n) (clockwise h (build_ring (Suc n)))"
    unfolding ring [symmetric] by (simp add: clockwise_def conj_commute)
  then have w: "firsts (map vn_worker (clockwise h (build_ring n))) = filter (\<lambda>w. w \<noteq> n) ws"
    by (simp add: ws_def filter_map o_def flip: firsts_filter)
  have "Some old = replica_set (build_ring n) 2 shard" "Some new = replica_set (build_ring (Suc n)) 2 shard"
    using assms by (simp_all add: replicaSets_def ReplicationFactor_def min_def)
  moreover have "replica_set (build_ring n) 2 shard = Some (take 2 (filter (\<lambda>w. w \<noteq> n) ws))"
    unfolding w [symmetric] h_def by (rule replica_set_eq) (use assms(1) in auto)
  moreover have "replica_set (build_ring (Suc n)) 2 shard = Some (take 2 ws)"
    unfolding ws_def h_def by (rule replica_set_eq) (use assms(1) in auto)
  ultimately have old: "old = take 2 (filter (\<lambda>w. w \<noteq> n) ws)" and new: "new = take 2 ws" by simp_all
  have "length ws = Suc n" "distinct ws" by (simp_all add: ws_def length_firsts ring_workers)
  moreover from this(1) assms(1) have "Suc (Suc (Suc 0)) \<le> length ws" by simp
  then obtain a b c ws' where ws: "ws = a # b # c # ws'" by (auto simp: Suc_le_length_iff)
  ultimately show ?thesis unfolding old new by auto
qed

theorem ring_grows_by_new_worker_witness:
  "\<exists>old new. replicaSets 2 64 ! 5 = Some old \<and> replicaSets 3 64 ! 5 = Some new \<and>
     (new = old \<or> (2 \<in> set new \<and> filter (\<lambda>w. w \<noteq> 2) new = butlast old))"
proof -
  have some: "\<exists>ws. replicaSets n 64 ! 5 = Some ws" if "1 < n" for n
    using that replica_set_eq [of "min ReplicationFactor n" n 5] by (simp add: replicaSets_def)
  obtain old where old: "replicaSets 2 64 ! 5 = Some old" using some [of 2] by auto
  obtain new where new: "replicaSets (Suc 2) 64 ! 5 = Some new" using some [of "Suc 2"] by auto
  show ?thesis using ring_grows_by_new_worker [OF _ _ old new] old new by simp
qed

end
