(* ===== verification/Relay.thy ===== *)
theory Relay
  imports Payment_Rules Ring
begin

section \<open>The outbox relay (internal/relay, internal/adapters/outbox, cmd/server/relay.go)\<close>

text \<open>
  A worker claims events of its shards, hands each to the handlers of its type and then to the
  publisher, and records what became of it: published, to be tried again after a pause, or moved to
  the dead letters. The statements that the relay needs of the outbox table (\<open>outbox.go\<close>) are here too.
  The message bus, the HTTP client of the callbacks and the random source are parameters; the answers
  of the first two may depend on the time.
\<close>

record PendingEvent =
  pe_ID :: uuid
  pe_AggregateID :: uuid
  pe_AggregateType :: string
  pe_EventType :: string
  pe_Payload :: json
  pe_EventVersion :: int
  pe_AggregateVersion :: int
  pe_Attempts :: int
  pe_CreatedAt :: int

type_synonym handler = "PendingEvent \<Rightarrow> (world, unit) comp"

subsection \<open>Claiming and marking events (outbox.go)\<close>

definition pending_event :: "OutboxRow \<Rightarrow> PendingEvent" where
  "pending_event r = \<lparr> pe_ID = o_id r, pe_AggregateID = o_aggregate_id r, pe_AggregateType = o_aggregate_type r,
     pe_EventType = o_event_type r, pe_Payload = o_payload r, pe_EventVersion = o_event_version r,
     pe_AggregateVersion = o_aggregate_version r, pe_Attempts = o_attempts r, pe_CreatedAt = o_created_at r \<rparr>"

definition claimed_as :: "uuid \<Rightarrow> int \<Rightarrow> OutboxRow \<Rightarrow> bool" where
  "claimed_as i createdAt r \<longleftrightarrow> o_id r = i \<and> o_created_at r = createdAt \<and> o_status r = OutboxPublishing"

definition update_events :: "(OutboxRow \<Rightarrow> bool) \<Rightarrow> (OutboxRow \<Rightarrow> OutboxRow) \<Rightarrow> db \<Rightarrow> db" where
  "update_events sel f d = d \<lparr> db_outbox := map (\<lambda>r. if sel r then f r else r) (db_outbox d) \<rparr>"

text \<open>An \<open>UPDATE\<close> through the pool that must hit a row.\<close>

definition mark_event :: "uuid \<Rightarrow> int \<Rightarrow> (OutboxRow \<Rightarrow> OutboxRow) \<Rightarrow> string \<Rightarrow> (world, unit) comp" where
  "mark_event i createdAt f what = bindE (wrapE what answer) (\<lambda>_.
     bindE (reading (\<lambda>w. list_ex (claimed_as i createdAt) (db_outbox (w_db w)))) (\<lambda>hit.
     bindE (changing (\<lambda>w. w \<lparr> w_db := update_events (claimed_as i createdAt) f (w_db w) \<rparr>)) (\<lambda>_.
     if hit then ok () else throw (Errorf what))))"

definition MarkPublished :: "uuid \<Rightarrow> int \<Rightarrow> (world, unit) comp" where
  "MarkPublished i createdAt = mark_event i createdAt (\<lambda>r. r \<lparr> o_status := OutboxPublished, o_locked_at := None \<rparr>)
     ''outbox: mark published''"

definition MarkFailed :: "uuid \<Rightarrow> int \<Rightarrow> string \<Rightarrow> int \<Rightarrow> (world, unit) comp" where
  "MarkFailed i createdAt lastErr nextAttempt = mark_event i createdAt (\<lambda>r. r \<lparr> o_status := OutboxPending,
     o_attempts := o_attempts r + 1, o_last_error := lastErr, o_next_attempt_at := nextAttempt, o_locked_at := None \<rparr>)
     ''outbox: mark failed''"

definition dead_letter :: "OutboxRow \<Rightarrow> uuid \<Rightarrow> string \<Rightarrow> int \<Rightarrow> DeadLetterRow" where
  "dead_letter r did lastErr now = \<lparr> dl_id = did, dl_original_event_id = o_id r, dl_aggregate_id = o_aggregate_id r,
     dl_aggregate_type = o_aggregate_type r, dl_event_type = o_event_type r, dl_payload = o_payload r,
     dl_event_version = o_event_version r, dl_aggregate_version = o_aggregate_version r, dl_failure_reason = lastErr,
     dl_failed_at = now, dl_resolved_at = None, dl_resolved_by = '''' \<rparr>"

text \<open>\<open>withTx\<close> differs from \<open>WithinTx\<close> in the text of a commit error only.\<close>

definition MarkExhausted :: "env \<Rightarrow> uuid \<Rightarrow> int \<Rightarrow> string \<Rightarrow> (world, unit) comp" where
  "MarkExhausted ev i createdAt lastErr = WithinTx (
     bindE (query (\<lambda>d. find (claimed_as i createdAt) (db_outbox d))) (\<lambda>found. case found of
       None \<Rightarrow> throw (Errorf ''outbox: exhaust event'')
     | Some r \<Rightarrow>
         bindE (changing (put_db (update_events (claimed_as i createdAt)
           (\<lambda>r. r \<lparr> o_status := OutboxFailed, o_last_error := lastErr, o_locked_at := None \<rparr>)))) (\<lambda>_.
         bindE (NewUUID ev) (\<lambda>did. bindE Now (\<lambda>now.
         wrapE ''outbox: write dead letter'' (exec (\<lambda>d. d \<lparr> db_dead_letters := db_dead_letters d @ [dead_letter r did lastErr now] \<rparr>)))))))"

definition due :: "int \<Rightarrow> int \<Rightarrow> nat list \<Rightarrow> OutboxRow \<Rightarrow> bool" where
  "due now claimTTLSec shards r \<longleftrightarrow> o_shard_index r \<in> set shards \<and> o_next_attempt_at r \<le> now \<and>
     (o_status r = OutboxPending \<or> (o_status r = OutboxPublishing \<and>
        (case o_locked_at r of Some l \<Rightarrow> l < now - claimTTLSec * Second | None \<Rightarrow> False)))"

definition claim_batch :: "int \<Rightarrow> int \<Rightarrow> nat list \<Rightarrow> nat \<Rightarrow> db \<Rightarrow> OutboxRow list" where
  "claim_batch now claimTTLSec shards batchSize d =
     take batchSize (sort_key o_attempts (sort_key o_created_at (filter (due now claimTTLSec shards) (db_outbox d))))"

definition same_key :: "OutboxRow \<Rightarrow> OutboxRow \<Rightarrow> bool" where
  "same_key r q \<longleftrightarrow> o_id r = o_id q \<and> o_created_at r = o_created_at q"

text \<open>One statement claims the rows and returns them; here in the order of the claim.\<close>

definition PollPending :: "int \<Rightarrow> nat list \<Rightarrow> nat \<Rightarrow> (world, PendingEvent list) comp" where
  "PollPending claimTTL shards batchSize = (let claimTTLSec = quot64 claimTTL Second in
     if shards = [] then ok []
     else bindE (wrapE ''outbox: poll pending'' answer) (\<lambda>_. bindE Now (\<lambda>now.
       bindE (reading (\<lambda>w. claim_batch now claimTTLSec shards batchSize (w_db w))) (\<lambda>batch.
       bindE (changing (\<lambda>w. w \<lparr> w_db := update_events (\<lambda>r. list_ex (same_key r) batch)
         (\<lambda>r. r \<lparr> o_status := OutboxPublishing, o_locked_at := Some now \<rparr>) (w_db w) \<rparr>)) (\<lambda>_.
       ok (map pending_event batch))))))"

subsection \<open>Dead letters (outbox.go)\<close>

definition deadLetterOwnedByTenant :: "uuid \<Rightarrow> uuid \<Rightarrow> db \<Rightarrow> bool" where
  "deadLetterOwnedByTenant aggregateID tenantID d =
     (case txn_of d aggregateID of None \<Rightarrow> False | Some t \<Rightarrow> t_TenantID t = tenantID)"

definition letter_of :: "db \<Rightarrow> uuid \<Rightarrow> DeadLetterRow option" where
  "letter_of d i = lookup_row dl_id i (db_dead_letters d)"

definition replay_event :: "DeadLetterRow \<Rightarrow> uuid \<Rightarrow> OutboxEvent" where
  "replay_event l rid = \<lparr> oe_ID = rid, oe_AggregateID = dl_aggregate_id l, oe_AggregateType = dl_aggregate_type l,
     oe_EventType = dl_event_type l, oe_Payload = dl_payload l, oe_EventVersion = dl_event_version l,
     oe_AggregateVersion = dl_aggregate_version l, oe_NextAttemptAt = None \<rparr>"

definition replay_row :: "env \<Rightarrow> DeadLetterRow \<Rightarrow> uuid \<Rightarrow> int \<Rightarrow> OutboxRow" where
  "replay_row ev l rid now = (outbox_row ev (replay_event l rid) rid now) \<lparr> o_event_version := dl_event_version l \<rparr>"

definition replay_tx :: "env \<Rightarrow> uuid \<Rightarrow> uuid \<Rightarrow> string \<Rightarrow> uuid \<Rightarrow> (world, uuid) comp" where
  "replay_tx ev tenantID deadLetterID actor newEventID =
     bindE (query (\<lambda>d. letter_of d deadLetterID)) (\<lambda>found. case found of
       None \<Rightarrow> throw (Errorf ''outbox: dead letter not found'')
     | Some l \<Rightarrow>
         if dl_resolved_at l \<noteq> None then throw (Errorf ''outbox: dead letter already resolved'')
         else bindE (if tenantID = uuid_Nil then ok True
                     else query (deadLetterOwnedByTenant (dl_aggregate_id l) tenantID)) (\<lambda>owned.
           if \<not> owned then throw (Errorf ''outbox: dead letter not found'')
           else bindE Now (\<lambda>now.
             bindE (wrapE ''outbox: re-enqueue dead letter''
               (exec (\<lambda>d. d \<lparr> db_outbox := db_outbox d @ [replay_row ev l newEventID now] \<rparr>))) (\<lambda>_.
             bindE (wrapE ''outbox: resolve dead letter'' (exec (\<lambda>d. d \<lparr> db_dead_letters := update_row dl_id deadLetterID
               (\<lambda>l. l \<lparr> dl_resolved_at := Some now, dl_resolved_by := actor \<rparr>) (db_dead_letters d) \<rparr>))) (\<lambda>_.
             ok newEventID)))))"

definition ReplayDeadLetter :: "env \<Rightarrow> uuid \<Rightarrow> uuid \<Rightarrow> string \<Rightarrow> (world, uuid) comp" where
  "ReplayDeadLetter ev tenantID deadLetterID actor = bindE (NewUUID ev) (\<lambda>newEventID.
     WithinTx (replay_tx ev tenantID deadLetterID actor newEventID))"

record DeadLetterFilter =
  df_TenantID :: uuid
  df_Resolved :: "bool option"
  df_EventType :: "string option"
  df_DateFrom :: "int option"
  df_DateTo :: "int option"
  df_Limit :: int

definition letter_matches :: "DeadLetterFilter \<Rightarrow> db \<Rightarrow> DeadLetterRow \<Rightarrow> bool" where
  "letter_matches f d l \<longleftrightarrow>
     (df_TenantID f = uuid_Nil \<or> deadLetterOwnedByTenant (dl_aggregate_id l) (df_TenantID f) d) \<and>
     (case df_Resolved f of None \<Rightarrow> True | Some b \<Rightarrow> b = (dl_resolved_at l \<noteq> None)) \<and>
     (case df_EventType f of None \<Rightarrow> True | Some et \<Rightarrow> dl_event_type l = et) \<and>
     (case df_DateFrom f of None \<Rightarrow> True | Some t \<Rightarrow> t \<le> dl_failed_at l) \<and>
     (case df_DateTo f of None \<Rightarrow> True | Some t \<Rightarrow> dl_failed_at l \<le> t)"

definition ListDeadLetters :: "DeadLetterFilter \<Rightarrow> (world, DeadLetterRow list) comp" where
  "ListDeadLetters f = (let limit = (if df_Limit f \<le> 0 \<or> df_Limit f > 100 then 50 else df_Limit f) in
     bindE answer (\<lambda>_. bindE (reading (\<lambda>w. take (nat (limit + 1))
       (sort_key (\<lambda>l. - dl_failed_at l) (filter (letter_matches f (w_db w)) (db_dead_letters (w_db w)))))) (\<lambda>letters.
     ok (if int (length letters) > limit then take (nat limit) letters else letters))))"

subsection \<open>Handlers and routes (adapters/outbox, initiator, refundinitiator, callback)\<close>

fun Router_Publish :: "(string \<times> handler) list \<Rightarrow> handler" where
  "Router_Publish [] e = ok ()"
| "Router_Publish ((et, h) # routes) e =
     (if et \<noteq> ''*'' \<and> et \<noteq> pe_EventType e then Router_Publish routes e
      else bindE (h e) (\<lambda>_. Router_Publish routes e))"

text \<open>Decoding a payload: an object gives the values of the wanted keys, absent ones are empty.\<close>

fun payload_uuid :: "string \<Rightarrow> json \<Rightarrow> uuid option" where
  "payload_uuid k (JObj kvs) = (case map_of kvs k of Some (JUuid u) \<Rightarrow> Some u | _ \<Rightarrow> None)"
| "payload_uuid k _ = None"

fun payload_str :: "string \<Rightarrow> json \<Rightarrow> string option" where
  "payload_str k (JObj kvs) = (case map_of kvs k of None \<Rightarrow> Some '''' | Some (JStr s) \<Rightarrow> Some s | Some _ \<Rightarrow> None)"
| "payload_str k _ = None"

definition initiator_Handle :: "env \<Rightarrow> handler" where
  "initiator_Handle ev e = (case payload_uuid ''transaction_id'' (pe_Payload e) of
     None \<Rightarrow> throw (Errorf ''invalid payload'') | Some txnID \<Rightarrow> ProcessGatewayInitiate ev txnID)"

definition refundinitiator_Handle :: "env \<Rightarrow> handler" where
  "refundinitiator_Handle ev e = (case payload_uuid ''refund_id'' (pe_Payload e) of
     None \<Rightarrow> throw (Errorf ''invalid payload'') | Some refundID \<Rightarrow> bindE (ProcessRefund ev refundID) (\<lambda>_. ok ()))"

type_synonym http_post = "int \<Rightarrow> string \<Rightarrow> json \<Rightarrow> go_error + int"

definition callback_Handle :: "http_post \<Rightarrow> handler" where
  "callback_Handle post e = (case payload_str ''callback_url'' (pe_Payload e) of
     None \<Rightarrow> throw (Errorf ''callback: unmarshal payload'')
   | Some url \<Rightarrow> (case payload_str ''status'' (pe_Payload e) of
       None \<Rightarrow> throw (Errorf ''callback: unmarshal payload'')
     | Some status \<Rightarrow>
         if url = '''' then ok ()
         else bindE Now (\<lambda>now. bindE (wrapE ''callback: http call'' (lift (post now url (JObj [
             (''transaction_id'', case payload_uuid ''transaction_id'' (pe_Payload e) of Some u \<Rightarrow> JUuid u | None \<Rightarrow> JStr ''''),
             (''status'', JStr status)])))) (\<lambda>code.
           if code < 200 \<or> code \<ge> 300 then throw (Errorf ''callback: non-2xx status'') else ok ()))))"

definition base_Handle :: "(int \<Rightarrow> PendingEvent \<Rightarrow> go_error + unit) \<Rightarrow> handler" where
  "base_Handle bus e = bindE Now (\<lambda>now. lift (bus now e))"

definition buildPublisher :: "env \<Rightarrow> http_post \<Rightarrow> (int \<Rightarrow> PendingEvent \<Rightarrow> go_error + unit) \<Rightarrow> handler" where
  "buildPublisher ev post bus = Router_Publish [(EventTypeTransactionCallback, callback_Handle post),
     (EventTypeGatewayInitiate, initiator_Handle ev), (EventTypeRefundInitiated, refundinitiator_Handle ev),
     (''*'', base_Handle bus)]"

subsection \<open>The worker (relay.go)\<close>

record Config =
  cf_Shards :: "nat list"
  cf_BatchSize :: int
  cf_MaxAttempts :: int
  cf_PollInterval :: int
  cf_BaseBackoff :: int
  cf_MaxBackoff :: int

definition NewWorker :: "Config \<Rightarrow> Config" where
  "NewWorker cfg = cfg \<lparr>
     cf_BatchSize := (if cf_BatchSize cfg \<le> 0 then 50 else cf_BatchSize cfg),
     cf_MaxAttempts := (if cf_MaxAttempts cfg \<le> 0 then 5 else cf_MaxAttempts cfg),
     cf_PollInterval := (if cf_PollInterval cfg \<le> 0 then 5 * Second else cf_PollInterval cfg),
     cf_BaseBackoff := (if cf_BaseBackoff cfg \<le> 0 then Second else cf_BaseBackoff cfg),
     cf_MaxBackoff := (if cf_MaxBackoff cfg \<le> 0 then 300 * Second else cf_MaxBackoff cfg) \<rparr>"

text \<open>\<open>rnd n\<close> stands for \<open>rand.Int64N(n)\<close>.\<close>

definition backoff :: "Config \<Rightarrow> (int \<Rightarrow> int) \<Rightarrow> int \<Rightarrow> int" where
  "backoff cfg rnd attempts0 =
    (let attempts = (if attempts0 > 30 then 30 else attempts0);
         d = wrap64 (cf_BaseBackoff cfg * 2 ^ nat attempts);
         d = (if d \<le> 0 \<or> d > cf_MaxBackoff cfg then cf_MaxBackoff cfg else d);
         half = quot64 d 2
     in half + rnd (half + 1))"

definition processEvent :: "env \<Rightarrow> Config \<Rightarrow> (int \<Rightarrow> int) \<Rightarrow> handler \<Rightarrow> PendingEvent \<Rightarrow> (world, bool) comp" where
  "processEvent ev cfg rnd pub e = bindE (attempt (pub e)) (\<lambda>r. case r of
      Inr _ \<Rightarrow> bindE (attempt (MarkPublished (pe_ID e) (pe_CreatedAt e))) (\<lambda>m. ok (case m of Inl _ \<Rightarrow> False | Inr _ \<Rightarrow> True))
    | Inl err \<Rightarrow>
        if pe_Attempts e + 1 \<ge> cf_MaxAttempts cfg
        then bindE (attempt (MarkExhausted ev (pe_ID e) (pe_CreatedAt e) (err_msg err))) (\<lambda>_. ok False)
        else bindE Now (\<lambda>now. bindE (attempt (MarkFailed (pe_ID e) (pe_CreatedAt e) (err_msg err)
               (now + backoff cfg rnd (pe_Attempts e)))) (\<lambda>_. ok False)))"

fun processAll :: "env \<Rightarrow> Config \<Rightarrow> (int \<Rightarrow> int) \<Rightarrow> handler \<Rightarrow> PendingEvent list \<Rightarrow> nat \<Rightarrow> (world, nat) comp" where
  "processAll ev cfg rnd pub [] n = ok n"
| "processAll ev cfg rnd pub (e # es) n = bindE (processEvent ev cfg rnd pub e) (\<lambda>b.
     processAll ev cfg rnd pub es (if b then n + 1 else n))"

definition RunOnce :: "env \<Rightarrow> int \<Rightarrow> Config \<Rightarrow> (int \<Rightarrow> int) \<Rightarrow> handler \<Rightarrow> (world, nat \<times> nat) comp" where
  "RunOnce ev claimTTL cfg rnd pub = bindE (PollPending claimTTL (cf_Shards cfg) (nat (cf_BatchSize cfg))) (\<lambda>events.
     bindE (processAll ev cfg rnd pub events 0) (\<lambda>published. ok (length events, published)))"

text \<open>Whether \<open>Run\<close> polls again at once: a full batch of which something was published.\<close>

definition polls_again :: "Config \<Rightarrow> go_error + nat \<times> nat \<Rightarrow> bool" where
  "polls_again cfg r = (case r of Inl _ \<Rightarrow> False | Inr (n, published) \<Rightarrow> int n \<ge> cf_BatchSize cfg \<and> published > 0)"

text \<open>The worker that \<open>startRelay\<close> sets up.\<close>

definition relay_config :: "nat \<Rightarrow> nat \<Rightarrow> nat \<Rightarrow> int \<Rightarrow> int \<Rightarrow> int \<Rightarrow> Config" where
  "relay_config workerIndex workerCount shardCount batch attempts pollSec = NewWorker \<lparr>
     cf_Shards = OwnedShards workerIndex workerCount shardCount, cf_BatchSize = batch, cf_MaxAttempts = attempts,
     cf_PollInterval = pollSec * Second, cf_BaseBackoff = 0, cf_MaxBackoff = 0 \<rparr>"

end
