(* ===== verification/Relay_Rules.thy ===== *)
theory Relay_Rules
  imports Relay
begin

section \<open>What the relay guarantees\<close>

text \<open>
  No event is lost: it stays in the table until it is published or moved to the dead letters,
  whatever the handlers do and wherever the database stops answering. A claim excludes other workers
  for its time to live, pauses are bounded, and a dead letter is put back once.
\<close>

subsection \<open>Pauses\<close>

lemma wrap64_range: "- (2 ^ 63) \<le> wrap64 x" "wrap64 x < 2 ^ 63"
  by (simp_all add: wrap64_def)

text \<open>The pause before the next attempt is never negative and never longer than the maximum, also
  when the shift overflows; as long as the doubled base fits the maximum, the pause is between half
  of it and all of it.\<close>

theorem backoff_bounded:
  assumes "in64 (cf_MaxBackoff cfg)" "0 \<le> attempts" "\<And>n. 0 < n \<Longrightarrow> 0 \<le> rnd n \<and> rnd n < n"
  shows "0 \<le> backoff (NewWorker cfg) rnd attempts \<and> backoff (NewWorker cfg) rnd attempts \<le> cf_MaxBackoff (NewWorker cfg) \<and>
    (attempts \<le> 30 \<and> cf_BaseBackoff (NewWorker cfg) * 2 ^ nat attempts \<le> cf_MaxBackoff (NewWorker cfg) \<longrightarrow>
      cf_BaseBackoff (NewWorker cfg) * 2 ^ nat attempts div 2 \<le> backoff (NewWorker cfg) rnd attempts \<and>
      backoff (NewWorker cfg) rnd attempts \<le> cf_BaseBackoff (NewWorker cfg) * 2 ^ nat attempts)"
proof -
  let ?c = "NewWorker cfg"
  define a where "a = (if attempts > 30 then 30 else attempts)"
  define d where "d = (let x = wrap64 (cf_BaseBackoff ?c * 2 ^ nat a) in if x \<le> 0 \<or> x > cf_MaxBackoff ?c then cf_MaxBackoff ?c else x)"
  have m: "0 < cf_MaxBackoff ?c" "cf_MaxBackoff ?c < 2 ^ 63" and b: "0 < cf_BaseBackoff ?c"
    using assms(1) by (auto simp: NewWorker_def in64_def)
  have d: "0 < d" "d \<le> cf_MaxBackoff ?c" using m by (auto simp: d_def Let_def)
  have h: "quot64 d 2 = d div 2" using d m by (intro quot64_nonneg) (auto simp: in64_def)
  have r: "0 \<le> rnd (d div 2 + 1)" "rnd (d div 2 + 1) \<le> d div 2" using assms(3) [of "d div 2 + 1"] d by auto
  have e: "backoff ?c rnd attempts = d div 2 + rnd (d div 2 + 1)"
    unfolding backoff_def a_def [symmetric] Let_def d_def [unfolded Let_def, symmetric] h ..
  have "cf_BaseBackoff ?c * 2 ^ nat attempts = d"
    if "attempts \<le> 30" "cf_BaseBackoff ?c * 2 ^ nat attempts \<le> cf_MaxBackoff ?c"
  proof -
    have "0 < cf_BaseBackoff ?c * 2 ^ nat attempts" using b by simp
    then show ?thesis using that m by (simp add: d_def a_def wrap64_def Let_def)
  qed
  with e d r show ?thesis by auto
qed

theorem backoff_bounded_witness:
  "backoff (NewWorker \<lparr> cf_Shards = [0], cf_BatchSize = 0, cf_MaxAttempts = 0, cf_PollInterval = 0, cf_BaseBackoff = 0,
      cf_MaxBackoff = 0 \<rparr>) (\<lambda>n. n - 1) 30 \<le> 300 * Second"
  using backoff_bounded [of "\<lparr> cf_Shards = [0], cf_BatchSize = 0, cf_MaxAttempts = 0, cf_PollInterval = 0, cf_BaseBackoff = 0,
      cf_MaxBackoff = 0 \<rparr>" 30 "\<lambda>n. n - 1"]
  by (simp add: NewWorker_def in64_def)

subsection \<open>Claims\<close>

lemma set_update_events: "set (db_outbox (update_events sel f d)) = (\<lambda>r. if sel r then f r else r) ` set (db_outbox d)"
  by (simp add: update_events_def)

lemma claim_batch_due: "r \<in> set (claim_batch now ttl shards n d) \<Longrightarrow> r \<in> set (db_outbox d) \<and> due now ttl shards r"
  by (auto simp: claim_batch_def dest: in_set_takeD)

lemma claim_batch_all:
  "length (filter (due now ttl shards) (db_outbox d)) \<le> n \<Longrightarrow> set (claim_batch now ttl shards n d) = {r \<in> set (db_outbox d). due now ttl shards r}"
  by (auto simp: claim_batch_def)

lemma PollPending_Inr:
  assumes "PollPending claimTTL shards n w = (Inr es, w')"
  obtains (none) "shards = []" "es = []" "w' = w"
  | (batch) "es = map pending_event (claim_batch (w_clock w) (quot64 claimTTL Second) shards n (w_db w))"
      "w_db w' = update_events (\<lambda>r. list_ex (same_key r) (claim_batch (w_clock w) (quot64 claimTTL Second) shards n (w_db w)))
         (\<lambda>r. r \<lparr> o_status := OutboxPublishing, o_locked_at := Some (w_clock w) \<rparr>) (w_db w)"
proof (cases "shards = []")
  case True
  with assms show thesis by (intro none) (simp_all add: PollPending_def ok_def)
next
  case False
  show thesis
  proof (cases "w_budget w = Some 0")
    case True
    with assms False show thesis by (simp add: PollPending_def Let_def bindE_def wrapE_def answer_def)
  next
    case False
    with assms \<open>shards \<noteq> []\<close> show thesis
      by (intro batch) (auto simp: PollPending_def Let_def bindE_def wrapE_def answer_def Now_def reading_def changing_def ok_def)
  qed
qed

text \<open>C27. A claim is exclusive: while its time to live lasts, no worker, whatever its shards, is given an
  event that another one has claimed and not yet marked.\<close>

theorem claims_exclusive:
  assumes "PollPending claimTTL shards n w = (Inr es, w1)" "PollPending claimTTL shards' n' w2 = (Inr es', w3)"
    and "db_outbox (w_db w2) = db_outbox (w_db w1)" "w_clock w2 \<le> w_clock w + quot64 claimTTL Second * Second"
    and "e \<in> set es" "e' \<in> set es'"
  shows "(pe_ID e, pe_CreatedAt e) \<noteq> (pe_ID e', pe_CreatedAt e')"
proof
  assume eq: "(pe_ID e, pe_CreatedAt e) = (pe_ID e', pe_CreatedAt e')"
  let ?b = "claim_batch (w_clock w) (quot64 claimTTL Second) shards n (w_db w)"
  have w1: "es = map pending_event ?b" "w_db w1 = update_events (\<lambda>r. list_ex (same_key r) ?b)
         (\<lambda>r. r \<lparr> o_status := OutboxPublishing, o_locked_at := Some (w_clock w) \<rparr>) (w_db w)"
    using assms(1,5) by (auto elim: PollPending_Inr)
  have w3: "es' = map pending_event (claim_batch (w_clock w2) (quot64 claimTTL Second) shards' n' (w_db w2))"
    using assms(2,6) by (auto elim: PollPending_Inr)
  obtain q where q: "q \<in> set ?b" "e = pending_event q" using assms(5) w1 by auto
  obtain r where r: "r \<in> set (db_outbox (w_db w2))" "due (w_clock w2) (quot64 claimTTL Second) shards' r" "e' = pending_event r"
    using assms(6) w3 claim_batch_due by fastforce
  have "r \<in> (\<lambda>r. if list_ex (same_key r) ?b then r \<lparr> o_status := OutboxPublishing, o_locked_at := Some (w_clock w) \<rparr> else r) `
      set (db_outbox (w_db w))"
    using r(1) assms(3) w1(2) set_update_events by metis
  then obtain r0 where r0: "r = (if list_ex (same_key r0) ?b then r0 \<lparr> o_status := OutboxPublishing, o_locked_at := Some (w_clock w) \<rparr> else r0)"
    by blast
  have "o_id r0 = o_id r" "o_created_at r0 = o_created_at r" using r0 by (auto split: if_splits)
  then have "same_key r0 q" using eq q(2) r(3) by (simp add: same_key_def pending_event_def)
  then have "list_ex (same_key r0) ?b" using q(1) by (auto simp: list_ex_iff)
  then have "o_status r = OutboxPublishing" "o_locked_at r = Some (w_clock w)" using r0 by auto
  with r(2) assms(4) show False by (simp add: due_def)
qed

text \<open>A due event is claimed by the next poll of a worker that owns its shard, when the batch has room.\<close>

lemma due_event_claimed:
  assumes "w_budget w \<noteq> Some 0" "r \<in> set (db_outbox (w_db w))" "due (w_clock w) (quot64 claimTTL Second) shards r"
    and "length (filter (due (w_clock w) (quot64 claimTTL Second) shards) (db_outbox (w_db w))) \<le> n"
  shows "\<exists>es w'. PollPending claimTTL shards n w = (Inr es, w') \<and> pending_event r \<in> set es"
proof -
  have "shards \<noteq> []" using assms(3) by (auto simp: due_def)
  then show ?thesis
    using assms claim_batch_all [OF assms(4)]
    by (simp add: PollPending_def Let_def bindE_def wrapE_def answer_def Now_def reading_def changing_def ok_def)
qed

subsection \<open>No event is lost\<close>

definition same_event :: "OutboxRow \<Rightarrow> OutboxRow \<Rightarrow> bool" where
  "same_event r q \<longleftrightarrow> same_key r q \<and> o_aggregate_id r = o_aggregate_id q \<and> o_aggregate_type r = o_aggregate_type q \<and>
     o_event_type r = o_event_type q \<and> o_payload r = o_payload q \<and> o_event_version r = o_event_version q \<and>
     o_aggregate_version r = o_aggregate_version q"

definition letter_for :: "OutboxRow \<Rightarrow> DeadLetterRow \<Rightarrow> bool" where
  "letter_for r l \<longleftrightarrow> dl_original_event_id l = o_id r \<and> dl_aggregate_id l = o_aggregate_id r \<and> dl_aggregate_type l = o_aggregate_type r \<and>
     dl_event_type l = o_event_type r \<and> dl_payload l = o_payload r \<and> dl_event_version l = o_event_version r \<and>
     dl_aggregate_version l = o_aggregate_version r"

text \<open>Whatever the relay gave up on has its dead letter.\<close>

definition letters_cover :: "db \<Rightarrow> bool" where
  "letters_cover d \<longleftrightarrow> (\<forall>r \<in> set (db_outbox d). o_status r = OutboxFailed \<longrightarrow>
     (\<exists>q \<in> set (db_outbox d). same_key r q \<and> (\<exists>l \<in> set (db_dead_letters d). letter_for q l)))"

definition outbox_kept :: "OutboxRow set \<Rightarrow> db \<Rightarrow> bool" where
  "outbox_kept R d \<longleftrightarrow> letters_cover d \<and> (\<forall>r \<in> R. \<exists>q \<in> set (db_outbox d). same_event r q)"

lemma same_event_trans: "same_event r q \<Longrightarrow> same_event q p \<Longrightarrow> same_event r p"
  by (simp add: same_event_def same_key_def)

lemma outbox_kept_cong: "db_outbox d' = db_outbox d \<Longrightarrow> db_dead_letters d' = db_dead_letters d \<Longrightarrow> outbox_kept R d' = outbox_kept R d"
  by (simp add: outbox_kept_def letters_cover_def)

lemma outbox_kept_update:
  assumes "outbox_kept R d" "\<And>r. same_event r (f r)"
    and "\<And>r. r \<in> set (db_outbox d) \<Longrightarrow> sel r \<Longrightarrow> o_status (f r) = OutboxFailed \<Longrightarrow>
      \<exists>q \<in> set (db_outbox d). same_key r q \<and> (\<exists>l \<in> set ls. letter_for q l)"
  shows "outbox_kept R (update_events sel f d \<lparr> db_dead_letters := db_dead_letters d @ ls \<rparr>)"
proof -
  let ?g = "\<lambda>r. if sel r then f r else r" and ?d' = "update_events sel f d \<lparr> db_dead_letters := db_dead_letters d @ ls \<rparr>"
  have g: "same_event r (?g r)" for r using assms(2) by (simp add: same_event_def same_key_def)
  then have l: "letter_for (?g r) l = letter_for r l" and k: "same_key q (?g r) = same_key q r" "same_key (?g r) q = same_key r q" for q r l
    by (simp_all add: letter_for_def same_event_def same_key_def)
  have s: "set (db_outbox ?d') = ?g ` set (db_outbox d)" by (simp add: set_update_events)
  have "\<exists>q \<in> set (db_outbox d). same_key r q \<and> (\<exists>l \<in> set (db_dead_letters ?d'). letter_for q l)"
    if "r \<in> set (db_outbox d)" "o_status (?g r) = OutboxFailed" for r
  proof (cases "sel r")
    case True
    with assms(3) [OF that(1)] that(2) show ?thesis by (auto simp: update_events_def)
  next
    case False
    with assms(1) that show ?thesis by (fastforce simp: outbox_kept_def letters_cover_def update_events_def)
  qed
  note fail = this
  have "letters_cover ?d'"
    unfolding letters_cover_def
  proof (intro ballI impI)
    fix r' assume "r' \<in> set (db_outbox ?d')" "o_status r' = OutboxFailed"
    then obtain r where r: "r \<in> set (db_outbox d)" "r' = ?g r" "o_status (?g r) = OutboxFailed" unfolding s by blast
    from fail [OF r(1,3)] obtain q lt where q: "q \<in> set (db_outbox d)" "same_key r q" "lt \<in> set (db_dead_letters ?d')" "letter_for q lt"
      by blast
    have "?g q \<in> set (db_outbox ?d')" unfolding s using q(1) by (rule imageI)
    moreover have "same_key r' (?g q)" unfolding r(2) k by (rule q(2))
    moreover have "letter_for (?g q) lt" unfolding l by (rule q(4))
    ultimately show "\<exists>q \<in> set (db_outbox ?d'). same_key r' q \<and> (\<exists>l \<in> set (db_dead_letters ?d'). letter_for q l)"
      using q(3) by blast
  qed
  moreover have "\<exists>q \<in> set (db_outbox ?d'). same_event r q" if "r \<in> R" for r
  proof -
    from assms(1) that obtain q where "q \<in> set (db_outbox d)" "same_event r q" by (auto simp: outbox_kept_def)
    with g [of q] same_event_trans show ?thesis unfolding s by blast
  qed
  ultimately show ?thesis by (simp add: outbox_kept_def)
qed

lemmas outbox_kept_mark = outbox_kept_update [where ls = "[]", simplified]

interpretation obk: refund_closed "outbox_kept R" for R
proof
  fix d and e :: OutboxRow assume "outbox_kept R d" "o_status e = OutboxPending"
  then show "outbox_kept R (d \<lparr> db_outbox := db_outbox d @ [e] \<rparr>)"
    by (fastforce simp: outbox_kept_def letters_cover_def)
qed (auto intro!: outbox_kept_cong simp: core_def elim!: outbox_kept_cong [THEN iffD1, rotated 2])

lemma outbox_kept_free [simp]:
  "outbox_kept R (d \<lparr> db_leases := x \<rparr>) = outbox_kept R d" "outbox_kept R (d \<lparr> db_idem := y \<rparr>) = outbox_kept R d"
  by (simp_all add: outbox_kept_def letters_cover_def)

text \<open>Initiating a payment leaves the two tables alone.\<close>

definition boxes :: "db \<Rightarrow> OutboxRow list \<times> DeadLetterRow list" where
  "boxes d = (db_outbox d, db_dead_letters d)"

lemma boxes_free [simp]:
  "boxes (d \<lparr> db_transactions := a \<rparr>) = boxes d" "boxes (d \<lparr> db_gateway_metadata := b \<rparr>) = boxes d"
  "boxes (case sql_update_status now t d of Inr (_, d') \<Rightarrow> d' | Inl _ \<Rightarrow> d) = boxes d"
  "boxes (case sql_update_reference now i g v d of Inr (_, d') \<Rightarrow> d' | Inl _ \<Rightarrow> d) = boxes d"
  by (simp_all add: boxes_def sql_update_status_def sql_update_reference_def split: option.splits)

lemma keeps_boxes_prims [hoare]:
  "keeps (\<lambda>w. boxes (cur_db w) = K) answer" "keeps (\<lambda>w. boxes (cur_db w) = K) stmt"
  "keeps (\<lambda>w. boxes (cur_db w) = K) txFromContext" "keeps (\<lambda>w. boxes (cur_db w) = K) (sql_error s)"
  "keeps (\<lambda>w. boxes (cur_db w) = K) (lock_txn_row i)" "keeps (\<lambda>w. boxes (cur_db w) = K) Now"
  "keeps (\<lambda>w. boxes (cur_db w) = K) (query g)" "keeps (\<lambda>w. boxes (cur_db w) = K) (changing (\<lambda>w. w \<lparr> w_refcache := f2 w \<rparr>))"
  "keeps (\<lambda>w. boxes (cur_db w) = K) (changing (\<lambda>w. w \<lparr> w_bus := f3 w \<rparr>))"
  "keeps (\<lambda>w. boxes (cur_db w) = K) (changing (\<lambda>w. w \<lparr> w_audit := f4 w \<rparr>))"
  "(\<And>d. boxes (f d) = boxes d) \<Longrightarrow> keeps (\<lambda>w. boxes (cur_db w) = K) (changing (put_db f))"
  by (auto simp: keeps_def answer_def stmt_def txFromContext_def sql_error_def lock_txn_row_def changing_def query_def bindE_def
      Now_def reading_def cur_db_def put_db_def split: list.splits)

lemma keeps_boxes_deferring [hoare]:
  "keeps (\<lambda>w. boxes (cur_db w) = K) m \<Longrightarrow> keeps (\<lambda>w. boxes (cur_db w) = K) (deferring (invalidateCache i) m)"
  by (auto simp: keeps_def deferring_def split: prod.splits)

lemma keeps_boxes_record: "keeps (\<lambda>w. boxes (cur_db w) = K) (initiate_record t resp)"
  unfolding initiate_record_def UpdateGatewayReference_def InsertGatewayMetadata_def Txn_UpdateStatus_def audit_def WriteEntry_def
    Publish_def run_update_def Let_def
  by (intro hoare; simp)

lemma keeps_kept_initiate: "keeps (settled (outbox_kept R)) (ProcessGatewayInitiate ev i)"
proof -
  have "keeps (settled (outbox_kept R)) (WithinTx (initiate_record t resp))" for t resp
  proof (rule keeps_WithinTx [OF keeps_tx_bodies(5)])
    fix w a w2 assume w: "settled (outbox_kept R) w" and f: "initiate_record t resp (open_tx w) = (Inr a, w2)"
    have "boxes (cur_db w2) = boxes (w_db w)" by (rule keepsD [OF keeps_boxes_record _ f]) simp
    then have "outbox_kept R (cur_db w2) = outbox_kept R (w_db w)" by (intro outbox_kept_cong) (simp_all add: boxes_def)
    with w show "outbox_kept R (cur_db w2)" by (simp add: settled_def)
  qed
  then show ?thesis
    unfolding ProcessGatewayInitiate_def initiate_leased_def Let_def
    by (intro hoare keeps_TryAcquireDirect) simp_all
qed

lemma keeps_kept_publisher: "keeps (settled (outbox_kept R)) (buildPublisher ev post bus e)"
  unfolding buildPublisher_def Router_Publish.simps callback_Handle_def initiator_Handle_def refundinitiator_Handle_def base_Handle_def
  by (intro hoare keeps_kept_initiate obk.ProcessRefund_keeps)

text \<open>The marks of the worker.\<close>

lemma db_transactions_update_events [simp]: "db_transactions (update_events sel f d) = db_transactions d"
  by (simp add: update_events_def)

lemma keeps_kept_mark:
  assumes "\<And>r. same_event r (f r)" "\<And>r. o_status (f r) \<noteq> OutboxFailed"
  shows "keeps (settled (outbox_kept R)) (changing (\<lambda>w. w \<lparr> w_db := update_events (sel w) f (w_db w) \<rparr>))"
proof (rule keeps_changing)
  fix w assume "settled (outbox_kept R) w"
  then show "settled (outbox_kept R) (w \<lparr> w_db := update_events (sel w) f (w_db w) \<rparr>)"
    using outbox_kept_mark [of R "w_db w" f "sel w"] assms
    by (simp add: settled_def coh_def update_events_def)
qed

lemma keeps_kept_statements:
  "keeps (settled (outbox_kept R)) (PollPending claimTTL shards n)" "keeps (settled (outbox_kept R)) (MarkPublished i c)"
  "keeps (settled (outbox_kept R)) (MarkFailed i c err next)"
  unfolding PollPending_def MarkPublished_def MarkFailed_def mark_event_def Let_def
  by (intro hoare keeps_kept_mark; simp add: same_event_def same_key_def)+

lemma keeps_kept_MarkExhausted: "keeps (settled (outbox_kept R)) (MarkExhausted ev i c err)"
  unfolding MarkExhausted_def
proof (rule keeps_WithinTx)
  let ?sel = "claimed_as i c" and ?f = "\<lambda>r. r \<lparr> o_status := OutboxFailed, o_last_error := err, o_locked_at := None \<rparr>"
  let ?body = "bindE (query (\<lambda>d. find ?sel (db_outbox d))) (\<lambda>found. case found of
       None \<Rightarrow> throw (Errorf ''outbox: exhaust event'')
     | Some r \<Rightarrow>
         bindE (changing (put_db (update_events ?sel ?f))) (\<lambda>_.
         bindE (NewUUID ev) (\<lambda>did. bindE Now (\<lambda>now.
         wrapE ''outbox: write dead letter'' (exec (\<lambda>d. d \<lparr> db_dead_letters := db_dead_letters d @ [dead_letter r did err now] \<rparr>))))))"
  show "keeps (tx_inv D fs) ?body" for D fs by (intro hoare) simp_all
  fix w a w2 assume w: "settled (outbox_kept R) w" and b: "?body (open_tx w) = (Inr a, w2)"
  from b obtain r did now where r: "find ?sel (db_outbox (w_db w)) = Some r"
    and d: "cur_db w2 = (update_events ?sel ?f (w_db w)) \<lparr> db_dead_letters := db_dead_letters (w_db w) @ [dead_letter r did err now] \<rparr>"
    by (auto simp: run NewUUID_def update_events_def split: option.splits)
  have q: "r \<in> set (db_outbox (w_db w))" "?sel r" using r by (auto simp: find_Some_iff in_set_conv_nth)
  show "outbox_kept R (cur_db w2)"
    unfolding d
  proof (rule outbox_kept_update)
    fix s assume "?sel s"
    then have "same_key s r" using q(2) by (simp add: claimed_as_def same_key_def)
    moreover have "letter_for r (dead_letter r did err now)" by (simp add: letter_for_def dead_letter_def)
    ultimately show "\<exists>q \<in> set (db_outbox (w_db w)). same_key s q \<and> (\<exists>l \<in> set [dead_letter r did err now]. letter_for q l)"
      using q(1) by auto
  qed (use w in \<open>simp_all add: settled_def same_event_def same_key_def\<close>)
qed

lemma keeps_kept_processAll:
  assumes "\<And>e. keeps (settled (outbox_kept R)) (pub e)"
  shows "keeps (settled (outbox_kept R)) (processAll ev cfg rnd pub es n)"
proof (induction es arbitrary: n)
  case (Cons e es)
  show ?case
    unfolding processAll.simps processEvent_def
    by (intro hoare assms Cons.IH keeps_kept_statements keeps_kept_MarkExhausted)
qed (simp add: hoare)

lemma keeps_kept_RunOnce: "keeps (settled (outbox_kept R)) (RunOnce ev claimTTL cfg rnd (buildPublisher ev post bus))"
  unfolding RunOnce_def by (intro hoare keeps_kept_statements keeps_kept_processAll keeps_kept_publisher)

text \<open>C5. No event is lost: after a round of a relay worker with the service's own handlers, whatever the
  handlers, the message bus and the database answered and wherever it was cut off, every event that
  was in the outbox is still there with its content, and every event that the relay has given up on
  has a dead letter with that content.\<close>

theorem no_event_lost:
  assumes "coh w" "w_tx w = []" "letters_cover (w_db w)" "r \<in> set (db_outbox (w_db w))"
  shows "letters_cover (w_db (snd (RunOnce ev claimTTL cfg rnd (buildPublisher ev post bus) w))) \<and>
    (\<exists>q \<in> set (db_outbox (w_db (snd (RunOnce ev claimTTL cfg rnd (buildPublisher ev post bus) w)))). same_event r q)"
proof -
  have "settled (outbox_kept {r}) w"
    using assms by (auto simp: settled_def outbox_kept_def same_event_def same_key_def)
  with keeps_kept_RunOnce [of "{r}" ev claimTTL cfg rnd post bus] show ?thesis
    by (auto simp: keeps_def settled_def outbox_kept_def)
qed

subsection \<open>What becomes of an event\<close>

lemma MarkExhausted_rows:
  assumes "coh w" "w_tx w = []" "MarkExhausted ev i c err w = (r, w')"
  shows "q \<in> set (db_outbox (w_db w')) \<Longrightarrow> q \<in> set (db_outbox (w_db w)) \<or> o_status q = OutboxFailed"
proof -
  let ?P = "\<lambda>d. \<forall>q \<in> set (db_outbox d). q \<in> set (db_outbox (w_db w)) \<or> o_status q = OutboxFailed"
  have "settled ?P w'"
    using assms(3) unfolding MarkExhausted_def
  proof (rule WithinTx_post [rotated 2])
    show "settled ?P w" using assms by (simp add: settled_def)
  qed (auto intro!: hoare simp: run NewUUID_def update_events_def split: option.splits)
  then show "q \<in> set (db_outbox (w_db w')) \<Longrightarrow> q \<in> set (db_outbox (w_db w)) \<or> o_status q = OutboxFailed"
    by (simp add: settled_def)
qed

lemma mark_event_rows:
  assumes "q \<in> set (db_outbox (w_db (snd (mark_event i c f what w))))"
  shows "q \<in> set (db_outbox (w_db w)) \<or> (\<exists>r. claimed_as i c r \<and> q = f r)"
  using assms
  by (auto simp: mark_event_def bindE_def wrapE_def answer_def reading_def changing_def ok_def throw_def update_events_def split: if_splits)

text \<open>C26. An event counts as published only after it was handed over: the worker marks an event PUBLISHED
  only when it is the event it has in hand and all its handlers have accepted it.\<close>

theorem published_only_after_delivery:
  assumes "processEvent ev cfg rnd pub e w = (r, w')" "pub e w = (x, w1)" "coh w1" "w_tx w1 = []"
    and "q \<in> set (db_outbox (w_db w'))" "o_status q = OutboxPublished"
  shows "q \<in> set (db_outbox (w_db w1)) \<or> (x = Inr () \<and> o_id q = pe_ID e \<and> o_created_at q = pe_CreatedAt e)"
proof (cases x)
  case (Inr u)
  have "w' = snd (MarkPublished (pe_ID e) (pe_CreatedAt e) w1)"
    using assms(1,2) Inr by (auto simp: processEvent_def bindE_def attempt_def ok_def split: prod.splits)
  with assms(5) Inr show ?thesis
    unfolding MarkPublished_def by (auto simp: claimed_as_def dest!: mark_event_rows)
next
  case (Inl err)
  show ?thesis
  proof (cases "pe_Attempts e + 1 \<ge> cf_MaxAttempts cfg")
    case True
    define m where "m = MarkExhausted ev (pe_ID e) (pe_CreatedAt e) (err_msg err)"
    have "w' = snd (m w1)"
      using assms(1,2) Inl True by (auto simp: processEvent_def bindE_def attempt_def ok_def m_def split: prod.splits)
    then have "m w1 = (fst (m w1), w')" by simp
    from MarkExhausted_rows [OF assms(3,4) this [unfolded m_def], of q] assms(5,6) show ?thesis by auto
  next
    case False
    define m where "m = MarkFailed (pe_ID e) (pe_CreatedAt e) (err_msg err) (w_clock w1 + backoff cfg rnd (pe_Attempts e))"
    have "w' = snd (m w1)"
      using assms(1,2) Inl False by (auto simp: processEvent_def bindE_def attempt_def ok_def Now_def reading_def m_def split: prod.splits)
    with assms(5,6) show ?thesis
      unfolding m_def MarkFailed_def by (auto dest!: mark_event_rows)
  qed
qed

text \<open>C28. A dead letter is put back once and whole: replaying it adds one event to the outbox, pending and
  untried, with the type, payload, aggregate and versions of the letter, and every later attempt, by
  whoever, is refused and changes no table.\<close>

theorem dead_letter_replayed_once:
  assumes "ReplayDeadLetter ev tenantID i actor w = (Inr nid, w1)"
    and "db_dead_letters (w_db w2) = db_dead_letters (w_db w1)" "coh w2"
  shows "(\<exists>l q. letter_of (w_db w) i = Some l \<and> db_outbox (w_db w1) = db_outbox (w_db w) @ [q] \<and>
      o_id q = nid \<and> o_status q = OutboxPending \<and> o_attempts q = 0 \<and> o_locked_at q = None \<and>
      o_event_type q = dl_event_type l \<and> o_payload q = dl_payload l \<and> o_aggregate_id q = dl_aggregate_id l \<and>
      o_aggregate_type q = dl_aggregate_type l \<and> o_aggregate_version q = dl_aggregate_version l \<and>
      o_event_version q = dl_event_version l \<and> o_shard_index q = ShardIndex (dl_aggregate_id l) (ev_shard_count ev)) \<and>
    (\<exists>er. fst (ReplayDeadLetter ev tenantID' i actor' w2) = Inl er) \<and>
    w_db (snd (ReplayDeadLetter ev tenantID' i actor' w2)) = w_db w2"
proof -
  have tx: "keeps (tx_inv D fs) (replay_tx ev t i a n)" for D fs t a n
    unfolding replay_tx_def by (intro hoare; simp)
  have split: "ReplayDeadLetter ev t i a v = WithinTx (replay_tx ev t i a (ev_uuid ev (w_seq v))) (v \<lparr> w_seq := Suc (w_seq v) \<rparr>)" for t a v
    by (simp add: ReplayDeadLetter_def bindE_def NewUUID_def)
  from assms(1) obtain l now where l: "letter_of (w_db w) i = Some l" "db_outbox (w_db w1) = db_outbox (w_db w) @ [replay_row ev l nid now]"
    and letters: "db_dead_letters (w_db w1) = update_row dl_id i (\<lambda>l. l \<lparr> dl_resolved_at := Some now, dl_resolved_by := actor \<rparr>)
       (db_dead_letters (w_db w))"
    unfolding split replay_tx_def by (auto simp: run split: option.splits if_splits)
  have resolved: "\<exists>l'. letter_of (w_db w2) i = Some l' \<and> dl_resolved_at l' \<noteq> None"
    using l(1) by (simp add: letter_of_def assms(2) letters)
  obtain r w3 where r: "ReplayDeadLetter ev tenantID' i actor' w2 = (r, w3)" by fastforce
  with resolved obtain er where er: "r = Inl er"
    by (cases r) (auto simp: split replay_tx_def run split: option.splits if_splits)
  from WithinTx_Inl [OF tx _ r [unfolded split er]] assms(3) have "w_db w3 = w_db w2" by (simp add: coh_def)
  moreover have "\<exists>l q. letter_of (w_db w) i = Some l \<and> db_outbox (w_db w1) = db_outbox (w_db w) @ [q] \<and>
      o_id q = nid \<and> o_status q = OutboxPending \<and> o_attempts q = 0 \<and> o_locked_at q = None \<and>
      o_event_type q = dl_event_type l \<and> o_payload q = dl_payload l \<and> o_aggregate_id q = dl_aggregate_id l \<and>
      o_aggregate_type q = dl_aggregate_type l \<and> o_aggregate_version q = dl_aggregate_version l \<and>
      o_event_version q = dl_event_version l \<and> o_shard_index q = ShardIndex (dl_aggregate_id l) (ev_shard_count ev)"
    by (intro exI conjI, rule l(1), rule l(2)) (simp_all add: replay_row_def outbox_row_def replay_event_def)
  ultimately show ?thesis using r er by (simp only: fst_conv snd_conv) blast
qed

subsection \<open>Examples\<close>

definition sample_event :: "nat \<Rightarrow> OutboxStatus \<Rightarrow> OutboxRow" where
  "sample_event n st = \<lparr> o_id = of_nat n, o_aggregate_id = 1, o_aggregate_type = ''transaction'', o_event_type = EventTypeTransactionCreated,
     o_payload = JObj [], o_shard_index = 0, o_event_version = 1, o_aggregate_version = 1, o_status = st, o_created_at = int n,
     o_next_attempt_at = 0, o_attempts = 0, o_locked_at = None, o_last_error = '''' \<rparr>"

definition relay_world :: "OutboxRow list \<Rightarrow> world" where
  "relay_world rs = sample_world \<lparr> w_db := sample_db \<lparr> db_outbox := rs \<rparr> \<rparr>"

definition sample_config :: Config where
  "sample_config = NewWorker \<lparr> cf_Shards = [0], cf_BatchSize = 1, cf_MaxAttempts = 2, cf_PollInterval = 0, cf_BaseBackoff = 0,
     cf_MaxBackoff = 0 \<rparr>"

theorem no_event_lost_witness:
  "\<exists>q \<in> set (db_outbox (w_db (snd (RunOnce sample_env (60 * Second) sample_config (\<lambda>_. 0)
      (buildPublisher sample_env (\<lambda>_ _ _. Inr 200) (\<lambda>_ _. Inr ())) (relay_world [sample_event 1 OutboxPending]))))).
    same_event (sample_event 1 OutboxPending) q"
proof -
  let ?w = "relay_world [sample_event 1 OutboxPending]"
  have "coh ?w" "w_tx ?w = []" "letters_cover (w_db ?w)" "sample_event 1 OutboxPending \<in> set (db_outbox (w_db ?w))"
    by (simp_all add: relay_world_def coh_def sample_world_def letters_cover_def sample_event_def)
  from no_event_lost [OF this] show ?thesis by blast
qed

theorem claims_exclusive_witness:
  "fst (PollPending (60 * Second) [0] 1 (relay_world [sample_event 1 OutboxPending, sample_event 2 OutboxPending]))
     = Inr [pending_event (sample_event 1 OutboxPending)] \<and>
   (pe_ID (pending_event (sample_event 1 OutboxPending)), pe_CreatedAt (pending_event (sample_event 1 OutboxPending))) \<noteq>
   (pe_ID (pending_event (sample_event 2 OutboxPending)), pe_CreatedAt (pending_event (sample_event 2 OutboxPending)))"
proof -
  let ?w = "relay_world [sample_event 1 OutboxPending, sample_event 2 OutboxPending]"
  let ?p = "PollPending (60 * Second) [0] 1 ?w"
  note poll = PollPending_def Let_def bindE_def wrapE_def answer_def Now_def reading_def changing_def ok_def claim_batch_def due_def
    relay_world_def sample_world_def update_events_def same_key_def sample_event_def pending_event_def quot64_def wrap64_def
  have p: "?p = (Inr [pending_event (sample_event 1 OutboxPending)], snd ?p)" by (simp add: poll)
  have q: "PollPending (60 * Second) [0] 1 (snd ?p) = (Inr [pending_event (sample_event 2 OutboxPending)],
      snd (PollPending (60 * Second) [0] 1 (snd ?p)))" by (simp add: poll)
  have "w_clock (snd ?p) \<le> w_clock ?w + quot64 (60 * Second) Second * Second" by (simp add: poll)
  from claims_exclusive [OF p q _ this] p show ?thesis by (metis fst_conv list.set_intros(1))
qed

theorem published_only_after_delivery_witness:
  "(sample_event 1 OutboxPublishing) \<lparr> o_status := OutboxPublished \<rparr> \<in>
     set (db_outbox (w_db (snd (processEvent sample_env sample_config (\<lambda>_. 0) (\<lambda>_. ok ())
       (pending_event (sample_event 1 OutboxPublishing)) (relay_world [sample_event 1 OutboxPublishing]))))) \<and>
   o_id ((sample_event 1 OutboxPublishing) \<lparr> o_status := OutboxPublished \<rparr>) = pe_ID (pending_event (sample_event 1 OutboxPublishing))"
proof
  let ?w = "relay_world [sample_event 1 OutboxPublishing]" and ?e = "pending_event (sample_event 1 OutboxPublishing)"
  let ?q = "(sample_event 1 OutboxPublishing) \<lparr> o_status := OutboxPublished \<rparr>"
  let ?r = "processEvent sample_env sample_config (\<lambda>_. 0) (\<lambda>_. ok ()) ?e ?w"
  show m: "?q \<in> set (db_outbox (w_db (snd ?r)))"
    by (simp add: processEvent_def bindE_def attempt_def ok_def MarkPublished_def mark_event_def wrapE_def answer_def reading_def changing_def
        update_events_def claimed_as_def relay_world_def sample_world_def sample_event_def pending_event_def)
  have "coh ?w" "w_tx ?w = []" by (simp_all add: coh_def relay_world_def sample_world_def)
  moreover have "ok () ?w = (Inr (), ?w)" by (simp add: ok_def)
  ultimately show "o_id ?q = pe_ID ?e"
    using published_only_after_delivery [where pub = "\<lambda>_. ok ()" and w = ?w, OF prod.collapse [symmetric] _ _ _ m]
    by (fastforce simp: relay_world_def sample_event_def)
qed

definition sample_letter :: DeadLetterRow where
  "sample_letter = (dead_letter (sample_event 1 OutboxFailed) 9 ''boom'' 5)"

theorem dead_letter_replayed_once_witness:
  "(\<exists>q. db_outbox (w_db (snd (ReplayDeadLetter sample_env uuid_Nil 9 ''ops''
      (sample_world \<lparr> w_db := sample_db \<lparr> db_dead_letters := [sample_letter] \<rparr> \<rparr>)))) = [q] \<and>
      o_event_type q = EventTypeTransactionCreated) \<and> (\<exists>er. fst (ReplayDeadLetter sample_env uuid_Nil 9 ''ops''
      (snd (ReplayDeadLetter sample_env uuid_Nil 9 ''ops'' (sample_world \<lparr> w_db := sample_db \<lparr> db_dead_letters := [sample_letter] \<rparr> \<rparr>)))) = Inl er)"
proof -
  let ?w = "sample_world \<lparr> w_db := sample_db \<lparr> db_dead_letters := [sample_letter] \<rparr> \<rparr>"
  let ?r = "ReplayDeadLetter sample_env uuid_Nil 9 ''ops'' ?w"
  note ev = ReplayDeadLetter_def replay_tx_def db_eval sample_defs letter_of_def sample_letter_def dead_letter_def
  have "fst ?r = Inr 100" by (simp add: ev)
  then have r: "?r = (Inr 100, snd ?r)" by (metis prod.collapse)
  have "coh (snd ?r)" by (simp add: ev coh_def)
  moreover have "letter_of (w_db ?w) 9 = Some sample_letter" by (simp add: letter_of_def sample_letter_def dead_letter_def)
  ultimately show ?thesis
    using dead_letter_replayed_once [OF r refl, of uuid_Nil "''ops''"]
    by (auto simp: sample_world_def sample_db_def sample_letter_def dead_letter_def sample_event_def)
qed

end
