(* ===== verification/Jobs.thy ===== *)
theory Jobs
  imports Payment_Rules
begin

section \<open>Background jobs (internal/jobs/lease_expiry, internal/jobs/refund_reaper)\<close>

text \<open>
  The lease reaper asks the gateways about payments whose processing time is over, and deletes
  idempotency keys and leases that have expired; the refund reaper drives stuck refunds again. Both
  go through their list whatever becomes of its items, and only log what fails. A cancelled context
  ends a round early; here the database stops answering instead, so that all that is left of the round
  fails.
\<close>

definition lease_New :: "int \<Rightarrow> int" where
  "lease_New timeout = (if timeout \<le> 0 then 300 * Second else timeout)"

definition reapLeases :: "env \<Rightarrow> (world, unit) comp" where
  "reapLeases ev = bindE (attempt ListExpiredLeaseIDs) (\<lambda>r. case r of
      Inl _ \<Rightarrow> ok ()
    | Inr ids \<Rightarrow> forE ids (\<lambda>i. bindE (attempt (RecoverExpiredLease ev i)) (\<lambda>_. ok ())))"

definition sweepIdempotency :: "int \<Rightarrow> (world, unit) comp" where
  "sweepIdempotency timeout = bindE (attempt (SweepStaleProcessing timeout)) (\<lambda>_.
     bindE (attempt Idem_DeleteExpired) (\<lambda>_. ok ()))"

definition sweepLeases :: "(world, unit) comp" where
  "sweepLeases = bindE (attempt Lease_DeleteExpired) (\<lambda>_. ok ())"

definition lease_RunOnce :: "env \<Rightarrow> int \<Rightarrow> (world, unit) comp" where
  "lease_RunOnce ev timeout = bindE (reapLeases ev) (\<lambda>_. bindE (sweepIdempotency (lease_New timeout)) (\<lambda>_. sweepLeases))"

record RefundReaperConfig =
  rc_StaleAfter :: int
  rc_MaxAttempts :: int
  rc_BatchLimit :: int

definition refund_reaper_New :: "RefundReaperConfig \<Rightarrow> RefundReaperConfig" where
  "refund_reaper_New cfg = cfg \<lparr>
     rc_StaleAfter := (if rc_StaleAfter cfg \<le> 0 then 300 * Second else rc_StaleAfter cfg),
     rc_MaxAttempts := (if rc_MaxAttempts cfg \<le> 0 then 5 else rc_MaxAttempts cfg),
     rc_BatchLimit := (if rc_BatchLimit cfg \<le> 0 then 100 else rc_BatchLimit cfg) \<rparr>"

definition refund_RunOnce :: "env \<Rightarrow> RefundReaperConfig \<Rightarrow> (world, unit) comp" where
  "refund_RunOnce ev cfg =
     bindE (attempt (ListStaleRefunds (rc_StaleAfter cfg) (rc_MaxAttempts cfg) (rc_BatchLimit cfg))) (\<lambda>r. case r of
         Inl _ \<Rightarrow> ok ()
       | Inr ids \<Rightarrow> forE ids (\<lambda>i. bindE (attempt (RetryStaleRefund ev i)) (\<lambda>_. ok ())))"

end
