(* ===== verification/System_Steps.thy ===== *)
theory System_Steps
  imports Service_Steps Relay_Rules Jobs
begin

section \<open>The whole system\<close>

text \<open>
  The service together with its background work: rounds of the lease reaper (which deletes expired
  leases), of the refund reaper and of relay workers, which call the services again, and replays of
  dead letters. The locale says what a property of the tables has to satisfy to hold in every state
  that the whole system reaches.
\<close>

inductive system_step :: "env \<Rightarrow> (payment_op \<Rightarrow> bool) \<Rightarrow> world \<Rightarrow> world \<Rightarrow> bool" for ev B where
  service: "service_step ev B w w' \<Longrightarrow> system_step ev B w w'"
| lease_reaper: "system_step ev B w (snd (lease_RunOnce ev timeout w))"
| refund_reaper: "system_step ev B w (snd (refund_RunOnce ev cfg w))"
| relay: "system_step ev B w (snd (RunOnce ev claimTTL rcfg rnd (buildPublisher ev post bus) w))"
| replay: "system_step ev B w (snd (ReplayDeadLetter ev tenantID i actor w))"

inductive_cases system_stepE: "system_step ev B w w'"

abbreviation system_reaches :: "env \<Rightarrow> (payment_op \<Rightarrow> bool) \<Rightarrow> world \<Rightarrow> world \<Rightarrow> bool" where
  "system_reaches ev B \<equiv> (system_step ev B)\<^sup>*\<^sup>*"

lemma system_invariant:
  assumes "system_reaches ev B w w'" "I w" "\<And>v v'. system_step ev B v v' \<Longrightarrow> I v \<Longrightarrow> I v'"
  shows "I w'"
  using assms(1,2) by (induction rule: rtranclp_induct) (auto intro: assms(3))

lemma reaches_system: "reaches ev B w w' \<Longrightarrow> system_reaches ev B w w'"
  by (induction rule: rtranclp_induct) (auto intro: rtranclp.rtrancl_into_rtrancl service)

lemma replay_tx_inv: "keeps (tx_inv D fs) (replay_tx ev t i a n)"
  unfolding replay_tx_def by (intro hoare; simp)

text \<open>What the marks of the relay and dead letters do not touch.\<close>

locale relay_closed = table_closed P for P :: "db \<Rightarrow> bool" +
  assumes leases_free: "P (d \<lparr> db_leases := x \<rparr>) = P d"
    and letters_free: "P (d \<lparr> db_dead_letters := ls \<rparr>) = P d"
    and marks_free: "(\<And>r. same_event r (f r)) \<Longrightarrow> P (update_events sel f d) = P d"
begin

lemma Lease_DeleteExpired_keeps: "keeps (settled P) Lease_DeleteExpired"
  unfolding Lease_DeleteExpired_def Let_def by (intro hoare; simp add: leases_free)

lemma mark_keeps:
  assumes "\<And>r. same_event r (f r)"
  shows "keeps (settled P) (changing (\<lambda>w. w \<lparr> w_db := update_events (sel w) f (w_db w) \<rparr>))"
proof (rule keeps_changing)
  fix w assume "settled P w"
  then show "settled P (w \<lparr> w_db := update_events (sel w) f (w_db w) \<rparr>)"
    using marks_free [of f "sel w" "w_db w"] assms by (simp add: settled_def coh_def)
qed

lemma statements_keep:
  "keeps (settled P) (PollPending claimTTL shards n)" "keeps (settled P) (MarkPublished i c)"
  "keeps (settled P) (MarkFailed i c err next)"
  unfolding PollPending_def MarkPublished_def MarkFailed_def mark_event_def Let_def
  by (intro hoare mark_keeps; simp add: same_event_def same_key_def)+

lemma MarkExhausted_keeps: "keeps (settled P) (MarkExhausted ev i c err)"
  unfolding MarkExhausted_def
proof (rule keeps_WithinTx, goal_cases inv post)
  case inv
  show ?case by (intro hoare) simp_all
next
  case (post w a w2)
  let ?f = "\<lambda>r. r \<lparr> o_status := OutboxFailed, o_last_error := err, o_locked_at := None \<rparr>"
  from post(2) obtain ls where "cur_db w2 = (update_events (claimed_as i c) ?f (w_db w)) \<lparr> db_dead_letters := ls \<rparr>"
    by (auto simp: run NewUUID_def split: option.splits)
  with post(1) show ?case
    by (simp add: settled_def letters_free marks_free same_event_def same_key_def)
qed

lemma replay_keeps: "keeps (settled P) (ReplayDeadLetter ev tenantID i actor)"
proof -
  have "keeps (settled P) (WithinTx (replay_tx ev tenantID i actor n))" for n
  proof (rule keeps_WithinTx [OF replay_tx_inv])
    fix w a w2 assume w: "settled P w" and r: "replay_tx ev tenantID i actor n (open_tx w) = (Inr a, w2)"
    from r obtain l now ls where
      "cur_db w2 = (w_db w) \<lparr> db_outbox := db_outbox (w_db w) @ [replay_row ev l n now], db_dead_letters := ls \<rparr>"
      unfolding replay_tx_def by (auto simp: run split: option.splits if_splits)
    then show "P (cur_db w2)"
      using w outbox_grows [of "w_db w" "replay_row ev l n now"] by (simp add: settled_def letters_free replay_row_def outbox_row_def)
  qed
  then show ?thesis unfolding ReplayDeadLetter_def by (intro hoare)
qed

end

locale system_closed = webhook_closed P + relay_closed P for P :: "db \<Rightarrow> bool" and B :: "payment_op \<Rightarrow> bool" +
  assumes payment_op: "B op \<Longrightarrow> settled P w \<Longrightarrow> settled P (run_payment_op ev op w)"
    and op_keeps: "keeps (settled P) (ProcessGatewayInitiate ev i)" "keeps (settled P) (RecoverExpiredLease ev i)"
      "keeps (settled P) (ProcessRefund ev j)" "keeps (settled P) (RetryStaleRefund ev j)"
begin

lemma lease_RunOnce_keeps: "keeps (settled P) (lease_RunOnce ev timeout)"
  unfolding lease_RunOnce_def reapLeases_def sweepIdempotency_def sweepLeases_def ListExpiredLeaseIDs_def
  by (intro hoare op_keeps keeps_sweeps Lease_DeleteExpired_keeps; simp add: idem_free)

lemma refund_RunOnce_keeps: "keeps (settled P) (refund_RunOnce ev cfg)"
  unfolding refund_RunOnce_def ListStaleRefunds_def Let_def by (intro hoare op_keeps)

lemma processAll_keeps:
  assumes "\<And>e. keeps (settled P) (pub e)"
  shows "keeps (settled P) (processAll ev cfg rnd pub es n)"
proof (induction es arbitrary: n)
  case (Cons e es)
  show ?case
    unfolding processAll.simps processEvent_def by (intro hoare assms Cons.IH statements_keep MarkExhausted_keeps)
qed (simp add: hoare)

lemma relay_keeps: "keeps (settled P) (RunOnce ev claimTTL cfg rnd (buildPublisher ev post bus))"
proof -
  have "keeps (settled P) (buildPublisher ev post bus e)" for e
    unfolding buildPublisher_def Router_Publish.simps callback_Handle_def initiator_Handle_def refundinitiator_Handle_def base_Handle_def
    by (intro hoare op_keeps)
  then show ?thesis unfolding RunOnce_def by (intro hoare statements_keep processAll_keeps)
qed

lemma service_keeps: "service_step ev B w w' \<Longrightarrow> settled P w \<Longrightarrow> settled P w'"
  by (erule service_stepE)
     (auto intro: payment_op webhook_keeps settled_same keeps_snd [OF Cancel_keeps] keeps_snd [OF keeps_sweeps(1) [OF idem_free]]
       keeps_snd [OF keeps_sweeps(2) [OF idem_free]])

lemma system_keeps: "system_step ev B w w' \<Longrightarrow> settled P w \<Longrightarrow> settled P w'"
  by (erule system_stepE)
     (auto intro: service_keeps keeps_snd [OF lease_RunOnce_keeps] keeps_snd [OF refund_RunOnce_keeps] keeps_snd [OF relay_keeps]
       keeps_snd [OF replay_keeps])

lemma reaches_keeps: "system_reaches ev B w w' \<Longrightarrow> settled P w \<Longrightarrow> settled P w'"
  by (rule system_invariant [where I = "settled P"]) (auto intro: system_keeps)

end

subsection \<open>The outbox\<close>

lemma has_event_marks:
  assumes "\<And>r. same_event r (f r)"
  shows "has_event (update_events sel f d) i et = has_event d i et"
proof -
  let ?g = "\<lambda>r. if sel r then f r else r"
  have "o_aggregate_id (?g r) = o_aggregate_id r" "o_event_type (?g r) = o_event_type r" for r
    using assms [of r] by (simp_all add: same_event_def)
  then show ?thesis unfolding has_event_def set_update_events bex_simps(7) by (simp only:)
qed

interpretation ann: system_closed announced B for B
proof
  fix d and f :: "OutboxRow \<Rightarrow> OutboxRow" and sel assume "\<And>r. same_event r (f r)"
  from has_event_marks [OF this] show "announced (update_events sel f d) = announced d" by (simp add: announced_def)
qed (simp_all only: run_payment_op_announced keeps_ProcessGatewayInitiate keeps_payment_ops(4) ann.ProcessRefund_keeps announced_free,
    simp add: announced_def has_event_def)

text \<open>C3. The outcome of a payment was announced: in every state that the services, the reapers and the relay
  can reach, with any loss of the database, the outbox has an event for the creation of every payment and,
  when it is now AUTHORIZED, CAPTURED, SETTLED, FAILED or CANCELLED, the event of that status, when that
  held at the start. Nothing is said of the other statuses: PENDING, PROCESSING and DISPUTED have no event,
  and refunds are announced under the identifier of the refund, not of the payment. The dispute service and
  the webhook that deadlocks with itself are no steps of the system.\<close>

theorem outcome_announced:
  assumes "system_reaches ev B w w'" "settled announced w" "t \<in> set (db_transactions (w_db w'))"
  shows "has_event (w_db w') (t_ID t) EventTypeTransactionCreated \<and>
    (t_Status t = StatusAuthorized \<longrightarrow> has_event (w_db w') (t_ID t) EventTypeTransactionAuthorized) \<and>
    (t_Status t = StatusCaptured \<longrightarrow> has_event (w_db w') (t_ID t) EventTypeTransactionCaptured) \<and>
    (t_Status t = StatusSettled \<longrightarrow> has_event (w_db w') (t_ID t) EventTypeTransactionSettled) \<and>
    (t_Status t = StatusFailed \<longrightarrow> has_event (w_db w') (t_ID t) EventTypeTransactionFailed) \<and>
    (t_Status t = StatusCancelled \<longrightarrow> has_event (w_db w') (t_ID t) EventTypeTransactionCancelled)"
  using ann.reaches_keeps [OF assms(1,2)] assms(3)
  by (auto simp: settled_def announced_def status_event_def refund_statuses_def)

theorem outcome_announced_witness:
  "has_event (w_db (run_payment_ops capturing_env sample_history sample_world)) 100 EventTypeTransactionCaptured"
proof -
  let ?w = "run_payment_ops capturing_env sample_history sample_world"
  have "settled announced sample_world"
    by (simp add: settled_def coh_def announced_def sample_world_def sample_db_def)
  moreover have "system_reaches capturing_env (\<lambda>_. True) sample_world ?w" by (rule reaches_system [OF reaches_history]) simp
  moreover obtain t where "t \<in> set (db_transactions (w_db ?w))" "t_ID t = 100" "t_Status t = StatusCaptured"
    using sample_history_captured by (cases "db_transactions (w_db ?w)") auto
  ultimately show ?thesis
    using outcome_announced [of capturing_env "\<lambda>_. True" sample_world ?w t] by simp
qed

end
