(* ===== verification/Row_Frame.thy ===== *)
theory Row_Frame
  imports System_Steps
begin

section \<open>Properties of payments and refunds\<close>

text \<open>
  A property of the payments and refunds tables holds in every state that the whole system reaches
  when inserting a payment, changing columns of a row other than its identifier, key and amount, and
  the operations of the refund service keep it. \<open>fits\<close> is the range of the amounts involved.
\<close>

lemma TransitionState_row:
  assumes "TransitionState t s a now = Inr t1"
  shows "t_Amount t1 = t_Amount t" "t_ID t1 = t_ID t" "t_GatewayIdempotencyKey t1 = t_GatewayIdempotencyKey t"
  using assms by (auto simp: TransitionState_def applyTransitionEffects_def split: if_splits)

lemma begin_processing_row:
  assumes "begin_processing t w = (Inr t', w')"
  shows "t_Amount t' = t_Amount t" "t_ID t' = t_ID t" "t_GatewayIdempotencyKey t' = t_GatewayIdempotencyKey t"
proof -
  from assms obtain t1 where ts: "TransitionState t StatusProcessing ActorSystem (w_clock w) = Inr t1"
    and us: "Txn_UpdateStatus (t1 \<lparr> t_ProcessingStartedAt := Some (w_clock w),
       t_ProcessingTimeout := Some (wrap64 (t_EstimatedTimeoutSeconds t * Second)) \<rparr>) w = (Inr t', w')"
    by (auto simp: begin_processing_def run)
  from Txn_UpdateStatus_effect [OF us] TransitionState_row [OF ts]
  show "t_Amount t' = t_Amount t" "t_ID t' = t_ID t" "t_GatewayIdempotencyKey t' = t_GatewayIdempotencyKey t" by auto
qed

lemma process_tx_row:
  assumes "WithinTx (process_tx t) w = (Inr (acq, t1), w')" acq
  shows "t_Amount t1 = t_Amount t" "t_ID t1 = t_ID t" "t_GatewayIdempotencyKey t1 = t_GatewayIdempotencyKey t"
proof -
  from assms(1) obtain w1 where "process_tx t (open_tx w) = (Inr (acq, t1), w1)" by (auto simp: run)
  then show "t_Amount t1 = t_Amount t" "t_ID t1 = t_ID t" "t_GatewayIdempotencyKey t1 = t_GatewayIdempotencyKey t"
    using assms(2) by (cases rule: process_tx_cases; auto dest: begin_processing_row)+
qed

lemma note_response_amount: "t_Amount (note_response t resp) = t_Amount t"
  by (simp add: note_response_def Let_def split: option.split)

lemma finalize_tx_amount: "finalize_tx ev t oc c w = (Inr t2, w') \<Longrightarrow> t_Amount t2 = t_Amount t"
  by (auto simp: finalize_tx_def finalize_move_def run dest!: Txn_UpdateStatus_effect TransitionState_row(1) split: if_splits)

lemma build_payment_amount: "build_payment ev inp w = (Inr (t, raw), w') \<Longrightarrow> t_Amount t = ci_Amount inp"
  by (auto simp: build_payment_def Let_def run estimate_fees_def New_def split: if_splits option.splits sum.splits prod.splits)

definition stays_inside :: "(world, 'a) comp \<Rightarrow> bool" where
  "stays_inside fn \<longleftrightarrow> (\<forall>w. coh w \<longrightarrow> tx_inv (w_db w) (w_tx w) (snd (fn (open_tx w))))"

lemma stays_insideI: "(\<And>D fs. keeps (tx_inv D fs) fn) \<Longrightarrow> stays_inside fn"
  by (simp add: stays_inside_def keeps_def tx_inv_open)

lemma stays_inside_process: "stays_inside (process_tx t)"
  unfolding stays_inside_def using process_tx_inv by (metis prod.collapse)

lemma stays_inside_bodies:
  "stays_inside (begin_processing t)" "stays_inside (create_tx ev t)" "stays_inside (initiate_record t resp)"
  "stays_inside (settle_tx ev t)" "stays_inside (finalize_tx ev t oc c)"
  by (rule stays_insideI, intro hoare)+

lemma keeps_view_WithinTx:
  assumes "stays_inside fn" "keeps (in_view P) fn"
  shows "keeps (settled P) (WithinTx fn)"
proof (unfold keeps_def, intro allI impI)
  fix w assume w: "settled P w"
  obtain r w1 where e: "WithinTx fn w = (r, w1)" by fastforce
  have "settled P w1"
  proof (rule WithinTx_post_at [OF _ w e])
    show "tx_inv (w_db w) (w_tx w) w2" if "fn (open_tx w) = (r, w2)" for r w2
      using assms(1) that w by (auto simp: stays_inside_def settled_def)
    show "P (cur_db w2)" if "fn (open_tx w) = (Inr a, w2)" for a w2
      using keepsD [OF assms(2) _ that] w by (simp add: settled_def in_view_def)
  qed
  with e show "settled P (snd (WithinTx fn w))" by simp
qed

text \<open>The amounts in the requests.\<close>

primrec bounded_op :: "(int \<Rightarrow> bool) \<Rightarrow> payment_op \<Rightarrow> bool" where
  "bounded_op fits (OpCreate inp) = fits (ci_Amount inp)"
| "bounded_op fits (OpGatewayInitiate i) = True"
| "bounded_op fits (OpProcessPayment i) = True"
| "bounded_op fits (OpAuthorize i) = True"
| "bounded_op fits (OpCapture i) = True"
| "bounded_op fits (OpSettle i) = True"
| "bounded_op fits (OpRecover i) = True"
| "bounded_op fits (OpRefund rop) = fits (op_amount rop)"

locale row_closed =
  fixes P :: "db \<Rightarrow> bool" and fits :: "int \<Rightarrow> bool"
  assumes other_tables: "db_transactions d' = db_transactions d \<Longrightarrow> db_refunds d' = db_refunds d \<Longrightarrow> P d' = P d"
    and row_update: "P d \<Longrightarrow> (\<And>r. t_ID (f r) = t_ID r) \<Longrightarrow> (\<And>r. t_Amount (f r) = t_Amount r) \<Longrightarrow>
      (\<And>r. t_GatewayIdempotencyKey (f r) = t_GatewayIdempotencyKey r) \<Longrightarrow>
      P (d \<lparr> db_transactions := update_row t_ID j f (db_transactions d) \<rparr>)"
    and row_insert: "P d \<Longrightarrow> txn_insert_ok t d \<Longrightarrow> fits (t_Amount t) \<Longrightarrow> P (d \<lparr> db_transactions := db_transactions d @ [t] \<rparr>)"
    and row_amount: "P d \<Longrightarrow> txn_of d i = Some t \<Longrightarrow> fits (t_Amount t)"
    and refund_requests: "fits (ii_Amount inp) \<Longrightarrow> keeps (settled P) (InitiateRefund ev inp)"
    and refund_drivers: "keeps (settled P) (ProcessRefund ev j)" "keeps (settled P) (RetryStaleRefund ev j)"
    and cancel_refunds: "fits a \<Longrightarrow> keeps (settled P) (ResolveCancelRefund ev j a)"
begin

lemma row_columns:
  assumes "P d"
  shows "P (d \<lparr> db_transactions := update_row t_ID j (status_cols t now) (db_transactions d) \<rparr>)" "P (mark_row j a now v d)"
    "P (case sql_update_status now t d of Inr (_, d') \<Rightarrow> d' | Inl _ \<Rightarrow> d)"
    "P (case sql_update_reference now j g vs d of Inr (_, d') \<Rightarrow> d' | Inl _ \<Rightarrow> d)"
  using assms
  by (auto simp: mark_row_def sql_update_status_def sql_update_reference_def status_cols_def cancel_cols_def
      intro!: row_update split: option.splits)

lemma tables_free:
  "P (d \<lparr> db_idem := a \<rparr>) = P d" "P (d \<lparr> db_leases := b \<rparr>) = P d" "P (d \<lparr> db_outbox := c \<rparr>) = P d"
  "P (d \<lparr> db_dead_letters := e \<rparr>) = P d" "P (d \<lparr> db_webhook_events := h \<rparr>) = P d" "P (d \<lparr> db_gateway_metadata := m \<rparr>) = P d"
  "P (d \<lparr> db_notifications := n \<rparr>) = P d" "P (d \<lparr> db_tw_deliveries := q \<rparr>) = P d" "P (update_events sel u d) = P d"
  by (rule other_tables; simp add: update_events_def)+

end

sublocale row_closed \<subseteq> frame: webhook_closed P
proof
  fix d' d assume "core d' = core d"
  then show "P d' = P d" by (intro other_tables) (simp_all add: core_def)
next
  fix d i a now v assume "P d"
  then show "P (mark_row i a now v d)" by (rule row_columns)
next
  fix d and t :: Txn and es i now assume "P d"
  then have "P (d \<lparr> db_transactions := update_row t_ID i (status_cols t now) (db_transactions d) \<rparr>)" by (rule row_columns)
  then show "P (d \<lparr> db_transactions := update_row t_ID i (status_cols t now) (db_transactions d), db_outbox := db_outbox d @ es \<rparr>)"
    by (simp add: tables_free)
qed (simp_all add: tables_free)

sublocale row_closed \<subseteq> frame: relay_closed P
  by unfold_locales (simp_all add: tables_free)

context row_closed
begin

lemma insert_view: "fits (t_Amount t) \<Longrightarrow> keeps (in_view P) (Txn_Insert t)"
  unfolding Txn_Insert_def by (intro keeps_bindE keeps_view_prims keeps_view_guarded row_insert)

lemma lease_view: "P (snd (sql_insert_lease now j ttl c d)) = P d"
  by (simp add: sql_insert_lease_def tables_free)

lemma repo_view:
  "keeps (in_view P) (Txn_UpdateStatus t)" "keeps (in_view P) (UpdateGatewayReference j g v)"
  "keeps (in_view P) (WriteCachedResponse j x)" "keeps (in_view P) (InsertGatewayMetadata j g x)"
  "keeps (in_view P) (Outbox_Write ev e)" "keeps (in_view P) (Notification_Dispatch ev n)"
  "keeps (in_view P) (TenantWebhook_Dispatch ev u j s x)" "keeps (in_view P) (audit j et ac pv nx rs)"
  "keeps (in_view P) (Publish j st)" "keeps (in_view P) (Lease_Acquire c j ttl)" "keeps (in_view P) (Txn_GetByID j)"
  unfolding Txn_UpdateStatus_def UpdateGatewayReference_def WriteCachedResponse_def InsertGatewayMetadata_def
    Outbox_Write_def Notification_Dispatch_def Notification_Insert_def TenantWebhook_Dispatch_def WriteDelivery_def audit_def
    WriteEntry_def Publish_def run_update_def Lease_Acquire_def Txn_GetByID_def Let_def
  by (intro hoare; simp add: tables_free lease_view row_columns)+

lemma body_view:
  "keeps (in_view P) (begin_processing t)" "keeps (in_view P) (initiate_record t resp)"
  "keeps (in_view P) (settle_tx ev t)" "keeps (in_view P) (finalize_tx ev t oc c)" "keeps (in_view P) (process_tx t)"
  unfolding begin_processing_def initiate_record_def settle_tx_def finalize_tx_def finalize_move_def
    finalize_messages_def write_terminal_def write_callback_def dispatchTerminalNotification_def dispatchTenantWebhook_def
    notify_def process_tx_def Let_def
  by (intro hoare repo_view)+

lemma create_view: "fits (t_Amount t) \<Longrightarrow> keeps (in_view P) (create_tx ev t)"
  unfolding create_tx_def by (intro hoare repo_view insert_view; assumption)

lemma txs:
  "keeps (settled P) (WithinTx (begin_processing t))" "keeps (settled P) (WithinTx (initiate_record t resp))"
  "keeps (settled P) (WithinTx (settle_tx ev t))" "keeps (settled P) (WithinTx (finalize_tx ev t oc c))"
  "keeps (settled P) (WithinTx (process_tx t))"
  "fits (t_Amount t) \<Longrightarrow> keeps (settled P) (WithinTx (create_tx ev t))"
  by (intro keeps_view_WithinTx stays_inside_bodies stays_inside_process body_view create_view; assumption)+

lemma lease_call: "keeps (settled P) (TryAcquireDirect c j ttl)"
  by (rule keeps_TryAcquireDirect) (simp add: tables_free)

lemma Execute_create: "fits (t_Amount t) \<Longrightarrow> keeps (settled P) (Execute c h (create_op ev t raw))"
proof (rule keeps_Execute [OF keeps_create_op])
  fix w a w2 assume f: "fits (t_Amount t)" "P (cur_db w)" "create_op ev t raw w = (Inr a, w2)"
  have "keeps (in_view P) (create_op ev t raw)" unfolding create_op_def by (intro hoare create_view f)
  from keepsD [OF this _ f(3)] f(2) show "P (cur_db w2)" by (simp add: in_view_def)
qed (simp add: tables_free)

lemma finalize_keeps:
  assumes "fits (t_Amount t)"
  shows "keeps (settled P) (finalize ev t resp oc)"
proof -
  have q: "fits (t_Amount t2)"
    if "wrapE s (WithinTx (finalize_tx ev ((note_response t resp) \<lparr> t_ActualGateway := g \<rparr>) oc c)) w = (Inr t2, w')" for s g c w t2 w'
    using that assms by (auto simp: run note_response_amount dest!: finalize_tx_amount)
  show ?thesis
    unfolding finalize_def Let_def
    by (rule keeps_bindE_post [where Q = "\<lambda>t2. fits (t_Amount t2)"])
       (auto intro!: hoare txs cancel_refunds dest: q simp: resolveCancelIfRequested_def)
qed

lemma load_keeps:
  assumes "\<And>t. fits (t_Amount t) \<Longrightarrow> keeps (settled P) (f t)"
  shows "keeps (settled P) (bindE (wrapE s (Txn_GetByID j)) f)"
proof (rule keeps_bindE_post [where Q = "\<lambda>t. fits (t_Amount t)"])
  fix w t w' assume w: "settled P w" and g: "wrapE s (Txn_GetByID j) w = (Inr t, w')"
  from g have "Txn_GetByID j w = (Inr t, w')" by (simp add: run)
  from Txn_GetByID_settled(4) [OF w this refl] w show "fits (t_Amount t)" by (auto simp: settled_def intro: row_amount)
qed (intro hoare assms; assumption)+

lemma initiate_keeps: "keeps (settled P) (ProcessGatewayInitiate ev i)"
  unfolding ProcessGatewayInitiate_def initiate_leased_def Let_def
  by (intro hoare txs lease_call)

lemma sync_keeps: "keeps (settled P) (syncInitiate ev t)"
  unfolding syncInitiate_def by (intro hoare initiate_keeps)

lemma Create_keeps:
  assumes "fits (ci_Amount inp)"
  shows "keeps (settled P) (Create ev inp)"
proof -
  have "keeps (settled P) (created_result ev t raw b)" "keeps (settled P) (replayed_result ev j)"
    "keeps (settled P) (create_verdict ev t raw x)" for t raw b j x
    unfolding created_result_def replayed_result_def create_verdict_def
    by (auto intro!: hoare sync_keeps split: prod.split Verdict.split option.split)
  then show ?thesis
    unfolding Create_def
    by (rule_tac keeps_bindE_post [where Q = "\<lambda>(t, raw). fits (t_Amount t)"])
       (auto intro!: hoare txs Execute_create simp: assms dest!: build_payment_amount)
qed

lemma under_lease_keeps:
  assumes "fits (t_Amount t)" "\<And>ad t'. keeps (settled P) (call ad t')"
  shows "keeps (settled P) (under_lease ev t call resolve)"
proof -
  have q: "fits (t_Amount t1)" if "mapE f (WithinTx (begin_processing t)) w = (Inr t1, w')" for f w t1 w'
    using that assms(1) by (auto simp: mapE_def run dest!: begin_processing_row(1) split: prod.splits sum.splits)
  show ?thesis
    unfolding under_lease_def
    by (rule keeps_bindE_post [where Q = "\<lambda>t1. fits (t_Amount t1)"])
       (auto intro!: hoare assms txs lease_call finalize_keeps dest: q)
qed

lemma ops_keep:
  "keeps (settled P) (Authorize ev i)" "keeps (settled P) (Capture ev i)" "keeps (settled P) (Settle ev i)"
  "keeps (settled P) (RecoverExpiredLease ev i)"
proof -
  show "keeps (settled P) (Authorize ev i)" "keeps (settled P) (Capture ev i)"
    unfolding Authorize_def Capture_def
    by (rule load_keeps, intro hoare under_lease_keeps; assumption)+
  show "keeps (settled P) (Settle ev i)" unfolding Settle_def by (intro hoare txs)
  show "keeps (settled P) (RecoverExpiredLease ev i)"
    unfolding RecoverExpiredLease_def Let_def by (rule load_keeps) (intro hoare finalize_keeps; simp)
qed

lemma ProcessPayment_keeps: "keeps (settled P) (ProcessPayment ev i)"
proof -
  have body: "keeps (settled P) (bindE (wrapE s (WithinTx (process_tx t))) (\<lambda>(acquired, t1).
         if \<not> acquired then ok t1
         else bindE (enterIntent (t_GatewayID t1) (t_ID t1) ttl) (\<lambda>_.
              bindE (attemptGateways ev ad t1) (\<lambda>ans. finalize ev t1 (resp_of ans) (resolveOutcome ans)))))"
    if "fits (t_Amount t)" for s t ttl ad
    by (rule keeps_bindE_post [where Q = "\<lambda>(acq, t1). \<not> acq \<or> fits (t_Amount t1)"])
       (use that in \<open>auto intro!: hoare txs finalize_keeps simp: attemptGateways_def run(7) dest!: process_tx_row(1)\<close>)
  show ?thesis
    unfolding ProcessPayment_def by (rule load_keeps) (intro hoare body; assumption)
qed

lemma payment_op_keeps: "bounded_op fits op \<Longrightarrow> settled P w \<Longrightarrow> settled P (run_payment_op ev op w)"
proof (cases op)
  case (OpRefund rop)
  assume "bounded_op fits op" "settled P w"
  with OpRefund show ?thesis
    by (cases rop) (simp_all add: keeps_snd [OF refund_requests] keeps_snd [OF refund_drivers(1)]
        keeps_snd [OF refund_drivers(2)] keeps_snd [OF cancel_refunds])
qed (simp_all add: keeps_snd [OF Create_keeps] keeps_snd [OF initiate_keeps] keeps_snd [OF ProcessPayment_keeps]
    keeps_snd [OF ops_keep(1)] keeps_snd [OF ops_keep(2)] keeps_snd [OF ops_keep(3)] keeps_snd [OF ops_keep(4)])

end

sublocale row_closed \<subseteq> sys: system_closed P "bounded_op fits"
  by unfold_locales (simp_all add: payment_op_keeps initiate_keeps ops_keep refund_drivers)

subsection \<open>Refunds in the whole system\<close>

abbreviation small :: "int \<Rightarrow> bool" where
  "small a \<equiv> a < 2 ^ 62"

interpretation rw: row_closed refunds_within small
proof
  fix d' d :: db assume "db_transactions d' = db_transactions d" "db_refunds d' = db_refunds d"
  then show "refunds_within d' = refunds_within d" by (simp add: refunds_within_def active_sum_def)
next
  fix t d assume "refunds_within d" "txn_insert_ok t d" "small (t_Amount t)"
  then show "refunds_within (d \<lparr> db_transactions := db_transactions d @ [t] \<rparr>)"
    unfolding refunds_within_def txn_insert_ok_def
    by (auto simp: lookup_row_append split: option.splits if_splits)
       (metis order.trans less_imp_le)+
qed (auto intro: refunds_within_txns InitiateRefund_within Process_within ResolveCancelRefund_within simp: refunds_within_def)

text \<open>C1. A payment is never refunded beyond its amount: in every state that the whole system can reach,
  with any interleaving of requests, webhooks, cancellations, relay rounds and reapers, each cut off
  by the database after any number of statements and with whatever the gateways answered, the refunds of
  a payment that are under way or done add up to at most its amount and no transaction is left open,
  when that held at the start and the amounts asked for are below 2^62.\<close>

theorem refunds_never_exceed_payment:
  assumes "system_reaches ev (bounded_op small) w w'" "settled refunds_within w" "txn_of (w_db w') i = Some t"
  shows "active_sum i (w_db w') \<le> t_Amount t \<and> w_tx w' = []"
  using rw.sys.reaches_keeps [OF assms(1,2)] assms(3) by (simp add: settled_def refunds_within_def)

theorem refunds_never_exceed_payment_witness:
  "active_sum 1 (w_db (run_payment_op sample_env (OpRefund (OpInitiate (sample_input 60))) captured_world)) \<le> 100"
proof -
  let ?op = "OpRefund (OpInitiate (sample_input 60))"
  have "service_step sample_env (bounded_op small) captured_world (run_payment_op sample_env ?op captured_world)"
    by (rule payment) (simp add: sample_input_def)
  then have r: "system_reaches sample_env (bounded_op small) captured_world (run_payment_op sample_env ?op captured_world)"
    by (intro r_into_rtranclp system_step.service)
  have s: "settled refunds_within captured_world"
    by (auto simp: settled_def coh_def refunds_within_def captured_world_def sample_world_def sample_db_def captured_payment_def
        active_sum_def lookup_row_def)
  have "map_option t_Amount (txn_of (w_db (run_payment_op sample_env ?op captured_world)) 1) = Some 100"
    by (simp add: db_eval sample_defs refund_eval)
  then show ?thesis using refunds_never_exceed_payment [OF r s, of 1] by auto
qed

end
