(* ===== verification/Charge_Keys.thy ===== *)
theory Charge_Keys
  imports Row_Frame
begin

section \<open>Initiate calls and idempotency keys\<close>

text \<open>
  The lease reaper deletes expired leases, and then a payment whose first initiate call failed is
  sent to its gateway again. What protects the customer then is the gateway's idempotency key: every
  initiate call for a payment carries the key that the payment was created with.
\<close>

definition row_keys :: "(uuid \<times> string) set \<Rightarrow> db \<Rightarrow> bool" where
  "row_keys S d \<longleftrightarrow> (\<forall>(i, k) \<in> S. map_option t_GatewayIdempotencyKey (txn_of d i) = Some k)"

lemma row_keys_insert: "row_keys S d \<Longrightarrow> row_keys S (d \<lparr> db_transactions := db_transactions d @ [t] \<rparr>)"
  by (force simp: row_keys_def split: prod.splits)

lemma row_keys_update:
  assumes "\<And>r. t_ID (f r) = t_ID r" "\<And>r. t_GatewayIdempotencyKey (f r) = t_GatewayIdempotencyKey r"
  shows "row_keys S (d \<lparr> db_transactions := update_row t_ID j f (db_transactions d) \<rparr>) = row_keys S d"
proof -
  let ?d = "d \<lparr> db_transactions := update_row t_ID j f (db_transactions d) \<rparr>"
  have "map_option t_GatewayIdempotencyKey (txn_of ?d i) = map_option t_GatewayIdempotencyKey (txn_of d i)" for i
    by (cases "txn_of d i") (auto simp: assms)
  then show ?thesis unfolding row_keys_def by (simp only:)
qed

interpretation rk: refund_closed "row_keys S" for S
proof
  fix d and t :: Txn and now assume "row_keys S d"
  then show "row_keys S (d \<lparr> db_transactions := update_row t_ID (t_ID t) (status_cols t now) (db_transactions d) \<rparr>)"
    by (simp add: row_keys_update status_cols_def)
qed (simp_all add: row_keys_def core_def)

interpretation rk: row_closed "row_keys S" "\<lambda>_. True" for S
proof
  fix d' d :: db assume "db_transactions d' = db_transactions d" "db_refunds d' = db_refunds d"
  then show "row_keys S d' = row_keys S d" by (simp add: row_keys_def)
next
  fix t d assume "row_keys S d"
  then show "row_keys S (d \<lparr> db_transactions := db_transactions d @ [t] \<rparr>)" by (rule row_keys_insert)
qed (simp_all add: row_keys_update rk.InitiateRefund_keeps rk.ProcessRefund_keeps rk.ResolveCancelRefund_keeps)

lemmas keeps_row_keys = rk.finalize_keeps [OF TrueI] rk.Execute_create [OF TrueI] rk.lease_call
declare keeps_row_keys [hoare]

subsection \<open>The calls\<close>

text \<open>The payments and keys of the initiate calls made so far.\<close>

definition initiates :: "gw_call list \<Rightarrow> (uuid \<times> string) set" where
  "initiates cs = {(gpr_TransactionID req, gpr_IdempotencyKey req) | g req. CallInitiate g req \<in> set cs}"

lemma initiates_snoc [simp]:
  "initiates (cs @ [CallInitiate g req]) = insert (gpr_TransactionID req, gpr_IdempotencyKey req) (initiates cs)"
  "initiates (cs @ [CallStatus g sq]) = initiates cs" "initiates (cs @ [CallRefund g rq]) = initiates cs"
  "initiates (cs @ [CallCapture g cq]) = initiates cs"
  by (auto simp: initiates_def)

text \<open>All these calls, and the pairs of \<open>S\<close>, agree with the payments.\<close>

definition keyed :: "(uuid \<times> string) set \<Rightarrow> world \<Rightarrow> bool" where
  "keyed S w \<longleftrightarrow> settled (row_keys (S \<union> initiates (w_calls w))) w"

abbreviation own :: "Txn \<Rightarrow> (uuid \<times> string) set" where
  "own t \<equiv> {(t_ID t, t_GatewayIdempotencyKey t)}"

lemma quiet_at:
  assumes "keyed S w" "\<And>S. settled (row_keys S) w \<Longrightarrow> settled (row_keys S) (snd (m w))"
    and "\<And>C. charge_blind C \<Longrightarrow> keeps (\<lambda>w. C (w_calls w)) m"
  shows "keyed S (snd (m w))"
proof -
  have "charge_blind (\<lambda>cs. initiates cs = initiates (w_calls w))" by (simp add: charge_blind_def)
  from assms(3) [OF this] have "initiates (w_calls (snd (m w))) = initiates (w_calls w)" by (simp add: keeps_def)
  with assms(1,2) show ?thesis by (simp add: keyed_def)
qed

lemma quiet:
  assumes "\<And>S. keeps (settled (row_keys S)) m" "\<And>C. charge_blind C \<Longrightarrow> keeps (\<lambda>w. C (w_calls w)) m"
  shows "keeps (keyed S) m"
  unfolding keeps_def
proof (intro allI impI)
  fix w assume "keyed S w"
  then show "keyed S (snd (m w))" by (rule quiet_at) (rule keeps_snd [OF assms(1)], assumption, rule assms(2))
qed

lemma keeps_keyed_call:
  "(gpr_TransactionID req, gpr_IdempotencyKey req) \<in> S \<Longrightarrow> keeps (keyed S) (gateway_call (CallInitiate g req) respond)"
  by (auto simp: keeps_def keyed_def settled_def coh_def gateway_call_def log_call_def bindE_def reading_def changing_def ok_def
      row_keys_def dest: bspec)

lemma keeps_keyed_load:
  assumes "\<And>t. keeps (keyed (insert (t_ID t, t_GatewayIdempotencyKey t) S)) (f t)"
  shows "keeps (keyed S) (bindE (wrapE s (Txn_GetByID j)) f)"
proof (unfold keeps_def, intro allI impI)
  fix w assume w: "keyed S w"
  obtain r w1 where g: "Txn_GetByID j w = (r, w1)" by fastforce
  note g' = Txn_GetByID_settled [OF w [unfolded keyed_def] g]
  show "keyed S (snd (bindE (wrapE s (Txn_GetByID j)) f w))"
  proof (cases r)
    case (Inl e)
    with g g'(1,3) show ?thesis by (simp add: bindE_def wrapE_def keyed_def)
  next
    case (Inr t)
    have "keyed (insert (t_ID t, t_GatewayIdempotencyKey t) S) w1"
      using g'(1,2,3) g'(4) [OF Inr] by (simp add: keyed_def settled_def row_keys_def)
    then have "keyed (insert (t_ID t, t_GatewayIdempotencyKey t) S) (snd (f t w1))" using assms by (simp add: keeps_def)
    with Inr g show ?thesis by (simp add: bindE_def wrapE_def keyed_def settled_def row_keys_def)
  qed
qed

subsection \<open>The operations\<close>

lemma keeps_keyed_prims [hoare]:
  "keeps (keyed S) Now" "keeps (keyed S) (Txn_GetByID i)" "keeps (keyed S) (breaker_RecordFailure ev gid)"
  "keeps (keyed S) (recordBreaker ev gid ans)" "keeps (keyed S) (build_payment ev inp)" "keeps (keyed S) (enterIntent gid i ttl)"
  "keeps (keyed S) (TryAcquireDirect j i ttl)" "keeps (keyed S) (Execute c h (create_op ev t raw))"
  "keeps (keyed S) (query f)" "keeps (keyed S) answer"
  by (rule quiet; intro hoare)+

lemma keeps_keyed_finalize [hoare]: "keeps (keyed S) (finalize ev t resp oc)"
  by (rule quiet) (use no_charge_finalize in \<open>auto intro!: hoare simp: no_charge_def\<close>)

lemma keeps_keyed_txs [hoare]:
  "keeps (keyed S) (WithinTx (begin_processing t))" "keeps (keyed S) (WithinTx (create_tx ev t))"
  "keeps (keyed S) (WithinTx (initiate_record t resp))" "keeps (keyed S) (WithinTx (settle_tx ev t))"
  "keeps (keyed S) (WithinTx (process_tx t))"
  by (rule quiet, rule rk.txs, (rule TrueI)?, intro hoare)+

lemma keeps_keyed_refunds [hoare]:
  "keeps (keyed S) (InitiateRefund ev inp)" "keeps (keyed S) (ProcessRefund ev i)" "keeps (keyed S) (RetryStaleRefund ev i)"
  "keeps (keyed S) (ResolveCancelRefund ev i a)"
  by (rule quiet; intro hoare rk.InitiateRefund_keeps rk.ProcessRefund_keeps rk.ResolveCancelRefund_keeps; assumption?)+

lemma keeps_keyed_asks [hoare]: "keeps (keyed S) (checkStatus gid ad t)" "keeps (keyed S) (captureGateway gid ad t)"
proof -
  show "keeps (keyed S) (checkStatus gid ad t)"
    by (rule quiet) (auto intro!: hoare simp: checkStatus_def gateway_call_def Let_def)
  have "keeps (keyed S) (gateway_call (CallCapture g req) respond)" for g req and respond :: "gw_call list \<Rightarrow> go_error + 'r"
    by (simp add: keeps_def keyed_def settled_def coh_def gateway_call_def log_call_def bindE_def reading_def changing_def ok_def)
  then show "keeps (keyed S) (captureGateway gid ad t)"
    unfolding captureGateway_def Let_def case_prod_beta by (intro hoare)
qed

lemma keeps_keyed_callGateway:
  "(t_ID t, t_GatewayIdempotencyKey t) \<in> S \<Longrightarrow> keeps (keyed S) (callGateway gid ad t)"
  unfolding callGateway_def Let_def by (intro hoare keeps_keyed_call) (simp add: initiate_request_def)

lemma initiate_fees_key: "initiate_fees ev t = Inr (t1, money) \<Longrightarrow> t_GatewayIdempotencyKey t1 = t_GatewayIdempotencyKey t"
  by (auto simp: initiate_fees_def Let_def split: sum.splits option.splits prod.splits)

lemma keeps_keyed_initiate: "keeps (keyed S) (ProcessGatewayInitiate ev i)"
proof -
  have leased: "keeps (keyed (insert (t_ID t, t_GatewayIdempotencyKey t) S)) (initiate_leased ev t)" for t
  proof -
    have q: "t_ID t1 = t_ID t \<and> t_GatewayIdempotencyKey t1 = t_GatewayIdempotencyKey t"
      if "lift (initiate_fees ev t) w = (Inr (t1, money), w')" for w t1 money and w' :: world
      using that by (auto simp: run dest: initiate_fees_key initiate_fees_ID)
    have body: "keeps (keyed (insert (t_ID t, t_GatewayIdempotencyKey t) S)) (bindE (lift (initiate_fees ev t)) (\<lambda>(t1, money).
        bindE (gateway_call (CallInitiate (t_GatewayID t1) (initiate_request t1 money))
            (\<lambda>calls. InitiatePayment ad calls (initiate_request t1 money))) (\<lambda>r. case r of
            Inl e \<Rightarrow> bindE (attempt (breaker_RecordFailure ev (t_GatewayID t1))) (\<lambda>_.
                     throw (Wrapf ''gateway-initiate: gateway call failed'' e))
          | Inr resp \<Rightarrow> WithinTx (initiate_record t1 resp))))" for ad
      by (rule keeps_bindE_post [where Q = "\<lambda>(t1, money). t_ID t1 = t_ID t \<and> t_GatewayIdempotencyKey t1 = t_GatewayIdempotencyKey t"])
         (auto intro!: hoare keeps_keyed_call dest!: q simp: initiate_request_def)
    show ?thesis unfolding initiate_leased_def Let_def by (intro hoare body)
  qed
  show ?thesis
    unfolding ProcessGatewayInitiate_def by (rule keeps_keyed_load) (intro hoare leased)
qed

lemma keeps_keyed_Create: "keeps (keyed S) (Create ev inp)"
proof -
  have sync: "keeps (keyed S) (syncInitiate ev t)" for t
    unfolding syncInitiate_def by (intro hoare keeps_keyed_initiate)
  have "keeps (keyed S) (created_result ev t raw b)" "keeps (keyed S) (replayed_result ev j)"
    "keeps (keyed S) (create_verdict ev t raw x)" for t raw b j x
    unfolding created_result_def replayed_result_def create_verdict_def
    by (auto intro!: hoare sync split: prod.split Verdict.split option.split)
  then show ?thesis unfolding Create_def by (intro hoare)
qed

lemma begin_processing_key:
  "begin_processing t w = (Inr t', w') \<Longrightarrow> t_ID t' = t_ID t \<and> t_GatewayIdempotencyKey t' = t_GatewayIdempotencyKey t"
  by (simp add: begin_processing_row)

lemma keeps_keyed_under_lease:
  assumes "\<And>ad t' S'. (t_ID t', t_GatewayIdempotencyKey t') \<in> S' \<Longrightarrow> keeps (keyed S') (call ad t')"
  shows "keeps (keyed (insert (t_ID t, t_GatewayIdempotencyKey t) S)) (under_lease ev t call resolve)"
proof -
  have q: "t_ID t1 = t_ID t \<and> t_GatewayIdempotencyKey t1 = t_GatewayIdempotencyKey t"
    if "mapE f (WithinTx (begin_processing t)) w = (Inr t1, w')" for f w t1 w'
    using that by (auto simp: mapE_def run dest!: begin_processing_key split: prod.splits sum.splits)
  show ?thesis
    unfolding under_lease_def
    by (rule keeps_bindE_post [where Q = "\<lambda>t1. t_ID t1 = t_ID t \<and> t_GatewayIdempotencyKey t1 = t_GatewayIdempotencyKey t"])
       (auto intro!: hoare assms dest!: q)
qed

lemma keeps_keyed_ops:
  "keeps (keyed S) (Authorize ev i)" "keeps (keyed S) (Capture ev i)" "keeps (keyed S) (Settle ev i)"
  "keeps (keyed S) (RecoverExpiredLease ev i)"
proof -
  show "keeps (keyed S) (Authorize ev i)" "keeps (keyed S) (Capture ev i)"
    unfolding Authorize_def Capture_def
    by (rule keeps_keyed_load, intro hoare keeps_keyed_under_lease keeps_keyed_callGateway; assumption)+
  show "keeps (keyed S) (Settle ev i)" "keeps (keyed S) (RecoverExpiredLease ev i)"
    unfolding Settle_def RecoverExpiredLease_def Let_def by (intro hoare)+
qed

lemma keeps_keyed_ProcessPayment: "keeps (keyed S) (ProcessPayment ev i)"
proof -
  have q: "\<not> acq \<or> t_ID t1 = t_ID t \<and> t_GatewayIdempotencyKey t1 = t_GatewayIdempotencyKey t"
    if "wrapE s (WithinTx (process_tx t)) w = (Inr (acq, t1), w')" for s t w acq t1 w'
  proof -
    from that obtain w1 where "process_tx t (open_tx w) = (Inr (acq, t1), w1)" by (auto simp: run)
    then show ?thesis by (cases rule: process_tx_cases) (auto dest: begin_processing_key)
  qed
  have body: "keeps (keyed (insert (t_ID t, t_GatewayIdempotencyKey t) S)) (bindE (wrapE s (WithinTx (process_tx t))) (\<lambda>(acquired, t1).
         if \<not> acquired then ok t1
         else bindE (enterIntent (t_GatewayID t1) (t_ID t1) ttl) (\<lambda>_.
              bindE (attemptGateways ev ad t1) (\<lambda>ans. finalize ev t1 (resp_of ans) (resolveOutcome ans)))))" for s t ttl ad
    by (rule keeps_bindE_post [where Q = "\<lambda>(acq, t1). \<not> acq \<or> t_ID t1 = t_ID t \<and> t_GatewayIdempotencyKey t1 = t_GatewayIdempotencyKey t"])
       (auto intro!: hoare keeps_keyed_callGateway dest!: q simp: attemptGateways_def)
  show ?thesis
    unfolding ProcessPayment_def
    by (rule keeps_keyed_load, rule keeps_if, rule keeps_ok, rule keeps_case_option, rule keeps_throw, rule body)
qed

lemma keyed_payment_op: "keyed S w \<Longrightarrow> keyed S (run_payment_op ev op w)"
proof (cases op)
  case (OpRefund rop)
  assume "keyed S w"
  with OpRefund show ?thesis
    by (cases rop) (simp_all add: keeps_snd [OF keeps_keyed_refunds(1)] keeps_snd [OF keeps_keyed_refunds(2)]
        keeps_snd [OF keeps_keyed_refunds(3)] keeps_snd [OF keeps_keyed_refunds(4)])
qed (simp_all add: keeps_snd [OF keeps_keyed_Create] keeps_snd [OF keeps_keyed_initiate] keeps_snd [OF keeps_keyed_ProcessPayment]
    keeps_snd [OF keeps_keyed_ops(1)] keeps_snd [OF keeps_keyed_ops(2)] keeps_snd [OF keeps_keyed_ops(3)]
    keeps_snd [OF keeps_keyed_ops(4)])

subsection \<open>The whole system\<close>

lemma keeps_calls_statements:
  "keeps (\<lambda>w. C (w_calls w)) (PollPending ttl shards n)" "keeps (\<lambda>w. C (w_calls w)) (MarkPublished i c)"
  "keeps (\<lambda>w. C (w_calls w)) (MarkFailed i c err next)" "keeps (\<lambda>w. C (w_calls w)) (MarkExhausted ev i c err)"
  "keeps (\<lambda>w. C (w_calls w)) (ReplayDeadLetter ev tenantID i actor)" "keeps (\<lambda>w. C (w_calls w)) Lease_DeleteExpired"
  "keeps (\<lambda>w. C (w_calls w)) (SweepStaleProcessing age)" "keeps (\<lambda>w. C (w_calls w)) Idem_DeleteExpired"
  "keeps (\<lambda>w. C (w_calls w)) ListExpiredLeaseIDs" "keeps (\<lambda>w. C (w_calls w)) (ListStaleRefunds a b l)"
  unfolding PollPending_def MarkPublished_def MarkFailed_def MarkExhausted_def mark_event_def ReplayDeadLetter_def replay_tx_def
    Lease_DeleteExpired_def SweepStaleProcessing_def Idem_DeleteExpired_def ListExpiredLeaseIDs_def ListStaleRefunds_def Let_def
  by (intro hoare)+

lemma keeps_row_statements:
  "keeps (settled (row_keys S)) (PollPending ttl shards n)" "keeps (settled (row_keys S)) (MarkPublished i c)"
  "keeps (settled (row_keys S)) (MarkFailed i c err next)" "keeps (settled (row_keys S)) (MarkExhausted ev i c err)"
  "keeps (settled (row_keys S)) (ReplayDeadLetter ev tenantID i actor)" "keeps (settled (row_keys S)) Lease_DeleteExpired"
  "keeps (settled (row_keys S)) (SweepStaleProcessing age)" "keeps (settled (row_keys S)) Idem_DeleteExpired"
  "keeps (settled (row_keys S)) ListExpiredLeaseIDs" "keeps (settled (row_keys S)) (ListStaleRefunds a b l)"
  by (intro rk.frame.statements_keep rk.frame.MarkExhausted_keeps rk.frame.replay_keeps rk.frame.Lease_DeleteExpired_keeps
       keeps_sweeps rk.tables_free)+
     (simp_all add: ListExpiredLeaseIDs_def ListStaleRefunds_def Let_def hoare)

lemmas keeps_keyed_statements = quiet [OF keeps_row_statements(1) keeps_calls_statements(1)]
  quiet [OF keeps_row_statements(2) keeps_calls_statements(2)] quiet [OF keeps_row_statements(3) keeps_calls_statements(3)]
  quiet [OF keeps_row_statements(4) keeps_calls_statements(4)] quiet [OF keeps_row_statements(5) keeps_calls_statements(5)]
  quiet [OF keeps_row_statements(6) keeps_calls_statements(6)] quiet [OF keeps_row_statements(7) keeps_calls_statements(7)]
  quiet [OF keeps_row_statements(8) keeps_calls_statements(8)] quiet [OF keeps_row_statements(9) keeps_calls_statements(9)]
  quiet [OF keeps_row_statements(10) keeps_calls_statements(10)]

lemma keeps_keyed_relay: "keeps (keyed S) (RunOnce ev ttl cfg rnd (buildPublisher ev post bus))"
proof -
  have pub: "keeps (keyed S) (buildPublisher ev post bus e)" for e
    unfolding buildPublisher_def Router_Publish.simps callback_Handle_def initiator_Handle_def refundinitiator_Handle_def base_Handle_def
    by (intro hoare keeps_keyed_initiate)
  have "keeps (keyed S) (processAll ev cfg rnd (buildPublisher ev post bus) es n)" for es n
  proof (induction es arbitrary: n)
    case (Cons e es)
    show ?case
      unfolding processAll.simps processEvent_def by (intro hoare pub Cons.IH keeps_keyed_statements)
  qed (simp add: hoare)
  then show ?thesis unfolding RunOnce_def by (intro hoare keeps_keyed_statements)
qed

lemma keyed_service: "service_step ev B w w' \<Longrightarrow> keyed S w \<Longrightarrow> keyed S w'"
proof (induction rule: service_step.cases)
  case (webhook w1 g e raw)
  show ?thesis
    unfolding webhook(2) by (rule quiet_at) (use webhook in \<open>auto intro: rk.frame.webhook_keeps keeps_calls_webhook\<close>)
next
  case (cancel w1 inp)
  have "keeps (keyed S) (Cancel ev inp)" by (rule quiet [OF rk.frame.Cancel_keeps keeps_calls_Cancel])
  with cancel show ?thesis by (simp add: keeps_def)
next
  case (outside w1 now b)
  then show ?thesis by (simp add: keyed_def settled_def coh_def)
qed (simp_all add: keyed_payment_op keeps_snd [OF keeps_keyed_statements(7)] keeps_snd [OF keeps_keyed_statements(8)])

lemma keyed_system: "system_step ev B w w' \<Longrightarrow> keyed S w \<Longrightarrow> keyed S w'"
proof (induction rule: system_step.cases)
  case (lease_reaper w1 timeout)
  have "keeps (keyed S) (lease_RunOnce ev timeout)"
    unfolding lease_RunOnce_def reapLeases_def sweepIdempotency_def sweepLeases_def
    by (intro hoare keeps_keyed_statements keeps_keyed_ops)
  with lease_reaper show ?thesis by (simp add: keeps_def)
next
  case (refund_reaper w1 cfg)
  have "keeps (keyed S) (refund_RunOnce ev cfg)"
    unfolding refund_RunOnce_def by (intro hoare keeps_keyed_statements)
  with refund_reaper show ?thesis by (simp add: keeps_def)
qed (auto intro: keyed_service keeps_snd [OF keeps_keyed_relay] keeps_snd [OF keeps_keyed_statements(5)])

text \<open>A gateway that never answers, a payment created while it does not, and the next attempt after the
  reaper has deleted the expired lease.\<close>

definition failing_env :: env where
  "failing_env = sample_env \<lparr> ev_registry := (\<lambda>_. Some (sample_adapter \<lparr> InitiatePayment := (\<lambda>_ _. Inl (Errorf ''timeout'')) \<rparr>)) \<rparr>"

definition created_world :: world where
  "created_world = snd (Create failing_env (manual_input \<lparr> ci_CaptureMode := CaptureModeAuto \<rparr>) (sample_world \<lparr> w_clock := 0 \<rparr>))"

definition retried_world :: world where
  "retried_world = snd (ProcessGatewayInitiate failing_env 100 (snd (lease_RunOnce failing_env 0
     (created_world \<lparr> w_clock := 86400 * Second, w_budget := None \<rparr>))))"

lemma breaker_failure:
  "breaker_RecordFailure ev g w = (let x = cb_RecordFailure (ev_cb_threshold ev) g (w_clock w) (w_cb w)
     in (map_sum id (\<lambda>_. ()) (fst x), w \<lparr> w_cb := snd x \<rparr>))"
  by (simp add: breaker_RecordFailure_def Let_def split: prod.split sum.split)

lemmas retry_eval = failing_env_def ProcessGatewayInitiate_def initiate_leased_def initiate_fees_def initiate_request_def lease_ttl_def
  TryAcquireDirect_def breaker_failure syncInitiate_def lease_RunOnce_def reapLeases_def ListExpiredLeaseIDs_def
  lease_overdue_def sweepIdempotency_def SweepStaleProcessing_def Idem_DeleteExpired_def sweepLeases_def Lease_DeleteExpired_def
  exec_pool_def lease_New_def

text \<open>The gateway has been asked to charge the payment twice.\<close>

lemma retried_calls:
  "\<exists>g req. w_calls retried_world = [CallInitiate g req, CallInitiate g req] \<and> gpr_TransactionID req = 100"
  by (simp add: retried_world_def created_world_def history_eval retry_eval)

text \<open>C4. Repeated charges can be recognised: in every state that the whole system can reach, including
  those after expired leases were deleted, every initiate call that a gateway has received was for a
  payment that exists and carried the idempotency key that this payment has, when that held at the
  start. So two calls for the same payment carry the same key.\<close>

theorem initiates_carry_own_key:
  assumes "system_reaches ev B w w'" "keyed {} w" "CallInitiate g req \<in> set (w_calls w')"
  shows "\<exists>t. txn_of (w_db w') (gpr_TransactionID req) = Some t \<and> gpr_IdempotencyKey req = t_GatewayIdempotencyKey t"
proof -
  have "keyed {} w'" by (rule system_invariant [where I = "keyed {}", OF assms(1,2)]) (rule keyed_system)
  moreover have "(gpr_TransactionID req, gpr_IdempotencyKey req) \<in> initiates (w_calls w')"
    using assms(3) by (auto simp: initiates_def)
  ultimately show ?thesis by (fastforce simp: keyed_def settled_def row_keys_def)
qed

theorem initiates_carry_own_key_witness:
  "\<exists>t g req. CallInitiate g req \<in> set (w_calls retried_world) \<and>
     txn_of (w_db retried_world) 100 = Some t \<and> gpr_IdempotencyKey req = t_GatewayIdempotencyKey t"
proof -
  let ?w = "sample_world \<lparr> w_clock := 0 \<rparr>" and ?c = "created_world \<lparr> w_clock := 86400 * Second, w_budget := None \<rparr>"
  have "system_step failing_env (\<lambda>_. True) ?w created_world"
    using service [OF payment [of "\<lambda>_. True" "OpCreate (manual_input \<lparr> ci_CaptureMode := CaptureModeAuto \<rparr>)", OF TrueI]]
    by (simp add: created_world_def)
  moreover have "system_step failing_env (\<lambda>_. True) created_world ?c" by (rule service [OF outside])
  moreover have "system_step failing_env (\<lambda>_. True) ?c (snd (lease_RunOnce failing_env 0 ?c))" by (rule lease_reaper)
  moreover have "system_step failing_env (\<lambda>_. True) (snd (lease_RunOnce failing_env 0 ?c)) retried_world"
    using service [OF payment [of "\<lambda>_. True" "OpGatewayInitiate 100", OF TrueI]] by (simp add: retried_world_def)
  ultimately have r: "system_reaches failing_env (\<lambda>_. True) ?w retried_world" by (meson converse_rtranclp_into_rtranclp rtranclp.rtrancl_refl)
  have k: "keyed {} ?w" by (simp add: keyed_def settled_def coh_def row_keys_def initiates_def sample_world_def)
  from retried_calls obtain g req where c: "CallInitiate g req \<in> set (w_calls retried_world)" "gpr_TransactionID req = 100" by auto
  from initiates_carry_own_key [OF r k c(1)] c show ?thesis by auto
qed

end
