(* ===== verification/Disputes.thy ===== *)
theory Disputes
  imports Cancellation
begin

section \<open>The dispute service (internal/app/dispute, internal/adapters/postgres/dispute.go)\<close>

text \<open>
  Disputes that the gateways report, the evidence that tenants submit, and the moves of the disputed
  payments. Each report is handled in one transaction; whether a report is for a dispute that is
  already known is decided by the gateway and the gateway's identifier for it.
\<close>

abbreviation EventTypeDisputeCreated :: string where "EventTypeDisputeCreated \<equiv> ''DISPUTE_CREATED''"
abbreviation EventTypeDisputeUpdated :: string where "EventTypeDisputeUpdated \<equiv> ''DISPUTE_UPDATED''"

record GatewayDisputeEvent =
  gde_GatewayDisputeID :: string
  gde_GatewayReferenceID :: string
  gde_Status :: string
  gde_Reason :: string
  gde_Amount :: int
  gde_Currency :: string
  gde_EvidenceDueBy :: "int option"
  gde_ResolvedAt :: "int option"

record DisputeFilters =
  df_TenantID :: uuid
  df_Status :: "DisputeStatus option"
  df_GatewayID :: "string option"
  df_DateFrom :: "int option"
  df_DateTo :: "int option"
  df_Limit :: int
  df_Offset :: int

subsection \<open>The tables\<close>

definition dispute_key :: "Dispute \<Rightarrow> string \<times> string" where
  "dispute_key d = (dp_GatewayID d, dp_GatewayDisputeID d)"

fun dispute_status_known :: "DisputeStatus \<Rightarrow> bool" where
  "dispute_status_known (DStatusOther _) = False"
| "dispute_status_known _ = True"

abbreviation dispute_of :: "db \<Rightarrow> uuid \<Rightarrow> Dispute option" where
  "dispute_of d i \<equiv> lookup_row dp_ID i (db_disputes d)"

text \<open>The constraints of the table, and the blanks with which a \<open>CHAR(3)\<close> is filled up.\<close>

definition dispute_insert_ok :: "Dispute \<Rightarrow> db \<Rightarrow> bool" where
  "dispute_insert_ok dp d \<longleftrightarrow> dispute_of d (dp_ID dp) = None \<and> txn_of d (dp_TransactionID dp) \<noteq> None \<and>
     lookup_row dispute_key (dispute_key dp) (db_disputes d) = None \<and> dispute_status_known (dp_Status dp) \<and>
     length (dp_Currency dp) \<le> 3"

definition dispute_row :: "Dispute \<Rightarrow> Dispute" where
  "dispute_row dp = dp \<lparr> dp_Currency := take 3 (dp_Currency dp @ ''   '') \<rparr>"

definition Dispute_Create :: "Dispute \<Rightarrow> (world, unit) comp" where
  "Dispute_Create dp = bindE (query (dispute_insert_ok dp)) (\<lambda>allowed.
     if allowed then changing (put_db (\<lambda>d. d \<lparr> db_disputes := db_disputes d @ [dispute_row dp] \<rparr>))
     else sql_error ''disputes constraint'')"

definition Dispute_GetByID :: "uuid \<Rightarrow> (world, Dispute) comp" where
  "Dispute_GetByID i = bindE (query (\<lambda>d. dispute_of d i)) (\<lambda>row. case row of
     None \<Rightarrow> throw ErrDisputeNotFound | Some dp \<Rightarrow> ok dp)"

definition GetByGatewayDisputeID :: "string \<Rightarrow> string \<Rightarrow> (world, Dispute) comp" where
  "GetByGatewayDisputeID gatewayID gatewayDisputeID =
     bindE (query (\<lambda>d. lookup_row dispute_key (gatewayID, gatewayDisputeID) (db_disputes d))) (\<lambda>row. case row of
       None \<Rightarrow> throw ErrDisputeNotFound | Some dp \<Rightarrow> ok dp)"

definition dispute_cols :: "Dispute \<Rightarrow> Dispute \<Rightarrow> Dispute" where
  "dispute_cols dp row = row \<lparr> dp_Reason := dp_Reason dp, dp_Status := dp_Status dp,
     dp_EvidenceDueBy := dp_EvidenceDueBy dp, dp_EvidenceSubmittedAt := dp_EvidenceSubmittedAt dp,
     dp_ResolvedAt := dp_ResolvedAt dp \<rparr>"

definition Dispute_Update :: "Dispute \<Rightarrow> (world, unit) comp" where
  "Dispute_Update dp = bindE (query (\<lambda>d. dispute_of d (dp_ID dp) = None \<or> dispute_status_known (dp_Status dp))) (\<lambda>allowed.
     if allowed then changing (put_db (\<lambda>d. d \<lparr> db_disputes := update_row dp_ID (dp_ID dp) (dispute_cols dp) (db_disputes d) \<rparr>))
     else sql_error ''disputes constraint'')"

definition dispute_matches :: "DisputeFilters \<Rightarrow> db \<Rightarrow> Dispute \<Rightarrow> bool" where
  "dispute_matches f d dp \<longleftrightarrow> (case txn_of d (dp_TransactionID dp) of
      None \<Rightarrow> False
    | Some t \<Rightarrow> (df_TenantID f = uuid_Nil \<or> t_TenantID t = df_TenantID f) \<and>
        (case df_Status f of None \<Rightarrow> True | Some s \<Rightarrow> dp_Status dp = s) \<and>
        (case df_GatewayID f of None \<Rightarrow> True | Some g \<Rightarrow> dp_GatewayID dp = g) \<and>
        (case df_DateFrom f of None \<Rightarrow> True | Some a \<Rightarrow> a \<le> dp_CreatedAt dp) \<and>
        (case df_DateTo f of None \<Rightarrow> True | Some b \<Rightarrow> dp_CreatedAt dp \<le> b))"

definition Dispute_List :: "DisputeFilters \<Rightarrow> (world, Dispute list) comp" where
  "Dispute_List f = query (\<lambda>d.
     let hits = rev (sort_key dp_CreatedAt (filter (dispute_matches f d) (db_disputes d)));
         rest = (if df_Offset f > 0 then drop (nat (df_Offset f)) hits else hits)
     in if df_Limit f > 0 then take (nat (df_Limit f)) rest else rest)"

definition Evidence_Add :: "Evidence \<Rightarrow> (world, unit) comp" where
  "Evidence_Add e = bindE (query (\<lambda>d. lookup_row evd_ID (evd_ID e) (db_evidence d) = None \<and>
       dispute_of d (evd_DisputeID e) \<noteq> None \<and> evd_Type e \<in> set EvidenceTypes)) (\<lambda>allowed.
     if allowed then changing (put_db (\<lambda>d. d \<lparr> db_evidence := db_evidence d @ [e] \<rparr>))
     else sql_error ''dispute_evidence constraint'')"

definition ListByDisputeID :: "uuid \<Rightarrow> (world, Evidence list) comp" where
  "ListByDisputeID i = query (\<lambda>d. sort_key evd_SubmittedAt (filter (\<lambda>e. evd_DisputeID e = i) (db_evidence d)))"

subsection \<open>The service\<close>

definition dispute_event :: "uuid \<Rightarrow> string \<Rightarrow> json \<Rightarrow> int \<Rightarrow> OutboxEvent" where
  "dispute_event tid et payload ver = \<lparr> oe_ID = uuid_Nil, oe_AggregateID = tid, oe_AggregateType = ''transaction'',
     oe_EventType = et, oe_Payload = payload, oe_EventVersion = 1, oe_AggregateVersion = ver, oe_NextAttemptAt = None \<rparr>"

definition dispute_payload :: "uuid \<Rightarrow> Dispute \<Rightarrow> json" where
  "dispute_payload i d = JObj [(''dispute_id'', JUuid i), (''transaction_id'', JUuid (dp_TransactionID d)),
     (''gateway_id'', JStr (dp_GatewayID d)), (''status'', JStr (dispute_status_str (dp_Status d))),
     (''reason'', JStr (dp_Reason d))]"

definition dispatchDisputeNotification :: "env \<Rightarrow> Txn \<Rightarrow> string \<Rightarrow> (world, unit) comp" where
  "dispatchDisputeNotification ev txn notifType =
    (if t_CustomerEmail txn = '''' then ok ()
     else notify ev txn notifType [(''transaction_id'', JUuid (t_ID txn))])"

definition dispatchDisputeWebhook :: "env \<Rightarrow> Txn \<Rightarrow> string \<Rightarrow> (world, unit) comp" where
  "dispatchDisputeWebhook ev txn eventType =
     bindE (attempt (TenantWebhook_Dispatch ev (t_TenantID txn) (t_ID txn) eventType
       (JObj [(''transaction_id'', JUuid (t_ID txn)), (''status'', JStr (status_str (t_Status txn)))]))) (\<lambda>_. ok ())"

definition transitionParentOnDisputeCreate :: "env \<Rightarrow> uuid \<Rightarrow> (world, unit) comp" where
  "transitionParentOnDisputeCreate ev txnID =
     bindE (wrapE ''dispute: load transaction'' (Txn_GetByID txnID)) (\<lambda>txn. bindE Now (\<lambda>now.
     bindE (wrapE ''dispute: transition parent to DISPUTED'' (lift (TransitionState txn StatusDisputed ActorGateway now))) (\<lambda>txn1.
     bindE (dispatchDisputeNotification ev txn1 ''DISPUTE_OPENED'') (\<lambda>_.
     bindE (dispatchDisputeWebhook ev txn1 EventTypeDisputeCreated) (\<lambda>_.
     bindE (Publish (t_ID txn1) (t_Status txn1)) (\<lambda>_.
     bindE (Txn_UpdateStatus txn1) (\<lambda>_. ok ())))))))"

text \<open>The two cases of the switch differ in the target status, the notification and the payload only.\<close>

definition resolve_parent :: "env \<Rightarrow> Txn \<Rightarrow> DisputeStatus \<Rightarrow> Status \<Rightarrow> string \<Rightarrow> string \<Rightarrow> (world, unit) comp" where
  "resolve_parent ev txn st target msg notifType = bindE Now (\<lambda>now.
     bindE (wrapE msg (lift (TransitionState txn target ActorSystem now))) (\<lambda>txn1.
     bindE (Txn_UpdateStatus txn1) (\<lambda>txn2.
     bindE (dispatchDisputeNotification ev txn2 notifType) (\<lambda>_.
     bindE (dispatchDisputeWebhook ev txn2 EventTypeDisputeUpdated) (\<lambda>_.
     bindE (Publish (t_ID txn2) (t_Status txn2)) (\<lambda>_.
     Outbox_Write ev (dispute_event (t_ID txn) EventTypeDisputeUpdated
       (JObj [(''transaction_id'', JUuid (t_ID txn)), (''dispute_status'', JStr (dispute_status_str st)),
              (''new_txn_status'', JStr (status_str target))]) (t_Version txn2))))))))"

definition transitionParentOnDisputeUpdate :: "env \<Rightarrow> uuid \<Rightarrow> DisputeStatus \<Rightarrow> (world, unit) comp" where
  "transitionParentOnDisputeUpdate ev txnID st =
     bindE (wrapE ''dispute: load transaction'' (Txn_GetByID txnID)) (\<lambda>txn.
       if t_Status txn \<noteq> StatusDisputed then ok ()
       else if st = DStatusWon then resolve_parent ev txn st StatusCaptured ''dispute: transition parent to CAPTURED'' ''DISPUTE_WON''
       else if st = DStatusLost then resolve_parent ev txn st StatusRefunded ''dispute: transition parent to REFUNDED'' ''DISPUTE_LOST''
       else ok ())"

fun isNotFound :: "go_error \<Rightarrow> bool" where
  "isNotFound (DisputeError code _) = (code = ''NOT_FOUND'')"
| "isNotFound _ = False"

definition update_existing :: "env \<Rightarrow> Dispute \<Rightarrow> Dispute \<Rightarrow> (world, unit) comp" where
  "update_existing ev existing d =
    (let existing1 = existing \<lparr> dp_Status := dp_Status d, dp_Reason := dp_Reason d, dp_EvidenceDueBy := dp_EvidenceDueBy d \<rparr>;
         existing2 = (if dispute_resolved (dp_Status d) then existing1 \<lparr> dp_ResolvedAt := dp_ResolvedAt d \<rparr> else existing1)
     in bindE (Dispute_Update existing2) (\<lambda>_.
        bindE (if dp_Status d \<noteq> DStatusWon \<and> dp_Status d \<noteq> DStatusLost
               then Outbox_Write ev (dispute_event (dp_TransactionID d) EventTypeDisputeUpdated (dispute_payload (dp_ID existing) d) 0)
               else ok ()) (\<lambda>_.
        transitionParentOnDisputeUpdate ev (dp_TransactionID d) (dp_Status d))))"

definition create_new :: "env \<Rightarrow> Dispute \<Rightarrow> (world, unit) comp" where
  "create_new ev d = bindE (Dispute_Create d) (\<lambda>_.
     bindE (Outbox_Write ev (dispute_event (dp_TransactionID d) EventTypeDisputeCreated (dispute_payload (dp_ID d) d) 0)) (\<lambda>_.
     transitionParentOnDisputeCreate ev (dp_TransactionID d)))"

definition dispute_tx :: "env \<Rightarrow> Dispute \<Rightarrow> (world, unit) comp" where
  "dispute_tx ev d = bindE (attempt (GetByGatewayDisputeID (dp_GatewayID d) (dp_GatewayDisputeID d))) (\<lambda>r. case r of
      Inl e \<Rightarrow> if isNotFound e then create_new ev d else throw e
    | Inr existing \<Rightarrow> update_existing ev existing d)"

definition CreateDispute :: "env \<Rightarrow> Dispute \<Rightarrow> (world, unit) comp" where
  "CreateDispute ev d = WithinTx (dispute_tx ev d)"

definition dispute_of_event :: "uuid \<Rightarrow> uuid \<Rightarrow> string \<Rightarrow> int \<Rightarrow> GatewayDisputeEvent \<Rightarrow> Dispute" where
  "dispute_of_event newID tid gatewayID now e = \<lparr> dp_ID = newID, dp_TransactionID = tid, dp_GatewayID = gatewayID,
     dp_GatewayDisputeID = gde_GatewayDisputeID e, dp_Reason = gde_Reason e, dp_Status = dispute_status (gde_Status e),
     dp_Amount = gde_Amount e, dp_Currency = gde_Currency e, dp_EvidenceDueBy = gde_EvidenceDueBy e,
     dp_EvidenceSubmittedAt = None, dp_CreatedAt = now, dp_ResolvedAt = gde_ResolvedAt e \<rparr>"

definition IngestGatewayDispute :: "env \<Rightarrow> string \<Rightarrow> GatewayDisputeEvent \<Rightarrow> (world, unit) comp" where
  "IngestGatewayDispute ev gatewayID e =
     bindE (wrapE ''dispute: lookup transaction by gateway reference'' (GetByGatewayReference gatewayID (gde_GatewayReferenceID e))) (\<lambda>r.
     case r of
       None \<Rightarrow> throw (Errorf ''dispute: no transaction for gateway reference'')
     | Some txn \<Rightarrow> bindE Now (\<lambda>now. bindE (NewUUID ev) (\<lambda>newID.
         CreateDispute ev (dispute_of_event newID (t_ID txn) gatewayID now e))))"

definition tenantCanAccess :: "uuid \<Rightarrow> Dispute \<Rightarrow> (world, bool) comp" where
  "tenantCanAccess tenantID d =
    (if tenantID = uuid_Nil then ok True
     else bindE (attempt (Txn_GetByID (dp_TransactionID d))) (\<lambda>r. case r of
        Inl _ \<Rightarrow> ok False | Inr txn \<Rightarrow> ok (t_TenantID txn = tenantID)))"

definition GetDispute :: "uuid \<Rightarrow> uuid \<Rightarrow> (world, Dispute) comp" where
  "GetDispute tenantID i = bindE (Dispute_GetByID i) (\<lambda>d. bindE (tenantCanAccess tenantID d) (\<lambda>allowed.
     if allowed then ok d else throw ErrDisputeNotFound))"

definition ListDisputes :: "DisputeFilters \<Rightarrow> (world, Dispute list) comp" where
  "ListDisputes f = Dispute_List f"

definition SubmitEvidence :: "uuid \<Rightarrow> uuid \<Rightarrow> Evidence \<Rightarrow> (world, unit) comp" where
  "SubmitEvidence tenantID disputeID e = bindE (Dispute_GetByID disputeID) (\<lambda>d. bindE (tenantCanAccess tenantID d) (\<lambda>allowed.
     if \<not> allowed then throw ErrDisputeNotFound
     else if \<not> CanSubmitEvidence d then throw ErrDisputeInvalidTransition
     else bindE (Evidence_Add (e \<lparr> evd_DisputeID := disputeID \<rparr>)) (\<lambda>_.
       if dp_EvidenceSubmittedAt d = None then Dispute_Update (d \<lparr> dp_EvidenceSubmittedAt := Some (evd_SubmittedAt e) \<rparr>)
       else ok ())))"

definition ListEvidence :: "uuid \<Rightarrow> uuid \<Rightarrow> (world, Evidence list) comp" where
  "ListEvidence tenantID disputeID = bindE (Dispute_GetByID disputeID) (\<lambda>d. bindE (tenantCanAccess tenantID d) (\<lambda>allowed.
     if \<not> allowed then throw ErrDisputeNotFound else ListByDisputeID disputeID))"

subsection \<open>Transactions\<close>

lemma keeps_Dispute_repo [hoare]:
  "keeps (tx_inv D fs) (Dispute_Create dp)" "keeps (tx_inv D fs) (Dispute_Update dp)"
  "keeps (tx_inv D fs) (GetByGatewayDisputeID g i)" "keeps (tx_inv D fs) (Dispute_GetByID j)"
  unfolding Dispute_Create_def Dispute_Update_def GetByGatewayDisputeID_def Dispute_GetByID_def by (intro hoare; simp)+

lemma keeps_txns_disputes [hoare]:
  "keeps (\<lambda>w. db_transactions (cur_db w) = T) (Dispute_Create dp)" "keeps (\<lambda>w. db_transactions (cur_db w) = T) (Dispute_Update dp)"
  "keeps (\<lambda>w. db_transactions (cur_db w) = T) (GetByGatewayDisputeID g i)"
  unfolding Dispute_Create_def Dispute_Update_def GetByGatewayDisputeID_def by (intro hoare; simp)+

lemma keeps_txns_Outbox_Write [hoare]: "keeps (\<lambda>w. db_transactions (cur_db w) = T) (Outbox_Write ev e)"
proof -
  have "keeps (\<lambda>w. db_transactions (cur_db w) = T) (NewUUID ev)" by (simp add: keeps_def NewUUID_def)
  then show ?thesis unfolding Outbox_Write_def exec_def by (intro hoare; simp)
qed

lemma keeps_clean_disputes [hoare]:
  "keeps (clean D fs) (Dispute_Create dp)" "keeps (clean D fs) (Dispute_Update dp)"
  "keeps (clean D fs) (GetByGatewayDisputeID g i)" "keeps (clean D fs) (Outbox_Write ev e)"
  by (intro keeps_cleanI hoare)+

lemma keeps_dispute_messages [hoare]:
  "keeps (tx_inv D fs) (dispatchDisputeNotification ev t n)" "keeps (tx_inv D fs) (dispatchDisputeWebhook ev t et)"
  "keeps (tx_inv D fs) (resolve_parent ev t st target msg n)"
  unfolding dispatchDisputeNotification_def dispatchDisputeWebhook_def notify_def resolve_parent_def by (intro hoare)+

lemma leads_parent:
  "leads (clean D fs) (tx_inv D fs) (transitionParentOnDisputeCreate ev i)"
  "leads (clean D fs) (tx_inv D fs) (transitionParentOnDisputeUpdate ev i st)"
  unfolding transitionParentOnDisputeCreate_def transitionParentOnDisputeUpdate_def
  by (rule leads_bindE; (intro hoare | rule leads_keeps, intro hoare)?; (erule clean_tx_inv)?)+

lemma leads_dispute_tx: "leads (clean D fs) (tx_inv D fs) (dispute_tx ev d)"
  unfolding dispute_tx_def create_new_def update_existing_def Let_def
  by (intro leads_bindE leads_case_sum leads_if leads_parent hoare clean_tx_inv leads_keeps [OF keeps_throw]; assumption)

subsection \<open>Transactions without faults\<close>

text \<open>While the database answers, inside a transaction that has changed no payment it still reads.\<close>

definition calm :: "world \<Rightarrow> bool" where
  "calm w \<longleftrightarrow> w_budget w = None \<and> (\<exists>f. w_tx w = [(f, False)]) \<and> coh_view w"

definition unchanged :: "world \<Rightarrow> world \<Rightarrow> bool" where
  "unchanged w w' \<longleftrightarrow> calm w' \<and> db_transactions (cur_db w') = db_transactions (cur_db w) \<and> db_disputes (cur_db w') = db_disputes (cur_db w)"

lemma calm_spend [simp]: "calm w \<Longrightarrow> spend w = w"
  by (simp add: calm_def spend_def)

lemma calm_can [simp]: "calm w \<Longrightarrow> can w"
  by (auto simp: calm_def can_def aborted_def)

lemma calm_prims [simp]:
  assumes "calm w"
  shows "stmt w = (Inr (), w)" "query f w = (Inr (f (cur_db w)), w)" "txFromContext w = (Inr (), w)" "lock_txn_row i w = (Inr (), w)"
  using assms by (auto simp: stmt_Inr query_Inr txFromContext_Inr lock_txn_row_Inr calm_def locked_by_outer_def)

lemma calm_put: "calm w \<Longrightarrow> (\<And>d. db_transactions (f d) = db_transactions d) \<Longrightarrow> calm (put_db f w)"
  by (auto simp: calm_def put_db_def coh_view_def cur_db_def)

lemma Txn_GetByID_calm:
  assumes "calm w"
  shows "txn_of (cur_db w) i = Some t \<Longrightarrow> \<exists>w'. Txn_GetByID i w = (Inr t, w') \<and> unchanged w w' \<and> w_clock w' = w_clock w"
    and "txn_of (cur_db w) i = None \<Longrightarrow> \<exists>e. fst (Txn_GetByID i w) = Inl e"
proof -
  have c: "w_cache w i = Some t' \<Longrightarrow> txn_of (cur_db w) i = Some t'" for t' using assms by (simp add: calm_def coh_view_def)
  show "\<exists>w'. Txn_GetByID i w = (Inr t, w') \<and> unchanged w w' \<and> w_clock w' = w_clock w" if "txn_of (cur_db w) i = Some t"
  proof (cases "w_cache w i")
    case None
    then have "Txn_GetByID i w = (Inr t, w \<lparr> w_cache := (w_cache w)(i \<mapsto> t) \<rparr>)"
      using assms that by (simp add: Txn_GetByID_def go_defs)
    moreover have "unchanged w (w \<lparr> w_cache := (w_cache w)(i \<mapsto> t) \<rparr>)"
      using assms that by (auto simp: unchanged_def calm_def coh_view_def)
    ultimately show ?thesis by auto
  next
    case (Some t')
    with c that assms have "Txn_GetByID i w = (Inr t, w)" by (simp add: Txn_GetByID_def go_defs)
    then show ?thesis using assms by (auto simp: unchanged_def)
  qed
  show "\<exists>e. fst (Txn_GetByID i w) = Inl e" if "txn_of (cur_db w) i = None"
  proof -
    have "w_cache w i = None" using c that by (cases "w_cache w i") auto
    with that assms show ?thesis by (simp add: Txn_GetByID_def go_defs)
  qed
qed

lemma unchanged_trans: "unchanged w v \<Longrightarrow> unchanged v w' \<Longrightarrow> unchanged w w'"
  by (simp add: unchanged_def)

lemma calm_put_unchanged:
  "calm w \<Longrightarrow> (\<And>d. db_transactions (f d) = db_transactions d) \<Longrightarrow> (\<And>d. db_disputes (f d) = db_disputes d) \<Longrightarrow> unchanged w (put_db f w)"
  by (simp add: unchanged_def calm_put)

lemma calm_seq: "calm w \<Longrightarrow> calm (w \<lparr> w_seq := n \<rparr>)" "calm w \<Longrightarrow> calm (w \<lparr> w_bus := b \<rparr>)"
  by (auto simp: calm_def coh_view_def)

lemma Outbox_Write_calm: "calm w \<Longrightarrow> \<exists>w'. Outbox_Write ev e w = (Inr (), w') \<and> unchanged w w'"
proof -
  assume w: "calm w"
  define f where "f = (\<lambda>rid (d :: db). d \<lparr> db_outbox := db_outbox d @ [outbox_row ev e rid (w_clock w)] \<rparr>)"
  have "unchanged w (put_db (f rid) (w \<lparr> w_seq := n \<rparr>))" "unchanged w (put_db (f rid) w)" for rid n
    using calm_put_unchanged [OF calm_seq(1) [OF w, of n], of "f rid"] calm_put_unchanged [OF w, of "f rid"]
    by (auto simp: f_def unchanged_def)
  then show ?thesis
    using w calm_seq(1) [OF w] by (auto simp: Outbox_Write_def go_defs NewUUID_def exec_def Now_def f_def)
qed

lemma Outbox_Write_calmD: "Outbox_Write ev e w = (Inr (), w') \<Longrightarrow> calm w \<Longrightarrow> unchanged w w'"
  using Outbox_Write_calm [of w ev e] by auto

lemma Publish_calm: "calm w \<Longrightarrow> \<exists>w'. Publish i st w = (Inr (), w') \<and> unchanged w w'"
  by (auto simp: Publish_def changing_def unchanged_def calm_seq)

lemma notify_calm: "calm w \<Longrightarrow> \<exists>w'. notify ev t typ data w = (Inr (), w') \<and> unchanged w w'"
proof -
  assume w: "calm w"
  have u: "unchanged w (put_db (\<lambda>d. d \<lparr> db_notifications := db_notifications d @ x \<rparr>) (w \<lparr> w_seq := n \<rparr>))" for x n
    using calm_put_unchanged [OF calm_seq(1) [OF w, of n], of "\<lambda>d. d \<lparr> db_notifications := db_notifications d @ x \<rparr>"]
    by (simp add: unchanged_def)
  have r: "unchanged w w" using w by (simp add: unchanged_def)
  show ?thesis
    using w calm_seq(1) [OF w] u r
    by (auto simp: notify_def Notification_Dispatch_def Notification_Insert_def go_defs NewUUID_def exec_def Now_def Let_def
        split: sum.split)
qed

lemma webhook_calm:
  assumes w: "calm w" and t: "txn_of (cur_db w) (t_ID t) \<noteq> None"
  shows "\<exists>w'. dispatchDisputeWebhook ev t et w = (Inr (), w') \<and> unchanged w w'"
proof -
  have u: "unchanged w (put_db (\<lambda>d. d \<lparr> db_tw_deliveries := db_tw_deliveries d @ x \<rparr>) (w \<lparr> w_seq := n \<rparr>))" for x n
    using calm_put_unchanged [OF calm_seq(1) [OF w, of n], of "\<lambda>d. d \<lparr> db_tw_deliveries := db_tw_deliveries d @ x \<rparr>"]
    by (simp add: unchanged_def)
  have r: "unchanged w w" using w by (simp add: unchanged_def)
  show ?thesis
    using w calm_seq(1) [OF w] u r t
    by (auto simp: dispatchDisputeWebhook_def TenantWebhook_Dispatch_def WriteDelivery_def go_defs NewUUID_def exec_def Now_def
        split: sum.split option.split)
qed

lemma notification_calm: "calm w \<Longrightarrow> \<exists>w'. dispatchDisputeNotification ev t n w = (Inr (), w') \<and> unchanged w w'"
  using notify_calm [of w ev t n "[(''transaction_id'', JUuid (t_ID t))]"]
  by (auto simp: dispatchDisputeNotification_def ok_def unchanged_def)

lemma Txn_UpdateStatus_calm:
  assumes w: "calm w" and t: "txn_of (cur_db w) (t_ID t) = Some row" "t_Version row = t_Version t" "t_Status t \<in> set AllStatuses"
  shows "\<exists>w'. Txn_UpdateStatus t w = (Inr (t \<lparr> t_Version := t_Version t + 1 \<rparr>), w') \<and> calm w' \<and>
    db_disputes (cur_db w') = db_disputes (cur_db w) \<and>
    db_transactions (cur_db w') = update_row t_ID (t_ID t) (status_cols t (w_clock w)) (db_transactions (cur_db w))"
proof -
  define f where "f = (\<lambda>d. case sql_update_status (w_clock w) t d of Inr (_, d') \<Rightarrow> d' | Inl _ \<Rightarrow> d)"
  have e: "f (cur_db w) = (cur_db w) \<lparr> db_transactions := update_row t_ID (t_ID t) (status_cols t (w_clock w)) (db_transactions (cur_db w)) \<rparr>"
    using t by (simp add: f_def sql_update_status_def)
  have "Txn_UpdateStatus t w = (Inr (t \<lparr> t_Version := t_Version t + 1 \<rparr>), invalidateCache (t_ID t) (put_db f w))"
    using w t by (simp add: Txn_UpdateStatus_def deferring_def go_defs Now_def run_update_def sql_update_status_def f_def)
  moreover have "calm (invalidateCache (t_ID t) (put_db f w))"
  proof -
    have "cur_db (invalidateCache (t_ID t) (put_db f w)) = f (cur_db w)" by simp
    moreover have "w_cache (invalidateCache (t_ID t) (put_db f w)) = (w_cache w)(t_ID t := None)" by (simp add: invalidateCache_def)
    moreover have "txn_of (f (cur_db w)) j = txn_of (cur_db w) j" if "j \<noteq> t_ID t" for j using that by (simp add: e)
    ultimately show ?thesis using w by (auto simp: calm_def coh_view_def invalidateCache_def put_db_def)
  qed
  ultimately show ?thesis by (simp add: e)
qed

definition payment_status :: "db \<Rightarrow> uuid \<Rightarrow> Status option" where
  "payment_status d i = map_option t_Status (txn_of d i)"

lemma payment_status_update:
  "txn_of d i = Some row \<Longrightarrow> i = t_ID t \<Longrightarrow> db_transactions d' = update_row t_ID (t_ID t) (status_cols t now) (db_transactions d) \<Longrightarrow>
   payment_status d' = (payment_status d)(i \<mapsto> t_Status t)"
  by (auto simp: payment_status_def status_cols_def fun_eq_iff)

lemma payment_status_unchanged: "unchanged w w' \<Longrightarrow> payment_status (cur_db w') = payment_status (cur_db w)"
  by (simp add: unchanged_def payment_status_def fun_eq_iff)

lemma AllStatuses_has: "StatusCaptured \<in> set AllStatuses" "StatusRefunded \<in> set AllStatuses" "StatusDisputed \<in> set AllStatuses"
  by (simp_all add: AllStatuses_def)

text \<open>The moves of the payment that a dispute makes.\<close>

lemma dispute_create_calm:
  assumes w: "calm w" and t: "txn_of (cur_db w) i = Some t" "t_Status t = StatusCaptured \<or> t_Status t = StatusSettled"
  shows "\<exists>w'. transitionParentOnDisputeCreate ev i w = (Inr (), w') \<and> calm w' \<and> db_disputes (cur_db w') = db_disputes (cur_db w) \<and>
    payment_status (cur_db w') = (payment_status (cur_db w))(i \<mapsto> StatusDisputed)"
proof -
  have i: "t_ID t = i" using lookup_row_Some [OF t(1)] by simp
  obtain w1 where g: "Txn_GetByID i w = (Inr t, w1)" and u1: "unchanged w w1" using Txn_GetByID_calm(1) [OF w t(1)] by blast
  obtain t1 where ts: "TransitionState t StatusDisputed ActorGateway (w_clock w1) = Inr t1"
    using t(2) by (auto simp: TransitionState_def isValidTransition_def)
  note t1 = TransitionState_Inr [OF ts]
  obtain w2 where n: "dispatchDisputeNotification ev t1 ''DISPUTE_OPENED'' w1 = (Inr (), w2)" and u2: "unchanged w1 w2"
    using notification_calm u1 by (meson unchanged_def)
  have t2: "txn_of (cur_db w2) (t_ID t1) = Some t" "calm w2" using u1 u2 t(1) i t1(4) by (simp_all add: unchanged_def)
  obtain w3 where h: "dispatchDisputeWebhook ev t1 EventTypeDisputeCreated w2 = (Inr (), w3)" and u3: "unchanged w2 w3"
    using webhook_calm [OF t2(2), of t1] t2(1) by blast
  obtain w4 where p: "Publish (t_ID t1) (t_Status t1) w3 = (Inr (), w4)" and u4: "unchanged w3 w4"
    using Publish_calm u3 by (meson unchanged_def)
  have u: "unchanged w w4" using u1 u2 u3 u4 unchanged_trans by blast
  have it: "i = t_ID t1" using i t1(4) by simp
  have t4: "txn_of (cur_db w4) i = Some t" "txn_of (cur_db w4) (t_ID t1) = Some t" "calm w4"
    using u t(1) it by (simp_all add: unchanged_def)
  then obtain w5 where up: "Txn_UpdateStatus t1 w4 = (Inr (t1 \<lparr> t_Version := t_Version t1 + 1 \<rparr>), w5)" "calm w5"
    "db_disputes (cur_db w5) = db_disputes (cur_db w4)"
    "db_transactions (cur_db w5) = update_row t_ID (t_ID t1) (status_cols t1 (w_clock w4)) (db_transactions (cur_db w4))"
    using Txn_UpdateStatus_calm [of w4 t1 t] t1(2,5) AllStatuses_has(3) by metis
  have "transitionParentOnDisputeCreate ev i w = (Inr (), w5)"
    by (simp add: transitionParentOnDisputeCreate_def go_defs g Now_def ts n h p up(1))
  moreover have "payment_status (cur_db w5) = (payment_status (cur_db w4))(i \<mapsto> StatusDisputed)"
    using payment_status_update [OF t4(1) it up(4)] t1(2) by simp
  ultimately show ?thesis using up(2,3) u payment_status_unchanged [OF u] by (simp add: unchanged_def)
qed

lemma resolve_parent_calm:
  assumes w: "calm w" and t: "txn_of (cur_db w) i = Some t" "t_Status t = StatusDisputed" and target: "target = StatusCaptured \<or> target = StatusRefunded"
  shows "\<exists>w'. resolve_parent ev t st target msg n w = (Inr (), w') \<and> calm w' \<and> db_disputes (cur_db w') = db_disputes (cur_db w) \<and>
    payment_status (cur_db w') = (payment_status (cur_db w))(i \<mapsto> target)"
proof -
  have i: "t_ID t = i" using lookup_row_Some [OF t(1)] by simp
  obtain t1 where ts: "TransitionState t target ActorSystem (w_clock w) = Inr t1"
    using t(2) target by (auto simp: TransitionState_def isValidTransition_def)
  note t1 = TransitionState_Inr [OF ts]
  have it: "i = t_ID t1" using i t1(4) by simp
  define t2 where "t2 = t1 \<lparr> t_Version := t_Version t1 + 1 \<rparr>"
  obtain w1 where up: "Txn_UpdateStatus t1 w = (Inr t2, w1)" "calm w1"
    "db_disputes (cur_db w1) = db_disputes (cur_db w)"
    "db_transactions (cur_db w1) = update_row t_ID (t_ID t1) (status_cols t1 (w_clock w)) (db_transactions (cur_db w))"
    using Txn_UpdateStatus_calm [OF w, of t1 t] t1(2,4,5) t(1) i target AllStatuses_has(1,2) unfolding t2_def by metis
  have ps: "payment_status (cur_db w1) = (payment_status (cur_db w))(i \<mapsto> target)"
    using payment_status_update [OF t(1) it up(4)] t1(2) by simp
  have ex: "txn_of (cur_db w1) (t_ID t2) \<noteq> None" using up(4) t(1) i t1(4) by (simp add: t2_def)
  obtain w2 where n: "dispatchDisputeNotification ev t2 n w1 = (Inr (), w2)" and u2: "unchanged w1 w2"
    using notification_calm [OF up(2)] by blast
  obtain w3 where h: "dispatchDisputeWebhook ev t2 EventTypeDisputeUpdated w2 = (Inr (), w3)" and u3: "unchanged w2 w3"
    using webhook_calm [of w2 t2] u2 ex by (auto simp: unchanged_def)
  obtain w4 where p: "Publish (t_ID t2) (t_Status t2) w3 = (Inr (), w4)" and u4: "unchanged w3 w4"
    using Publish_calm u3 by (meson unchanged_def)
  let ?e = "dispute_event (t_ID t) EventTypeDisputeUpdated (JObj [(''transaction_id'', JUuid (t_ID t)),
    (''dispute_status'', JStr (dispute_status_str st)), (''new_txn_status'', JStr (status_str target))]) (t_Version t2)"
  obtain w5 where o: "Outbox_Write ev ?e w4 = (Inr (), w5)" and u5: "unchanged w4 w5"
    using Outbox_Write_calm u4 by (meson unchanged_def)
  have u: "unchanged w1 w5" using u2 u3 u4 u5 unchanged_trans by blast
  have "resolve_parent ev t st target msg n w = (Inr (), w5)"
    by (simp add: resolve_parent_def go_defs Now_def ts n h p up(1) o)
  then show ?thesis using up(2,3) u ps payment_status_unchanged [OF u] by (simp add: unchanged_def)
qed

subsection \<open>Refinement\<close>

text \<open>
  What a report of a gateway is meant to do: the statuses of the disputes and of the payments are
  two maps; a report is refused or sets the status of its dispute and moves its payment.
\<close>

type_synonym dispute_state = "(string \<times> string \<rightharpoonup> DisputeStatus) \<times> (uuid \<rightharpoonup> Status)"

fun spec_report :: "string \<times> string \<Rightarrow> uuid \<Rightarrow> DisputeStatus \<Rightarrow> dispute_state \<Rightarrow> dispute_state option" where
  "spec_report k i st (D, P) = (if \<not> dispute_status_known st then None else case P i of
      None \<Rightarrow> None
    | Some s \<Rightarrow> (case D k of
          None \<Rightarrow> if s = StatusCaptured \<or> s = StatusSettled then Some (D(k \<mapsto> st), P(i \<mapsto> StatusDisputed)) else None
        | Some _ \<Rightarrow> Some (D(k \<mapsto> st),
            if s \<noteq> StatusDisputed then P else if st = DStatusWon then P(i \<mapsto> StatusCaptured)
            else if st = DStatusLost then P(i \<mapsto> StatusRefunded) else P)))"

definition dispute_abs :: "db \<Rightarrow> dispute_state" where
  "dispute_abs d = (\<lambda>k. map_option dp_Status (lookup_row dispute_key k (db_disputes d)), payment_status d)"

lemma dispute_abs_insert:
  assumes "db_disputes d' = db_disputes d @ [dispute_row dp]" "lookup_row dispute_key (dispute_key dp) (db_disputes d) = None"
  shows "fst (dispute_abs d') = (fst (dispute_abs d))(dispute_key dp \<mapsto> dp_Status dp)"
proof -
  have "dispute_key (dispute_row dp) = dispute_key dp" "dp_Status (dispute_row dp) = dp_Status dp"
    by (simp_all add: dispute_key_def dispute_row_def)
  then show ?thesis
    using assms(2) by (auto simp: dispute_abs_def assms(1) lookup_row_append fun_eq_iff split: option.splits)
qed

lemma lookup_other_key:
  assumes "distinct (map pk rs)" "lookup_row key k rs = Some r" "\<And>r. key (f r) = key r"
  shows "lookup_row key k' (update_row pk (pk r) f rs) = (if k' = k then Some (f r) else lookup_row key k' rs)"
  using assms
proof (induction rs)
  case (Cons x rs)
  show ?case
  proof (cases "key x = k")
    case True
    then have "x = r" using Cons.prems(2) by simp
    then have "update_row pk (pk r) f rs = rs" using Cons.prems(1) by (intro update_row_absent) auto
    with True \<open>x = r\<close> Cons.prems(3) show ?thesis by auto
  next
    case False
    then have r: "lookup_row key k rs = Some r" using Cons.prems(2) by simp
    then have "pk x \<noteq> pk r" using lookup_row_Some [OF r] Cons.prems(1) by auto
    with False Cons r show ?thesis by auto
  qed
qed simp

lemma dispute_abs_update:
  assumes "distinct (map dp_ID (db_disputes d))" "lookup_row dispute_key k (db_disputes d) = Some row" "dp_ID x = dp_ID row"
    and "db_disputes d' = update_row dp_ID (dp_ID x) (dispute_cols x) (db_disputes d)"
  shows "fst (dispute_abs d') = (fst (dispute_abs d))(k \<mapsto> dp_Status x)"
  using lookup_other_key [OF assms(1,2), of "dispute_cols x"]
  by (auto simp: dispute_abs_def assms(3,4) fun_eq_iff dispute_key_def dispute_cols_def)

lemma Dispute_Update_calm:
  assumes "calm w" "dispute_status_known (dp_Status x)"
  shows "\<exists>w'. Dispute_Update x w = (Inr (), w') \<and> calm w' \<and> db_transactions (cur_db w') = db_transactions (cur_db w) \<and>
    db_disputes (cur_db w') = update_row dp_ID (dp_ID x) (dispute_cols x) (db_disputes (cur_db w))"
  using assms calm_put [OF assms(1)] by (auto simp: Dispute_Update_def go_defs)

lemma Dispute_Create_calm:
  assumes "calm w" "dispute_insert_ok dp (cur_db w)"
  shows "\<exists>w'. Dispute_Create dp w = (Inr (), w') \<and> calm w' \<and> db_transactions (cur_db w') = db_transactions (cur_db w) \<and>
    db_disputes (cur_db w') = db_disputes (cur_db w) @ [dispute_row dp]"
  using assms calm_put [OF assms(1)] by (auto simp: Dispute_Create_def go_defs)

lemma update_parent_calm:
  assumes w: "calm w" and t: "txn_of (cur_db w) i = Some t"
  shows "\<exists>w'. transitionParentOnDisputeUpdate ev i st w = (Inr (), w') \<and> calm w' \<and> db_disputes (cur_db w') = db_disputes (cur_db w) \<and>
    payment_status (cur_db w') = (let P = payment_status (cur_db w) in
      if t_Status t \<noteq> StatusDisputed then P else if st = DStatusWon then P(i \<mapsto> StatusCaptured)
      else if st = DStatusLost then P(i \<mapsto> StatusRefunded) else P)"
proof -
  obtain w1 where g: "Txn_GetByID i w = (Inr t, w1)" and u1: "unchanged w w1" using Txn_GetByID_calm(1) [OF w t] by blast
  then have w1: "calm w1" "txn_of (cur_db w1) i = Some t" "db_disputes (cur_db w1) = db_disputes (cur_db w)"
    and p: "payment_status (cur_db w1) = payment_status (cur_db w)"
    using t payment_status_unchanged [OF u1] by (simp_all add: unchanged_def)
  note r = resolve_parent_calm [OF w1(1,2), of StatusCaptured ev st] resolve_parent_calm [OF w1(1,2), of StatusRefunded ev st]
  consider "t_Status t \<noteq> StatusDisputed" | "t_Status t = StatusDisputed" "st = DStatusWon" | "t_Status t = StatusDisputed" "st = DStatusLost"
    | "t_Status t = StatusDisputed" "st \<noteq> DStatusWon" "st \<noteq> DStatusLost" by blast
  then show ?thesis
  proof cases
    case 2
    then show ?thesis using r(1) [of "''dispute: transition parent to CAPTURED''" "''DISPUTE_WON''"] w1(3) p
      by (auto simp: transitionParentOnDisputeUpdate_def go_defs g)
  next
    case 3
    then show ?thesis using r(2) [of "''dispute: transition parent to REFUNDED''" "''DISPUTE_LOST''"] w1(3) p
      by (auto simp: transitionParentOnDisputeUpdate_def go_defs g)
  qed (use w1 p in \<open>auto simp: transitionParentOnDisputeUpdate_def go_defs g\<close>)
qed

lemma known_report:
  assumes "calm w" "distinct (map dp_ID (db_disputes (cur_db w)))" "dispute_status_known (dp_Status dp)"
    and "lookup_row dispute_key (dispute_key dp) (db_disputes (cur_db w)) = Some row" "txn_of (cur_db w) (dp_TransactionID dp) = Some t"
  shows "\<exists>w' a. update_existing ev row dp w = (Inr (), w') \<and> calm w' \<and> dispute_abs (cur_db w') = a \<and>
    spec_report (dispute_key dp) (dp_TransactionID dp) (dp_Status dp) (dispute_abs (cur_db w)) = Some a"
proof -
  define x where "x = (let x1 = row \<lparr> dp_Status := dp_Status dp, dp_Reason := dp_Reason dp, dp_EvidenceDueBy := dp_EvidenceDueBy dp \<rparr>
    in if dispute_resolved (dp_Status dp) then x1 \<lparr> dp_ResolvedAt := dp_ResolvedAt dp \<rparr> else x1)"
  have x: "dp_ID x = dp_ID row" "dp_Status x = dp_Status dp" by (simp_all add: x_def Let_def)
  obtain w1 where u: "Dispute_Update x w = (Inr (), w1)" "calm w1" "db_transactions (cur_db w1) = db_transactions (cur_db w)"
    "db_disputes (cur_db w1) = update_row dp_ID (dp_ID x) (dispute_cols x) (db_disputes (cur_db w))"
    using Dispute_Update_calm [OF assms(1)] assms(3) x(2) by metis
  define m where "m = (if dp_Status dp \<noteq> DStatusWon \<and> dp_Status dp \<noteq> DStatusLost
     then Outbox_Write ev (dispute_event (dp_TransactionID dp) EventTypeDisputeUpdated (dispute_payload (dp_ID row) dp) 0) else ok ())"
  obtain w2 where o: "m w1 = (Inr (), w2)" and u2: "unchanged w1 w2"
    using Outbox_Write_calm [OF u(2)] u(2)
    by (cases "dp_Status dp \<noteq> DStatusWon \<and> dp_Status dp \<noteq> DStatusLost") (auto simp: m_def ok_def unchanged_def)
  have t2: "txn_of (cur_db w2) (dp_TransactionID dp) = Some t" "calm w2" using u2 u(3) assms(5) by (simp_all add: unchanged_def)
  obtain w3 where p: "transitionParentOnDisputeUpdate ev (dp_TransactionID dp) (dp_Status dp) w2 = (Inr (), w3)" "calm w3"
    "db_disputes (cur_db w3) = db_disputes (cur_db w2)"
    "payment_status (cur_db w3) = (let P = payment_status (cur_db w2) in
      if t_Status t \<noteq> StatusDisputed then P else if dp_Status dp = DStatusWon then P(dp_TransactionID dp \<mapsto> StatusCaptured)
      else if dp_Status dp = DStatusLost then P(dp_TransactionID dp \<mapsto> StatusRefunded) else P)"
    using update_parent_calm [OF t2(2,1)] by blast
  have run: "update_existing ev row dp w = (Inr (), w3)"
    unfolding update_existing_def Let_def m_def [symmetric] x_def [unfolded Let_def, symmetric] by (simp add: go_defs u(1) o p(1))
  have "fst (dispute_abs (cur_db w3)) = (fst (dispute_abs (cur_db w)))(dispute_key dp \<mapsto> dp_Status dp)"
    using dispute_abs_update [OF assms(2,4) x(1), of "cur_db w3"] u(4) u2 p(3) x(2) by (simp add: unchanged_def)
  moreover have "payment_status (cur_db w2) = payment_status (cur_db w)" "payment_status (cur_db w) (dp_TransactionID dp) = Some (t_Status t)"
    using u2 u(3) assms(5) by (simp_all add: unchanged_def payment_status_def fun_eq_iff)
  moreover have "fst (dispute_abs (cur_db w)) (dispute_key dp) = Some (dp_Status row)" using assms(4) by (simp add: dispute_abs_def)
  ultimately show ?thesis
    using run p(2,4) assms(3) by (auto simp: dispute_abs_def Let_def)
qed

lemma new_report:
  assumes "calm w" "dispute_insert_ok dp (cur_db w)" "txn_of (cur_db w) (dp_TransactionID dp) = Some t"
    and "t_Status t = StatusCaptured \<or> t_Status t = StatusSettled"
  shows "\<exists>w' a. create_new ev dp w = (Inr (), w') \<and> calm w' \<and> dispute_abs (cur_db w') = a \<and>
    spec_report (dispute_key dp) (dp_TransactionID dp) (dp_Status dp) (dispute_abs (cur_db w)) = Some a"
proof -
  have ok: "lookup_row dispute_key (dispute_key dp) (db_disputes (cur_db w)) = None" "dispute_status_known (dp_Status dp)"
    using assms(2) by (simp_all add: dispute_insert_ok_def)
  obtain w1 where c: "Dispute_Create dp w = (Inr (), w1)" "calm w1" "db_transactions (cur_db w1) = db_transactions (cur_db w)"
    "db_disputes (cur_db w1) = db_disputes (cur_db w) @ [dispute_row dp]" using Dispute_Create_calm [OF assms(1,2)] by blast
  obtain w2 where o: "Outbox_Write ev (dispute_event (dp_TransactionID dp) EventTypeDisputeCreated (dispute_payload (dp_ID dp) dp) 0) w1 = (Inr (), w2)"
    and u2: "unchanged w1 w2" using Outbox_Write_calm [OF c(2)] by blast
  have t2: "txn_of (cur_db w2) (dp_TransactionID dp) = Some t" "calm w2" using u2 c(3) assms(3) by (simp_all add: unchanged_def)
  obtain w3 where p: "transitionParentOnDisputeCreate ev (dp_TransactionID dp) w2 = (Inr (), w3)" "calm w3"
    "db_disputes (cur_db w3) = db_disputes (cur_db w2)"
    "payment_status (cur_db w3) = (payment_status (cur_db w2))(dp_TransactionID dp \<mapsto> StatusDisputed)"
    using dispute_create_calm [OF t2(2,1) assms(4)] by blast
  have run: "create_new ev dp w = (Inr (), w3)" by (simp add: create_new_def go_defs c(1) o p(1))
  have "fst (dispute_abs (cur_db w3)) = (fst (dispute_abs (cur_db w)))(dispute_key dp \<mapsto> dp_Status dp)"
    using dispute_abs_insert [OF _ ok(1), of "cur_db w3"] c(4) u2 p(3) by (simp add: unchanged_def)
  moreover have "payment_status (cur_db w2) = payment_status (cur_db w)" "payment_status (cur_db w) (dp_TransactionID dp) = Some (t_Status t)"
    using u2 c(3) assms(3) by (simp_all add: unchanged_def payment_status_def fun_eq_iff)
  ultimately show ?thesis
    using run p(2,4) assms(4) ok by (auto simp: dispute_abs_def)
qed

lemma GetByGatewayDisputeID_calm:
  "calm w \<Longrightarrow> GetByGatewayDisputeID (dp_GatewayID dp) (dp_GatewayDisputeID dp) w =
     (case lookup_row dispute_key (dispute_key dp) (db_disputes (cur_db w)) of None \<Rightarrow> (Inl ErrDisputeNotFound, w) | Some x \<Rightarrow> (Inr x, w))"
  by (simp add: GetByGatewayDisputeID_def go_defs dispute_key_def split: option.split)

lemma created_report:
  assumes "calm w" "create_new ev dp w = (Inr (), w')"
  shows "\<exists>t. txn_of (cur_db w) (dp_TransactionID dp) = Some t \<and> (t_Status t = StatusCaptured \<or> t_Status t = StatusSettled) \<and>
    dispute_insert_ok dp (cur_db w)"
proof -
  from assms(2) obtain w1 w2 where w1: "Dispute_Create dp w = (Inr (), w1)"
    and w2: "Outbox_Write ev (dispute_event (dp_TransactionID dp) EventTypeDisputeCreated (dispute_payload (dp_ID dp) dp) 0) w1 = (Inr (), w2)"
    and p: "transitionParentOnDisputeCreate ev (dp_TransactionID dp) w2 = (Inr (), w')" by (auto simp: create_new_def run)
  have k: "dispute_insert_ok dp (cur_db w)" using w1 by (auto simp: Dispute_Create_def run split: if_splits)
  then obtain t where t: "txn_of (cur_db w) (dp_TransactionID dp) = Some t" by (auto simp: dispute_insert_ok_def)
  have "calm w1" "db_transactions (cur_db w1) = db_transactions (cur_db w)" using Dispute_Create_calm [OF assms(1) k] w1 by auto
  then have "calm w2" "txn_of (cur_db w2) (dp_TransactionID dp) = Some t"
    using Outbox_Write_calmD [OF w2] t by (simp_all add: unchanged_def)
  from Txn_GetByID_calm(1) [OF this] obtain w3 where "Txn_GetByID (dp_TransactionID dp) w2 = (Inr t, w3)" by blast
  with p obtain t1 where "TransitionState t StatusDisputed ActorGateway (w_clock w3) = Inr t1"
    by (auto simp: transitionParentOnDisputeCreate_def run)
  from TransitionState_Inr(1) [OF this] have "t_Status t = StatusCaptured \<or> t_Status t = StatusSettled"
    by (cases "t_Status t") (simp_all add: isValidTransition_def)
  with t k show ?thesis by blast
qed

lemma updated_report:
  assumes "calm w" "update_existing ev row dp w = (Inr (), w')" "row \<in> set (db_disputes (cur_db w))"
  shows "txn_of (cur_db w) (dp_TransactionID dp) \<noteq> None \<and> dispute_status_known (dp_Status dp)"
proof -
  define x where "x = (let x1 = row \<lparr> dp_Status := dp_Status dp, dp_Reason := dp_Reason dp, dp_EvidenceDueBy := dp_EvidenceDueBy dp \<rparr>
    in if dispute_resolved (dp_Status dp) then x1 \<lparr> dp_ResolvedAt := dp_ResolvedAt dp \<rparr> else x1)"
  have x: "dp_ID x = dp_ID row" "dp_Status x = dp_Status dp" by (simp_all add: x_def Let_def)
  from assms(2) obtain w1 w2 where w1: "Dispute_Update x w = (Inr (), w1)"
    and w2: "w2 = w1 \<or> (\<exists>e. Outbox_Write ev e w1 = (Inr (), w2))"
    and p: "transitionParentOnDisputeUpdate ev (dp_TransactionID dp) (dp_Status dp) w2 = (Inr (), w')"
    unfolding update_existing_def Let_def x_def [unfolded Let_def, symmetric] by (auto simp: run split: if_splits)
  have "dispute_of (cur_db w) (dp_ID x) \<noteq> None" using assms(3) x(1) by (auto simp: lookup_row_None)
  then have k: "dispute_status_known (dp_Status dp)" using w1 x(2) by (auto simp: Dispute_Update_def run split: if_splits)
  have c1: "calm w1" "db_transactions (cur_db w1) = db_transactions (cur_db w)"
    using Dispute_Update_calm [OF assms(1), of x] k x(2) w1 by auto
  then have c2: "calm w2" "db_transactions (cur_db w2) = db_transactions (cur_db w)"
    using w2 by (auto dest!: Outbox_Write_calmD simp: unchanged_def)
  from p obtain t w3 where "Txn_GetByID (dp_TransactionID dp) w2 = (Inr t, w3)"
    by (auto simp: transitionParentOnDisputeUpdate_def run)
  then have "txn_of (cur_db w2) (dp_TransactionID dp) \<noteq> None" using Txn_GetByID_calm(2) [OF c2(1)] by fastforce
  with k c2(2) show ?thesis by simp
qed

lemma refused_report:
  assumes "calm w" "spec_report (dispute_key dp) (dp_TransactionID dp) (dp_Status dp) (dispute_abs (cur_db w)) = None"
  shows "\<exists>e. fst (dispute_tx ev dp w) = Inl e"
proof (cases "fst (dispute_tx ev dp w)")
  case (Inr u)
  then obtain w' where r: "dispute_tx ev dp w = (Inr (), w')" by (metis old.unit.exhaust prod.collapse)
  note g = GetByGatewayDisputeID_calm [OF assms(1), of dp]
  show ?thesis
  proof (cases "lookup_row dispute_key (dispute_key dp) (db_disputes (cur_db w))")
    case None
    with r g have "create_new ev dp w = (Inr (), w')" by (simp add: dispute_tx_def bindE_def attempt_def)
    from created_report [OF assms(1) this] new_report [OF assms(1), of dp] assms(2) show ?thesis by fastforce
  next
    case (Some row)
    with r g have "update_existing ev row dp w = (Inr (), w')" by (simp add: dispute_tx_def bindE_def attempt_def)
    from updated_report [OF assms(1) this] lookup_row_Some [OF Some] Some assms(2) show ?thesis
      by (auto simp: dispute_abs_def payment_status_def)
  qed
qed simp

lemma dispute_tx_calm:
  assumes "calm w" "distinct (map dp_ID (db_disputes (cur_db w)))" "dispute_of (cur_db w) (dp_ID dp) = None" "length (dp_Currency dp) \<le> 3"
    and "spec_report (dispute_key dp) (dp_TransactionID dp) (dp_Status dp) (dispute_abs (cur_db w)) = Some a"
  shows "\<exists>w'. dispute_tx ev dp w = (Inr (), w') \<and> calm w' \<and> dispute_abs (cur_db w') = a"
proof -
  note g = GetByGatewayDisputeID_calm [OF assms(1), of dp]
  from assms(5) obtain t where k: "dispute_status_known (dp_Status dp)" and t: "txn_of (cur_db w) (dp_TransactionID dp) = Some t"
    by (auto simp: dispute_abs_def payment_status_def split: if_splits option.splits)
  show ?thesis
  proof (cases "lookup_row dispute_key (dispute_key dp) (db_disputes (cur_db w))")
    case None
    then have "dispute_insert_ok dp (cur_db w)" using assms(3,4) k t by (simp add: dispute_insert_ok_def)
    moreover have "t_Status t = StatusCaptured \<or> t_Status t = StatusSettled"
      using assms(5) None t by (auto simp: dispute_abs_def payment_status_def split: if_splits)
    ultimately obtain w' where "create_new ev dp w = (Inr (), w')" "calm w'" "dispute_abs (cur_db w') = a"
      using new_report [OF assms(1) _ t, of ev] assms(5) by auto
    with None g show ?thesis by (simp add: dispute_tx_def bindE_def attempt_def)
  next
    case (Some row)
    then obtain w' where "update_existing ev row dp w = (Inr (), w')" "calm w'" "dispute_abs (cur_db w') = a"
      using known_report [OF assms(1,2) k Some t, of ev] assms(5) by auto
    with Some g show ?thesis by (simp add: dispute_tx_def bindE_def attempt_def)
  qed
qed

text \<open>C7. The handling of gateway reports refines its specification: while the database answers, a
  report that the specification accepts returns without error and leaves exactly the dispute and
  payment statuses that the specification says, and one that it refuses returns an error and
  changes no table.\<close>

theorem CreateDispute_refines:
  assumes "w_budget w = None" "w_tx w = []" "coh w" "distinct (map dp_ID (db_disputes (w_db w)))"
    and "dispute_of (w_db w) (dp_ID dp) = None" "length (dp_Currency dp) \<le> 3"
  shows "case spec_report (dispute_key dp) (dp_TransactionID dp) (dp_Status dp) (dispute_abs (w_db w)) of
      None \<Rightarrow> (\<exists>e. fst (CreateDispute ev dp w) = Inl e) \<and> w_db (snd (CreateDispute ev dp w)) = w_db w
    | Some a \<Rightarrow> fst (CreateDispute ev dp w) = Inr () \<and> dispute_abs (w_db (snd (CreateDispute ev dp w))) = a"
proof -
  have c: "calm (open_tx w)" using assms(1-3) by (auto simp: calm_def coh_view_def coh_def open_tx_def spend_def cur_db_def)
  have inv: "tx_inv (w_db w) (w_tx w) v" if "dispute_tx ev dp (open_tx w) = (r, v)" for r v
    using leads_dispute_tx [of "w_db w" "w_tx w" ev dp] clean_open [OF assms(3)] that by (auto simp: leads_def dest!: spec)
  show ?thesis
  proof (cases "spec_report (dispute_key dp) (dp_TransactionID dp) (dp_Status dp) (dispute_abs (w_db w))")
    case None
    then obtain e where e: "fst (dispute_tx ev dp (open_tx w)) = Inl e" using refused_report [OF c, of dp ev] by auto
    then obtain e' w' where "CreateDispute ev dp w = (Inl e', w')"
      using WithinTx_Inr [of "dispute_tx ev dp" w] by (metis CreateDispute_def fst_conv old.prod.exhaust sum.exhaust sum.distinct(1))
    with WithinTx_Inl_at [of "dispute_tx ev dp" w e' w', OF inv assms(3)] None show ?thesis by (simp add: CreateDispute_def)
  next
    case (Some a)
    then obtain w' where "dispute_tx ev dp (open_tx w) = (Inr (), w')" "calm w'" "dispute_abs (cur_db w') = a"
      using dispute_tx_calm [OF c, of dp a ev] assms(4-6) by auto
    with WithinTx_Inr [of "dispute_tx ev dp" w "()"] assms(1) have "CreateDispute ev dp w = (Inr (), close_tx w')"
      by (auto simp: CreateDispute_def)
    with Some \<open>dispute_abs (cur_db w') = a\<close> show ?thesis by simp
  qed
qed

text \<open>A captured payment and a dispute about it that the tenant has won, as a late report of its opening
  arrives: the table of dispute moves has no exit from \<open>WON\<close>, but the report is applied.\<close>

definition disputed_payment :: Txn where
  "disputed_payment = zero_Txn \<lparr> t_ID := 7, t_TenantID := 3, t_Status := StatusCaptured, t_Version := 4, t_GatewayID := ''stripe'' \<rparr>"

definition won_dispute :: Dispute where
  "won_dispute = \<lparr> dp_ID = 1, dp_TransactionID = 7, dp_GatewayID = ''stripe'', dp_GatewayDisputeID = ''dp_1'', dp_Reason = ''fraudulent'',
     dp_Status = DStatusWon, dp_Amount = 100, dp_Currency = ''USD'', dp_EvidenceDueBy = None, dp_EvidenceSubmittedAt = None,
     dp_CreatedAt = 10, dp_ResolvedAt = Some 20 \<rparr>"

definition won_world :: world where
  "won_world = sample_world \<lparr> w_db := sample_db \<lparr> db_transactions := [disputed_payment], db_disputes := [won_dispute] \<rparr> \<rparr>"

definition late_report :: Dispute where
  "late_report = won_dispute \<lparr> dp_ID := 2, dp_Status := DStatusNeedsResponse, dp_ResolvedAt := None \<rparr>"

theorem CreateDispute_refines_witness:
  "fst (CreateDispute sample_env late_report won_world) = Inr () \<and>
   dispute_abs (w_db (snd (CreateDispute sample_env late_report won_world))) =
     ([(''stripe'', ''dp_1'') \<mapsto> DStatusNeedsResponse], [7 \<mapsto> StatusCaptured]) \<and>
   DStatusNeedsResponse \<notin> set (dispute_validTransitions DStatusWon)"
proof -
  have a: "dispute_abs (w_db won_world) = ([(''stripe'', ''dp_1'') \<mapsto> DStatusWon], [7 \<mapsto> StatusCaptured])"
    by (auto simp: dispute_abs_def payment_status_def won_world_def dispute_key_def won_dispute_def disputed_payment_def fun_eq_iff)
  have "w_budget won_world = None" "w_tx won_world = []" "coh won_world" "distinct (map dp_ID (db_disputes (w_db won_world)))"
    "dispute_of (w_db won_world) (dp_ID late_report) = None" "length (dp_Currency late_report) \<le> 3"
    by (simp_all add: won_world_def sample_world_def coh_def won_dispute_def late_report_def)
  from CreateDispute_refines [OF this, of sample_env] show ?thesis
    unfolding a by (simp add: late_report_def won_dispute_def dispute_key_def)
qed

subsection \<open>The tables\<close>

definition disputes_wf :: "db \<Rightarrow> bool" where
  "disputes_wf d \<longleftrightarrow> distinct (map dp_ID (db_disputes d)) \<and> distinct (map dispute_key (db_disputes d)) \<and>
     (\<forall>dp \<in> set (db_disputes d). dispute_status_known (dp_Status dp) \<and> dp_TransactionID dp \<in> t_ID ` set (db_transactions d)) \<and>
     (\<forall>e \<in> set (db_evidence d). evd_DisputeID e \<in> dp_ID ` set (db_disputes d))"

lemma disputes_wf_cong:
  "db_disputes d' = db_disputes d \<Longrightarrow> db_evidence d' = db_evidence d \<Longrightarrow> t_ID ` set (db_transactions d') = t_ID ` set (db_transactions d) \<Longrightarrow>
   disputes_wf d' = disputes_wf d"
  by (simp add: disputes_wf_def lookup_row_None)

lemma disputes_wf_free:
  "disputes_wf (d \<lparr> db_outbox := a \<rparr>) = disputes_wf d" "disputes_wf (d \<lparr> db_notifications := b \<rparr>) = disputes_wf d"
  "disputes_wf (d \<lparr> db_tw_deliveries := c \<rparr>) = disputes_wf d"
  by (rule disputes_wf_cong; simp)+

lemma update_row_key_set: "(\<And>r. key (f r) = key r) \<Longrightarrow> key ` set (update_row key k f rs) = key ` set rs"
  by (metis list.set_map update_row_keys)

lemma disputes_wf_status:
  "disputes_wf (case sql_update_status now t d of Inr (_, d') \<Rightarrow> d' | Inl _ \<Rightarrow> d) = disputes_wf d"
proof -
  have "disputes_wf (d \<lparr> db_transactions := update_row t_ID i (status_cols t now) (db_transactions d) \<rparr>) = disputes_wf d" for i
    by (rule disputes_wf_cong) (simp_all add: update_row_key_set)
  then show ?thesis by (simp add: sql_update_status_def split: option.split)
qed

lemma disputes_wf_insert:
  assumes "disputes_wf d" "dispute_insert_ok dp d"
  shows "disputes_wf (d \<lparr> db_disputes := db_disputes d @ [dispute_row dp] \<rparr>)"
proof -
  have "dp_ID (dispute_row dp) = dp_ID dp" "dispute_key (dispute_row dp) = dispute_key dp" "dp_Status (dispute_row dp) = dp_Status dp"
    "dp_TransactionID (dispute_row dp) = dp_TransactionID dp" by (simp_all add: dispute_row_def dispute_key_def)
  then show ?thesis using assms by (auto simp: disputes_wf_def dispute_insert_ok_def lookup_row_None)
qed

lemma disputes_wf_update:
  assumes "disputes_wf d" "dispute_of d (dp_ID dp) = None \<or> dispute_status_known (dp_Status dp)"
  shows "disputes_wf (d \<lparr> db_disputes := update_row dp_ID (dp_ID dp) (dispute_cols dp) (db_disputes d) \<rparr>)"
proof -
  have c: "dp_ID (dispute_cols dp r) = dp_ID r" "dispute_key (dispute_cols dp r) = dispute_key r"
    "dp_TransactionID (dispute_cols dp r) = dp_TransactionID r" for r by (simp_all add: dispute_cols_def dispute_key_def)
  have k: "map dispute_key (update_row dp_ID k (dispute_cols dp) rs) = map dispute_key rs" for k rs
    by (induction rs) (simp_all add: c)
  show ?thesis
  proof (cases "dp_ID dp \<in> dp_ID ` set (db_disputes d)")
    case True
    then have "dispute_status_known (dp_Status dp)" using assms(2) by (auto simp: lookup_row_None)
    moreover have "dp_Status (dispute_cols dp r) = dp_Status dp" for r by (simp add: dispute_cols_def)
    ultimately show ?thesis
      using assms(1) by (auto simp: disputes_wf_def set_update_row c k update_row_key_set)
  next
    case False
    with assms(1) show ?thesis by (simp add: update_row_absent)
  qed
qed

lemma wf_view [hoare]:
  "keeps (in_view disputes_wf) (Dispute_Create dp)" "keeps (in_view disputes_wf) (Dispute_Update dp)"
  "keeps (in_view disputes_wf) (Outbox_Write ev e)" "keeps (in_view disputes_wf) (Notification_Dispatch ev n)"
  "keeps (in_view disputes_wf) (TenantWebhook_Dispatch ev u j s x)" "keeps (in_view disputes_wf) (Publish j st)"
  "keeps (in_view disputes_wf) (Txn_GetByID j)" "keeps (in_view disputes_wf) (Txn_UpdateStatus t)"
  "keeps (in_view disputes_wf) (GetByGatewayDisputeID g k)"
  unfolding Dispute_Create_def Dispute_Update_def Outbox_Write_def Notification_Dispatch_def Notification_Insert_def
    TenantWebhook_Dispatch_def WriteDelivery_def Publish_def Txn_GetByID_def Txn_UpdateStatus_def run_update_def
    GetByGatewayDisputeID_def Let_def
  by (intro hoare keeps_view_guarded disputes_wf_insert disputes_wf_update; (assumption | simp add: disputes_wf_free disputes_wf_status))+

lemma wf_dispute_tx: "keeps (in_view disputes_wf) (dispute_tx ev d)"
  unfolding dispute_tx_def create_new_def update_existing_def transitionParentOnDisputeCreate_def transitionParentOnDisputeUpdate_def
    resolve_parent_def dispatchDisputeNotification_def dispatchDisputeWebhook_def notify_def Let_def
  by (intro hoare)

lemma keeps_CreateDispute: "keeps (settled disputes_wf) (CreateDispute ev d)"
proof (unfold keeps_def CreateDispute_def, intro allI impI)
  fix w assume w: "settled disputes_wf w"
  obtain r w1 where e: "WithinTx (dispute_tx ev d) w = (r, w1)" by fastforce
  have "settled disputes_wf w1"
  proof (rule WithinTx_post_at [OF _ w e])
    show "tx_inv (w_db w) (w_tx w) w2" if "dispute_tx ev d (open_tx w) = (r, w2)" for r w2
      using leads_dispute_tx [of "w_db w" "w_tx w" ev d] clean_open [of w] that w by (auto simp: leads_def settled_def dest!: spec)
    show "disputes_wf (cur_db w2)" if "dispute_tx ev d (open_tx w) = (Inr a, w2)" for a w2
      using keepsD [OF wf_dispute_tx _ that] w by (simp add: settled_def in_view_def)
  qed
  with e show "settled disputes_wf (snd (WithinTx (dispute_tx ev d) w))" by simp
qed

lemma settled_guarded:
  assumes "\<And>d. P d \<Longrightarrow> g d \<Longrightarrow> P (f d)" "\<And>d. db_transactions (f d) = db_transactions d"
  shows "keeps (settled P) (bindE (query g) (\<lambda>allowed. if allowed then changing (put_db f) else sql_error s))"
  using assms
  by (auto simp: keeps_def settled_def bindE_def query_def stmt_def answer_def aborted_def reading_def changing_def sql_error_def
      put_db_def cur_db_def coh_def)

lemma keeps_SubmitEvidence: "keeps (settled disputes_wf) (SubmitEvidence tenantID i e)"
proof -
  have "keeps (settled disputes_wf) (Evidence_Add x)" for x
    unfolding Evidence_Add_def by (rule settled_guarded) (auto simp: disputes_wf_def dest!: lookup_row_Some intro: rev_image_eqI)
  moreover have "keeps (settled disputes_wf) (Dispute_Update x)" for x
    unfolding Dispute_Update_def by (rule settled_guarded) (auto intro: disputes_wf_update)
  ultimately show ?thesis
    unfolding SubmitEvidence_def Dispute_GetByID_def tenantCanAccess_def by (intro hoare)
qed

lemma keeps_settled_GetByGatewayReference [hoare]: "keeps (settled P) (GetByGatewayReference g r)"
  unfolding GetByGatewayReference_def Let_def by (intro hoare)

lemma keeps_Ingest: "keeps (settled disputes_wf) (IngestGatewayDispute ev g e)"
  unfolding IngestGatewayDispute_def by (intro hoare keeps_CreateDispute)

inductive dispute_step :: "env \<Rightarrow> world \<Rightarrow> world \<Rightarrow> bool" for ev where
  report: "dispute_step ev w (snd (IngestGatewayDispute ev g e w))"
| evidence: "dispute_step ev w (snd (SubmitEvidence tenantID i x w))"
| outside: "dispute_step ev w (w \<lparr> w_clock := now, w_budget := b \<rparr>)"

text \<open>The dispute tables stay consistent: after any sequence of gateway reports and evidence, each cut
  off anywhere, identifiers and gateway identifiers of disputes are unique, every dispute has a
  known status and an existing payment, and every piece of evidence an existing dispute.\<close>

theorem dispute_tables_consistent:
  assumes "(dispute_step ev)\<^sup>*\<^sup>* w w'" "settled disputes_wf w"
  shows "settled disputes_wf w'"
  using assms
proof (induction rule: rtranclp_induct)
  case (step y z)
  from step(2) step(3) [OF step(4)] show ?case
    by cases (auto intro: keeps_snd [OF keeps_Ingest] keeps_snd [OF keeps_SubmitEvidence] settled_same)
qed

definition first_report :: GatewayDisputeEvent where
  "first_report = \<lparr> gde_GatewayDisputeID = ''dp_9'', gde_GatewayReferenceID = ''pi_1'', gde_Status = ''NEEDS_RESPONSE'',
     gde_Reason = ''fraudulent'', gde_Amount = 100, gde_Currency = ''USD'', gde_EvidenceDueBy = None, gde_ResolvedAt = None \<rparr>"

theorem dispute_tables_consistent_witness:
  "settled disputes_wf (snd (IngestGatewayDispute sample_env ''stripe'' first_report won_world))"
proof (rule dispute_tables_consistent [OF r_into_rtranclp])
  show "dispute_step sample_env won_world (snd (IngestGatewayDispute sample_env ''stripe'' first_report won_world))" by (rule report)
  show "settled disputes_wf won_world"
    by (simp add: settled_def coh_def disputes_wf_def won_world_def sample_world_def sample_db_def won_dispute_def disputed_payment_def)
qed

text \<open>C12. Disputes are private to their tenant: a request in the name of a tenant that reads a dispute or
  its evidence, or adds evidence, succeeds only if the payment of the dispute belongs to that tenant;
  otherwise the dispute is reported as not found. (The zero tenant identifier stands for operators.)\<close>

theorem disputes_private:
  assumes "settled (\<lambda>_. True) w" "tenantID \<noteq> uuid_Nil" "dispute_of (w_db w) i = Some d" "w_budget w = None"
    and "\<And>t. txn_of (w_db w) (dp_TransactionID d) = Some t \<Longrightarrow> t_TenantID t \<noteq> tenantID"
  shows "fst (GetDispute tenantID i w) = Inl ErrDisputeNotFound \<and> fst (ListEvidence tenantID i w) = Inl ErrDisputeNotFound \<and>
    fst (SubmitEvidence tenantID i e w) = Inl ErrDisputeNotFound \<and> w_db (snd (SubmitEvidence tenantID i e w)) = w_db w"
proof -
  have g: "Dispute_GetByID i w = (Inr d, w)"
    using assms(1,3,4) by (simp add: Dispute_GetByID_def go_defs query_def stmt_def answer_def aborted_def cur_db_def settled_def)
  obtain r w1 where l: "Txn_GetByID (dp_TransactionID d) w = (r, w1)" by fastforce
  note l' = Txn_GetByID_settled [OF assms(1) l]
  have a: "tenantCanAccess tenantID d w = (Inr False, w1)"
    using l l'(4) assms(2,5) by (auto simp: tenantCanAccess_def go_defs split: sum.split)
  show ?thesis
    using l'(2) by (simp add: GetDispute_def ListEvidence_def SubmitEvidence_def go_defs g a)
qed

theorem disputes_private_witness: "fst (GetDispute 4 1 won_world) = Inl ErrDisputeNotFound"
proof -
  have "settled (\<lambda>_. True) won_world" by (simp add: settled_def coh_def won_world_def sample_world_def)
  moreover have "dispute_of (w_db won_world) 1 = Some won_dispute" by (simp add: won_world_def won_dispute_def)
  ultimately show ?thesis
    using disputes_private [of won_world 4 1 won_dispute]
    by (auto simp: won_world_def won_dispute_def disputed_payment_def sample_world_def sample_db_def lookup_row_def)
qed

end
