(* ===== verification/Clock_Text.thy ===== *)
theory Clock_Text
  imports Prelude
begin

section \<open>Instants as text (Go's package time, layout RFC3339Nano)\<close>

text \<open>
  What the code uses of \<open>time.Format\<close> and \<open>time.Parse\<close>: an instant in UTC as
  \<open>2006-01-02T15:04:05.999999999Z\<close>, with the trailing zeros of the fraction dropped. An instant is
  the number of nanoseconds since 1970; days are counted here from the first day of year 0. The parser
  takes the strings of this form.
\<close>

subsection \<open>Digits\<close>

definition digit :: "nat \<Rightarrow> char" where
  "digit n = char_of (48 + n mod 10)"

definition digit_val :: "char \<Rightarrow> nat option" where
  "digit_val c = (let n = of_char c :: nat in if 48 \<le> n \<and> n \<le> 57 then Some (n - 48) else None)"

primrec pad_digits :: "nat \<Rightarrow> nat \<Rightarrow> string" where
  "pad_digits 0 n = []"
| "pad_digits (Suc k) n = pad_digits k (n div 10) @ [digit n]"

fun read_digits :: "nat \<Rightarrow> string \<Rightarrow> nat option" where
  "read_digits acc [] = Some acc"
| "read_digits acc (c # cs) = (case digit_val c of None \<Rightarrow> None | Some v \<Rightarrow> read_digits (10 * acc + v) cs)"

lemma digit_val_digit [simp]: "digit_val (digit n) = Some (n mod 10)"
proof -
  have "48 + n mod 10 < 256" using mod_less_divisor [of 10 n] by linarith
  then have "of_char (digit n) = 48 + n mod 10" by (simp add: digit_def take_bit_eq_mod)
  then show ?thesis by (simp add: digit_val_def)
qed

lemma length_pad_digits [simp]: "length (pad_digits k n) = k"
  by (induction k arbitrary: n) simp_all

lemma read_append:
  "read_digits acc (xs @ ys) = (case read_digits acc xs of None \<Rightarrow> None | Some a \<Rightarrow> read_digits a ys)"
  by (induction xs arbitrary: acc) (auto split: option.split)

lemma read_pad: "read_digits acc (pad_digits k n) = Some (acc * 10 ^ k + n mod 10 ^ k)"
proof (induction k arbitrary: n)
  case (Suc k)
  have "10 * (n div 10 mod 10 ^ k) + n mod 10 = n mod 10 ^ Suc k" by (simp add: mod_mult2_eq)
  then show ?case by (simp add: read_append Suc algebra_simps)
qed simp

lemma read_pad_small: "n < 10 ^ k \<Longrightarrow> read_digits 0 (pad_digits k n) = Some n"
  by (simp add: read_pad)

lemma read_zeros: "read_digits acc (xs @ replicate k (CHR ''0'')) = map_option (\<lambda>a. a * 10 ^ k) (read_digits acc xs)"
proof (induction k)
  case (Suc k)
  have "digit_val (CHR ''0'') = Some 0" by (simp add: digit_val_def)
  then have "read_digits acc ((xs @ replicate k (CHR ''0'')) @ [CHR ''0'']) = map_option (\<lambda>a. 10 * (a * 10 ^ k)) (read_digits acc xs)"
    unfolding read_append [of acc "xs @ replicate k (CHR ''0'')"] Suc by (cases "read_digits acc xs") simp_all
  then show ?case by (simp add: replicate_append_same [symmetric] algebra_simps)
qed (cases "read_digits acc xs"; simp)

subsection \<open>The calendar\<close>

definition leap :: "nat \<Rightarrow> bool" where
  "leap y \<longleftrightarrow> 4 dvd y \<and> (\<not> 100 dvd y \<or> 400 dvd y)"

definition month_lengths :: "nat \<Rightarrow> nat list" where
  "month_lengths y = [31, if leap y then 29 else 28, 31, 30, 31, 30, 31, 31, 30, 31, 30, 31]"

definition year_length :: "nat \<Rightarrow> nat" where
  "year_length y = (if leap y then 366 else 365)"

text \<open>Walk over the years and over the months.\<close>

function split_year :: "nat \<Rightarrow> nat \<Rightarrow> nat \<times> nat" where
  "split_year y n = (if n < year_length y then (y, n) else split_year (Suc y) (n - year_length y))"
  by auto
termination
  by (relation "measure snd") (auto simp: year_length_def)

declare split_year.simps [simp del]

fun split_month :: "nat list \<Rightarrow> nat \<Rightarrow> nat \<Rightarrow> nat \<times> nat" where
  "split_month (l # ls) m n = (if n < l then (m, n) else split_month ls (Suc m) (n - l))"
| "split_month [] m n = (m, n)"

definition days_before_year :: "nat \<Rightarrow> nat" where
  "days_before_year y = sum_list (map year_length [0 ..< y])"

definition civil :: "nat \<Rightarrow> nat \<times> nat \<times> nat" where
  "civil day = (let (y, r) = split_year 0 day; (m, d) = split_month (month_lengths y) 0 r in (y, Suc m, Suc d))"

definition day_number :: "nat \<Rightarrow> nat \<Rightarrow> nat \<Rightarrow> nat option" where
  "day_number y m d =
    (if m = 0 \<or> 12 < m \<or> d = 0 \<or> month_lengths y ! (m - 1) < d then None
     else Some (days_before_year y + sum_list (take (m - 1) (month_lengths y)) + (d - 1)))"

lemma split_year_sum:
  assumes "split_year y n = (y', r)"
  shows "days_before_year y + n = days_before_year y' + r \<and> r < year_length y' \<and> y \<le> y'"
  using assms
proof (induction y n rule: split_year.induct)
  case (1 y n)
  show ?case
  proof (cases "n < year_length y")
    case True
    with 1(2) show ?thesis by (simp add: split_year.simps [of y n])
  next
    case False
    with 1(2) have "split_year (Suc y) (n - year_length y) = (y', r)" by (simp add: split_year.simps [of y n])
    from 1(1) [OF False this] False show ?thesis by (simp add: days_before_year_def)
  qed
qed

lemma split_month_sum:
  assumes "split_month ls m n = (m', d)" "n < sum_list ls"
  shows "m \<le> m' \<and> m' < m + length ls \<and> n = sum_list (take (m' - m) ls) + d \<and> d < ls ! (m' - m)"
  using assms
proof (induction ls m n rule: split_month.induct)
  case (1 l ls m n)
  show ?case
  proof (cases "n < l")
    case False
    with 1(2) have s: "split_month ls (Suc m) (n - l) = (m', d)" by simp
    have "n - l < sum_list ls" using False 1(3) by simp
    note ih = 1(1) [OF False s this]
    then have "m' - m = Suc (m' - Suc m)" by linarith
    with ih False show ?thesis by (simp, linarith)
  qed (use 1 in auto)
qed simp

lemma civil_day: "civil day = (y, m, d) \<Longrightarrow> day_number y m d = Some day"
proof -
  assume c: "civil day = (y, m, d)"
  then obtain r m' d' where y: "split_year 0 day = (y, r)" and s: "split_month (month_lengths y) 0 r = (m', d')"
    and md: "m = Suc m'" "d = Suc d'" by (auto simp: civil_def Let_def split: prod.splits)
  have "sum_list (month_lengths y) = year_length y" by (simp add: month_lengths_def year_length_def)
  with split_year_sum [OF y] have "r < sum_list (month_lengths y)" "day = days_before_year y + r"
    by (simp_all add: days_before_year_def)
  with split_month_sum [OF s] md show ?thesis by (auto simp: day_number_def month_lengths_def)
qed

lemma civil_ranges:
  assumes "civil day = (y, m, d)"
  shows "1 \<le> m" "m \<le> 12" "1 \<le> d" "d \<le> 31"
proof -
  from civil_day [OF assms] have ok: "\<not> (m = 0 \<or> 12 < m \<or> d = 0 \<or> month_lengths y ! (m - 1) < d)"
    by (auto simp: day_number_def split: if_splits)
  then show "1 \<le> m" "m \<le> 12" "1 \<le> d" by simp_all
  have "l \<le> 31" if "l \<in> set (month_lengths y)" for l using that by (auto simp: month_lengths_def split: if_splits)
  moreover have "month_lengths y ! (m - 1) \<in> set (month_lengths y)" using ok by (intro nth_mem) (auto simp: month_lengths_def)
  ultimately show "d \<le> 31" using ok by (meson le_trans not_le_imp_less nat_le_linear)
qed

subsection \<open>The format\<close>

abbreviation day_ns :: nat where "day_ns \<equiv> 86400000000000"
abbreviation second_ns :: nat where "second_ns \<equiv> 1000000000"

text \<open>1970 begins 719528 days after year 0.\<close>

definition since_year_0 :: "int \<Rightarrow> nat" where
  "since_year_0 t = nat (t + 719528 * int day_ns)"

definition fraction :: "nat \<Rightarrow> string" where
  "fraction ns = (if ns = 0 then [] else CHR ''.'' # rev (dropWhile (\<lambda>c. c = CHR ''0'') (rev (pad_digits 9 ns))))"

definition time_Format :: "int \<Rightarrow> string" where
  "time_Format t = (let n = since_year_0 t; (y, m, d) = civil (n div day_ns); r = n mod day_ns div second_ns
     in pad_digits 4 y @ ''-'' @ pad_digits 2 m @ ''-'' @ pad_digits 2 d @ ''T'' @
        pad_digits 2 (r div 3600) @ '':'' @ pad_digits 2 (r div 60 mod 60) @ '':'' @ pad_digits 2 (r mod 60) @
        fraction (n mod second_ns) @ ''Z'')"

definition get_num :: "nat \<Rightarrow> string \<Rightarrow> (nat \<times> string) option" where
  "get_num k s = (if length s < k then None else map_option (\<lambda>n. (n, drop k s)) (read_digits 0 (take k s)))"

fun get_char :: "char \<Rightarrow> string \<Rightarrow> string option" where
  "get_char c [] = None"
| "get_char c (x # xs) = (if x = c then Some xs else None)"

definition get_fraction :: "string \<Rightarrow> nat option" where
  "get_fraction s = (if s = ''Z'' then Some 0
     else case get_char (CHR ''.'') s of
        None \<Rightarrow> None
      | Some cs \<Rightarrow> let k = length cs - 1
          in if cs = [] \<or> last cs \<noteq> CHR ''Z'' \<or> k = 0 \<or> 9 < k then None
             else map_option (\<lambda>v. v * 10 ^ (9 - k)) (read_digits 0 (butlast cs)))"

definition time_Parse :: "string \<Rightarrow> int option" where
  "time_Parse s0 =
     Option.bind (get_num 4 s0) (\<lambda>(y, s1). Option.bind (get_char (CHR ''-'') s1) (\<lambda>s2.
     Option.bind (get_num 2 s2) (\<lambda>(m, s3). Option.bind (get_char (CHR ''-'') s3) (\<lambda>s4.
     Option.bind (get_num 2 s4) (\<lambda>(d, s5). Option.bind (get_char (CHR ''T'') s5) (\<lambda>s6.
     Option.bind (get_num 2 s6) (\<lambda>(h, s7). Option.bind (get_char (CHR '':'') s7) (\<lambda>s8.
     Option.bind (get_num 2 s8) (\<lambda>(mi, s9). Option.bind (get_char (CHR '':'') s9) (\<lambda>s10.
     Option.bind (get_num 2 s10) (\<lambda>(s, s11). Option.bind (get_fraction s11) (\<lambda>ns.
     Option.bind (day_number y m d) (\<lambda>day.
       if 24 \<le> h \<or> 60 \<le> mi \<or> 60 \<le> s then None
       else Some (int (day * day_ns + (h * 3600 + mi * 60 + s) * second_ns + ns) - 719528 * int day_ns))))))))))))))"

lemma get_num_pad: "n < 10 ^ k \<Longrightarrow> get_num k (pad_digits k n @ r) = Some (n, r)"
  by (simp add: get_num_def read_pad_small)

lemma zeros_split:
  obtains k where "xs = rev (dropWhile (\<lambda>c. c = CHR ''0'') (rev xs)) @ replicate k (CHR ''0'')"
proof -
  let ?z = "takeWhile (\<lambda>c. c = CHR ''0'') (rev xs)"
  have "rev ?z = replicate (length ?z) (CHR ''0'')" by (rule replicate_eqI) (auto dest: set_takeWhileD)
  moreover have "xs = rev (dropWhile (\<lambda>c. c = CHR ''0'') (rev xs)) @ rev ?z"
    by (metis rev_append rev_rev_ident takeWhile_dropWhile_id)
  ultimately show thesis using that by metis
qed

lemma get_fraction_fraction:
  assumes "ns < second_ns"
  shows "get_fraction (fraction ns @ ''Z'') = Some ns"
proof (cases "ns = 0")
  case False
  define ds where "ds = rev (dropWhile (\<lambda>c. c = CHR ''0'') (rev (pad_digits 9 ns)))"
  obtain k where k: "pad_digits 9 ns = ds @ replicate k (CHR ''0'')" using zeros_split ds_def by metis
  have l: "length ds + k = 9" by (metis k length_append length_pad_digits length_replicate)
  have "read_digits 0 (pad_digits 9 ns) = Some ns" using assms by (intro read_pad_small) simp
  then have r: "map_option (\<lambda>a. a * 10 ^ k) (read_digits 0 ds) = Some ns" by (simp add: k read_zeros)
  then have ne: "ds \<noteq> []" using False by (cases ds) auto
  have "9 - length ds = k" using l by simp
  with r ne l False show ?thesis by (simp add: get_fraction_def fraction_def ds_def [symmetric])
qed (simp add: fraction_def get_fraction_def)

text \<open>The last instant that is printed with a year of four digits.\<close>

definition four_digit_years :: "int \<Rightarrow> bool" where
  "four_digit_years t \<longleftrightarrow> 0 \<le> t + 719528 * int day_ns \<and> fst (civil (since_year_0 t div day_ns)) < 10000"

lemma days_before_year_ge: "365 * y \<le> days_before_year y"
  by (induction y) (auto simp: days_before_year_def year_length_def)

lemma days_before_year_mono: "y \<le> y' \<Longrightarrow> days_before_year y \<le> days_before_year y'"
  by (induction rule: dec_induct) (auto simp: days_before_year_def)

text \<open>All instants from 1970 to about 9990.\<close>

lemma four_digit_yearsI:
  assumes "0 \<le> t" "t < 2930000 * int day_ns"
  shows "four_digit_years t"
proof -
  obtain y r where s: "split_year 0 (since_year_0 t div day_ns) = (y, r)" by (metis prod.exhaust)
  have "since_year_0 t < 3649528 * day_ns" using assms by (simp add: since_year_0_def)
  then have d: "since_year_0 t div day_ns < 3649528" by (rule less_mult_imp_div_less)
  have "y < 10000"
  proof (rule ccontr)
    assume "\<not> y < 10000"
    then have "3650000 \<le> days_before_year y" using days_before_year_ge [of 10000] days_before_year_mono [of 10000 y] by simp
    with split_year_sum [OF s] d show False by (simp add: days_before_year_def)
  qed
  then show ?thesis using assms by (simp add: four_digit_years_def civil_def s split: prod.split)
qed

lemma time_roundtrip:
  assumes "four_digit_years t"
  shows "time_Parse (time_Format t) = Some t"
proof -
  define n where "n = since_year_0 t"
  obtain y m d where c: "civil (n div day_ns) = (y, m, d)" by (metis prod_cases3)
  define r where "r = n mod day_ns div second_ns"
  have y: "y < 10 ^ 4" using assms c by (simp add: four_digit_years_def n_def)
  have md: "m < 10 ^ 2" "d < 10 ^ 2" using civil_ranges [OF c] by simp_all
  have r: "r < 86400" by (simp add: r_def less_mult_imp_div_less)
  then have h4: "r div 3600 < 24" by (simp add: less_mult_imp_div_less)
  have h60: "r div 60 mod 60 < 60" "r mod 60 < 60" by simp_all
  with h4 have h: "r div 3600 < 10 ^ 2" "r div 60 mod 60 < 10 ^ 2" "r mod 60 < 10 ^ 2" "\<not> 24 \<le> r div 3600"
    by (simp_all add: power2_eq_square)
  have hms: "r div 3600 * 3600 + r div 60 mod 60 * 60 + r mod 60 = r"
  proof -
    have "r div 3600 = r div 60 div 60" by (simp add: div_mult2_eq [symmetric])
    moreover have "r div 60 div 60 * 60 + r div 60 mod 60 = r div 60" "r div 60 * 60 + r mod 60 = r" by simp_all
    ultimately show ?thesis by linarith
  qed
  have f: "get_fraction (fraction (n mod second_ns) @ ''Z'') = Some (n mod second_ns)" by (rule get_fraction_fraction) simp
  have "n mod day_ns = r * second_ns + n mod second_ns"
    using div_mult_mod_eq [of "n mod day_ns" second_ns] by (simp add: r_def mod_mod_cancel)
  then have n: "n div day_ns * day_ns + r * second_ns + n mod second_ns = n" using div_mult_mod_eq [of n day_ns] by linarith
  have "int n = t + 719528 * int day_ns" using assms by (simp add: n_def since_year_0_def four_digit_years_def)
  moreover have "time_Parse (time_Format t) = Some (int (n div day_ns * day_ns + r * second_ns + n mod second_ns) - 719528 * int day_ns)"
    unfolding time_Format_def Let_def n_def [symmetric] c prod.case r_def [symmetric] time_Parse_def
    using civil_day [OF c] h(4) h60 hms
    by (simp add: get_num_pad [OF y] get_num_pad [OF md(1)] get_num_pad [OF md(2)] get_num_pad [OF h(1)]
        get_num_pad [OF h(2)] get_num_pad [OF h(3)] f not_le)
  ultimately show ?thesis using n by simp
qed

end
