(* ===== verification/Listing.thy ===== *)
theory Listing
  imports Refund_Service Clock_Text "HOL-Library.Product_Lexorder"
begin

section \<open>Listing payments page by page (postgres/transaction.go: List, GetByIDs)\<close>

text \<open>
  The list query with its filters, the cursor that a page hands out and the next request hands back
  as text, and the loop of a client that follows the cursors to the end. Rows come in descending order
  of creation time and identifier; a cursor names the last row of a page. A timestamp column is read
  back in UTC.
\<close>

subsection \<open>Filters, summaries and cursors (ports/transaction_filters.go)\<close>

record TransactionFilter =
  tf_TenantID :: "uuid option"
  tf_UserID :: "uuid option"
  tf_Status :: "string list"
  tf_GatewayID :: "string list"
  tf_MinAmount :: "int option"
  tf_MaxAmount :: "int option"
  tf_MinGatewayAmount :: "int option"
  tf_MaxGatewayAmount :: "int option"
  tf_GatewayCurrency :: "string option"
  tf_Currency :: "string option"
  tf_PaymentMethod :: "string list"
  tf_DateFrom :: "int option"
  tf_DateTo :: "int option"
  tf_Cursor :: "string option"
  tf_Limit :: int

record TransactionSummary =
  ts_ID :: uuid
  ts_TenantID :: uuid
  ts_UserID :: "uuid option"
  ts_Amount :: int
  ts_Currency :: string
  ts_Status :: string
  ts_GatewayID :: string
  ts_PaymentMethod :: string
  ts_GatewayAmount :: "int option"
  ts_GatewayCurrency :: string
  ts_CreatedAt :: int

record TransactionListResult =
  lr_Transactions :: "TransactionSummary list"
  lr_NextCursor :: "string option"
  lr_HasMore :: bool

definition optional :: "('a \<Rightarrow> bool) \<Rightarrow> 'a option \<Rightarrow> bool" where
  "optional P x = (case x of None \<Rightarrow> True | Some a \<Rightarrow> P a)"

text \<open>A comparison with a \<open>NULL\<close> column is never true: \<open>gateway_amount\<close> is nullable, and an empty
  \<open>gateway_currency\<close> is stored as \<open>NULL\<close>.\<close>

definition list_matches :: "TransactionFilter \<Rightarrow> Txn \<Rightarrow> bool" where
  "list_matches f t \<longleftrightarrow>
     optional (\<lambda>x. t_TenantID t = x) (tf_TenantID f) \<and>
     optional (\<lambda>x. t_UserID t = x) (tf_UserID f) \<and>
     optional (\<lambda>x. t_Currency t = x) (tf_Currency f) \<and>
     (tf_Status f \<noteq> [] \<longrightarrow> status_str (t_Status t) \<in> set (tf_Status f)) \<and>
     (tf_GatewayID f \<noteq> [] \<longrightarrow> t_AttemptedGateway t \<in> set (tf_GatewayID f)) \<and>
     (tf_PaymentMethod f \<noteq> [] \<longrightarrow> t_PaymentMethod t \<in> set (tf_PaymentMethod f)) \<and>
     optional (\<lambda>x. x \<le> t_Amount t) (tf_MinAmount f) \<and>
     optional (\<lambda>x. t_Amount t \<le> x) (tf_MaxAmount f) \<and>
     optional (\<lambda>x. \<exists>g \<in> set_option (t_GatewayAmount t). x \<le> g) (tf_MinGatewayAmount f) \<and>
     optional (\<lambda>x. \<exists>g \<in> set_option (t_GatewayAmount t). g \<le> x) (tf_MaxGatewayAmount f) \<and>
     optional (\<lambda>x. t_GatewayCurrency t \<noteq> '''' \<and> t_GatewayCurrency t = x) (tf_GatewayCurrency f) \<and>
     optional (\<lambda>x. x \<le> t_CreatedAt t) (tf_DateFrom f) \<and>
     optional (\<lambda>x. t_CreatedAt t \<le> x) (tf_DateTo f)"

definition summary_of :: "Txn \<Rightarrow> TransactionSummary" where
  "summary_of t = \<lparr> ts_ID = t_ID t, ts_TenantID = t_TenantID t, ts_UserID = Some (t_UserID t), ts_Amount = t_Amount t,
     ts_Currency = t_Currency t, ts_Status = status_str (t_Status t), ts_GatewayID = t_AttemptedGateway t,
     ts_PaymentMethod = t_PaymentMethod t, ts_GatewayAmount = t_GatewayAmount t,
     ts_GatewayCurrency = t_GatewayCurrency t, ts_CreatedAt = t_CreatedAt t \<rparr>"

text \<open>\<open>strings.LastIndex\<close> of a one-byte separator.\<close>

definition LastIndex :: "string \<Rightarrow> char \<Rightarrow> int" where
  "LastIndex s c = (if c \<in> set s then int (length s) - 1 - int (length (takeWhile (\<lambda>x. x \<noteq> c) (rev s))) else - 1)"

definition cursor_text :: "env \<Rightarrow> TransactionSummary \<Rightarrow> string" where
  "cursor_text ev t = time_Format (ts_CreatedAt t) @ '':'' @ ev_uuid_str ev (ts_ID t)"

definition parseTxnCursor :: "env \<Rightarrow> string \<Rightarrow> go_error + (int \<times> uuid)" where
  "parseTxnCursor ev cursor = (let idx = LastIndex cursor (CHR '':'') in
     if idx \<le> 0 then Inl (Errorf ''malformed cursor'')
     else case time_Parse (take (nat idx) cursor) of
         None \<Rightarrow> Inl (Errorf ''malformed cursor timestamp'')
       | Some createdAt \<Rightarrow> (case ev_uuid_parse ev (drop (nat idx + 1) cursor) of
             None \<Rightarrow> Inl (Errorf ''malformed cursor id'')
           | Some u \<Rightarrow> Inr (createdAt, u)))"

subsection \<open>The queries\<close>

definition page_key :: "Txn \<Rightarrow> int \<times> uuid" where
  "page_key t = (t_CreatedAt t, t_ID t)"

text \<open>\<open>ORDER BY created_at DESC, id DESC\<close>.\<close>

definition newest_first :: "Txn list \<Rightarrow> Txn list" where
  "newest_first ts = rev (sort_key page_key ts)"

definition page_limit :: "TransactionFilter \<Rightarrow> nat" where
  "page_limit f = (if tf_Limit f \<le> 0 \<or> 100 < tf_Limit f then 50 else nat (tf_Limit f))"

definition cursor_bound :: "env \<Rightarrow> TransactionFilter \<Rightarrow> go_error + (int \<times> uuid) option" where
  "cursor_bound ev f = (case tf_Cursor f of
       None \<Rightarrow> Inr None
     | Some c \<Rightarrow> if c = '''' then Inr None
         else case parseTxnCursor ev c of Inl e \<Rightarrow> Inl (Wrapf ''parse cursor'' e) | Inr b \<Rightarrow> Inr (Some b))"

definition list_page :: "env \<Rightarrow> nat \<Rightarrow> Txn list \<Rightarrow> TransactionListResult" where
  "list_page ev limit rows = (let txns = map summary_of (take (limit + 1) rows); more = limit < length txns;
       shown = (if more then take limit txns else txns)
     in \<lparr> lr_Transactions = shown, lr_NextCursor = (if more then Some (cursor_text ev (last shown)) else None),
          lr_HasMore = more \<rparr>)"

definition Txn_List :: "env \<Rightarrow> TransactionFilter \<Rightarrow> (world, TransactionListResult) comp" where
  "Txn_List ev f = bindE (lift (cursor_bound ev f)) (\<lambda>bound. bindE answer (\<lambda>_. reading (\<lambda>w.
     list_page ev (page_limit f) (newest_first (filter (\<lambda>t. list_matches f t \<and> optional (\<lambda>b. page_key t < b) bound)
       (db_transactions (w_db w)))))))"

definition Txn_GetByIDs :: "uuid list \<Rightarrow> (world, Txn list) comp" where
  "Txn_GetByIDs ids = (if ids = [] then ok []
     else query (\<lambda>d. filter (\<lambda>t. t_ID t \<in> set ids) (db_transactions d)))"

text \<open>The loop that follows the cursors (\<open>reconcileBatch\<close>). The loop has no bound of its own; the
  model gives it \<open>fuel\<close> rounds.\<close>

primrec list_all_pages :: "nat \<Rightarrow> env \<Rightarrow> TransactionFilter \<Rightarrow> TransactionSummary list \<Rightarrow> (world, TransactionSummary list) comp" where
  "list_all_pages 0 ev f acc = throw (Errorf ''out of fuel'')"
| "list_all_pages (Suc n) ev f acc = bindE (Txn_List ev f) (\<lambda>r.
     let acc' = acc @ lr_Transactions r
     in if \<not> lr_HasMore r \<or> lr_NextCursor r = None then ok acc'
        else list_all_pages n ev (f \<lparr> tf_Cursor := lr_NextCursor r \<rparr>) acc')"

subsection \<open>Rows with nullable columns\<close>

text \<open>Reading a column into a Go \<open>string\<close>: what the driver does with \<open>NULL\<close> is its own.\<close>

definition scan_string :: "env \<Rightarrow> string option \<Rightarrow> go_error + string" where
  "scan_string ev c = (case c of Some s \<Rightarrow> Inr s | None \<Rightarrow> ev_null_string ev)"

text \<open>\<open>rows.Next\<close> with a scan that may fail.\<close>

primrec scan_rows :: "('r \<Rightarrow> (world, 'a) comp) \<Rightarrow> 'r list \<Rightarrow> (world, 'a list) comp" where
  "scan_rows scan [] = ok []"
| "scan_rows scan (r # rs) = bindE (scan r) (\<lambda>x. bindE (scan_rows scan rs) (\<lambda>xs. ok (x # xs)))"

subsection \<open>Cursors survive the round trip\<close>

text \<open>What the code relies on of the package \<open>uuid\<close>: \<open>Parse\<close> reads what \<open>String\<close> prints, and that
  has no colon.\<close>

definition uuid_text_ok :: "env \<Rightarrow> bool" where
  "uuid_text_ok ev \<longleftrightarrow> (\<forall>u. ev_uuid_parse ev (ev_uuid_str ev u) = Some u \<and> CHR '':'' \<notin> set (ev_uuid_str ev u))"

lemma LastIndex_app: "c \<notin> set b \<Longrightarrow> LastIndex (a @ c # b) c = int (length a)"
proof -
  assume "c \<notin> set b"
  then have "takeWhile (\<lambda>x. x \<noteq> c) (rev b @ c # rev a) = rev b" by (subst takeWhile_append2) auto
  then show ?thesis by (simp add: LastIndex_def)
qed

lemma time_Format_nonempty: "time_Format t \<noteq> []"
  by (simp add: time_Format_def Let_def split: prod.split)

lemma parse_cursor:
  assumes "uuid_text_ok ev" "four_digit_years (ts_CreatedAt s)"
  shows "parseTxnCursor ev (cursor_text ev s) = Inr (ts_CreatedAt s, ts_ID s)"
  using assms by (simp add: parseTxnCursor_def cursor_text_def LastIndex_app uuid_text_ok_def time_Format_nonempty time_roundtrip)

subsection \<open>Following the cursors\<close>

lemma newest_first_strict:
  assumes "distinct (map t_ID ts)"
  shows "sorted_wrt (\<lambda>a b. page_key b < page_key a) (newest_first ts)"
proof -
  have "distinct (map page_key ts)"
    using assms by (induction ts) (auto simp: page_key_def)
  then have "distinct (map page_key (sort_key page_key ts))"
    by (metis distinct_map distinct_sort inj_on_def set_sort)
  then have "sorted_wrt (<) (map page_key (sort_key page_key ts))" by (simp add: strict_sorted_iff)
  then show ?thesis by (simp add: newest_first_def sorted_wrt_map sorted_wrt_rev)
qed

lemma newest_first_filter: "newest_first (filter P ts) = filter P (newest_first ts)"
  by (simp add: newest_first_def filter_sort [symmetric] rev_filter)

lemma set_newest_first [simp]: "set (newest_first ts) = set ts"
  by (simp add: newest_first_def)

lemma below_cut:
  assumes "sorted_wrt (\<lambda>a b. k b < k a) (xs @ x # ys)"
  shows "filter (\<lambda>t. k t < (k x :: 'k :: linorder)) (xs @ x # ys) = ys"
  using assms by (auto simp: sorted_wrt_append filter_empty_conv filter_id_conv dest: less_asym)

lemma answer_up: "w_budget w = None \<Longrightarrow> answer w = (Inr (), w)"
  by (simp add: answer_def)

lemma list_matches_cursor [simp]: "list_matches (f \<lparr> tf_Cursor := c \<rparr>) = list_matches f"
  by (simp add: list_matches_def fun_eq_iff)

lemma page_limit_cursor [simp]: "page_limit (f \<lparr> tf_Cursor := c \<rparr>) = page_limit f"
  by (simp add: page_limit_def)

lemma page_limit_pos: "0 < page_limit f"
  by (simp add: page_limit_def)

definition matching :: "TransactionFilter \<Rightarrow> db \<Rightarrow> Txn list" where
  "matching f d = newest_first (filter (list_matches f) (db_transactions d))"

lemma Txn_List_up:
  assumes "w_budget w = None" "cursor_bound ev f = Inr b"
  shows "Txn_List ev f w = (Inr (list_page ev (page_limit f) (filter (\<lambda>t. optional (\<lambda>k. page_key t < k) b) (matching f (w_db w)))), w)"
  using assms by (simp add: Txn_List_def go_defs answer_up matching_def newest_first_filter conj_commute)

text \<open>From a cursor at the end of \<open>pre\<close>, the loop collects the rest.\<close>

lemma pages_from:
  assumes up: "w_budget w = None" and u: "uuid_text_ok ev" and y: "\<forall>t \<in> set (matching f (w_db w)). four_digit_years (t_CreatedAt t)"
    and strict: "sorted_wrt (\<lambda>a b. page_key b < page_key a) (matching f (w_db w))"
  shows "cursor_bound ev (f \<lparr> tf_Cursor := c \<rparr>) = Inr b \<Longrightarrow> matching f (w_db w) = pre @ rest \<Longrightarrow>
    filter (\<lambda>t. optional (\<lambda>k. page_key t < k) b) (matching f (w_db w)) = rest \<Longrightarrow> length rest < n \<Longrightarrow>
    list_all_pages n ev (f \<lparr> tf_Cursor := c \<rparr>) acc w = (Inr (acc @ map summary_of rest), w)"
proof (induction n arbitrary: c b pre rest acc)
  case (Suc n)
  let ?l = "page_limit f" and ?f = "f \<lparr> tf_Cursor := c \<rparr>"
  have m: "matching ?f (w_db w) = matching f (w_db w)" by (simp add: matching_def)
  have page: "Txn_List ev ?f w = (Inr (list_page ev ?l rest), w)" using Txn_List_up [OF up Suc.prems(1)] Suc.prems(3) m by simp
  show ?case
  proof (cases "length rest \<le> ?l")
    case True
    then show ?thesis by (simp add: bindE_def page list_page_def Let_def ok_def)
  next
    case False
    define x where "x = last (take ?l rest)"
    have ne: "take ?l rest \<noteq> []" using False page_limit_pos [of f] by auto
    then have tk: "take ?l rest = butlast (take ?l rest) @ [x]" unfolding x_def by simp
    then have rest: "rest = butlast (take ?l rest) @ x # drop ?l rest" by (metis append.assoc append_Cons append_Nil append_take_drop_id)
    then have whole: "matching f (w_db w) = (pre @ butlast (take ?l rest)) @ x # drop ?l rest" using Suc.prems(2) by simp
    then have "x \<in> set (matching f (w_db w))" by simp
    with y have fx: "four_digit_years (t_CreatedAt x)" by blast
    let ?c = "cursor_text ev (summary_of x)"
    have "parseTxnCursor ev ?c = Inr (page_key x)" using parse_cursor [OF u, of "summary_of x"] fx by (simp add: summary_of_def page_key_def)
    then have cb: "cursor_bound ev (f \<lparr> tf_Cursor := Some ?c \<rparr>) = Inr (Some (page_key x))"
      by (simp add: cursor_bound_def cursor_text_def)
    have cut: "filter (\<lambda>t. optional (\<lambda>k. page_key t < k) (Some (page_key x))) (matching f (w_db w)) = drop ?l rest"
      using below_cut [OF strict [unfolded whole]] unfolding whole optional_def by (simp only: option.case)
    have "length (drop ?l rest) < n" using Suc.prems(4) False page_limit_pos [of f] by simp
    from Suc.IH [OF cb _ cut this, of "pre @ take ?l rest" "acc @ map summary_of (take ?l rest)"]
    have ih: "list_all_pages n ev (f \<lparr> tf_Cursor := Some ?c \<rparr>) (acc @ map summary_of (take ?l rest)) w
        = (Inr (acc @ map summary_of rest), w)" using Suc.prems(2) by (simp flip: map_append)
    have "list_page ev ?l rest = \<lparr> lr_Transactions = map summary_of (take ?l rest), lr_NextCursor = Some ?c, lr_HasMore = True \<rparr>"
      using False ne last_map [OF ne, of summary_of] by (simp add: list_page_def Let_def take_map x_def min_def)
    then show ?thesis by (simp add: bindE_def page ih)
  qed
qed simp

text \<open>The whole loop.\<close>

lemma pages_complete:
  assumes "uuid_text_ok ev" "w_budget w = None" "distinct (map t_ID (db_transactions (w_db w)))"
    and "\<forall>t \<in> set (db_transactions (w_db w)). list_matches f t \<longrightarrow> four_digit_years (t_CreatedAt t)"
    and "tf_Cursor f = None" "length (db_transactions (w_db w)) < fuel"
  shows "\<exists>rows. list_all_pages fuel ev f [] w = (Inr (map summary_of rows), w) \<and>
    set rows = {t \<in> set (db_transactions (w_db w)). list_matches f t} \<and> distinct (map t_ID rows) \<and>
    sorted_wrt (\<lambda>a b. page_key b < page_key a) rows"
proof (intro exI conjI)
  let ?m = "matching f (w_db w)"
  have "distinct (map t_ID (filter (list_matches f) (db_transactions (w_db w))))" using assms(3) by (rule distinct_map_filter)
  then show strict: "sorted_wrt (\<lambda>a b. page_key b < page_key a) ?m" unfolding matching_def by (rule newest_first_strict)
  show "set ?m = {t \<in> set (db_transactions (w_db w)). list_matches f t}" by (auto simp: matching_def)
  show "distinct (map t_ID ?m)"
    using assms(3) by (auto simp: matching_def newest_first_def distinct_map intro: inj_on_subset)
  have "length ?m \<le> length (db_transactions (w_db w))" by (simp add: matching_def newest_first_def)
  moreover have "f \<lparr> tf_Cursor := None \<rparr> = f" using assms(5) by simp
  moreover have "cursor_bound ev f = Inr None" using assms(5) by (simp add: cursor_bound_def)
  ultimately show "list_all_pages fuel ev f [] w = (Inr (map summary_of ?m), w)"
    using pages_from [OF assms(2,1) _ strict, of None None "[]" ?m fuel "[]"] assms(4,6)
    by (auto simp: matching_def optional_def)
qed

subsection \<open>Properties\<close>

text \<open>C19. A cursor that a page of the listing hands out is read back as the creation time and the
  identifier of the row it was made from: \<open>parseTxnCursor\<close> inverts the printing in \<open>List\<close>, colons of
  the time of day included, for every instant with a year of four digits.\<close>

theorem cursor_roundtrip:
  assumes "uuid_text_ok ev" "four_digit_years (ts_CreatedAt s)"
  shows "parseTxnCursor ev (cursor_text ev s) = Inr (ts_CreatedAt s, ts_ID s)"
  using assms by (rule parse_cursor)

text \<open>Identifiers printed in unary, and three payments, two of them created at the same instant.\<close>

definition unary_env :: env where
  "unary_env = sample_env \<lparr> ev_uuid_str := (\<lambda>u. replicate (unat u) (CHR ''1'')), ev_uuid_parse := (\<lambda>s. Some (of_nat (length s))) \<rparr>"

definition three_payments :: world where
  "three_payments = sample_world \<lparr> w_db := sample_db \<lparr> db_transactions :=
     [captured_payment, captured_payment \<lparr> t_ID := 2 \<rparr>, captured_payment \<lparr> t_ID := 3, t_CreatedAt := 5 \<rparr>] \<rparr> \<rparr>"

definition all_payments :: "int \<Rightarrow> TransactionFilter" where
  "all_payments limit = \<lparr> tf_TenantID = None, tf_UserID = None, tf_Status = [], tf_GatewayID = [], tf_MinAmount = None,
     tf_MaxAmount = None, tf_MinGatewayAmount = None, tf_MaxGatewayAmount = None, tf_GatewayCurrency = None,
     tf_Currency = None, tf_PaymentMethod = [], tf_DateFrom = None, tf_DateTo = None, tf_Cursor = None, tf_Limit = limit \<rparr>"

lemma unary_env_ok: "uuid_text_ok unary_env"
  by (simp add: uuid_text_ok_def unary_env_def)

theorem cursor_roundtrip_witness:
  "parseTxnCursor unary_env (cursor_text unary_env (summary_of captured_payment)) = Inr (0, 1)"
  using cursor_roundtrip [OF unary_env_ok four_digit_yearsI, of "summary_of captured_payment"]
  by (simp add: summary_of_def sample_defs)

text \<open>C18. A client that follows the cursors (\<open>reconcileBatch\<close> does) stops, and has then seen exactly
  the payments that match its filter, each once and newest first, whatever the page size: no row is
  skipped or repeated at a page boundary, even where rows share their creation time. As many rounds as
  there are payments, and one, are enough.\<close>

theorem listing_complete:
  assumes "uuid_text_ok ev" "w_budget w = None" "distinct (map t_ID (db_transactions (w_db w)))"
    and "\<forall>t \<in> set (db_transactions (w_db w)). list_matches f t \<longrightarrow> four_digit_years (t_CreatedAt t)"
    and "tf_Cursor f = None" "length (db_transactions (w_db w)) < fuel"
  shows "\<exists>rows. list_all_pages fuel ev f [] w = (Inr (map summary_of rows), w) \<and>
    set rows = {t \<in> set (db_transactions (w_db w)). list_matches f t} \<and> distinct (map t_ID rows) \<and>
    sorted_wrt (\<lambda>a b. page_key b < page_key a) rows"
  using assms by (rule pages_complete)

theorem listing_complete_witness:
  "\<exists>rows. list_all_pages 4 unary_env (all_payments 1) [] three_payments = (Inr (map summary_of rows), three_payments) \<and>
    t_ID ` set rows = {1, 2, 3} \<and> distinct (map t_ID rows) \<and> sorted_wrt (\<lambda>a b. page_key b < page_key a) rows"
proof -
  let ?rows = "db_transactions (w_db three_payments)"
  have ids: "map t_ID ?rows = [1, 2, 3]" by (simp add: three_payments_def sample_defs)
  have m: "list_matches (all_payments 1) t" for t by (simp add: list_matches_def all_payments_def optional_def)
  have "\<exists>rows. list_all_pages 4 unary_env (all_payments 1) [] three_payments = (Inr (map summary_of rows), three_payments) \<and>
    set rows = {t \<in> set ?rows. list_matches (all_payments 1) t} \<and> distinct (map t_ID rows) \<and>
    sorted_wrt (\<lambda>a b. page_key b < page_key a) rows"
    by (rule listing_complete [OF unary_env_ok])
      (auto simp: ids all_payments_def three_payments_def sample_defs intro: four_digit_yearsI)
  moreover have "t_ID ` set rows = {1, 2, 3}" if "set rows = {t \<in> set ?rows. list_matches (all_payments 1) t}" for rows
    using that ids by (simp add: m flip: set_map)
  ultimately show ?thesis by blast
qed

end
