(* ===== verification/Reconciliation.thy ===== *)
theory Reconciliation
  imports Listing
begin

section \<open>Reconciliation with settlement reports (internal/app/reconciliation, jobs/reconciliation)\<close>

text \<open>
  Jobs compare payments with the settlement report of their gateway, for one payment or for a tenant,
  a gateway and a period, and store an entry for each disagreement. The tables are those of
  \<open>postgres/reconciliation.go\<close>; every statement goes through the pool. The settlement reports are a
  parameter: for each gateway that has a fetcher, its answer for a tenant and a window.
\<close>

record SettlementEntry =
  se_TransactionRef :: string
  se_GatewayStatus :: string
  se_GatewayAmount :: int
  se_GatewayFees :: "int option"
  se_FXRate :: "rat option"
  se_SettledAt :: int

record SettlementReport =
  sr_GatewayID :: string
  sr_PeriodStart :: int
  sr_PeriodEnd :: int
  sr_Entries :: "SettlementEntry list"

type_synonym settlement = "string \<Rightarrow> (uuid \<Rightarrow> string \<Rightarrow> int \<Rightarrow> int \<Rightarrow> go_error + SettlementReport) option"

record ReconciliationJobFilter =
  jf_Actor :: "string option"
  jf_TenantID :: "uuid option"
  jf_GatewayID :: "string option"
  jf_Status :: "string option"
  jf_TransactionID :: "uuid option"
  jf_DateFrom :: "int option"
  jf_DateTo :: "int option"
  jf_Limit :: int
  jf_Offset :: int

record ReconciliationEntryFilter =
  ef_MismatchType :: "string option"
  ef_ResolutionStatus :: "string option"
  ef_Limit :: int
  ef_Offset :: int

abbreviation ErrJobNotFound :: go_error where "ErrJobNotFound \<equiv> Sentinel ''not found''"

subsection \<open>The tables (postgres/reconciliation.go)\<close>

abbreviation job_of :: "db \<Rightarrow> uuid \<Rightarrow> JobRow option" where
  "job_of d i \<equiv> lookup_row (\<lambda>r. rj_ID (jr_job r)) i (db_recon_jobs d)"

abbreviation entry_of :: "db \<Rightarrow> uuid \<Rightarrow> EntryRow option" where
  "entry_of d i \<equiv> lookup_row (\<lambda>r. re_ID (er_entry r)) i (db_recon_entries d)"

text \<open>A statement through the pool that the constraints may reject.\<close>

definition pool_query :: "(db \<Rightarrow> 'a) \<Rightarrow> (world, 'a) comp" where
  "pool_query f = bindE answer (\<lambda>_. reading (\<lambda>w. f (w_db w)))"

definition pool_exec_if :: "(db \<Rightarrow> bool) \<Rightarrow> string \<Rightarrow> (db \<Rightarrow> db) \<Rightarrow> (world, unit) comp" where
  "pool_exec_if allowed msg f = bindE (pool_query allowed) (\<lambda>b.
     if b then changing (\<lambda>w. w \<lparr> w_db := f (w_db w) \<rparr>) else throw (Errorf msg))"

definition job_insert_ok :: "ReconJob \<Rightarrow> db \<Rightarrow> bool" where
  "job_insert_ok j d \<longleftrightarrow> job_of d (rj_ID j) = None \<and>
     rj_Status j \<in> set [JobStatusPending, JobStatusRunning, JobStatusCompleted, JobStatusFailed] \<and>
     (rj_TriggeredBy j = ''system'' \<or> rj_TriggeredBy j = ''ops'' \<or> has_prefix ''service:'' (rj_TriggeredBy j)) \<and>
     (case rj_TransactionID j of
        Some tid \<Rightarrow> rj_PeriodStart j = None \<and> rj_PeriodEnd j = None \<and> txn_of d tid \<noteq> None
      | None \<Rightarrow> rj_PeriodStart j \<noteq> None \<and> rj_PeriodEnd j \<noteq> None)"

text \<open>The insert does not name \<open>mismatch_count\<close>, \<open>error\<close>, \<open>started_at\<close> and \<open>completed_at\<close>.\<close>

definition Recon_CreateJob :: "ReconJob \<Rightarrow> (world, unit) comp" where
  "Recon_CreateJob j = wrapE ''reconciliation: create job'' (pool_exec_if (job_insert_ok j) ''reconciliation_jobs constraint''
     (\<lambda>d. d \<lparr> db_recon_jobs := db_recon_jobs d @ [\<lparr> jr_job = j \<lparr> rj_MismatchCount := 0, rj_StartedAt := None, rj_CompletedAt := None \<rparr>,
        jr_error = None \<rparr>] \<rparr>))"

definition job_cols :: "ReconJob \<Rightarrow> JobRow \<Rightarrow> JobRow" where
  "job_cols j row = row \<lparr> jr_job := (jr_job row) \<lparr> rj_Status := rj_Status j, rj_MismatchCount := rj_MismatchCount j,
     rj_StartedAt := rj_StartedAt j, rj_CompletedAt := rj_CompletedAt j \<rparr>, jr_error := Some (rj_Error j) \<rparr>"

definition Recon_UpdateJob :: "ReconJob \<Rightarrow> (world, unit) comp" where
  "Recon_UpdateJob j = wrapE ''reconciliation: update job'' (pool_exec_if
     (\<lambda>d. job_of d (rj_ID j) = None \<or> rj_Status j \<in> set [JobStatusPending, JobStatusRunning, JobStatusCompleted, JobStatusFailed])
     ''reconciliation_jobs constraint''
     (\<lambda>d. d \<lparr> db_recon_jobs := update_row (\<lambda>r. rj_ID (jr_job r)) (rj_ID j) (job_cols j) (db_recon_jobs d) \<rparr>))"

definition scan_job :: "env \<Rightarrow> string \<Rightarrow> JobRow \<Rightarrow> (world, ReconJob) comp" where
  "scan_job ev msg row = wrapE msg (bindE (lift (scan_string ev (jr_error row))) (\<lambda>e. ok ((jr_job row) \<lparr> rj_Error := e \<rparr>)))"

definition Recon_GetJob :: "env \<Rightarrow> uuid \<Rightarrow> (world, ReconJob) comp" where
  "Recon_GetJob ev i = bindE (wrapE ''reconciliation: get job'' (pool_query (\<lambda>d. job_of d i))) (\<lambda>r. case r of
     None \<Rightarrow> throw ErrNotFound | Some row \<Rightarrow> scan_job ev ''reconciliation: get job'' row)"

definition job_matches :: "ReconciliationJobFilter \<Rightarrow> ReconJob \<Rightarrow> bool" where
  "job_matches f j \<longleftrightarrow> optional (\<lambda>x. rj_GatewayID j = x) (jf_GatewayID f) \<and> optional (\<lambda>x. rj_Actor j = x) (jf_Actor f) \<and>
     optional (\<lambda>x. rj_TenantID j = Some x) (jf_TenantID f) \<and> optional (\<lambda>x. rj_Status j = x) (jf_Status f) \<and>
     optional (\<lambda>x. rj_TransactionID j = Some x) (jf_TransactionID f) \<and>
     optional (\<lambda>x. x \<le> rj_CreatedAt j) (jf_DateFrom f) \<and> optional (\<lambda>x. rj_CreatedAt j \<le> x) (jf_DateTo f)"

definition Recon_ListJobs :: "env \<Rightarrow> ReconciliationJobFilter \<Rightarrow> (world, ReconJob list) comp" where
  "Recon_ListJobs ev f =
    (let limit = (if jf_Limit f \<le> 0 \<or> 100 < jf_Limit f then 50 else nat (jf_Limit f))
     in bindE (wrapE ''reconciliation: list jobs'' (pool_query (\<lambda>d. take limit (drop (nat (jf_Offset f))
          (rev (sort_key (\<lambda>r. rj_CreatedAt (jr_job r)) (filter (\<lambda>r. job_matches f (jr_job r)) (db_recon_jobs d)))))))) (\<lambda>rows.
        scan_rows (scan_job ev ''reconciliation: scan job'') rows))"

definition Recon_GetPendingJobs :: "env \<Rightarrow> int \<Rightarrow> (world, ReconJob list) comp" where
  "Recon_GetPendingJobs ev limit =
    (let limit = (if limit \<le> 0 then 5 else nat limit)
     in bindE (wrapE ''reconciliation: get pending jobs'' (pool_query (\<lambda>d. take limit (sort_key (\<lambda>r. rj_CreatedAt (jr_job r))
          (filter (\<lambda>r. rj_Status (jr_job r) = JobStatusPending \<and> rj_TriggeredBy (jr_job r) = ''system'') (db_recon_jobs d)))))) (\<lambda>rows.
        scan_rows (scan_job ev ''reconciliation: scan pending job'') rows))"

definition entry_insert_ok :: "db \<Rightarrow> ReconEntry \<Rightarrow> bool" where
  "entry_insert_ok d e \<longleftrightarrow> entry_of d (re_ID e) = None \<and> job_of d (re_JobID e) \<noteq> None \<and> txn_of d (re_TransactionID e) \<noteq> None \<and>
     re_ResolutionStatus e \<in> set [ResolutionUnresolved, ResolutionResolved, ''AUTO_REFUND_ISSUED'', ''AUTO_INVOICED'']"

definition entry_row :: "int \<Rightarrow> ReconEntry \<Rightarrow> EntryRow" where
  "entry_row now e = \<lparr> er_entry = e \<lparr> re_ResolvedAt := None, re_AutoResolutionAt := None, re_CreatedAt := now \<rparr>,
     er_resolved_by = None, er_notes = None, er_auto_action = None, er_auto_by = None \<rparr>"

text \<open>The statements of a batch run in one implicit transaction: all of them or none.\<close>

definition Recon_InsertEntries :: "ReconEntry list \<Rightarrow> (world, unit) comp" where
  "Recon_InsertEntries es = (if es = [] then ok () else bindE Now (\<lambda>now. wrapE ''reconciliation: insert entry'' (pool_exec_if
     (\<lambda>d. list_all (entry_insert_ok d) es \<and> distinct (map re_ID es)) ''reconciliation_entries constraint''
     (\<lambda>d. d \<lparr> db_recon_entries := db_recon_entries d @ map (entry_row now) es \<rparr>))))"

text \<open>The columns are scanned in the order of the query.\<close>

definition scan_entry :: "env \<Rightarrow> string \<Rightarrow> EntryRow \<Rightarrow> (world, ReconEntry) comp" where
  "scan_entry ev msg row = wrapE msg (bindE (lift (scan_string ev (er_resolved_by row))) (\<lambda>rb.
     bindE (lift (scan_string ev (er_notes row))) (\<lambda>n. bindE (lift (scan_string ev (er_auto_action row))) (\<lambda>a.
     bindE (lift (scan_string ev (er_auto_by row))) (\<lambda>ab.
       ok ((er_entry row) \<lparr> re_ResolvedBy := rb, re_Notes := n, re_AutoResolutionAction := a, re_AutoResolutionBy := ab \<rparr>))))))"

definition Recon_GetEntry :: "env \<Rightarrow> uuid \<Rightarrow> (world, ReconEntry) comp" where
  "Recon_GetEntry ev i = bindE (wrapE ''reconciliation: get entry'' (pool_query (\<lambda>d. entry_of d i))) (\<lambda>r. case r of
     None \<Rightarrow> throw ErrNotFound | Some row \<Rightarrow> scan_entry ev ''reconciliation: get entry'' row)"

definition Recon_GetEntries :: "env \<Rightarrow> uuid \<Rightarrow> ReconciliationEntryFilter \<Rightarrow> (world, ReconEntry list) comp" where
  "Recon_GetEntries ev jobID f =
    (let limit = (if ef_Limit f \<le> 0 \<or> 500 < ef_Limit f then 100 else nat (ef_Limit f))
     in bindE (wrapE ''reconciliation: list entries'' (pool_query (\<lambda>d. take limit (sort_key (\<lambda>r. re_CreatedAt (er_entry r))
          (filter (\<lambda>r. re_JobID (er_entry r) = jobID \<and>
              optional (\<lambda>m. mismatch_str (re_MismatchType (er_entry r)) = m) (ef_MismatchType f) \<and>
              optional (\<lambda>s. re_ResolutionStatus (er_entry r) = s) (ef_ResolutionStatus f)) (db_recon_entries d)))))) (\<lambda>rows.
        scan_rows (scan_entry ev ''reconciliation: scan entry'') rows))"

definition entry_cols :: "ReconEntry \<Rightarrow> EntryRow \<Rightarrow> EntryRow" where
  "entry_cols e row = \<lparr> er_entry = (er_entry row) \<lparr> re_ResolutionStatus := re_ResolutionStatus e, re_ResolvedAt := re_ResolvedAt e,
       re_AutoResolutionAt := re_AutoResolutionAt e \<rparr>,
     er_resolved_by = Some (re_ResolvedBy e), er_notes = Some (re_Notes e), er_auto_action = Some (re_AutoResolutionAction e),
     er_auto_by = Some (re_AutoResolutionBy e) \<rparr>"

definition Recon_UpdateEntry :: "ReconEntry \<Rightarrow> (world, unit) comp" where
  "Recon_UpdateEntry e = wrapE ''reconciliation: update entry'' (pool_exec_if
     (\<lambda>d. entry_of d (re_ID e) = None \<or>
        re_ResolutionStatus e \<in> set [ResolutionUnresolved, ResolutionResolved, ''AUTO_REFUND_ISSUED'', ''AUTO_INVOICED''])
     ''reconciliation_entries constraint''
     (\<lambda>d. d \<lparr> db_recon_entries := update_row (\<lambda>r. re_ID (er_entry r)) (re_ID e) (entry_cols e) (db_recon_entries d) \<rparr>))"

definition GetAutoResolutionConfig :: "string \<Rightarrow> string \<Rightarrow> AutoResolutionConfig" where
  "GetAutoResolutionConfig gatewayID paymentMethod = \<lparr> arc_PaymentMethod = paymentMethod, arc_Region = '''', arc_ThresholdBPS = 10,
     arc_AbsoluteCapPaise = 100000, arc_Action = ''AUTO_INVOICED'' \<rparr>"

subsection \<open>The service (app/reconciliation/service.go)\<close>

definition settledAmountFor :: "Txn \<Rightarrow> int" where
  "settledAmountFor t = (case t_GatewayAmount t of Some a \<Rightarrow> a | None \<Rightarrow> t_Amount t)"

definition isInternalSuccess :: "Status \<Rightarrow> bool" where
  "isInternalSuccess s \<longleftrightarrow> s = StatusCaptured \<or> s = StatusSettled"

definition internal_fees :: "Txn \<Rightarrow> int option" where
  "internal_fees t = (case t_FeeBreakdown t of
     Some b \<Rightarrow> if 0 < fd_Total (b_Fees b) then Some (fd_Total (b_Fees b)) else None | None \<Rightarrow> None)"

definition compareTransaction :: "env \<Rightarrow> Txn \<Rightarrow> SettlementEntry \<Rightarrow> uuid \<Rightarrow> (world, ReconEntry option) comp" where
  "compareTransaction ev txn se jobID = bindE (NewUUID ev) (\<lambda>eid.
     let internalAmount = settledAmountFor txn;
         entry = zero_Entry \<lparr> re_ID := eid, re_JobID := jobID, re_TransactionID := t_ID txn,
           re_InternalStatus := status_str (t_Status txn), re_GatewayStatus := se_GatewayStatus se,
           re_InternalAmount := internalAmount, re_GatewayAmount := se_GatewayAmount se,
           re_InternalFees := internal_fees txn, re_GatewayFees := se_GatewayFees se,
           re_FXRateAtSettlement := se_FXRate se \<rparr>
     in if isInternalSuccess (t_Status txn) \<and> se_GatewayStatus se \<noteq> ''succeeded''
        then ok (Some (entry \<lparr> re_MismatchType := MismatchStatus \<rparr>))
        else if \<not> isInternalSuccess (t_Status txn) \<and> se_GatewayStatus se = ''succeeded''
        then ok (Some (entry \<lparr> re_MismatchType := MismatchStatus \<rparr>))
        else if internalAmount \<noteq> se_GatewayAmount se then ok (Some (entry \<lparr> re_MismatchType := MismatchAmount \<rparr>))
        else (case (re_InternalFees entry, se_GatewayFees se) of
            (Some a, Some b) \<Rightarrow> if a \<noteq> b then ok (Some (entry \<lparr> re_MismatchType := MismatchFee \<rparr>)) else ok None
          | _ \<Rightarrow> ok None))"

definition missing_gateway :: "env \<Rightarrow> uuid \<Rightarrow> Txn \<Rightarrow> (world, ReconEntry) comp" where
  "missing_gateway ev jobID t = bindE (NewUUID ev) (\<lambda>eid. ok (zero_Entry \<lparr> re_ID := eid, re_JobID := jobID,
     re_TransactionID := t_ID t, re_InternalStatus := status_str (t_Status t), re_GatewayStatus := ''NOT_FOUND_IN_REPORT'',
     re_InternalAmount := settledAmountFor t, re_MismatchType := MismatchMissingGateway \<rparr>))"

definition missing_internal :: "env \<Rightarrow> uuid \<Rightarrow> SettlementEntry \<Rightarrow> (world, ReconEntry) comp" where
  "missing_internal ev jobID se = bindE (NewUUID ev) (\<lambda>eid. ok (zero_Entry \<lparr> re_ID := eid, re_JobID := jobID,
     re_TransactionID := uuid_Nil, re_InternalStatus := '''', re_GatewayStatus := se_GatewayStatus se, re_InternalAmount := 0,
     re_GatewayAmount := se_GatewayAmount se, re_GatewayFees := se_GatewayFees se, re_FXRateAtSettlement := se_FXRate se,
     re_MismatchType := MismatchMissingInternal \<rparr>))"

text \<open>The loop of \<open>reconcileSingle\<close> over the lines of the report for this payment.\<close>

primrec compare_lines :: "env \<Rightarrow> Txn \<Rightarrow> uuid \<Rightarrow> SettlementEntry list \<Rightarrow> (world, bool \<times> ReconEntry list) comp" where
  "compare_lines ev txn jobID [] = ok (False, [])"
| "compare_lines ev txn jobID (se # ses) =
    (if se_TransactionRef se \<noteq> t_GatewayReferenceID txn then compare_lines ev txn jobID ses
     else bindE (compareTransaction ev txn se jobID) (\<lambda>e. bindE (compare_lines ev txn jobID ses) (\<lambda>(_, es).
       ok (True, (case e of None \<Rightarrow> es | Some x \<Rightarrow> x # es)))))"

definition reconcileSingle :: "env \<Rightarrow> settlement \<Rightarrow> ReconJob \<Rightarrow> uuid \<Rightarrow> (world, ReconEntry list) comp" where
  "reconcileSingle ev registry job tid = bindE (wrapE ''load transaction'' (Txn_GetByID tid)) (\<lambda>txn.
     case registry (t_GatewayID txn) of
       None \<Rightarrow> throw (Errorf ''no settlement fetcher for gateway'')
     | Some fetch \<Rightarrow>
         bindE (wrapE ''fetch settlement'' (lift (fetch (t_TenantID txn) (t_GatewayID txn)
           (t_CreatedAt txn - 86400 * Second) (t_CreatedAt txn + 86400 * Second)))) (\<lambda>report.
         bindE (compare_lines ev txn (rj_ID job) (sr_Entries report)) (\<lambda>(foundInReport, entries).
           if foundInReport then ok entries
           else bindE (missing_gateway ev (rj_ID job) txn) (\<lambda>e. ok (entries @ [e])))))"

definition idsFromSummary :: "TransactionSummary list \<Rightarrow> uuid list" where
  "idsFromSummary ss = map ts_ID ss"

text \<open>The map from gateway references to payments; a later payment replaces an earlier one.\<close>

definition internalByRef :: "Txn list \<Rightarrow> string \<Rightarrow> Txn option" where
  "internalByRef ts r = find (\<lambda>t. t_GatewayReferenceID t \<noteq> '''' \<and> t_GatewayReferenceID t = r) (rev ts)"

primrec match_report :: "env \<Rightarrow> uuid \<Rightarrow> Txn list \<Rightarrow> SettlementEntry list \<Rightarrow> (world, uuid list \<times> ReconEntry list) comp" where
  "match_report ev jobID ts [] = ok ([], [])"
| "match_report ev jobID ts (se # ses) = (case internalByRef ts (se_TransactionRef se) of
       Some t \<Rightarrow> bindE (compareTransaction ev t se jobID) (\<lambda>e. bindE (match_report ev jobID ts ses) (\<lambda>(matched, es).
         ok (t_ID t # matched, (case e of None \<Rightarrow> es | Some x \<Rightarrow> x # es))))
     | None \<Rightarrow> bindE (missing_internal ev jobID se) (\<lambda>e. bindE (match_report ev jobID ts ses) (\<lambda>(matched, es).
         ok (matched, e # es))))"

primrec unmatched :: "env \<Rightarrow> uuid \<Rightarrow> uuid list \<Rightarrow> Txn list \<Rightarrow> (world, ReconEntry list) comp" where
  "unmatched ev jobID matched [] = ok []"
| "unmatched ev jobID matched (t # ts) =
    (if t_ID t \<in> set matched then unmatched ev jobID matched ts
     else bindE (missing_gateway ev jobID t) (\<lambda>e. bindE (unmatched ev jobID matched ts) (\<lambda>es. ok (e # es))))"

definition batch_filter :: "uuid \<Rightarrow> string \<Rightarrow> int \<Rightarrow> int \<Rightarrow> TransactionFilter" where
  "batch_filter tenant gatewayID from to = \<lparr> tf_TenantID = Some tenant, tf_UserID = None, tf_Status = [], tf_GatewayID = [gatewayID],
     tf_MinAmount = None, tf_MaxAmount = None, tf_MinGatewayAmount = None, tf_MaxGatewayAmount = None,
     tf_GatewayCurrency = None, tf_Currency = None, tf_PaymentMethod = [], tf_DateFrom = Some from, tf_DateTo = Some to,
     tf_Cursor = None, tf_Limit = 100 \<rparr>"

definition batch_payments :: "env \<Rightarrow> uuid \<Rightarrow> string \<Rightarrow> int \<Rightarrow> int \<Rightarrow> (world, Txn list) comp" where
  "batch_payments ev tenant gatewayID from to =
     bindE (reading (\<lambda>w. Suc (length (db_transactions (w_db w))))) (\<lambda>fuel.
     bindE (wrapE ''list internal transactions'' (list_all_pages fuel ev (batch_filter tenant gatewayID from to) [])) (\<lambda>summaries.
     wrapE ''load full transactions'' (Txn_GetByIDs (idsFromSummary summaries))))"

definition reconcileBatch :: "env \<Rightarrow> settlement \<Rightarrow> ReconJob \<Rightarrow> int \<Rightarrow> int \<Rightarrow> (world, ReconEntry list) comp" where
  "reconcileBatch ev registry job from to = (case registry (rj_GatewayID job) of
       None \<Rightarrow> throw (Errorf ''no settlement fetcher for gateway'')
     | Some fetch \<Rightarrow> (case rj_TenantID job of
           None \<Rightarrow> throw (Errorf ''batch job has no tenant_id; tenant-scoped settlement is required'')
         | Some tenant \<Rightarrow>
             bindE (wrapE ''fetch settlement'' (lift (fetch tenant (rj_GatewayID job) from to))) (\<lambda>report.
             bindE (batch_payments ev tenant (rj_GatewayID job) from to) (\<lambda>fullTxns.
             bindE (match_report ev (rj_ID job) fullTxns (sr_Entries report)) (\<lambda>(matchedInternal, entries).
             bindE (unmatched ev (rj_ID job) matchedInternal fullTxns) (\<lambda>missing. ok (entries @ missing)))))))"

definition recon_CreateJob :: "env \<Rightarrow> string \<Rightarrow> uuid option \<Rightarrow> int option \<Rightarrow> int option \<Rightarrow> uuid option \<Rightarrow> string \<Rightarrow> (world, ReconJob) comp" where
  "recon_CreateJob ev gatewayID tenantID periodStart periodEnd transactionID triggeredBy =
     bindE (NewUUID ev) (\<lambda>jid. bindE Now (\<lambda>now.
       let job = \<lparr> rj_ID = jid, rj_GatewayID = gatewayID, rj_TenantID = tenantID, rj_TransactionID = transactionID,
             rj_PeriodStart = periodStart, rj_PeriodEnd = periodEnd, rj_Status = JobStatusPending, rj_TriggeredBy = triggeredBy,
             rj_Actor = triggeredBy, rj_MismatchCount = 0, rj_Error = '''', rj_StartedAt = None, rj_CompletedAt = None,
             rj_CreatedAt = now \<rparr>
       in bindE (Recon_CreateJob job) (\<lambda>_. ok job)))"

definition recon_collect :: "env \<Rightarrow> settlement \<Rightarrow> ReconJob \<Rightarrow> (world, ReconEntry list) comp" where
  "recon_collect ev registry job = (case rj_TransactionID job of
       Some tid \<Rightarrow> reconcileSingle ev registry job tid
     | None \<Rightarrow> (case (rj_PeriodStart job, rj_PeriodEnd job) of
           (Some from, Some to) \<Rightarrow> reconcileBatch ev registry job from to
         | _ \<Rightarrow> throw (Errorf ''job has neither transaction_id nor period range'')))"

text \<open>The last part of \<open>run\<close>, what follows the first update of the job, and the whole.\<close>

definition recon_store :: "ReconJob \<Rightarrow> ReconEntry list \<Rightarrow> (world, unit) comp" where
  "recon_store job entries =
     bindE (wrapE ''reconciliation: insert entries'' (Recon_InsertEntries entries)) (\<lambda>_. bindE Now (\<lambda>now.
     wrapE ''reconciliation: mark completed'' (Recon_UpdateJob (job \<lparr> rj_MismatchCount := int (length entries),
       rj_Status := JobStatusCompleted, rj_CompletedAt := Some now \<rparr>))))"

definition recon_compare :: "env \<Rightarrow> settlement \<Rightarrow> ReconJob \<Rightarrow> (world, unit) comp" where
  "recon_compare ev registry job = bindE (attempt (recon_collect ev registry job)) (\<lambda>r. case r of
       Inl e \<Rightarrow> bindE Now (\<lambda>now. bindE (attempt (Recon_UpdateJob (job \<lparr> rj_Status := JobStatusFailed,
           rj_Error := err_msg e, rj_CompletedAt := Some now \<rparr>))) (\<lambda>_. throw (Wrapf ''reconciliation: run job'' e)))
     | Inr entries \<Rightarrow> recon_store job entries)"

definition recon_run :: "env \<Rightarrow> settlement \<Rightarrow> ReconJob \<Rightarrow> (world, unit) comp" where
  "recon_run ev registry job0 = bindE Now (\<lambda>now.
     let job = job0 \<lparr> rj_Status := JobStatusRunning, rj_StartedAt := Some now \<rparr>
     in bindE (wrapE ''reconciliation: mark running'' (Recon_UpdateJob job)) (\<lambda>_. recon_compare ev registry job))"

definition canAccessJob :: "string \<Rightarrow> ReconJob \<Rightarrow> bool" where
  "canAccessJob actor job \<longleftrightarrow> actor = ''ops'' \<or> rj_Actor job = actor"

definition recon_GetJob :: "env \<Rightarrow> string \<Rightarrow> uuid \<Rightarrow> (world, ReconJob) comp" where
  "recon_GetJob ev actor i = bindE (Recon_GetJob ev i) (\<lambda>job.
     if canAccessJob actor job then ok job else throw ErrJobNotFound)"

definition recon_ListJobs :: "env \<Rightarrow> ReconciliationJobFilter \<Rightarrow> (world, ReconJob list) comp" where
  "recon_ListJobs ev f = Recon_ListJobs ev f"

definition RunJob :: "env \<Rightarrow> settlement \<Rightarrow> string \<Rightarrow> uuid \<Rightarrow> (world, unit) comp" where
  "RunJob ev registry actor i = bindE (Recon_GetJob ev i) (\<lambda>job.
     if \<not> canAccessJob actor job then throw ErrJobNotFound
     else if rj_Status job \<noteq> JobStatusPending then ok ()
     else recon_run ev registry job)"

definition recon_GetEntries :: "env \<Rightarrow> string \<Rightarrow> uuid \<Rightarrow> ReconciliationEntryFilter \<Rightarrow> (world, ReconEntry list) comp" where
  "recon_GetEntries ev actor jobID f = bindE (Recon_GetJob ev jobID) (\<lambda>job.
     if canAccessJob actor job then Recon_GetEntries ev jobID f else throw ErrJobNotFound)"

definition ResolveEntry :: "env \<Rightarrow> string \<Rightarrow> uuid \<Rightarrow> string \<Rightarrow> string \<Rightarrow> (world, unit) comp" where
  "ResolveEntry ev actor entryID resolvedBy notes = bindE (Recon_GetEntry ev entryID) (\<lambda>entry.
     bindE (Recon_GetJob ev (re_JobID entry)) (\<lambda>job.
     if \<not> canAccessJob actor job then throw ErrJobNotFound
     else bindE Now (\<lambda>now. Recon_UpdateEntry (entry \<lparr> re_ResolutionStatus := ResolutionResolved, re_ResolvedBy := resolvedBy,
       re_ResolvedAt := Some now, re_Notes := notes \<rparr>))))"

text \<open>The scheduler (\<open>jobs/reconciliation\<close>): a job that fails is logged.\<close>

definition scheduler_RunOnce :: "env \<Rightarrow> settlement \<Rightarrow> int \<Rightarrow> (world, unit) comp" where
  "scheduler_RunOnce ev registry batchSize =
     bindE (Recon_GetPendingJobs ev (if batchSize \<le> 0 then 5 else batchSize)) (\<lambda>jobs.
     forE jobs (\<lambda>job. bindE (attempt (RunJob ev registry ''ops'' (rj_ID job))) (\<lambda>_. ok ())))"

subsection \<open>A period agrees with its report\<close>

text \<open>A line of the report agrees with a payment.\<close>

definition agrees :: "Txn \<Rightarrow> SettlementEntry \<Rightarrow> bool" where
  "agrees t se \<longleftrightarrow> (isInternalSuccess (t_Status t) \<longleftrightarrow> se_GatewayStatus se = ''succeeded'') \<and>
     settledAmountFor t = se_GatewayAmount se \<and>
     (internal_fees t \<noteq> None \<longrightarrow> se_GatewayFees se \<noteq> None \<longrightarrow> internal_fees t = se_GatewayFees se)"

lemma compare_agrees:
  "\<exists>r. compareTransaction ev t se j w = (Inr r, w \<lparr> w_seq := Suc (w_seq w) \<rparr>) \<and> (r = None \<longleftrightarrow> agrees t se)"
  by (simp add: compareTransaction_def NewUUID_def go_defs Let_def agrees_def split: option.split)

lemma match_report_spec:
  "\<exists>matched es n. match_report ev j ts ses w = (Inr (matched, es), w \<lparr> w_seq := n \<rparr>) \<and>
     (es = [] \<longleftrightarrow> (\<forall>se \<in> set ses. \<exists>t. internalByRef ts (se_TransactionRef se) = Some t \<and> agrees t se)) \<and>
     set matched = {t_ID t | t. \<exists>se \<in> set ses. internalByRef ts (se_TransactionRef se) = Some t}"
proof (induction ses arbitrary: w)
  case Nil
  show ?case by (auto simp: ok_def intro: exI [of _ "w_seq w"])
next
  case (Cons se ses)
  let ?w = "w \<lparr> w_seq := Suc (w_seq w) \<rparr>"
  obtain matched es n where ih: "match_report ev j ts ses ?w = (Inr (matched, es), ?w \<lparr> w_seq := n \<rparr>)"
      "es = [] \<longleftrightarrow> (\<forall>se \<in> set ses. \<exists>t. internalByRef ts (se_TransactionRef se) = Some t \<and> agrees t se)"
      "set matched = {t_ID t | t. \<exists>se \<in> set ses. internalByRef ts (se_TransactionRef se) = Some t}"
    using Cons.IH [of ?w] by (elim exE conjE)
  show ?case
  proof (cases "internalByRef ts (se_TransactionRef se)")
    case None
    then obtain e where "match_report ev j ts (se # ses) w = (Inr (matched, e # es), w \<lparr> w_seq := n \<rparr>)"
      using ih(1) by (simp add: missing_internal_def NewUUID_def go_defs)
    moreover have "set matched = {t_ID t | t. \<exists>x \<in> set (se # ses). internalByRef ts (se_TransactionRef x) = Some t}"
      using None ih(3) by simp
    moreover have "\<not> (\<forall>x \<in> set (se # ses). \<exists>t. internalByRef ts (se_TransactionRef x) = Some t \<and> agrees t x)" using None by simp
    ultimately show ?thesis by blast
  next
    case (Some t)
    obtain r where r: "compareTransaction ev t se j w = (Inr r, ?w)" "r = None \<longleftrightarrow> agrees t se" using compare_agrees by blast
    with Some ih(1) have "match_report ev j ts (se # ses) w =
        (Inr (t_ID t # matched, case r of None \<Rightarrow> es | Some x \<Rightarrow> x # es), w \<lparr> w_seq := n \<rparr>)" by (simp add: go_defs)
    moreover have "set (t_ID t # matched) = {t_ID t | t. \<exists>x \<in> set (se # ses). internalByRef ts (se_TransactionRef x) = Some t}"
      using Some ih(3) by auto
    moreover have "(case r of None \<Rightarrow> es | Some x \<Rightarrow> x # es) = [] \<longleftrightarrow>
        (\<forall>x \<in> set (se # ses). \<exists>t. internalByRef ts (se_TransactionRef x) = Some t \<and> agrees t x)"
      using Some ih(2) r(2) by (cases r) simp_all
    ultimately show ?thesis by blast
  qed
qed

lemma unmatched_spec:
  "\<exists>es n. unmatched ev j matched ts w = (Inr es, w \<lparr> w_seq := n \<rparr>) \<and> (es = [] \<longleftrightarrow> (\<forall>t \<in> set ts. t_ID t \<in> set matched))"
proof (induction ts arbitrary: w)
  case Nil
  show ?case by (auto simp: ok_def intro: exI [of _ "w_seq w"])
next
  case (Cons t ts)
  show ?case
  proof (cases "t_ID t \<in> set matched")
    case False
    obtain es n where "unmatched ev j matched ts (w \<lparr> w_seq := Suc (w_seq w) \<rparr>) = (Inr es, w \<lparr> w_seq := n \<rparr>)"
      using Cons.IH [of "w \<lparr> w_seq := Suc (w_seq w) \<rparr>"] by auto
    with False obtain e where "unmatched ev j matched (t # ts) w = (Inr (e # es), w \<lparr> w_seq := n \<rparr>)"
      by (simp add: missing_gateway_def NewUUID_def go_defs)
    with False show ?thesis by auto
  qed (use Cons.IH in simp)
qed

lemma internalByRef_distinct:
  assumes "\<And>a b. a \<in> set ts \<Longrightarrow> b \<in> set ts \<Longrightarrow> t_GatewayReferenceID a = t_GatewayReferenceID b \<Longrightarrow> t_GatewayReferenceID a \<noteq> '''' \<Longrightarrow> a = b"
  shows "internalByRef ts r = Some t \<longleftrightarrow> t \<in> set ts \<and> t_GatewayReferenceID t = r \<and> r \<noteq> ''''"
proof
  assume "internalByRef ts r = Some t"
  then show "t \<in> set ts \<and> t_GatewayReferenceID t = r \<and> r \<noteq> ''''"
    unfolding internalByRef_def find_Some_iff by (auto simp: rev_nth)
next
  assume t: "t \<in> set ts \<and> t_GatewayReferenceID t = r \<and> r \<noteq> ''''"
  then obtain x where x: "internalByRef ts r = Some x"
    by (cases "internalByRef ts r") (auto simp: internalByRef_def find_None_iff)
  then have "x \<in> set ts" "t_GatewayReferenceID x = r" unfolding internalByRef_def find_Some_iff by (auto simp: rev_nth)
  with assms t x show "internalByRef ts r = Some t" by metis
qed

definition in_batch :: "uuid \<Rightarrow> string \<Rightarrow> int \<Rightarrow> int \<Rightarrow> Txn \<Rightarrow> bool" where
  "in_batch tenant gatewayID from to t \<longleftrightarrow> t_TenantID t = tenant \<and> t_AttemptedGateway t = gatewayID \<and>
     from \<le> t_CreatedAt t \<and> t_CreatedAt t \<le> to"

lemma list_matches_batch: "list_matches (batch_filter tenant g from to) = in_batch tenant g from to"
  by (auto simp: list_matches_def batch_filter_def in_batch_def optional_def fun_eq_iff)

text \<open>What the listing and \<open>GetByIDs\<close> load.\<close>

lemma batch_payments_spec:
  assumes "uuid_text_ok ev" "w_budget w = None" "w_tx w = []" "distinct (map t_ID (db_transactions (w_db w)))"
    and "\<forall>t \<in> set (db_transactions (w_db w)). in_batch tenant g from to t \<longrightarrow> four_digit_years (t_CreatedAt t)"
  shows "batch_payments ev tenant g from to w = (Inr (filter (in_batch tenant g from to) (db_transactions (w_db w))), w)"
proof -
  let ?rows = "db_transactions (w_db w)" and ?f = "batch_filter tenant g from to"
  have c: "tf_Cursor ?f = None" by (simp add: batch_filter_def)
  from pages_complete [OF assms(1,2,4) assms(5) [unfolded list_matches_batch [symmetric]] c lessI]
  obtain rows where l: "list_all_pages (Suc (length ?rows)) ev ?f [] w = (Inr (map summary_of rows), w)"
    and rows: "set rows = {t \<in> set ?rows. in_batch tenant g from to t}" unfolding list_matches_batch by blast
  have ids: "idsFromSummary (map summary_of rows) = map t_ID rows" by (simp add: idsFromSummary_def summary_of_def)
  have same: "x \<in> set ?rows \<Longrightarrow> y \<in> set ?rows \<Longrightarrow> t_ID x = t_ID y \<Longrightarrow> x = y" for x y
    using assms(4) by (auto simp: distinct_map inj_on_def)
  have "filter (\<lambda>t. t_ID t \<in> set (map t_ID rows)) ?rows = filter (in_batch tenant g from to) ?rows"
    by (rule filter_cong) (auto simp: rows dest: same)
  moreover have "filter (in_batch tenant g from to) ?rows = []" if "rows = []" using rows that by (simp add: filter_empty_conv)
  moreover have "query f w = (Inr (f (w_db w)), w)" for f :: "db \<Rightarrow> Txn list"
    using assms(2,3) by (simp add: query_def stmt_def aborted_def answer_up cur_db_def go_defs)
  ultimately show ?thesis by (simp add: batch_payments_def go_defs l ids Txn_GetByIDs_def del: list_all_pages.simps)
qed

subsection \<open>Jobs count their entries\<close>

text \<open>Comparing changes nothing in the database, and makes entries for its job only.\<close>

lemma keeps_db_prims [hoare]:
  "keeps (\<lambda>w. w_db w = D) answer" "keeps (\<lambda>w. w_db w = D) (NewUUID ev)" "keeps (\<lambda>w. w_db w = D) (query f)"
  by (simp_all add: keeps_def answer_def NewUUID_def query_def stmt_def go_defs split: prod.split sum.split)

lemma keeps_db_GetByID [hoare]: "keeps (\<lambda>w. w_db w = D) (Txn_GetByID i)"
  unfolding Txn_GetByID_def by (intro hoare keeps_changing) simp_all

lemma keeps_db_Txn_List [hoare]: "keeps (\<lambda>w. w_db w = D) (Txn_List ev f)"
  unfolding Txn_List_def by (intro hoare)

lemma keeps_db_pages [hoare]: "keeps (\<lambda>w. w_db w = D) (list_all_pages n ev f acc)"
  by (induction n arbitrary: f acc) (simp_all add: Let_def hoare)

lemma keeps_db_compare [hoare]: "keeps (\<lambda>w. w_db w = D) (compareTransaction ev t se j)"
  unfolding compareTransaction_def Let_def by (intro hoare)

lemma keeps_db_missing [hoare]:
  "keeps (\<lambda>w. w_db w = D) (missing_gateway ev j t)" "keeps (\<lambda>w. w_db w = D) (missing_internal ev j se)"
  unfolding missing_gateway_def missing_internal_def by (intro hoare)+

lemma keeps_db_match [hoare]: "keeps (\<lambda>w. w_db w = D) (match_report ev j ts ses)"
  by (induction ses) (auto intro!: hoare)

lemma keeps_db_unmatched [hoare]: "keeps (\<lambda>w. w_db w = D) (unmatched ev j matched ts)"
  by (induction ts) (auto intro!: hoare)

lemma keeps_db_lines [hoare]: "keeps (\<lambda>w. w_db w = D) (compare_lines ev t j ses)"
  by (induction ses) (auto intro!: hoare)

lemma keeps_db_collect: "keeps (\<lambda>w. w_db w = D) (recon_collect ev registry job)"
  unfolding recon_collect_def reconcileSingle_def reconcileBatch_def batch_payments_def Txn_GetByIDs_def by (intro hoare)

lemma compare_job: "compareTransaction ev t se j w = (Inr (Some e), w') \<Longrightarrow> re_JobID e = j"
  by (auto simp: compareTransaction_def Let_def run split: if_splits option.splits)

lemma missing_job:
  "missing_gateway ev j t w = (Inr e, w') \<Longrightarrow> re_JobID e = j" "missing_internal ev j se w = (Inr e, w') \<Longrightarrow> re_JobID e = j"
  by (auto simp: missing_gateway_def missing_internal_def run)

lemma loops_job:
  "match_report ev j ts ses w = (Inr (m, es), w') \<Longrightarrow> e \<in> set es \<Longrightarrow> re_JobID e = j"
  "unmatched ev j matched ts w = (Inr es, w') \<Longrightarrow> e \<in> set es \<Longrightarrow> re_JobID e = j"
  "compare_lines ev t j ses w = (Inr (b, es), w') \<Longrightarrow> e \<in> set es \<Longrightarrow> re_JobID e = j"
proof -
  show "match_report ev j ts ses w = (Inr (m, es), w') \<Longrightarrow> e \<in> set es \<Longrightarrow> re_JobID e = j"
    by (induction ses arbitrary: w m es) (auto simp: run dest: compare_job missing_job split: option.splits)
  show "unmatched ev j matched ts w = (Inr es, w') \<Longrightarrow> e \<in> set es \<Longrightarrow> re_JobID e = j"
    by (induction ts arbitrary: w es) (auto simp: run dest: missing_job split: if_splits)
  show "compare_lines ev t j ses w = (Inr (b, es), w') \<Longrightarrow> e \<in> set es \<Longrightarrow> re_JobID e = j"
    by (induction ses arbitrary: w b es) (auto simp: run dest: compare_job split: if_splits option.splits)
qed

lemma collect_job:
  assumes "recon_collect ev registry job w = (Inr es, w')" "e \<in> set es"
  shows "re_JobID e = rj_ID job"
proof (cases "rj_TransactionID job")
  case (Some tid)
  with assms show ?thesis
    by (auto simp: recon_collect_def reconcileSingle_def run dest: loops_job missing_job split: option.splits if_splits)
next
  case None
  with assms show ?thesis
    by (auto simp: recon_collect_def reconcileBatch_def run dest: loops_job split: option.splits)
qed

definition entries_for :: "db \<Rightarrow> uuid \<Rightarrow> nat" where
  "entries_for d i = length (filter (\<lambda>r. re_JobID (er_entry r) = i) (db_recon_entries d))"

text \<open>A job that has not started has no entries, and the count of a finished job is the number of its
  entries.\<close>

definition counted :: "db \<Rightarrow> ReconJob \<Rightarrow> bool" where
  "counted d j \<longleftrightarrow> (rj_Status j = JobStatusPending \<longrightarrow> entries_for d (rj_ID j) = 0) \<and>
     (rj_Status j = JobStatusCompleted \<longrightarrow> rj_MismatchCount j = int (entries_for d (rj_ID j)))"

definition counts_ok :: "db \<Rightarrow> bool" where
  "counts_ok d \<longleftrightarrow> distinct (map (\<lambda>r. rj_ID (jr_job r)) (db_recon_jobs d)) \<and>
     (\<forall>r \<in> set (db_recon_entries d). job_of d (re_JobID (er_entry r)) \<noteq> None) \<and>
     (\<forall>row \<in> set (db_recon_jobs d). counted d (jr_job row))"

lemma counted_jobs [simp]: "counted (d \<lparr> db_recon_jobs := js \<rparr>) = counted d"
  by (simp add: counted_def entries_for_def fun_eq_iff)

lemma counts_insert_job:
  assumes "counts_ok d" "job_of d (rj_ID j) = None" "rj_ID (jr_job row) = rj_ID j" "rj_Status (jr_job row) = JobStatusPending"
  shows "counts_ok (d \<lparr> db_recon_jobs := db_recon_jobs d @ [row] \<rparr>)"
proof -
  have "filter (\<lambda>r. re_JobID (er_entry r) = rj_ID j) (db_recon_entries d) = []"
    using assms(1,2) by (auto simp: counts_ok_def filter_empty_conv)
  then show ?thesis using assms
    by (auto simp: counts_ok_def counted_def entries_for_def lookup_row_None lookup_row_append split: option.split)
qed

lemma counts_update_job:
  assumes "counts_ok d" "counted d j"
  shows "counts_ok (d \<lparr> db_recon_jobs := update_row (\<lambda>r. rj_ID (jr_job r)) (rj_ID j) (job_cols j) (db_recon_jobs d) \<rparr>)"
proof -
  have k: "rj_ID (jr_job (job_cols j r)) = rj_ID (jr_job r)" for r by (simp add: job_cols_def)
  have "counted d (jr_job (if rj_ID (jr_job r) = rj_ID j then job_cols j r else r))" if "r \<in> set (db_recon_jobs d)" for r
    using assms that by (auto simp: counts_ok_def counted_def job_cols_def)
  then have "\<forall>row \<in> set (update_row (\<lambda>r. rj_ID (jr_job r)) (rj_ID j) (job_cols j) (db_recon_jobs d)). counted d (jr_job row)"
    unfolding update_row_def set_map by blast
  then show ?thesis using assms(1) k by (auto simp: counts_ok_def)
qed

lemma counts_insert_entries:
  fixes d es now
  defines "d' \<equiv> d \<lparr> db_recon_entries := db_recon_entries d @ map (entry_row now) es \<rparr>"
  assumes "counts_ok d" "job_of d i = Some row" "rj_Status (jr_job row) = JobStatusRunning" "\<And>e. e \<in> set es \<Longrightarrow> re_JobID e = i"
  shows "counts_ok d'" "entries_for d' i = entries_for d i + length es"
proof -
  have "filter (\<lambda>r. re_JobID (er_entry r) = k) (map (entry_row now) es) = (if k = i then map (entry_row now) es else [])" for k
    using assms(5) by (auto simp: filter_id_conv filter_empty_conv entry_row_def)
  then have n: "entries_for d' k = entries_for d k + (if k = i then length es else 0)" for k by (simp add: entries_for_def d'_def)
  then show "entries_for d' i = entries_for d i + length es" by simp
  have "counted d' (jr_job r)" if "r \<in> set (db_recon_jobs d)" for r
  proof (cases "rj_ID (jr_job r) = i")
    case True
    then have "r = row"
      using assms(2,3) that lookup_row_mem [of "\<lambda>r. rj_ID (jr_job r)" "db_recon_jobs d" r] by (simp add: counts_ok_def)
    then show ?thesis using assms(4) by (simp add: counted_def)
  next
    case False
    then show ?thesis using assms(2) that n by (auto simp: counts_ok_def counted_def)
  qed
  then show "counts_ok d'" using assms(2,3,5) by (auto simp: counts_ok_def entry_row_def d'_def)
qed

lemma counts_update_entry:
  assumes "counts_ok d"
  shows "counts_ok (d \<lparr> db_recon_entries := update_row (\<lambda>r. re_ID (er_entry r)) (re_ID e) (entry_cols e) (db_recon_entries d) \<rparr>)" (is "counts_ok ?d")
proof -
  have k: "re_JobID (er_entry (entry_cols e r)) = re_JobID (er_entry r)" for r by (simp add: entry_cols_def)
  then have "length (filter (\<lambda>r. re_JobID (er_entry r) = i) (update_row (\<lambda>r. re_ID (er_entry r)) (re_ID e) (entry_cols e) rs))
      = length (filter (\<lambda>r. re_JobID (er_entry r) = i) rs)" for rs i
    by (induction rs) auto
  then have "entries_for ?d = entries_for d" by (simp add: entries_for_def fun_eq_iff)
  then show ?thesis using assms k by (auto simp: counts_ok_def counted_def) (auto simp: update_row_def)
qed

text \<open>A statement through the pool that the database rejects or does not answer changes nothing.\<close>

lemma pool_exec_if_db:
  "w_db (snd (pool_exec_if allowed msg f w)) = w_db w \<and> (\<exists>e. fst (pool_exec_if allowed msg f w) = Inl e) \<or>
   w_db (snd (pool_exec_if allowed msg f w)) = f (w_db w) \<and> fst (pool_exec_if allowed msg f w) = Inr () \<and> allowed (w_db w)"
  by (simp add: pool_exec_if_def pool_query_def answer_def go_defs)

lemma keeps_pool_exec_if: "(\<And>d. I d \<Longrightarrow> allowed d \<Longrightarrow> I (f d)) \<Longrightarrow> keeps (\<lambda>w. I (w_db w)) (pool_exec_if allowed msg f)"
  unfolding keeps_def using pool_exec_if_db by metis

lemma keeps_any_db: "(\<And>D. keeps (\<lambda>w. w_db w = D) m) \<Longrightarrow> keeps (\<lambda>w. I (w_db w)) m"
  by (simp add: keeps_def)

lemma wrapped_exec:
  assumes "wrapE s (pool_exec_if allowed msg f) w = (r, w')"
  shows "(\<exists>e. r = Inl e) \<and> w_db w' = w_db w \<or> r = Inr () \<and> allowed (w_db w) \<and> w_db w' = f (w_db w)"
proof -
  obtain r0 w0 where m: "pool_exec_if allowed msg f w = (r0, w0)" by fastforce
  from pool_exec_if_db [of allowed msg f w] assms show ?thesis unfolding m wrapE_def by (cases r0) auto
qed

lemma counts_UpdateJob:
  assumes "Recon_UpdateJob j w = (r, w')" "counts_ok (w_db w)" "counted (w_db w) j"
  shows "counts_ok (w_db w')"
  using wrapped_exec [OF assms(1) [unfolded Recon_UpdateJob_def]] counts_update_job [OF assms(2,3)] assms(2) by auto

lemma UpdateJob_row:
  assumes "Recon_UpdateJob j w = (Inr (), w')" "job_of (w_db w) (rj_ID j) = Some row"
  shows "job_of (w_db w') (rj_ID j) = Some (job_cols j row)" "db_recon_entries (w_db w') = db_recon_entries (w_db w)"
  using wrapped_exec [OF assms(1) [unfolded Recon_UpdateJob_def]] assms(2) by (auto simp: job_cols_def)

lemma counts_InsertEntries:
  assumes "Recon_InsertEntries es w = (r, w')" "counts_ok (w_db w)" "job_of (w_db w) i = Some row"
    and "rj_Status (jr_job row) = JobStatusRunning" "\<And>e. e \<in> set es \<Longrightarrow> re_JobID e = i"
  shows "counts_ok (w_db w')" "r = Inr () \<Longrightarrow> entries_for (w_db w') i = entries_for (w_db w) i + length es"
proof -
  consider "es = []" "r = Inr ()" "w' = w" | e where "r = Inl e" "w_db w' = w_db w"
    | now where "r = Inr ()" "w_db w' = (w_db w) \<lparr> db_recon_entries := db_recon_entries (w_db w) @ map (entry_row now) es \<rparr>"
  proof (cases "es = []")
    case True
    with assms(1) that(1) show thesis by (simp add: Recon_InsertEntries_def ok_def)
  next
    case False
    with assms(1) have "wrapE ''reconciliation: insert entry'' (pool_exec_if (\<lambda>d. list_all (entry_insert_ok d) es \<and> distinct (map re_ID es))
        ''reconciliation_entries constraint'' (\<lambda>d. d \<lparr> db_recon_entries := db_recon_entries d @ map (entry_row (w_clock w)) es \<rparr>)) w = (r, w')"
      by (simp add: Recon_InsertEntries_def Now_def bindE_def reading_def)
    from wrapped_exec [OF this] that(2,3) show thesis by blast
  qed
  then have "counts_ok (w_db w') \<and> (r = Inr () \<longrightarrow> entries_for (w_db w') i = entries_for (w_db w) i + length es)"
  proof cases
    case (3 now)
    then show ?thesis using counts_insert_entries [where now = now, OF assms(2-5)] by simp
  qed (use assms(2) in simp_all)
  then show "counts_ok (w_db w')" "r = Inr () \<Longrightarrow> entries_for (w_db w') i = entries_for (w_db w) i + length es" by simp_all
qed

text \<open>The database between the steps of \<open>run\<close>.\<close>

definition running :: "uuid \<Rightarrow> nat \<Rightarrow> db \<Rightarrow> bool" where
  "running i n d \<longleftrightarrow> counts_ok d \<and> entries_for d i = n \<and> (\<exists>row. job_of d i = Some row \<and> rj_Status (jr_job row) = JobStatusRunning)"

lemma counts_store:
  assumes r: "running (rj_ID job) 0 (w_db w)" and es: "\<And>e. e \<in> set es \<Longrightarrow> re_JobID e = rj_ID job"
  shows "counts_ok (w_db (snd (recon_store job es w)))"
proof -
  obtain r1 w1 where ins: "Recon_InsertEntries es w = (r1, w1)" by fastforce
  from r obtain row where "job_of (w_db w) (rj_ID job) = Some row" "rj_Status (jr_job row) = JobStatusRunning" "counts_ok (w_db w)"
    by (auto simp: running_def)
  note i = counts_InsertEntries [OF ins this(3,1,2) es]
  show ?thesis
  proof (cases r1)
    case (Inl e)
    then show ?thesis using ins i(1) by (simp add: recon_store_def bindE_def wrapE_def)
  next
    case (Inr u)
    let ?j = "job \<lparr> rj_MismatchCount := int (length es), rj_Status := JobStatusCompleted, rj_CompletedAt := Some (w_clock w1) \<rparr>"
    obtain r2 w2 where u: "Recon_UpdateJob ?j w1 = (r2, w2)" by fastforce
    have "counted (w_db w1) ?j" using i(2) Inr r by (simp add: counted_def running_def)
    then have "counts_ok (w_db w2)" using counts_UpdateJob [OF u i(1)] by simp
    then show ?thesis using ins Inr u by (cases r2) (simp_all add: recon_store_def go_defs Now_def)
  qed
qed

lemma counts_compare:
  assumes r: "running (rj_ID job) 0 (w_db w)"
  shows "counts_ok (w_db (snd (recon_compare ev registry job w)))"
proof -
  obtain r1 w1 where co: "recon_collect ev registry job w = (r1, w1)" by fastforce
  have d: "w_db w1 = w_db w" using keepsD [OF keeps_db_collect refl co] .
  show ?thesis
  proof (cases r1)
    case (Inl e)
    let ?j = "job \<lparr> rj_Status := JobStatusFailed, rj_Error := err_msg e, rj_CompletedAt := Some (w_clock w1) \<rparr>"
    obtain r2 w2 where u: "Recon_UpdateJob ?j w1 = (r2, w2)" by fastforce
    have "counts_ok (w_db w2)" using counts_UpdateJob [OF u] r d by (simp add: counted_def running_def)
    then show ?thesis using co Inl u by (simp add: recon_compare_def go_defs Now_def)
  next
    case (Inr es)
    then show ?thesis
      using counts_store [of job w1 es] r d co collect_job [OF co [unfolded Inr]] by (simp add: recon_compare_def go_defs)
  qed
qed

lemma counts_run:
  assumes c: "counts_ok (w_db w)" and row: "job_of (w_db w) (rj_ID job) = Some row" "rj_Status (jr_job row) = JobStatusPending"
  shows "counts_ok (w_db (snd (recon_run ev registry job w)))"
proof -
  define j where "j = job \<lparr> rj_Status := JobStatusRunning, rj_StartedAt := Some (w_clock w) \<rparr>"
  have j: "rj_ID j = rj_ID job" "rj_Status j = JobStatusRunning" by (simp_all add: j_def)
  obtain r1 w1 where u: "Recon_UpdateJob j w = (r1, w1)" by fastforce
  have c1: "counts_ok (w_db w1)" by (rule counts_UpdateJob [OF u c]) (simp add: counted_def j(2))
  have "counted (w_db w) (jr_job row)" "rj_ID (jr_job row) = rj_ID job"
    using c row lookup_row_Some [OF row(1)] by (auto simp: counts_ok_def)
  then have zero: "entries_for (w_db w) (rj_ID job) = 0" using row(2) by (simp add: counted_def)
  have "running (rj_ID job) 0 (w_db w1)" if "r1 = Inr ()"
    using UpdateJob_row [of j w w1 row] u row(1) that j zero c1 by (simp add: running_def entries_for_def job_cols_def)
  then have "counts_ok (w_db (snd (recon_compare ev registry j w1)))" if "r1 = Inr ()" using counts_compare that j(1) by simp
  then show ?thesis using u c1 by (cases r1) (simp_all add: recon_run_def bindE_def wrapE_def Now_def reading_def flip: j_def)
qed

lemma GetJob_Inr:
  assumes "Recon_GetJob ev i w = (Inr job, w')"
  obtains row e where "job_of (w_db w) i = Some row" "job = (jr_job row) \<lparr> rj_Error := e \<rparr>" "rj_ID job = i" "w_db w' = w_db w"
proof -
  obtain w1 where w1: "pool_query (\<lambda>d. job_of d i) w = (Inr (job_of (w_db w) i), w1)" "w_db w1 = w_db w"
    using assms by (cases "answer w") (auto simp: Recon_GetJob_def pool_query_def go_defs answer_def split: if_splits)
  moreover from this obtain row where row: "job_of (w_db w) i = Some row" using assms
    by (cases "job_of (w_db w) i") (auto simp: Recon_GetJob_def run)
  moreover obtain e where "job = (jr_job row) \<lparr> rj_Error := e \<rparr>" "w' = w1"
    using assms row w1(1) by (auto simp: Recon_GetJob_def scan_job_def run)
  ultimately show thesis using that lookup_row_Some [OF row] by simp
qed

lemma keeps_counts_reads:
  "keeps (\<lambda>w. w_db w = D) (Recon_GetJob ev i)" "keeps (\<lambda>w. w_db w = D) (Recon_GetEntry ev k)"
  "keeps (\<lambda>w. w_db w = D) (Recon_GetPendingJobs ev n)"
proof -
  have s: "keeps (\<lambda>w. w_db w = D) (scan_rows (scan_job ev m) rows)" for m rows
    by (induction rows) (auto simp: scan_job_def intro!: hoare)
  show "keeps (\<lambda>w. w_db w = D) (Recon_GetJob ev i)" "keeps (\<lambda>w. w_db w = D) (Recon_GetEntry ev k)"
    unfolding Recon_GetJob_def Recon_GetEntry_def pool_query_def scan_job_def scan_entry_def by (intro hoare)+
  show "keeps (\<lambda>w. w_db w = D) (Recon_GetPendingJobs ev n)"
    unfolding Recon_GetPendingJobs_def pool_query_def Let_def by (intro hoare s)
qed

lemma counts_RunJob: "keeps (\<lambda>w. counts_ok (w_db w)) (RunJob ev registry actor i)"
  unfolding keeps_def
proof (intro allI impI)
  fix w :: world assume c: "counts_ok (w_db w)"
  obtain r1 w1 where g: "Recon_GetJob ev i w = (r1, w1)" by fastforce
  have d: "w_db w1 = w_db w" using keepsD [OF keeps_counts_reads(1) refl g] .
  show "counts_ok (w_db (snd (RunJob ev registry actor i w)))"
  proof (cases r1)
    case (Inl e)
    then show ?thesis using g c d by (simp add: RunJob_def bindE_def)
  next
    case (Inr job)
    with g obtain row e where "job_of (w_db w) i = Some row" "job = (jr_job row) \<lparr> rj_Error := e \<rparr>" "rj_ID job = i"
      by (metis GetJob_Inr)
    then have "rj_Status job = JobStatusPending \<Longrightarrow> counts_ok (w_db (snd (recon_run ev registry job w1)))"
      using counts_run [of w1 job row] c d by simp
    then show ?thesis using g Inr c d by (simp add: RunJob_def go_defs)
  qed
qed

lemma counts_CreateJob: "keeps (\<lambda>w. counts_ok (w_db w)) (recon_CreateJob ev g t ps pe x actor)"
proof -
  have "keeps (\<lambda>w. counts_ok (w_db w)) (Recon_CreateJob j)" if "rj_Status j = JobStatusPending" for j
    unfolding Recon_CreateJob_def using that
    by (intro hoare keeps_pool_exec_if) (auto simp: job_insert_ok_def intro!: counts_insert_job)
  then show ?thesis unfolding recon_CreateJob_def Let_def by (intro hoare keeps_any_db [where m = "NewUUID ev"]) simp
qed

lemma counts_ResolveEntry: "keeps (\<lambda>w. counts_ok (w_db w)) (ResolveEntry ev actor i rb n)"
proof -
  have "keeps (\<lambda>w. counts_ok (w_db w)) (Recon_UpdateEntry e)" for e
    unfolding Recon_UpdateEntry_def by (intro hoare keeps_pool_exec_if counts_update_entry)
  then show ?thesis unfolding ResolveEntry_def by (intro hoare keeps_any_db [OF keeps_counts_reads(1)] keeps_any_db [OF keeps_counts_reads(2)])
qed

lemma counts_scheduler: "keeps (\<lambda>w. counts_ok (w_db w)) (scheduler_RunOnce ev registry n)"
  unfolding scheduler_RunOnce_def by (intro hoare counts_RunJob keeps_any_db [OF keeps_counts_reads(3)])

subsection \<open>Properties\<close>

text \<open>The operations, each with the reports the gateways give at that time and the number of statements
  the database answers.\<close>

datatype recon_op =
    OpCreateJob string "uuid option" "int option" "int option" "uuid option" string
  | OpRunJob string uuid
  | OpResolveEntry string uuid string string
  | OpSchedule int

primrec recon_exec :: "env \<Rightarrow> settlement \<Rightarrow> recon_op \<Rightarrow> (world, unit) comp" where
  "recon_exec ev reg (OpCreateJob g t ps pe x actor) = bindE (recon_CreateJob ev g t ps pe x actor) (\<lambda>_. ok ())"
| "recon_exec ev reg (OpRunJob actor i) = RunJob ev reg actor i"
| "recon_exec ev reg (OpResolveEntry actor i rb n) = ResolveEntry ev actor i rb n"
| "recon_exec ev reg (OpSchedule n) = scheduler_RunOnce ev reg n"

fun recon_ops :: "env \<Rightarrow> (nat option \<times> settlement \<times> recon_op) list \<Rightarrow> world \<Rightarrow> world" where
  "recon_ops ev [] w = w"
| "recon_ops ev ((b, reg, op) # ops) w = recon_ops ev ops (snd (recon_exec ev reg op (w \<lparr> w_budget := b \<rparr>)))"

lemma recon_ops_keep:
  assumes "\<And>reg op. keeps (\<lambda>w. I (w_db w)) (recon_exec ev reg op)" "I (w_db w)"
  shows "I (w_db (recon_ops ev ops w))"
  using assms(2)
proof (induction ops arbitrary: w)
  case (Cons x ops)
  obtain b reg op where x: "x = (b, reg, op)" by (metis prod_cases3)
  have "I (w_db (snd (recon_exec ev reg op (w \<lparr> w_budget := b \<rparr>))))"
    using assms(1) [of reg op, unfolded keeps_def] Cons.prems by (auto elim!: allE [of _ "w \<lparr> w_budget := b \<rparr>"])
  then show ?case using Cons.IH x by simp
qed simp

lemma counts_exec: "keeps (\<lambda>w. counts_ok (w_db w)) (recon_exec ev reg op)"
  by (cases op) (auto intro!: hoare counts_CreateJob counts_RunJob counts_ResolveEntry counts_scheduler)

text \<open>C21. Whatever jobs are created, run, scheduled and resolved, and wherever the database stops
  answering in between: the mismatch count of a COMPLETED job is the number of its entries, a PENDING job
  has none, and every entry belongs to a job. The entries are stored before the job is marked, in
  statements of their own, and a job that was started is never started again.\<close>

theorem completed_jobs_count_entries:
  assumes "db_recon_jobs (w_db w) = []" "db_recon_entries (w_db w) = []"
  shows "counts_ok (w_db (recon_ops ev ops w))"
  by (rule recon_ops_keep [OF counts_exec]) (simp add: counts_ok_def assms)

text \<open>A job for one payment whose report has a different amount.\<close>

definition one_line :: "int \<Rightarrow> settlement" where
  "one_line amount g = Some (\<lambda>tenant g from to. Inr \<lparr> sr_GatewayID = g, sr_PeriodStart = from, sr_PeriodEnd = to,
     sr_Entries = [\<lparr> se_TransactionRef = ''ch_1'', se_GatewayStatus = ''succeeded'', se_GatewayAmount = amount,
       se_GatewayFees = None, se_FXRate = None, se_SettledAt = 0 \<rparr>] \<rparr>)"

definition referenced_payment :: Txn where
  "referenced_payment = captured_payment \<lparr> t_GatewayReferenceID := ''ch_1'', t_AttemptedGateway := ''stripe'' \<rparr>"

definition referenced_world :: world where
  "referenced_world = sample_world \<lparr> w_db := sample_db \<lparr> db_transactions := [referenced_payment] \<rparr> \<rparr>"

theorem completed_jobs_count_entries_witness:
  "counts_ok (w_db (recon_ops (sample_env \<lparr> ev_null_string := Inr '''' \<rparr>)
     [(None, one_line 90, OpCreateJob ''stripe'' (Some 7) None None (Some 1) ''ops''), (None, one_line 90, OpRunJob ''ops'' 100)]
     referenced_world))"
  by (rule completed_jobs_count_entries) (simp_all add: referenced_world_def sample_world_def sample_db_def)

text \<open>While a driver refuses to read \<open>NULL\<close> into a string.\<close>

definition never_started :: "db \<Rightarrow> bool" where
  "never_started d \<longleftrightarrow> (\<forall>row \<in> set (db_recon_jobs d). jr_error row = None \<and> rj_Status (jr_job row) = JobStatusPending) \<and>
     db_recon_entries d = []"

lemma GetJob_fails:
  assumes "ev_null_string ev = Inl e" "never_started (w_db w)"
  shows "\<exists>e'. fst (Recon_GetJob ev i w) = Inl e'"
proof (cases "Recon_GetJob ev i w")
  case (Pair r w')
  show ?thesis
  proof (cases r)
    case (Inr job)
    with Pair obtain row where row: "job_of (w_db w) i = Some row" by (metis GetJob_Inr)
    then have "jr_error row = None" using assms(2) lookup_row_Some [OF row] by (simp add: never_started_def)
    then have "Recon_GetJob ev i w \<noteq> (Inr job, w')"
      using row assms(1) by (auto simp: Recon_GetJob_def pool_query_def run scan_job_def scan_string_def answer_def split: if_splits option.splits)
    with Pair Inr show ?thesis by simp
  qed (simp add: Pair)
qed

lemma never_started_exec:
  assumes n: "ev_null_string ev = Inl e"
  shows "keeps (\<lambda>w. never_started (w_db w)) (recon_exec ev reg op)"
proof -
  have create: "keeps (\<lambda>w. never_started (w_db w)) (recon_CreateJob ev g t ps pe x actor)" for g t ps pe x actor
  proof -
    have "keeps (\<lambda>w. never_started (w_db w)) (Recon_CreateJob j)" if "rj_Status j = JobStatusPending" for j
      unfolding Recon_CreateJob_def using that by (intro hoare keeps_pool_exec_if) (auto simp: never_started_def)
    then show ?thesis unfolding recon_CreateJob_def Let_def by (intro hoare keeps_any_db [where m = "NewUUID ev"]) simp
  qed
  have stop: "w_db (snd (bindE (Recon_GetJob ev i) f w)) = w_db w" if "never_started (w_db w)" for i w and f :: "ReconJob \<Rightarrow> (world, unit) comp"
    using GetJob_fails [OF n that, of i] keepsD [OF keeps_counts_reads(1) [of "w_db w" ev i] refl, of "fst (Recon_GetJob ev i w)"]
    by (cases "Recon_GetJob ev i w") (auto simp: bindE_def)
  have job: "keeps (\<lambda>w. never_started (w_db w)) (RunJob ev reg actor i)" for actor i
    unfolding keeps_def RunJob_def using stop by simp
  have entry: "keeps (\<lambda>w. never_started (w_db w)) (ResolveEntry ev actor i rb nt)" for actor i rb nt
  proof -
    have "\<exists>e'. fst (Recon_GetEntry ev i w) = Inl e'" if "never_started (w_db w)" for w
      using that by (simp add: Recon_GetEntry_def pool_query_def answer_def go_defs never_started_def)
    then show ?thesis
      using keepsD [OF keeps_counts_reads(2) [of _ ev i] refl] unfolding keeps_def ResolveEntry_def bindE_def
      by (auto split: prod.splits sum.splits) (metis sum.simps(4) fst_conv)+
  qed
  show ?thesis
    by (cases op) (auto simp: scheduler_RunOnce_def intro!: hoare create job entry keeps_any_db [OF keeps_counts_reads(3)])
qed

text \<open>C22. With a driver that refuses to read \<open>NULL\<close> into a Go string, no reconciliation job ever runs:
  the insert of a job leaves the column \<open>error\<close> \<open>NULL\<close>, and reading the job back is the first thing that
  \<open>RunJob\<close> and the scheduler do. After any sequence of operations all jobs are still PENDING, and there is
  no entry.\<close>

theorem reconciliation_never_runs:
  assumes "ev_null_string ev = Inl e" "db_recon_jobs (w_db w) = []" "db_recon_entries (w_db w) = []"
  shows "(\<forall>row \<in> set (db_recon_jobs (w_db (recon_ops ev ops w))). rj_Status (jr_job row) = JobStatusPending) \<and>
    db_recon_entries (w_db (recon_ops ev ops w)) = []"
proof -
  have "never_started (w_db (recon_ops ev ops w))"
    by (rule recon_ops_keep [OF never_started_exec [OF assms(1)]]) (simp add: never_started_def assms(2,3))
  then show ?thesis by (simp add: never_started_def)
qed

theorem reconciliation_never_runs_witness:
  "list_all (\<lambda>row. rj_Status (jr_job row) = JobStatusPending) (db_recon_jobs (w_db (recon_ops sample_env
     [(None, one_line 90, OpCreateJob ''stripe'' (Some 7) None None (Some 1) ''ops''), (None, one_line 90, OpRunJob ''ops'' 100)]
     referenced_world)))"
  using reconciliation_never_runs [of sample_env "Errorf ''cannot scan NULL into *string''" referenced_world]
  by (simp add: sample_env_def referenced_world_def sample_world_def sample_db_def list_all_iff del: recon_ops.simps)

text \<open>C20. A batch job reports nothing precisely when the books agree: every line of the settlement report
  is for a payment of this tenant, gateway and period, with the same outcome, amount and (where both sides
  give it) fee, and every such payment has a line. It is over all payments of the period, however many
  pages they take, and it changes no table.\<close>

theorem batch_clean_iff:
  assumes "uuid_text_ok ev" "w_budget w = None" "w_tx w = []" "distinct (map t_ID (db_transactions (w_db w)))"
    and "\<forall>t \<in> set (db_transactions (w_db w)). in_batch tenant (rj_GatewayID job) from to t \<longrightarrow> four_digit_years (t_CreatedAt t)"
    and refs: "\<forall>a \<in> set (db_transactions (w_db w)). \<forall>b \<in> set (db_transactions (w_db w)).
      t_GatewayReferenceID a = t_GatewayReferenceID b \<longrightarrow> t_GatewayReferenceID a \<noteq> '''' \<longrightarrow> a = b"
    and fetch: "registry (rj_GatewayID job) = Some fetch" "rj_TenantID job = Some tenant"
      "fetch tenant (rj_GatewayID job) from to = Inr report"
  shows "\<exists>es w'. reconcileBatch ev registry job from to w = (Inr es, w') \<and> w_db w' = w_db w \<and>
    (es = [] \<longleftrightarrow>
      (\<forall>se \<in> set (sr_Entries report). \<exists>t \<in> set (db_transactions (w_db w)). in_batch tenant (rj_GatewayID job) from to t \<and>
         t_GatewayReferenceID t \<noteq> '''' \<and> t_GatewayReferenceID t = se_TransactionRef se \<and> agrees t se) \<and>
      (\<forall>t \<in> set (db_transactions (w_db w)). in_batch tenant (rj_GatewayID job) from to t \<longrightarrow> t_GatewayReferenceID t \<noteq> '''' \<and>
         (\<exists>se \<in> set (sr_Entries report). se_TransactionRef se = t_GatewayReferenceID t)))"
proof -
  define ts where "ts = filter (in_batch tenant (rj_GatewayID job) from to) (db_transactions (w_db w))"
  have load: "batch_payments ev tenant (rj_GatewayID job) from to w = (Inr ts, w)"
    unfolding ts_def by (rule batch_payments_spec [OF assms(1-5)])
  have ref: "internalByRef ts r = Some t \<longleftrightarrow> t \<in> set ts \<and> t_GatewayReferenceID t = r \<and> r \<noteq> ''''" for r t
    by (rule internalByRef_distinct) (use refs in \<open>auto simp: ts_def\<close>)
  obtain matched es n where m: "match_report ev (rj_ID job) ts (sr_Entries report) w = (Inr (matched, es), w \<lparr> w_seq := n \<rparr>)"
      "es = [] \<longleftrightarrow> (\<forall>se \<in> set (sr_Entries report). \<exists>t. internalByRef ts (se_TransactionRef se) = Some t \<and> agrees t se)"
      "set matched = {t_ID t | t. \<exists>se \<in> set (sr_Entries report). internalByRef ts (se_TransactionRef se) = Some t}"
    using match_report_spec [of ev "rj_ID job" ts "sr_Entries report" w] by (elim exE conjE)
  obtain us k where u: "unmatched ev (rj_ID job) matched ts (w \<lparr> w_seq := n \<rparr>) = (Inr us, w \<lparr> w_seq := k \<rparr>)"
      "us = [] \<longleftrightarrow> (\<forall>t \<in> set ts. t_ID t \<in> set matched)"
    using unmatched_spec [of ev "rj_ID job" matched ts "w \<lparr> w_seq := n \<rparr>"] by auto
  have "t_ID t \<in> set matched \<longleftrightarrow> t_GatewayReferenceID t \<noteq> '''' \<and> (\<exists>se \<in> set (sr_Entries report). se_TransactionRef se = t_GatewayReferenceID t)"
    if "t \<in> set ts" for t
  proof -
    have "x = t" if "x \<in> set ts" "t_ID x = t_ID t" for x
      using that \<open>t \<in> set ts\<close> assms(4) by (auto simp: ts_def distinct_map inj_on_def)
    then show ?thesis using that unfolding m(3) ref by (auto, metis)
  qed
  then have "es @ us = [] \<longleftrightarrow>
      (\<forall>se \<in> set (sr_Entries report). \<exists>t \<in> set ts. t_GatewayReferenceID t \<noteq> '''' \<and> t_GatewayReferenceID t = se_TransactionRef se \<and> agrees t se) \<and>
      (\<forall>t \<in> set ts. t_GatewayReferenceID t \<noteq> '''' \<and> (\<exists>se \<in> set (sr_Entries report). se_TransactionRef se = t_GatewayReferenceID t))"
    unfolding append_is_Nil_conv m(2) u(2) ref by (metis (no_types, lifting))
  moreover have "reconcileBatch ev registry job from to w = (Inr (es @ us), w \<lparr> w_seq := k \<rparr>)"
    by (simp add: reconcileBatch_def fetch go_defs load m(1) u(1))
  ultimately show ?thesis unfolding ts_def set_filter by (intro exI [of _ "es @ us"] exI [of _ "w \<lparr> w_seq := k \<rparr>"]) auto
qed

definition stripe_batch :: ReconJob where
  "stripe_batch = \<lparr> rj_ID = 50, rj_GatewayID = ''stripe'', rj_TenantID = Some 7, rj_TransactionID = None, rj_PeriodStart = Some 0,
     rj_PeriodEnd = Some 10, rj_Status = JobStatusRunning, rj_TriggeredBy = ''ops'', rj_Actor = ''ops'', rj_MismatchCount = 0,
     rj_Error = '''', rj_StartedAt = None, rj_CompletedAt = None, rj_CreatedAt = 0 \<rparr>"

theorem batch_clean_iff_witness:
  "\<exists>w'. reconcileBatch unary_env (one_line 100) stripe_batch 0 10 referenced_world = (Inr [], w')"
proof -
  let ?fetch = "the (one_line 100 ''stripe'')"
  have "\<exists>es w'. reconcileBatch unary_env (one_line 100) stripe_batch 0 10 referenced_world = (Inr es, w') \<and>
      w_db w' = w_db referenced_world \<and> (es = [] \<longleftrightarrow> True)"
    using batch_clean_iff [OF unary_env_ok, of referenced_world 7 stripe_batch 0 10 "one_line 100" ?fetch
        "projr (?fetch 7 ''stripe'' 0 10)"]
    by (simp add: referenced_world_def referenced_payment_def sample_defs stripe_batch_def one_line_def in_batch_def
        four_digit_yearsI agrees_def isInternalSuccess_def settledAmountFor_def internal_fees_def)
  then show ?thesis by auto
qed

end
