(* ===== verification/Delivery.thy ===== *)
theory Delivery
  imports Listing
begin

section \<open>Sending notifications and tenant webhooks\<close>

text \<open>
  The two queues that the services fill inside their transactions, and the workers that empty them:
  \<open>ProcessQueue\<close> of \<open>app/notification/service.go\<close> over \<open>postgres/notification.go\<close>, and the worker of
  \<open>jobs/tenant_webhook/job.go\<close> over \<open>postgres/tenant_webhook.go\<close>. A worker claims a batch of rows by
  setting \<open>locked_at\<close> and marks each row with the outcome; the claim expires after five minutes. The
  mail server, the SMS provider, the HTTP client, the template engine and the keyed hash are
  parameters; every message is recorded in \<open>w_sent\<close>, whatever the answer.
\<close>

record Template =
  tp_Name :: string
  tp_Subject :: string
  tp_BodyText :: string
  tp_BodyHTML :: string
  tp_SMSText :: string

record outside =
  os_template :: "string \<Rightarrow> go_error + Template option"
  os_render :: "string \<Rightarrow> (string \<times> json) list \<Rightarrow> string option"
  os_send :: "nat \<Rightarrow> sent_message \<Rightarrow> go_error option"
  os_request :: "string \<Rightarrow> go_error option"
  os_http :: "nat \<Rightarrow> sent_message \<Rightarrow> go_error + int"
  os_hmac :: "json \<Rightarrow> string \<Rightarrow> string"

subsection \<open>Claiming a batch\<close>

text \<open>\<open>UPDATE .. SET locked_at = NOW() FROM (SELECT .. ORDER BY .. LIMIT ..) .. RETURNING ..\<close>, one
  statement: the rows that are due, the oldest first, and the table after it.\<close>

definition claim_rows :: "('r \<Rightarrow> bool) \<Rightarrow> ('r \<Rightarrow> int) \<Rightarrow> nat \<Rightarrow> 'r list \<Rightarrow> 'r list" where
  "claim_rows due order limit rows = take limit (sort_key order (filter due rows))"

definition mark_rows :: "('r \<Rightarrow> uuid) \<Rightarrow> ('r \<Rightarrow> 'r) \<Rightarrow> 'r list \<Rightarrow> 'r list \<Rightarrow> 'r list" where
  "mark_rows key lock batch rows = map (\<lambda>r. if key r \<in> key ` set batch then lock r else r) rows"

definition claim_free :: "int \<Rightarrow> int option \<Rightarrow> bool" where
  "claim_free now locked_at = (case locked_at of None \<Rightarrow> True | Some l \<Rightarrow> l < now - 300 * Second)"

subsection \<open>Notifications (postgres/notification.go)\<close>

abbreviation nr_id :: "NotificationRow \<Rightarrow> uuid" where "nr_id r \<equiv> n_ID (nr_notification r)"

definition notification_due :: "int \<Rightarrow> NotificationRow \<Rightarrow> bool" where
  "notification_due now r \<longleftrightarrow> nr_status r = ''PENDING'' \<and> claim_free now (nr_locked_at r)"

definition scanNotification :: "env \<Rightarrow> NotificationRow \<Rightarrow> (world, Notification) comp" where
  "scanNotification ev r = bindE (lift (scan_string ev (nr_last_error r))) (\<lambda>_. ok (nr_notification r))"

definition ListPendingNotifications :: "env \<Rightarrow> nat \<Rightarrow> (world, Notification list) comp" where
  "ListPendingNotifications ev limit = bindE answer (\<lambda>_. bindE Now (\<lambda>now.
     bindE (reading (\<lambda>w. claim_rows (notification_due now) nr_created_at limit (db_notifications (w_db w)))) (\<lambda>batch.
     bindE (changing (\<lambda>w. w \<lparr> w_db := (w_db w) \<lparr> db_notifications :=
       mark_rows nr_id (\<lambda>r. r \<lparr> nr_locked_at := Some now \<rparr>) batch (db_notifications (w_db w)) \<rparr> \<rparr>)) (\<lambda>_.
     scan_rows (scanNotification ev) batch))))"

definition MarkNotificationSent :: "uuid \<Rightarrow> (world, unit) comp" where
  "MarkNotificationSent i = bindE Now (\<lambda>now. exec_pool (\<lambda>d. d \<lparr> db_notifications := update_row nr_id i
     (\<lambda>r. r \<lparr> nr_status := ''SENT'', nr_sent_at := Some now, nr_locked_at := None \<rparr>) (db_notifications d) \<rparr>))"

definition MarkNotificationFailed :: "uuid \<Rightarrow> string \<Rightarrow> (world, unit) comp" where
  "MarkNotificationFailed i lastError = exec_pool (\<lambda>d. d \<lparr> db_notifications := update_row nr_id i
     (\<lambda>r. r \<lparr> nr_status := (if 5 \<le> nr_attempts r then ''FAILED'' else ''PENDING''), nr_attempts := nr_attempts r + 1,
              nr_last_error := Some lastError, nr_locked_at := None \<rparr>) (db_notifications d) \<rparr>)"

subsection \<open>The notification queue (app/notification/service.go)\<close>

definition renderTmpl :: "outside \<Rightarrow> string \<Rightarrow> (string \<times> json) list \<Rightarrow> string" where
  "renderTmpl os tmplText data = (case os_render os tmplText data of None \<Rightarrow> tmplText | Some s \<Rightarrow> s)"

definition send_out :: "outside \<Rightarrow> sent_message \<Rightarrow> (world, unit) comp" where
  "send_out os m = bindE (reading (\<lambda>w. os_send os (length (w_sent w)) m)) (\<lambda>r.
     bindE (changing (\<lambda>w. w \<lparr> w_sent := w_sent w @ [m] \<rparr>)) (\<lambda>_. case r of None \<Rightarrow> ok () | Some e \<Rightarrow> throw e))"

definition sendNotification :: "outside \<Rightarrow> Notification \<Rightarrow> Template \<Rightarrow> (world, unit) comp" where
  "sendNotification os n tmpl =
    (if n_Channel n = ''EMAIL'' then
       send_out os (SentEmail (n_Recipient n) (renderTmpl os (tp_Subject tmpl) (n_TemplateData n))
         (renderTmpl os (tp_BodyText tmpl) (n_TemplateData n)) (renderTmpl os (tp_BodyHTML tmpl) (n_TemplateData n)))
     else if n_Channel n = ''SMS'' then send_out os (SentSMS (n_Recipient n) (renderTmpl os (tp_SMSText tmpl) (n_TemplateData n)))
     else throw (Errorf ''unsupported channel''))"

definition process_notification :: "outside \<Rightarrow> Notification \<Rightarrow> (world, unit) comp" where
  "process_notification os n = bindE (attempt (bindE answer (\<lambda>_. lift (os_template os (n_TemplateName n))))) (\<lambda>r. case r of
       Inr (Some tmpl) \<Rightarrow> bindE (attempt (sendNotification os n tmpl)) (\<lambda>s. case s of
           Inl e \<Rightarrow> bindE (attempt (MarkNotificationFailed (n_ID n) (err_msg e))) (\<lambda>_. ok ())
         | Inr _ \<Rightarrow> bindE (attempt (MarkNotificationSent (n_ID n))) (\<lambda>_. ok ()))
     | _ \<Rightarrow> ok ())"

definition ProcessQueue :: "env \<Rightarrow> outside \<Rightarrow> (world, unit) comp" where
  "ProcessQueue ev os = bindE (ListPendingNotifications ev 20) (\<lambda>notifs. forE notifs (process_notification os))"

subsection \<open>Tenant webhooks (postgres/tenant_webhook.go, jobs/tenant_webhook/job.go)\<close>

record TenantWebhookWorker =
  tw_maxAttempts :: int
  tw_maxBackoff :: int
  tw_timeout :: int

definition tw_NewWorker :: "int \<Rightarrow> int \<Rightarrow> int \<Rightarrow> TenantWebhookWorker" where
  "tw_NewWorker maxAttempts maxBackoffSec httpTimeoutSec = \<lparr>
     tw_maxAttempts = (if maxAttempts \<le> 0 then 10 else maxAttempts),
     tw_maxBackoff = (let b = wrap64 (maxBackoffSec * Second) in if b \<le> 0 then 30 * Second else b),
     tw_timeout = (let t = wrap64 (httpTimeoutSec * Second) in if t \<le> 0 then 10 * Second else t) \<rparr>"

text \<open>The limit that \<open>MarkFailed\<close> compares with belongs to the updater, 10 unless another one is given.\<close>

definition NewTenantWebhookDeliveryUpdaterWithMaxAttempts :: "int \<Rightarrow> int" where
  "NewTenantWebhookDeliveryUpdaterWithMaxAttempts maxAttempts = (if maxAttempts \<le> 0 then 10 else maxAttempts)"

definition delivery_due :: "int \<Rightarrow> DeliveryRow \<Rightarrow> bool" where
  "delivery_due now r \<longleftrightarrow> dv_status r = ''PENDING'' \<and> dv_next_attempt_at r \<le> now \<and> claim_free now (dv_locked_at r)"

definition ListPending :: "nat \<Rightarrow> (world, DeliveryRow list) comp" where
  "ListPending limit = bindE answer (\<lambda>_. bindE Now (\<lambda>now.
     bindE (reading (\<lambda>w. claim_rows (delivery_due now) dv_next_attempt_at limit (db_tw_deliveries (w_db w)))) (\<lambda>batch.
     bindE (changing (\<lambda>w. w \<lparr> w_db := (w_db w) \<lparr> db_tw_deliveries :=
       mark_rows dv_id (\<lambda>r. r \<lparr> dv_locked_at := Some now \<rparr>) batch (db_tw_deliveries (w_db w)) \<rparr> \<rparr>)) (\<lambda>_. ok batch))))"

definition MarkDelivered :: "uuid \<Rightarrow> (world, unit) comp" where
  "MarkDelivered i = exec_pool (\<lambda>d. d \<lparr> db_tw_deliveries := update_row dv_id i
     (\<lambda>r. r \<lparr> dv_status := ''DELIVERED'', dv_locked_at := None \<rparr>) (db_tw_deliveries d) \<rparr>)"

definition tw_MarkFailed :: "int \<Rightarrow> uuid \<Rightarrow> int \<Rightarrow> string \<Rightarrow> int \<Rightarrow> (world, unit) comp" where
  "tw_MarkFailed maxAttempts i attempts lastError nextAttemptAt = exec_pool (\<lambda>d. d \<lparr> db_tw_deliveries := update_row dv_id i
     (\<lambda>r. r \<lparr> dv_status := (if maxAttempts \<le> attempts then ''FAILED'' else ''PENDING''), dv_attempts := attempts,
              dv_last_error := lastError, dv_next_attempt_at := nextAttemptAt, dv_locked_at := None \<rparr>) (db_tw_deliveries d) \<rparr>)"

definition signPayload :: "outside \<Rightarrow> json \<Rightarrow> string \<Rightarrow> string" where
  "signPayload os payload secret = ''sha256='' @ os_hmac os payload secret"

text \<open>The request of a delivery, and the answer of the endpoint.\<close>

definition webhook_request :: "outside \<Rightarrow> TenantWebhookConfig \<Rightarrow> DeliveryRow \<Rightarrow> sent_message" where
  "webhook_request os cfg r = SentWebhook (dv_id r) (twd_EndpointURL (dv_delivery r)) (twd_EventType (dv_delivery r))
     (twd_Payload (dv_delivery r))
     (if twc_SigningSecret cfg \<noteq> '''' then Some (signPayload os (twd_Payload (dv_delivery r)) (twc_SigningSecret cfg)) else None)"

definition post_webhook :: "outside \<Rightarrow> sent_message \<Rightarrow> (world, go_error + int) comp" where
  "post_webhook os m = bindE (reading (\<lambda>w. os_http os (length (w_sent w)) m)) (\<lambda>r.
     bindE (changing (\<lambda>w. w \<lparr> w_sent := w_sent w @ [m] \<rparr>)) (\<lambda>_. ok r))"

definition deliver :: "env \<Rightarrow> outside \<Rightarrow> int \<Rightarrow> TenantWebhookWorker \<Rightarrow> DeliveryRow \<Rightarrow> (world, unit) comp" where
  "deliver ev os updaterMax wk r =
    (let failed = (\<lambda>msg. bindE Now (\<lambda>now. tw_MarkFailed updaterMax (dv_id r) (dv_attempts r + 1) msg (now + tw_maxBackoff wk)))
     in bindE (attempt (bindE answer (\<lambda>_. lift (ev_tenant_webhook ev (twd_TenantID (dv_delivery r)))))) (\<lambda>c. case c of
          Inl e \<Rightarrow> failed (''get config: '' @ err_msg e)
        | Inr None \<Rightarrow> failed ''webhook config not found or inactive''
        | Inr (Some cfg) \<Rightarrow>
            if \<not> twc_IsActive cfg then failed ''webhook config not found or inactive''
            else (case os_request os (twd_EndpointURL (dv_delivery r)) of
                Some e \<Rightarrow> failed (''build request: '' @ err_msg e)
              | None \<Rightarrow> bindE (post_webhook os (webhook_request os cfg r)) (\<lambda>a. case a of
                    Inl e \<Rightarrow> failed (''http request: '' @ err_msg e)
                  | Inr code \<Rightarrow> if 200 \<le> code \<and> code < 300 then MarkDelivered (dv_id r)
                      else failed (''HTTP '' @ ev_itoa ev code)))))"

definition tw_RunOnce :: "env \<Rightarrow> outside \<Rightarrow> int \<Rightarrow> TenantWebhookWorker \<Rightarrow> (world, unit) comp" where
  "tw_RunOnce ev os updaterMax wk = bindE (wrapE ''list pending deliveries'' (ListPending 20)) (\<lambda>deliveries.
     forE deliveries (\<lambda>r. bindE (attempt (deliver ev os updaterMax wk r)) (\<lambda>_. ok ())))"

subsection \<open>Claims are exclusive\<close>

text \<open>A queue whose rows are claimed by a lock that makes them not due for five minutes.\<close>

locale claim_queue =
  fixes key :: "'r \<Rightarrow> uuid" and due :: "int \<Rightarrow> 'r \<Rightarrow> bool" and lock :: "int \<Rightarrow> 'r \<Rightarrow> 'r" and order :: "'r \<Rightarrow> int"
  assumes key_lock: "key (lock now r) = key r"
    and locked_not_due: "now \<le> now' \<Longrightarrow> now' \<le> now + 300 * Second \<Longrightarrow> \<not> due now' (lock now r)"
begin

lemma mark_keys: "map key (mark_rows key (lock now) batch rows) = map key rows"
  by (simp add: mark_rows_def key_lock)

lemma claim_mem: "r \<in> set (claim_rows (due now) order n rows) \<Longrightarrow> r \<in> set rows \<and> due now r"
  by (auto simp: claim_rows_def dest: in_set_takeD)

lemma claim_distinct: "distinct (map key rows) \<Longrightarrow> distinct (map key (claim_rows (due now) order n rows))"
  by (auto simp: claim_rows_def distinct_map intro!: inj_on_subset [of key "set rows"] dest: in_set_takeD)

lemma not_claimed_twice:
  assumes "now \<le> now'" "now' \<le> now + 300 * Second"
  shows "key ` set batch \<inter> key ` set (claim_rows (due now') order m (mark_rows key (lock now) batch rows)) = {}"
proof -
  have False if "r \<in> set (claim_rows (due now') order m (mark_rows key (lock now) batch rows))" "key r \<in> key ` set batch" for r
  proof -
    from claim_mem [OF that(1)] obtain r0 where "due now' r" "r = (if key r0 \<in> key ` set batch then lock now r0 else r0)"
      unfolding mark_rows_def set_map by blast
    with that(2) locked_not_due [OF assms] show False by (cases "key r0 \<in> key ` set batch") simp_all
  qed
  then have "\<forall>x \<in> key ` set batch. \<forall>r \<in> set (claim_rows (due now') order m (mark_rows key (lock now) batch rows)). x \<noteq> key r"
    by metis
  then show ?thesis by (simp only: disjoint_iff) (metis imageE)
qed

end

interpretation nq: claim_queue nr_id notification_due "\<lambda>now r. r \<lparr> nr_locked_at := Some now \<rparr>" nr_created_at
  by unfold_locales (auto simp: notification_due_def claim_free_def)

interpretation dq: claim_queue dv_id delivery_due "\<lambda>now r. r \<lparr> dv_locked_at := Some now \<rparr>" dv_next_attempt_at
  by unfold_locales (auto simp: delivery_due_def claim_free_def)

lemma ListPending_Inr:
  "ListPending n w = (Inr batch, w') \<longleftrightarrow> w_budget w \<noteq> Some 0 \<and>
     batch = claim_rows (delivery_due (w_clock w)) dv_next_attempt_at n (db_tw_deliveries (w_db w)) \<and>
     w' = w \<lparr> w_budget := map_option (\<lambda>n. n - 1) (w_budget w), w_db := (w_db w) \<lparr> db_tw_deliveries :=
       mark_rows dv_id (\<lambda>r. r \<lparr> dv_locked_at := Some (w_clock w) \<rparr>) batch (db_tw_deliveries (w_db w)) \<rparr> \<rparr>"
  by (auto simp: ListPending_def answer_def Now_def go_defs)

subsection \<open>What a delivery does to its row\<close>

definition delivered_row :: "DeliveryRow \<Rightarrow> DeliveryRow" where
  "delivered_row x = x \<lparr> dv_status := ''DELIVERED'', dv_locked_at := None \<rparr>"

definition failed_row :: "int \<Rightarrow> int \<Rightarrow> string \<Rightarrow> int \<Rightarrow> DeliveryRow \<Rightarrow> DeliveryRow" where
  "failed_row maxAttempts attempts msg next x = x \<lparr> dv_status := (if maxAttempts \<le> attempts then ''FAILED'' else ''PENDING''),
     dv_attempts := attempts, dv_last_error := msg, dv_next_attempt_at := next, dv_locked_at := None \<rparr>"

lemma row_ids [simp]:
  "dv_id (delivered_row x) = dv_id x" "dv_id (failed_row m a s n x) = dv_id x"
  "dv_delivery (delivered_row x) = dv_delivery x" "dv_delivery (failed_row m a s n x) = dv_delivery x"
  by (simp_all add: delivered_row_def failed_row_def)

text \<open>The endpoint has accepted a request for this delivery.\<close>

definition accepted :: "outside \<Rightarrow> sent_message list \<Rightarrow> DeliveryRow \<Rightarrow> bool" where
  "accepted os sent r \<longleftrightarrow> (\<exists>k < length sent. \<exists>sig code. sent ! k = SentWebhook (dv_id r) (twd_EndpointURL (dv_delivery r))
     (twd_EventType (dv_delivery r)) (twd_Payload (dv_delivery r)) sig \<and>
     os_http os k (sent ! k) = Inr code \<and> 200 \<le> code \<and> code < 300)"

text \<open>The deliveries after one attempt: as before, or with the one row marked.\<close>

datatype delivery_effect = Untouched | Accepted | Refused string

primrec apply_effect :: "int \<Rightarrow> int \<Rightarrow> DeliveryRow \<Rightarrow> delivery_effect \<Rightarrow> DeliveryRow list \<Rightarrow> DeliveryRow list" where
  "apply_effect maxAttempts next r Untouched rows = rows"
| "apply_effect maxAttempts next r Accepted rows = update_row dv_id (dv_id r) delivered_row rows"
| "apply_effect maxAttempts next r (Refused msg) rows =
     update_row dv_id (dv_id r) (failed_row maxAttempts (dv_attempts r + 1) msg next) rows"

text \<open>One attempt: the effect on the table, the messages, and what does not change. Only a database that
  does not answer leaves the row untouched.\<close>

definition attempt_spec :: "outside \<Rightarrow> int \<Rightarrow> int \<Rightarrow> DeliveryRow \<Rightarrow> world \<Rightarrow> world \<Rightarrow> bool" where
  "attempt_spec os maxAttempts backoff r w w' \<longleftrightarrow> (\<exists>eff ms.
     db_tw_deliveries (w_db w') = apply_effect maxAttempts (w_clock w + backoff) r eff (db_tw_deliveries (w_db w)) \<and>
     w_sent w' = w_sent w @ ms \<and> w_clock w' = w_clock w \<and>
     (eff = Accepted \<longrightarrow> accepted os (w_sent w') r) \<and>
     (w_budget w = None \<longrightarrow> w_budget w' = None \<and> eff \<noteq> Untouched))"

lemma exec_pool_cases:
  "exec_pool f w = (Inl (Errorf ''postgres: connection lost''), w) \<and> w_budget w = Some 0 \<or>
   (\<exists>b. exec_pool f w = (Inr (), w \<lparr> w_budget := b, w_db := f (w_db w) \<rparr>) \<and> (w_budget w = None \<longrightarrow> b = None))"
  by (auto simp: exec_pool_def answer_def go_defs)

lemma refused_spec:
  assumes "w_sent v = w_sent w @ ms" "w_clock v = w_clock w" "w_db v = w_db w" "w_budget w = None \<longrightarrow> w_budget v = None"
  shows "attempt_spec os m backoff r w (snd (tw_MarkFailed m (dv_id r) (dv_attempts r + 1) msg (w_clock v + backoff) v))"
proof -
  define f where "f = (\<lambda>d :: db. d \<lparr> db_tw_deliveries := update_row dv_id (dv_id r) (failed_row m (dv_attempts r + 1) msg (w_clock v + backoff)) (db_tw_deliveries d) \<rparr>)"
  have f: "tw_MarkFailed m (dv_id r) (dv_attempts r + 1) msg (w_clock v + backoff) = exec_pool f"
    by (simp add: tw_MarkFailed_def f_def failed_row_def [abs_def])
  from exec_pool_cases [of f v] show ?thesis unfolding f
  proof (elim disjE exE conjE)
    assume "exec_pool f v = (Inl (Errorf ''postgres: connection lost''), v)" "w_budget v = Some 0"
    with assms show "attempt_spec os m backoff r w (snd (exec_pool f v))"
      by (auto simp: attempt_spec_def intro!: exI [of _ Untouched])
  next
    fix b assume "exec_pool f v = (Inr (), v \<lparr> w_budget := b, w_db := f (w_db v) \<rparr>)" "w_budget v = None \<longrightarrow> b = None"
    with assms show "attempt_spec os m backoff r w (snd (exec_pool f v))"
      by (auto simp: attempt_spec_def f_def intro!: exI [of _ "Refused msg"])
  qed
qed

lemma accepted_spec:
  assumes "w_sent v = w_sent w @ ms" "w_clock v = w_clock w" "w_db v = w_db w" "w_budget w = None \<longrightarrow> w_budget v = None"
    and "accepted os (w_sent v) r"
  shows "attempt_spec os m backoff r w (snd (MarkDelivered (dv_id r) v))"
proof -
  define f where "f = (\<lambda>d :: db. d \<lparr> db_tw_deliveries := update_row dv_id (dv_id r) delivered_row (db_tw_deliveries d) \<rparr>)"
  have f: "MarkDelivered (dv_id r) = exec_pool f" by (simp add: MarkDelivered_def f_def delivered_row_def [abs_def])
  from exec_pool_cases [of f v] show ?thesis unfolding f
  proof (elim disjE exE conjE)
    assume "exec_pool f v = (Inl (Errorf ''postgres: connection lost''), v)" "w_budget v = Some 0"
    with assms show "attempt_spec os m backoff r w (snd (exec_pool f v))"
      by (auto simp: attempt_spec_def intro!: exI [of _ Untouched])
  next
    fix b assume "exec_pool f v = (Inr (), v \<lparr> w_budget := b, w_db := f (w_db v) \<rparr>)" "w_budget v = None \<longrightarrow> b = None"
    with assms show "attempt_spec os m backoff r w (snd (exec_pool f v))"
      by (auto simp: attempt_spec_def f_def intro!: exI [of _ Accepted])
  qed
qed

lemma deliver_spec: "attempt_spec os m (tw_maxBackoff wk) r w (snd (deliver ev os m wk r w))"
proof -
  define failed where "failed = (\<lambda>msg. bindE Now (\<lambda>now. tw_MarkFailed m (dv_id r) (dv_attempts r + 1) msg (now + tw_maxBackoff wk)))"
  have failed: "attempt_spec os m (tw_maxBackoff wk) r w (snd (failed msg v))"
    if "w_sent v = w_sent w @ ms" "w_clock v = w_clock w" "w_db v = w_db w" "w_budget w = None \<longrightarrow> w_budget v = None" for msg v ms
    using refused_spec [OF that] by (simp add: failed_def Now_def bindE_def reading_def)
  define v where "v = snd (answer w)"
  have v: "w_sent v = w_sent w" "w_clock v = w_clock w" "w_db v = w_db w" "w_budget w = None \<longrightarrow> w_budget v = None"
    by (auto simp: v_def answer_def)
  obtain c where c: "attempt (bindE answer (\<lambda>_. lift (ev_tenant_webhook ev (twd_TenantID (dv_delivery r))))) w = (Inr c, v)"
    by (cases "answer w"; cases "fst (answer w)") (auto simp: v_def go_defs)
  note f0 = failed [of v "[]"]
  show ?thesis
  proof (cases "\<exists>cfg. c = Inr (Some cfg) \<and> twc_IsActive cfg \<and> os_request os (twd_EndpointURL (dv_delivery r)) = None")
    case False
    then show ?thesis using f0 v
      by (auto simp: deliver_def Let_def failed_def [symmetric] bindE_def c split: sum.split option.split)
  next
    case True
    then obtain cfg where cfg: "c = Inr (Some cfg)" "twc_IsActive cfg" "os_request os (twd_EndpointURL (dv_delivery r)) = None" by blast
    define q where "q = webhook_request os cfg r"
    define u where "u = v \<lparr> w_sent := w_sent v @ [q] \<rparr>"
    have post: "post_webhook os q v = (Inr (os_http os (length (w_sent v)) q), u)" by (simp add: post_webhook_def go_defs u_def)
    have u: "w_sent u = w_sent w @ [q]" "w_clock u = w_clock w" "w_db u = w_db w" "w_budget w = None \<longrightarrow> w_budget u = None"
      using v by (simp_all add: u_def)
    have acc: "accepted os (w_sent u) r" if "os_http os (length (w_sent v)) q = Inr code" "200 \<le> code" "code < 300" for code
      unfolding accepted_def using that v(1) by (intro exI [of _ "length (w_sent w)"]) (auto simp: u_def q_def webhook_request_def)
    show ?thesis
      using failed [OF u] accepted_spec [OF u acc]
      by (auto simp: deliver_def Let_def failed_def [symmetric] bindE_def c cfg q_def [symmetric] post split: sum.split)
  qed
qed

subsection \<open>A round of the worker\<close>

text \<open>The deliveries of a batch, one after the other.\<close>

lemma forE_rest:
  assumes step: "\<And>r rs v. I (r # rs) v \<Longrightarrow> I rs (snd (body r v))" and "I rs w"
  shows "I [] (snd (forE rs (\<lambda>r. bindE (attempt (body r)) (\<lambda>_. ok ())) w))"
  using assms(2)
proof (induction rs arbitrary: w)
  case (Cons r rs)
  obtain x v where v: "body r w = (x, v)" by fastforce
  then have "I rs v" using step [OF Cons.prems] by simp
  from Cons.IH [OF this] show ?case by (simp add: bindE_def [of "bindE _ _"] bindE_def [of "attempt (body r)"] attempt_def [of "body r"] v ok_def [of "()"])
qed (simp add: ok_def)

text \<open>DELIVERED deliveries were accepted; what is in hand is what the table has.\<close>

definition delivered_ok :: "outside \<Rightarrow> world \<Rightarrow> bool" where
  "delivered_ok os w \<longleftrightarrow> (\<forall>r \<in> set (db_tw_deliveries (w_db w)). dv_status r = ''DELIVERED'' \<longrightarrow> accepted os (w_sent w) r)"

definition in_hand :: "DeliveryRow \<Rightarrow> world \<Rightarrow> bool" where
  "in_hand r w \<longleftrightarrow> (\<forall>x \<in> set (db_tw_deliveries (w_db w)). dv_id x = dv_id r \<longrightarrow> dv_delivery x = dv_delivery r)"

lemma accepted_more: "accepted os sent r \<Longrightarrow> accepted os (sent @ ms) r"
  unfolding accepted_def by (metis length_append nth_append trans_less_add1)

lemma accepted_cong: "dv_id x = dv_id r \<Longrightarrow> dv_delivery x = dv_delivery r \<Longrightarrow> accepted os sent x = accepted os sent r"
  by (simp add: accepted_def)

lemma accepted_lock [simp]: "accepted os sent (x \<lparr> dv_locked_at := l \<rparr>) = accepted os sent x"
  by (simp add: accepted_def)

lemma attempt_keeps:
  assumes "attempt_spec os m b r w w'" "delivered_ok os w" "in_hand r w"
  shows "delivered_ok os w'" "in_hand q w \<Longrightarrow> in_hand q w'"
proof -
  from assms(1) obtain eff ms where
    rows: "db_tw_deliveries (w_db w') = apply_effect m (w_clock w + b) r eff (db_tw_deliveries (w_db w))"
    and sent: "w_sent w' = w_sent w @ ms" and acc: "eff = Accepted \<Longrightarrow> accepted os (w_sent w') r"
    by (auto simp: attempt_spec_def)
  have "dv_status x = ''DELIVERED'' \<longrightarrow> accepted os (w_sent w') x" if x: "x \<in> set (db_tw_deliveries (w_db w'))" for x
  proof -
    have old: "dv_status y = ''DELIVERED'' \<longrightarrow> accepted os (w_sent w') y" if "y \<in> set (db_tw_deliveries (w_db w))" for y
      using assms(2) that accepted_more sent by (auto simp: delivered_ok_def)
    have hand: "accepted os (w_sent w') (delivered_row y)"
      if "y \<in> set (db_tw_deliveries (w_db w))" "dv_id y = dv_id r" "eff = Accepted" for y
      using acc [OF that(3)] assms(3) that accepted_cong [of "delivered_row y" r] by (simp add: in_hand_def)
    show ?thesis using x old hand unfolding rows by (cases eff) (auto simp: update_row_def failed_row_def split: if_splits)
  qed
  then show "delivered_ok os w'" by (simp add: delivered_ok_def)
  show "in_hand q w \<Longrightarrow> in_hand q w'" unfolding in_hand_def rows by (cases eff) (auto simp: update_row_def)
qed

lemma round_invariant:
  assumes step: "\<And>r rs v. I (r # rs) v \<Longrightarrow> I rs (snd (deliver ev os m wk r v))"
    and fail: "w_budget w = Some 0 \<Longrightarrow> I [] w"
    and claim: "\<And>batch w'. ListPending 20 w = (Inr batch, w') \<Longrightarrow> I batch w'"
  shows "I [] (snd (tw_RunOnce ev os m wk w))"
proof (cases "w_budget w = Some 0")
  case True
  then have "snd (tw_RunOnce ev os m wk w) = w" by (simp add: tw_RunOnce_def ListPending_def answer_def go_defs)
  with fail True show ?thesis by simp
next
  case False
  then obtain batch w' where l: "ListPending 20 w = (Inr batch, w')" using ListPending_Inr by blast
  have "I [] (snd (forE batch (\<lambda>r. bindE (attempt (deliver ev os m wk r)) (\<lambda>_. ok ())) w'))"
    by (rule forE_rest [where I = I, OF step claim [OF l]])
  with l show ?thesis by (simp add: tw_RunOnce_def bindE_def [of "wrapE _ _"] wrapE_def)
qed

lemma round_delivered_ok:
  assumes "distinct (map dv_id (db_tw_deliveries (w_db w)))" "delivered_ok os w"
  shows "delivered_ok os (snd (tw_RunOnce ev os m wk w))"
proof -
  define I where "I rs v \<longleftrightarrow> delivered_ok os v \<and> (\<forall>r \<in> set rs. in_hand r v)" for rs v
  have "I [] (snd (tw_RunOnce ev os m wk w))"
  proof (rule round_invariant)
    show "I rs (snd (deliver ev os m wk r v))" if "I (r # rs) v" for r rs v
      using attempt_keeps [OF deliver_spec, of os v r] that by (auto simp: I_def)
    show "I [] w" using assms(2) by (simp add: I_def)
    fix batch w' assume l: "ListPending 20 w = (Inr batch, w')"
    then have b: "batch = claim_rows (delivery_due (w_clock w)) dv_next_attempt_at 20 (db_tw_deliveries (w_db w))"
      and rows: "db_tw_deliveries (w_db w') = mark_rows dv_id (\<lambda>r. r \<lparr> dv_locked_at := Some (w_clock w) \<rparr>) batch (db_tw_deliveries (w_db w))"
      and s: "w_sent w' = w_sent w" by (simp_all add: ListPending_Inr)
    have "in_hand r w'" if "r \<in> set batch" for r
    proof -
      have "r \<in> set (db_tw_deliveries (w_db w))" using that dq.claim_mem unfolding b by blast
      then have "dv_delivery x = dv_delivery r" if "x \<in> set (db_tw_deliveries (w_db w))" "dv_id x = dv_id r" for x
        using assms(1) that by (auto simp: distinct_map dest: inj_onD)
      then show ?thesis unfolding in_hand_def rows mark_rows_def by auto
    qed
    moreover have "delivered_ok os w'"
      using assms(2) unfolding delivered_ok_def rows mark_rows_def s by auto
    ultimately show "I batch w'" by (simp add: I_def)
  qed
  then show ?thesis by (simp add: I_def)
qed

subsection \<open>Deliveries come to an end\<close>

text \<open>The attempts a delivery has left.\<close>

definition attempts_left :: "int \<Rightarrow> DeliveryRow \<Rightarrow> nat" where
  "attempts_left m r = (if dv_status r = ''PENDING'' then max 1 (nat (m - dv_attempts r)) else 0)"

definition total_left :: "int \<Rightarrow> world \<Rightarrow> nat" where
  "total_left m w = sum_list (map (attempts_left m) (db_tw_deliveries (w_db w)))"

lemma update_sum_less:
  assumes "distinct (map key rows)" "x \<in> set rows" "\<And>y. key (f y) = key y" "(g (f x) :: nat) < g x"
  shows "sum_list (map g (update_row key (key x) f rows)) < sum_list (map g rows)"
  using assms(1,2)
proof (induction rows)
  case (Cons y ys)
  show ?case
  proof (cases "key y = key x")
    case True
    with Cons.prems have "y = x" by (metis distinct.simps(2) image_eqI list.set_map list.simps(9) set_ConsD)
    moreover have "key x \<notin> key ` set ys" using Cons.prems True by simp
    ultimately show ?thesis using assms(4) by (simp add: update_row_absent)
  next
    case False
    then show ?thesis using Cons by auto
  qed
qed simp

lemma effect_left:
  assumes "eff \<noteq> Untouched" "dv_status x = ''PENDING''" "dv_attempts x = dv_attempts r" "dv_id x = dv_id r"
    and "distinct (map dv_id rows)" "x \<in> set rows"
  shows "sum_list (map (attempts_left m) (apply_effect m nxt r eff rows)) < sum_list (map (attempts_left m) rows)"
proof (cases eff)
  case Accepted
  have "attempts_left m (delivered_row x) < attempts_left m x" using assms(2) by (simp add: attempts_left_def delivered_row_def)
  with update_sum_less [OF assms(5,6), of delivered_row] assms(4) Accepted show ?thesis by simp
next
  case (Refused msg)
  have "attempts_left m (failed_row m (dv_attempts r + 1) msg nxt x) < attempts_left m x"
    using assms(2,3) by (simp add: attempts_left_def failed_row_def)
  with update_sum_less [OF assms(5,6), of "failed_row m (dv_attempts r + 1) msg nxt"] assms(4) Refused show ?thesis by simp
qed (use assms(1) in simp)

text \<open>In the middle of a round at time \<open>t\<close> with \<open>rs\<close> still to come.\<close>

definition mid_round :: "int \<Rightarrow> int \<Rightarrow> int \<Rightarrow> nat \<Rightarrow> DeliveryRow list \<Rightarrow> world \<Rightarrow> bool" where
  "mid_round m t b budget rs w \<longleftrightarrow> w_budget w = None \<and> w_clock w = t \<and> distinct (map dv_id (db_tw_deliveries (w_db w))) \<and>
     distinct (map dv_id rs) \<and> total_left m w \<le> budget + length rs \<and>
     (\<forall>r \<in> set rs. \<exists>x \<in> set (db_tw_deliveries (w_db w)). dv_id x = dv_id r \<and> dv_status x = ''PENDING'' \<and> dv_attempts x = dv_attempts r) \<and>
     (\<forall>x \<in> set (db_tw_deliveries (w_db w)). dv_status x = ''PENDING'' \<longrightarrow> dv_next_attempt_at x \<le> t + b \<and>
        (claim_free t (dv_locked_at x) \<or> dv_id x \<in> dv_id ` set rs))"

lemma apply_effect_keys: "map dv_id (apply_effect m nxt r eff rows) = map dv_id rows"
  by (cases eff) simp_all

text \<open>Each row after an attempt: the old one, or the marked one, which is free and due again in time.\<close>

lemma apply_effect_mem:
  assumes "x \<in> set (apply_effect m nxt r eff rows)" "eff \<noteq> Untouched"
  shows "x \<in> set rows \<and> dv_id x \<noteq> dv_id r \<or>
    dv_id x = dv_id r \<and> dv_locked_at x = None \<and> (dv_status x = ''PENDING'' \<longrightarrow> dv_next_attempt_at x = nxt)"
  using assms by (cases eff) (auto simp: update_row_def delivered_row_def failed_row_def split: if_splits)

lemma apply_effect_other: "x \<in> set rows \<Longrightarrow> dv_id x \<noteq> dv_id r \<Longrightarrow> x \<in> set (apply_effect m nxt r eff rows)"
  by (cases eff) (force simp: update_row_def)+

lemma mid_round_step:
  assumes mid: "mid_round m t (tw_maxBackoff wk) n (r # rs) w"
  shows "mid_round m t (tw_maxBackoff wk) n rs (snd (deliver ev os m wk r w))" (is "mid_round _ _ ?b _ _ ?w'")
proof -
  let ?rows = "db_tw_deliveries (w_db w)"
  have w: "w_budget w = None" "w_clock w = t" using mid by (simp_all add: mid_round_def)
  from deliver_spec [of os m wk r w ev] w obtain eff where
    rows: "db_tw_deliveries (w_db ?w') = apply_effect m (t + ?b) r eff ?rows" and eff: "eff \<noteq> Untouched"
    and w': "w_clock ?w' = t" "w_budget ?w' = None" by (auto simp: attempt_spec_def)
  obtain x where x: "x \<in> set ?rows" "dv_id x = dv_id r" "dv_status x = ''PENDING''" "dv_attempts x = dv_attempts r"
    using mid by (auto simp: mid_round_def)
  have "total_left m ?w' < total_left m w"
    unfolding total_left_def rows by (rule effect_left [OF eff x(3,4,2) _ x(1)]) (use mid in \<open>simp add: mid_round_def\<close>)
  then have "total_left m ?w' \<le> n + length rs" using mid by (simp add: mid_round_def)
  moreover have "\<exists>y \<in> set (db_tw_deliveries (w_db ?w')). dv_id y = dv_id q \<and> dv_status y = ''PENDING'' \<and> dv_attempts y = dv_attempts q"
    if "q \<in> set rs" for q
  proof -
    obtain y where y: "y \<in> set ?rows" "dv_id y = dv_id q" "dv_status y = ''PENDING''" "dv_attempts y = dv_attempts q"
      using mid \<open>q \<in> set rs\<close> by (auto simp: mid_round_def)
    have "dv_id r \<notin> dv_id ` set rs" using mid by (simp add: mid_round_def)
    then have "dv_id q \<noteq> dv_id r" using \<open>q \<in> set rs\<close> by (metis imageI)
    with y apply_effect_other show ?thesis unfolding rows by metis
  qed
  moreover have "dv_next_attempt_at y \<le> t + ?b \<and> (claim_free t (dv_locked_at y) \<or> dv_id y \<in> dv_id ` set rs)"
    if "y \<in> set (db_tw_deliveries (w_db ?w'))" "dv_status y = ''PENDING''" for y
    using apply_effect_mem [OF that(1) [unfolded rows] eff] that(2) mid by (auto simp: mid_round_def claim_free_def)
  ultimately show ?thesis using mid w' by (simp add: mid_round_def rows apply_effect_keys)
qed

text \<open>Every delivery that is waiting is due.\<close>

definition all_due :: "int \<Rightarrow> world \<Rightarrow> bool" where
  "all_due t w \<longleftrightarrow> (\<forall>x \<in> set (db_tw_deliveries (w_db w)). dv_status x = ''PENDING'' \<longrightarrow> delivery_due t x)"

lemma left_zero: "total_left m w = 0 \<longleftrightarrow> (\<forall>r \<in> set (db_tw_deliveries (w_db w)). dv_status r \<noteq> ''PENDING'')"
proof -
  have "attempts_left m r = 0 \<longleftrightarrow> dv_status r \<noteq> ''PENDING''" for r by (simp add: attempts_left_def)
  then show ?thesis by (simp add: total_left_def)
qed

lemma claim_length: "length (claim_rows due order n rows) = min n (length (filter due rows))"
  by (simp add: claim_rows_def min.commute)

lemma left_lock [simp]: "attempts_left m (x \<lparr> dv_locked_at := l \<rparr>) = attempts_left m x"
  by (simp add: attempts_left_def)

lemma mid_round_claim:
  assumes "w_budget w = None" "distinct (map dv_id (db_tw_deliveries (w_db w)))" "all_due (w_clock w) w" "0 \<le> b"
    and l: "ListPending 20 w = (Inr batch, w')"
  shows "mid_round m (w_clock w) b (total_left m w - length batch) batch w'"
proof -
  let ?rows = "db_tw_deliveries (w_db w)"
  from l have b: "batch = claim_rows (delivery_due (w_clock w)) dv_next_attempt_at 20 ?rows"
    and rows: "db_tw_deliveries (w_db w') = mark_rows dv_id (\<lambda>r. r \<lparr> dv_locked_at := Some (w_clock w) \<rparr>) batch ?rows"
    and w': "w_budget w' = None" "w_clock w' = w_clock w" using assms(1) by (simp_all add: ListPending_Inr)
  have "map (attempts_left m) (db_tw_deliveries (w_db w')) = map (attempts_left m) ?rows" unfolding rows mark_rows_def by simp
  then have "total_left m w' = total_left m w" by (simp add: total_left_def)
  moreover have "\<exists>x \<in> set (db_tw_deliveries (w_db w')). dv_id x = dv_id r \<and> dv_status x = ''PENDING'' \<and> dv_attempts x = dv_attempts r"
    if "r \<in> set batch" for r
  proof -
    have "r \<in> set ?rows" "dv_status r = ''PENDING''" using dq.claim_mem that unfolding b by (blast, force simp: delivery_due_def)
    then show ?thesis using that unfolding rows mark_rows_def by (intro bexI [of _ "r \<lparr> dv_locked_at := Some (w_clock w) \<rparr>"]) force+
  qed
  moreover have "dv_next_attempt_at x \<le> w_clock w + b \<and> (claim_free (w_clock w) (dv_locked_at x) \<or> dv_id x \<in> dv_id ` set batch)"
    if x: "x \<in> set (db_tw_deliveries (w_db w'))" "dv_status x = ''PENDING''" for x
  proof -
    obtain y where y: "y \<in> set ?rows" "x = (if dv_id y \<in> dv_id ` set batch then y \<lparr> dv_locked_at := Some (w_clock w) \<rparr> else y)"
      using x(1) unfolding rows mark_rows_def set_map by blast
    then have "dv_status y = ''PENDING''" using x(2) by (auto split: if_splits)
    then have "delivery_due (w_clock w) y" using assms(3) y(1) by (simp add: all_due_def)
    then have "dv_next_attempt_at y \<le> w_clock w" "claim_free (w_clock w) (dv_locked_at y)" by (simp_all add: delivery_due_def)
    then show ?thesis using y(2) assms(4) by (cases "dv_id y \<in> dv_id ` set batch") simp_all
  qed
  moreover have "distinct (map dv_id batch)" unfolding b by (rule dq.claim_distinct [OF assms(2)])
  ultimately show ?thesis using assms(2) w' by (simp add: mid_round_def rows dq.mark_keys)
qed

lemma round_progress:
  fixes w ev os wk m
  defines "w' \<equiv> snd (tw_RunOnce ev os m wk w)"
  assumes "w_budget w = None" "distinct (map dv_id (db_tw_deliveries (w_db w)))" "all_due (w_clock w) w" "0 \<le> tw_maxBackoff wk"
  shows "w_budget w' = None" "distinct (map dv_id (db_tw_deliveries (w_db w')))" "total_left m w' \<le> total_left m w - 1"
    and "w_clock w + tw_maxBackoff wk \<le> t \<Longrightarrow> all_due t w'"
proof -
  obtain batch v where l: "ListPending 20 w = (Inr batch, v)" using assms(2) ListPending_Inr by fastforce
  have "mid_round m (w_clock w) (tw_maxBackoff wk) (total_left m w - length batch) [] w'"
    unfolding w'_def
  proof (rule round_invariant [where I = "mid_round m (w_clock w) (tw_maxBackoff wk) (total_left m w - length batch)"])
    show "mid_round m (w_clock w) (tw_maxBackoff wk) (total_left m w - length batch) bt v'" if "ListPending 20 w = (Inr bt, v')" for bt v'
      using mid_round_claim [OF assms(2-5) that, of m] l that by simp
  qed (use assms(2) mid_round_step in auto)
  note mid = this [unfolded mid_round_def]
  then show "w_budget w' = None" "distinct (map dv_id (db_tw_deliveries (w_db w')))" by simp_all
  have "total_left m w = 0" if "batch = []"
  proof -
    have "filter (delivery_due (w_clock w)) (db_tw_deliveries (w_db w)) = []"
      using l that claim_length [of "delivery_due (w_clock w)" dv_next_attempt_at 20 "db_tw_deliveries (w_db w)"]
      by (simp add: ListPending_Inr min_def split: if_splits)
    then have "\<forall>x \<in> set (db_tw_deliveries (w_db w)). dv_status x \<noteq> ''PENDING''"
      using assms(4) by (auto simp: all_due_def filter_empty_conv)
    then show ?thesis by (simp only: left_zero)
  qed
  then show "total_left m w' \<le> total_left m w - 1" using mid by (cases batch) auto
  show "all_due t w'" if "w_clock w + tw_maxBackoff wk \<le> t"
    using mid that assms(5) by (fastforce simp: all_due_def delivery_due_def claim_free_def split: option.splits)
qed

subsection \<open>The notification queue with a driver that refuses \<open>NULL\<close>\<close>

definition unsent :: "world \<Rightarrow> bool" where
  "unsent w \<longleftrightarrow> w_tx w = [] \<and> (\<forall>r \<in> set (db_notifications (w_db w)). nr_last_error r = None \<and> nr_status r = ''PENDING'')"

lemma unsent_ProcessQueue:
  assumes "ev_null_string ev = Inl e" "unsent w"
  shows "unsent (snd (ProcessQueue ev os w))" "w_sent (snd (ProcessQueue ev os w)) = w_sent w"
proof -
  define batch where "batch = claim_rows (notification_due (w_clock w)) nr_created_at 20 (db_notifications (w_db w))"
  define v where "v = w \<lparr> w_budget := map_option (\<lambda>n. n - 1) (w_budget w), w_db := (w_db w) \<lparr> db_notifications :=
    mark_rows nr_id (\<lambda>r. r \<lparr> nr_locked_at := Some (w_clock w) \<rparr>) batch (db_notifications (w_db w)) \<rparr> \<rparr>"
  have "unsent v" using assms(2) by (auto simp: unsent_def v_def mark_rows_def)
  moreover have "ListPendingNotifications ev 20 w = scan_rows (scanNotification ev) batch v" if "w_budget w \<noteq> Some 0"
    using that by (simp add: ListPendingNotifications_def answer_def Now_def go_defs batch_def v_def)
  moreover have "nr_last_error r = None" if "r \<in> set batch" for r
    using nq.claim_mem assms(2) that unfolding batch_def by (force simp: unsent_def)
  then have "snd (bindE (scan_rows (scanNotification ev) batch) (\<lambda>ns. forE ns (process_notification os)) v) = v"
    using assms(1) by (cases batch) (simp_all add: scanNotification_def scan_string_def go_defs)
  ultimately have "snd (ProcessQueue ev os w) = v" if "w_budget w \<noteq> Some 0"
    using that by (simp add: ProcessQueue_def bindE_def)
  moreover have "snd (ProcessQueue ev os w) = w" if "w_budget w = Some 0"
    using that by (simp add: ProcessQueue_def ListPendingNotifications_def answer_def go_defs)
  ultimately have r: "snd (ProcessQueue ev os w) \<in> {v, w}" by blast
  have "w_sent v = w_sent w" by (simp add: v_def)
  then show "unsent (snd (ProcessQueue ev os w))" "w_sent (snd (ProcessQueue ev os w)) = w_sent w"
    using r assms(2) \<open>unsent v\<close> by auto
qed

lemma unsent_Insert:
  fixes w n
  defines "v \<equiv> snd (WithinTx (Notification_Insert n) w)"
  assumes "unsent w"
  shows "unsent v" "w_sent v = w_sent w"
proof -
  have tx: "w_tx w = []" using assms by (simp add: unsent_def)
  define row where "row = \<lparr> nr_notification = n, nr_status = ''PENDING'', nr_attempts = 0, nr_last_error = None, nr_sent_at = None,
    nr_created_at = w_clock w, nr_locked_at = None \<rparr>"
  have "w_tx v = [] \<and> w_sent v = w_sent w \<and> (w_db v = w_db w \<or> w_db v = (w_db w) \<lparr> db_notifications := db_notifications (w_db w) @ [row] \<rparr>)"
    using tx unfolding v_def row_def
    by (simp add: WithinTx_def begin_tx_def Notification_Insert_def txFromContext_def exec_def stmt_def aborted_def answer_def put_db_def
        commit_tx_def rollback_def cur_db_def Now_def go_defs)
  then show "unsent v" "w_sent v = w_sent w" using assms by (auto simp: unsent_def row_def)
qed

text \<open>A service queues a notification, or the processor runs; the database answers a given number of
  statements.\<close>

datatype queue_op = OpQueue Notification | OpProcess int

fun queue_ops :: "env \<Rightarrow> outside \<Rightarrow> (nat option \<times> queue_op) list \<Rightarrow> world \<Rightarrow> world" where
  "queue_ops ev os [] w = w"
| "queue_ops ev os ((b, OpQueue n) # ops) w = queue_ops ev os ops (snd (WithinTx (Notification_Insert n) (w \<lparr> w_budget := b \<rparr>)))"
| "queue_ops ev os ((b, OpProcess t) # ops) w = queue_ops ev os ops (snd (ProcessQueue ev os (w \<lparr> w_budget := b, w_clock := t \<rparr>)))"

subsection \<open>Properties\<close>

text \<open>C25. The webhook worker marks a delivery DELIVERED only when the tenant's endpoint has answered a
  request with its identifier, address, event and payload with a 2xx status: this is kept by every round,
  wherever the database stops answering.\<close>

theorem delivered_only_if_accepted:
  assumes "distinct (map dv_id (db_tw_deliveries (w_db w)))" "delivered_ok os w"
  shows "delivered_ok os (snd (tw_RunOnce ev os m wk w))"
  using assms by (rule round_delivered_ok)

text \<open>A delivery that waits, and an endpoint that answers with a server error.\<close>

definition sample_delivery :: DeliveryRow where
  "sample_delivery = \<lparr> dv_id = 5, dv_delivery = \<lparr> twd_TenantID = 7, twd_TransactionID = 1, twd_EventType = ''PAYMENT_CAPTURED'',
     twd_Payload = JObj [], twd_EndpointURL = ''https://tenant.example/hook'' \<rparr>, dv_status = ''PENDING'', dv_attempts = 0,
     dv_last_error = '''', dv_next_attempt_at = 0, dv_locked_at = None \<rparr>"

definition sample_outside :: outside where
  "sample_outside = \<lparr> os_template = (\<lambda>_. Inr None), os_render = (\<lambda>_ _. None), os_send = (\<lambda>_ _. None), os_request = (\<lambda>_. None),
     os_http = (\<lambda>_ _. Inr 503), os_hmac = (\<lambda>_ _. '''') \<rparr>"

definition delivery_world :: world where
  "delivery_world = sample_world \<lparr> w_db := sample_db \<lparr> db_tw_deliveries := [sample_delivery] \<rparr> \<rparr>"

text \<open>An endpoint that accepts it.\<close>

definition accepting_env :: env where
  "accepting_env = sample_env \<lparr> ev_tenant_webhook := (\<lambda>_. Inr (Some \<lparr> twc_EndpointURL = ''https://tenant.example/hook'',
     twc_SigningSecret = ''s3cret'', twc_IsActive = True \<rparr>)) \<rparr>"

definition accepting_outside :: outside where
  "accepting_outside = sample_outside \<lparr> os_http := (\<lambda>_ _. Inr 204) \<rparr>"

lemma accepted_round:
  "map dv_status (db_tw_deliveries (w_db (snd (tw_RunOnce accepting_env accepting_outside 10 (tw_NewWorker 10 30 10) delivery_world))))
     = [''DELIVERED'']"
  by (simp add: tw_RunOnce_def ListPending_def bindE_def wrapE_def answer_def Now_def reading_def changing_def ok_def claim_rows_def mark_rows_def
      delivery_world_def sample_world_def sample_delivery_def delivery_due_def claim_free_def deliver_def attempt_def lift_def
      accepting_env_def accepting_outside_def sample_outside_def post_webhook_def MarkDelivered_def exec_pool_def Let_def)

theorem delivered_only_if_accepted_witness:
  "let w' = snd (tw_RunOnce accepting_env accepting_outside 10 (tw_NewWorker 10 30 10) delivery_world)
   in map dv_status (db_tw_deliveries (w_db w')) = [''DELIVERED''] \<and>
      accepted accepting_outside (w_sent w') (hd (db_tw_deliveries (w_db w')))"
proof -
  let ?w = "snd (tw_RunOnce accepting_env accepting_outside 10 (tw_NewWorker 10 30 10) delivery_world)"
  have "delivered_ok accepting_outside ?w"
    by (rule delivered_only_if_accepted) (simp_all add: delivery_world_def delivered_ok_def sample_delivery_def)
  with accepted_round show ?thesis by (cases "db_tw_deliveries (w_db ?w)") (auto simp: delivered_ok_def)
qed

primrec tw_rounds :: "env \<Rightarrow> outside \<Rightarrow> int \<Rightarrow> TenantWebhookWorker \<Rightarrow> int list \<Rightarrow> world \<Rightarrow> world" where
  "tw_rounds ev os m wk [] w = w"
| "tw_rounds ev os m wk (t # ts) w = tw_rounds ev os m wk ts (snd (tw_RunOnce ev os m wk (w \<lparr> w_clock := t \<rparr>)))"

text \<open>C24. Every webhook delivery comes to an end: while the database answers, rounds that are at least the
  pause apart leave no delivery PENDING after as many rounds as there are attempts left, whatever the
  endpoints answer and however many deliveries wait.\<close>

theorem deliveries_settle:
  assumes "w_budget w = None" "distinct (map dv_id (db_tw_deliveries (w_db w)))" "0 \<le> tw_maxBackoff wk"
    and "\<forall>t \<in> set (take 1 ts). all_due t w" "successively (\<lambda>s t. s + tw_maxBackoff wk \<le> t) ts" "total_left m w \<le> length ts"
  shows "\<forall>r \<in> set (db_tw_deliveries (w_db (tw_rounds ev os m wk ts w))). dv_status r \<noteq> ''PENDING''"
  using assms
proof (induction ts arbitrary: w)
  case Nil
  then have "total_left m w = 0" by simp
  then show ?case by (simp only: left_zero tw_rounds.simps)
next
  case (Cons t ts)
  let ?w = "w \<lparr> w_clock := t \<rparr>"
  have due: "all_due (w_clock ?w) ?w" using Cons.prems(4) by (simp add: all_due_def)
  have up: "w_budget ?w = None" "distinct (map dv_id (db_tw_deliveries (w_db ?w)))" using Cons.prems(1,2) by simp_all
  note p = round_progress [where ev = ev and os = os and m = m, OF up due Cons.prems(3)]
  have "total_left m ?w = total_left m w" by (simp add: total_left_def)
  then have "total_left m (snd (tw_RunOnce ev os m wk ?w)) \<le> length ts" using p(3) Cons.prems(6) by simp
  moreover have "\<forall>s \<in> set (take 1 ts). all_due s (snd (tw_RunOnce ev os m wk ?w))"
    using Cons.prems(5) p(4) by (cases ts) auto
  moreover have "successively (\<lambda>s t. s + tw_maxBackoff wk \<le> t) ts" using Cons.prems(5) by (cases ts) auto
  ultimately show ?case using Cons.IH [OF p(1,2) Cons.prems(3)] by simp
qed

theorem deliveries_settle_witness:
  "list_all (\<lambda>r. dv_status r \<noteq> ''PENDING'')
    (db_tw_deliveries (w_db (tw_rounds sample_env sample_outside 2 (tw_NewWorker 10 30 10) [1000, 40000000000] delivery_world)))"
  using deliveries_settle [of delivery_world "tw_NewWorker 10 30 10" "[1000, 40000000000]" 2 sample_env sample_outside]
  by (simp add: delivery_world_def sample_world_def sample_delivery_def tw_NewWorker_def all_due_def delivery_due_def claim_free_def
      total_left_def attempts_left_def list_all_iff Let_def wrap64_def del: tw_rounds.simps)

text \<open>With a driver that refuses to read \<open>NULL\<close> into a Go string, no notification is ever sent: a new
  notification has no \<open>last_error\<close>, the processor claims it and then fails to read it back. After any
  sequence of queued notifications and rounds of the processor every notification is still PENDING and
  nothing was handed to the mail server or the SMS provider.\<close>

theorem notifications_never_sent:
  assumes "ev_null_string ev = Inl e" "w_tx w = []" "db_notifications (w_db w) = []"
  shows "w_sent (queue_ops ev os ops w) = w_sent w \<and>
    (\<forall>r \<in> set (db_notifications (w_db (queue_ops ev os ops w))). nr_status r = ''PENDING'')"
proof -
  have "unsent w" using assms(2,3) by (simp add: unsent_def)
  with assms(1) have "w_sent (queue_ops ev os ops w) = w_sent w \<and> unsent (queue_ops ev os ops w)"
  proof (induction ev os ops w rule: queue_ops.induct)
    case (2 ev os b n ops w)
    have "unsent (w \<lparr> w_budget := b \<rparr>)" using 2(3) by (simp add: unsent_def)
    from 2(1,2) unsent_Insert [OF this] show ?case by simp
  next
    case (3 ev os b t ops w)
    have "unsent (w \<lparr> w_budget := b, w_clock := t \<rparr>)" using 3(3) by (simp add: unsent_def)
    from 3(1,2) unsent_ProcessQueue [OF 3(2) this] show ?case by simp
  qed simp
  then show ?thesis by (simp add: unsent_def)
qed

theorem notifications_never_sent_witness:
  "w_sent (queue_ops sample_env sample_outside
     [(None, OpQueue \<lparr> n_ID = 3, n_TenantID = 7, n_UserID = None, n_Type = ''PAYMENT_SUCCESS'', n_Channel = ''EMAIL'',
        n_Recipient = ''payer@example'', n_TemplateName = ''payment_success'', n_TemplateData = [] \<rparr>), (None, OpProcess 2000)]
     sample_world) = []"
  using notifications_never_sent [of sample_env "Errorf ''cannot scan NULL into *string''" sample_world]
  by (simp add: sample_env_def sample_world_def sample_db_def del: queue_ops.simps)

end
