(* ===== verification/Go_Strings.thy ===== *)
theory Go_Strings
  imports Prelude "HOL-Library.List_Lexorder" "HOL-Library.Char_ord"
begin

section \<open>Strings and numbers of the Go standard library\<close>

text \<open>
  What the adapters and the HTTP layer use of \<open>strings\<close>, \<open>strconv\<close>, \<open>encoding/hex\<close> and \<open>net/url\<close>.
  A string is its list of bytes. White space, case and the escaping rules are those of ASCII; the
  two non-ASCII spaces that \<open>strings.TrimSpace\<close> also removes do not occur in headers and
  configuration values. The round trips at the end (decimal numbers, separators, hex) are what the
  signature and token code relies on.
\<close>

subsection \<open>Splitting and trimming\<close>

definition is_space :: "char \<Rightarrow> bool" where
  "is_space c \<longleftrightarrow> (of_char c :: nat) \<in> {9, 10, 11, 12, 13, 32}"

definition TrimSpace :: "string \<Rightarrow> string" where
  "TrimSpace s = rev (dropWhile is_space (rev (dropWhile is_space s)))"

text \<open>\<open>strings.Split\<close> at a one-byte separator: never empty, the pieces without the separator.\<close>

fun Split :: "char \<Rightarrow> string \<Rightarrow> string list" where
  "Split c [] = [[]]"
| "Split c (x # xs) = (if x = c then [] # Split c xs
     else (case Split c xs of [] \<Rightarrow> [[x]] | p # ps \<Rightarrow> (x # p) # ps))"

text \<open>\<open>strings.SplitN(s, sep, 2)\<close>: one piece, or what is before and after the first separator.\<close>

definition SplitN2 :: "char \<Rightarrow> string \<Rightarrow> string \<times> string option" where
  "SplitN2 c s = (let a = takeWhile (\<lambda>x. x \<noteq> c) s in
     if length a = length s then (s, None) else (a, Some (drop (Suc (length a)) s)))"

definition HasSuffix :: "string \<Rightarrow> string \<Rightarrow> bool" where
  "HasSuffix s suf \<longleftrightarrow> has_prefix (rev suf) (rev s)"

definition lower_char :: "char \<Rightarrow> char" where
  "lower_char c = (if 65 \<le> (of_char c :: nat) \<and> (of_char c :: nat) \<le> 90
     then char_of ((of_char c :: nat) + 32) else c)"

definition ToLower :: "string \<Rightarrow> string" where
  "ToLower s = map lower_char s"

fun firstNonEmpty :: "string list \<Rightarrow> string" where
  "firstNonEmpty [] = ''''"
| "firstNonEmpty (v # vs) = (if v \<noteq> '''' then v else firstNonEmpty vs)"

subsection \<open>Numbers\<close>

definition dec_digit :: "nat \<Rightarrow> char" where
  "dec_digit n = char_of (48 + n)"

definition dec_val :: "char \<Rightarrow> nat option" where
  "dec_val c = (if 48 \<le> (of_char c :: nat) \<and> (of_char c :: nat) \<le> 57 then Some ((of_char c :: nat) - 48) else None)"

fun format_nat :: "nat \<Rightarrow> string" where
  "format_nat n = (if n < 10 then [dec_digit n] else format_nat (n div 10) @ [dec_digit (n mod 10)])"

declare format_nat.simps [simp del]

definition FormatInt :: "int \<Rightarrow> string" where
  "FormatInt n = (if n < 0 then ''-'' @ format_nat (nat (- n)) else format_nat (nat n))"

fun read_nat :: "nat \<Rightarrow> string \<Rightarrow> nat option" where
  "read_nat acc [] = Some acc"
| "read_nat acc (c # cs) = (case dec_val c of None \<Rightarrow> None | Some d \<Rightarrow> read_nat (10 * acc + d) cs)"

definition parse_digits :: "string \<Rightarrow> nat option" where
  "parse_digits s = (if s = [] then None else read_nat 0 s)"

text \<open>
  \<open>strconv.ParseInt(s, 10, 64)\<close> returns a value and an error, and some callers use the value in
  spite of the error: 0 for a malformed string, the nearest bound for a number out of range.
\<close>

definition ParseInt :: "string \<Rightarrow> int \<times> bool" where
  "ParseInt s =
    (let (neg, digits) = (case s of c # cs \<Rightarrow> if c = CHR ''-'' then (True, cs) else if c = CHR ''+'' then (False, cs) else (False, s)
                          | [] \<Rightarrow> (False, []))
     in case parse_digits digits of
          None \<Rightarrow> (0, False)
        | Some n \<Rightarrow> (if neg then (if int n \<le> 2 ^ 63 then (- int n, True) else (- (2 ^ 63), False))
                     else (if int n < 2 ^ 63 then (int n, True) else (2 ^ 63 - 1, False))))"

subsection \<open>Hexadecimal\<close>

definition hex_digit :: "nat \<Rightarrow> char" where
  "hex_digit n = (if n < 10 then char_of (48 + n) else char_of (87 + n))"

definition hex_val :: "char \<Rightarrow> nat option" where
  "hex_val c = (let n = (of_char c :: nat) in
     if 48 \<le> n \<and> n \<le> 57 then Some (n - 48) else if 97 \<le> n \<and> n \<le> 102 then Some (n - 87)
     else if 65 \<le> n \<and> n \<le> 70 then Some (n - 55) else None)"

definition hex_byte :: "char \<Rightarrow> string" where
  "hex_byte c = [hex_digit ((of_char c :: nat) div 16), hex_digit ((of_char c :: nat) mod 16)]"

definition hex_EncodeToString :: "string \<Rightarrow> string" where
  "hex_EncodeToString s = concat (map hex_byte s)"

fun hex_DecodeString :: "string \<Rightarrow> string option" where
  "hex_DecodeString [] = Some []"
| "hex_DecodeString [_] = None"
| "hex_DecodeString (a # b # rest) = (case (hex_val a, hex_val b, hex_DecodeString rest) of
     (Some x, Some y, Some r) \<Rightarrow> Some (char_of (16 * x + y) # r) | _ \<Rightarrow> None)"

subsection \<open>URLs\<close>

definition upper_hex :: "nat \<Rightarrow> char" where
  "upper_hex n = (if n < 10 then char_of (48 + n) else char_of (55 + n))"

definition percent :: "char \<Rightarrow> string" where
  "percent c = [CHR ''%'', upper_hex ((of_char c :: nat) div 16), upper_hex ((of_char c :: nat) mod 16)]"

definition unreserved :: "char \<Rightarrow> bool" where
  "unreserved c \<longleftrightarrow> (let n = (of_char c :: nat) in 48 \<le> n \<and> n \<le> 57 \<or> 65 \<le> n \<and> n \<le> 90 \<or> 97 \<le> n \<and> n \<le> 122)
     \<or> c \<in> set ''-_.~''"

definition PathEscape :: "string \<Rightarrow> string" where
  "PathEscape s = concat (map (\<lambda>c. if unreserved c \<or> c \<in> set ''$&+=:@'' then [c] else percent c) s)"

definition QueryEscape :: "string \<Rightarrow> string" where
  "QueryEscape s = concat (map (\<lambda>c. if unreserved c then [c] else if c = CHR '' '' then ''+'' else percent c) s)"

text \<open>\<open>url.Values\<close> as the list of its pairs; \<open>Encode\<close> sorts by key.\<close>

fun join_with :: "char \<Rightarrow> string list \<Rightarrow> string" where
  "join_with c [] = []"
| "join_with c [s] = s"
| "join_with c (s # ss) = s @ [c] @ join_with c ss"

definition Values_Encode :: "(string \<times> string) list \<Rightarrow> string" where
  "Values_Encode vs = join_with (CHR ''&'') (map (\<lambda>(k, v). QueryEscape k @ ''='' @ QueryEscape v) (sort_key fst vs))"

subsection \<open>Round trips\<close>

lemma of_char_char_of: "n < 256 \<Longrightarrow> of_char (char_of n) = (n :: nat)"
  by (simp add: take_bit_eq_mod)

lemma of_char_less [simp]: "(of_char c :: nat) < 256"
  by (metis of_char_mod_256 mod_less_divisor zero_less_numeral)

lemma dec_val_digit [simp]: "n < 10 \<Longrightarrow> dec_val (dec_digit n) = Some n"
  by (simp add: dec_val_def dec_digit_def of_char_char_of)

lemma read_nat_append: "read_nat a (xs @ ys) = (case read_nat a xs of None \<Rightarrow> None | Some b \<Rightarrow> read_nat b ys)"
  by (induction a xs rule: read_nat.induct) (auto split: option.splits)

lemma format_nat_nonempty [simp]: "format_nat n \<noteq> []"
  by (subst format_nat.simps) simp

lemma read_format_nat: "read_nat 0 (format_nat n) = Some n"
proof (induction n rule: format_nat.induct)
  case (1 n)
  then show ?case by (subst format_nat.simps) (simp add: read_nat_append)
qed

lemma dec_val_not [simp]: "dec_val (CHR ''-'') = None" "dec_val (CHR ''+'') = None" "dec_val (CHR '','') = None"
  "dec_val (CHR ''='') = None" "dec_val (CHR '' '') = None"
  by (simp_all add: dec_val_def)

lemma format_nat_chars: "\<forall>c \<in> set (format_nat n). dec_val c \<noteq> None"
proof (induction n rule: format_nat.induct)
  case (1 n)
  then show ?case by (subst format_nat.simps) (simp add: ball_Un)
qed

lemma format_nat_hd: "\<exists>c cs. format_nat n = c # cs \<and> dec_val c \<noteq> None"
  using format_nat_chars [of n] by (cases "format_nat n") auto

lemma ParseInt_FormatInt: "in64 n \<Longrightarrow> ParseInt (FormatInt n) = (n, True)"
proof -
  assume n: "in64 n"
  obtain c cs where c: "format_nat (nat n) = c # cs" "dec_val c \<noteq> None" using format_nat_hd by blast
  then have "c \<noteq> CHR ''-''" "c \<noteq> CHR ''+''" by auto
  with c n show ?thesis
    using read_format_nat [of "nat n"] read_format_nat [of "nat (- n)"]
    by (auto simp: ParseInt_def FormatInt_def parse_digits_def in64_def)
qed

text \<open>A printed number contains none of the separators of headers.\<close>

lemma FormatInt_no: "dec_val c = None \<Longrightarrow> c \<noteq> CHR ''-'' \<Longrightarrow> c \<notin> set (FormatInt n)"
  using format_nat_chars [of "nat n"] format_nat_chars [of "nat (- n)"] by (auto simp: FormatInt_def)

lemma Split_nonempty [simp]: "Split c s \<noteq> []"
  by (induction s) (auto split: list.splits)

lemma Split_none: "c \<notin> set s \<Longrightarrow> Split c s = [s]"
  by (induction s) auto

lemma Split_append: "c \<notin> set s \<Longrightarrow> Split c (s @ c # rest) = s # Split c rest"
  by (induction s) auto

lemma Split_pieces: "p \<in> set (Split c s) \<Longrightarrow> c \<notin> set p"
proof (induction s arbitrary: p)
  case (Cons x xs)
  then show ?case by (cases "Split c xs") (auto split: if_splits)
qed simp

lemma SplitN2_found: "c \<notin> set a \<Longrightarrow> SplitN2 c (a @ c # b) = (a, Some b)"
proof -
  assume "c \<notin> set a"
  then have "takeWhile (\<lambda>x. x \<noteq> c) (a @ c # b) = a" by (induction a) auto
  then show ?thesis by (simp add: SplitN2_def)
qed

lemma TrimSpace_id: "(\<forall>c \<in> set s. \<not> is_space c) \<Longrightarrow> TrimSpace s = s"
proof -
  have *: "dropWhile is_space t = t" if "\<forall>c \<in> set t. \<not> is_space c" for t
    using that by (cases t) simp_all
  assume "\<forall>c \<in> set s. \<not> is_space c"
  then show ?thesis using * [of s] * [of "rev s"] by (simp add: TrimSpace_def)
qed

lemma hex_val_digit [simp]: "n < 16 \<Longrightarrow> hex_val (hex_digit n) = Some n"
  by (auto simp: hex_val_def hex_digit_def of_char_char_of)

lemma hex_roundtrip: "hex_DecodeString (hex_EncodeToString s) = Some s"
proof (induction s)
  case (Cons c s)
  have "16 * ((of_char c :: nat) div 16) + of_char c mod 16 = of_char c" by presburger
  then show ?case using Cons by (simp add: hex_EncodeToString_def hex_byte_def div_less_iff_less_mult)
qed (simp add: hex_EncodeToString_def)

lemma hex_chars: "c \<in> set (hex_EncodeToString s) \<Longrightarrow> hex_val c \<noteq> None"
  by (auto simp: hex_EncodeToString_def hex_byte_def div_less_iff_less_mult)

lemma hex_length [simp]: "length (hex_EncodeToString s) = 2 * length s"
  by (induction s) (simp_all add: hex_EncodeToString_def hex_byte_def)

text \<open>An escaped path segment has no slash, so it stays one segment.\<close>

lemma upper_hex_not_slash: "n < 16 \<Longrightarrow> upper_hex n \<noteq> CHR ''/''"
proof
  assume n: "n < 16" and eq: "upper_hex n = CHR ''/''"
  have "of_char (upper_hex n) = (of_char (CHR ''/'') :: nat)" unfolding eq ..
  with n show False by (auto simp: upper_hex_def of_char_char_of simp del: of_char_of split: if_splits)
qed

lemma PathEscape_no_slash: "CHR ''/'' \<notin> set (PathEscape s)"
proof -
  have "CHR ''/'' \<notin> set (percent c)" for c
    using upper_hex_not_slash [of "(of_char c :: nat) div 16"] upper_hex_not_slash [of "(of_char c :: nat) mod 16"]
    by (auto simp: percent_def div_less_iff_less_mult)
  moreover have "\<not> unreserved (CHR ''/'')" by (simp add: unreserved_def)
  ultimately show ?thesis by (auto simp: PathEscape_def)
qed

end
