(* ===== verification/Partitions.thy ===== *)
theory Partitions
  imports Payment_Rules Clock_Text Go_Strings
begin

section \<open>Partitions of the outbox (jobs/partition_manager, postgres/partition_store.go)\<close>

text \<open>
  The outbox table is partitioned by the week in which an event was created. The job creates the partitions of the
  coming weeks, detaches old ones in which nothing is left to publish, and drops what has been detached for
  long enough. A row is stored in the partition whose range holds its time of creation, and in the default
  partition otherwise; a detached partition is a table of its own and its rows are no longer in the outbox. The
  catalogue follows Postgres: \<open>CREATE TABLE IF NOT EXISTS\<close> does nothing when the name is taken, and fails when the range
  overlaps another or when the default partition holds a row of it. \<open>pn_lock_free\<close> says that no other process holds the
  advisory lock; the job takes it for its round and gives it back. Reads are answered by the same state (a
  replica may lag). Instants are nanoseconds since 1970, weeks begin on Monday, and names carry the ISO
  year and week.
\<close>

subsection \<open>Weeks\<close>

abbreviation Day :: int where "Day \<equiv> int day_ns"

definition daysSinceMonday :: "int \<Rightarrow> int" where
  "daysSinceMonday day = (day + 3) mod 7"

definition weekStart :: "int \<Rightarrow> int" where
  "weekStart t = (let day = t div Day in (day - daysSinceMonday day) * Day)"

text \<open>\<open>ISOWeek\<close>: the year of the Thursday of the week, and how many weeks of it have passed.\<close>

definition ISOWeek :: "int \<Rightarrow> nat \<times> nat" where
  "ISOWeek t = (let day = t div Day; thursday = day - daysSinceMonday day + 3; (y, yday) = split_year 0 (nat (thursday + 719528))
     in (y, yday div 7 + 1))"

definition pad_at_least :: "nat \<Rightarrow> nat \<Rightarrow> string" where
  "pad_at_least k n = (if n < 10 ^ k then pad_digits k n else FormatInt (int n))"

definition partitionName :: "int \<Rightarrow> string" where
  "partitionName start = (let (y, w) = ISOWeek start in ''outbox_'' @ pad_at_least 4 y @ ''_W'' @ pad_at_least 2 w)"

definition isoWeekStart :: "nat \<Rightarrow> nat \<Rightarrow> int" where
  "isoWeekStart year week = (let jan4 = int (days_before_year year) + 3 - 719528; week1Monday = jan4 - daysSinceMonday jan4
     in (week1Monday + (int week - 1) * 7) * Day)"

text \<open>\<open>fmt.Sscanf\<close> with \<open>%d\<close>: the longest run of digits. (It also takes blanks and a sign, in names that
  the store refuses at the next step.)\<close>

definition scan_number :: "string \<Rightarrow> (nat \<times> string) option" where
  "scan_number s = (let ds = takeWhile (\<lambda>c. digit_val c \<noteq> None) s
     in if ds = [] then None else map_option (\<lambda>n. (n, drop (length ds) s)) (read_digits 0 ds))"

definition scan_text :: "string \<Rightarrow> string \<Rightarrow> string option" where
  "scan_text p s = (if has_prefix p s then Some (drop (length p) s) else None)"

definition weekEndFromName :: "string \<Rightarrow> int option" where
  "weekEndFromName name = Option.bind (scan_text ''outbox_'' name) (\<lambda>s1. Option.bind (scan_number s1) (\<lambda>(y, s2).
     Option.bind (scan_text ''_W'' s2) (\<lambda>s3. Option.bind (scan_number s3) (\<lambda>(w, _).
       Some (isoWeekStart y w + 7 * Day)))))"

definition ValidPartitionName :: "string \<Rightarrow> bool" where
  "ValidPartitionName name \<longleftrightarrow> length name = 15 \<and> take 7 name = ''outbox_'' \<and> list_all (\<lambda>c. digit_val c \<noteq> None) (take 4 (drop 7 name)) \<and>
     take 2 (drop 11 name) = ''_W'' \<and> list_all (\<lambda>c. digit_val c \<noteq> None) (drop 13 name)"

subsection \<open>The catalogue and the statements (partition_store.go)\<close>

record partitioned =
  pn_world :: world
  pn_attached :: "(string \<times> int \<times> int) list"
  pn_detached :: "(string \<times> OutboxRow list) list"
  pn_log :: "(string \<times> string \<times> int) list"
  pn_lock_free :: bool

type_synonym 'a pn = "(partitioned, 'a) comp"

definition pn_stmt :: "unit pn" where
  "pn_stmt s = (case answer (pn_world s) of (r, w) \<Rightarrow> (r, s \<lparr> pn_world := w \<rparr>))"

definition in_range :: "int \<times> int \<Rightarrow> OutboxRow \<Rightarrow> bool" where
  "in_range b r \<longleftrightarrow> fst b \<le> o_created_at r \<and> o_created_at r < snd b"

abbreviation outbox :: "partitioned \<Rightarrow> OutboxRow list" where
  "outbox s \<equiv> db_outbox (w_db (pn_world s))"

definition default_rows :: "partitioned \<Rightarrow> OutboxRow list" where
  "default_rows s = filter (\<lambda>r. \<not> list_ex (\<lambda>(_, b). in_range b r) (pn_attached s)) (outbox s)"

definition to_publish :: "OutboxRow \<Rightarrow> bool" where
  "to_publish r \<longleftrightarrow> o_status r \<in> {OutboxPending, OutboxFailed, OutboxPublishing}"

definition AcquireLock :: "bool pn" where
  "AcquireLock = bindE pn_stmt (\<lambda>_. reading pn_lock_free)"

definition ReleaseLock :: "unit pn" where
  "ReleaseLock = pn_stmt"

definition create_ok :: "int \<Rightarrow> int \<Rightarrow> partitioned \<Rightarrow> bool" where
  "create_ok from to s \<longleftrightarrow> \<not> list_ex (\<lambda>(_, f, t). from < t \<and> f < to) (pn_attached s) \<and> \<not> list_ex (in_range (from, to)) (default_rows s)"

definition CreatePartition :: "string \<Rightarrow> int \<Rightarrow> int \<Rightarrow> unit pn" where
  "CreatePartition name from to = (if \<not> ValidPartitionName name then throw (Errorf ''partition: invalid partition name'')
     else bindE pn_stmt (\<lambda>_ s.
       if name \<in> set (map fst (pn_attached s)) \<union> set (map fst (pn_detached s)) then (Inr (), s)
       else if create_ok from to s then (Inr (), s \<lparr> pn_attached := pn_attached s @ [(name, from, to)] \<rparr>)
       else (Inl (Errorf ''partition: create''), s)))"

definition ListPartitions :: "string list pn" where
  "ListPartitions = bindE pn_stmt (\<lambda>_. reading (\<lambda>s. map fst (pn_attached s)))"

definition partition_rows :: "string \<Rightarrow> partitioned \<Rightarrow> OutboxRow list option" where
  "partition_rows name s = (case map_of (pn_attached s) name of
       Some b \<Rightarrow> Some (filter (in_range b) (outbox s))
     | None \<Rightarrow> map_of (pn_detached s) name)"

definition CountUnpublished :: "string \<Rightarrow> nat pn" where
  "CountUnpublished name = (if \<not> ValidPartitionName name then throw (Errorf ''partition: invalid partition name'')
     else bindE pn_stmt (\<lambda>_. bindE (reading (partition_rows name)) (\<lambda>rows. case rows of
         None \<Rightarrow> throw (Errorf ''partition: count unpublished'')
       | Some rs \<Rightarrow> ok (length (filter to_publish rs)))))"

definition detach :: "string \<Rightarrow> int \<times> int \<Rightarrow> partitioned \<Rightarrow> partitioned" where
  "detach name b s = s \<lparr> pn_attached := filter (\<lambda>(n, _). n \<noteq> name) (pn_attached s),
     pn_detached := pn_detached s @ [(name, filter (in_range b) (outbox s))],
     pn_world := (pn_world s) \<lparr> w_db := (w_db (pn_world s)) \<lparr> db_outbox := filter (\<lambda>r. \<not> in_range b r) (outbox s) \<rparr> \<rparr> \<rparr>"

definition DetachPartition :: "string \<Rightarrow> unit pn" where
  "DetachPartition name = (if \<not> ValidPartitionName name then throw (Errorf ''partition: invalid partition name'')
     else bindE pn_stmt (\<lambda>_ s. case map_of (pn_attached s) name of
         None \<Rightarrow> (Inl (Errorf ''partition: detach''), s)
       | Some b \<Rightarrow> (Inr (), detach name b s)))"

text \<open>\<open>DROP TABLE IF EXISTS\<close> also takes a partition that is attached, with its rows.\<close>

definition drop_table :: "string \<Rightarrow> partitioned \<Rightarrow> partitioned" where
  "drop_table name s = (case map_of (pn_attached s) name of
       Some b \<Rightarrow> s \<lparr> pn_attached := filter (\<lambda>(n, _). n \<noteq> name) (pn_attached s),
         pn_world := (pn_world s) \<lparr> w_db := (w_db (pn_world s)) \<lparr> db_outbox := filter (\<lambda>r. \<not> in_range b r) (outbox s) \<rparr> \<rparr> \<rparr>
     | None \<Rightarrow> s \<lparr> pn_detached := filter (\<lambda>(n, _). n \<noteq> name) (pn_detached s) \<rparr>)"

definition DropPartition :: "string \<Rightarrow> unit pn" where
  "DropPartition name = (if \<not> ValidPartitionName name then throw (Errorf ''partition: invalid partition name'')
     else bindE pn_stmt (\<lambda>_. changing (drop_table name)))"

definition LogAction :: "string \<Rightarrow> string \<Rightarrow> unit pn" where
  "LogAction name action = bindE pn_stmt (\<lambda>_. changing (\<lambda>s. s \<lparr> pn_log := pn_log s @ [(name, action, w_clock (pn_world s))] \<rparr>))"

definition PartitionsDetachedBefore :: "int \<Rightarrow> string list pn" where
  "PartitionsDetachedBefore cutoff = bindE pn_stmt (\<lambda>_. reading (\<lambda>s. remdups (map fst (filter (\<lambda>(n, action, executed).
     action = ''detach'' \<and> executed < cutoff \<and> (n, ''drop'') \<notin> set (map (\<lambda>(n', a', _). (n', a')) (pn_log s))) (pn_log s)))))"

subsection \<open>The job (manager.go)\<close>

record partition_config =
  pc_WeeksAhead :: int
  pc_RetentionWeeks :: int
  pc_DropAfter :: int

definition New_manager :: "partition_config \<Rightarrow> partition_config" where
  "New_manager cfg = \<lparr> pc_WeeksAhead = (if pc_WeeksAhead cfg \<le> 0 then 2 else pc_WeeksAhead cfg),
     pc_RetentionWeeks = (if pc_RetentionWeeks cfg \<le> 0 then 2 else pc_RetentionWeeks cfg),
     pc_DropAfter = (if pc_DropAfter cfg \<le> 0 then 14 * Day else pc_DropAfter cfg) \<rparr>"

definition manager_now :: "int pn" where
  "manager_now = reading (\<lambda>s. w_clock (pn_world s))"

definition ignoring :: "'a pn \<Rightarrow> unit pn" where
  "ignoring m = bindE (attempt m) (\<lambda>_. ok ())"

definition preCreate :: "partition_config \<Rightarrow> unit pn" where
  "preCreate cfg = bindE manager_now (\<lambda>now. forE [0 ..< nat (pc_WeeksAhead cfg + 1)] (\<lambda>i.
     let start = weekStart now + int i * 7 * Day
     in ignoring (CreatePartition (partitionName start) start (start + 7 * Day))))"

definition detach_one :: "int \<Rightarrow> string \<Rightarrow> unit pn" where
  "detach_one cutoff name = (case weekEndFromName name of
       None \<Rightarrow> ok ()
     | Some weekEnd \<Rightarrow> if \<not> weekEnd < cutoff then ok ()
         else bindE (attempt (CountUnpublished name)) (\<lambda>n. case n of
             Inl _ \<Rightarrow> ok ()
           | Inr unpublished \<Rightarrow> if unpublished > 0 then ok ()
               else bindE (attempt (DetachPartition name)) (\<lambda>r. case r of
                   Inl _ \<Rightarrow> ok ()
                 | Inr _ \<Rightarrow> ignoring (LogAction name ''detach''))))"

definition detachStale :: "partition_config \<Rightarrow> unit pn" where
  "detachStale cfg = bindE (attempt ListPartitions) (\<lambda>names. case names of
       Inl _ \<Rightarrow> ok ()
     | Inr ns \<Rightarrow> bindE manager_now (\<lambda>now. forE ns (detach_one (weekStart now - pc_RetentionWeeks cfg * 7 * Day))))"

definition drop_one :: "string \<Rightarrow> unit pn" where
  "drop_one name = bindE (attempt (DropPartition name)) (\<lambda>r. case r of
       Inl _ \<Rightarrow> ok () | Inr _ \<Rightarrow> ignoring (LogAction name ''drop''))"

definition dropDetached :: "partition_config \<Rightarrow> unit pn" where
  "dropDetached cfg = bindE manager_now (\<lambda>now. bindE (attempt (PartitionsDetachedBefore (now - pc_DropAfter cfg))) (\<lambda>names. case names of
       Inl _ \<Rightarrow> ok () | Inr ns \<Rightarrow> forE ns drop_one))"

definition partition_RunOnce :: "partition_config \<Rightarrow> unit pn" where
  "partition_RunOnce cfg = bindE (wrapE ''partition_manager: acquire lock'' AcquireLock) (\<lambda>acquired.
     if \<not> acquired then ok ()
     else bindE (preCreate cfg) (\<lambda>_. bindE (detachStale cfg) (\<lambda>_. bindE (dropDetached cfg) (\<lambda>_. ignoring ReleaseLock))))"

subsection \<open>Names of weeks\<close>

definition monday :: "int \<Rightarrow> bool" where
  "monday t \<longleftrightarrow> t mod Day = 0 \<and> daysSinceMonday (t div Day) = 0"

lemma day_mult: "x * Day div Day = x" "x * Day mod Day = 0"
  by simp_all

lemma weekStart_monday: "monday (weekStart t)"
proof -
  have "(d - (d + 3) mod 7 + 3) mod 7 = 0" for d :: int by presburger
  then show ?thesis unfolding monday_def weekStart_def Let_def day_mult daysSinceMonday_def by blast
qed

lemma weekStart_bounds: "weekStart t \<le> t" "t < weekStart t + 7 * Day"
proof -
  have "t = t div Day * Day + t mod Day" "0 \<le> t mod Day" "t mod Day < Day" by (simp_all add: div_mult_mod_eq)
  moreover have "0 \<le> daysSinceMonday (t div Day)" "daysSinceMonday (t div Day) \<le> 6" by (simp_all add: daysSinceMonday_def)
  ultimately show "weekStart t \<le> t" "t < weekStart t + 7 * Day" unfolding weekStart_def Let_def left_diff_distrib by linarith+
qed

lemma monday_add: "monday t \<Longrightarrow> monday (t + i * 7 * Day)"
proof -
  assume t: "monday t"
  have "(t + i * 7 * Day) div Day = t div Day + i * 7" "(t + i * 7 * Day) mod Day = t mod Day"
    using div_mult_self1 [of Day t "i * 7"] mod_mult_self1 [of t "i * 7" Day] by (simp_all del: mod_mult_self1)
  moreover have "(d + i * 7 + 3) mod 7 = (d + 3) mod 7" for d :: int by presburger
  ultimately show ?thesis using t unfolding monday_def daysSinceMonday_def by simp
qed

lemma isoWeekStart_ISOWeek:
  assumes "monday t" "- 719531 \<le> t div Day" "ISOWeek t = (y, w)"
  shows "isoWeekStart y w = t" "1 \<le> w" "w \<le> 53"
proof -
  let ?d = "t div Day"
  obtain yday where s: "split_year 0 (nat (?d + 3 + 719528)) = (y, yday)" and w: "w = yday div 7 + 1"
    using assms(1,3) by (auto simp: ISOWeek_def monday_def Let_def split: prod.splits)
  have sum: "nat (?d + 3 + 719528) = days_before_year y + yday" "yday < year_length y"
    using split_year_sum [OF s] by (simp_all add: days_before_year_def)
  have d: "?d = int (days_before_year y) + int yday - 719531" using sum(1) assms(2) by linarith
  let ?jan4 = "int (days_before_year y) + 3 - 719528"
  have shift: "(x - 719528) mod 7 = (x + 2) mod 7" "(x - 719522) mod 7 = (x + 1) mod 7" for x :: int
    using mod_mult_self1 [of "x + 2" "- 102790" 7] mod_mult_self1 [of "x + 1" "- 102789" 7] by (simp_all del: mod_mult_self1)
  have small: "(x + y + 2) mod 7 = 0 \<Longrightarrow> 6 - (x + 1) mod 7 + y div 7 * 7 = y" for x y :: int by presburger
  have "(int (days_before_year y) + int yday - 719528) mod 7 = 0"
    using assms(1) unfolding d monday_def daysSinceMonday_def by (simp add: algebra_simps)
  then have "6 - (int (days_before_year y) + 1) mod 7 + int yday div 7 * 7 = int yday" unfolding shift by (intro small) simp
  moreover have "daysSinceMonday ?jan4 = (int (days_before_year y) + 1) mod 7"
    unfolding daysSinceMonday_def shift(2) [symmetric] by simp
  ultimately have "?jan4 - daysSinceMonday ?jan4 + int (yday div 7) * 7 = ?d" unfolding d by (simp add: zdiv_int)
  moreover have "t = ?d * Day" using assms(1) div_mult_mod_eq [of t Day] unfolding monday_def by linarith
  ultimately show "isoWeekStart y w = t" by (simp add: isoWeekStart_def w Let_def)
  have "yday \<le> 365" using sum(2) by (simp add: year_length_def split: if_splits)
  then show "1 \<le> w" "w \<le> 53" using w by linarith+
qed

text \<open>The names with years of four digits are read back.\<close>

lemma read_digits_run: "read_digits acc ds = Some v \<Longrightarrow> takeWhile (\<lambda>c. digit_val c \<noteq> None) (ds @ c # r) = ds @ takeWhile (\<lambda>c. digit_val c \<noteq> None) (c # r)"
  by (induction acc ds rule: read_digits.induct) (auto split: option.splits)

lemma scan_number_pad:
  assumes "n < 10 ^ k" "0 < k" "r = [] \<or> digit_val (hd r) = None"
  shows "scan_number (pad_digits k n @ r) = Some (n, r)"
proof -
  have rd: "read_digits 0 (pad_digits k n) = Some n" using assms(1) by (rule read_pad_small)
  have "takeWhile (\<lambda>c. digit_val c \<noteq> None) (pad_digits k n @ r) = pad_digits k n"
  proof (cases r)
    case Nil
    have "list_all (\<lambda>c. digit_val c \<noteq> None) (pad_digits k n)" by (induction k arbitrary: n) simp_all
    with Nil show ?thesis by (simp add: list_all_iff)
  next
    case (Cons c cs)
    with read_digits_run [OF rd, of c cs] assms(3) show ?thesis by simp
  qed
  moreover have "pad_digits k n \<noteq> []" using assms(2) length_pad_digits [of k n] by (metis length_0_conv less_irrefl)
  ultimately show ?thesis using rd by (simp add: scan_number_def Let_def)
qed

definition nameable :: "int \<Rightarrow> bool" where
  "nameable t \<longleftrightarrow> monday t \<and> - 719531 \<le> t div Day \<and> fst (ISOWeek t) < 10000"

lemma partitionName_parts:
  assumes "nameable t"
  obtains y w where "ISOWeek t = (y, w)" "y < 10000" "w < 100" "isoWeekStart y w = t"
    "partitionName t = ''outbox_'' @ pad_digits 4 y @ ''_W'' @ pad_digits 2 w"
proof -
  obtain y w where yw: "ISOWeek t = (y, w)" by fastforce
  note iso = isoWeekStart_ISOWeek [OF _ _ yw]
  from assms yw have y: "y < 10000" "monday t" "- 719531 \<le> t div Day" by (simp_all add: nameable_def)
  then have "w < 100" "isoWeekStart y w = t" using iso by (auto intro: order.strict_trans1)
  with that yw y(1) show thesis by (simp add: partitionName_def pad_at_least_def)
qed

theorem partition_name_roundtrip:
  assumes "nameable t"
  shows "weekEndFromName (partitionName t) = Some (t + 7 * Day)"
proof -
  obtain y w where n: "y < 10000" "w < 100" "isoWeekStart y w = t"
    "partitionName t = ''outbox_'' @ pad_digits 4 y @ ''_W'' @ pad_digits 2 w"
    by (rule partitionName_parts [OF assms])
  have "scan_number (pad_digits 4 y @ ''_W'' @ pad_digits 2 w) = Some (y, ''_W'' @ pad_digits 2 w)"
    using n(1) by (intro scan_number_pad) (simp_all add: digit_val_def)
  moreover have "scan_number (pad_digits 2 w) = Some (w, [])" using scan_number_pad [of w 2 "[]"] n(2) by simp
  ultimately show ?thesis unfolding n(4) by (simp add: weekEndFromName_def scan_text_def n(3))
qed

lemma partitionName_valid: "nameable t \<Longrightarrow> ValidPartitionName (partitionName t)"
proof (erule partitionName_parts)
  fix y w
  have digits: "list_all (\<lambda>c. digit_val c \<noteq> None) (pad_digits k n)" for k n by (induction k arbitrary: n) simp_all
  assume "partitionName t = ''outbox_'' @ pad_digits 4 y @ ''_W'' @ pad_digits 2 w"
  then show ?thesis using digits [of 4 y] digits [of 2 w] by (simp add: ValidPartitionName_def)
qed

subsection \<open>The catalogue stays in order\<close>

lemma monday_apart: "monday a \<Longrightarrow> monday b \<Longrightarrow> b < a \<Longrightarrow> b + 7 * Day \<le> a"
proof -
  assume ab: "monday a" "monday b" "b < a"
  then have a: "a = a div Day * Day" and b: "b = b div Day * Day"
    using div_mult_mod_eq [of a Day] div_mult_mod_eq [of b Day] unfolding monday_def by linarith+
  have "b div Day < a div Day"
  proof (rule ccontr)
    assume "\<not> b div Day < a div Day"
    then have "a div Day * Day \<le> b div Day * Day" by (intro mult_right_mono) simp_all
    with ab(3) a b show False by linarith
  qed
  moreover have "(x + 3) mod 7 = 0 \<Longrightarrow> (y + 3) mod 7 = 0 \<Longrightarrow> y < x \<Longrightarrow> y + 7 \<le> x" for x y :: int by presburger
  ultimately have "b div Day + 7 \<le> a div Day" using ab(1,2) by (simp add: monday_def daysSinceMonday_def)
  then have "(b div Day + 7) * Day \<le> a div Day * Day" by (rule mult_right_mono) simp
  then show ?thesis using a b unfolding distrib_right by linarith
qed

lemma weekStart_mono: "t \<le> t' \<Longrightarrow> weekStart t \<le> weekStart t'"
  using monday_apart [OF weekStart_monday weekStart_monday, of t' t] weekStart_bounds [of t] weekStart_bounds [of t'] by linarith

text \<open>A week that is over at the beginning of the present one.\<close>

definition past :: "int \<Rightarrow> string \<Rightarrow> bool" where
  "past now name \<longleftrightarrow> (case weekEndFromName name of None \<Rightarrow> False | Some e \<Rightarrow> e \<le> weekStart now)"

definition week_partition :: "string \<times> int \<times> int \<Rightarrow> bool" where
  "week_partition p \<longleftrightarrow> (case p of (name, from, to) \<Rightarrow> nameable from \<and> name = partitionName from \<and> to = from + 7 * Day)"

definition logged_detached :: "partitioned \<Rightarrow> string set" where
  "logged_detached s = {n. \<exists>t. (n, ''detach'', t) \<in> set (pn_log s)}"

text \<open>Partitions are named after their weeks, and what was detached is a past week and not attached.\<close>

definition catalogue_ok :: "partitioned \<Rightarrow> bool" where
  "catalogue_ok s \<longleftrightarrow> 0 \<le> w_clock (pn_world s) \<and> list_all week_partition (pn_attached s) \<and>
     (\<forall>n \<in> logged_detached s \<union> fst ` set (pn_detached s). n \<notin> fst ` set (pn_attached s) \<and> past (w_clock (pn_world s)) n)"

lemma past_later: "past now n \<Longrightarrow> now \<le> now' \<Longrightarrow> past now' n"
  using weekStart_mono [of now now'] by (auto simp: past_def split: option.splits)

lemma not_past: "nameable t \<Longrightarrow> weekStart now \<le> t \<Longrightarrow> \<not> past now (partitionName t)"
  by (simp add: past_def partition_name_roundtrip)

lemma weekStart_nonneg: "0 \<le> now \<Longrightarrow> - 3 \<le> weekStart now div Day"
proof -
  assume "0 \<le> now"
  then have "0 \<le> now div Day" by (simp add: pos_imp_zdiv_nonneg_iff)
  moreover have "0 \<le> d \<Longrightarrow> - 3 \<le> d - (d + 3) mod 7" for d :: int by presburger
  ultimately show ?thesis unfolding weekStart_def Let_def day_mult daysSinceMonday_def by blast
qed

lemma length_format_nat: "10 ^ k \<le> n \<Longrightarrow> k < length (format_nat n)"
proof (induction k arbitrary: n)
  case (Suc k)
  then have q: "10 ^ k \<le> n div 10" by (simp add: less_eq_div_iff_mult_less_eq mult.commute)
  moreover have "(1 :: nat) \<le> 10 ^ k" by simp
  ultimately have "\<not> n < 10" by (metis div_less le_zero_eq not_one_le_zero order_trans)
  note this q
  then show ?case using Suc.IH by (subst format_nat.simps) simp
qed simp

lemma length_pad_at_least: "k \<le> length (pad_at_least k n)" "length (pad_at_least k n) = k \<Longrightarrow> n < 10 ^ k"
  using length_format_nat [of k n] by (auto simp: pad_at_least_def FormatInt_def not_less split: if_splits)

lemma valid_nameable:
  assumes "monday t" "- 719531 \<le> t div Day" "ValidPartitionName (partitionName t)"
  shows "nameable t"
proof -
  obtain y w where yw: "ISOWeek t = (y, w)" by fastforce
  then have "partitionName t = ''outbox_'' @ pad_at_least 4 y @ ''_W'' @ pad_at_least 2 w" by (simp add: partitionName_def)
  moreover have "length (partitionName t) = 15" using assms(3) by (simp add: ValidPartitionName_def)
  ultimately have "length (pad_at_least 4 y) + length (pad_at_least 2 w) = 6" by simp
  then have "y < 10 ^ 4" using length_pad_at_least(1) [of 2 w] length_pad_at_least(1) [of 4 y]
    by (intro length_pad_at_least(2)) linarith
  with assms yw show ?thesis by (simp add: nameable_def)
qed

text \<open>During a round at the time \<open>c\<close>: the events left to publish are \<open>L\<close>, and the partitions \<open>X\<close> are attached.\<close>

definition steady :: "int \<Rightarrow> OutboxRow list \<Rightarrow> (string \<times> int \<times> int) set \<Rightarrow> partitioned \<Rightarrow> bool" where
  "steady c L X s \<longleftrightarrow> catalogue_ok s \<and> w_clock (pn_world s) = c \<and> filter to_publish (outbox s) = L \<and> X \<subseteq> set (pn_attached s)"

lemma steady_budget [simp]: "steady c L X (s \<lparr> pn_world := (pn_world s) \<lparr> w_budget := b \<rparr> \<rparr>) = steady c L X s"
  by (simp add: steady_def catalogue_ok_def logged_detached_def)

lemma logged_budget [simp]: "logged_detached (s \<lparr> pn_world := w \<rparr>) = logged_detached s"
  by (simp add: logged_detached_def)

lemma pn_stmt_cases:
  assumes "pn_stmt s = (r, s')"
  obtains b where "s' = s \<lparr> pn_world := (pn_world s) \<lparr> w_budget := b \<rparr> \<rparr>"
proof -
  have "snd (pn_stmt s) = s \<lparr> pn_world := (pn_world s) \<lparr> w_budget := w_budget (snd (answer (pn_world s))) \<rparr> \<rparr>"
    by (simp add: pn_stmt_def answer_def)
  with that assms show thesis by simp
qed

lemma keeps_pn_stmt [hoare]: "keeps (steady c L X) pn_stmt" "keeps (\<lambda>s. steady c L X s \<and> N \<subseteq> logged_detached s) pn_stmt"
  by (auto simp: keeps_def pn_stmt_def answer_def)

lemma keeps_ignoring [hoare]: "keeps I m \<Longrightarrow> keeps I (ignoring m)"
  unfolding ignoring_def by (intro hoare)

lemma steady_attach:
  assumes "steady c L X s" "nameable t" "weekStart c \<le> t"
  shows "steady c L X (s \<lparr> pn_attached := pn_attached s @ [(partitionName t, t, t + 7 * Day)] \<rparr>)"
proof -
  have "partitionName t \<notin> logged_detached s \<union> fst ` set (pn_detached s)"
    using assms(1) not_past [OF assms(2,3)] unfolding steady_def catalogue_ok_def by blast
  then show ?thesis using assms unfolding steady_def catalogue_ok_def logged_detached_def
    by (simp add: week_partition_def) blast
qed

lemma keeps_CreatePartition:
  assumes "monday t" "- 719531 \<le> t div Day" "weekStart c \<le> t"
  shows "keeps (steady c L X) (CreatePartition (partitionName t) t (t + 7 * Day))"
proof (cases "ValidPartitionName (partitionName t)")
  case True
  note steady_attach [OF _ valid_nameable [OF assms(1,2) True] assms(3)]
  with True show ?thesis unfolding CreatePartition_def by (simp, intro keeps_bindE hoare) (simp add: keeps_def)
next
  case False
  then show ?thesis by (simp add: CreatePartition_def hoare)
qed

lemma keeps_preCreate: "0 \<le> c \<Longrightarrow> keeps (steady c L X) (preCreate cfg)"
  unfolding preCreate_def
proof (rule keeps_bindE_post [where Q = "\<lambda>now. now = c"])
  fix now assume c: "0 \<le> c" "now = c"
  have "- 719531 \<le> (weekStart c + int i * 7 * Day) div Day" for i
  proof -
    have "(weekStart c + int i * 7 * Day) div Day = weekStart c div Day + int i * 7"
      using div_mult_self1 [of Day "weekStart c" "int i * 7"] by (simp del: div_mult_self1)
    with weekStart_nonneg [OF c(1)] show ?thesis by linarith
  qed
  with c(2) show "keeps (steady c L X) (forE [0 ..< nat (pc_WeeksAhead cfg + 1)] (\<lambda>i. let start = weekStart now + int i * 7 * Day
      in ignoring (CreatePartition (partitionName start) start (start + 7 * Day))))"
    unfolding Let_def by (intro hoare keeps_CreatePartition monday_add weekStart_monday) simp_all
qed (auto simp: manager_now_def hoare reading_def steady_def)

text \<open>A partition without anything to publish can go.\<close>

lemma detach_parts [simp]:
  "pn_attached (detach name b s) = filter (\<lambda>(n, _). n \<noteq> name) (pn_attached s)" "logged_detached (detach name b s) = logged_detached s"
  "fst ` set (pn_detached (detach name b s)) = insert name (fst ` set (pn_detached s))"
  "w_clock (pn_world (detach name b s)) = w_clock (pn_world s)" "outbox (detach name b s) = filter (\<lambda>r. \<not> in_range b r) (outbox s)"
  by (simp_all add: detach_def logged_detached_def)

lemma steady_detach:
  assumes "steady c L X s" "filter to_publish (filter (in_range b) (outbox s)) = []" "past c name" "\<And>x. x \<in> X \<Longrightarrow> \<not> past c (fst x)"
  shows "steady c L X (detach name b s)" "name \<notin> fst ` set (pn_attached (detach name b s))"
proof -
  have rows: "filter to_publish (filter (\<lambda>r. \<not> in_range b r) rs) = filter to_publish rs" if "filter to_publish (filter (in_range b) rs) = []" for rs
    using that by (induction rs) (auto split: if_splits)
  have kept: "X \<subseteq> set (filter (\<lambda>(n, _). n \<noteq> name) (pn_attached s))"
    using assms(1,3,4) by (fastforce simp: steady_def)
  have gone: "name \<notin> fst ` set (filter (\<lambda>(n, _). n \<noteq> name) (pn_attached s))" by auto
  have old: "\<And>n. n \<in> logged_detached s \<union> fst ` set (pn_detached s) \<Longrightarrow> n \<notin> fst ` set (pn_attached s) \<and> past c n"
    and s: "0 \<le> c" "list_all week_partition (pn_attached s)" "w_clock (pn_world s) = c" "filter to_publish (outbox s) = L"
    using assms(1) by (auto simp: steady_def catalogue_ok_def)
  have "n \<notin> fst ` set (filter (\<lambda>(n, _). n \<noteq> name) (pn_attached s)) \<and> past c n"
    if "n \<in> logged_detached s \<union> insert name (fst ` set (pn_detached s))" for n
  proof (cases "n = name")
    case False
    with that old [of n] show ?thesis by auto
  qed (use gone assms(3) in simp)
  then show "steady c L X (detach name b s)"
    unfolding steady_def catalogue_ok_def detach_parts using s kept rows [OF assms(2)]
    by (intro conjI ballI) (auto simp: list_all_iff)
  show "name \<notin> fst ` set (pn_attached (detach name b s))" using gone by simp
qed

lemma steady_log:
  assumes "steady c L X s" "action = ''detach'' \<Longrightarrow> name \<notin> fst ` set (pn_attached s) \<and> past c name"
  shows "steady c L X (s \<lparr> pn_log := pn_log s @ [(name, action, t)] \<rparr>)"
  using assms unfolding steady_def catalogue_ok_def logged_detached_def by auto

abbreviation budgeted :: "partitioned \<Rightarrow> nat option \<Rightarrow> partitioned" where
  "budgeted s b \<equiv> s \<lparr> pn_world := (pn_world s) \<lparr> w_budget := b \<rparr> \<rparr>"

lemma CountUnpublished_run:
  assumes "CountUnpublished name s = (r, s')"
  obtains b where "s' = budgeted s b"
    "\<And>bd. r = Inr 0 \<Longrightarrow> map_of (pn_attached s) name = Some bd \<Longrightarrow> filter to_publish (filter (in_range bd) (outbox s)) = []"
proof (cases "ValidPartitionName name")
  case True
  obtain q s1 where q: "pn_stmt s = (q, s1)" by fastforce
  from pn_stmt_cases [OF this] obtain b where "s1 = budgeted s b" .
  then show thesis
    using assms True q by (intro that [of b])
      (auto simp: CountUnpublished_def bindE_def reading_def ok_def throw_def partition_rows_def split: sum.splits option.splits)
next
  case False
  then show thesis using assms by (intro that [of "w_budget (pn_world s)"]) (simp_all add: CountUnpublished_def throw_def)
qed

lemma DetachPartition_run:
  assumes "DetachPartition name s = (r, s')"
  obtains (failed) b e where "r = Inl e" "s' = budgeted s b"
    | (detached) b bd where "r = Inr ()" "map_of (pn_attached s) name = Some bd" "s' = detach name bd (budgeted s b)"
proof (cases "ValidPartitionName name")
  case True
  obtain q s1 where q: "pn_stmt s = (q, s1)" by fastforce
  from pn_stmt_cases [OF this] obtain b where s1: "s1 = budgeted s b" .
  show thesis
  proof (cases q)
    case (Inl e)
    with failed [of e b] assms True q s1 show thesis by (simp add: DetachPartition_def bindE_def)
  next
    case (Inr u)
    with failed [of "Errorf ''partition: detach''" b] detached [of _ b] assms True q s1 show thesis
      by (cases "map_of (pn_attached s) name") (simp_all add: DetachPartition_def bindE_def)
  qed
next
  case False
  with failed [of "Errorf ''partition: invalid partition name''" "w_budget (pn_world s)"] assms show thesis
    by (simp add: DetachPartition_def throw_def)
qed

lemma keeps_LogAction:
  assumes "steady c L X s" "action = ''detach'' \<Longrightarrow> name \<notin> fst ` set (pn_attached s) \<and> past c name"
  shows "steady c L X (snd (ignoring (LogAction name action) s))"
proof -
  obtain q s1 where q: "pn_stmt s = (q, s1)" by fastforce
  from pn_stmt_cases [OF this] obtain b where s1: "s1 = budgeted s b" .
  have "steady c L X s1" using assms(1) by (simp add: s1)
  moreover have "action = ''detach'' \<Longrightarrow> name \<notin> fst ` set (pn_attached s1) \<and> past c name" using assms(2) by (simp add: s1)
  ultimately show ?thesis using steady_log [of c L X s1 action name "w_clock (pn_world s1)"] q
    by (cases q) (simp_all add: ignoring_def LogAction_def bindE_def attempt_def changing_def ok_def)
qed

lemma keeps_detach_one:
  assumes "cutoff \<le> weekStart c" "\<And>x. x \<in> X \<Longrightarrow> \<not> past c (fst x)"
  shows "keeps (steady c L X) (detach_one cutoff name)"
  unfolding keeps_def
proof (intro allI impI)
  fix s assume s: "steady c L X s"
  show "steady c L X (snd (detach_one cutoff name s))"
  proof (cases "\<exists>e. weekEndFromName name = Some e \<and> e < cutoff")
    case True
    then obtain e where e: "weekEndFromName name = Some e" "e < cutoff" by blast
    then have p: "past c name" using assms(1) by (simp add: past_def)
    obtain n s1 where n: "CountUnpublished name s = (n, s1)" by fastforce
    from CountUnpublished_run [OF this] obtain b where s1: "s1 = budgeted s b"
      and none: "\<And>bd. n = Inr 0 \<Longrightarrow> map_of (pn_attached s) name = Some bd \<Longrightarrow> filter to_publish (filter (in_range bd) (outbox s)) = []" by metis
    have s1_ok: "steady c L X s1" using s by (simp add: s1)
    show ?thesis
    proof (cases "n = Inr 0")
      case zero: True
      obtain r s2 where r: "DetachPartition name s1 = (r, s2)" by fastforce
      then show ?thesis
      proof (cases rule: DetachPartition_run)
        case (failed b' e')
        with e n zero r s1_ok show ?thesis by (simp add: detach_one_def bindE_def attempt_def ok_def)
      next
        case (detached b' bd)
        have "map_of (pn_attached s) name = Some bd" using detached(2) by (simp add: s1)
        with none zero have "filter to_publish (filter (in_range bd) (outbox (budgeted s1 b'))) = []" by (simp add: s1)
        then have "steady c L X s2" "name \<notin> fst ` set (pn_attached s2)"
          using steady_detach [of c L X "budgeted s1 b'"] s1_ok p assms(2) detached(3) by simp_all
        then have "steady c L X (snd (ignoring (LogAction name ''detach'') s2))" using p by (intro keeps_LogAction) auto
        with e n zero r detached(1) show ?thesis by (simp add: detach_one_def bindE_def attempt_def)
      qed
    next
      case False
      with e n s1_ok show ?thesis by (cases n) (simp_all add: detach_one_def bindE_def attempt_def ok_def)
    qed
  next
    case False
    with s show ?thesis by (cases "weekEndFromName name") (auto simp: detach_one_def ok_def)
  qed
qed

lemma manager_now_Inr: "steady c L X s \<Longrightarrow> manager_now s = (Inr now, s') \<Longrightarrow> now = c"
  by (auto simp: manager_now_def reading_def steady_def)

lemma keeps_manager_now [hoare]: "keeps I manager_now"
  unfolding manager_now_def by (intro hoare)

lemma keeps_detachStale:
  assumes "0 \<le> pc_RetentionWeeks cfg" "\<And>x. x \<in> X \<Longrightarrow> \<not> past c (fst x)"
  shows "keeps (steady c L X) (detachStale cfg)"
proof -
  have "weekStart c - pc_RetentionWeeks cfg * 7 * Day \<le> weekStart c" using assms(1) by simp
  then show ?thesis
    unfolding detachStale_def ListPartitions_def
    by (intro keeps_bindE keeps_attempt keeps_pn_stmt keeps_reading keeps_case_sum keeps_ok
        keeps_bindE_post [where Q = "\<lambda>now. now = c"] keeps_manager_now)
       (auto dest: manager_now_Inr intro!: keeps_forE keeps_detach_one assms(2))
qed

text \<open>Only tables that are no longer attached are dropped.\<close>

lemma keeps_drop_one:
  assumes "name \<in> N"
  shows "keeps (\<lambda>s. steady c L X s \<and> N \<subseteq> logged_detached s) (drop_one name)"
  unfolding keeps_def
proof (intro allI impI)
  fix s assume s: "steady c L X s \<and> N \<subseteq> logged_detached s"
  let ?I = "\<lambda>s. steady c L X s \<and> N \<subseteq> logged_detached s"
  have drop: "?I (drop_table name s)" if "?I s" for s
  proof -
    have "name \<notin> fst ` set (pn_attached s)" using that assms by (auto simp: steady_def catalogue_ok_def)
    then have "map_of (pn_attached s) name = None" by (simp add: map_of_eq_None_iff)
    with that show ?thesis
      by (auto simp: drop_table_def steady_def catalogue_ok_def logged_detached_def)
  qed
  have "keeps ?I (DropPartition name)"
    unfolding DropPartition_def by (intro hoare keeps_changing drop)
  moreover obtain r s1 where r: "DropPartition name s = (r, s1)" by fastforce
  ultimately have s1: "?I s1" using keepsD [of ?I, OF _ s] by blast
  have "N \<subseteq> logged_detached (snd (ignoring (LogAction name ''drop'') s1))"
    using s1 by (auto simp: ignoring_def LogAction_def bindE_def attempt_def changing_def ok_def pn_stmt_def answer_def logged_detached_def)
  moreover have "steady c L X (snd (ignoring (LogAction name ''drop'') s1))" using s1 by (intro keeps_LogAction) auto
  ultimately show "?I (snd (drop_one name s))"
    using r s1 by (cases r) (simp_all add: drop_one_def bindE_def attempt_def ok_def)
qed

lemma keeps_dropDetached: "keeps (steady c L X) (dropDetached cfg)"
proof -
  have run_drops: "steady c L X (snd (forE ns drop_one s))" if "steady c L X s" "set ns \<subseteq> logged_detached s" for ns s
  proof -
    have "keeps (\<lambda>s. steady c L X s \<and> set ns \<subseteq> logged_detached s) (forE ns drop_one)" by (rule keeps_forE, rule keeps_drop_one)
    with that show ?thesis by (simp add: keeps_def)
  qed
  have detached: "set ns \<subseteq> logged_detached s'" if "PartitionsDetachedBefore t s = (Inr ns, s')" for t s s' ns
    using that by (auto simp: PartitionsDetachedBefore_def run logged_detached_def)
  have kept: "keeps (steady c L X) (PartitionsDetachedBefore t)" for t
    unfolding PartitionsDetachedBefore_def by (intro hoare)
  have "steady c L X (snd (bindE (attempt (PartitionsDetachedBefore t)) (\<lambda>names. case names of
      Inl _ \<Rightarrow> ok () | Inr ns \<Rightarrow> forE ns drop_one) s))" if s: "steady c L X s" for t s
  proof -
    obtain r s1 where r: "PartitionsDetachedBefore t s = (r, s1)" by fastforce
    have "steady c L X s1" by (rule keepsD [OF kept s r])
    with r run_drops detached show ?thesis by (cases r) (simp_all add: bindE_def attempt_def ok_def)
  qed
  then show ?thesis
    unfolding dropDetached_def by (intro keeps_bindE [OF keeps_manager_now]) (simp only: keeps_def, blast)
qed

lemma keeps_partition_RunOnce:
  assumes "0 \<le> pc_RetentionWeeks cfg" "\<And>x. x \<in> X \<Longrightarrow> \<not> past c (fst x)" "0 \<le> c"
  shows "keeps (steady c L X) (partition_RunOnce cfg)"
  unfolding partition_RunOnce_def AcquireLock_def ReleaseLock_def
  by (intro hoare keeps_preCreate keeps_detachStale keeps_dropDetached assms)

subsection \<open>Rounds and what happens between them\<close>

text \<open>A round of the job, or anything else: other operations write to the tables, the clock moves on, the database
  becomes available or not, another process takes or leaves the lock.\<close>

inductive partition_step :: "partition_config \<Rightarrow> partitioned \<Rightarrow> partitioned \<Rightarrow> bool" for cfg where
  round: "partition_step cfg s (snd (partition_RunOnce (New_manager cfg) s))"
| elsewhere: "w_clock (pn_world s) \<le> w_clock w \<Longrightarrow> partition_step cfg s (s \<lparr> pn_world := w, pn_lock_free := b \<rparr>)"

inductive_cases partition_stepE: "partition_step cfg s s'"

lemma round_steady:
  assumes "catalogue_ok s" "X \<subseteq> set (pn_attached s)" "\<And>x. x \<in> X \<Longrightarrow> \<not> past (w_clock (pn_world s)) (fst x)"
  shows "steady (w_clock (pn_world s)) (filter to_publish (outbox s)) X (snd (partition_RunOnce (New_manager cfg) s))"
proof -
  have "0 \<le> pc_RetentionWeeks (New_manager cfg)" by (simp add: New_manager_def)
  moreover have "0 \<le> w_clock (pn_world s)" using assms(1) by (simp add: catalogue_ok_def)
  ultimately have "keeps (steady (w_clock (pn_world s)) (filter to_publish (outbox s)) X) (partition_RunOnce (New_manager cfg))"
    by (intro keeps_partition_RunOnce assms(3))
  then show ?thesis using assms(1,2) by (simp add: keeps_def steady_def)
qed

lemma catalogue_ok_step: "partition_step cfg s s' \<Longrightarrow> catalogue_ok s \<Longrightarrow> catalogue_ok s'"
proof (erule partition_stepE)
  assume "catalogue_ok s" "s' = snd (partition_RunOnce (New_manager cfg) s)"
  then show ?thesis using round_steady [of s "{}" cfg] by (simp add: steady_def)
next
  fix w b assume "catalogue_ok s" "s' = s \<lparr> pn_world := w, pn_lock_free := b \<rparr>" "w_clock (pn_world s) \<le> w_clock w"
  then show ?thesis by (auto simp: catalogue_ok_def logged_detached_def intro: past_later)
qed

lemma catalogue_ok_reachable: "(partition_step cfg)\<^sup>*\<^sup>* s0 s \<Longrightarrow> catalogue_ok s0 \<Longrightarrow> catalogue_ok s"
  by (induction rule: rtranclp_induct) (auto intro: catalogue_ok_step)

text \<open>C17. In every state that rounds of the partition manager and other work reach from a catalogue in order, a further
  round keeps every event that is not published in the outbox, as it was and in its place: partitions are detached only
  when nothing in them is left to publish and dropped only when they are detached, wherever the database stops
  answering.\<close>

theorem partitions_keep_unpublished:
  assumes "catalogue_ok s0" "(partition_step cfg)\<^sup>*\<^sup>* s0 s"
  shows "filter to_publish (outbox (snd (partition_RunOnce (New_manager cfg) s))) = filter to_publish (outbox s)"
  using round_steady [OF catalogue_ok_reachable [OF assms(2,1)], of "{}" cfg] by (simp add: steady_def)

text \<open>One stuck event keeps its partition: an event that was moved to the dead letters stays \<open>FAILED\<close> in the outbox, and
  its week is then never detached.\<close>

lemma failed_event_blocks_detach:
  assumes "map_of (pn_attached s) name = Some b" "r \<in> set (outbox s)" "in_range b r" "o_status r = OutboxFailed"
  shows "pn_attached (snd (detach_one cutoff name s)) = pn_attached s"
proof -
  obtain n s1 where n: "CountUnpublished name s = (n, s1)" by fastforce
  from CountUnpublished_run [OF this] obtain b' where s1: "s1 = budgeted s b'"
    and none: "\<And>bd. n = Inr 0 \<Longrightarrow> map_of (pn_attached s) name = Some bd \<Longrightarrow> filter to_publish (filter (in_range bd) (outbox s)) = []" by metis
  have "n \<noteq> Inr 0" using none [OF _ assms(1)] assms(2-4) by (auto simp: filter_empty_conv to_publish_def)
  with n s1 show ?thesis
    by (cases n) (auto simp: detach_one_def bindE_def attempt_def ok_def split: option.splits)
qed

subsection \<open>The coming weeks\<close>

text \<open>With an answering database, creating a week leaves it attached: the catalogue holds whole weeks only, so that the range is free
  unless the week is there already.\<close>

lemma week_created:
  assumes s: "steady c L X s" and t: "nameable t" "weekStart c \<le> t"
    and up: "w_budget (pn_world s) = None" and clear: "list_all (\<lambda>r. o_created_at r < t) (default_rows s)"
  shows "\<exists>s'. CreatePartition (partitionName t) t (t + 7 * Day) s = (Inr (), s') \<and> steady c L (insert (partitionName t, t, t + 7 * Day) X) s' \<and>
     w_budget (pn_world s') = None \<and> set (default_rows s') \<subseteq> set (default_rows s) \<and> pn_lock_free s' = pn_lock_free s"
proof -
  have stmt: "pn_stmt s = (Inr (), s)" using up by (simp add: pn_stmt_def answer_def)
  note valid = partitionName_valid [OF t(1)]
  have weeks: "list_all week_partition (pn_attached s)" using s by (simp add: steady_def catalogue_ok_def)
  have free: "partitionName t \<notin> fst ` set (pn_detached s)"
    using s not_past [OF t] unfolding steady_def catalogue_ok_def by blast
  show ?thesis
  proof (cases "partitionName t \<in> fst ` set (pn_attached s)")
    case True
    then obtain f u where p: "(partitionName t, f, u) \<in> set (pn_attached s)" by auto
    with weeks have "week_partition (partitionName t, f, u)" by (auto simp: list_all_iff)
    then have "nameable f" "partitionName t = partitionName f" "u = f + 7 * Day" by (simp_all add: week_partition_def)
    then have "f = t" "u = t + 7 * Day" using partition_name_roundtrip [of f] partition_name_roundtrip [OF t(1)] by simp_all
    with p have "(partitionName t, t, t + 7 * Day) \<in> set (pn_attached s)" by simp
    then show ?thesis using s True up valid stmt by (intro exI [of _ s]) (simp add: CreatePartition_def bindE_def steady_def)
  next
    case False
    have "\<not> (t < u \<and> f < t + 7 * Day)" if "(n, f, u) \<in> set (pn_attached s)" for n f u
    proof
      assume o: "t < u \<and> f < t + 7 * Day"
      have "week_partition (n, f, u)" using weeks that by (auto simp: list_all_iff)
      then have w: "nameable f" "n = partitionName f" "u = f + 7 * Day" by (simp_all add: week_partition_def)
      have m: "monday f" "monday t" using w(1) t(1) by (simp_all add: nameable_def)
      from monday_apart [OF m] monday_apart [OF m(2,1)] o w(3) have "f = t" by linarith
      with that w(2) False show False by (auto simp: image_iff)
    qed
    moreover have "\<not> list_ex (in_range (t, t + 7 * Day)) (default_rows s)" using clear by (auto simp: list_all_iff list_ex_iff in_range_def)
    ultimately have "create_ok t (t + 7 * Day) s" by (auto simp: create_ok_def list_ex_iff)
    moreover have "set (default_rows (s \<lparr> pn_attached := pn_attached s @ [p] \<rparr>)) \<subseteq> set (default_rows s)" for p
      by (auto simp: default_rows_def)
    ultimately show ?thesis using steady_attach [OF s t] False free up valid stmt
      by (auto simp: CreatePartition_def bindE_def steady_def)
  qed
qed

lemma weeks_created:
  assumes "steady c L X s" "\<And>i. i \<in> set ws \<Longrightarrow> nameable (weekStart c + int i * 7 * Day)"
    and "w_budget (pn_world s) = None" "list_all (\<lambda>r. o_created_at r < weekStart c) (default_rows s)"
  shows "\<exists>s'. forE ws (\<lambda>i. let start = weekStart c + int i * 7 * Day in ignoring (CreatePartition (partitionName start) start (start + 7 * Day))) s = (Inr (), s') \<and>
     steady c L (X \<union> (\<lambda>i. let start = weekStart c + int i * 7 * Day in (partitionName start, start, start + 7 * Day)) ` set ws) s' \<and> w_budget (pn_world s') = None"
  using assms
proof (induction ws arbitrary: s X)
  case (Cons i js)
  let ?t = "weekStart c + int i * 7 * Day"
  have "list_all (\<lambda>r. o_created_at r < ?t) (default_rows s)" using Cons.prems(4) by (auto simp: list_all_iff)
  from week_created [OF Cons.prems(1) Cons.prems(2) _ Cons.prems(3) this] obtain s1 where
    c: "CreatePartition (partitionName ?t) ?t (?t + 7 * Day) s = (Inr (), s1)" and s1: "steady c L (insert (partitionName ?t, ?t, ?t + 7 * Day) X) s1"
      "w_budget (pn_world s1) = None" "set (default_rows s1) \<subseteq> set (default_rows s)" by auto
  have "list_all (\<lambda>r. o_created_at r < weekStart c) (default_rows s1)" using Cons.prems(4) s1(3) by (auto simp: list_all_iff)
  from Cons.IH [OF s1(1) Cons.prems(2) s1(2) this] c show ?case
    by (simp add: Let_def ignoring_def bindE_def attempt_def ok_def insert_commute)
qed (simp add: ok_def)

lemma div_below: "0 < k \<Longrightarrow> t < n * k \<Longrightarrow> t div k < n" for k t n :: int
  using div_mult_mod_eq [of t k] pos_mod_sign [of k t] mult_less_cancel_right_pos [of k "t div k" n] by linarith

lemma nameable_week:
  assumes "0 \<le> c" "c < 2900000 * Day" "i \<le> 1000"
  shows "nameable (weekStart c + int i * 7 * Day)"
proof -
  let ?t = "weekStart c + int i * 7 * Day"
  have m: "monday ?t" by (intro monday_add weekStart_monday)
  have "?t div Day = weekStart c div Day + int i * 7"
    using div_mult_self1 [of Day "weekStart c" "int i * 7"] by (simp del: div_mult_self1)
  moreover have "weekStart c div Day \<le> c div Day" by (intro zdiv_mono1 weekStart_bounds) simp
  moreover have "c div Day < 2900000" using assms(2) by (intro div_below) simp_all
  ultimately have d: "?t div Day < 2907001" "- 719531 \<le> ?t div Day" using assms(3) weekStart_nonneg [OF assms(1)] by linarith+
  obtain y r where s: "split_year 0 (nat (?t div Day + 3 + 719528)) = (y, r)" by fastforce
  have "y < 10000"
  proof (rule ccontr)
    assume "\<not> y < 10000"
    then have "3650000 \<le> days_before_year y" using days_before_year_ge [of 10000] days_before_year_mono [of 10000 y] by simp
    moreover have "days_before_year y \<le> nat (?t div Day + 3 + 719528)" using split_year_sum [OF s] by (simp add: days_before_year_def)
    ultimately show False using d(1) by linarith
  qed
  with m d(2) s show ?thesis by (simp add: nameable_def ISOWeek_def monday_def Let_def)
qed

lemma week_index:
  fixes a t k :: int
  assumes "0 < k" "a \<le> t" "t < a + int n * k"
  obtains i where "i < n" "a + int i * k \<le> t" "t < a + int i * k + k"
proof
  let ?i = "nat ((t - a) div k)"
  have q: "0 \<le> (t - a) div k" using assms(1,2) by (simp add: pos_imp_zdiv_nonneg_iff)
  have "(t - a) div k < int n" using assms by (intro div_below) simp_all
  with q show "?i < n" by linarith
  have i: "int ?i * k = (t - a) div k * k" using q by simp
  show "a + int ?i * k \<le> t" "t < a + int ?i * k + k"
    unfolding i using div_mult_mod_eq [of "t - a" k] pos_mod_sign [OF assms(1), of "t - a"] pos_mod_bound [OF assms(1), of "t - a"] by linarith+
qed

text \<open>After a round that found the database answering and the lock free, every instant from the beginning of the present week to
  the end of the last week ahead has a partition of its own, so that new events do not land in the default partition,
  as long as the default partition holds no event of these weeks yet. (Years have four digits.)\<close>

theorem coming_weeks_partitioned:
  assumes "catalogue_ok s" "pn_lock_free s" "w_budget (pn_world s) = None"
    and "list_all (\<lambda>r. o_created_at r < weekStart (w_clock (pn_world s))) (default_rows s)"
    and "w_clock (pn_world s) < 2900000 * Day" "0 < pc_WeeksAhead cfg" "pc_WeeksAhead cfg \<le> 1000"
    and "weekStart (w_clock (pn_world s)) \<le> t" "t < weekStart (w_clock (pn_world s)) + (pc_WeeksAhead cfg + 1) * 7 * Day"
  shows "list_ex (\<lambda>(_, from, to). from \<le> t \<and> t < to) (pn_attached (snd (partition_RunOnce (New_manager cfg) s)))"
proof -
  define c where "c = w_clock (pn_world s)"
  let ?start = "\<lambda>i. weekStart c + int i * 7 * Day" and ?is = "[0 ..< nat (pc_WeeksAhead cfg + 1)]"
  let ?X = "(\<lambda>i. let start = ?start i in (partitionName start, start, start + 7 * Day)) ` set ?is"
  have cfg: "pc_WeeksAhead (New_manager cfg) = pc_WeeksAhead cfg" "0 \<le> pc_RetentionWeeks (New_manager cfg)"
    using assms(6) by (simp_all add: New_manager_def)
  have c0: "0 \<le> c" "c < 2900000 * Day" using assms(1,5) by (simp_all add: catalogue_ok_def c_def)
  have names: "nameable (?start i)" if "i \<in> set ?is" for i
    by (rule nameable_week [OF c0]) (use that assms(7) in auto)
  have "steady c (filter to_publish (outbox s)) {} s" using assms(1) by (simp add: steady_def c_def)
  from weeks_created [where ws = ?is, OF this names assms(3) assms(4) [folded c_def]] obtain s1 where
    pre: "forE ?is (\<lambda>i. let start = ?start i in ignoring (CreatePartition (partitionName start) start (start + 7 * Day))) s = (Inr (), s1)"
    and s1: "steady c (filter to_publish (outbox s)) ?X s1" by auto
  have X: "\<not> past c (fst x)" if "x \<in> ?X" for x using that names not_past [of _ c] by (auto simp: Let_def)
  have "keeps (steady c (filter to_publish (outbox s)) ?X)
      (bindE (detachStale (New_manager cfg)) (\<lambda>_. bindE (dropDetached (New_manager cfg)) (\<lambda>_. ignoring ReleaseLock)))"
    unfolding ReleaseLock_def by (intro hoare keeps_detachStale keeps_dropDetached cfg(2) X)
  moreover have "pn_stmt s = (Inr (), s)" using assms(3) by (simp add: pn_stmt_def answer_def)
  then have "partition_RunOnce (New_manager cfg) s =
      bindE (detachStale (New_manager cfg)) (\<lambda>_. bindE (dropDetached (New_manager cfg)) (\<lambda>_. ignoring ReleaseLock)) s1"
    using assms(2) pre
    by (simp add: partition_RunOnce_def AcquireLock_def wrapE_def preCreate_def manager_now_def reading_def bindE_def cfg(1) c_def)
  ultimately have "?X \<subseteq> set (pn_attached (snd (partition_RunOnce (New_manager cfg) s)))" using s1 by (simp add: keeps_def steady_def)
  moreover obtain i where "i \<in> set ?is" "?start i \<le> t" "t < ?start i + 7 * Day"
  proof -
    have "0 < 7 * Day" "weekStart c \<le> t" "t < weekStart c + int (nat (pc_WeeksAhead cfg + 1)) * (7 * Day)"
      using assms(6,8,9) by (simp_all add: c_def)
    then obtain i where "i < nat (pc_WeeksAhead cfg + 1)" "weekStart c + int i * (7 * Day) \<le> t" "t < weekStart c + int i * (7 * Day) + 7 * Day"
      by (rule week_index)
    with that show thesis by (simp add: mult.assoc)
  qed
  then have "(partitionName (?start i), ?start i, ?start i + 7 * Day) \<in> ?X" by (auto simp: Let_def)
  with calculation \<open>?start i \<le> t\<close> \<open>t < ?start i + 7 * Day\<close> show ?thesis unfolding list_ex_iff by (intro bexI [of _ "(partitionName (?start i), ?start i, ?start i + 7 * Day)"]) auto
qed

subsection \<open>Examples\<close>

definition stuck_row :: OutboxRow where
  "stuck_row = \<lparr> o_id = 1, o_aggregate_id = 1, o_aggregate_type = ''TRANSACTION'', o_event_type = ''TRANSACTION_CREATED'', o_payload = JStr '''',
     o_shard_index = 0, o_event_version = 1, o_aggregate_version = 1, o_status = OutboxPending, o_created_at = 5, o_next_attempt_at = 5,
     o_attempts = 0, o_locked_at = None, o_last_error = '''' \<rparr>"

definition new_catalogue :: "int \<Rightarrow> partitioned" where
  "new_catalogue now = \<lparr> pn_world = sample_world \<lparr> w_clock := now, w_db := sample_db \<lparr> db_outbox := [stuck_row] \<rparr> \<rparr>,
     pn_attached = [], pn_detached = [], pn_log = [], pn_lock_free = True \<rparr>"

definition weekly :: partition_config where
  "weekly = \<lparr> pc_WeeksAhead = 2, pc_RetentionWeeks = 2, pc_DropAfter = 0 \<rparr>"

lemma new_catalogue_ok: "0 \<le> now \<Longrightarrow> catalogue_ok (new_catalogue now)"
  by (simp add: catalogue_ok_def new_catalogue_def logged_detached_def)

text \<open>The event of the first week is still there after a round twenty weeks later.\<close>

theorem partitions_keep_unpublished_witness:
  "filter to_publish (outbox (snd (partition_RunOnce (New_manager weekly)
     ((snd (partition_RunOnce (New_manager weekly) (new_catalogue 0))) \<lparr> pn_world := pn_world (new_catalogue (140 * Day)), pn_lock_free := True \<rparr>))))
   = [stuck_row]"
proof -
  let ?s1 = "snd (partition_RunOnce (New_manager weekly) (new_catalogue 0))"
  let ?s2 = "?s1 \<lparr> pn_world := pn_world (new_catalogue (140 * Day)), pn_lock_free := True \<rparr>"
  have ok: "catalogue_ok (new_catalogue 0)" by (rule new_catalogue_ok) simp
  from round_steady [OF this, of "{}" weekly] have "w_clock (pn_world ?s1) = 0" by (simp add: steady_def new_catalogue_def)
  then have "partition_step weekly ?s1 ?s2" by (intro partition_step.elsewhere) (simp add: new_catalogue_def)
  then have "(partition_step weekly)\<^sup>*\<^sup>* (new_catalogue 0) ?s2"
    by (rule rtranclp.rtrancl_into_rtrancl [OF r_into_rtranclp [of "partition_step weekly", OF partition_step.round]])
  from partitions_keep_unpublished [OF ok this] show ?thesis by (simp add: new_catalogue_def stuck_row_def to_publish_def)
qed

theorem coming_weeks_partitioned_witness:
  "list_ex (\<lambda>(_, from, to). from \<le> 150 * Day \<and> 150 * Day < to)
     (pn_attached (snd (partition_RunOnce (New_manager weekly) (new_catalogue (140 * Day)))))"
proof -
  have w: "weekStart (140 * Day) = 137 * Day" by (simp add: weekStart_def daysSinceMonday_def Let_def)
  have "default_rows (new_catalogue (140 * Day)) = [stuck_row]" by (simp add: default_rows_def new_catalogue_def)
  then show ?thesis
    by (intro coming_weeks_partitioned new_catalogue_ok)
       (simp_all add: weekly_def, simp_all add: new_catalogue_def w [simplified] stuck_row_def sample_world_def)
qed

end
