(* ===== verification/Gateway_Http.thy ===== *)
theory Gateway_Http
  imports Ports Go_Strings
begin

section \<open>What the gateway adapters share (internal/adapters/gateways)\<close>

text \<open>
  The three adapters (\<open>stripe\<close>, \<open>razorpay\<close>, \<open>fib\<close>) are HTTP clients written in this repository. The
  network and the provider behind it are the parameter \<open>http_net\<close>: whether a request can be built,
  and what comes back for it, given all the requests sent before. An adapter keeps the tenant of
  every transaction it has seen (\<open>txnTenants\<close>), FIB also its access tokens; the requests sent are
  recorded in the order in which they leave.

  JSON documents that arrive are trees (\<open>doc\<close>). A decoder yields a value and whether there was an
  error: \<open>json.Unmarshal\<close> into a struct matches names up to case, skips a field whose value has
  the wrong type, goes on, and reports the error at the end, and some callers use the value in
  spite of it. Of two fields with one name the later counts.
\<close>

subsection \<open>Requests and responses\<close>

datatype doc = DNull | DBool bool | DInt int | DFloat rat | DStr string | DArr "doc list"
  | DObj "(string \<times> doc) list"

datatype http_auth = Basic string string | BearerToken string

datatype http_payload = NoPayload | FormPayload string | JsonPayload json

record out_request =
  oq_Method :: string
  oq_URL :: string
  oq_Auth :: http_auth
  oq_Headers :: "(string \<times> string) list"
  oq_Body :: http_payload

datatype http_result = NetFailure string | ReadFailure string | HttpResponse int "doc option"

record http_net =
  net_build :: "out_request \<Rightarrow> string option"
  net_do :: "out_request list \<Rightarrow> out_request \<Rightarrow> http_result"

record adapter_st =
  ad_txnTenants :: "uuid \<rightharpoonup> uuid"
  ad_tokens :: "string \<rightharpoonup> string \<times> int"
  ad_sent :: "out_request list"
  ad_now :: int

definition new_adapter :: adapter_st where
  "new_adapter = \<lparr> ad_txnTenants = Map.empty, ad_tokens = Map.empty, ad_sent = [], ad_now = 0 \<rparr>"

type_synonym 'a adapt = "(adapter_st, 'a) comp"

subsection \<open>Errors (ports/gateway.go)\<close>

abbreviation ErrorCategoryHardDecline :: string where "ErrorCategoryHardDecline \<equiv> ''hard_decline''"
abbreviation ErrorCategorySoftDecline :: string where "ErrorCategorySoftDecline \<equiv> ''soft_decline''"
abbreviation ErrorCategoryIdempotencyConflict :: string where "ErrorCategoryIdempotencyConflict \<equiv> ''idempotency_conflict''"

definition gw_error :: "string \<Rightarrow> string \<Rightarrow> string \<Rightarrow> go_error" where
  "gw_error cat code msg = GatewayErr \<lparr> ge_Category = cat, ge_Code = code, ge_GatewayCode = '''', ge_GatewayMessage = msg,
     ge_Retryable = (cat = ErrorCategoryNetworkTimeout) \<rparr>"

definition isRetryable :: "string \<Rightarrow> bool" where
  "isRetryable cat \<longleftrightarrow> cat = ErrorCategorySoftDecline \<or> cat = ErrorCategoryNetworkTimeout"

definition not_implemented :: go_error where
  "not_implemented = gw_error ErrorCategoryGatewayError ''not_implemented'' ''manual capture not yet implemented''"

datatype GatewayCancelStatus = GatewayCancelStatusCancelled | GatewayCancelStatusFailed | GatewayCancelStatusNotSupported

record GatewayCancelRequest =
  gxr_TransactionID :: uuid
  gxr_TenantID :: uuid
  gxr_GatewayReferenceID :: string
  gxr_IdempotencyKey :: string

record GatewayCapabilities =
  SupportsCancel :: bool
  SupportsPartialRefund :: bool
  SupportsManualCapture :: bool
  IdempotencyCapable :: bool
  SupportedPaymentMethods :: "string list"
  SupportedCurrencies :: "string list"

subsection \<open>Inbound webhooks (ports/gateway.go)\<close>

abbreviation ErrWebhookSignature :: go_error where
  "ErrWebhookSignature \<equiv> Sentinel ''gateway: webhook signature verification failed''"
abbreviation ErrWebhookParse :: go_error where
  "ErrWebhookParse \<equiv> Sentinel ''gateway: webhook payload could not be parsed''"

text \<open>\<open>http.Header\<close> after \<open>headerMap\<close>: a missing header reads as the empty string.\<close>

type_synonym headers = "string \<Rightarrow> string"

subsection \<open>Sending\<close>

text \<open>The middle part of every \<open>do\<close>: build the request, send it, read the body. FIB's token request
  differs in the prefix of its error codes.\<close>

definition send :: "http_net \<Rightarrow> string \<Rightarrow> out_request \<Rightarrow> (int \<times> doc option) adapt" where
  "send net prefix req = (case net_build net req of
       Some msg \<Rightarrow> throw (gw_error ErrorCategoryGatewayError (prefix @ ''request_build_error'') msg)
     | None \<Rightarrow> bindE (reading ad_sent) (\<lambda>sent. bindE (changing (\<lambda>a. a \<lparr> ad_sent := sent @ [req] \<rparr>)) (\<lambda>_.
         case net_do net sent req of
           NetFailure msg \<Rightarrow> throw (gw_error ErrorCategoryNetworkTimeout (prefix @ ''network_error'') msg)
         | ReadFailure msg \<Rightarrow> throw (gw_error ErrorCategoryNetworkTimeout (prefix @ ''read_error'') msg)
         | HttpResponse status body \<Rightarrow> ok (status, body))))"

text \<open>\<open>resolveTenant\<close>, the same in the three adapters.\<close>

definition resolveTenant :: "(uuid \<Rightarrow> go_error + 'cfg) \<Rightarrow> uuid \<Rightarrow> uuid \<Rightarrow> 'cfg adapt" where
  "resolveTenant resolve tenantID txnID =
    (if tenantID = uuid_Nil
     then bindE (reading (\<lambda>a. ad_txnTenants a txnID)) (\<lambda>v. case v of
            None \<Rightarrow> throw (gw_error ErrorCategoryGatewayError ''tenant_not_cached'' ''tenant for transaction not found'')
          | Some t \<Rightarrow> lift (resolve t))
     else bindE (changing (\<lambda>a. a \<lparr> ad_txnTenants := (ad_txnTenants a)(txnID \<mapsto> tenantID) \<rparr>)) (\<lambda>_. lift (resolve tenantID)))"

text \<open>How \<open>InitiatePayment\<close> begins.\<close>

definition initiate_tenant :: "(uuid \<Rightarrow> go_error + 'cfg) \<Rightarrow> uuid \<Rightarrow> uuid \<Rightarrow> 'cfg adapt" where
  "initiate_tenant resolve tenantID txnID = (case resolve tenantID of
       Inl e \<Rightarrow> throw (gw_error ErrorCategoryGatewayError ''config_resolve_error'' (err_msg e))
     | Inr tc \<Rightarrow> bindE (changing (\<lambda>a. a \<lparr> ad_txnTenants := (ad_txnTenants a)(txnID \<mapsto> tenantID) \<rparr>)) (\<lambda>_. ok tc))"

subsection \<open>Decoding\<close>

type_synonym 'a decoder = "doc option \<Rightarrow> 'a \<times> bool"

definition field :: "string \<Rightarrow> (string \<times> doc) list \<Rightarrow> doc option" where
  "field name fs = (case filter (\<lambda>(k, _). EqualFold k name) fs of [] \<Rightarrow> None | x # xs \<Rightarrow> Some (snd (last (x # xs))))"

fun dec_fields :: "(string \<times> doc) list decoder" where
  "dec_fields (Some (DObj fs)) = (fs, True)"
| "dec_fields (Some DNull) = ([], True)"
| "dec_fields None = ([], True)"
| "dec_fields _ = ([], False)"

fun dec_str :: "string decoder" where
  "dec_str (Some (DStr s)) = (s, True)"
| "dec_str (Some DNull) = ('''', True)"
| "dec_str None = ('''', True)"
| "dec_str _ = ('''', False)"

fun dec_int :: "int decoder" where
  "dec_int (Some (DInt n)) = (if in64 n then (n, True) else (0, False))"
| "dec_int (Some DNull) = (0, True)"
| "dec_int None = (0, True)"
| "dec_int _ = (0, False)"

fun dec_bool :: "bool decoder" where
  "dec_bool (Some (DBool b)) = (b, True)"
| "dec_bool (Some DNull) = (False, True)"
| "dec_bool None = (False, True)"
| "dec_bool _ = (False, False)"

fun dec_float :: "rat decoder" where
  "dec_float (Some (DInt n)) = (of_int n, True)"
| "dec_float (Some (DFloat x)) = (x, True)"
| "dec_float (Some DNull) = (0, True)"
| "dec_float None = (0, True)"
| "dec_float _ = (0, False)"

text \<open>A pointer stays \<open>nil\<close> only for an absent field or \<open>null\<close>.\<close>

definition dec_ptr :: "'a decoder \<Rightarrow> 'a option decoder" where
  "dec_ptr d x = (case x of None \<Rightarrow> (None, True) | Some DNull \<Rightarrow> (None, True)
     | Some v \<Rightarrow> (case d (Some v) of (a, good) \<Rightarrow> (Some a, good)))"

definition dec_list :: "'a decoder \<Rightarrow> 'a list decoder" where
  "dec_list d x = (case x of Some (DArr vs) \<Rightarrow> (map (\<lambda>v. fst (d (Some v))) vs, list_all (\<lambda>v. snd (d (Some v))) vs)
     | None \<Rightarrow> ([], True) | Some DNull \<Rightarrow> ([], True) | _ \<Rightarrow> ([], False))"

definition dec_str_map :: "(string \<times> string) list decoder" where
  "dec_str_map x = (case dec_fields x of (fs, good) \<Rightarrow>
     (map (\<lambda>(k, v). (k, fst (dec_str (Some v)))) fs, good \<and> list_all (\<lambda>(_, v). snd (dec_str (Some v))) fs))"

text \<open>The whole body: what is no JSON document leaves the value at zero.\<close>

definition Unmarshal :: "'a decoder \<Rightarrow> doc option \<Rightarrow> 'a \<times> bool" where
  "Unmarshal d data = (case data of None \<Rightarrow> (fst (d None), False) | Some v \<Rightarrow> d (Some v))"

definition decoded :: "'a decoder \<Rightarrow> doc option \<Rightarrow> 'a adapt" where
  "decoded d data = (case Unmarshal d data of
     (v, good) \<Rightarrow> if good then ok v else throw (gw_error ErrorCategoryGatewayError ''decode_error'' ''json''))"

text \<open>A Go map filled in order.\<close>

definition put_key :: "'k \<Rightarrow> 'v \<Rightarrow> ('k \<times> 'v) list \<Rightarrow> ('k \<times> 'v) list" where
  "put_key k v m = filter (\<lambda>(k', _). k' \<noteq> k) m @ [(k, v)]"

subsection \<open>Lemmas\<close>

text \<open>What one \<open>send\<close> does to the record of requests, whatever the outcome.\<close>

definition sends_only :: "(out_request \<Rightarrow> bool) \<Rightarrow> 'a adapt \<Rightarrow> bool" where
  "sends_only P m \<longleftrightarrow> (\<forall>a. \<exists>new. ad_sent (snd (m a)) = ad_sent a @ new \<and> list_all P new)"

named_theorems sending \<open>rules for the requests a computation sends\<close>

lemma sends_only_ok [sending]: "sends_only P (ok x)"
  by (simp add: sends_only_def ok_def)

lemma sends_only_throw [sending]: "sends_only P (throw e)"
  by (simp add: sends_only_def throw_def)

lemma sends_only_lift [sending]: "sends_only P (lift r)"
  by (simp add: sends_only_def lift_def)

lemma sends_only_reading [sending]: "sends_only P (reading f)"
  by (simp add: sends_only_def reading_def)

lemma sends_only_changing [sending]: "(\<And>a. ad_sent (f a) = ad_sent a) \<Longrightarrow> sends_only P (changing f)"
  by (simp add: sends_only_def changing_def)

lemma sends_only_bindE [sending]:
  assumes "sends_only P m" "\<And>x. sends_only P (f x)"
  shows "sends_only P (bindE m f)"
  unfolding sends_only_def
proof
  fix a
  obtain new where new: "ad_sent (snd (m a)) = ad_sent a @ new" "list_all P new"
    using assms(1) unfolding sends_only_def by blast
  obtain r a1 where m: "m a = (r, a1)" by (cases "m a")
  show "\<exists>new. ad_sent (snd (bindE m f a)) = ad_sent a @ new \<and> list_all P new"
  proof (cases r)
    case Inl
    with m new show ?thesis by (auto simp: bindE_def)
  next
    case (Inr x)
    obtain new' where "ad_sent (snd (f x a1)) = ad_sent a1 @ new'" "list_all P new'"
      using assms(2) [of x] unfolding sends_only_def by blast
    with m new Inr show ?thesis by (intro exI [of _ "new @ new'"]) (simp add: bindE_def)
  qed
qed

lemma sends_only_if [sending]: "(b \<Longrightarrow> sends_only P m) \<Longrightarrow> (\<not> b \<Longrightarrow> sends_only P m') \<Longrightarrow> sends_only P (if b then m else m')"
  by simp

lemma sends_only_option [sending]:
  "(x = None \<Longrightarrow> sends_only P m) \<Longrightarrow> (\<And>y. x = Some y \<Longrightarrow> sends_only P (f y)) \<Longrightarrow>
   sends_only P (case x of None \<Rightarrow> m | Some y \<Rightarrow> f y)"
  by (cases x) simp_all

lemma sends_only_sum [sending]:
  "(\<And>e. x = Inl e \<Longrightarrow> sends_only P (g e)) \<Longrightarrow> (\<And>y. x = Inr y \<Longrightarrow> sends_only P (f y)) \<Longrightarrow>
   sends_only P (case x of Inl e \<Rightarrow> g e | Inr y \<Rightarrow> f y)"
  by (cases x) simp_all

lemma sends_only_prod [sending]: "(\<And>a b. x = (a, b) \<Longrightarrow> sends_only P (f a b)) \<Longrightarrow> sends_only P (case x of (a, b) \<Rightarrow> f a b)"
  by (cases x) simp

lemma sends_only_send [sending]: "P req \<Longrightarrow> sends_only P (send net prefix req)"
  by (auto simp: sends_only_def send_def bindE_def reading_def changing_def throw_def ok_def
      split: option.splits http_result.splits)

lemma sends_only_decoded [sending]: "sends_only P (decoded d data)"
  by (simp add: decoded_def sends_only_ok sends_only_throw split: prod.splits)

text \<open>Answers of an adapter satisfy \<open>R\<close> and its errors \<open>E\<close>, from every state.\<close>

definition yields :: "('a \<Rightarrow> bool) \<Rightarrow> (go_error \<Rightarrow> bool) \<Rightarrow> 'a adapt \<Rightarrow> bool" where
  "yields R E m \<longleftrightarrow> (\<forall>a. case fst (m a) of Inl e \<Rightarrow> E e | Inr x \<Rightarrow> R x)"

named_theorems yielding \<open>rules for the answers of an adapter\<close>

lemma yields_ok [yielding]: "R x \<Longrightarrow> yields R E (ok x)"
  by (simp add: yields_def ok_def)

lemma yields_throw [yielding]: "E e \<Longrightarrow> yields R E (throw e)"
  by (simp add: yields_def throw_def)

lemma yields_reading: "yields (\<lambda>_. True) E (reading f)"
  by (simp add: yields_def reading_def)

lemma yields_changing: "yields (\<lambda>_. True) E (changing f)"
  by (simp add: yields_def changing_def)

lemma yields_bindE: "yields S E m \<Longrightarrow> (\<And>x. S x \<Longrightarrow> yields R E (f x)) \<Longrightarrow> yields R E (bindE m f)"
proof -
  assume m: "yields S E m" and f: "\<And>x. S x \<Longrightarrow> yields R E (f x)"
  show ?thesis unfolding yields_def
  proof
    fix a
    obtain r a1 where r: "m a = (r, a1)" by (cases "m a")
    with m have "case r of Inl e \<Rightarrow> E e | Inr x \<Rightarrow> S x" unfolding yields_def by (metis fst_conv)
    then show "case fst (bindE m f a) of Inl e \<Rightarrow> E e | Inr x \<Rightarrow> R x"
      using f r unfolding yields_def by (cases r) (simp_all add: bindE_def)
  qed
qed

lemmas yields_then [yielding] = yields_bindE [OF yields_reading] yields_bindE [OF yields_changing]

lemma yields_if [yielding]: "(b \<Longrightarrow> yields R E m) \<Longrightarrow> (\<not> b \<Longrightarrow> yields R E m') \<Longrightarrow> yields R E (if b then m else m')"
  by simp

lemma yields_option [yielding]:
  "(x = None \<Longrightarrow> yields R E m) \<Longrightarrow> (\<And>y. x = Some y \<Longrightarrow> yields R E (f y)) \<Longrightarrow> yields R E (case x of None \<Rightarrow> m | Some y \<Rightarrow> f y)"
  by (cases x) simp_all

lemma yields_prod [yielding]: "(\<And>a b. x = (a, b) \<Longrightarrow> yields R E (f a b)) \<Longrightarrow> yields R E (case x of (a, b) \<Rightarrow> f a b)"
  by (cases x) simp

lemma yields_sum [yielding]:
  "(\<And>e. x = Inl e \<Longrightarrow> yields R E (g e)) \<Longrightarrow> (\<And>y. x = Inr y \<Longrightarrow> yields R E (f y)) \<Longrightarrow>
   yields R E (case x of Inl e \<Rightarrow> g e | Inr y \<Rightarrow> f y)"
  by (cases x) simp_all

text \<open>An adapter's own errors carry a category other than \<open>ambiguous\<close> and are marked retryable exactly for
  the transient categories; an error of the configuration is passed through.\<close>

fun classified :: "go_error \<Rightarrow> bool" where
  "classified (GatewayErr g) \<longleftrightarrow> ge_Category g \<noteq> ErrorCategoryAmbiguous \<and> ge_Retryable g = isRetryable (ge_Category g)"
| "classified _ \<longleftrightarrow> True"

lemma classified_gw_error [simp]:
  "cat = ErrorCategoryGatewayError \<or> cat = ErrorCategoryNetworkTimeout \<Longrightarrow> classified (gw_error cat code msg)"
  by (auto simp: gw_error_def isRetryable_def)

lemma yields_send: "yields (\<lambda>_. True) classified (send net prefix req)"
  unfolding send_def by (auto intro!: yielding split: http_result.splits)

lemma yields_decoded: "yields (\<lambda>_. True) classified (decoded d data)"
  unfolding decoded_def by (auto intro!: yielding split: prod.splits)

lemmas yields_after [yielding] = yields_bindE [OF yields_send] yields_bindE [OF yields_decoded]

end
