(* ===== verification/Stripe.thy ===== *)
theory Stripe
  imports Gateway_Http Disputes Reconciliation
begin

section \<open>The Stripe adapter (internal/adapters/gateways/stripe)\<close>

text \<open>
  \<open>stripe.go\<close>, \<open>webhook.go\<close>, \<open>settlement.go\<close> and \<open>types.go\<close>. The fields \<open>ClientSecret\<close>, \<open>NextAction\<close> and
  \<open>GatewayFees\<close> of a payment response are read by no service and are left out of it; the metadata
  that repeats the first two is kept. SHA-256, HMAC and the JSON reader are the parameter \<open>codec\<close>:
  \<open>cd_hmac\<close> takes the key first, \<open>cd_json\<close> is \<open>json.Unmarshal\<close>'s reader and yields no document for
  malformed text, \<open>cd_stream\<close> is the first value that a \<open>json.Decoder\<close> reads, \<open>cd_text\<close> prints a value.
\<close>

record codec =
  cd_sha256 :: "string \<Rightarrow> string"
  cd_hmac :: "string \<Rightarrow> string \<Rightarrow> string"
  cd_json :: "string \<Rightarrow> doc option"
  cd_stream :: "string \<Rightarrow> doc option"
  cd_text :: "doc \<Rightarrow> string"
  cd_uuid :: "uuid \<Rightarrow> string"

record GatewayWebhookEvent =
  gwe_EventID :: string
  gwe_GatewayReferenceID :: string
  gwe_Status :: GatewayPaymentStatus
  gwe_EventType :: string
  gwe_GatewayMetadata :: "(string \<times> json) list"
  gwe_Dispute :: "GatewayDisputeEvent option"

subsection \<open>Documents of the provider (types.go)\<close>

record stripe_TenantConfig =
  stc_APIKey :: string
  stc_BaseURL :: string
  stc_PublishableKey :: string

record stripeError =
  ser_Type :: string
  ser_Code :: string
  ser_DeclineCode :: string
  ser_Message :: string

record stripeCardDetails =
  scd_Brand :: string
  scd_Last4 :: string
  scd_Network :: string

record stripeCharge =
  sch_ID :: string
  sch_Card :: "stripeCardDetails option option"

record stripeNextAction =
  sna_Type :: string
  sna_RedirectToURL :: "string option"

record stripePaymentIntent =
  spi_ID :: string
  spi_Status :: string
  spi_Amount :: int
  spi_Currency :: string
  spi_ClientSecret :: string
  spi_Metadata :: "(string \<times> string) list"
  spi_LastPaymentError :: "stripeError option"
  spi_LatestCharge :: "doc option"
  spi_Charges :: "stripeCharge list option"
  spi_NextAction :: "stripeNextAction option"

record stripeRefund =
  srf_ID :: string
  srf_Status :: string
  srf_Amount :: int
  srf_Currency :: string

definition dec_stripeError :: "stripeError decoder" where
  "dec_stripeError x = (case dec_fields x of (fs, g) \<Rightarrow>
     let (t, g1) = dec_str (field ''type'' fs); (c, g2) = dec_str (field ''code'' fs);
         (d, g3) = dec_str (field ''decline_code'' fs); (m, g4) = dec_str (field ''message'' fs)
     in (\<lparr> ser_Type = t, ser_Code = c, ser_DeclineCode = d, ser_Message = m \<rparr>, g \<and> g1 \<and> g2 \<and> g3 \<and> g4))"

definition dec_stripeErrorEnvelope :: "stripeError option decoder" where
  "dec_stripeErrorEnvelope x = (case dec_fields x of (fs, g) \<Rightarrow>
     case dec_ptr dec_stripeError (field ''error'' fs) of (e, g1) \<Rightarrow> (e, g \<and> g1))"

definition dec_card :: "stripeCardDetails decoder" where
  "dec_card x = (case dec_fields x of (fs, g) \<Rightarrow>
     let (b, g1) = dec_str (field ''brand'' fs); (l, g2) = dec_str (field ''last4'' fs); (n, g3) = dec_str (field ''network'' fs)
     in (\<lparr> scd_Brand = b, scd_Last4 = l, scd_Network = n \<rparr>, g \<and> g1 \<and> g2 \<and> g3))"

definition dec_paymentMethod :: "stripeCardDetails option decoder" where
  "dec_paymentMethod x = (case dec_fields x of (fs, g) \<Rightarrow>
     case dec_ptr dec_card (field ''card'' fs) of (c, g1) \<Rightarrow> (c, g \<and> g1))"

definition dec_charge :: "stripeCharge decoder" where
  "dec_charge x = (case dec_fields x of (fs, g) \<Rightarrow>
     let (i, g1) = dec_str (field ''id'' fs); (m, g2) = dec_ptr dec_paymentMethod (field ''payment_method_details'' fs)
     in (\<lparr> sch_ID = i, sch_Card = m \<rparr>, g \<and> g1 \<and> g2))"

definition dec_redirect :: "string decoder" where
  "dec_redirect x = (case dec_fields x of (fs, g) \<Rightarrow> case dec_str (field ''url'' fs) of (u, g1) \<Rightarrow> (u, g \<and> g1))"

definition dec_nextAction :: "stripeNextAction decoder" where
  "dec_nextAction x = (case dec_fields x of (fs, g) \<Rightarrow>
     let (t, g1) = dec_str (field ''type'' fs); (u, g2) = dec_ptr dec_redirect (field ''redirect_to_url'' fs)
     in (\<lparr> sna_Type = t, sna_RedirectToURL = u \<rparr>, g \<and> g1 \<and> g2))"

definition dec_chargeList :: "stripeCharge list decoder" where
  "dec_chargeList x = (case dec_fields x of (fs, g) \<Rightarrow>
     case dec_list dec_charge (field ''data'' fs) of (cs, g1) \<Rightarrow> (cs, g \<and> g1))"

definition dec_paymentIntent :: "stripePaymentIntent decoder" where
  "dec_paymentIntent x = (case dec_fields x of (fs, g) \<Rightarrow>
     let (i, g1) = dec_str (field ''id'' fs); (s, g2) = dec_str (field ''status'' fs); (a, g3) = dec_int (field ''amount'' fs);
         (c, g4) = dec_str (field ''currency'' fs); (k, g5) = dec_str (field ''client_secret'' fs);
         (m, g6) = dec_str_map (field ''metadata'' fs); (e, g7) = dec_ptr dec_stripeError (field ''last_payment_error'' fs);
         (l, g8) = dec_ptr dec_chargeList (field ''charges'' fs); (n, g9) = dec_ptr dec_nextAction (field ''next_action'' fs)
     in (\<lparr> spi_ID = i, spi_Status = s, spi_Amount = a, spi_Currency = c, spi_ClientSecret = k, spi_Metadata = m,
           spi_LastPaymentError = e, spi_LatestCharge = field ''latest_charge'' fs, spi_Charges = l, spi_NextAction = n \<rparr>,
         g \<and> g1 \<and> g2 \<and> g3 \<and> g4 \<and> g5 \<and> g6 \<and> g7 \<and> g8 \<and> g9))"

definition dec_stripeRefund :: "stripeRefund decoder" where
  "dec_stripeRefund x = (case dec_fields x of (fs, g) \<Rightarrow>
     let (i, g1) = dec_str (field ''id'' fs); (s, g2) = dec_str (field ''status'' fs); (a, g3) = dec_int (field ''amount'' fs);
         (c, g4) = dec_str (field ''currency'' fs)
     in (\<lparr> srf_ID = i, srf_Status = s, srf_Amount = a, srf_Currency = c \<rparr>, g \<and> g1 \<and> g2 \<and> g3 \<and> g4))"

text \<open>An expandable field counts only as an object that decodes; a plain identifier does not.\<close>

definition decodeExpanded :: "'a decoder \<Rightarrow> doc option \<Rightarrow> 'a option" where
  "decodeExpanded d raw = (case raw of
     Some (DObj fs) \<Rightarrow> (case d (Some (DObj fs)) of (v, good) \<Rightarrow> if good then Some v else None) | _ \<Rightarrow> None)"

subsection \<open>Pure parts of stripe.go\<close>

definition stripe_Capabilities :: GatewayCapabilities where
  "stripe_Capabilities = \<lparr> SupportsCancel = True, SupportsPartialRefund = True, SupportsManualCapture = False,
     IdempotencyCapable = True, SupportedPaymentMethods = [PaymentMethodCard],
     SupportedCurrencies = [''USD'', ''EUR'', ''GBP'', ''BDT''] \<rparr>"

definition deriveIdempotencyKey :: "codec \<Rightarrow> uuid \<Rightarrow> int \<Rightarrow> string" where
  "deriveIdempotencyKey cd i attemptNumber =
     (let key = hex_EncodeToString (cd_sha256 cd (cd_uuid cd i @ '':'' @ FormatInt attemptNumber))
      in if length key > 255 then take 255 key else key)"

definition latestCharge :: "stripePaymentIntent \<Rightarrow> stripeCharge option" where
  "latestCharge intent = (case decodeExpanded dec_charge (spi_LatestCharge intent) of
       Some c \<Rightarrow> Some c
     | None \<Rightarrow> (case spi_Charges intent of Some (c # cs) \<Rightarrow> Some c | _ \<Rightarrow> None))"

definition stripe_mapPaymentStatus :: "stripePaymentIntent \<Rightarrow> GatewayPaymentStatus" where
  "stripe_mapPaymentStatus intent =
    (if spi_LastPaymentError intent \<noteq> None then GatewayPaymentStatusFailed
     else if spi_Status intent = ''succeeded'' then GatewayPaymentStatusSucceeded
     else if spi_Status intent = ''processing'' then GatewayPaymentStatusProcessing
     else if spi_Status intent = ''canceled'' then GatewayPaymentStatusCancelled
     else GatewayPaymentStatusPending)"

definition stripe_mapRefundStatus :: "string \<Rightarrow> GatewayRefundStatus" where
  "stripe_mapRefundStatus s =
    (if s = ''succeeded'' then GatewayRefundStatusCompleted
     else if s = ''pending'' then GatewayRefundStatusProcessing
     else if s = ''failed'' \<or> s = ''canceled'' then GatewayRefundStatusFailed
     else GatewayRefundStatusProcessing)"

definition stripe_classifyError :: "string \<Rightarrow> string \<Rightarrow> string \<Rightarrow> string" where
  "stripe_classifyError errType code declineCode =
    (if errType = ''card_error''
     then if declineCode \<in> set [''insufficient_funds'', ''try_again_later'', ''processing_error'', ''issuer_not_available'']
          then ErrorCategorySoftDecline else ErrorCategoryHardDecline
     else if errType \<in> set [''rate_limit_error'', ''api_connection_error''] then ErrorCategoryNetworkTimeout
     else if errType = ''idempotency_error'' then ErrorCategoryIdempotencyConflict
     else ErrorCategoryGatewayError)"

definition next_action_meta :: "stripeNextAction \<Rightarrow> json" where
  "next_action_meta na = JObj [(''type'', JStr (sna_Type na)),
     (''redirect_url'', JStr (case sna_RedirectToURL na of None \<Rightarrow> '''' | Some u \<Rightarrow> u))]"

definition stripe_toPaymentResponse :: "stripePaymentIntent \<Rightarrow> stripe_TenantConfig \<Rightarrow> GatewayPaymentResponse" where
  "stripe_toPaymentResponse intent tc =
    (let m0 = map (\<lambda>(k, v). (k, JStr v)) (spi_Metadata intent);
         m1 = (if spi_ClientSecret intent \<noteq> '''' then put_key ''client_secret'' (JStr (spi_ClientSecret intent)) m0 else m0);
         m2 = (if stc_PublishableKey tc \<noteq> '''' then put_key ''publishable_key'' (JStr (stc_PublishableKey tc)) m1 else m1);
         m3 = (case spi_NextAction intent of None \<Rightarrow> m2 | Some na \<Rightarrow> put_key ''next_action'' (next_action_meta na) m2)
     in \<lparr> gp_GatewayReferenceID = spi_ID intent, gp_Status = stripe_mapPaymentStatus intent, gp_RespAmount = spi_Amount intent,
          gp_RespCurrency = ToUpper (spi_Currency intent),
          gp_ErrorCode = (case spi_LastPaymentError intent of None \<Rightarrow> '''' | Some e \<Rightarrow> firstNonEmpty [ser_DeclineCode e, ser_Code e]),
          gp_ErrorMessage = (case spi_LastPaymentError intent of None \<Rightarrow> '''' | Some e \<Rightarrow> ser_Message e),
          gp_MethodResponse = (case latestCharge intent of
              Some c \<Rightarrow> (case sch_Card c of
                  Some (Some details) \<Rightarrow> GatewayCardResponse \<lparr> cd_CardBrand = scd_Brand details, cd_Last4 = scd_Last4 details,
                    cd_Network = scd_Network details, cd_RiskScore = 0, cd_AuthCode = '''' \<rparr>
                | _ \<Rightarrow> NoMethodResponse)
            | None \<Rightarrow> NoMethodResponse),
          gp_GatewayMetadata = m3 \<rparr>)"

subsection \<open>Calls (stripe.go)\<close>

definition stripe_error :: "doc option \<Rightarrow> go_error" where
  "stripe_error data = (let se = (case fst (Unmarshal dec_stripeErrorEnvelope data) of Some e \<Rightarrow> e
         | None \<Rightarrow> \<lparr> ser_Type = ''api_error'', ser_Code = '''', ser_DeclineCode = '''', ser_Message = ''unknown gateway error'' \<rparr>);
         cat = stripe_classifyError (ser_Type se) (ser_Code se) (ser_DeclineCode se)
     in GatewayErr \<lparr> ge_Category = cat, ge_Code = cat,
          ge_GatewayCode = firstNonEmpty [ser_DeclineCode se, ser_Code se, ser_Type se],
          ge_GatewayMessage = ser_Message se, ge_Retryable = isRetryable cat \<rparr>)"

definition stripe_request :: "stripe_TenantConfig \<Rightarrow> string \<Rightarrow> string \<Rightarrow> (string \<times> string) list option \<Rightarrow> string \<Rightarrow> out_request" where
  "stripe_request tc method path form idemKey =
     \<lparr> oq_Method = method,
       oq_URL = (if stc_BaseURL tc = '''' then ''https://api.stripe.com'' else stc_BaseURL tc) @ path,
       oq_Auth = Basic (stc_APIKey tc) '''',
       oq_Headers = (if form \<noteq> None then [(''Content-Type'', ''application/x-www-form-urlencoded'')] else []) @
         (if idemKey \<noteq> '''' then [(''Idempotency-Key'', idemKey)] else []),
       oq_Body = (case form of None \<Rightarrow> NoPayload | Some f \<Rightarrow> FormPayload (Values_Encode f)) \<rparr>"

definition stripe_do :: "http_net \<Rightarrow> stripe_TenantConfig \<Rightarrow> string \<Rightarrow> string \<Rightarrow> (string \<times> string) list option \<Rightarrow> string \<Rightarrow> 'a decoder \<Rightarrow> 'a adapt" where
  "stripe_do net tc method path form idemKey dec =
     bindE (send net '''' (stripe_request tc method path form idemKey)) (\<lambda>(status, data).
       if status \<ge> 400 then throw (stripe_error data) else decoded dec data)"

definition expand :: "(string \<times> string) list" where
  "expand = [(''expand[]'', ''latest_charge''), (''expand[]'', ''latest_charge.balance_transaction'')]"

definition initiate_form :: "codec \<Rightarrow> GatewayPaymentRequest \<Rightarrow> (string \<times> string) list" where
  "initiate_form cd req = [(''amount'', FormatInt (gpr_Amount req)), (''currency'', ToLower (gpr_Currency req))] @
     (if gpr_Description req \<noteq> '''' then [(''description'', gpr_Description req)] else []) @
     (if gpr_CustomerEmail req \<noteq> '''' then [(''receipt_email'', gpr_CustomerEmail req)] else []) @
     [(''metadata[transaction_id]'', cd_uuid cd (gpr_TransactionID req))] @ expand"

definition stripe_InitiatePayment :: "http_net \<Rightarrow> codec \<Rightarrow> (uuid \<Rightarrow> go_error + stripe_TenantConfig) \<Rightarrow> GatewayPaymentRequest \<Rightarrow> GatewayPaymentResponse adapt" where
  "stripe_InitiatePayment net cd resolve req =
     bindE (initiate_tenant resolve (gpr_TenantID req) (gpr_TransactionID req)) (\<lambda>tc.
     let idem = (if gpr_IdempotencyKey req = '''' then deriveIdempotencyKey cd (gpr_TransactionID req) (gpr_AttemptNumber req)
                 else gpr_IdempotencyKey req)
     in bindE (stripe_do net tc ''POST'' ''/v1/payment_intents'' (Some (initiate_form cd req)) idem dec_paymentIntent) (\<lambda>intent.
        ok (stripe_toPaymentResponse intent tc)))"

definition stripe_CheckStatus :: "http_net \<Rightarrow> (uuid \<Rightarrow> go_error + stripe_TenantConfig) \<Rightarrow> GatewayStatusRequest \<Rightarrow> GatewayPaymentResponse adapt" where
  "stripe_CheckStatus net resolve req =
     bindE (resolveTenant resolve (gsr_TenantID req) (gsr_TransactionID req)) (\<lambda>tc.
     bindE (stripe_do net tc ''GET'' (''/v1/payment_intents/'' @ PathEscape (gsr_GatewayReferenceID req) @ ''?'' @ Values_Encode expand)
              None '''' dec_paymentIntent) (\<lambda>intent. ok (stripe_toPaymentResponse intent tc)))"

definition stripe_Refund :: "http_net \<Rightarrow> codec \<Rightarrow> (uuid \<Rightarrow> go_error + stripe_TenantConfig) \<Rightarrow> GatewayRefundRequest \<Rightarrow> GatewayRefundResponse adapt" where
  "stripe_Refund net cd resolve req =
     bindE (resolveTenant resolve (grr_TenantID req) (grr_TransactionID req)) (\<lambda>tc.
     let idem = (if grr_IdempotencyKey req = '''' then deriveIdempotencyKey cd (grr_RefundID req) 0 else grr_IdempotencyKey req);
         form = [(''payment_intent'', grr_GatewayReferenceID req)] @
           (if grr_Amount req > 0 then [(''amount'', FormatInt (grr_Amount req))] else []) @
           (if grr_Reason req \<noteq> '''' then [(''metadata[reason]'', grr_Reason req)] else [])
     in bindE (stripe_do net tc ''POST'' ''/v1/refunds'' (Some form) idem dec_stripeRefund) (\<lambda>rf.
        ok \<lparr> gr_GatewayRefundID = srf_ID rf, gr_Status = stripe_mapRefundStatus (srf_Status rf), gr_Amount = srf_Amount rf,
             gr_Currency = ToUpper (srf_Currency rf) \<rparr>))"

definition stripe_Cancel :: "http_net \<Rightarrow> (uuid \<Rightarrow> go_error + stripe_TenantConfig) \<Rightarrow> GatewayCancelRequest \<Rightarrow> GatewayCancelStatus adapt" where
  "stripe_Cancel net resolve req =
     bindE (resolveTenant resolve (gxr_TenantID req) (gxr_TransactionID req)) (\<lambda>tc.
     bindE (stripe_do net tc ''POST'' (''/v1/payment_intents/'' @ PathEscape (gxr_GatewayReferenceID req) @ ''/cancel'') (Some [])
              (gxr_IdempotencyKey req) dec_paymentIntent) (\<lambda>intent.
     ok (if spi_Status intent = ''canceled'' then GatewayCancelStatusCancelled else GatewayCancelStatusFailed)))"

definition stripe_CapturePayment :: "GatewayCaptureRequest \<Rightarrow> GatewayCaptureResponse adapt" where
  "stripe_CapturePayment req = throw not_implemented"

subsection \<open>Settlement (settlement.go)\<close>

record balanceTransaction =
  bt_ID :: string
  bt_Amount :: int
  bt_Fee :: int
  bt_Type :: string
  bt_Created :: int
  bt_PaymentIntent :: string
  bt_ExchangeRate :: "rat option"

definition dec_balanceTransaction :: "balanceTransaction decoder" where
  "dec_balanceTransaction x = (case dec_fields x of (fs, g) \<Rightarrow>
     let (i, g1) = dec_str (field ''id'' fs); (a, g2) = dec_int (field ''amount'' fs); (f, g3) = dec_int (field ''fee'' fs);
         (t, g4) = dec_str (field ''type'' fs); (c, g5) = dec_int (field ''created'' fs);
         (p, g6) = dec_str (field ''payment_intent'' fs); (r, g7) = dec_ptr dec_float (field ''exchange_rate'' fs);
         (_, g8) = dec_str (field ''currency'' fs)
     in (\<lparr> bt_ID = i, bt_Amount = a, bt_Fee = f, bt_Type = t, bt_Created = c, bt_PaymentIntent = p, bt_ExchangeRate = r \<rparr>,
         g \<and> g1 \<and> g2 \<and> g3 \<and> g4 \<and> g5 \<and> g6 \<and> g7 \<and> g8))"

definition dec_balancePage :: "(balanceTransaction list \<times> bool) decoder" where
  "dec_balancePage x = (case dec_fields x of (fs, g) \<Rightarrow>
     let (ds, g1) = dec_list dec_balanceTransaction (field ''data'' fs); (m, g2) = dec_bool (field ''has_more'' fs)
     in ((ds, m), g \<and> g1 \<and> g2))"

text \<open>\<open>t.Unix()\<close> of an instant in nanoseconds.\<close>

definition unix :: "int \<Rightarrow> int" where
  "unix t = t div Second"

definition settlement_query :: "int \<Rightarrow> int \<Rightarrow> string \<Rightarrow> (string \<times> string) list" where
  "settlement_query start fin after = [(''created[gte]'', FormatInt (unix start)), (''created[lte]'', FormatInt (unix fin)), (''limit'', ''100'')] @
     (if after \<noteq> '''' then [(''starting_after'', after)] else [])"

text \<open>The loop \<open>for range 100\<close>: \<open>n\<close> rounds are left.\<close>

primrec balance_pages :: "nat \<Rightarrow> http_net \<Rightarrow> stripe_TenantConfig \<Rightarrow> int \<Rightarrow> int \<Rightarrow> string \<Rightarrow> balanceTransaction list \<Rightarrow> balanceTransaction list adapt" where
  "balance_pages 0 net tc start fin after acc = ok acc"
| "balance_pages (Suc n) net tc start fin after acc =
     bindE (stripe_do net tc ''GET'' (''/v1/balance_transactions?'' @ Values_Encode (settlement_query start fin after)) None ''''
              dec_balancePage) (\<lambda>(items, more_pages).
       if \<not> more_pages \<or> items = [] then ok (acc @ items)
       else balance_pages n net tc start fin (bt_ID (last items)) (acc @ items))"

definition balance_entry :: "balanceTransaction \<Rightarrow> SettlementEntry" where
  "balance_entry bt = \<lparr> se_TransactionRef = bt_PaymentIntent bt, se_GatewayStatus = ''succeeded'', se_GatewayAmount = bt_Amount bt,
     se_GatewayFees = Some (bt_Fee bt), se_FXRate = bt_ExchangeRate bt, se_SettledAt = bt_Created bt * Second \<rparr>"

definition stripe_FetchSettlementReport :: "http_net \<Rightarrow> (uuid \<Rightarrow> go_error + stripe_TenantConfig) \<Rightarrow> uuid \<Rightarrow> string \<Rightarrow> int \<Rightarrow> int \<Rightarrow> SettlementReport adapt" where
  "stripe_FetchSettlementReport net resolve tenantID gatewayID start fin = (case resolve tenantID of
       Inl e \<Rightarrow> throw (gw_error ErrorCategoryGatewayError ''config_resolve_error'' (err_msg e))
     | Inr tc \<Rightarrow> bindE (balance_pages 100 net tc start fin '''' []) (\<lambda>all.
         ok \<lparr> sr_GatewayID = gatewayID, sr_PeriodStart = start, sr_PeriodEnd = fin,
              sr_Entries = map balance_entry (filter (\<lambda>bt. bt_Type bt = ''charge'' \<and> bt_PaymentIntent bt \<noteq> '''') all) \<rparr>))"

subsection \<open>Webhooks (webhook.go)\<close>

definition webhookToleranceSeconds :: int where
  "webhookToleranceSeconds = 300"

text \<open>The loop over the parts of the header: the last \<open>t\<close> and the last \<open>v1\<close> count.\<close>

fun signature_parts :: "string list \<Rightarrow> int \<times> string \<Rightarrow> int \<times> string" where
  "signature_parts [] acc = acc"
| "signature_parts (p # ps) acc = (case SplitN2 (CHR ''='') (TrimSpace p) of
     (k, None) \<Rightarrow> signature_parts ps acc
   | (k, Some v) \<Rightarrow> signature_parts ps
       (if k = ''t'' then (fst (ParseInt v), snd acc) else if k = ''v1'' then (fst acc, v) else acc))"

definition parseStripeSignature :: "string \<Rightarrow> (int \<times> string) option" where
  "parseStripeSignature header = (case signature_parts (Split (CHR '','') header) (0, '''') of
     (ts, v1) \<Rightarrow> if ts = 0 \<or> v1 = '''' then None else Some (ts, v1))"

definition mapStatusString :: "string \<Rightarrow> bool \<Rightarrow> bool \<Rightarrow> GatewayPaymentStatus" where
  "mapStatusString s hasError refunded =
    (if hasError then GatewayPaymentStatusFailed else if refunded then GatewayPaymentStatusRefunded
     else if s = ''succeeded'' then GatewayPaymentStatusSucceeded
     else if s = ''processing'' then GatewayPaymentStatusProcessing
     else if s = ''canceled'' then GatewayPaymentStatusCancelled
     else GatewayPaymentStatusPending)"

definition mapDisputeStatus :: "string \<Rightarrow> string" where
  "mapDisputeStatus s =
    (if s = ''needs_response'' \<or> s = ''warning_needs_response'' then ''NEEDS_RESPONSE''
     else if s = ''under_review'' then ''UNDER_REVIEW''
     else if s = ''won'' then ''WON''
     else if s = ''lost'' then ''LOST''
     else if s = ''accepted'' then ''ACCEPTED''
     else if s = ''expired'' then ''EXPIRED''
     else ''NEEDS_RESPONSE'')"

record stripe_object =
  so_ID :: string
  so_PaymentIntent :: string
  so_Status :: string
  so_Refunded :: bool
  so_LastPaymentError :: "stripeError option"
  so_NextAction :: "stripeNextAction option"

record stripe_dispute =
  sdo_ID :: string
  sdo_PaymentIntent :: string
  sdo_Status :: string
  sdo_Reason :: string
  sdo_Amount :: int
  sdo_Currency :: string
  sdo_DueBy :: "int option"

definition dec_object :: "stripe_object decoder" where
  "dec_object x = (case dec_fields x of (fs, g) \<Rightarrow>
     let (i, g1) = dec_str (field ''id'' fs); (p, g2) = dec_str (field ''payment_intent'' fs); (s, g3) = dec_str (field ''status'' fs);
         (r, g4) = dec_bool (field ''refunded'' fs); (e, g5) = dec_ptr dec_stripeError (field ''last_payment_error'' fs);
         (n, g6) = dec_ptr dec_nextAction (field ''next_action'' fs)
     in (\<lparr> so_ID = i, so_PaymentIntent = p, so_Status = s, so_Refunded = r, so_LastPaymentError = e, so_NextAction = n \<rparr>,
         g \<and> g1 \<and> g2 \<and> g3 \<and> g4 \<and> g5 \<and> g6))"

definition dec_due_by :: "int option decoder" where
  "dec_due_by x = (case dec_fields x of (fs, g) \<Rightarrow> case dec_ptr dec_int (field ''due_by'' fs) of (d, g1) \<Rightarrow> (d, g \<and> g1))"

definition dec_dispute :: "stripe_dispute decoder" where
  "dec_dispute x = (case dec_fields x of (fs, g) \<Rightarrow>
     let (i, g1) = dec_str (field ''id'' fs); (p, g2) = dec_str (field ''payment_intent'' fs); (s, g3) = dec_str (field ''status'' fs);
         (r, g4) = dec_str (field ''reason'' fs); (a, g5) = dec_int (field ''amount'' fs); (c, g6) = dec_str (field ''currency'' fs);
         (d, g7) = dec_due_by (field ''evidence_details'' fs)
     in (\<lparr> sdo_ID = i, sdo_PaymentIntent = p, sdo_Status = s, sdo_Reason = r, sdo_Amount = a, sdo_Currency = c, sdo_DueBy = d \<rparr>,
         g \<and> g1 \<and> g2 \<and> g3 \<and> g4 \<and> g5 \<and> g6 \<and> g7))"

text \<open>The event around an object: identifier, type and \<open>data.object\<close>.\<close>

definition dec_event :: "'a decoder \<Rightarrow> (string \<times> string \<times> 'a) decoder" where
  "dec_event d x = (case dec_fields x of (fs, g) \<Rightarrow> case dec_fields (field ''data'' fs) of (ds, g1) \<Rightarrow>
     let (i, g2) = dec_str (field ''id'' fs); (t, g3) = dec_str (field ''type'' fs); (ob, g4) = d (field ''object'' ds)
     in ((i, t, ob), g \<and> g1 \<and> g2 \<and> g3 \<and> g4))"

definition dec_raw :: "(string \<times> string) decoder" where
  "dec_raw x = (case dec_fields x of (fs, g) \<Rightarrow>
     let (i, g1) = dec_str (field ''id'' fs); (t, g2) = dec_str (field ''type'' fs) in ((i, t), g \<and> g1 \<and> g2))"

definition extractStripeWebhookMetadata :: "stripe_object \<Rightarrow> (string \<times> json) list" where
  "extractStripeWebhookMetadata ob = (case so_NextAction ob of None \<Rightarrow> []
     | Some na \<Rightarrow> [(''next_action'', JObj ((''type'', JStr (sna_Type na)) #
         (case sna_RedirectToURL na of None \<Rightarrow> [] | Some u \<Rightarrow> [(''redirect_url'', JStr u)])))])"

definition dispute_webhook :: "string \<times> string \<times> stripe_dispute \<Rightarrow> GatewayWebhookEvent" where
  "dispute_webhook dev = (case dev of (i, t, ob) \<Rightarrow>
     \<lparr> gwe_EventID = i, gwe_GatewayReferenceID = sdo_PaymentIntent ob, gwe_Status = GatewayPaymentStatusOther '''', gwe_EventType = t,
       gwe_GatewayMetadata = [(''gateway'', JStr ''stripe''), (''type'', JStr t)],
       gwe_Dispute = Some \<lparr> gde_GatewayDisputeID = sdo_ID ob, gde_GatewayReferenceID = sdo_PaymentIntent ob,
         gde_Status = mapDisputeStatus (sdo_Status ob), gde_Reason = sdo_Reason ob, gde_Amount = sdo_Amount ob,
         gde_Currency = ToUpper (sdo_Currency ob), gde_EvidenceDueBy = map_option (\<lambda>t. t * Second) (sdo_DueBy ob),
         gde_ResolvedAt = None \<rparr> \<rparr>)"

definition payment_webhook :: "string \<times> string \<times> stripe_object \<Rightarrow> GatewayWebhookEvent" where
  "payment_webhook e = (case e of (i, t, ob) \<Rightarrow>
     \<lparr> gwe_EventID = i,
       gwe_GatewayReferenceID = (if so_PaymentIntent ob = '''' then so_ID ob else so_PaymentIntent ob),
       gwe_Status = mapStatusString (so_Status ob) (so_LastPaymentError ob \<noteq> None) (so_Refunded ob), gwe_EventType = t,
       gwe_GatewayMetadata = extractStripeWebhookMetadata ob, gwe_Dispute = None \<rparr>)"

text \<open>What the signature covers, and the test of \<open>ParseWebhook\<close>.\<close>

definition signed_text :: "int \<Rightarrow> string \<Rightarrow> string" where
  "signed_text ts body = FormatInt ts @ ''.'' @ body"

definition stripe_authentic :: "codec \<Rightarrow> int \<Rightarrow> string \<Rightarrow> string \<Rightarrow> string \<Rightarrow> bool" where
  "stripe_authentic cd now body header secret = (case parseStripeSignature header of
       None \<Rightarrow> False
     | Some (ts, v1) \<Rightarrow> hex_DecodeString v1 = Some (cd_hmac cd secret (signed_text ts body)) \<and>
         \<bar>wrap64 (unix now - ts)\<bar> \<le> webhookToleranceSeconds)"

definition parse_payload :: "doc option \<Rightarrow> go_error + GatewayWebhookEvent" where
  "parse_payload data = (case Unmarshal dec_raw data of ((_, t), good) \<Rightarrow>
     if \<not> good then Inl ErrWebhookParse
     else if has_prefix ''charge.dispute.'' t
     then (case Unmarshal (dec_event dec_dispute) data of (dev, good) \<Rightarrow>
             if good then Inr (dispute_webhook dev) else Inl ErrWebhookParse)
     else (case Unmarshal (dec_event dec_object) data of (e, good) \<Rightarrow>
             if good then Inr (payment_webhook e) else Inl ErrWebhookParse))"

definition stripe_ParseWebhook :: "codec \<Rightarrow> int \<Rightarrow> string \<Rightarrow> headers \<Rightarrow> string \<Rightarrow> go_error + GatewayWebhookEvent" where
  "stripe_ParseWebhook cd now body hs secret =
    (if \<not> stripe_authentic cd now body (hs ''Stripe-Signature'') secret then Inl ErrWebhookSignature
     else parse_payload (cd_json cd body))"

subsection \<open>What the adapter answers\<close>

lemma stripe_error_classified [simp]: "classified (stripe_error data)"
  by (auto simp: stripe_error_def stripe_classifyError_def Let_def)

lemma yields_stripe_do: "yields (\<lambda>_. True) classified (stripe_do net tc m path form k d)"
  unfolding stripe_do_def by (auto intro!: yielding yields_decoded)

lemma sends_stripe_do [sending]:
  "(\<And>m path form k. P (stripe_request tc m path form k)) \<Longrightarrow> sends_only P (stripe_do net tc m path form k d)"
  unfolding stripe_do_def by (intro sending) simp_all

lemma stripe_response_status: "gp_Status (stripe_toPaymentResponse intent tc) = stripe_mapPaymentStatus intent"
  by (simp add: stripe_toPaymentResponse_def Let_def)

text \<open>The dispute statuses of the adapter are those the dispute service knows.\<close>

lemma mapDisputeStatus_known:
  "mapDisputeStatus s \<in> {''NEEDS_RESPONSE'', ''UNDER_REVIEW'', ''WON'', ''LOST'', ''ACCEPTED'', ''EXPIRED''}"
  by (simp add: mapDisputeStatus_def)

subsection \<open>Signatures\<close>

text \<open>The header a signer writes: seconds and the hex form of the code.\<close>

definition signature_header :: "int \<Rightarrow> string \<Rightarrow> string" where
  "signature_header ts mac = ''t='' @ FormatInt ts @ '',v1='' @ hex_EncodeToString mac"

lemma FormatInt_clean: "c \<in> set (FormatInt n) \<Longrightarrow> \<not> is_space c \<and> c \<noteq> CHR '',''"
proof -
  have "is_space x \<Longrightarrow> dec_val x = None \<and> x \<noteq> CHR ''-''" for x
    by (auto simp: is_space_def dec_val_def)
  then show "c \<in> set (FormatInt n) \<Longrightarrow> ?thesis"
    using FormatInt_no [of c n] FormatInt_no [of "CHR '',''" n] by auto
qed

lemma hex_clean: "c \<in> set (hex_EncodeToString s) \<Longrightarrow> \<not> is_space c \<and> c \<noteq> CHR '',''"
  using hex_chars [of c s] by (auto simp: is_space_def hex_val_def Let_def)

lemma parse_signature_header:
  assumes "in64 ts" "ts \<noteq> 0" "mac \<noteq> ''''"
  shows "parseStripeSignature (signature_header ts mac) = Some (ts, hex_EncodeToString mac)"
proof -
  let ?a = "''t='' @ FormatInt ts" and ?b = "''v1='' @ hex_EncodeToString mac"
  have "CHR '','' \<notin> set ?a" "CHR '','' \<notin> set ?b" using FormatInt_clean hex_clean by auto
  then have "Split (CHR '','') (signature_header ts mac) = [?a, ?b]"
    using Split_append [of "CHR '',''" ?a ?b] Split_none [of "CHR '',''" ?b] by (simp add: signature_header_def)
  moreover have "TrimSpace ?a = ?a" "TrimSpace ?b = ?b"
    using FormatInt_clean hex_clean by (auto intro!: TrimSpace_id simp: is_space_def)
  moreover have "SplitN2 (CHR ''='') ?a = (''t'', Some (FormatInt ts))"
    "SplitN2 (CHR ''='') ?b = (''v1'', Some (hex_EncodeToString mac))"
    using SplitN2_found [of "CHR ''=''" "''t''"] SplitN2_found [of "CHR ''=''" "''v1''"] by simp_all
  moreover have "hex_EncodeToString mac \<noteq> ''''" using hex_length [of mac] assms(3) by (metis length_0_conv mult_is_0 zero_neq_numeral)
  ultimately show ?thesis using assms by (simp add: parseStripeSignature_def ParseInt_FormatInt)
qed

end
