(* ===== verification/Razorpay.thy ===== *)
theory Razorpay
  imports Stripe
begin

section \<open>The Razorpay adapter (internal/adapters/gateways/razorpay)\<close>

text \<open>
  \<open>razorpay.go\<close>, \<open>webhook.go\<close>, \<open>settlement.go\<close> and \<open>types.go\<close>. The receipt of an order is derived from a
  CRC-32 of the transaction and the attempt, which is computed here bit by bit over the reflected
  polynomial of \<open>hash/crc32\<close>.
\<close>

unbundle bit_operations_syntax

record razorpay_TenantConfig =
  rtc_KeyID :: string
  rtc_KeySecret :: string
  rtc_BaseURL :: string
  rtc_PublishableKey :: string

record rzpOrder =
  ro_ID :: string
  ro_Status :: string
  ro_Amount :: int
  ro_Currency :: string
  ro_Notes :: "(string \<times> string) list"

record rzpError =
  re_Code :: string
  re_Description :: string
  re_Reason :: string

record rzpPayment =
  rp_ID :: string
  rp_OrderID :: string
  rp_Amount :: int
  rp_Status :: string
  rp_CreatedAt :: int
  rp_Fee :: "int option"

definition dec_order :: "rzpOrder decoder" where
  "dec_order x = (case dec_fields x of (fs, g) \<Rightarrow>
     let (i, g1) = dec_str (field ''id'' fs); (s, g2) = dec_str (field ''status'' fs); (a, g3) = dec_int (field ''amount'' fs);
         (c, g4) = dec_str (field ''currency'' fs); (_, g5) = dec_str (field ''receipt'' fs); (n, g6) = dec_str_map (field ''notes'' fs)
     in (\<lparr> ro_ID = i, ro_Status = s, ro_Amount = a, ro_Currency = c, ro_Notes = n \<rparr>, g \<and> g1 \<and> g2 \<and> g3 \<and> g4 \<and> g5 \<and> g6))"

definition dec_rzpError :: "rzpError decoder" where
  "dec_rzpError x = (case dec_fields x of (fs, g) \<Rightarrow>
     let (c, g1) = dec_str (field ''code'' fs); (d, g2) = dec_str (field ''description'' fs); (r, g3) = dec_str (field ''reason'' fs);
         (_, g4) = dec_str (field ''source'' fs)
     in (\<lparr> re_Code = c, re_Description = d, re_Reason = r \<rparr>, g \<and> g1 \<and> g2 \<and> g3 \<and> g4))"

definition dec_rzpErrorEnvelope :: "rzpError option decoder" where
  "dec_rzpErrorEnvelope x = (case dec_fields x of (fs, g) \<Rightarrow>
     case dec_ptr dec_rzpError (field ''error'' fs) of (e, g1) \<Rightarrow> (e, g \<and> g1))"

definition dec_payment :: "rzpPayment decoder" where
  "dec_payment x = (case dec_fields x of (fs, g) \<Rightarrow>
     let (i, g1) = dec_str (field ''id'' fs); (r, g2) = dec_str (field ''order_id'' fs); (a, g3) = dec_int (field ''amount'' fs);
         (_, g4) = dec_str (field ''currency'' fs); (s, g5) = dec_str (field ''status'' fs); (c, g6) = dec_int (field ''created_at'' fs);
         (f, g7) = dec_ptr dec_int (field ''fee'' fs); (_, g8) = dec_ptr dec_int (field ''tax'' fs)
     in (\<lparr> rp_ID = i, rp_OrderID = r, rp_Amount = a, rp_Status = s, rp_CreatedAt = c, rp_Fee = f \<rparr>,
         g \<and> g1 \<and> g2 \<and> g3 \<and> g4 \<and> g5 \<and> g6 \<and> g7 \<and> g8))"

definition dec_paymentList :: "rzpPayment list decoder" where
  "dec_paymentList x = (case dec_fields x of (fs, g) \<Rightarrow>
     let (_, g1) = dec_int (field ''count'' fs); (ps, g2) = dec_list dec_payment (field ''items'' fs) in (ps, g \<and> g1 \<and> g2))"

subsection \<open>Pure parts of razorpay.go\<close>

definition razorpay_Capabilities :: GatewayCapabilities where
  "razorpay_Capabilities = \<lparr> SupportsCancel = False, SupportsPartialRefund = True, SupportsManualCapture = False,
     IdempotencyCapable = False,
     SupportedPaymentMethods = [PaymentMethodCard, PaymentMethodUPI, PaymentMethodNetbanking, PaymentMethodWallet],
     SupportedCurrencies = [''BDT''] \<rparr>"

primrec crc_bits :: "nat \<Rightarrow> 32 word \<Rightarrow> 32 word" where
  "crc_bits 0 c = c"
| "crc_bits (Suc n) c = crc_bits n (if odd c then drop_bit 1 c XOR 0xEDB88320 else drop_bit 1 c)"

definition ChecksumIEEE :: "string \<Rightarrow> 32 word" where
  "ChecksumIEEE s = NOT (foldl (\<lambda>c b. crc_bits 8 (c XOR of_nat (of_char b))) (NOT 0) s)"

definition base62chars :: string where
  "base62chars = ''0123456789ABCDEFGHIJKLMNOPQRSTUVWXYZabcdefghijklmnopqrstuvwxyz''"

text \<open>The loop \<open>for n > 0\<close> puts each digit in front of the buffer.\<close>

fun base62_loop :: "nat \<Rightarrow> string \<Rightarrow> string" where
  "base62_loop n buf = (if n = 0 then buf else base62_loop (n div 62) ((base62chars ! (n mod 62)) # buf))"

declare base62_loop.simps [simp del]

definition base62 :: "32 word \<Rightarrow> string" where
  "base62 n = (if n = 0 then ''0'' else base62_loop (unat n) '''')"

definition deriveReceipt :: "codec \<Rightarrow> uuid \<Rightarrow> int \<Rightarrow> string" where
  "deriveReceipt cd i attemptNumber =
     (let enc = base62 (ChecksumIEEE (cd_uuid cd i @ FormatInt attemptNumber))
      in if length enc \<ge> 40 then take 40 enc else replicate (40 - length enc) (CHR ''0'') @ enc)"

definition mapOrderStatus :: "string \<Rightarrow> GatewayPaymentStatus" where
  "mapOrderStatus s = (if s = ''paid'' then GatewayPaymentStatusSucceeded
     else if s = ''attempted'' then GatewayPaymentStatusProcessing else GatewayPaymentStatusPending)"

definition razorpay_mapRefundStatus :: "string \<Rightarrow> GatewayRefundStatus" where
  "razorpay_mapRefundStatus s = (if s = ''processed'' then GatewayRefundStatusCompleted
     else if s = ''pending'' then GatewayRefundStatusProcessing
     else if s = ''failed'' then GatewayRefundStatusFailed else GatewayRefundStatusProcessing)"

definition razorpay_classifyError :: "string \<Rightarrow> string \<Rightarrow> string" where
  "razorpay_classifyError code reason =
    (if code = ''GATEWAY_ERROR'' then ErrorCategoryGatewayError
     else if code = ''SERVER_ERROR'' then ErrorCategoryNetworkTimeout
     else if code = ''BAD_REQUEST_ERROR''
     then if reason \<in> set [''payment_failed'', ''payment_declined'', ''card_declined''] then ErrorCategoryHardDecline
          else if reason \<in> set [''insufficient_funds'', ''payment_pending''] then ErrorCategorySoftDecline
          else ErrorCategoryGatewayError
     else ErrorCategoryGatewayError)"

definition razorpay_toPaymentResponse :: "rzpOrder \<Rightarrow> razorpay_TenantConfig \<Rightarrow> GatewayPaymentResponse" where
  "razorpay_toPaymentResponse ord tc =
    (let m0 = map (\<lambda>(k, v). (k, JStr v)) (ro_Notes ord);
         m1 = put_key ''key_id'' (JStr (rtc_KeyID tc)) (put_key ''order_id'' (JStr (ro_ID ord)) m0);
         m2 = (if rtc_PublishableKey tc \<noteq> '''' then put_key ''publishable_key'' (JStr (rtc_PublishableKey tc)) m1 else m1)
     in \<lparr> gp_GatewayReferenceID = ro_ID ord, gp_Status = mapOrderStatus (ro_Status ord), gp_RespAmount = ro_Amount ord,
          gp_RespCurrency = ToUpper (ro_Currency ord), gp_ErrorCode = '''', gp_ErrorMessage = '''',
          gp_MethodResponse = NoMethodResponse, gp_GatewayMetadata = m2 \<rparr>)"

subsection \<open>Calls (razorpay.go)\<close>

definition razorpay_error :: "doc option \<Rightarrow> go_error" where
  "razorpay_error data = (let e = (case fst (Unmarshal dec_rzpErrorEnvelope data) of Some e \<Rightarrow> e
         | None \<Rightarrow> \<lparr> re_Code = ''SERVER_ERROR'', re_Description = ''unknown gateway error'', re_Reason = '''' \<rparr>);
         cat = razorpay_classifyError (re_Code e) (re_Reason e)
     in GatewayErr \<lparr> ge_Category = cat, ge_Code = cat, ge_GatewayCode = firstNonEmpty [re_Reason e, re_Code e],
          ge_GatewayMessage = re_Description e, ge_Retryable = isRetryable cat \<rparr>)"

definition razorpay_request :: "razorpay_TenantConfig \<Rightarrow> string \<Rightarrow> string \<Rightarrow> json option \<Rightarrow> out_request" where
  "razorpay_request tc method path body =
     \<lparr> oq_Method = method,
       oq_URL = (if rtc_BaseURL tc = '''' then ''https://api.razorpay.com'' else rtc_BaseURL tc) @ path,
       oq_Auth = Basic (rtc_KeyID tc) (rtc_KeySecret tc),
       oq_Headers = (if body \<noteq> None then [(''Content-Type'', ''application/json'')] else []),
       oq_Body = (case body of None \<Rightarrow> NoPayload | Some b \<Rightarrow> JsonPayload b) \<rparr>"

definition razorpay_do :: "http_net \<Rightarrow> razorpay_TenantConfig \<Rightarrow> string \<Rightarrow> string \<Rightarrow> json option \<Rightarrow> 'a decoder \<Rightarrow> 'a adapt" where
  "razorpay_do net tc method path body dec =
     bindE (send net '''' (razorpay_request tc method path body)) (\<lambda>(status, data).
       if status \<ge> 400 then throw (razorpay_error data) else decoded dec data)"

definition razorpay_InitiatePayment :: "http_net \<Rightarrow> codec \<Rightarrow> (uuid \<Rightarrow> go_error + razorpay_TenantConfig) \<Rightarrow> GatewayPaymentRequest \<Rightarrow> GatewayPaymentResponse adapt" where
  "razorpay_InitiatePayment net cd resolve req =
     bindE (initiate_tenant resolve (gpr_TenantID req) (gpr_TransactionID req)) (\<lambda>tc.
     let receipt = (if gpr_IdempotencyKey req = '''' then deriveReceipt cd (gpr_TransactionID req) (gpr_AttemptNumber req)
                    else gpr_IdempotencyKey req);
         body = JObj [(''amount'', JInt (gpr_Amount req)), (''currency'', JStr (ToUpper (gpr_Currency req))),
           (''receipt'', JStr receipt), (''notes'', JObj [(''transaction_id'', JStr (cd_uuid cd (gpr_TransactionID req)))])]
     in bindE (razorpay_do net tc ''POST'' ''/v1/orders'' (Some body) dec_order) (\<lambda>ord. ok (razorpay_toPaymentResponse ord tc)))"

definition razorpay_CheckStatus :: "http_net \<Rightarrow> (uuid \<Rightarrow> go_error + razorpay_TenantConfig) \<Rightarrow> GatewayStatusRequest \<Rightarrow> GatewayPaymentResponse adapt" where
  "razorpay_CheckStatus net resolve req =
     bindE (resolveTenant resolve (gsr_TenantID req) (gsr_TransactionID req)) (\<lambda>tc.
     bindE (razorpay_do net tc ''GET'' (''/v1/orders/'' @ PathEscape (gsr_GatewayReferenceID req)) None dec_order) (\<lambda>ord.
     ok (razorpay_toPaymentResponse ord tc)))"

text \<open>A refund goes to the payment, and the stored reference is the order: the payment is looked up first.\<close>

definition refund_target :: "http_net \<Rightarrow> razorpay_TenantConfig \<Rightarrow> string \<Rightarrow> string adapt" where
  "refund_target net tc reference =
    (if has_prefix ''order_'' reference
     then bindE (razorpay_do net tc ''GET'' (''/v1/payments?'' @ Values_Encode [(''order_id'', reference)]) None dec_paymentList) (\<lambda>items.
       case items of
         [] \<Rightarrow> throw (gw_error ErrorCategoryGatewayError ''no_payment_found'' (''no payment found for order '' @ reference))
       | p # ps \<Rightarrow> ok (rp_ID p))
     else ok reference)"

definition razorpay_Refund :: "http_net \<Rightarrow> (uuid \<Rightarrow> go_error + razorpay_TenantConfig) \<Rightarrow> GatewayRefundRequest \<Rightarrow> GatewayRefundResponse adapt" where
  "razorpay_Refund net resolve req =
     bindE (resolveTenant resolve (grr_TenantID req) (grr_TransactionID req)) (\<lambda>tc.
     bindE (refund_target net tc (grr_GatewayReferenceID req)) (\<lambda>paymentID.
     let body = JObj ((if grr_Amount req > 0 then [(''amount'', JInt (grr_Amount req))] else []) @
           (if grr_Reason req \<noteq> '''' then [(''notes'', JObj [(''reason'', JStr (grr_Reason req))])] else []))
     in bindE (razorpay_do net tc ''POST'' (''/v1/payments/'' @ PathEscape paymentID @ ''/refund'') (Some body) dec_stripeRefund) (\<lambda>rf.
        ok \<lparr> gr_GatewayRefundID = srf_ID rf, gr_Status = razorpay_mapRefundStatus (srf_Status rf), gr_Amount = srf_Amount rf,
             gr_Currency = ToUpper (srf_Currency rf) \<rparr>)))"

definition razorpay_Cancel :: "GatewayCancelRequest \<Rightarrow> GatewayCancelStatus adapt" where
  "razorpay_Cancel req = ok GatewayCancelStatusNotSupported"

definition razorpay_CapturePayment :: "GatewayCaptureRequest \<Rightarrow> GatewayCaptureResponse adapt" where
  "razorpay_CapturePayment req = throw not_implemented"

subsection \<open>Settlement (settlement.go)\<close>

primrec payment_pages :: "nat \<Rightarrow> http_net \<Rightarrow> razorpay_TenantConfig \<Rightarrow> int \<Rightarrow> int \<Rightarrow> int \<Rightarrow> rzpPayment list \<Rightarrow> rzpPayment list adapt" where
  "payment_pages 0 net tc start fin skip acc = ok acc"
| "payment_pages (Suc n) net tc start fin skip acc =
     bindE (razorpay_do net tc ''GET'' (''/v1/payments?'' @ Values_Encode [(''from'', FormatInt (unix start)), (''to'', FormatInt (unix fin)),
              (''count'', ''100''), (''skip'', FormatInt skip)]) None dec_paymentList) (\<lambda>items.
       if length items < 100 then ok (acc @ items)
       else payment_pages n net tc start fin (wrap64 (skip + int (length items))) (acc @ items))"

definition payment_entry :: "rzpPayment \<Rightarrow> SettlementEntry" where
  "payment_entry p = \<lparr> se_TransactionRef = rp_OrderID p, se_GatewayStatus = (if rp_Status p = ''captured'' then ''succeeded'' else ''pending''),
     se_GatewayAmount = rp_Amount p, se_GatewayFees = rp_Fee p, se_FXRate = None, se_SettledAt = rp_CreatedAt p * Second \<rparr>"

definition razorpay_FetchSettlementReport :: "http_net \<Rightarrow> (uuid \<Rightarrow> go_error + razorpay_TenantConfig) \<Rightarrow> uuid \<Rightarrow> string \<Rightarrow> int \<Rightarrow> int \<Rightarrow> SettlementReport adapt" where
  "razorpay_FetchSettlementReport net resolve tenantID gatewayID start fin = (case resolve tenantID of
       Inl e \<Rightarrow> throw (gw_error ErrorCategoryGatewayError ''config_resolve_error'' (err_msg e))
     | Inr tc \<Rightarrow> bindE (payment_pages 100 net tc start fin 0 []) (\<lambda>all.
         ok \<lparr> sr_GatewayID = gatewayID, sr_PeriodStart = start, sr_PeriodEnd = fin, sr_Entries = map payment_entry all \<rparr>))"

subsection \<open>Webhooks (webhook.go)\<close>

record rzp_entity =
  rz_ID :: string
  rz_OrderID :: string
  rz_Status :: string
  rz_Method :: string
  rz_ThreeDSecure :: "string option"

definition dec_three_d :: "string decoder" where
  "dec_three_d x = (case dec_fields x of (fs, g) \<Rightarrow> case dec_str (field ''three_d_secure'' fs) of (t, g1) \<Rightarrow> (t, g \<and> g1))"

definition dec_entity :: "rzp_entity decoder" where
  "dec_entity x = (case dec_fields x of (fs, g) \<Rightarrow>
     let (i, g1) = dec_str (field ''id'' fs); (r, g2) = dec_str (field ''order_id'' fs); (s, g3) = dec_str (field ''status'' fs);
         (m, g4) = dec_str (field ''method'' fs); (c, g5) = dec_ptr dec_three_d (field ''card'' fs)
     in (\<lparr> rz_ID = i, rz_OrderID = r, rz_Status = s, rz_Method = m, rz_ThreeDSecure = c \<rparr>, g \<and> g1 \<and> g2 \<and> g3 \<and> g4 \<and> g5))"

definition dec_rzpWebhook :: "(string \<times> rzp_entity) decoder" where
  "dec_rzpWebhook x = (case dec_fields x of (fs, g) \<Rightarrow> case dec_fields (field ''payload'' fs) of (ps, g1) \<Rightarrow>
     case dec_fields (field ''payment'' ps) of (qs, g2) \<Rightarrow>
     let (e, g3) = dec_str (field ''event'' fs); (p, g4) = dec_entity (field ''entity'' qs) in ((e, p), g \<and> g1 \<and> g2 \<and> g3 \<and> g4))"

definition mapWebhookPaymentStatus :: "string \<Rightarrow> GatewayPaymentStatus" where
  "mapWebhookPaymentStatus s = (if s = ''captured'' then GatewayPaymentStatusSucceeded
     else if s = ''failed'' then GatewayPaymentStatusFailed
     else if s = ''authorized'' then GatewayPaymentStatusAuthorized else GatewayPaymentStatusPending)"

definition razorpay_authentic :: "codec \<Rightarrow> string \<Rightarrow> string \<Rightarrow> string \<Rightarrow> bool" where
  "razorpay_authentic cd body signature secret = (case hex_DecodeString signature of
     None \<Rightarrow> False | Some mac \<Rightarrow> mac \<noteq> '''' \<and> mac = cd_hmac cd secret body)"

definition razorpay_ParseWebhook :: "codec \<Rightarrow> string \<Rightarrow> headers \<Rightarrow> string \<Rightarrow> go_error + GatewayWebhookEvent" where
  "razorpay_ParseWebhook cd body hs secret =
    (if \<not> razorpay_authentic cd body (hs ''X-Razorpay-Signature'') secret then Inl ErrWebhookSignature
     else case Unmarshal dec_rzpWebhook (cd_json cd body) of ((event, p), good) \<Rightarrow>
       if \<not> good then Inl ErrWebhookParse
       else Inr \<lparr> gwe_EventID = (if hs ''X-Razorpay-Event-Id'' = '''' then rz_ID p @ '':'' @ event else hs ''X-Razorpay-Event-Id''),
         gwe_GatewayReferenceID = rz_OrderID p, gwe_Status = mapWebhookPaymentStatus (rz_Status p), gwe_EventType = event,
         gwe_GatewayMetadata = (if rz_Method p = ''card'' \<and> rz_ThreeDSecure p = Some ''required'' then [(''requires_3ds'', JBool True)] else []),
         gwe_Dispute = None \<rparr>)"

subsection \<open>What the adapter answers\<close>

lemma razorpay_error_classified [simp]: "classified (razorpay_error data)"
  by (auto simp: razorpay_error_def razorpay_classifyError_def Let_def)

lemma yields_razorpay_do: "yields (\<lambda>_. True) classified (razorpay_do net tc m path body d)"
  unfolding razorpay_do_def by (auto intro!: yielding yields_decoded)

lemma sends_razorpay_do [sending]:
  "(\<And>m path body. P (razorpay_request tc m path body)) \<Longrightarrow> sends_only P (razorpay_do net tc m path body d)"
  unfolding razorpay_do_def by (intro sending) simp_all

lemma razorpay_response_status: "gp_Status (razorpay_toPaymentResponse ord tc) = mapOrderStatus (ro_Status ord)"
  by (simp add: razorpay_toPaymentResponse_def Let_def)

subsection \<open>Receipts\<close>

text \<open>Reading a receipt back: digits to the base 62, most significant first.\<close>

definition digit62 :: "char \<Rightarrow> nat" where
  "digit62 c = length (takeWhile (\<lambda>x. x \<noteq> c) base62chars)"

definition read62 :: "string \<Rightarrow> nat" where
  "read62 s = foldl (\<lambda>n c. 62 * n + digit62 c) 0 s"

lemma base62chars_facts: "length base62chars = 62" "distinct base62chars"
  by (simp_all add: base62chars_def)

lemma digit62_nth: "n < 62 \<Longrightarrow> digit62 (base62chars ! n) = n"
proof -
  assume n: "n < 62"
  have "takeWhile (\<lambda>x. x \<noteq> base62chars ! n) base62chars = take n base62chars"
  proof (rule takeWhile_eq_take_P_nth)
    fix i assume "i < n" "i < length base62chars"
    with n show "base62chars ! i \<noteq> base62chars ! n"
      using nth_eq_iff_index_eq [OF base62chars_facts(2)] base62chars_facts(1) by auto
  qed simp
  with n show ?thesis by (simp add: digit62_def base62chars_facts)
qed

lemma base62_loop_read: "foldl (\<lambda>n c. 62 * n + digit62 c) a (base62_loop n buf) =
    foldl (\<lambda>n c. 62 * n + digit62 c) (foldl (\<lambda>n c. 62 * n + digit62 c) a (base62_loop n [])) buf"
proof (induction n arbitrary: buf rule: less_induct)
  case (less n)
  show ?case
  proof (cases "n = 0")
    case False
    then have "n div 62 < n" by simp
    from less [OF this, of "base62chars ! (n mod 62) # buf"] less [OF this, of "[base62chars ! (n mod 62)]"] False
    show ?thesis by (simp add: base62_loop.simps [of n])
  qed (simp add: base62_loop.simps)
qed

lemma read62_loop: "read62 (base62_loop n []) = n"
proof (induction n rule: less_induct)
  case (less n)
  show ?case
  proof (cases "n = 0")
    case False
    then have "read62 (base62_loop n []) = 62 * read62 (base62_loop (n div 62) []) + n mod 62"
      unfolding read62_def by (subst base62_loop.simps) (simp add: base62_loop_read [of _ _ "[_]"] digit62_nth)
    with less [of "n div 62"] False show ?thesis by simp
  qed (simp add: base62_loop.simps read62_def)
qed

lemma read62_base62: "read62 (base62 n) = unat n"
proof (cases "n = 0")
  case True
  then show ?thesis by (simp add: base62_def read62_def digit62_def base62chars_def)
next
  case False
  then show ?thesis by (simp add: base62_def read62_loop)
qed

lemma read62_zeros: "read62 (replicate k (CHR ''0'') @ s) = read62 s"
proof -
  have "foldl (\<lambda>n c. 62 * n + digit62 c) 0 (replicate k (CHR ''0'')) = 0"
    by (induction k) (simp_all add: digit62_def base62chars_def)
  then show ?thesis by (simp add: read62_def)
qed

lemma base62_loop_length: "n < 62 ^ k \<Longrightarrow> length (base62_loop n buf) \<le> k + length buf"
proof (induction k arbitrary: n buf)
  case 0
  then show ?case by (simp add: base62_loop.simps)
next
  case (Suc k)
  then have "n div 62 < 62 ^ k" by (simp add: div_less_iff_less_mult mult.commute)
  from Suc.IH [OF this, of "base62chars ! (n mod 62) # buf"] show ?case
    by (subst base62_loop.simps) simp
qed

lemma base62_short: "length (base62 n) \<le> 6"
proof -
  have "unat n < 2 ^ 32" using unsigned_less [of n] by simp
  then have "unat n < 62 ^ 6" by simp
  from base62_loop_length [OF this, of "[]"] show ?thesis by (simp add: base62_def)
qed

end
