(* ===== verification/Fib.thy ===== *)
theory Fib
  imports Razorpay Float64
begin

section \<open>The FIB adapter (internal/adapters/gateways/fib)\<close>

text \<open>
  \<open>fib.go\<close>, \<open>webhook.go\<close>, \<open>settlement.go\<close> and \<open>types.go\<close>. A call first needs an access token, which is kept
  until shortly before it expires. Concurrent token requests are merged by \<open>singleflight\<close>; here they
  follow one another. The context of a call is not cancelled while it runs.
\<close>

record fib_TenantConfig =
  ftc_ClientID :: string
  ftc_ClientSecret :: string
  ftc_BaseURL :: string
  ftc_CallbackURL :: string

subsection \<open>Documents (types.go)\<close>

definition dec_token :: "(string \<times> int) decoder" where
  "dec_token x = (case dec_fields x of (fs, g) \<Rightarrow>
     let (t, g1) = dec_str (field ''access_token'' fs); (e, g2) = dec_int (field ''expires_in'' fs);
         (_, g3) = dec_str (field ''scope'' fs); (_, g4) = dec_str (field ''token_type'' fs)
     in ((t, e), g \<and> g1 \<and> g2 \<and> g3 \<and> g4))"

record fib_created =
  fc_ID :: string
  fc_PaymentID :: string
  fc_ReadableCode :: string
  fc_QRCode :: string
  fc_ValidUntil :: string
  fc_PersonalAppLink :: string
  fc_BusinessAppLink :: string
  fc_CorporateAppLink :: string

definition dec_created :: "fib_created decoder" where
  "dec_created x = (case dec_fields x of (fs, g) \<Rightarrow>
     let (i, g1) = dec_str (field ''id'' fs); (p, g2) = dec_str (field ''paymentId'' fs); (r, g3) = dec_str (field ''readableCode'' fs);
         (q, g4) = dec_str (field ''qrCode'' fs); (v, g5) = dec_str (field ''validUntil'' fs);
         (l, g6) = dec_str (field ''personalAppLink'' fs); (b, g7) = dec_str (field ''businessAppLink'' fs);
         (c, g8) = dec_str (field ''corporateAppLink'' fs)
     in (\<lparr> fc_ID = i, fc_PaymentID = p, fc_ReadableCode = r, fc_QRCode = q, fc_ValidUntil = v, fc_PersonalAppLink = l,
           fc_BusinessAppLink = b, fc_CorporateAppLink = c \<rparr>, g \<and> g1 \<and> g2 \<and> g3 \<and> g4 \<and> g5 \<and> g6 \<and> g7 \<and> g8))"

record fib_status =
  fs_ID :: string
  fs_PaymentID :: string
  fs_Status :: string
  fs_Amount :: "(string \<times> string) option"
  fs_PaidAmount :: "int option"

definition dec_money :: "(string \<times> string) decoder" where
  "dec_money x = (case dec_fields x of (fs, g) \<Rightarrow>
     let (a, g1) = dec_str (field ''amount'' fs); (c, g2) = dec_str (field ''currency'' fs) in ((a, c), g \<and> g1 \<and> g2))"

definition dec_paidBy :: "(string \<times> string) decoder" where
  "dec_paidBy x = (case dec_fields x of (fs, g) \<Rightarrow>
     let (a, g1) = dec_str (field ''name'' fs); (c, g2) = dec_str (field ''iban'' fs) in ((a, c), g \<and> g1 \<and> g2))"

text \<open>Fields that are decoded and not used can still make the document undecodable.\<close>

definition dec_status :: "fib_status decoder" where
  "dec_status x = (case dec_fields x of (fs, g) \<Rightarrow>
     let (i, g1) = dec_str (field ''id'' fs); (p, g2) = dec_str (field ''paymentId'' fs); (s, g3) = dec_str (field ''status'' fs);
         (m, g4) = dec_ptr dec_money (field ''amount'' fs); (a, g5) = dec_ptr dec_int (field ''paidAmount'' fs);
         (_, g6) = dec_ptr dec_paidBy (field ''paidBy'' fs);
         unused = map (\<lambda>n. snd (dec_ptr dec_str (field n fs))) [''validUntil'', ''decliningReason'', ''paidAt'', ''declinedAt'']
     in (\<lparr> fs_ID = i, fs_PaymentID = p, fs_Status = s, fs_Amount = m, fs_PaidAmount = a \<rparr>,
         g \<and> g1 \<and> g2 \<and> g3 \<and> g4 \<and> g5 \<and> g6 \<and> list_all (\<lambda>b. b) unused))"

definition dec_fibError :: "string option decoder" where
  "dec_fibError x = (case dec_fields x of (fs, g) \<Rightarrow>
     case dec_ptr (\<lambda>y. case dec_fields y of (es, h) \<Rightarrow> case dec_str (field ''error'' es) of (m, h1) \<Rightarrow> (m, h \<and> h1))
            (field ''error'' fs) of (e, g1) \<Rightarrow> (e, g \<and> g1))"

definition dec_refundResponse :: "(string \<times> string) decoder" where
  "dec_refundResponse x = (case dec_fields x of (fs, g) \<Rightarrow>
     let (r, g1) = dec_str (field ''refundId'' fs); (s, g2) = dec_str (field ''status'' fs) in ((r, s), g \<and> g1 \<and> g2))"

definition dec_action :: "string decoder" where
  "dec_action x = (case dec_fields x of (fs, g) \<Rightarrow> case dec_str (field ''status'' fs) of (s, g1) \<Rightarrow> (s, g \<and> g1))"

subsection \<open>Pure parts of fib.go\<close>

definition fib_Capabilities :: GatewayCapabilities where
  "fib_Capabilities = \<lparr> SupportsCancel = True, SupportsPartialRefund = False, SupportsManualCapture = False,
     IdempotencyCapable = False, SupportedPaymentMethods = [], SupportedCurrencies = [''IQD''] \<rparr>"

definition fib_mapPaymentStatus :: "string \<Rightarrow> GatewayPaymentStatus" where
  "fib_mapPaymentStatus s = (if s = ''UNPAID'' then GatewayPaymentStatusPending
     else if s = ''PAID'' then GatewayPaymentStatusSucceeded
     else if s = ''DECLINED'' then GatewayPaymentStatusFailed
     else if s = ''CANCELLED'' then GatewayPaymentStatusCancelled
     else if s = ''REFUNDED'' then GatewayPaymentStatusRefunded
     else GatewayPaymentStatusProcessing)"

definition extractFibError :: "string option \<Rightarrow> string" where
  "extractFibError e = (case e of Some m \<Rightarrow> if m \<noteq> '''' then m else ''unknown gateway error'' | None \<Rightarrow> ''unknown gateway error'')"

definition classifyFibError :: "int \<Rightarrow> doc option \<Rightarrow> string \<times> string \<times> string" where
  "classifyFibError statusCode body = (let msg = extractFibError (fst (Unmarshal dec_fibError body)) in
     if statusCode \<ge> 500 then (ErrorCategoryGatewayError, ''server_error'', msg)
     else if statusCode = 401 \<or> statusCode = 403 then (ErrorCategoryGatewayError, ''auth_error'', msg)
     else if statusCode = 404 then (ErrorCategoryGatewayError, ''not_found'', msg)
     else if statusCode = 409 then (ErrorCategorySoftDecline, ''conflict'', msg)
     else if statusCode = 422 then (ErrorCategoryHardDecline, ''validation_error'', msg)
     else if statusCode = 429 then (ErrorCategoryNetworkTimeout, ''rate_limited'', msg)
     else (ErrorCategoryGatewayError, ''unknown_error'', msg))"

definition formatAmount :: "int \<Rightarrow> string" where
  "formatAmount amount = FormatInt amount"

definition parseAmount :: "string \<Rightarrow> int option" where
  "parseAmount s = (case ParseInt (TrimSpace s) of (n, good) \<Rightarrow> if good then Some n else None)"

text \<open>\<open>float64(ttl)*0.1*float64(time.Second)\<close>, truncated to nanoseconds; \<open>ttl\<close> is an \<open>int\<close>.\<close>

definition accessTokenRefreshSkew :: "int \<Rightarrow> int" where
  "accessTokenRefreshSkew ttl = (if ttl \<le> 0 then 0
     else min \<lfloor>f64 (f64 (f64 (of_int ttl) * f64 (1 / 10)) * 1000000000)\<rfloor> (30 * Second))"

definition token_expiry :: "int \<Rightarrow> int \<Rightarrow> int" where
  "token_expiry now ttl = now + wrap64 (ttl * Second) - accessTokenRefreshSkew ttl"

subsection \<open>Tokens\<close>

definition token_key :: "fib_TenantConfig \<Rightarrow> string" where
  "token_key tc = ftc_ClientID tc @ '':'' @ ftc_ClientSecret tc"

definition token_request :: "fib_TenantConfig \<Rightarrow> out_request" where
  "token_request tc = \<lparr> oq_Method = ''POST'',
     oq_URL = ftc_BaseURL tc @ ''/auth/realms/fib-online-shop/protocol/openid-connect/token'',
     oq_Auth = Basic (ftc_ClientID tc) (ftc_ClientSecret tc),
     oq_Headers = [(''Content-Type'', ''application/x-www-form-urlencoded'')],
     oq_Body = FormPayload ''grant_type=client_credentials'' \<rparr>"

definition requestAccessToken :: "http_net \<Rightarrow> fib_TenantConfig \<Rightarrow> string adapt" where
  "requestAccessToken net tc = bindE (send net ''token_'' (token_request tc)) (\<lambda>(status, data).
     if status \<ge> 400
     then throw (gw_error ErrorCategoryGatewayError ''token_error'' (extractFibError (fst (Unmarshal dec_fibError data))))
     else case Unmarshal dec_token data of ((token, expiresIn), good) \<Rightarrow>
       if \<not> good then throw (gw_error ErrorCategoryGatewayError ''token_decode_error'' ''json'')
       else bindE (changing (\<lambda>a. a \<lparr> ad_tokens := (ad_tokens a)(token_key tc \<mapsto> (token, token_expiry (ad_now a) expiresIn)) \<rparr>)) (\<lambda>_.
            ok token))"

definition fib_authenticate :: "http_net \<Rightarrow> fib_TenantConfig \<Rightarrow> string adapt" where
  "fib_authenticate net tc = bindE (reading (\<lambda>a. (ad_tokens a (token_key tc), ad_now a))) (\<lambda>(held, now).
     case held of
       Some (token, expiry) \<Rightarrow> if token \<noteq> '''' \<and> now < expiry then ok token else requestAccessToken net tc
     | None \<Rightarrow> requestAccessToken net tc)"

subsection \<open>Calls (fib.go)\<close>

definition fib_request :: "fib_TenantConfig \<Rightarrow> string \<Rightarrow> string \<Rightarrow> string \<Rightarrow> json option \<Rightarrow> out_request" where
  "fib_request tc token method path body =
     \<lparr> oq_Method = method, oq_URL = ftc_BaseURL tc @ path, oq_Auth = BearerToken token,
       oq_Headers = (if body \<noteq> None then [(''Content-Type'', ''application/json'')] else []),
       oq_Body = (case body of None \<Rightarrow> NoPayload | Some b \<Rightarrow> JsonPayload b) \<rparr>"

definition fib_error :: "int \<Rightarrow> doc option \<Rightarrow> go_error" where
  "fib_error status data = (case classifyFibError status data of (cat, code, msg) \<Rightarrow>
     GatewayErr \<lparr> ge_Category = cat, ge_Code = code, ge_GatewayCode = ''HTTP_'' @ FormatInt status, ge_GatewayMessage = msg,
       ge_Retryable = isRetryable cat \<rparr>)"

definition fib_do :: "http_net \<Rightarrow> fib_TenantConfig \<Rightarrow> string \<Rightarrow> string \<Rightarrow> json option \<Rightarrow> 'a decoder \<Rightarrow> 'a adapt" where
  "fib_do net tc method path body dec = bindE (fib_authenticate net tc) (\<lambda>token.
     bindE (send net '''' (fib_request tc token method path body)) (\<lambda>(status, data).
       if status \<ge> 400 then throw (fib_error status data) else decoded dec data))"

definition fib_payment_path :: "string \<Rightarrow> string \<Rightarrow> string" where
  "fib_payment_path reference action = ''/protected/v1/payments/'' @ reference @ action"

text \<open>\<open>Metadata["redirect_uri"]\<close> when it is a string.\<close>

definition create_body :: "codec \<Rightarrow> fib_TenantConfig \<Rightarrow> GatewayPaymentRequest \<Rightarrow> json" where
  "create_body cd tc req = (let redirect = (case map_of (gpr_Metadata req) ''redirect_uri'' of Some v \<Rightarrow> v | None \<Rightarrow> '''') in
     JObj ([(''monetaryValue'', JObj [(''amount'', JStr (formatAmount (gpr_Amount req))), (''currency'', JStr (ToUpper (gpr_Currency req)))]),
            (''statusCallbackUrl'', JStr (ftc_CallbackURL tc @ ''?transaction_id='' @ cd_uuid cd (gpr_TransactionID req)))] @
           (if redirect \<noteq> '''' then [(''redirectUri'', JStr redirect)] else []) @
           (if gpr_Description req \<noteq> '''' then [(''description'', JStr (gpr_Description req))] else []) @
           [(''category'', JStr ''ECOMMERCE'')]))"

definition fib_InitiatePayment :: "http_net \<Rightarrow> codec \<Rightarrow> (uuid \<Rightarrow> go_error + fib_TenantConfig) \<Rightarrow> GatewayPaymentRequest \<Rightarrow> GatewayPaymentResponse adapt" where
  "fib_InitiatePayment net cd resolve req =
    (if gpr_TenantID req = uuid_Nil then throw (gw_error ErrorCategoryGatewayError ''missing_tenant'' ''tenant_id is required'')
     else bindE (initiate_tenant resolve (gpr_TenantID req) (gpr_TransactionID req)) (\<lambda>tc.
       bindE (fib_do net tc ''POST'' ''/protected/v1/payments'' (Some (create_body cd tc req)) dec_created) (\<lambda>resp.
       ok \<lparr> gp_GatewayReferenceID = (if fc_ID resp = '''' then fc_PaymentID resp else fc_ID resp),
            gp_Status = GatewayPaymentStatusPending, gp_RespAmount = gpr_Amount req, gp_RespCurrency = ToUpper (gpr_Currency req),
            gp_ErrorCode = '''', gp_ErrorMessage = '''', gp_MethodResponse = NoMethodResponse,
            gp_GatewayMetadata = [(''qr_code'', JStr (fc_QRCode resp)), (''readable_code'', JStr (fc_ReadableCode resp)),
              (''personal_app_link'', JStr (fc_PersonalAppLink resp)), (''business_app_link'', JStr (fc_BusinessAppLink resp)),
              (''corporate_app_link'', JStr (fc_CorporateAppLink resp)), (''valid_until'', JStr (fc_ValidUntil resp))] \<rparr>)))"

definition paid_amount :: "fib_status \<Rightarrow> int" where
  "paid_amount resp = (case fs_PaidAmount resp of Some a \<Rightarrow> a
     | None \<Rightarrow> (case fs_Amount resp of Some (a, _) \<Rightarrow> (case parseAmount a of Some n \<Rightarrow> n | None \<Rightarrow> 0) | None \<Rightarrow> 0))"

definition fib_CheckStatus :: "http_net \<Rightarrow> (uuid \<Rightarrow> go_error + fib_TenantConfig) \<Rightarrow> GatewayStatusRequest \<Rightarrow> GatewayPaymentResponse adapt" where
  "fib_CheckStatus net resolve req =
     bindE (resolveTenant resolve (gsr_TenantID req) (gsr_TransactionID req)) (\<lambda>tc.
     bindE (fib_do net tc ''GET'' (fib_payment_path (gsr_GatewayReferenceID req) ''/status'') None dec_status) (\<lambda>resp.
     ok \<lparr> gp_GatewayReferenceID = (if fs_ID resp = '''' then fs_PaymentID resp else fs_ID resp),
          gp_Status = fib_mapPaymentStatus (fs_Status resp), gp_RespAmount = paid_amount resp,
          gp_RespCurrency = (case fs_Amount resp of Some (_, c) \<Rightarrow> c | None \<Rightarrow> ''''),
          gp_ErrorCode = '''', gp_ErrorMessage = '''', gp_MethodResponse = NoMethodResponse, gp_GatewayMetadata = [] \<rparr>))"

definition fib_Refund :: "http_net \<Rightarrow> (uuid \<Rightarrow> go_error + fib_TenantConfig) \<Rightarrow> GatewayRefundRequest \<Rightarrow> GatewayRefundResponse adapt" where
  "fib_Refund net resolve req =
     bindE (resolveTenant resolve (grr_TenantID req) (grr_TransactionID req)) (\<lambda>tc.
     bindE (fib_do net tc ''POST'' (fib_payment_path (grr_GatewayReferenceID req) ''/refund'') None dec_refundResponse) (\<lambda>(refundID, status).
     ok \<lparr> gr_GatewayRefundID = refundID,
          gr_Status = (if status = ''REFUNDED'' then GatewayRefundStatusCompleted else GatewayRefundStatusProcessing),
          gr_Amount = grr_Amount req, gr_Currency = ToUpper (grr_Currency req) \<rparr>))"

definition fib_Cancel :: "http_net \<Rightarrow> (uuid \<Rightarrow> go_error + fib_TenantConfig) \<Rightarrow> GatewayCancelRequest \<Rightarrow> GatewayCancelStatus adapt" where
  "fib_Cancel net resolve req =
     bindE (resolveTenant resolve (gxr_TenantID req) (gxr_TransactionID req)) (\<lambda>tc.
     bindE (fib_do net tc ''POST'' (fib_payment_path (gxr_GatewayReferenceID req) ''/cancel'') None dec_action) (\<lambda>status.
     ok (if status \<noteq> ''CANCELLED'' then GatewayCancelStatusFailed else GatewayCancelStatusCancelled)))"

definition fib_CapturePayment :: "GatewayCaptureRequest \<Rightarrow> GatewayCaptureResponse adapt" where
  "fib_CapturePayment req = throw not_implemented"

subsection \<open>Settlement and webhooks (settlement.go, webhook.go)\<close>

definition fib_FetchSettlementReport :: "uuid \<Rightarrow> string \<Rightarrow> int \<Rightarrow> int \<Rightarrow> SettlementReport adapt" where
  "fib_FetchSettlementReport tenantID gatewayID start fin =
     ok \<lparr> sr_GatewayID = gatewayID, sr_PeriodStart = start, sr_PeriodEnd = fin, sr_Entries = [] \<rparr>"

definition dec_fibWebhook :: "(string \<times> string \<times> string) decoder" where
  "dec_fibWebhook x = (case dec_fields x of (fs, g) \<Rightarrow>
     let (i, g1) = dec_str (field ''id'' fs); (p, g2) = dec_str (field ''paymentId'' fs); (s, g3) = dec_str (field ''status'' fs)
     in ((i, p, s), g \<and> g1 \<and> g2 \<and> g3))"

definition fib_ParseWebhook :: "codec \<Rightarrow> string \<Rightarrow> headers \<Rightarrow> string \<Rightarrow> go_error + GatewayWebhookEvent" where
  "fib_ParseWebhook cd body hs secret = (case Unmarshal dec_fibWebhook (cd_json cd body) of ((i, p, s), good) \<Rightarrow>
     let paymentID = (if i = '''' then p else i) in
     if \<not> good \<or> paymentID = '''' \<or> s = '''' then Inl ErrWebhookParse
     else Inr \<lparr> gwe_EventID = hex_EncodeToString (cd_sha256 cd body), gwe_GatewayReferenceID = paymentID,
       gwe_Status = fib_mapPaymentStatus s, gwe_EventType = '''', gwe_GatewayMetadata = [], gwe_Dispute = None \<rparr>)"

definition fib_UnsignedWebhooks :: bool where
  "fib_UnsignedWebhooks = True"

subsection \<open>Lemmas\<close>

lemma fib_error_classified [simp]: "classified (fib_error status data)"
  by (auto simp: fib_error_def classifyFibError_def Let_def)

lemma yields_requestAccessToken: "yields (\<lambda>_. True) classified (requestAccessToken net tc)"
  unfolding requestAccessToken_def by (auto intro!: yielding split: prod.splits)

lemma yields_fib_authenticate: "yields (\<lambda>_. True) classified (fib_authenticate net tc)"
  unfolding fib_authenticate_def by (auto intro!: yielding yields_requestAccessToken split: prod.splits option.splits)

lemma yields_fib_do: "yields (\<lambda>_. True) classified (fib_do net tc m path body d)"
  unfolding fib_do_def by (auto intro!: yields_bindE [OF yields_fib_authenticate] yielding yields_decoded)

lemma accessTokenRefreshSkew_bounds: "0 \<le> accessTokenRefreshSkew ttl \<and> accessTokenRefreshSkew ttl \<le> 30 * Second"
proof (cases "ttl \<le> 0")
  case False
  have "0 \<le> f64 (1 / 10)" by (rule f64.rnd_nonneg) simp
  moreover have "0 \<le> f64 (of_int ttl)" using False by (intro f64.rnd_nonneg) simp
  ultimately have "0 \<le> f64 (f64 (of_int ttl) * f64 (1 / 10))"
    using f64.rnd_nonneg [OF mult_nonneg_nonneg] by blast
  then have "0 \<le> f64 (f64 (f64 (of_int ttl) * f64 (1 / 10)) * 1000000000)"
    using f64.rnd_nonneg [OF mult_nonneg_nonneg, of _ 1000000000] by simp
  then show ?thesis by (simp add: accessTokenRefreshSkew_def)
qed (simp add: accessTokenRefreshSkew_def)

end
