(* ===== verification/Gateways.thy ===== *)
theory Gateways
  imports Fib Row_Frame
begin

section \<open>The registry of gateways (adapters/gateways/registry.go, internal/bootstrap)\<close>

text \<open>
  \<open>GatewayRegistry\<close> of \<open>bootstrap.go\<close> registers the three adapters under their names, each with the
  function that finds the credentials of a tenant. The payment and refund services see an adapter
  as the record \<open>GatewayAdapter\<close>, whose answers depend on the calls made so far: \<open>bind_adapter\<close> is that
  view, obtained by replaying the calls to this gateway on the adapter's state. \<open>clock\<close> gives the
  time of a call.
\<close>

subsection \<open>Adapters as the services see them\<close>

record gw_ops =
  op_initiate :: "GatewayPaymentRequest \<Rightarrow> GatewayPaymentResponse adapt"
  op_status :: "GatewayStatusRequest \<Rightarrow> GatewayPaymentResponse adapt"
  op_refund :: "GatewayRefundRequest \<Rightarrow> GatewayRefundResponse adapt"
  op_capture :: "GatewayCaptureRequest \<Rightarrow> GatewayCaptureResponse adapt"

fun op_step :: "gw_ops \<Rightarrow> string \<Rightarrow> gw_call \<Rightarrow> adapter_st \<Rightarrow> adapter_st" where
  "op_step ops gid (CallInitiate g req) a = (if g = gid then snd (op_initiate ops req a) else a)"
| "op_step ops gid (CallStatus g req) a = (if g = gid then snd (op_status ops req a) else a)"
| "op_step ops gid (CallRefund g req) a = (if g = gid then snd (op_refund ops req a) else a)"
| "op_step ops gid (CallCapture g req) a = (if g = gid then snd (op_capture ops req a) else a)"

fun replay_calls :: "gw_ops \<Rightarrow> string \<Rightarrow> (gw_call list \<Rightarrow> int) \<Rightarrow> gw_call list \<Rightarrow> gw_call list \<Rightarrow> adapter_st \<Rightarrow> adapter_st" where
  "replay_calls ops gid clock past [] a = a \<lparr> ad_now := clock past \<rparr>"
| "replay_calls ops gid clock past (c # cs) a =
     replay_calls ops gid clock (past @ [c]) cs (op_step ops gid c (a \<lparr> ad_now := clock past \<rparr>))"

definition adapter_after :: "gw_ops \<Rightarrow> string \<Rightarrow> (gw_call list \<Rightarrow> int) \<Rightarrow> gw_call list \<Rightarrow> adapter_st" where
  "adapter_after ops gid clock calls = replay_calls ops gid clock [] calls new_adapter"

definition bind_adapter :: "gw_ops \<Rightarrow> string \<Rightarrow> (gw_call list \<Rightarrow> int) \<Rightarrow> GatewayAdapter" where
  "bind_adapter ops gid clock =
     \<lparr> InitiatePayment = (\<lambda>calls req. fst (op_initiate ops req (adapter_after ops gid clock calls))),
       CheckStatus = (\<lambda>calls req. fst (op_status ops req (adapter_after ops gid clock calls))),
       GwRefund = (\<lambda>calls req. fst (op_refund ops req (adapter_after ops gid clock calls))),
       CapturePayment = (\<lambda>calls req. fst (op_capture ops req (adapter_after ops gid clock calls))) \<rparr>"

subsection \<open>The registry\<close>

text \<open>The adapters of the repository; all of them parse webhooks, FIB's are unsigned.\<close>

datatype adapter_kind = StripeAdapter | RazorpayAdapter | FibAdapter

record registry =
  reg_adapters :: "string \<rightharpoonup> adapter_kind"
  reg_fetchers :: "string \<rightharpoonup> adapter_kind"

definition NewRegistry :: registry where
  "NewRegistry = \<lparr> reg_adapters = Map.empty, reg_fetchers = Map.empty \<rparr>"

definition reg_Register :: "string \<Rightarrow> adapter_kind \<Rightarrow> registry \<Rightarrow> registry" where
  "reg_Register gid a r = r \<lparr> reg_adapters := (reg_adapters r)(gid \<mapsto> a) \<rparr>"

definition RegisterSettlementFetcher :: "string \<Rightarrow> adapter_kind \<Rightarrow> registry \<Rightarrow> registry" where
  "RegisterSettlementFetcher gid a r = r \<lparr> reg_fetchers := (reg_fetchers r)(gid \<mapsto> a) \<rparr>"

definition reg_Get :: "string \<Rightarrow> registry \<Rightarrow> go_error + adapter_kind" where
  "reg_Get gid r = (case reg_adapters r gid of None \<Rightarrow> Inl (Errorf ''gateways: no adapter registered'') | Some a \<Rightarrow> Inr a)"

definition SettlementFetcher :: "string \<Rightarrow> registry \<Rightarrow> adapter_kind option" where
  "SettlementFetcher gid r = reg_fetchers r gid"

definition WebhookParser :: "string \<Rightarrow> registry \<Rightarrow> adapter_kind option" where
  "WebhookParser gid r = reg_adapters r gid"

definition WebhookRequiresRefetch :: "string \<Rightarrow> registry \<Rightarrow> bool" where
  "WebhookRequiresRefetch gid r = (case reg_adapters r gid of Some FibAdapter \<Rightarrow> fib_UnsignedWebhooks | _ \<Rightarrow> False)"

fun ParseWebhook :: "adapter_kind \<Rightarrow> codec \<Rightarrow> int \<Rightarrow> string \<Rightarrow> headers \<Rightarrow> string \<Rightarrow> go_error + GatewayWebhookEvent" where
  "ParseWebhook StripeAdapter cd now body hs secret = stripe_ParseWebhook cd now body hs secret"
| "ParseWebhook RazorpayAdapter cd now body hs secret = razorpay_ParseWebhook cd body hs secret"
| "ParseWebhook FibAdapter cd now body hs secret = fib_ParseWebhook cd body hs secret"

subsection \<open>Wiring (bootstrap.go)\<close>

text \<open>\<open>tcs\<close> is \<open>TenantConfigStore.Get\<close>; the flag that says whether a configuration is active comes with it
  and is not looked at.\<close>

record TenantGatewayConfig =
  tgc_TenantID :: uuid
  tgc_GatewayID :: string
  tgc_Provider :: string
  tgc_Config :: raw_json
  tgc_ConfigVersion :: int
  tgc_IsActive :: bool

type_synonym config_getter = "uuid \<Rightarrow> string \<Rightarrow> go_error + TenantGatewayConfig"

definition stripe_resolve :: "config_getter \<Rightarrow> uuid \<Rightarrow> go_error + stripe_TenantConfig" where
  "stripe_resolve tcs tenantID = (case tcs tenantID ''stripe'' of Inl e \<Rightarrow> Inl e
     | Inr raw \<Rightarrow> (case ParseProviderConfig ProviderStripe (tgc_Config raw) of
         Inl e \<Rightarrow> Inl e
       | Inr (StripeConfig apiKey baseURL webhookSecret publishableKey) \<Rightarrow>
           Inr \<lparr> stc_APIKey = apiKey, stc_BaseURL = baseURL, stc_PublishableKey = publishableKey \<rparr>
       | Inr _ \<Rightarrow> Inl (Errorf ''interface conversion'')))"

definition razorpay_resolve :: "config_getter \<Rightarrow> uuid \<Rightarrow> go_error + razorpay_TenantConfig" where
  "razorpay_resolve tcs tenantID = (case tcs tenantID ''razorpay'' of Inl e \<Rightarrow> Inl e
     | Inr raw \<Rightarrow> (case ParseProviderConfig ProviderRazorpay (tgc_Config raw) of
         Inl e \<Rightarrow> Inl e
       | Inr (RazorpayConfig keyID keySecret baseURL publishableKey webhookSecret) \<Rightarrow>
           Inr \<lparr> rtc_KeyID = keyID, rtc_KeySecret = keySecret, rtc_BaseURL = baseURL, rtc_PublishableKey = publishableKey \<rparr>
       | Inr _ \<Rightarrow> Inl (Errorf ''interface conversion'')))"

definition fib_resolve :: "config_getter \<Rightarrow> uuid \<Rightarrow> go_error + fib_TenantConfig" where
  "fib_resolve tcs tenantID = (case tcs tenantID ''fib'' of Inl e \<Rightarrow> Inl e
     | Inr raw \<Rightarrow> (case ParseProviderConfig ProviderFIB (tgc_Config raw) of
         Inl e \<Rightarrow> Inl e
       | Inr (FIBConfig clientID clientSecret baseURL callbackURL) \<Rightarrow>
           Inr \<lparr> ftc_ClientID = clientID, ftc_ClientSecret = clientSecret, ftc_BaseURL = baseURL, ftc_CallbackURL = callbackURL \<rparr>
       | Inr _ \<Rightarrow> Inl (Errorf ''interface conversion'')))"

fun kind_ops :: "adapter_kind \<Rightarrow> http_net \<Rightarrow> codec \<Rightarrow> config_getter \<Rightarrow> gw_ops" where
  "kind_ops StripeAdapter net cd tcs = \<lparr> op_initiate = stripe_InitiatePayment net cd (stripe_resolve tcs),
     op_status = stripe_CheckStatus net (stripe_resolve tcs), op_refund = stripe_Refund net cd (stripe_resolve tcs),
     op_capture = stripe_CapturePayment \<rparr>"
| "kind_ops RazorpayAdapter net cd tcs = \<lparr> op_initiate = razorpay_InitiatePayment net cd (razorpay_resolve tcs),
     op_status = razorpay_CheckStatus net (razorpay_resolve tcs), op_refund = razorpay_Refund net (razorpay_resolve tcs),
     op_capture = razorpay_CapturePayment \<rparr>"
| "kind_ops FibAdapter net cd tcs = \<lparr> op_initiate = fib_InitiatePayment net cd (fib_resolve tcs),
     op_status = fib_CheckStatus net (fib_resolve tcs), op_refund = fib_Refund net (fib_resolve tcs),
     op_capture = fib_CapturePayment \<rparr>"

fun kind_fetch :: "adapter_kind \<Rightarrow> http_net \<Rightarrow> config_getter \<Rightarrow> uuid \<Rightarrow> string \<Rightarrow> int \<Rightarrow> int \<Rightarrow> SettlementReport adapt" where
  "kind_fetch StripeAdapter net tcs = stripe_FetchSettlementReport net (stripe_resolve tcs)"
| "kind_fetch RazorpayAdapter net tcs = razorpay_FetchSettlementReport net (razorpay_resolve tcs)"
| "kind_fetch FibAdapter net tcs = fib_FetchSettlementReport"

definition GatewayRegistry :: registry where
  "GatewayRegistry =
     RegisterSettlementFetcher ''fib'' FibAdapter (RegisterSettlementFetcher ''razorpay'' RazorpayAdapter
       (RegisterSettlementFetcher ''stripe'' StripeAdapter
         (reg_Register ''fib'' FibAdapter (reg_Register ''razorpay'' RazorpayAdapter
           (reg_Register ''stripe'' StripeAdapter NewRegistry)))))"

text \<open>What the services get: \<open>registry.Get\<close> for payments and refunds, \<open>SettlementFetcher\<close> for reconciliation.\<close>

definition service_registry :: "http_net \<Rightarrow> codec \<Rightarrow> config_getter \<Rightarrow> (gw_call list \<Rightarrow> int) \<Rightarrow> string \<Rightarrow> GatewayAdapter option" where
  "service_registry net cd tcs clock gid = (case reg_Get gid GatewayRegistry of Inl _ \<Rightarrow> None
     | Inr k \<Rightarrow> Some (bind_adapter (kind_ops k net cd tcs) gid clock))"

definition service_settlement :: "http_net \<Rightarrow> config_getter \<Rightarrow> settlement" where
  "service_settlement net tcs gid = (case SettlementFetcher gid GatewayRegistry of None \<Rightarrow> None
     | Some k \<Rightarrow> Some (\<lambda>tenant g from to. fst (kind_fetch k net tcs tenant g from to new_adapter)))"

lemma registry_ids: "reg_adapters GatewayRegistry gid \<noteq> None \<longleftrightarrow> gid \<in> {''stripe'', ''razorpay'', ''fib''}"
  "reg_fetchers GatewayRegistry = reg_adapters GatewayRegistry"
  by (auto simp: GatewayRegistry_def RegisterSettlementFetcher_def reg_Register_def NewRegistry_def fun_eq_iff)

subsection \<open>Answers of every adapter\<close>

text \<open>The contract the services rely on, for each adapter: errors are classified, and a capture is refused.\<close>

locale gateway_client =
  fixes ops :: gw_ops
  assumes initiate_yields: "yields (\<lambda>r. gp_Status r \<noteq> GatewayPaymentStatusAuthorized \<and> gp_Status r \<noteq> GatewayPaymentStatusAmbiguous)
      classified (op_initiate ops req)"
    and capture_refused: "op_capture ops creq a = (Inl not_implemented, a)"
begin

lemma capture_answer: "CapturePayment (bind_adapter ops gid clock) calls creq = Inl not_implemented"
  by (simp add: bind_adapter_def capture_refused)

lemma initiate_answer:
  "InitiatePayment (bind_adapter ops gid clock) calls req = Inr r \<Longrightarrow> gp_Status r \<noteq> GatewayPaymentStatusAuthorized"
  "InitiatePayment (bind_adapter ops gid clock) calls req = Inl e \<Longrightarrow> classified e"
  using initiate_yields [of req] unfolding yields_def bind_adapter_def by (auto split: sum.splits)

end

lemma yields_initiate_tenant: "yields (\<lambda>_. True) classified (initiate_tenant resolve t i)"
  unfolding initiate_tenant_def by (auto intro!: yielding)

lemma status_maps:
  "stripe_mapPaymentStatus intent \<notin> {GatewayPaymentStatusAuthorized, GatewayPaymentStatusAmbiguous}"
  "mapOrderStatus s \<notin> {GatewayPaymentStatusAuthorized, GatewayPaymentStatusAmbiguous}"
  "fib_mapPaymentStatus s \<notin> {GatewayPaymentStatusAuthorized, GatewayPaymentStatusAmbiguous}"
  by (simp_all add: stripe_mapPaymentStatus_def mapOrderStatus_def fib_mapPaymentStatus_def)

lemmas yields_calls = yields_bindE [OF yields_initiate_tenant] yields_bindE [OF yields_stripe_do]
  yields_bindE [OF yields_razorpay_do] yields_bindE [OF yields_fib_do]

interpretation stripe_client: gateway_client "kind_ops StripeAdapter net cd tcs"
  using status_maps(1)
  by unfold_locales (auto simp: stripe_InitiatePayment_def Let_def stripe_CapturePayment_def throw_def stripe_response_status
      intro!: yields_calls yielding)

interpretation razorpay_client: gateway_client "kind_ops RazorpayAdapter net cd tcs"
  using status_maps(2)
  by unfold_locales (auto simp: razorpay_InitiatePayment_def Let_def razorpay_CapturePayment_def throw_def razorpay_response_status
      intro!: yields_calls yielding)

interpretation fib_client: gateway_client "kind_ops FibAdapter net cd tcs"
  by unfold_locales (auto simp: fib_InitiatePayment_def Let_def fib_CapturePayment_def throw_def
      intro!: yields_calls yielding)

lemma kind_capture: "CapturePayment (bind_adapter (kind_ops k net cd tcs) gid clock) calls creq = Inl not_implemented"
  by (cases k) (simp_all only: stripe_client.capture_answer razorpay_client.capture_answer fib_client.capture_answer)

lemma service_capture:
  "service_registry net cd tcs clock gid = Some adapter \<Longrightarrow> CapturePayment adapter calls creq = Inl not_implemented"
  by (auto simp: service_registry_def kind_capture split: sum.splits)

subsection \<open>Manual capture\<close>

lemma captureGateway_refused:
  assumes "CapturePayment adapter (w_calls w) \<lparr> gcr_TransactionID = t_ID t, gcr_GatewayReferenceID = t_GatewayReferenceID t,
      gcr_IdempotencyKey = '''', gcr_Amount = fst (gatewayAmountFor t), gcr_Currency = snd (gatewayAmountFor t) \<rparr> = Inl not_implemented"
    and "captureGateway gid adapter t w = (Inr ans, w')"
  shows "\<exists>g. ans = Inl g \<and> ge_Category g = ErrorCategoryGatewayError"
  using assms
  by (auto simp: captureGateway_def gateway_call_def as_answer_def to_GatewayError_def not_implemented_def gw_error_def Let_def run
      split: prod.splits)

lemma failed_outcome:
  "ge_Category g = ErrorCategoryGatewayError \<Longrightarrow> resolveCaptureOutcome (Inl g) = failed_with (gateway_reason g)"
  by (simp add: resolveCaptureOutcome_def error_outcome_def)

lemma finalize_failed_status:
  assumes "finalize ev t resp (failed_with r) w = (Inr t2, w')"
  shows "t_Status t2 = StatusFailed"
proof -
  let ?t = "(note_response t resp) \<lparr> t_ActualGateway := t_GatewayID (note_response t resp) \<rparr>"
  from assms obtain c w1 w2 where "finalize_tx ev ?t (failed_with r) c w1 = (Inr t2, w2)"
    by (auto simp: finalize_def Let_def run)
  then obtain t1 t1' w3 w4 where "TransitionState ?t StatusFailed ActorGateway (w_clock w1) = Inr t1"
    "Txn_UpdateStatus (t1 \<lparr> t_FailureReason := Some r \<rparr>) w3 = (Inr t2, w4)"
    by (auto simp: finalize_tx_def finalize_move_def failed_with_def run)
  then show ?thesis
    by (auto simp: TransitionState_def applyTransitionEffects_def dest!: Txn_UpdateStatus_effect split: if_splits)
qed

lemma begin_processing_status:
  assumes "begin_processing t w = (Inr t', w')"
  shows "t_Status t' = StatusProcessing" "t_ID t' = t_ID t"
    "\<exists>row. txn_of (cur_db w') (t_ID t) = Some row \<and> t_Status row = StatusProcessing"
proof -
  from assms obtain t1 where ts: "TransitionState t StatusProcessing ActorSystem (w_clock w) = Inr t1"
    and us: "Txn_UpdateStatus (t1 \<lparr> t_ProcessingStartedAt := Some (w_clock w),
       t_ProcessingTimeout := Some (wrap64 (t_EstimatedTimeoutSeconds t * Second)) \<rparr>) w = (Inr t', w')"
    by (auto simp: begin_processing_def run)
  have st: "t_Status t1 = StatusProcessing" "t_ID t1 = t_ID t"
    using ts by (auto simp: TransitionState_def applyTransitionEffects_def split: if_splits)
  from Txn_UpdateStatus_effect [OF us] st
  show "t_Status t' = StatusProcessing" "t_ID t' = t_ID t"
    "\<exists>row. txn_of (cur_db w') (t_ID t) = Some row \<and> t_Status row = StatusProcessing"
    by (auto simp: status_cols_def)
qed

lemma reload_after_begin:
  assumes w: "settled (\<lambda>_. True) w" and b: "WithinTx (begin_processing t) w = (Inr t1, w1)"
    and a: "TryAcquireDirect k i ttl w1 = (Inr acq, w2)" and g: "Txn_GetByID (t_ID t1) w2 = (Inr t2, w3)"
  shows "t_Status t2 = StatusProcessing"
proof -
  let ?P = "\<lambda>d. \<exists>row. txn_of d (t_ID t) = Some row \<and> t_Status row = StatusProcessing"
  from b obtain w0 where b0: "begin_processing t (open_tx w) = (Inr t1, w0)" and w1: "w1 = close_tx w0" by (auto simp: run)
  have "settled (\<lambda>_. True) w1"
    using keepsD [OF keeps_WithinTx [OF keeps_tx_bodies(3)] w b] by simp
  then have "settled ?P w1" using begin_processing_status(3) [OF b0] w1 by (simp add: settled_def)
  from keepsD [OF keeps_TryAcquireDirect this a] have "settled ?P w2" by simp
  from Txn_GetByID_settled(4) [OF this g refl] this show ?thesis
    using begin_processing_status(2) [OF b0] by (auto simp: settled_def)
qed

lemma under_lease_failed:
  assumes w: "settled (\<lambda>_. True) w"
    and fails: "\<And>adapter t w ans w'. ev_registry ev (t_GatewayID t) = Some adapter \<Longrightarrow> call adapter t w = (Inr ans, w') \<Longrightarrow>
      \<exists>r. resolve ans = failed_with r"
    and u: "under_lease ev t call resolve w = (Inr t2, w')"
  shows "t_Status t2 \<in> {StatusFailed, StatusProcessing}"
proof -
  from u obtain t1 w1 acq w2 where b: "WithinTx (begin_processing t) w = (Inr t1, w1)"
    and a: "TryAcquireDirect (t_ID t1) (t_ID t1) (lease_ttl t1) w1 = (Inr acq, w2)"
    and rest: "(if \<not> acq then wrapE ''payment: reload transaction'' (Txn_GetByID (t_ID t1))
      else case ev_registry ev (t_GatewayID t1) of None \<Rightarrow> throw (Errorf ''payment: resolve adapter'')
      | Some adapter \<Rightarrow> bindE (call adapter t1) (\<lambda>ans. bindE (recordBreaker ev (t_GatewayID t1) ans) (\<lambda>_.
          if \<not> oc_terminal (resolve ans) then ok t1 else finalize ev t1 (resp_of ans) (resolve ans)))) w2 = (Inr t2, w')"
    by (auto simp: under_lease_def mapE_def run split: prod.splits sum.splits)
  show ?thesis
  proof (cases acq)
    case False
    with rest have "Txn_GetByID (t_ID t1) w2 = (Inr t2, w')" by (simp add: run)
    from reload_after_begin [OF w b a this] show ?thesis by simp
  next
    case True
    with rest obtain adapter ans w3 w4 where reg: "ev_registry ev (t_GatewayID t1) = Some adapter"
      and c: "call adapter t1 w2 = (Inr ans, w3)"
      and f: "(if \<not> oc_terminal (resolve ans) then ok t1 else finalize ev t1 (resp_of ans) (resolve ans)) w4 = (Inr t2, w')"
      by (auto simp: run split: option.splits)
    from fails [OF reg c] obtain r where "resolve ans = failed_with r" by blast
    with f finalize_failed_status show ?thesis by (auto simp: failed_with_def)
  qed
qed

text \<open>No adapter implements captures, and the service takes the refusal for a decline: a capture request
  that succeeds never returns a captured payment. It returns the payment as FAILED, or as PROCESSING when
  another call holds its lease.\<close>

theorem manual_capture_fails:
  assumes "ev_registry ev = service_registry net cd tcs clock" "settled (\<lambda>_. True) w" "fst (Capture ev i w) = Inr t"
  shows "t_Status t \<in> {StatusFailed, StatusProcessing}"
proof -
  obtain w' where "Capture ev i w = (Inr t, w')" using assms(3) by (cases "Capture ev i w") simp
  then obtain txn w1 where g: "Txn_GetByID i w = (Inr txn, w1)"
    and u: "under_lease ev txn (\<lambda>adapter t. captureGateway (t_GatewayID t) adapter t) resolveCaptureOutcome w1 = (Inr t, w')"
    by (auto simp: Capture_def run split: if_splits)
  from Txn_GetByID_settled(1) [OF assms(2) g] have "settled (\<lambda>_. True) w1" .
  then show ?thesis
  proof (rule under_lease_failed [OF _ _ u])
    fix adapter t w ans w'
    assume "ev_registry ev (t_GatewayID t) = Some adapter" "captureGateway (t_GatewayID t) adapter t w = (Inr ans, w')"
    with assms(1) captureGateway_refused [OF service_capture] failed_outcome show "\<exists>r. resolveCaptureOutcome ans = failed_with r"
      by metis
  qed
qed

definition offline :: http_net where
  "offline = \<lparr> net_build = (\<lambda>_. None), net_do = (\<lambda>_ _. NetFailure ''connection refused'') \<rparr>"

definition plain_codec :: codec where
  "plain_codec = \<lparr> cd_sha256 = (\<lambda>s. s), cd_hmac = (\<lambda>k s. k @ s), cd_json = (\<lambda>_. None), cd_stream = (\<lambda>_. None), cd_text = (\<lambda>_. ''''), cd_uuid = (\<lambda>_. ''id'') \<rparr>"

definition no_configs :: config_getter where
  "no_configs = (\<lambda>_ _. Inl (Errorf ''gateway not found''))"

definition wired_env :: env where
  "wired_env = sample_env \<lparr> ev_registry := service_registry offline plain_codec no_configs (\<lambda>_. 0) \<rparr>"

definition authorized_world :: world where
  "authorized_world = webhook_world [(processing_payment False) \<lparr> t_Status := StatusAuthorized, t_GatewayID := ''stripe'',
     t_EstimatedTimeoutSeconds := 30 \<rparr>]"

lemmas wiring_eval = wired_env_def authorized_world_def offline_def plain_codec_def no_configs_def service_registry_def
  reg_Get_def GatewayRegistry_def RegisterSettlementFetcher_def reg_Register_def NewRegistry_def bind_adapter_def

lemma capture_returns: "\<exists>t. fst (Capture wired_env 1 authorized_world) = Inr t"
  by (simp add: Capture_def under_lease_def begin_processing_def captureGateway_def gateway_call_def finalize_def finalize_tx_def
      finalize_move_def finalize_messages_def payment_eval webhook_eval wiring_eval not_implemented_def gw_error_def stripe_CapturePayment_def
      mapE_def TryAcquireDirect_def lease_ttl_def gatewayAmountFor_def resolveCaptureOutcome_def error_outcome_def failed_with_def
      to_GatewayError_def gateway_reason_def breaker_RecordFailure_def cb_RecordFailure_def cbRecordFailureLua_def fresh_store_def)

theorem manual_capture_fails_witness:
  "case fst (Capture wired_env 1 authorized_world) of Inl _ \<Rightarrow> False | Inr t \<Rightarrow> t_Status t \<in> {StatusFailed, StatusProcessing}"
proof -
  obtain t where t: "fst (Capture wired_env 1 authorized_world) = Inr t" using capture_returns by blast
  have "settled (\<lambda>_. True) authorized_world"
    by (simp add: settled_def coh_def authorized_world_def webhook_world_def sample_world_def)
  moreover have "ev_registry wired_env = service_registry offline plain_codec no_configs (\<lambda>_. 0)" by (simp add: wired_env_def)
  ultimately show ?thesis using manual_capture_fails [OF _ _ t] t by simp
qed

subsection \<open>Credentials\<close>

lemma resolveTenant_sends: "sends_only P (resolveTenant resolve t i)"
  unfolding resolveTenant_def by (intro sending) simp

text \<open>What follows \<open>resolveTenant\<close> and \<open>initiate_tenant\<close> runs with the configuration of the tenant asked for.\<close>

lemma after_tenant:
  assumes "\<And>tc. resolve t = Inr tc \<Longrightarrow> sends_only P (f tc)"
  shows "t \<noteq> uuid_Nil \<Longrightarrow> sends_only P (bindE (resolveTenant resolve t i) f)"
    and "sends_only P (bindE (initiate_tenant resolve t i) f)"
proof -
  have "sends_only P (bindE (lift (resolve t)) f)"
    by (cases "resolve t") (simp_all add: assms sends_only_def bindE_def lift_def, metis assms sends_only_def)
  then have *: "\<exists>new. ad_sent (snd (bindE (lift (resolve t)) f a)) = ad_sent a @ new \<and> list_all P new" for a
    by (simp add: sends_only_def)
  show "t \<noteq> uuid_Nil \<Longrightarrow> sends_only P (bindE (resolveTenant resolve t i) f)"
    unfolding sends_only_def
    using * [of "a \<lparr> ad_txnTenants := (ad_txnTenants a)(i \<mapsto> t) \<rparr>" for a]
    by (simp add: resolveTenant_def bindE_def changing_def lift_def split: sum.splits)
  show "sends_only P (bindE (initiate_tenant resolve t i) f)"
    unfolding sends_only_def
    using * [of "a \<lparr> ad_txnTenants := (ad_txnTenants a)(i \<mapsto> t) \<rparr>" for a]
    by (auto simp: initiate_tenant_def bindE_def changing_def lift_def throw_def ok_def split: sum.splits)
qed

text \<open>The account in whose name a request is made.\<close>

definition stripe_account :: "config_getter \<Rightarrow> uuid \<Rightarrow> out_request \<Rightarrow> bool" where
  "stripe_account tcs t q \<longleftrightarrow> (\<exists>tc. stripe_resolve tcs t = Inr tc \<and> oq_Auth q = Basic (stc_APIKey tc) '''')"

definition razorpay_account :: "config_getter \<Rightarrow> uuid \<Rightarrow> out_request \<Rightarrow> bool" where
  "razorpay_account tcs t q \<longleftrightarrow> (\<exists>tc. razorpay_resolve tcs t = Inr tc \<and> oq_Auth q = Basic (rtc_KeyID tc) (rtc_KeySecret tc))"

lemma account_requests:
  "stripe_resolve tcs t = Inr tc \<Longrightarrow> stripe_account tcs t (stripe_request tc m path form k)"
  "razorpay_resolve tcs t = Inr rc \<Longrightarrow> razorpay_account tcs t (razorpay_request rc m path body)"
  by (simp_all add: stripe_account_def razorpay_account_def stripe_request_def razorpay_request_def)

lemma refund_target_sends:
  "razorpay_resolve tcs t = Inr rc \<Longrightarrow> sends_only (razorpay_account tcs t) (refund_target net rc reference)"
  unfolding refund_target_def by (auto intro!: sending account_requests split: list.split)

text \<open>C14. Money moves on the account of the tenant that owns the payment: every request that a charge, a
  status check or a refund of a tenant sends to Stripe or Razorpay carries the credentials of this
  tenant's configuration and no others.\<close>

theorem requests_use_own_credentials:
  assumes "gsr_TenantID sreq \<noteq> uuid_Nil" "grr_TenantID rreq \<noteq> uuid_Nil"
  shows "sends_only (stripe_account tcs (gpr_TenantID ireq)) (op_initiate (kind_ops StripeAdapter net cd tcs) ireq) \<and>
    sends_only (stripe_account tcs (gsr_TenantID sreq)) (op_status (kind_ops StripeAdapter net cd tcs) sreq) \<and>
    sends_only (stripe_account tcs (grr_TenantID rreq)) (op_refund (kind_ops StripeAdapter net cd tcs) rreq) \<and>
    sends_only (razorpay_account tcs (gpr_TenantID ireq)) (op_initiate (kind_ops RazorpayAdapter net cd tcs) ireq) \<and>
    sends_only (razorpay_account tcs (gsr_TenantID sreq)) (op_status (kind_ops RazorpayAdapter net cd tcs) sreq) \<and>
    sends_only (razorpay_account tcs (grr_TenantID rreq)) (op_refund (kind_ops RazorpayAdapter net cd tcs) rreq)"
  unfolding kind_ops.simps gw_ops.simps stripe_InitiatePayment_def stripe_CheckStatus_def stripe_Refund_def
    razorpay_InitiatePayment_def razorpay_CheckStatus_def razorpay_Refund_def Let_def
  by (intro conjI; intro after_tenant assms sending account_requests refund_target_sends; assumption)

text \<open>A tenant with an account at Stripe.\<close>

definition one_config :: config_getter where
  "one_config = (\<lambda>t g. if t = 7 \<and> g = ''stripe'' then Inr \<lparr> tgc_TenantID = 7, tgc_GatewayID = ''stripe'', tgc_Provider = ''stripe'',
     tgc_Config = RawObject [(''api_key'', JString ''sk_tenant_7'')], tgc_ConfigVersion = 1, tgc_IsActive = True \<rparr>
     else no_configs t g)"

definition status_question :: GatewayStatusRequest where
  "status_question = \<lparr> gsr_TransactionID = 1, gsr_TenantID = 7, gsr_GatewayReferenceID = ''pi_1'', gsr_IdempotencyKey = '''' \<rparr>"

lemma status_question_sent:
  "map oq_Auth (ad_sent (snd (op_status (kind_ops StripeAdapter offline plain_codec one_config) status_question new_adapter)))
     = [Basic ''sk_tenant_7'' '''']"
proof -
  have "stripe_resolve one_config 7 = Inr \<lparr> stc_APIKey = ''sk_tenant_7'', stc_BaseURL = '''', stc_PublishableKey = '''' \<rparr>" by code_simp
  then show ?thesis
    by (simp add: status_question_def stripe_CheckStatus_def resolveTenant_def stripe_do_def send_def bindE_def changing_def reading_def lift_def
        throw_def offline_def new_adapter_def stripe_request_def)
qed

theorem requests_use_own_credentials_witness:
  "let sent = ad_sent (snd (op_status (kind_ops StripeAdapter offline plain_codec one_config) status_question new_adapter))
   in map oq_Auth sent = [Basic ''sk_tenant_7'' ''''] \<and> list_all (stripe_account one_config 7) sent"
proof -
  have "sends_only (stripe_account one_config (gsr_TenantID status_question))
      (op_status (kind_ops StripeAdapter offline plain_codec one_config) status_question)"
    using requests_use_own_credentials [of status_question "\<lparr> grr_RefundID = 1, grr_TransactionID = 1, grr_TenantID = 7, grr_GatewayReferenceID = '''',
      grr_Amount = 1, grr_Currency = '''', grr_Reason = '''', grr_IdempotencyKey = '''' \<rparr>" one_config _ offline plain_codec]
    by (simp add: status_question_def)
  then have "list_all (stripe_account one_config 7) (ad_sent (snd (op_status (kind_ops StripeAdapter offline plain_codec one_config) status_question new_adapter)))"
    unfolding sends_only_def by (auto dest!: spec [where x = new_adapter] simp: new_adapter_def status_question_def)
  with status_question_sent show ?thesis by (simp only: Let_def)
qed

subsection \<open>Refunds at FIB\<close>

text \<open>FIB's refund request names no amount: whatever amount is asked for, the same requests are sent and
  the same change happens at FIB, and the adapter reports the amount it was asked for.\<close>

theorem fib_refund_ignores_amount:
  "fib_Refund net resolve (req \<lparr> grr_Amount := b \<rparr>) a =
     (map_sum (\<lambda>e. e) (\<lambda>r. r \<lparr> gr_Amount := b \<rparr>) (fst (fib_Refund net resolve (req \<lparr> grr_Amount := c \<rparr>) a)),
      snd (fib_Refund net resolve (req \<lparr> grr_Amount := c \<rparr>) a))"
  by (simp add: fib_Refund_def bindE_def ok_def split: prod.splits sum.splits)

subsection \<open>Receipts and signatures\<close>

text \<open>The derived receipt of a Razorpay order always has the 40 characters the provider allows, and reads
  back as the checksum of the transaction and attempt it was derived from: two attempts share a receipt
  exactly when their checksums collide.\<close>

theorem receipt_roundtrip:
  "length (deriveReceipt cd i n) = 40 \<and> read62 (deriveReceipt cd i n) = unat (ChecksumIEEE (cd_uuid cd i @ FormatInt n))"
proof -
  have "length (base62 (ChecksumIEEE (cd_uuid cd i @ FormatInt n))) \<le> 6" by (rule base62_short)
  then show ?thesis by (simp add: deriveReceipt_def Let_def read62_zeros read62_base62)
qed

text \<open>C15. A Stripe webhook that carries a signature header is accepted exactly when the code in it is the HMAC,
  under the secret, of the time in it and the body received, and that time is at most five minutes away.\<close>

theorem stripe_signature_exact:
  assumes "in64 ts" "ts \<noteq> 0" "mac \<noteq> ''''" "hs ''Stripe-Signature'' = signature_header ts mac"
  shows "stripe_ParseWebhook cd now body hs secret \<noteq> Inl ErrWebhookSignature \<longleftrightarrow>
     cd_hmac cd secret (signed_text ts body) = mac \<and> \<bar>wrap64 (unix now - ts)\<bar> \<le> 300"
proof -
  have "parse_payload data \<noteq> Inl ErrWebhookSignature" for data
    by (auto simp: parse_payload_def split: prod.splits if_splits)
  then show ?thesis
    using parse_signature_header [OF assms(1-3)] assms(4) hex_roundtrip [of mac]
    by (auto simp: stripe_ParseWebhook_def stripe_authentic_def webhookToleranceSeconds_def)
qed

theorem stripe_signature_exact_witness:
  "stripe_ParseWebhook plain_codec (5 * Second) ''{}'' (\<lambda>_. signature_header 5 ''whsec5.{}'') ''whsec''
     \<noteq> Inl ErrWebhookSignature"
proof -
  let ?mac = "''whsec5.{}''"
  have mac: "cd_hmac plain_codec ''whsec'' (signed_text 5 ''{}'') = ?mac" by code_simp
  have "unix (5 * Second) = 5" by (simp add: unix_def)
  then have near: "\<bar>wrap64 (unix (5 * Second) - 5)\<bar> \<le> 300" by (simp only: wrap64_def) simp
  have "in64 5" by (simp add: in64_def)
  from stripe_signature_exact [OF this, of ?mac "\<lambda>_. signature_header 5 ?mac" plain_codec "5 * Second" "''{}''" "''whsec''"]
  show ?thesis using mac near by (simp del: not_None_eq)
qed

end
