(* ===== verification/Encryption.thy ===== *)
theory Encryption
  imports Go_Strings
begin

section \<open>Envelope encryption (internal/adapters/encryption)\<close>

text \<open>
  Secrets are sealed with a data key, the data key with the master key (\<open>keymanager.go\<close>), and both
  travel in one blob (\<open>envelope.go\<close>). Data keys are reused until they are old or used up, and unwrapped
  keys are cached under the hash of their wrapped form. AES-GCM, SHA-256 and the random source are
  the parameter \<open>crypto\<close>: \<open>cr_seal key nonce plaintext aad\<close>, \<open>cr_open key nonce ciphertext aad\<close>, and
  \<open>cr_rand i n\<close> is the \<open>i\<close>-th read of \<open>n\<close> bytes. An AEAD is its key. Bytes are characters.
\<close>

record crypto =
  cr_seal :: "string \<Rightarrow> string \<Rightarrow> string \<Rightarrow> string \<Rightarrow> string"
  cr_open :: "string \<Rightarrow> string \<Rightarrow> string \<Rightarrow> string \<Rightarrow> string option"
  cr_rand :: "nat \<Rightarrow> nat \<Rightarrow> string option"
  cr_sha256 :: "string \<Rightarrow> string"

record LocalKeyManager =
  km_keyID :: string
  km_aead :: string

record Envelope =
  en_km :: LocalKeyManager
  en_dekTTL :: int
  en_maxUses :: int
  en_cacheTTL :: int
  en_curAEAD :: "string option"
  en_curWrapped :: string
  en_uses :: int
  en_dekExpiry :: int
  en_cache :: "string \<Rightarrow> (string \<times> int) option"
  en_reads :: nat
  en_now :: int

definition NonceSize :: nat where "NonceSize = 12"
definition dekSize :: nat where "dekSize = 32"

subsection \<open>The format of a blob\<close>

definition byte :: "nat \<Rightarrow> char" where "byte n = char_of (n mod 256)"

definition formatVersion :: char where "formatVersion = byte 1"

definition encode :: "string \<Rightarrow> string \<Rightarrow> string \<Rightarrow> string" where
  "encode wrapped nonce ct =
     formatVersion # byte (length wrapped mod 65536 div 256) # byte (length wrapped mod 65536) # wrapped @ byte (length nonce) # nonce @ ct"

definition decode :: "string \<Rightarrow> go_error + string \<times> string \<times> string" where
  "decode blob =
    (if length blob < 3 \<or> blob ! 0 \<noteq> formatVersion then Inl (Errorf ''encryption: unrecognised ciphertext format'')
     else let wrappedLen = of_char (blob ! 1) * 256 + of_char (blob ! 2); pos = 3
     in if length blob < pos + wrappedLen + 1 then Inl (Errorf ''encryption: truncated ciphertext (wrapped key)'')
     else let wrapped = take wrappedLen (drop pos blob); pos = pos + wrappedLen; nonceLen = of_char (blob ! pos); pos = pos + 1
     in if length blob < pos + nonceLen then Inl (Errorf ''encryption: truncated ciphertext (nonce)'')
     else Inr (wrapped, take nonceLen (drop pos blob), drop (pos + nonceLen) blob))"

subsection \<open>The key manager (keymanager.go)\<close>

definition new_cipher :: "string \<Rightarrow> go_error + string" where
  "new_cipher key = (if length key \<in> {16, 24, 32} then Inr key else Inl (Errorf ''crypto/aes: invalid key size''))"

definition NewLocalKeyManager :: "string \<Rightarrow> string \<Rightarrow> go_error + LocalKeyManager" where
  "NewLocalKeyManager keyID masterKey =
    (if length masterKey \<noteq> 32 then Inl (Errorf ''encryption: master key must be 32 bytes'')
     else if keyID = '''' then Inl (Errorf ''encryption: key id must not be empty'')
     else case new_cipher masterKey of
         Inl e \<Rightarrow> Inl (Wrapf ''encryption: master cipher'' e)
       | Inr aead \<Rightarrow> Inr \<lparr> km_keyID = keyID, km_aead = aead \<rparr>)"

definition read_rand :: "crypto \<Rightarrow> nat \<Rightarrow> (Envelope, string) comp" where
  "read_rand c n e = (let e' = e \<lparr> en_reads := Suc (en_reads e) \<rparr> in
     case cr_rand c (en_reads e) n of None \<Rightarrow> (Inl (Errorf ''rand''), e') | Some bs \<Rightarrow> (Inr bs, e'))"

definition GenerateDataKey :: "crypto \<Rightarrow> (Envelope, string \<times> string) comp" where
  "GenerateDataKey c = bindE (wrapE ''encryption: generate data key'' (read_rand c dekSize)) (\<lambda>dek.
     bindE (wrapE ''encryption: data key nonce'' (read_rand c NonceSize)) (\<lambda>nonce. bindE (reading en_km) (\<lambda>k.
     ok (dek, nonce @ cr_seal c (km_aead k) nonce dek (km_keyID k)))))"

definition km_Decrypt :: "crypto \<Rightarrow> LocalKeyManager \<Rightarrow> string \<Rightarrow> go_error + string" where
  "km_Decrypt c k wrappedDEK =
    (if length wrappedDEK < NonceSize then Inl (Errorf ''encryption: wrapped data key too short'')
     else case cr_open c (km_aead k) (take NonceSize wrappedDEK) (drop NonceSize wrappedDEK) (km_keyID k) of
         None \<Rightarrow> Inl (Errorf ''encryption: unwrap data key'')
       | Some dek \<Rightarrow> Inr dek)"

subsection \<open>The envelope (envelope.go)\<close>

definition defaultMaxUses :: int where "defaultMaxUses = 2 ^ 20"
definition defaultDEKTTL :: int where "defaultDEKTTL = 3600 * Second"
definition defaultCacheTTL :: int where "defaultCacheTTL = 3600 * Second"

definition NewEnvelope :: "LocalKeyManager \<Rightarrow> int \<Rightarrow> int \<Rightarrow> int \<Rightarrow> Envelope" where
  "NewEnvelope km dekTTL cacheTTL maxUses =
     \<lparr> en_km = km, en_dekTTL = (if dekTTL \<le> 0 then defaultDEKTTL else dekTTL),
       en_maxUses = (if maxUses \<le> 0 then defaultMaxUses else maxUses),
       en_cacheTTL = (if cacheTTL \<le> 0 then defaultCacheTTL else cacheTTL),
       en_curAEAD = None, en_curWrapped = '''', en_uses = 0, en_dekExpiry = 0, en_cache = (\<lambda>_. None), en_reads = 0, en_now = 0 \<rparr>"

definition dek_cacheKey :: "crypto \<Rightarrow> string \<Rightarrow> string" where
  "dek_cacheKey c wrapped = hex_EncodeToString (cr_sha256 c wrapped)"

definition cache_put :: "string \<Rightarrow> string \<Rightarrow> Envelope \<Rightarrow> Envelope" where
  "cache_put key aead e = e \<lparr> en_cache := (en_cache e)(key \<mapsto> (aead, en_now e + en_cacheTTL e)) \<rparr>"

definition cache_get :: "string \<Rightarrow> Envelope \<Rightarrow> string option \<times> Envelope" where
  "cache_get key e = (case en_cache e key of
       None \<Rightarrow> (None, e)
     | Some (aead, expiry) \<Rightarrow> if expiry < en_now e then (None, e \<lparr> en_cache := (en_cache e)(key := None) \<rparr>) else (Some aead, e))"

definition renew_dek :: "crypto \<Rightarrow> (Envelope, unit) comp" where
  "renew_dek c = bindE (GenerateDataKey c) (\<lambda>(dek, wrapped).
     bindE (lift (case new_cipher dek of Inl x \<Rightarrow> Inl (Wrapf ''encryption: data cipher'' x) | Inr a \<Rightarrow> Inr a)) (\<lambda>aead.
     changing (\<lambda>e. cache_put (dek_cacheKey c wrapped) aead (e \<lparr> en_curAEAD := Some aead, en_curWrapped := wrapped,
       en_uses := 0, en_dekExpiry := en_now e + en_dekTTL e \<rparr>))))"

definition currentDEK :: "crypto \<Rightarrow> (Envelope, string \<times> string) comp" where
  "currentDEK c e =
    (let stale = (en_curAEAD e = None \<or> en_uses e \<ge> en_maxUses e \<or> en_now e > en_dekExpiry e)
     in case (if stale then renew_dek c e else (Inr (), e)) of
          (Inl x, e') \<Rightarrow> (Inl x, e')
        | (Inr _, e') \<Rightarrow> (Inr (the (en_curAEAD e'), en_curWrapped e'), e' \<lparr> en_uses := en_uses e' + 1 \<rparr>))"

definition aeadForWrapped :: "crypto \<Rightarrow> string \<Rightarrow> (Envelope, string) comp" where
  "aeadForWrapped c wrapped e = (case cache_get (dek_cacheKey c wrapped) e of
       (Some aead, e1) \<Rightarrow> (Inr aead, e1)
     | (None, e1) \<Rightarrow> (case km_Decrypt c (en_km e1) wrapped of
           Inl x \<Rightarrow> (Inl x, e1)
         | Inr dek \<Rightarrow> (case new_cipher dek of
               Inl x \<Rightarrow> (Inl (Wrapf ''encryption: data cipher'' x), e1)
             | Inr aead \<Rightarrow> (Inr aead, cache_put (dek_cacheKey c wrapped) aead e1))))"

definition Encrypt :: "crypto \<Rightarrow> string \<Rightarrow> string \<Rightarrow> (Envelope, string) comp" where
  "Encrypt c plaintext aad = bindE (currentDEK c) (\<lambda>(aead, wrapped).
     bindE (wrapE ''encryption: nonce'' (read_rand c NonceSize)) (\<lambda>nonce.
     ok (encode wrapped nonce (cr_seal c aead nonce plaintext aad))))"

definition Decrypt :: "crypto \<Rightarrow> string \<Rightarrow> string \<Rightarrow> (Envelope, string) comp" where
  "Decrypt c blob aad = bindE (lift (decode blob)) (\<lambda>(wrapped, nonce, ct).
     bindE (aeadForWrapped c wrapped) (\<lambda>aead.
     case cr_open c aead nonce ct aad of
       None \<Rightarrow> throw (Errorf ''encryption: open ciphertext'')
     | Some pt \<Rightarrow> ok pt))"

subsection \<open>The format is exact\<close>

lemma of_byte [simp]: "(of_char (byte n) :: nat) = n mod 256"
  by (simp add: byte_def)

lemma of_char_small: "(of_char ch :: nat) < 256"
  by (metis mod_less_divisor of_char_mod_256 zero_less_numeral)

lemma byte_of_char [simp]: "byte (of_char ch) = ch"
  by (simp add: byte_def)

lemma drop_header: "drop (4 + n) (x # y # z # xs) = drop (Suc n) xs" "drop (4 + n + m) (x # y # z # xs) = drop (Suc (n + m)) xs"
  by (simp_all add: numeral_eq_Suc)

lemma decode_parts:
  fixes a b rest defines "L \<equiv> (of_char a :: nat) * 256 + of_char b"
  shows "decode (formatVersion # a # b # rest) =
     (if length rest \<le> L then Inl (Errorf ''encryption: truncated ciphertext (wrapped key)'')
      else if length rest < Suc L + of_char (rest ! L) then Inl (Errorf ''encryption: truncated ciphertext (nonce)'')
      else Inr (take L rest, take (of_char (rest ! L)) (drop (Suc L) rest), drop (Suc (L + of_char (rest ! L))) rest))"
  by (auto simp: decode_def L_def [symmetric] Let_def drop_header)

lemma decode_encode:
  assumes "length wrapped < 65536" "length nonce < 256"
  shows "decode (encode wrapped nonce ct) = Inr (wrapped, nonce, ct)"
proof -
  have "length wrapped div 256 mod 256 * 256 + length wrapped mod 256 = length wrapped"
    using assms(1) by (simp add: div_mult_mod_eq)
  then show ?thesis
    using assms by (simp add: encode_def decode_parts nth_append)
qed

text \<open>Nothing else decodes: a blob that is accepted is the encoding of its parts.\<close>

lemma encode_decode:
  assumes "decode blob = Inr (wrapped, nonce, ct)"
  shows "encode wrapped nonce ct = blob" "length wrapped < 65536" "length nonce < 256"
proof -
  from assms have "3 \<le> length blob" "blob ! 0 = formatVersion" by (auto simp: decode_def split: if_splits)
  then obtain a b rest where blob: "blob = formatVersion # a # b # rest"
    by (cases blob; cases "tl blob"; cases "tl (tl blob)") auto
  define L where "L = (of_char a :: nat) * 256 + of_char b"
  note small = of_char_small [of a] of_char_small [of b]
  have L: "L < 65536" using small unfolding L_def by linarith
  from assms have len: "L < length rest"
    by (auto simp: decode_parts blob L_def split: if_splits)
  define x where "x = rest ! L"
  define N where "N = (of_char x :: nat)"
  have rest: "rest = take L rest @ x # drop (Suc L) rest" using len unfolding x_def by (rule id_take_nth_drop)
  from assms len have N: "N \<le> length (drop (Suc L) rest)" and parts: "wrapped = take L rest" "nonce = take N (drop (Suc L) rest)"
      "ct = drop N (drop (Suc L) rest)"
    by (auto simp: decode_parts blob L_def [symmetric] x_def [symmetric] N_def [symmetric] drop_drop split: if_splits) (simp_all add: add.commute)
  have lens: "length wrapped = L" "length nonce = N" using len N parts by auto
  show "length wrapped < 65536" "length nonce < 256" using lens L of_char_small [of x] by (auto simp: N_def)
  have "L div 256 = of_char a" "L mod 256 = of_char b" using small by (auto simp: L_def)
  then have bytes: "byte (L mod 65536 div 256) = a" "byte (L mod 65536) = b"
    using L by (simp, simp add: byte_def)
  have "encode wrapped nonce ct = formatVersion # a # b # wrapped @ x # nonce @ ct"
    unfolding encode_def lens bytes by (simp add: N_def)
  also have "\<dots> = blob" unfolding blob by (subst rest) (simp only: parts append_take_drop_id append_assoc append_Cons)
  finally show "encode wrapped nonce ct = blob" .
qed

subsection \<open>What is sealed can be opened\<close>

text \<open>GCM opens what it sealed, and the random source returns as many bytes as asked for.\<close>

definition crypto_ok :: "crypto \<Rightarrow> bool" where
  "crypto_ok c \<longleftrightarrow> (\<forall>k n p a. cr_open c k n (cr_seal c k n p a) a = Some p) \<and>
     (\<forall>k n p a. length (cr_seal c k n p a) = length p + 16) \<and> (\<forall>i n bs. cr_rand c i n = Some bs \<longrightarrow> length bs = n)"

definition dek_ok :: "crypto \<Rightarrow> Envelope \<Rightarrow> bool" where
  "dek_ok c e \<longleftrightarrow> en_uses e \<le> en_maxUses e \<and> 0 < en_maxUses e \<and> (\<forall>k. en_curAEAD e = Some k \<longrightarrow>
     km_Decrypt c (en_km e) (en_curWrapped e) = Inr k \<and> length k = dekSize \<and> length (en_curWrapped e) < 65536)"

lemma read_rand_Inr:
  "read_rand c n e = (Inr bs, e') \<longleftrightarrow> cr_rand c (en_reads e) n = Some bs \<and> e' = e \<lparr> en_reads := Suc (en_reads e) \<rparr>"
  by (auto simp: read_rand_def Let_def split: option.splits)

lemma read_rand_keeps: "keeps (\<lambda>e. P (e \<lparr> en_reads := 0 \<rparr>)) (read_rand c n)"
  by (auto simp: keeps_def read_rand_def Let_def split: option.splits)

lemma dek_ok_reads [simp]: "dek_ok c (e \<lparr> en_reads := n \<rparr>) \<longleftrightarrow> dek_ok c e"
  by (simp add: dek_ok_def)

lemma keeps_dek_read [hoare]: "keeps (dek_ok c) (read_rand c n)"
  using read_rand_keeps [of "dek_ok c"] by simp

lemma GenerateDataKey_Inr:
  assumes "crypto_ok c" "GenerateDataKey c e = (Inr (dek, wrapped), e')"
  shows "length dek = dekSize" "length wrapped = NonceSize + dekSize + 16" "km_Decrypt c (en_km e) wrapped = Inr dek"
    "\<exists>n. e' = e \<lparr> en_reads := n \<rparr>"
proof -
  from assms(2) obtain nonce where n: "cr_rand c (en_reads e) dekSize = Some dek" "cr_rand c (Suc (en_reads e)) NonceSize = Some nonce"
    "wrapped = nonce @ cr_seal c (km_aead (en_km e)) nonce dek (km_keyID (en_km e))" and e': "\<exists>n. e' = e \<lparr> en_reads := n \<rparr>"
    by (auto simp: GenerateDataKey_def run read_rand_Inr)
  with assms(1) have l: "length dek = dekSize" "length nonce = NonceSize" unfolding crypto_ok_def by blast+
  with assms(1) n show "length dek = dekSize" "length wrapped = NonceSize + dekSize + 16" "km_Decrypt c (en_km e) wrapped = Inr dek"
    by (auto simp: crypto_ok_def km_Decrypt_def)
  show "\<exists>n. e' = e \<lparr> en_reads := n \<rparr>" by (rule e')
qed

lemma keeps_dek_Generate [hoare]: "keeps (dek_ok c) (GenerateDataKey c)"
  unfolding GenerateDataKey_def by (intro hoare)

lemma dek_ok_current:
  assumes "crypto_ok c" "dek_ok c e"
  shows "case currentDEK c e of (Inl _, e') \<Rightarrow> dek_ok c e'
    | (Inr (k, wrapped), e') \<Rightarrow> dek_ok c e' \<and> en_km e' = en_km e \<and> km_Decrypt c (en_km e) wrapped = Inr k \<and>
        length k = dekSize \<and> length wrapped < 65536"
proof (cases "en_curAEAD e = None \<or> en_uses e \<ge> en_maxUses e \<or> en_now e > en_dekExpiry e")
  case False
  then show ?thesis using assms(2) by (auto simp: currentDEK_def Let_def dek_ok_def)
next
  case True
  obtain r e1 where g: "GenerateDataKey c e = (r, e1)" by fastforce
  have k1: "dek_ok c e1" using keepsD [OF keeps_dek_Generate assms(2) g] .
  show ?thesis
  proof (cases r)
    case (Inl x)
    then show ?thesis using True g k1 by (simp add: currentDEK_def Let_def renew_dek_def bindE_def)
  next
    case (Inr dw)
    obtain dek wrapped where dw: "dw = (dek, wrapped)" by fastforce
    note G = GenerateDataKey_Inr [OF assms(1) g [unfolded Inr dw]]
    then have "new_cipher dek = Inr dek" by (simp add: new_cipher_def dekSize_def)
    with True g Inr dw G k1 assms(2) show ?thesis
      by (auto simp: currentDEK_def Let_def renew_dek_def bindE_def lift_def changing_def cache_put_def dek_ok_def NonceSize_def dekSize_def)
  qed
qed

lemma keeps_dek_current: "crypto_ok c \<Longrightarrow> keeps (dek_ok c) (currentDEK c)"
  unfolding keeps_def using dek_ok_current [of c] by (fastforce split: prod.splits sum.splits)

lemma keeps_dek_Encrypt: "crypto_ok c \<Longrightarrow> keeps (dek_ok c) (Encrypt c pt aad)"
  unfolding Encrypt_def case_prod_beta by (intro hoare keeps_dek_current)

lemma keeps_dek_Decrypt: "keeps (dek_ok c) (Decrypt c blob aad)"
proof -
  have "keeps (dek_ok c) (aeadForWrapped c w)" for w
    by (auto simp: keeps_def aeadForWrapped_def cache_get_def cache_put_def dek_ok_def split: option.splits sum.splits prod.splits if_splits)
  then show ?thesis unfolding Decrypt_def case_prod_beta by (intro hoare)
qed

text \<open>A life of the process: encryptions, decryptions and the passing of time.\<close>

datatype env_op = OpEncrypt string string | OpDecrypt string string | OpWait int

fun env_step :: "crypto \<Rightarrow> env_op \<Rightarrow> Envelope \<Rightarrow> Envelope" where
  "env_step c (OpEncrypt pt aad) e = snd (Encrypt c pt aad e)"
| "env_step c (OpDecrypt blob aad) e = snd (Decrypt c blob aad e)"
| "env_step c (OpWait d) e = e \<lparr> en_now := en_now e + d \<rparr>"

lemma dek_ok_step:
  assumes "crypto_ok c" "dek_ok c e"
  shows "dek_ok c (env_step c op e)"
proof (cases op)
  case (OpEncrypt pt aad)
  then show ?thesis using keeps_dek_Encrypt [OF assms(1), of pt aad] assms(2) by (simp add: keeps_def)
next
  case (OpDecrypt blob aad)
  then show ?thesis using keeps_dek_Decrypt [of c blob aad] assms(2) by (simp add: keeps_def)
next
  case (OpWait d)
  then show ?thesis using assms(2) by (simp add: dek_ok_def)
qed

lemma dek_ok_run: "crypto_ok c \<Longrightarrow> dek_ok c e \<Longrightarrow> dek_ok c (fold (env_step c) ops e)"
  by (induction ops arbitrary: e) (simp_all add: dek_ok_step)

lemma dek_ok_new: "dek_ok c (NewEnvelope km dekTTL cacheTTL maxUses)"
  by (simp add: dek_ok_def NewEnvelope_def defaultMaxUses_def)

text \<open>The key manager and the limit never change.\<close>

definition built_as :: "LocalKeyManager \<Rightarrow> int \<Rightarrow> Envelope \<Rightarrow> bool" where
  "built_as km m e \<longleftrightarrow> en_km e = km \<and> en_maxUses e = m"

lemma keeps_built_read [hoare]: "keeps (built_as km m) (read_rand c n)"
  by (auto simp: keeps_def read_rand_def built_as_def Let_def split: option.splits)

lemma keeps_built_renew: "keeps (built_as km m) (renew_dek c)"
  unfolding renew_dek_def GenerateDataKey_def case_prod_beta
  by (intro hoare keeps_changing) (simp add: built_as_def cache_put_def)

lemma keeps_built_current [hoare]: "keeps (built_as km m) (currentDEK c)"
  using keeps_built_renew [of km m c] unfolding keeps_def currentDEK_def Let_def
  by (fastforce simp: built_as_def split: prod.splits sum.splits if_splits)

lemma keeps_built_aead [hoare]: "keeps (built_as km m) (aeadForWrapped c wrapped)"
  by (auto simp: keeps_def aeadForWrapped_def cache_get_def cache_put_def built_as_def split: option.splits sum.splits prod.splits if_splits)

lemma keeps_built_Encrypt: "keeps (built_as km m) (Encrypt c pt aad)"
  unfolding Encrypt_def case_prod_beta by (intro hoare)

lemma keeps_built_Decrypt: "keeps (built_as km m) (Decrypt c blob aad)"
  unfolding Decrypt_def case_prod_beta by (intro hoare)

lemma built_run: "built_as km m e \<Longrightarrow> built_as km m (fold (env_step c) ops e)"
proof (induction ops arbitrary: e)
  case (Cons op ops)
  have "built_as km m (env_step c op e)"
    using Cons.prems keeps_built_Encrypt [of km m c] keeps_built_Decrypt [of km m c]
    by (cases op) (simp_all add: keeps_def, simp add: built_as_def)
  with Cons.IH show ?case by simp
qed simp

lemma built_new:
  "built_as km (if maxUses \<le> 0 then defaultMaxUses else maxUses) (fold (env_step c) ops (NewEnvelope km dekTTL cacheTTL maxUses))"
  by (rule built_run) (simp add: built_as_def NewEnvelope_def)

text \<open>What a process has encrypted, at any time of its life and with whatever data key, a process
  that is started later with the same master key decrypts to the same bytes, given the same additional data.
  (GCM opens what it has sealed; the random source may fail, then nothing is encrypted.)\<close>

theorem decrypt_after_restart:
  assumes "crypto_ok c" "fst (Encrypt c pt aad (fold (env_step c) ops (NewEnvelope km ttl1 ttl2 uses1))) = Inr blob"
  shows "fst (Decrypt c blob aad (NewEnvelope km ttl3 ttl4 uses2)) = Inr pt"
proof -
  define e where "e = fold (env_step c) ops (NewEnvelope km ttl1 ttl2 uses1)"
  have ok: "dek_ok c e" unfolding e_def by (rule dek_ok_run [OF assms(1) dek_ok_new])
  have km: "en_km e = km" using built_new [of km uses1 c ops ttl1 ttl2] by (simp add: built_as_def e_def)
  obtain k wrapped e1 nonce where d: "currentDEK c e = (Inr (k, wrapped), e1)" "cr_rand c (en_reads e1) NonceSize = Some nonce"
    "blob = encode wrapped nonce (cr_seal c k nonce pt aad)"
    using assms(2) unfolding e_def [symmetric] Encrypt_def
    by (auto simp: bindE_def wrapE_def read_rand_def Let_def ok_def split: prod.splits sum.splits option.splits)
  note cur = dek_ok_current [OF assms(1) ok, unfolded d(1)]
  have "length nonce = NonceSize" using assms(1) d(2) by (auto simp: crypto_ok_def)
  then have dec: "decode blob = Inr (wrapped, nonce, cr_seal c k nonce pt aad)"
    using cur d(3) by (simp add: decode_encode NonceSize_def)
  have "new_cipher k = Inr k" using cur by (simp add: new_cipher_def dekSize_def)
  with cur km dec assms(1) show ?thesis
    by (simp add: Decrypt_def bindE_def lift_def aeadForWrapped_def cache_get_def NewEnvelope_def cache_put_def crypto_ok_def ok_def)
qed

text \<open>A cipher for examples: the key, nonce and additional data stand in front of the text, and sixteen
  blanks for the tag.\<close>

definition plain_crypto :: crypto where
  "plain_crypto = \<lparr> cr_seal = (\<lambda>k n p a. p @ replicate 16 (CHR '' '')), cr_open = (\<lambda>k n ct a. Some (take (length ct - 16) ct)),
     cr_rand = (\<lambda>i n. Some (replicate n (CHR ''r''))), cr_sha256 = (\<lambda>s. s) \<rparr>"

lemma plain_crypto_ok: "crypto_ok plain_crypto"
  by (simp add: crypto_ok_def plain_crypto_def)

theorem decrypt_after_restart_witness:
  "case fst (Encrypt plain_crypto ''secret'' ''t:stripe'' (NewEnvelope \<lparr> km_keyID = ''k1'', km_aead = replicate 32 (CHR ''m'') \<rparr> 0 0 0)) of
     Inl _ \<Rightarrow> False
   | Inr blob \<Rightarrow> fst (Decrypt plain_crypto blob ''t:stripe'' (NewEnvelope \<lparr> km_keyID = ''k1'', km_aead = replicate 32 (CHR ''m'') \<rparr> 0 0 0)) = Inr ''secret''"
proof -
  let ?e = "NewEnvelope \<lparr> km_keyID = ''k1'', km_aead = replicate 32 (CHR ''m'') \<rparr> 0 0 0"
  have "\<exists>blob. fst (Encrypt plain_crypto ''secret'' ''t:stripe'' ?e) = Inr blob"
    by (simp add: Encrypt_def currentDEK_def renew_dek_def GenerateDataKey_def NewEnvelope_def read_rand_def plain_crypto_def
        bindE_def wrapE_def lift_def changing_def reading_def ok_def new_cipher_def dekSize_def Let_def cache_put_def)
  then obtain blob where b: "fst (Encrypt plain_crypto ''secret'' ''t:stripe'' ?e) = Inr blob" ..
  from decrypt_after_restart [OF plain_crypto_ok, of "''secret''" "''t:stripe''" "[]"] b show ?thesis by simp
qed

subsection \<open>The cache\<close>

text \<open>With a hash that has no collisions the cache gives the same keys as unwrapping does.\<close>

definition cache_ok :: "crypto \<Rightarrow> Envelope \<Rightarrow> bool" where
  "cache_ok c e \<longleftrightarrow> (\<forall>key aead t. en_cache e key = Some (aead, t) \<longrightarrow>
     (\<exists>w. key = dek_cacheKey c w \<and> km_Decrypt c (en_km e) w = Inr aead \<and> new_cipher aead = Inr aead))"

lemma cacheKey_inj: "inj (cr_sha256 c) \<Longrightarrow> dek_cacheKey c w = dek_cacheKey c w' \<longleftrightarrow> w = w'"
  unfolding dek_cacheKey_def by (metis hex_roundtrip injD option.inject)

lemma new_cipher_same: "new_cipher k = Inr k' \<Longrightarrow> k' = k"
  by (auto simp: new_cipher_def split: if_splits)

lemma aeadForWrapped_unwraps:
  assumes "inj (cr_sha256 c)" "cache_ok c e" "km_Decrypt c (en_km e) w = Inr k" "new_cipher k = Inr k"
  shows "fst (aeadForWrapped c w e) = Inr k"
proof (cases "en_cache e (dek_cacheKey c w)")
  case None
  then show ?thesis using assms by (simp add: aeadForWrapped_def cache_get_def)
next
  case (Some entry)
  obtain aead t where entry: "entry = (aead, t)" by fastforce
  with Some assms(2) obtain w' where "dek_cacheKey c w = dek_cacheKey c w'" "km_Decrypt c (en_km e) w' = Inr aead"
    unfolding cache_ok_def by blast
  then have "aead = k" using assms(1,3) by (simp add: cacheKey_inj)
  with Some entry assms show ?thesis by (simp add: aeadForWrapped_def cache_get_def)
qed

lemma cache_ok_aead:
  assumes "cache_ok c e"
  shows "cache_ok c (snd (aeadForWrapped c w e))"
  using assms by (auto simp: aeadForWrapped_def cache_get_def cache_put_def cache_ok_def
      split: option.splits sum.splits prod.splits if_splits) (metis new_cipher_same)+

lemma cache_ok_Decrypt: "cache_ok c e \<Longrightarrow> cache_ok c (snd (Decrypt c blob aad e))"
proof (cases "decode blob")
  case (Inr p)
  obtain w n ct where p: "p = (w, n, ct)" by (cases p) auto
  assume ok: "cache_ok c e"
  obtain r e1 where "aeadForWrapped c w e = (r, e1)" by fastforce
  with cache_ok_aead [OF ok, of w] have "cache_ok c e1" "aeadForWrapped c w e = (r, e1)" by auto
  then show ?thesis using Inr p
    by (cases r) (auto simp: Decrypt_def bindE_def lift_def throw_def ok_def split: option.splits)
qed (simp add: Decrypt_def bindE_def lift_def)

lemma cache_ok_currentDEK:
  assumes "crypto_ok c" "cache_ok c e"
  shows "cache_ok c (snd (currentDEK c e))"
proof -
  obtain r e1 where g: "GenerateDataKey c e = (r, e1)" by fastforce
  have e1: "\<exists>n. e1 = e \<lparr> en_reads := n \<rparr>"
    using g by (auto simp: GenerateDataKey_def bindE_def wrapE_def read_rand_def Let_def reading_def ok_def
        split: prod.splits sum.splits option.splits)
  show ?thesis
  proof (cases r)
    case (Inl x)
    with g e1 assms(2) show ?thesis
      by (auto simp: currentDEK_def renew_dek_def Let_def bindE_def cache_ok_def)
  next
    case (Inr dw)
    obtain dek wrapped where dw: "dw = (dek, wrapped)" by fastforce
    note G = GenerateDataKey_Inr [OF assms(1) g [unfolded Inr dw]]
    then have n: "new_cipher dek = Inr dek" by (simp add: new_cipher_def dekSize_def)
    from g Inr dw e1 assms(2) G(3) n show ?thesis
      by (auto simp: currentDEK_def renew_dek_def Let_def bindE_def lift_def changing_def cache_put_def cache_ok_def)
  qed
qed

lemma cache_ok_Encrypt:
  assumes "crypto_ok c" "cache_ok c e"
  shows "cache_ok c (snd (Encrypt c pt aad e))"
proof -
  obtain r e1 where r: "currentDEK c e = (r, e1)" by fastforce
  with cache_ok_currentDEK [OF assms] have "cache_ok c e1" by simp
  then have "cache_ok c (snd (read_rand c NonceSize e1))"
    by (auto simp: read_rand_def Let_def cache_ok_def split: option.splits)
  with r \<open>cache_ok c e1\<close> show ?thesis
    by (cases r) (auto simp: Encrypt_def bindE_def wrapE_def ok_def split: prod.splits sum.splits)
qed

text \<open>Two envelopes over one master key, each in whatever state its process has brought it to.\<close>

lemma decrypt_encrypt:
  assumes "crypto_ok c" "inj (cr_sha256 c)" "dek_ok c e" "cache_ok c e2" "en_km e2 = en_km e" "fst (Encrypt c pt aad e) = Inr blob"
  shows "fst (Decrypt c blob aad e2) = Inr pt"
    and "(\<forall>k n. cr_open c k n (cr_seal c k n pt aad) aad' = None) \<Longrightarrow> fst (Decrypt c blob aad' e2) = Inl (Errorf ''encryption: open ciphertext'')"
proof -
  obtain k wrapped e1 nonce where d: "currentDEK c e = (Inr (k, wrapped), e1)" "cr_rand c (en_reads e1) NonceSize = Some nonce"
    "blob = encode wrapped nonce (cr_seal c k nonce pt aad)"
    using assms(6) by (auto simp: Encrypt_def bindE_def wrapE_def read_rand_def Let_def ok_def split: prod.splits sum.splits option.splits)
  note cur = dek_ok_current [OF assms(1,3), unfolded d(1)]
  have "length nonce = NonceSize" using assms(1) d(2) by (auto simp: crypto_ok_def)
  then have dec: "decode blob = Inr (wrapped, nonce, cr_seal c k nonce pt aad)"
    using cur d(3) by (simp add: decode_encode NonceSize_def)
  have "fst (aeadForWrapped c wrapped e2) = Inr k"
    by (rule aeadForWrapped_unwraps [OF assms(2,4)]) (use cur assms(5) in \<open>auto simp: new_cipher_def dekSize_def\<close>)
  then obtain e3 where a: "aeadForWrapped c wrapped e2 = (Inr k, e3)" by (metis prod.collapse)
  show "fst (Decrypt c blob aad e2) = Inr pt"
    using dec a assms(1) by (simp add: Decrypt_def bindE_def lift_def crypto_ok_def ok_def)
  show "fst (Decrypt c blob aad' e2) = Inl (Errorf ''encryption: open ciphertext'')"
    if "\<forall>k n. cr_open c k n (cr_seal c k n pt aad) aad' = None"
    using dec a that by (simp add: Decrypt_def bindE_def lift_def throw_def)
qed

subsection \<open>Use of a data key\<close>

text \<open>No data key seals more texts than configured, whatever the process does.\<close>

theorem dek_uses_bounded:
  assumes "crypto_ok c"
  shows "en_uses (fold (env_step c) ops (NewEnvelope km ttl1 ttl2 maxUses)) \<le> (if maxUses \<le> 0 then 2 ^ 20 else maxUses)"
proof -
  from dek_ok_run [OF assms dek_ok_new, of ops km ttl1 ttl2 maxUses] built_new [of km maxUses c ops ttl1 ttl2]
  show ?thesis by (auto simp: dek_ok_def built_as_def defaultMaxUses_def split: if_splits)
qed

end
