(* ===== verification/Rate_Limiter.thy ===== *)
theory Rate_Limiter
  imports Gateway_Domain Float64 Go_Strings
begin

section \<open>Rate limiting (internal/adapters/valkey/rate_limiter.go, tokenBucketLua)\<close>

text \<open>
  Every request takes a token from three buckets, those of its user, its tenant and its address. The
  buckets are hashes in Valkey, changed by one Lua script that runs atomically; after three failures
  in a row the limiter falls back to buckets in the memory of the process, kept in an LRU list, until
  a ping succeeds. Lua and Go numbers are doubles: \<open>f64\<close> rounds after each operation (as on amd64, with
  no fused multiply-add). The prefix of the hash that names a bucket in Valkey is a parameter.
  One call is one step: its clock readings are the argument \<open>now\<close> (nanoseconds), and the buckets of the
  fallback are addresses in a heap, because two of the three identifiers may name the same bucket and
  an evicted bucket is still in use by the call that evicts it.
\<close>

subsection \<open>The script\<close>

record hash_bucket =
  hb_tokens :: rat
  hb_last_ms :: int
  hb_expire_ms :: int

record limit_store =
  ls_up :: bool
  ls_hashes :: "string \<Rightarrow> hash_bucket option"

text \<open>\<open>HMGET\<close>: a key whose expiry has passed on the server's clock is gone.\<close>

definition hmget :: "limit_store \<Rightarrow> int \<Rightarrow> string \<Rightarrow> hash_bucket option" where
  "hmget s server_ms k = (case ls_hashes s k of None \<Rightarrow> None
     | Some b \<Rightarrow> if hb_expire_ms b \<le> server_ms then None else Some b)"

definition lua_ttl :: "rat \<Rightarrow> rat \<Rightarrow> rat" where
  "lua_ttl capacity rate = (if rate \<le> 0 then 3600 else f64 (of_int \<lceil>f64 (capacity / rate)\<rceil> + 10))"

definition lua_refill :: "rat \<Rightarrow> rat \<Rightarrow> int \<Rightarrow> hash_bucket option \<Rightarrow> rat" where
  "lua_refill capacity rate now_ms data =
    (let tokens = (case data of None \<Rightarrow> capacity | Some b \<Rightarrow> hb_tokens b);
         last_ms = (case data of None \<Rightarrow> now_ms | Some b \<Rightarrow> hb_last_ms b);
         elapsed = f64 (of_int (max 0 (now_ms - last_ms)) / 1000)
     in min capacity (f64 (tokens + f64 (elapsed * rate))))"

definition lua_wait :: "rat \<Rightarrow> rat \<Rightarrow> rat \<Rightarrow> rat \<Rightarrow> int" where
  "lua_wait ttl rate requested tokens =
    (if rate \<le> 0 then \<lfloor>f64 (ttl * 1000)\<rfloor> else \<lceil>f64 (f64 (f64 (requested - tokens) / rate) * 1000)\<rceil>)"

text \<open>\<open>HMSET\<close> and \<open>EXPIRE\<close>. A time to live whose end does not fit 64 bits is an error, which stops the
  script and keeps what it wrote; one that is not positive deletes the key.\<close>

definition expire_fits :: "rat \<Rightarrow> int \<Rightarrow> bool" where
  "expire_fits ttl server_ms \<longleftrightarrow> \<lfloor>ttl\<rfloor> * 1000 + server_ms < 2 ^ 63"

fun lua_store :: "rat \<Rightarrow> int \<Rightarrow> int \<Rightarrow> (string \<times> rat) list \<Rightarrow> limit_store \<Rightarrow> (go_error + unit) \<times> limit_store" where
  "lua_store ttl now_ms server_ms [] s = (Inr (), s)"
| "lua_store ttl now_ms server_ms ((k, tokens) # rest) s =
    (if expire_fits ttl server_ms
     then lua_store ttl now_ms server_ms rest (s \<lparr> ls_hashes := (ls_hashes s)(k :=
            if ttl \<le> 0 then None
            else Some \<lparr> hb_tokens = tokens, hb_last_ms = now_ms, hb_expire_ms = server_ms + \<lfloor>ttl\<rfloor> * 1000 \<rparr>) \<rparr>)
     else (Inl (Errorf ''ERR invalid expire time''), s \<lparr> ls_hashes := (ls_hashes s)(k \<mapsto>
            \<lparr> hb_tokens = tokens, hb_last_ms = now_ms,
              hb_expire_ms = (case hmget s server_ms k of Some b \<Rightarrow> hb_expire_ms b | None \<Rightarrow> 2 ^ 63) \<rparr>) \<rparr>))"

definition tokenBucketLua ::
  "int \<Rightarrow> rat \<Rightarrow> int \<Rightarrow> rat \<Rightarrow> string list \<Rightarrow> int \<Rightarrow> limit_store \<Rightarrow> (go_error + int \<times> int) \<times> limit_store" where
  "tokenBucketLua cap rate now_ms requested keys server_ms s =
    (let capacity = f64 (of_int cap);
         ttl = lua_ttl capacity rate;
         refilled = map (\<lambda>k. lua_refill capacity rate now_ms (hmget s server_ms k)) keys;
         short = filter (\<lambda>t. t < requested) refilled;
         allowed = (short = []);
         max_wait = foldl max 0 (map (lua_wait ttl rate requested) short);
         left = map (\<lambda>t. if allowed then f64 (t - requested) else t) refilled
     in case lua_store ttl now_ms server_ms (zip keys left) s of
          (Inl e, s') \<Rightarrow> (Inl e, s')
        | (Inr _, s') \<Rightarrow> (Inr (if allowed then 1 else 0, max_wait), s'))"

subsection \<open>The limiter\<close>

record localBucket =
  lb_tokens :: rat
  lb_capacity :: rat
  lb_lastRefill :: int
  lb_refillRate :: rat

record RateLimitConfig =
  rlc_FallbackMultiplier :: rat
  rlc_LocalMaxBuckets :: int
  rlc_HealthCheckIntervalMS :: int
  rlc_Capacity :: int
  rlc_RefillPerSec :: rat

record RateLimiter =
  rl_available :: bool
  rl_localBuckets :: "string \<Rightarrow> nat option"
  rl_heap :: "nat \<Rightarrow> localBucket"
  rl_next :: nat
  rl_lruOrder :: "string list"
  rl_lruCount :: int
  rl_fallbackStartedAt :: int
  rl_consecutiveFailures :: "32 word"

record RateLimitResult =
  rlr_Allowed :: bool
  rlr_RetryAfter :: int

definition defaultValkeyFailureThreshold :: int where "defaultValkeyFailureThreshold = 3"

definition NewRateLimiter :: RateLimiter where
  "NewRateLimiter = \<lparr> rl_available = True, rl_localBuckets = (\<lambda>_. None),
     rl_heap = (\<lambda>_. \<lparr> lb_tokens = 0, lb_capacity = 0, lb_lastRefill = 0, lb_refillRate = 0 \<rparr>), rl_next = 0,
     rl_lruOrder = [], rl_lruCount = 0, rl_fallbackStartedAt = zero_Time, rl_consecutiveFailures = 0 \<rparr>"

text \<open>\<open>fmt.Sprintf("rate_limit:rl:%s:%x", namespace, h[:8])\<close>\<close>

definition bucketKey :: "(string \<Rightarrow> string) \<Rightarrow> string \<Rightarrow> string \<Rightarrow> string" where
  "bucketKey sha256 namespace entityID =
     ''rate_limit:rl:'' @ namespace @ '':'' @ hex_EncodeToString (take 8 (sha256 entityID))"

definition minRefillRate :: rat where "minRefillRate = f64 (1 / 10 ^ 9)"

definition markUnavailable :: "int \<Rightarrow> RateLimiter \<Rightarrow> RateLimiter" where
  "markUnavailable now r = (if \<not> rl_available r then r
     else r \<lparr> rl_available := False, rl_fallbackStartedAt := now \<rparr>)"

definition MarkAvailable :: "RateLimiter \<Rightarrow> RateLimiter" where
  "MarkAvailable r = (if rl_available r then r
     else r \<lparr> rl_available := True, rl_fallbackStartedAt := zero_Time, rl_consecutiveFailures := 0 \<rparr>)"

text \<open>One turn of \<open>runHealthCheck\<close>: the ping succeeds when Valkey is up.\<close>

definition health_turn :: "int \<Rightarrow> limit_store \<Rightarrow> RateLimiter \<Rightarrow> RateLimiter" where
  "health_turn now s r = (if ls_up s then MarkAvailable r else markUnavailable now r)"

definition recordValkeyFailure :: "int \<Rightarrow> RateLimiter \<Rightarrow> RateLimiter" where
  "recordValkeyFailure now r =
    (let r1 = r \<lparr> rl_consecutiveFailures := rl_consecutiveFailures r + 1 \<rparr>
     in if sint (rl_consecutiveFailures r1) \<ge> defaultValkeyFailureThreshold then markUnavailable now r1 else r1)"

definition recordValkeySuccess :: "RateLimiter \<Rightarrow> RateLimiter" where
  "recordValkeySuccess r = r \<lparr> rl_consecutiveFailures := 0 \<rparr>"

subsection \<open>The fallback\<close>

definition evictOldestLocked :: "RateLimiter \<Rightarrow> RateLimiter" where
  "evictOldestLocked r = (if rl_lruOrder r = [] then r
     else r \<lparr> rl_localBuckets := (rl_localBuckets r)(last (rl_lruOrder r) := None),
              rl_lruOrder := butlast (rl_lruOrder r), rl_lruCount := rl_lruCount r - 1 \<rparr>)"

definition getOrCreateBucket ::
  "RateLimitConfig \<Rightarrow> string \<Rightarrow> rat \<Rightarrow> rat \<Rightarrow> int \<Rightarrow> RateLimiter \<Rightarrow> nat \<times> RateLimiter" where
  "getOrCreateBucket cfg i capacity rate now r =
    (case rl_localBuckets r i of
       Some a \<Rightarrow> (a, r \<lparr> rl_lruOrder := i # remove1 i (rl_lruOrder r) \<rparr>)
     | None \<Rightarrow>
        let r1 = (if rl_lruCount r \<ge> rlc_LocalMaxBuckets cfg then evictOldestLocked r else r);
            b = \<lparr> lb_tokens = capacity, lb_capacity = capacity, lb_lastRefill = now, lb_refillRate = rate \<rparr>
        in (rl_next r1, r1 \<lparr> rl_heap := (rl_heap r1)(rl_next r1 := b), rl_next := Suc (rl_next r1),
              rl_localBuckets := (rl_localBuckets r1)(i \<mapsto> rl_next r1),
              rl_lruOrder := i # rl_lruOrder r1, rl_lruCount := rl_lruCount r1 + 1 \<rparr>))"

text \<open>\<open>Duration.Seconds\<close>: whole seconds plus the fraction.\<close>

definition Seconds :: "int \<Rightarrow> rat" where
  "Seconds d = f64 (f64 (of_int (quot64 d Second)) + f64 (f64 (of_int (rem64 d Second)) / 10 ^ 9))"

definition local_refill :: "rat \<Rightarrow> rat \<Rightarrow> int \<Rightarrow> localBucket \<Rightarrow> localBucket" where
  "local_refill localCap rate now b =
    b \<lparr> lb_capacity := localCap, lb_refillRate := rate,
        lb_tokens := min localCap (f64 (lb_tokens b + f64 (Seconds (now - lb_lastRefill b) * rate))),
        lb_lastRefill := now \<rparr>"

definition local_wait :: "localBucket \<Rightarrow> int" where
  "local_wait b = (if lb_refillRate b > 0
     then wrap64 (\<lfloor>f64 (f64 (f64 (1 - lb_tokens b) / lb_refillRate b) * 1000)\<rfloor> * (Second div 1000)) else 0)"

fun refill_all ::
  "rat \<Rightarrow> rat \<Rightarrow> int \<Rightarrow> nat list \<Rightarrow> bool \<times> int \<Rightarrow> (nat \<Rightarrow> localBucket) \<Rightarrow> (bool \<times> int) \<times> (nat \<Rightarrow> localBucket)" where
  "refill_all localCap rate now [] res heap = (res, heap)"
| "refill_all localCap rate now (a # as) (allowed, maxWait) heap =
    (let b = local_refill localCap rate now (heap a)
     in refill_all localCap rate now as
          (if lb_tokens b < 1 then (False, max maxWait (local_wait b)) else (allowed, maxWait)) (heap(a := b)))"

definition take_token :: "nat \<Rightarrow> (nat \<Rightarrow> localBucket) \<Rightarrow> nat \<Rightarrow> localBucket" where
  "take_token a heap = (if lb_tokens (heap a) \<ge> 1
     then heap(a := heap a \<lparr> lb_tokens := f64 (lb_tokens (heap a) - 1) \<rparr>) else heap)"

definition allowLocal ::
  "RateLimitConfig \<Rightarrow> string \<Rightarrow> string \<Rightarrow> string \<Rightarrow> int \<Rightarrow> rat \<Rightarrow> int \<Rightarrow> RateLimiter \<Rightarrow> RateLimitResult \<times> RateLimiter" where
  "allowLocal cfg userID tenantID ip capacity rate now r =
    (let localCap = f64 (f64 (of_int capacity) * rlc_FallbackMultiplier cfg);
         (a1, r1) = getOrCreateBucket cfg userID localCap rate now r;
         (a2, r2) = getOrCreateBucket cfg tenantID localCap rate now r1;
         (a3, r3) = getOrCreateBucket cfg ip localCap rate now r2;
         ((allowed, maxWait), heap) = refill_all localCap rate now [a1, a2, a3] (True, 0) (rl_heap r3)
     in if \<not> allowed then (\<lparr> rlr_Allowed = False, rlr_RetryAfter = maxWait \<rparr>, r3 \<lparr> rl_heap := heap \<rparr>)
        else (\<lparr> rlr_Allowed = True, rlr_RetryAfter = 0 \<rparr>, r3 \<lparr> rl_heap := fold take_token [a1, a2, a3] heap \<rparr>))"

subsection \<open>Allow\<close>

definition allowValkey ::
  "RateLimitConfig \<Rightarrow> (string \<Rightarrow> string) \<Rightarrow> string \<Rightarrow> string \<Rightarrow> string \<Rightarrow> int \<Rightarrow> rat \<Rightarrow> int \<Rightarrow> int \<Rightarrow>
   RateLimiter \<times> limit_store \<Rightarrow> RateLimitResult \<times> RateLimiter \<times> limit_store" where
  "allowValkey cfg sha256 userID tenantID ip capacity rate now server_ms = (\<lambda>(r, s).
    let keys = [bucketKey sha256 ''user'' userID, bucketKey sha256 ''tenant'' tenantID, bucketKey sha256 ''ip'' ip];
        (vals, s') = (if ls_up s then tokenBucketLua capacity rate (now div (Second div 1000)) 1 keys server_ms s
                      else (Inl (Errorf ''valkey''), s))
    in case vals of
         Inl _ \<Rightarrow> (case allowLocal cfg userID tenantID ip capacity rate now (recordValkeyFailure now r) of
             (res, r') \<Rightarrow> (res, r', s'))
       | Inr (v, wait) \<Rightarrow>
           ((if v = 0 then \<lparr> rlr_Allowed = False, rlr_RetryAfter = wrap64 (wait * (Second div 1000)) \<rparr>
             else \<lparr> rlr_Allowed = True, rlr_RetryAfter = 0 \<rparr>), recordValkeySuccess r, s'))"

definition Allow ::
  "RateLimitConfig \<Rightarrow> (string \<Rightarrow> string) \<Rightarrow> string \<Rightarrow> string \<Rightarrow> string \<Rightarrow> int \<Rightarrow> rat \<Rightarrow> int \<Rightarrow> int \<Rightarrow>
   RateLimiter \<times> limit_store \<Rightarrow> RateLimitResult \<times> RateLimiter \<times> limit_store" where
  "Allow cfg sha256 userID tenantID ip capacity ratePerSec now server_ms = (\<lambda>(r, s).
    let rate = (if ratePerSec \<le> 0 then minRefillRate else ratePerSec)
    in if rl_available r then allowValkey cfg sha256 userID tenantID ip capacity rate now server_ms (r, s)
       else case allowLocal cfg userID tenantID ip capacity rate now r of (res, r') \<Rightarrow> (res, r', s))"

subsection \<open>What a bucket can give\<close>

text \<open>The tokens a bucket is good for at a time: what it held plus what has flowed in since, at most
  its capacity.\<close>

abbreviation unit_err :: rat where "unit_err \<equiv> 1 / 2 ^ 53"

definition inflow :: "rat \<Rightarrow> int \<Rightarrow> rat" where
  "inflow rate ms = of_int ms / 1000 * rate * (1 + 1 / 2 ^ 51)"

definition bank :: "rat \<Rightarrow> rat \<Rightarrow> limit_store \<Rightarrow> string \<Rightarrow> int \<Rightarrow> rat" where
  "bank capacity rate s k t = (case ls_hashes s k of None \<Rightarrow> capacity
     | Some b \<Rightarrow> min capacity (hb_tokens b + inflow rate (t - hb_last_ms b)))"

definition buckets_ok :: "rat \<Rightarrow> rat \<Rightarrow> int \<Rightarrow> limit_store \<Rightarrow> bool" where
  "buckets_ok capacity rate t s \<longleftrightarrow> (\<forall>k b. ls_hashes s k = Some b \<longrightarrow>
     0 \<le> hb_tokens b \<and> hb_last_ms b \<le> t \<and> hb_last_ms b + \<lfloor>lua_ttl capacity rate\<rfloor> * 1000 \<le> hb_expire_ms b)"

lemma scaled_twice:
  assumes "0 \<le> e" "0 < rate"
  shows "f64 (f64 e * rate) \<le> e * rate * (1 + 1 / 2 ^ 51)"
proof -
  define z where "z = f64 e * rate"
  have "f64 e * rate \<le> (e + e / 2 ^ 53) * rate"
    using f64.rnd_upper [OF assms(1)] assms(2) by (intro mult_right_mono) auto
  then have z: "z \<le> e * rate * (1 + unit_err)" by (simp add: z_def field_simps)
  have "0 \<le> z" using f64.rnd_nonneg [OF assms(1)] assms(2) by (simp add: z_def)
  from f64.rnd_upper [OF this] have "f64 z \<le> z * (1 + unit_err)" by (simp add: field_simps)
  also have "\<dots> \<le> e * rate * (1 + unit_err) * (1 + unit_err)" using z by (intro mult_right_mono) simp_all
  also have "\<dots> = e * rate * ((1 + unit_err) * (1 + unit_err))" by (rule mult.assoc)
  also have "\<dots> \<le> e * rate * (1 + 1 / 2 ^ 51)" using assms by (intro mult_left_mono) simp_all
  finally have "f64 z \<le> e * rate * (1 + 1 / 2 ^ 51)" .
  then show ?thesis by (simp add: z_def)
qed

lemma capped_sum:
  assumes "0 \<le> x" "0 \<le> c"
  shows "min c (f64 x) \<le> min c x + c * unit_err"
proof (cases "x \<le> c")
  case True
  then have "x / 2 ^ 53 \<le> c / 2 ^ 53" by (simp add: divide_right_mono)
  with f64.rnd_upper [OF assms(1)] True show ?thesis by (simp add: min_def)
next
  case False
  then show ?thesis using assms by (simp add: min_def)
qed

lemma lua_ttl_floor:
  assumes "0 \<le> c" "0 < rate"
  shows "c / rate - c / rate / 2 ^ 52 \<le> of_int \<lfloor>lua_ttl c rate\<rfloor>" "0 < lua_ttl c rate"
proof -
  define q where "q = c / rate"
  define n where "n = \<lceil>f64 q\<rceil> + 10"
  have q: "0 \<le> q" using assms by (simp add: q_def)
  have fq: "0 \<le> f64 q" "q - q / 2 ^ 53 \<le> f64 q" using f64.rnd_nonneg [OF q] f64.rnd_lower [OF q] by auto
  have n: "10 \<le> n" "f64 q \<le> of_int n"
    using fq(1) order_trans [OF le_of_int_ceiling [of "f64 q"], of "of_int n"] by (auto simp: n_def)
  have ttl: "lua_ttl c rate = f64 (of_int n)" using assms by (simp add: lua_ttl_def n_def q_def)
  then show "0 < lua_ttl c rate" using n(1) f64.rnd_pos [of "of_int n"] by simp
  have "f64 q - f64 q / 2 ^ 53 \<le> of_int \<lfloor>f64 (of_int n)\<rfloor>"
  proof (cases "n \<le> 2 ^ 53")
    case True
    with n(1) f64_nat_exact [of n] have "f64 (of_int n) = of_int n" by simp
    moreover have "0 \<le> f64 q / 2 ^ 53" using fq(1) by simp
    ultimately show ?thesis using n(2) by simp
  next
    case False
    define y where "y = f64 (of_int n)"
    have "f64 (of_int (2 ^ 53)) \<le> y" unfolding y_def using False by (intro f64.rnd_mono) (simp only: of_int_le_iff)
    then have y: "2 ^ 53 \<le> y" using f64_nat_exact [of "2 ^ 53"] by simp
    have "f64 q \<le> y" using f64.rnd_mono [OF n(2)] by (simp add: f64.rnd_idem y_def)
    then have "f64 q * (1 - unit_err) \<le> y * (1 - unit_err)" by (intro mult_right_mono) simp_all
    moreover have "y * (1 - unit_err) \<le> y - 1" using y by (simp add: field_simps)
    moreover have "y - 1 < of_int \<lfloor>y\<rfloor>" by linarith
    ultimately show ?thesis unfolding y_def [symmetric] by (simp add: field_simps)
  qed
  moreover have "q - q / 2 ^ 52 \<le> f64 q - f64 q / 2 ^ 53"
  proof -
    have "(q - q / 2 ^ 53) * (1 - unit_err) \<le> f64 q * (1 - unit_err)" using fq(2) by (intro mult_right_mono) simp_all
    moreover have "q - q / 2 ^ 52 \<le> (q - q / 2 ^ 53) * (1 - unit_err)" using q by (simp add: field_simps)
    ultimately show ?thesis by (simp add: field_simps)
  qed
  ultimately show "c / rate - c / rate / 2 ^ 52 \<le> of_int \<lfloor>lua_ttl c rate\<rfloor>" unfolding ttl q_def [symmetric] by linarith
qed

text \<open>A script run without an expiry error writes exactly its own keys.\<close>

lemma lua_store_writes:
  assumes "expire_fits ttl server_ms" "0 < ttl" "distinct (map fst kts)"
  shows "lua_store ttl now_ms server_ms kts s = (Inr (), s \<lparr> ls_hashes := (\<lambda>k. case map_of kts k of None \<Rightarrow> ls_hashes s k
     | Some t \<Rightarrow> Some \<lparr> hb_tokens = t, hb_last_ms = now_ms, hb_expire_ms = server_ms + \<lfloor>ttl\<rfloor> * 1000 \<rparr>) \<rparr>)"
  using assms(3)
proof (induction kts arbitrary: s)
  case (Cons p kts)
  obtain k t where p: "p = (k, t)" by fastforce
  with Cons.prems have "map_of kts k = None" "distinct (map fst kts)" by (auto simp: map_of_eq_None_iff)
  with Cons.IH assms(1,2) show ?case by (auto simp: p fun_eq_iff split: option.splits)
qed (simp add: fun_eq_iff)

definition refilled_tokens :: "int \<Rightarrow> rat \<Rightarrow> int \<Rightarrow> limit_store \<Rightarrow> string \<Rightarrow> rat" where
  "refilled_tokens cap rate t s k = lua_refill (of_int cap) rate t (hmget s t k)"

definition passes :: "int \<Rightarrow> rat \<Rightarrow> int \<Rightarrow> string list \<Rightarrow> limit_store \<Rightarrow> bool" where
  "passes cap rate t keys s \<longleftrightarrow> (\<forall>k \<in> set keys. 1 \<le> refilled_tokens cap rate t s k)"

lemma script_step:
  assumes "0 \<le> cap" "cap \<le> 2 ^ 53" "0 < rate" "expire_fits (lua_ttl (of_int cap) rate) t" "distinct keys"
  shows "\<exists>wait. tokenBucketLua cap rate t 1 keys t s = (Inr (of_bool (passes cap rate t keys s), wait),
     s \<lparr> ls_hashes := (\<lambda>k. if k \<in> set keys
       then Some \<lparr> hb_tokens = (if passes cap rate t keys s then f64 (refilled_tokens cap rate t s k - 1)
                                else refilled_tokens cap rate t s k),
                   hb_last_ms = t, hb_expire_ms = t + \<lfloor>lua_ttl (of_int cap) rate\<rfloor> * 1000 \<rparr>
       else ls_hashes s k) \<rparr>)"
proof -
  have c: "f64 (of_int cap) = of_int cap" using f64_nat_exact assms(1,2) by simp
  have p: "filter (\<lambda>t. t < 1) (map (\<lambda>k. lua_refill (of_int cap) rate t (hmget s t k)) keys) = [] \<longleftrightarrow> passes cap rate t keys s"
    by (auto simp: filter_empty_conv passes_def refilled_tokens_def not_less)
  have m: "map_of (zip keys (map f keys)) k = (if k \<in> set keys then Some (f k) else None)" for f :: "string \<Rightarrow> rat" and k
    by (induction keys) auto
  have d: "distinct (map fst (zip keys (map f keys)))" for f :: "string \<Rightarrow> rat" using assms(5) by simp
  have z: "0 < lua_ttl (of_int cap) rate" using lua_ttl_floor(2) assms(1,3) by simp
  note w = lua_store_writes [OF assms(4) z d]
  show ?thesis
    by (auto simp: tokenBucketLua_def Let_def c p w m o_def refilled_tokens_def fun_eq_iff)
qed

lemma refill_bounded:
  assumes "0 \<le> cap" "0 < rate" "buckets_ok (of_int cap) rate t s"
  shows "0 \<le> refilled_tokens cap rate t s k" "refilled_tokens cap rate t s k \<le> of_int cap"
    "refilled_tokens cap rate t s k \<le> bank (of_int cap) rate s k t + of_int cap / 2 ^ 52"
proof -
  let ?c = "of_int cap :: rat"
  let ?r = "refilled_tokens cap rate t s k"
  have c: "0 \<le> ?c" using assms(1) by simp
  show le: "?r \<le> ?c" by (simp add: refilled_tokens_def lua_refill_def Let_def)
  note ttl = lua_ttl_floor [OF c assms(2)]
  show "0 \<le> ?r"
  proof (cases "hmget s t k")
    case None
    then show ?thesis using c by (simp add: refilled_tokens_def lua_refill_def f64.rnd_zero f64.rnd_nonneg)
  next
    case (Some b)
    with assms(3) have "0 \<le> hb_tokens b" by (auto simp: hmget_def buckets_ok_def split: option.splits if_splits)
    moreover have "0 \<le> f64 (f64 (of_int (max 0 (t - hb_last_ms b)) / 1000) * rate)"
      using assms(2) by (intro f64.rnd_nonneg mult_nonneg_nonneg) (simp_all add: f64.rnd_nonneg)
    ultimately show ?thesis using Some c by (simp add: refilled_tokens_def lua_refill_def Let_def f64.rnd_nonneg)
  qed
  show "?r \<le> bank ?c rate s k t + ?c / 2 ^ 52"
  proof (cases "ls_hashes s k")
    case None
    then show ?thesis using le c by (simp add: bank_def)
  next
    case (Some b)
    with assms(3) have b: "0 \<le> hb_tokens b" "hb_last_ms b \<le> t" "hb_last_ms b + \<lfloor>lua_ttl ?c rate\<rfloor> * 1000 \<le> hb_expire_ms b"
      by (auto simp: buckets_ok_def)
    define e :: rat where "e = of_int (t - hb_last_ms b) / 1000"
    have e: "0 \<le> e" using b(2) by (simp add: e_def)
    have bank: "bank ?c rate s k t = min ?c (hb_tokens b + e * rate * (1 + 1 / 2 ^ 51))"
      using Some by (simp add: bank_def inflow_def e_def)
    show ?thesis
    proof (cases "hb_expire_ms b \<le> t")
      case False
      define x where "x = hb_tokens b + f64 (f64 e * rate)"
      have "0 \<le> x" using b(1) e assms(2) by (simp add: x_def f64.rnd_nonneg)
      have "?r = min ?c (f64 x)"
        using Some False b(2) by (simp add: refilled_tokens_def lua_refill_def hmget_def Let_def x_def e_def)
      also have "\<dots> \<le> min ?c x + ?c * unit_err" using capped_sum [OF \<open>0 \<le> x\<close> c] .
      also have "\<dots> \<le> bank ?c rate s k t + ?c / 2 ^ 52"
        using scaled_twice [OF e assms(2)] c unfolding bank by (auto simp: x_def min_def)
      finally show ?thesis .
    next
      case True
      with b(3) have "\<lfloor>lua_ttl ?c rate\<rfloor> * 1000 \<le> t - hb_last_ms b" by simp
      then have "of_int (\<lfloor>lua_ttl ?c rate\<rfloor> * 1000) \<le> (of_int (t - hb_last_ms b) :: rat)" by (simp only: of_int_le_iff)
      then have "of_int \<lfloor>lua_ttl ?c rate\<rfloor> \<le> e" by (simp add: e_def)
      with ttl(1) have "?c / rate - ?c / rate / 2 ^ 52 \<le> e" by linarith
      then have "(?c / rate - ?c / rate / 2 ^ 52) * rate \<le> e * rate" using assms(2) by (intro mult_right_mono) auto
      then have "?c - ?c / 2 ^ 52 \<le> e * rate" using assms(2) by (simp add: left_diff_distrib)
      moreover have "e * rate \<le> e * rate * (1 + 1 / 2 ^ 51)" using e assms(2) by (simp add: distrib_left)
      moreover have "0 \<le> ?c / 2 ^ 52" using c by simp
      ultimately show ?thesis using le b(1) unfolding bank by (auto simp: min_def)
    qed
  qed
qed

subsection \<open>How many requests pass\<close>

text \<open>A run of the script for a sequence of requests, each with its time and its keys, and how often
  it let a request on a key pass.\<close>

fun run_scripts :: "int \<Rightarrow> rat \<Rightarrow> (int \<times> string list) list \<Rightarrow> limit_store \<Rightarrow> limit_store" where
  "run_scripts cap rate [] s = s"
| "run_scripts cap rate ((t, keys) # reqs) s = run_scripts cap rate reqs (snd (tokenBucketLua cap rate t 1 keys t s))"

fun admitted :: "int \<Rightarrow> rat \<Rightarrow> string \<Rightarrow> (int \<times> string list) list \<Rightarrow> limit_store \<Rightarrow> nat" where
  "admitted cap rate k [] s = 0"
| "admitted cap rate k ((t, keys) # reqs) s = (case tokenBucketLua cap rate t 1 keys t s of (res, s') \<Rightarrow>
     of_bool (k \<in> set keys \<and> (\<exists>wait. res = Inr (1, wait))) + admitted cap rate k reqs s')"

definition timed :: "int \<Rightarrow> rat \<Rightarrow> (int \<times> string list) list \<Rightarrow> bool" where
  "timed cap rate reqs \<longleftrightarrow> sorted (map fst reqs) \<and>
     (\<forall>(t, keys) \<in> set reqs. distinct keys \<and> expire_fits (lua_ttl (of_int cap) rate) t)"

lemma script_keeps:
  assumes "0 \<le> cap" "cap \<le> 2 ^ 53" "0 < rate" "expire_fits (lua_ttl (of_int cap) rate) t" "distinct keys"
    and "buckets_ok (of_int cap) rate t s"
  shows "buckets_ok (of_int cap) rate t (snd (tokenBucketLua cap rate t 1 keys t s))"
    "bank (of_int cap) rate (snd (tokenBucketLua cap rate t 1 keys t s)) k t +
       of_bool (k \<in> set keys \<and> (\<exists>wait. fst (tokenBucketLua cap rate t 1 keys t s) = Inr (1, wait)))
     \<le> bank (of_int cap) rate s k t + of_int cap / 2 ^ 51"
proof -
  let ?c = "of_int cap :: rat"
  obtain wait where run: "tokenBucketLua cap rate t 1 keys t s = (Inr (of_bool (passes cap rate t keys s), wait),
     s \<lparr> ls_hashes := (\<lambda>k. if k \<in> set keys
       then Some \<lparr> hb_tokens = (if passes cap rate t keys s then f64 (refilled_tokens cap rate t s k - 1)
                                else refilled_tokens cap rate t s k),
                   hb_last_ms = t, hb_expire_ms = t + \<lfloor>lua_ttl ?c rate\<rfloor> * 1000 \<rparr>
       else ls_hashes s k) \<rparr>)"
    using script_step [OF assms(1-5), of s] by auto
  note r = refill_bounded [OF assms(1,3,6)]
  show "buckets_ok ?c rate t (snd (tokenBucketLua cap rate t 1 keys t s))"
    using r(1) assms(6) unfolding run buckets_ok_def by (auto simp: passes_def f64.rnd_nonneg)
  let ?r = "refilled_tokens cap rate t s k"
  have c: "0 \<le> ?c / 2 ^ 53" "?c / 2 ^ 51 = 4 * (?c / 2 ^ 53)" "?c / 2 ^ 52 = 2 * (?c / 2 ^ 53)" using assms(1) by simp_all
  show "bank ?c rate (snd (tokenBucketLua cap rate t 1 keys t s)) k t +
       of_bool (k \<in> set keys \<and> (\<exists>wait. fst (tokenBucketLua cap rate t 1 keys t s) = Inr (1, wait)))
     \<le> bank ?c rate s k t + ?c / 2 ^ 51"
  proof (cases "k \<in> set keys \<and> passes cap rate t keys s")
    case True
    then have one: "1 \<le> ?r" by (simp add: passes_def)
    then have "f64 (?r - 1) \<le> ?r - 1 + (?r - 1) / 2 ^ 53" by (intro f64.rnd_upper) simp
    moreover have "(?r - 1) / 2 ^ 53 \<le> ?c / 2 ^ 53" using r(2) [of k] by (intro divide_right_mono) auto
    ultimately have "f64 (?r - 1) + 1 \<le> bank ?c rate s k t + ?c / 2 ^ 51" using r(3) [of k] c by linarith
    moreover have "bank ?c rate (snd (tokenBucketLua cap rate t 1 keys t s)) k t \<le> f64 (?r - 1)"
      using True by (simp add: run bank_def inflow_def)
    ultimately show ?thesis using True by (simp add: run)
  next
    case False
    then show ?thesis
      using r(3) [of k] c by (auto simp: run bank_def inflow_def min_def split: option.splits)
  qed
qed

lemma buckets_ok_later: "buckets_ok c rate t s \<Longrightarrow> t \<le> t' \<Longrightarrow> buckets_ok c rate t' s"
  by (fastforce simp: buckets_ok_def)

lemma inflow_add: "inflow rate (t' - l) = inflow rate (t - l) + inflow rate (t' - t)"
  by (simp only: inflow_def distrib_right [symmetric] add_divide_distrib [symmetric] of_int_add [symmetric]) simp

lemma bank_later:
  assumes "t \<le> t'" "0 < rate"
  shows "bank c rate s k t' \<le> bank c rate s k t + inflow rate (t' - t)"
proof -
  have "0 \<le> inflow rate (t' - t)" using assms by (simp add: inflow_def)
  show ?thesis
  proof (cases "ls_hashes s k")
    case (Some b)
    with inflow_add [of rate t' "hb_last_ms b" t] \<open>0 \<le> inflow rate (t' - t)\<close> show ?thesis by (simp add: bank_def min_def)
  qed (use \<open>0 \<le> inflow rate (t' - t)\<close> in \<open>simp add: bank_def\<close>)
qed

lemma bank_nonneg: "0 \<le> c \<Longrightarrow> 0 < rate \<Longrightarrow> buckets_ok c rate t s \<Longrightarrow> 0 \<le> bank c rate s k t"
  by (auto simp: bank_def inflow_def buckets_ok_def split: option.splits)

lemma admitted_from_bank:
  assumes "0 \<le> cap" "cap \<le> 2 ^ 53" "0 < rate"
  shows "timed cap rate ((t0, keys) # reqs) \<Longrightarrow> buckets_ok (of_int cap) rate t0 s \<Longrightarrow>
    of_nat (admitted cap rate k ((t0, keys) # reqs) s) \<le> bank (of_int cap) rate s k t0
      + inflow rate (fst (last ((t0, keys) # reqs)) - t0) + of_nat (Suc (length reqs)) * (of_int cap / 2 ^ 51)"
proof (induction reqs arbitrary: t0 keys s)
  case Nil
  then have g: "expire_fits (lua_ttl (of_int cap) rate) t0" "distinct keys" by (auto simp: timed_def)
  note k = script_keeps [OF assms g Nil(2)]
  have "0 \<le> bank (of_int cap) rate (snd (tokenBucketLua cap rate t0 1 keys t0 s)) k t0"
    using bank_nonneg [OF _ assms(3) k(1)] assms(1) by simp
  with k(2) [of k] show ?case
    by (cases "k \<in> set keys \<and> (\<exists>wait. fst (tokenBucketLua cap rate t0 1 keys t0 s) = Inr (1, wait))")
       (auto simp: inflow_def case_prod_beta)
next
  case (Cons p reqs)
  obtain t1 keys1 where p: "p = (t1, keys1)" by fastforce
  from Cons.prems(1) p have g: "expire_fits (lua_ttl (of_int cap) rate) t0" "distinct keys" "t0 \<le> t1"
    and tm: "timed cap rate ((t1, keys1) # reqs)" by (auto simp: timed_def)
  let ?s = "snd (tokenBucketLua cap rate t0 1 keys t0 s)"
  note k = script_keeps [OF assms g(1,2) Cons.prems(2)]
  have "of_nat (admitted cap rate k ((t1, keys1) # reqs) ?s) \<le> bank (of_int cap) rate ?s k t1
      + inflow rate (fst (last ((t1, keys1) # reqs)) - t1) + of_nat (Suc (length reqs)) * (of_int cap / 2 ^ 51)"
    by (rule Cons.IH [OF tm buckets_ok_later [OF k(1) g(3)]])
  moreover note bank_later [OF g(3) assms(3), of "of_int cap" ?s k]
  moreover have "inflow rate (fst (last ((t1, keys1) # reqs)) - t0) =
      inflow rate (t1 - t0) + inflow rate (fst (last ((t1, keys1) # reqs)) - t1)"
    using inflow_add [of rate "fst (last ((t1, keys1) # reqs))" t0 t1] by simp
  moreover note k(2) [of k]
  moreover have "of_nat (admitted cap rate k ((t0, keys) # p # reqs) s) =
      (of_bool (k \<in> set keys \<and> (\<exists>wait. fst (tokenBucketLua cap rate t0 1 keys t0 s) = Inr (1, wait))) :: rat) +
      of_nat (admitted cap rate k ((t1, keys1) # reqs) ?s)"
    by (subst admitted.simps) (simp add: case_prod_beta p del: admitted.simps)
  moreover have "of_nat (Suc (Suc (length reqs))) * (of_int cap / 2 ^ 51 :: rat) =
      of_int cap / 2 ^ 51 + of_nat (Suc (length reqs)) * (of_int cap / 2 ^ 51)" by (simp add: distrib_right)
  moreover have "inflow rate (fst (last ((t0, keys) # p # reqs)) - t0) = inflow rate (fst (last ((t1, keys1) # reqs)) - t0)"
    by (simp add: p)
  ultimately show ?case unfolding length_Cons by linarith
qed

lemma run_scripts_ok:
  assumes "0 \<le> cap" "cap \<le> 2 ^ 53" "0 < rate"
  shows "timed cap rate reqs \<Longrightarrow> buckets_ok (of_int cap) rate t0 s \<Longrightarrow> \<forall>(t, _) \<in> set reqs. t0 \<le> t \<and> t \<le> t1 \<Longrightarrow> t0 \<le> t1 \<Longrightarrow>
    buckets_ok (of_int cap) rate t1 (run_scripts cap rate reqs s)"
proof (induction reqs arbitrary: t0 s)
  case (Cons p reqs)
  obtain t keys where p: "p = (t, keys)" by fastforce
  with Cons.prems have g: "expire_fits (lua_ttl (of_int cap) rate) t" "distinct keys" "t0 \<le> t" "t \<le> t1"
    and tm: "timed cap rate reqs" and le: "\<forall>(t', _) \<in> set reqs. t \<le> t' \<and> t' \<le> t1" by (auto simp: timed_def)
  from script_keeps(1) [OF assms g(1,2) buckets_ok_later [OF Cons.prems(2) g(3)]] Cons.IH tm le g(4)
  show ?case by (simp add: p)
qed (auto intro: buckets_ok_later)

text \<open>C16. In every window of the life of Valkey no bucket lets more requests pass than its capacity and what
  the refill rate brings in the length of the window, up to the rounding of doubles (a relative \<open>2^-51\<close> of
  the refill and of the capacity per request), also across expiries of its key.\<close>

theorem admission_bound:
  assumes "0 \<le> cap" "cap \<le> 2 ^ 53" "0 < rate" "timed cap rate (before @ (t0, keys) # window)"
  shows "of_nat (admitted cap rate k ((t0, keys) # window)
       (run_scripts cap rate before \<lparr> ls_up = True, ls_hashes = (\<lambda>_. None) \<rparr>))
     \<le> of_int cap + of_int (fst (last ((t0, keys) # window)) - t0) / 1000 * rate * (1 + 1 / 2 ^ 51)
       + of_nat (Suc (length window)) * (of_int cap / 2 ^ 51 :: rat)"
proof -
  let ?s = "run_scripts cap rate before \<lparr> ls_up = True, ls_hashes = (\<lambda>_. None) \<rparr>"
  from assms(4) have tm: "timed cap rate before" "timed cap rate ((t0, keys) # window)" "\<forall>(t, _) \<in> set before. t \<le> t0"
    by (auto simp: timed_def sorted_append)
  define tmin where "tmin = Min (insert t0 (fst ` set before))"
  have "tmin \<le> t0" "\<forall>(t, _) \<in> set before. tmin \<le> t \<and> t \<le> t0"
    using tm(3) unfolding tmin_def by (auto intro!: Min_le image_eqI)
  moreover have "buckets_ok (of_int cap) rate tmin \<lparr> ls_up = True, ls_hashes = (\<lambda>_. None) \<rparr>" by (simp add: buckets_ok_def)
  ultimately have "buckets_ok (of_int cap) rate t0 ?s" using run_scripts_ok [OF assms(1-3) tm(1)] by blast
  note admitted_from_bank [OF assms(1-3) tm(2) this, of k]
  moreover have "bank (of_int cap) rate ?s k t0 \<le> of_int cap" by (simp add: bank_def split: option.splits)
  ultimately show ?thesis unfolding inflow_def by linarith
qed

text \<open>Two requests of one client on a bucket of one token, a second apart, with a rate of one per second.\<close>

theorem admission_bound_witness:
  "(of_nat (admitted 1 1 ''k'' [(1000, [''k'']), (2000, [''k''])]
      (run_scripts 1 1 [(0, [''k''])] \<lparr> ls_up = True, ls_hashes = (\<lambda>_. None) \<rparr>)) :: rat)
     \<le> 1 + 1000 / 1000 * (1 + 1 / 2 ^ 51) + 2 * (1 / 2 ^ 51)"
proof -
  have "f64 1 = 1" "f64 11 = 11" by code_simp+
  then have "lua_ttl 1 1 = 11" by (simp add: lua_ttl_def)
  then have "timed 1 1 ([(0, [''k''])] @ (1000, [''k'']) # [(2000, [''k''])])" by (simp add: timed_def expire_fits_def)
  from admission_bound [OF _ _ _ this, of "''k''"] show ?thesis by simp
qed

subsection \<open>The fallback's list of buckets\<close>

text \<open>The list holds exactly the names of the buckets, each once; its length is the count, which stays
  within the limit (one bucket is always kept), and addresses in use are below the next one.\<close>

definition lru_ok :: "RateLimitConfig \<Rightarrow> RateLimiter \<Rightarrow> bool" where
  "lru_ok cfg r \<longleftrightarrow> distinct (rl_lruOrder r) \<and> set (rl_lruOrder r) = dom (rl_localBuckets r) \<and>
     rl_lruCount r = int (length (rl_lruOrder r)) \<and> rl_lruCount r \<le> max 1 (rlc_LocalMaxBuckets cfg) \<and>
     (\<forall>i a. rl_localBuckets r i = Some a \<longrightarrow> a < rl_next r)"

lemma lru_ok_evict:
  assumes "lru_ok cfg r"
  shows "lru_ok cfg (evictOldestLocked r)"
    and "rl_lruOrder r \<noteq> [] \<Longrightarrow> rl_lruCount (evictOldestLocked r) = rl_lruCount r - 1"
proof -
  show "lru_ok cfg (evictOldestLocked r)"
  proof (cases "rl_lruOrder r" rule: rev_cases)
    case (snoc ys y)
    with assms show ?thesis by (auto simp: lru_ok_def evictOldestLocked_def)
  qed (use assms in \<open>simp add: evictOldestLocked_def\<close>)
qed (simp add: evictOldestLocked_def)

lemma lru_ok_getOrCreate:
  assumes "lru_ok cfg r"
  shows "lru_ok cfg (snd (getOrCreateBucket cfg i capacity rate now r))"
proof (cases "rl_localBuckets r i")
  case (Some a)
  then have "i \<in> set (rl_lruOrder r)" using assms by (auto simp: lru_ok_def)
  then have "length (i # remove1 i (rl_lruOrder r)) = length (rl_lruOrder r)"
    "set (i # remove1 i (rl_lruOrder r)) = set (rl_lruOrder r)" "distinct (i # remove1 i (rl_lruOrder r))"
    using assms length_pos_if_in_set [of i "rl_lruOrder r"] by (auto simp: lru_ok_def length_remove1)
  with Some assms show ?thesis by (simp add: getOrCreateBucket_def lru_ok_def)
next
  case None
  define r1 where "r1 = (if rl_lruCount r \<ge> rlc_LocalMaxBuckets cfg then evictOldestLocked r else r)"
  have ok: "lru_ok cfg r1" using assms lru_ok_evict(1) by (simp add: r1_def)
  have room: "rl_lruCount r1 + 1 \<le> max 1 (rlc_LocalMaxBuckets cfg)"
  proof (cases "rl_lruCount r \<ge> rlc_LocalMaxBuckets cfg \<and> rl_lruOrder r \<noteq> []")
    case True
    with lru_ok_evict(2) [OF assms] assms show ?thesis by (simp add: lru_ok_def r1_def)
  next
    case False
    with assms show ?thesis by (auto simp: lru_ok_def evictOldestLocked_def r1_def)
  qed
  have "rl_localBuckets r1 i = None" using None by (simp add: evictOldestLocked_def r1_def)
  moreover from this have "i \<notin> set (rl_lruOrder r1)" using ok by (auto simp: lru_ok_def)
  moreover have "\<forall>i' a. ((rl_localBuckets r1)(i \<mapsto> rl_next r1)) i' = Some a \<longrightarrow> a < Suc (rl_next r1)"
    using ok by (auto simp: lru_ok_def less_Suc_eq)
  ultimately show ?thesis
    using ok room unfolding getOrCreateBucket_def None option.case Let_def r1_def [symmetric]
    by (simp add: lru_ok_def del: fun_upd_apply)
qed

lemma lru_ok_heap [simp]: "lru_ok cfg (r \<lparr> rl_heap := h \<rparr>) \<longleftrightarrow> lru_ok cfg r"
  by (simp add: lru_ok_def)

lemma lru_ok_allowLocal:
  assumes "lru_ok cfg r"
  shows "lru_ok cfg (snd (allowLocal cfg u t ip capacity rate now r))"
proof -
  let ?g = "\<lambda>i. getOrCreateBucket cfg i (f64 (f64 (of_int capacity) * rlc_FallbackMultiplier cfg)) rate now"
  have "lru_ok cfg (snd (?g ip (snd (?g t (snd (?g u r))))))" using assms by (simp add: lru_ok_getOrCreate)
  then show ?thesis by (simp add: allowLocal_def Let_def case_prod_beta)
qed

text \<open>A sequence of requests while Valkey is unavailable.\<close>

fun local_run ::
  "RateLimitConfig \<Rightarrow> int \<Rightarrow> rat \<Rightarrow> (string \<times> string \<times> string \<times> int) list \<Rightarrow> RateLimiter \<Rightarrow> RateLimitResult list \<times> RateLimiter" where
  "local_run cfg cap rate [] r = ([], r)"
| "local_run cfg cap rate ((u, t, ip, now) # reqs) r =
    (let (res, r1) = allowLocal cfg u t ip cap rate now r; (rest, r2) = local_run cfg cap rate reqs r1
     in (res # rest, r2))"

lemma local_run_ok: "lru_ok cfg r \<Longrightarrow> lru_ok cfg (snd (local_run cfg cap rate reqs r))"
  by (induction reqs arbitrary: r)
     (auto simp: Let_def case_prod_beta lru_ok_allowLocal)

lemma bucket_miss:
  assumes "lru_ok cfg r" "i \<notin> set (rl_lruOrder r)"
  shows "\<exists>r'. getOrCreateBucket cfg i c rate now r = (rl_next r, r') \<and> lru_ok cfg r' \<and> rl_next r' = Suc (rl_next r) \<and>
     rl_heap r' = (rl_heap r)(rl_next r := \<lparr> lb_tokens = c, lb_capacity = c, lb_lastRefill = now, lb_refillRate = rate \<rparr>) \<and>
     rl_lruOrder r' = i # (if int (length (rl_lruOrder r)) \<ge> rlc_LocalMaxBuckets cfg
                           then butlast (rl_lruOrder r) else rl_lruOrder r)"
proof -
  have "rl_localBuckets r i = None" "rl_lruCount r = int (length (rl_lruOrder r))"
    using assms by (auto simp: lru_ok_def)
  then show ?thesis
    using lru_ok_getOrCreate [OF assms(1), of i c rate now]
    by (auto simp: getOrCreateBucket_def evictOldestLocked_def Let_def)
qed

lemma full_bucket:
  "local_refill (f64 c) rate now \<lparr> lb_tokens = f64 c, lb_capacity = x, lb_lastRefill = now, lb_refillRate = y \<rparr> =
     \<lparr> lb_tokens = f64 c, lb_capacity = f64 c, lb_lastRefill = now, lb_refillRate = rate \<rparr>"
  by (simp add: local_refill_def Seconds_def quot64_def rem64_def f64.rnd_zero f64.rnd_idem)

lemma thrashing_step:
  assumes "lru_ok cfg r" "rlc_LocalMaxBuckets cfg \<le> 2" "distinct [u, t, ip]" "rl_lruOrder r \<in> {[], [ip], [ip, t]}"
    and "1 \<le> f64 (f64 (of_int cap) * rlc_FallbackMultiplier cfg)"
  shows "rlr_Allowed (fst (allowLocal cfg u t ip cap rate now r))"
    "rl_lruOrder (snd (allowLocal cfg u t ip cap rate now r)) \<in> {[], [ip], [ip, t]}"
proof -
  let ?c = "f64 (f64 (of_int cap) * rlc_FallbackMultiplier cfg)"
  let ?b = "\<lparr> lb_tokens = ?c, lb_capacity = ?c, lb_lastRefill = now, lb_refillRate = rate \<rparr>"
  have u: "u \<notin> set (rl_lruOrder r)" using assms(3,4) by auto
  obtain r1 where r1: "getOrCreateBucket cfg u ?c rate now r = (rl_next r, r1)" "lru_ok cfg r1" "rl_next r1 = Suc (rl_next r)"
    "rl_heap r1 = (rl_heap r)(rl_next r := ?b)" "rl_lruOrder r1 = u # (if int (length (rl_lruOrder r)) \<ge> rlc_LocalMaxBuckets cfg
       then butlast (rl_lruOrder r) else rl_lruOrder r)"
    using bucket_miss [OF assms(1) u, of ?c rate now] by auto
  have len: "int (length (rl_lruOrder r)) \<le> max 1 (rlc_LocalMaxBuckets cfg)" using assms(1) by (simp add: lru_ok_def)
  have o1: "rl_lruOrder r1 \<in> {[u], [u, ip]}" "int (length (rl_lruOrder r1)) \<le> max 1 (rlc_LocalMaxBuckets cfg)"
    using r1(2,5) assms(2,4) by (auto simp: lru_ok_def split: if_splits)
  then have "t \<notin> set (rl_lruOrder r1)" using assms(3) by auto
  from bucket_miss [OF r1(2) this, of ?c rate now] obtain r2
    where r2: "getOrCreateBucket cfg t ?c rate now r1 = (rl_next r1, r2)" "lru_ok cfg r2" "rl_next r2 = Suc (rl_next r1)"
    "rl_heap r2 = (rl_heap r1)(rl_next r1 := ?b)" "rl_lruOrder r2 = t # (if int (length (rl_lruOrder r1)) \<ge> rlc_LocalMaxBuckets cfg
       then butlast (rl_lruOrder r1) else rl_lruOrder r1)" by auto
  have o2: "rl_lruOrder r2 \<in> {[t], [t, u]}" using r2(2,5) o1 assms(2) by (auto simp: lru_ok_def split: if_splits)
  then have "ip \<notin> set (rl_lruOrder r2)" using assms(3) by auto
  from bucket_miss [OF r2(2) this, of ?c rate now] obtain r3
    where r3: "getOrCreateBucket cfg ip ?c rate now r2 = (rl_next r2, r3)" "lru_ok cfg r3"
    "rl_heap r3 = (rl_heap r2)(rl_next r2 := ?b)" "rl_lruOrder r3 = ip # (if int (length (rl_lruOrder r2)) \<ge> rlc_LocalMaxBuckets cfg
       then butlast (rl_lruOrder r2) else rl_lruOrder r2)" by auto
  have o3: "rl_lruOrder r3 \<in> {[ip], [ip, t]}" using r3(2,4) o2 assms(2) by (auto simp: lru_ok_def split: if_splits)
  have run: "allowLocal cfg u t ip cap rate now r = (\<lparr> rlr_Allowed = True, rlr_RetryAfter = 0 \<rparr>,
      r3 \<lparr> rl_heap := fold take_token [rl_next r, rl_next r1, rl_next r2] (rl_heap r3) \<rparr>)"
    using assms(5) by (simp add: allowLocal_def Let_def r1(1,3,4) r2(1,3,4) r3(1,3) full_bucket fun_upd_twist fun_upd_idem)
  show "rlr_Allowed (fst (allowLocal cfg u t ip cap rate now r))"
    "rl_lruOrder (snd (allowLocal cfg u t ip cap rate now r)) \<in> {[], [ip], [ip, t]}"
    using o3 by (auto simp: run)
qed

text \<open>The memory of the fallback is bounded: whatever requests come, the limiter never keeps more local
  buckets than configured (or one, if less is configured), and its list and its map agree.\<close>

theorem fallback_memory_bounded:
  "case local_run cfg cap rate reqs (markUnavailable now NewRateLimiter) of (_, r) \<Rightarrow>
     int (card (dom (rl_localBuckets r))) \<le> max 1 (rlc_LocalMaxBuckets cfg) \<and> set (rl_lruOrder r) = dom (rl_localBuckets r)"
proof -
  have "lru_ok cfg (markUnavailable now NewRateLimiter)" by (simp add: lru_ok_def markUnavailable_def NewRateLimiter_def)
  from local_run_ok [OF this, of cap rate reqs] show ?thesis
    unfolding lru_ok_def case_prod_beta by (metis distinct_card)
qed

text \<open>A fallback configured for at most two local buckets limits nobody: the three buckets of a request evict
  each other, so that every request of a client finds its buckets new and full. (Two is below the three a single
  client needs; 0 is what an unset \<open>local_max_buckets\<close> means.)\<close>

theorem small_fallback_limits_nobody:
  assumes "rlc_LocalMaxBuckets cfg \<le> 2" "distinct [u, t, ip]" "1 \<le> f64 (f64 (of_int cap) * rlc_FallbackMultiplier cfg)"
  shows "list_all rlr_Allowed (fst (local_run cfg cap rate (map (\<lambda>now. (u, t, ip, now)) ts)
     (markUnavailable t0 NewRateLimiter)))"
proof -
  have "list_all rlr_Allowed (fst (local_run cfg cap rate (map (\<lambda>now. (u, t, ip, now)) ts) r))"
    if "lru_ok cfg r" "rl_lruOrder r \<in> {[], [ip], [ip, t]}" for r
    using that
  proof (induction ts arbitrary: r)
    case (Cons now ts)
    note step = thrashing_step [OF Cons.prems(1) assms(1,2) Cons.prems(2) assms(3), of rate now]
    from Cons.IH [OF lru_ok_allowLocal [OF Cons.prems(1)] step(2)] step(1) show ?case
      by (simp add: Let_def case_prod_beta)
  qed simp
  moreover have "lru_ok cfg (markUnavailable t0 NewRateLimiter)" "rl_lruOrder (markUnavailable t0 NewRateLimiter) = []"
    by (simp_all add: lru_ok_def markUnavailable_def NewRateLimiter_def)
  ultimately show ?thesis by simp
qed

theorem small_fallback_limits_nobody_witness:
  "list_all rlr_Allowed (fst (local_run \<lparr> rlc_FallbackMultiplier = 1, rlc_LocalMaxBuckets = 0, rlc_HealthCheckIntervalMS = 0,
     rlc_Capacity = 1, rlc_RefillPerSec = 1 \<rparr> 1 1 (map (\<lambda>now. (''u'', ''t'', ''ip'', now)) [1, 1, 1])
     (markUnavailable 0 NewRateLimiter)))"
  by (rule small_fallback_limits_nobody) (simp_all add: f64.rnd_one)

end
