(* ===== verification/Config_Store.thy ===== *)
theory Config_Store
  imports Payment_Rules
begin

section \<open>Stored configuration of gateways (postgres/config_store.go, valkey/client.go, jobs/gateway_metrics)\<close>

text \<open>
  Gateways, their timeouts, fee models and exchange rates are rows that operators maintain. The store
  reads them from the read pool, and keeps gateways and timeouts in Valkey for half a minute. A job
  copies the circuit breakers from Valkey into a table that the store joins to the gateways. The payment
  service sees the store through the fields of \<open>env\<close>; \<open>config_env\<close> is the environment that the store provides.
  The order of rows is that of the table, where the queries leave it open. A value in the cache is
  the JSON text of a configuration or of a number, here the value itself; \<open>timeouts\<close> are of type \<open>INT\<close>, so that their
  seconds survive \<open>Duration.Seconds\<close>.
\<close>

subsection \<open>Tables\<close>

record CircuitBreakerState =
  cbs_State :: CircuitState
  cbs_CooldownUntil :: int

record GatewayConfig =
  gcf_GatewayID :: string
  gcf_DisplayName :: string
  gcf_IsActive :: bool
  gcf_MinAmount :: int
  gcf_MaxAmount :: int
  gcf_SupportedCurrencies :: "string list"
  gcf_SupportedMethods :: "string list"
  gcf_IdempotencyCapable :: bool
  gcf_SupportsCancel :: bool
  gcf_SupportsPartialRefund :: bool
  gcf_EstimatedTimeouts :: "string \<Rightarrow> int option"
  gcf_CircuitBreaker :: CircuitBreakerState
  gcf_Priority :: int
  gcf_UpdatedAt :: int

definition breaker_IsOpen :: "CircuitBreakerState \<Rightarrow> int \<Rightarrow> bool" where
  "breaker_IsOpen cb now \<longleftrightarrow> cbs_State cb = StateOpen \<and> now < cbs_CooldownUntil cb"

record GatewayMetadataSchema =
  gms_GatewayID :: string
  gms_AllowedKeys :: "string list"
  gms_RequiredKeys :: "string list"
  gms_MaxSizeBytes :: int

record GatewayRow =
  gr_gateway_id :: string
  gr_display_name :: string
  gr_is_active :: bool
  gr_min_amount :: int
  gr_max_amount :: int
  gr_supported_currencies :: "string list"
  gr_supported_methods :: "string list"
  gr_idempotency_capable :: bool
  gr_supports_cancel :: bool
  gr_supports_partial_refund :: bool
  gr_priority :: int
  gr_webhook_replay_window_sec :: int
  gr_webhook_clock_skew_sec :: int
  gr_updated_at :: int

record CircuitBreakerStateRecord =
  cbr_GatewayID :: string
  cbr_State :: CircuitState
  cbr_CooldownUntil :: int
  cbr_ConsecutiveFailures :: int
  cbr_LastKnownReliabilityScore :: int
  cbr_UpdatedAt :: int

record FeeModelRow =
  fmr_gateway_id :: string
  fmr_payment_method :: string
  fmr_fixed_fee :: int
  fmr_percentage_bps :: int
  fmr_interchange_cap :: "int option"
  fmr_discount_volume_threshold :: int
  fmr_charges_currency :: "string option"

text \<open>\<open>gateway_timeouts\<close> holds gateway, method and \<open>estimated_timeout_sec\<close>; \<open>tenant_currency_rates\<close> a tenant and a rate
  in decimal numbers.\<close>

record config_db =
  cd_gateways :: "GatewayRow list"
  cd_breakers :: "CircuitBreakerStateRecord list"
  cd_timeouts :: "(string \<times> string \<times> int) list"
  cd_fee_models :: "FeeModelRow list"
  cd_rates :: "(uuid \<times> CurrencyRate) list"
  cd_schemas :: "GatewayMetadataSchema list"

datatype cached = CachedConfig GatewayConfig | CachedSeconds int

text \<open>\<open>cs_budget\<close> counts the statements that Postgres still answers, as \<open>w_budget\<close> does for the services.\<close>

record config_state =
  cs_db :: config_db
  cs_budget :: "nat option"
  cs_now :: int
  cs_cache_up :: bool
  cs_kv :: "string \<Rightarrow> (cached \<times> int) option"

type_synonym 'a cfg = "(config_state, 'a) comp"

definition cfg_query :: "(config_db \<Rightarrow> 'a) \<Rightarrow> 'a cfg" where
  "cfg_query f s = (if cs_budget s = Some 0 then (Inl (Errorf ''postgres: connection lost''), s)
     else (Inr (f (cs_db s)), s \<lparr> cs_budget := map_option (\<lambda>n. n - 1) (cs_budget s) \<rparr>))"

subsection \<open>The cache (valkey/client.go)\<close>

definition configCacheTTL :: int where
  "configCacheTTL = 30 * Second"

definition configCacheKey :: "string \<Rightarrow> string" where
  "configCacheKey gatewayID = ''cfg:gw:'' @ gatewayID"

definition timeoutCacheKey :: "string \<Rightarrow> string \<Rightarrow> string" where
  "timeoutCacheKey gatewayID meth = ''cfg:to:'' @ gatewayID @ '':'' @ meth"

definition valkey_get :: "string \<Rightarrow> cached option cfg" where
  "valkey_get k s = (if \<not> cs_cache_up s then (Inl (Errorf ''valkey''), s)
     else (Inr (case cs_kv s k of None \<Rightarrow> None | Some (v, expiry) \<Rightarrow> if cs_now s < expiry then Some v else None), s))"

definition valkey_set :: "string \<Rightarrow> cached \<Rightarrow> unit cfg" where
  "valkey_set k v s = (if \<not> cs_cache_up s then (Inl (Errorf ''valkey''), s)
     else (Inr (), s \<lparr> cs_kv := (cs_kv s)(k \<mapsto> (v, cs_now s + configCacheTTL)) \<rparr>))"

definition cache_GetGatewayConfig :: "string \<Rightarrow> GatewayConfig option cfg" where
  "cache_GetGatewayConfig gatewayID = bindE (valkey_get (configCacheKey gatewayID)) (\<lambda>v. case v of
      None \<Rightarrow> ok None
    | Some (CachedConfig c) \<Rightarrow> ok (Some c)
    | Some (CachedSeconds _) \<Rightarrow> throw (Errorf ''json''))"

definition cache_SetGatewayConfig :: "GatewayConfig \<Rightarrow> unit cfg" where
  "cache_SetGatewayConfig c = valkey_set (configCacheKey (gcf_GatewayID c)) (CachedConfig c)"

definition cache_GetProcessingTimeout :: "string \<Rightarrow> string \<Rightarrow> int cfg" where
  "cache_GetProcessingTimeout gatewayID meth = bindE (valkey_get (timeoutCacheKey gatewayID meth)) (\<lambda>v. case v of
      None \<Rightarrow> ok 0
    | Some (CachedSeconds sec) \<Rightarrow> ok (wrap64 (sec * Second))
    | Some (CachedConfig _) \<Rightarrow> throw (Errorf ''json''))"

definition cache_SetProcessingTimeout :: "string \<Rightarrow> string \<Rightarrow> int \<Rightarrow> unit cfg" where
  "cache_SetProcessingTimeout gatewayID meth timeout =
     valkey_set (timeoutCacheKey gatewayID meth) (CachedSeconds (quot64 timeout Second))"

subsection \<open>The store\<close>

abbreviation ErrGatewayNotFound :: go_error where "ErrGatewayNotFound \<equiv> Sentinel ''gateway not found''"

text \<open>The joined row, \<open>COALESCE\<close> for a gateway without a breaker.\<close>

definition scanGatewayConfig :: "config_db \<Rightarrow> GatewayRow \<Rightarrow> GatewayConfig" where
  "scanGatewayConfig d r = \<lparr> gcf_GatewayID = gr_gateway_id r, gcf_DisplayName = gr_display_name r, gcf_IsActive = gr_is_active r,
     gcf_MinAmount = gr_min_amount r, gcf_MaxAmount = gr_max_amount r, gcf_SupportedCurrencies = gr_supported_currencies r,
     gcf_SupportedMethods = gr_supported_methods r, gcf_IdempotencyCapable = gr_idempotency_capable r,
     gcf_SupportsCancel = gr_supports_cancel r, gcf_SupportsPartialRefund = gr_supports_partial_refund r,
     gcf_EstimatedTimeouts = (\<lambda>_. None),
     gcf_CircuitBreaker = (case find (\<lambda>b. cbr_GatewayID b = gr_gateway_id r) (cd_breakers d) of
        None \<Rightarrow> \<lparr> cbs_State = StateClosed, cbs_CooldownUntil = zero_Time \<rparr>
      | Some b \<Rightarrow> \<lparr> cbs_State = cbr_State b, cbs_CooldownUntil = cbr_CooldownUntil b \<rparr>),
     gcf_Priority = gr_priority r, gcf_UpdatedAt = gr_updated_at r \<rparr>"

definition timeout_rows :: "config_db \<Rightarrow> string \<Rightarrow> (string \<times> int) list" where
  "timeout_rows d gatewayID = map snd (filter (\<lambda>r. fst r = gatewayID) (cd_timeouts d))"

text \<open>The loop of \<open>getTimeouts\<close>: a later row of the same method would win; the primary key forbids it.\<close>

definition timeouts_of :: "config_db \<Rightarrow> string \<Rightarrow> string \<Rightarrow> int option" where
  "timeouts_of d gatewayID = fold (\<lambda>(meth, sec) m. m(meth \<mapsto> wrap64 (sec * Second))) (timeout_rows d gatewayID) (\<lambda>_. None)"

definition getTimeouts :: "string \<Rightarrow> (string \<Rightarrow> int option) cfg" where
  "getTimeouts gatewayID = wrapE ''config_store: get timeouts'' (cfg_query (\<lambda>d. timeouts_of d gatewayID))"

definition find_gateway :: "config_db \<Rightarrow> string \<Rightarrow> GatewayConfig option" where
  "find_gateway d gatewayID = map_option (scanGatewayConfig d) (find (\<lambda>r. gr_gateway_id r = gatewayID) (cd_gateways d))"

definition GetGatewayConfig :: "string \<Rightarrow> GatewayConfig cfg" where
  "GetGatewayConfig gatewayID = bindE (attempt (cache_GetGatewayConfig gatewayID)) (\<lambda>hit. case hit of
      Inr (Some c) \<Rightarrow> ok c
    | _ \<Rightarrow> bindE (wrapE ''config_store: get gateway'' (cfg_query (\<lambda>d. find_gateway d gatewayID))) (\<lambda>row. case row of
        None \<Rightarrow> throw ErrGatewayNotFound
      | Some c0 \<Rightarrow> bindE (getTimeouts gatewayID) (\<lambda>timeouts.
          let c = c0 \<lparr> gcf_EstimatedTimeouts := timeouts \<rparr>
          in bindE (attempt (cache_SetGatewayConfig c)) (\<lambda>_. ok c))))"

definition timeoutsForGateways :: "string list \<Rightarrow> (string \<Rightarrow> string \<Rightarrow> int option) cfg" where
  "timeoutsForGateways ids = (if ids = [] then ok (\<lambda>_ _. None)
     else wrapE ''config_store: list timeouts for gateways''
       (cfg_query (\<lambda>d. fold (\<lambda>(gid, meth, sec) m. m(gid := (m gid)(meth \<mapsto> wrap64 (sec * Second))))
          (filter (\<lambda>r. fst r \<in> set ids) (cd_timeouts d)) (\<lambda>_ _. None))))"

definition stored_ListActiveGateways :: "GatewayConfig list cfg" where
  "stored_ListActiveGateways = bindE (wrapE ''config_store: list active gateways''
       (cfg_query (\<lambda>d. map (scanGatewayConfig d) (filter gr_is_active (cd_gateways d))))) (\<lambda>configs.
     bindE (timeoutsForGateways (map gcf_GatewayID configs)) (\<lambda>timeouts.
     ok (map (\<lambda>c. c \<lparr> gcf_EstimatedTimeouts := timeouts (gcf_GatewayID c) \<rparr>) configs)))"

definition scan_fee_model :: "FeeModelRow \<Rightarrow> GatewayFeeModel" where
  "scan_fee_model r = \<lparr> fm_FixedFee = fmr_fixed_fee r, fm_PercentageBPS = fmr_percentage_bps r, fm_InterchangeCap = fmr_interchange_cap r,
     fm_DiscountVolumeThreshold = fmr_discount_volume_threshold r,
     fm_ChargesCurrency = (case fmr_charges_currency r of None \<Rightarrow> '''' | Some c \<Rightarrow> c) \<rparr>"

definition GetFeeModel :: "string \<Rightarrow> string \<Rightarrow> GatewayFeeModel option cfg" where
  "GetFeeModel gatewayID meth = wrapE ''config_store: get fee model'' (cfg_query (\<lambda>d. map_option scan_fee_model
     (find (\<lambda>r. fmr_gateway_id r = gatewayID \<and> fmr_payment_method r = meth) (cd_fee_models d))))"

text \<open>A \<open>NUMERIC\<close> column is read into a \<open>float64\<close>.\<close>

definition scan_rate :: "CurrencyRate \<Rightarrow> CurrencyRate" where
  "scan_rate r = r \<lparr> cr_Rate := f64 (cr_Rate r), cr_MarkupPct := f64 (cr_MarkupPct r), cr_MarkupFixed := f64 (cr_MarkupFixed r) \<rparr>"

definition GetCurrencyRates :: "uuid \<Rightarrow> CurrencyRate list cfg" where
  "GetCurrencyRates tenantID = wrapE ''config_store: get currency rates'' (cfg_query (\<lambda>d.
     map (scan_rate \<circ> snd) (filter (\<lambda>r. fst r = tenantID) (cd_rates d))))"

definition GetMetadataSchema :: "string \<Rightarrow> GatewayMetadataSchema cfg" where
  "GetMetadataSchema gatewayID = bindE (wrapE ''config_store: get metadata schema''
       (cfg_query (\<lambda>d. find (\<lambda>r. gms_GatewayID r = gatewayID) (cd_schemas d)))) (\<lambda>row. case row of
      None \<Rightarrow> throw (Errorf ''config_store: no metadata schema'')
    | Some r \<Rightarrow> ok r)"

definition WebhookPolicy :: "string \<Rightarrow> (int \<times> int) cfg" where
  "WebhookPolicy gatewayID = wrapE ''config_store: webhook policy'' (cfg_query (\<lambda>d.
     case find (\<lambda>r. gr_gateway_id r = gatewayID) (cd_gateways d) of
       None \<Rightarrow> (300, 30)
     | Some r \<Rightarrow> (gr_webhook_replay_window_sec r, gr_webhook_clock_skew_sec r)))"

definition timeout_sec :: "config_db \<Rightarrow> string \<Rightarrow> string \<Rightarrow> int option" where
  "timeout_sec d gatewayID meth = map_option (snd \<circ> snd) (find (\<lambda>r. fst r = gatewayID \<and> fst (snd r) = meth) (cd_timeouts d))"

definition GetProcessingTimeout :: "string \<Rightarrow> string \<Rightarrow> int cfg" where
  "GetProcessingTimeout gatewayID meth = bindE (attempt (cache_GetProcessingTimeout gatewayID meth)) (\<lambda>hit.
     if (case hit of Inr t \<Rightarrow> 0 < t | Inl _ \<Rightarrow> False) then lift hit
     else bindE (wrapE ''config_store: get processing timeout'' (cfg_query (\<lambda>d. timeout_sec d gatewayID meth))) (\<lambda>row. case row of
        None \<Rightarrow> throw (Errorf ''config_store: no timeout configured'')
      | Some sec \<Rightarrow> (let t = wrap64 (sec * Second)
          in bindE (attempt (cache_SetProcessingTimeout gatewayID meth t)) (\<lambda>_. ok t))))"

subsection \<open>The breaker table (postgres/gateway_metrics.go, jobs/gateway_metrics)\<close>

text \<open>The foreign key and the \<open>CHECK\<close> of \<open>gateway_circuit_breaker_state\<close>.\<close>

definition breaker_row_ok :: "CircuitBreakerStateRecord \<Rightarrow> config_db \<Rightarrow> bool" where
  "breaker_row_ok r d \<longleftrightarrow> cbr_GatewayID r \<in> gr_gateway_id ` set (cd_gateways d) \<and> cbr_State r \<in> {StateClosed, StateOpen, StateHalfOpen}"

definition upsert_breaker :: "CircuitBreakerStateRecord \<Rightarrow> CircuitBreakerStateRecord list \<Rightarrow> CircuitBreakerStateRecord list" where
  "upsert_breaker r rows = (if cbr_GatewayID r \<in> cbr_GatewayID ` set rows
     then map (\<lambda>x. if cbr_GatewayID x = cbr_GatewayID r then r else x) rows else rows @ [r])"

definition UpsertCircuitBreakerState :: "CircuitBreakerStateRecord \<Rightarrow> unit cfg" where
  "UpsertCircuitBreakerState r = wrapE ''gateway_metrics: upsert cb state'' (bindE (cfg_query (breaker_row_ok r)) (\<lambda>good.
     if \<not> good then throw (Errorf ''constraint violated'')
     else changing (\<lambda>s. s \<lparr> cs_db := (cs_db s) \<lparr> cd_breakers := upsert_breaker r (cd_breakers (cs_db s)) \<rparr> \<rparr>)))"

definition GetCircuitBreakerState :: "string \<Rightarrow> CircuitBreakerStateRecord option cfg" where
  "GetCircuitBreakerState gatewayID = wrapE ''gateway_metrics: get cb state''
     (cfg_query (\<lambda>d. find (\<lambda>b. cbr_GatewayID b = gatewayID) (cd_breakers d)))"

definition ListCircuitBreakerStates :: "CircuitBreakerStateRecord list cfg" where
  "ListCircuitBreakerStates = wrapE ''gateway_metrics: list cb states'' (cfg_query cd_breakers)"

definition breaker_record :: "int \<Rightarrow> CircuitBreaker \<Rightarrow> string \<Rightarrow> CircuitBreakerStateRecord" where
  "breaker_record now cb gid = \<lparr> cbr_GatewayID = gid, cbr_State = cb_State cb, cbr_CooldownUntil = cb_CooldownUntil cb,
     cbr_ConsecutiveFailures = cb_ConsecutiveFailures cb, cbr_LastKnownReliabilityScore = cb_LastKnownReliabilityScore cb,
     cbr_UpdatedAt = now \<rparr>"

definition metrics_RunOnce :: "string list \<Rightarrow> cb_store \<Rightarrow> unit cfg" where
  "metrics_RunOnce ids breakers = bindE (reading cs_now) (\<lambda>now. forE ids (\<lambda>gid. case cb_Get gid breakers of
      Inl _ \<Rightarrow> ok ()
    | Inr cb \<Rightarrow> bindE (attempt (UpsertCircuitBreakerState (breaker_record now cb gid))) (\<lambda>_. ok ())))"

subsection \<open>What the payment service sees\<close>

definition config_env :: "config_state \<Rightarrow> env \<Rightarrow> env" where
  "config_env s ev = ev \<lparr> ev_gateway_active := (\<lambda>g. map_sum (\<lambda>e. e) gcf_IsActive (fst (GetGatewayConfig g s))),
     ev_processing_timeout := (\<lambda>g meth. fst (GetProcessingTimeout g meth s)),
     ev_fee_model := (\<lambda>g meth. fst (GetFeeModel g meth s)), ev_currency_rates := (\<lambda>t. fst (GetCurrencyRates t s)) \<rparr>"

subsection \<open>How old an answer can be\<close>

text \<open>
  Operators change the tables at any time, the clock moves, Valkey and the database come and go, Valkey may lose keys, and the
  operations of the store and the metrics job run in between. The first argument records every instant
  with the tables of that instant, the latest first.
\<close>

definition forgets :: "config_state \<Rightarrow> config_state \<Rightarrow> bool" where
  "forgets s s' \<longleftrightarrow> (\<exists>b up kv. s' = s \<lparr> cs_budget := b, cs_cache_up := up, cs_kv := kv \<rparr> \<and> (\<forall>k. kv k = cs_kv s k \<or> kv k = None))"

inductive config_run :: "(int \<times> config_db) list \<Rightarrow> config_state \<Rightarrow> bool" where
  start: "cs_kv s = (\<lambda>_. None) \<Longrightarrow> config_run [(cs_now s, cs_db s)] s"
| wait: "config_run h s \<Longrightarrow> cs_now s \<le> t \<Longrightarrow> config_run ((t, cs_db s) # h) (s \<lparr> cs_now := t \<rparr>)"
| edit: "config_run h s \<Longrightarrow> config_run ((cs_now s, d) # h) (s \<lparr> cs_db := d \<rparr>)"
| fault: "config_run h s \<Longrightarrow> forgets s s' \<Longrightarrow> config_run h s'"
| gateway: "config_run h s \<Longrightarrow> config_run h (snd (GetGatewayConfig g s))"
| timeout: "config_run h s \<Longrightarrow> config_run h (snd (GetProcessingTimeout g meth s))"
| job: "config_run h s \<Longrightarrow> s' = snd (metrics_RunOnce ids cbs s) \<Longrightarrow> config_run ((cs_now s', cs_db s') # h) s'"

text \<open>What the tables say, without a cache.\<close>

definition gateway_in :: "config_db \<Rightarrow> string \<Rightarrow> GatewayConfig option" where
  "gateway_in d g = map_option (\<lambda>c. c \<lparr> gcf_EstimatedTimeouts := timeouts_of d g \<rparr>) (find_gateway d g)"

definition timeout_in :: "config_db \<Rightarrow> string \<Rightarrow> string \<Rightarrow> int option" where
  "timeout_in d g meth = map_option (\<lambda>sec. wrap64 (sec * Second)) (timeout_sec d g meth)"

text \<open>Some tables of the last half minute have the property.\<close>

definition recently :: "(int \<times> config_db) list \<Rightarrow> int \<Rightarrow> (config_db \<Rightarrow> bool) \<Rightarrow> bool" where
  "recently h now P \<longleftrightarrow> (\<exists>(t, d) \<in> set h. now - configCacheTTL < t \<and> t \<le> now \<and> P d)"

text \<open>What an entry of the cache records. A method is not empty of colons, so the key of a timeout determines its
  gateway only for gateways without one.\<close>

definition entry_ok :: "(int \<times> config_db) list \<Rightarrow> string \<Rightarrow> cached \<times> int \<Rightarrow> bool" where
  "entry_ok h k x \<longleftrightarrow> (\<exists>(t, d) \<in> set h. snd x = t + configCacheTTL \<and>
     (case fst x of CachedConfig c \<Rightarrow> k = configCacheKey (gcf_GatewayID c) \<and> gateway_in d (gcf_GatewayID c) = Some c
      | CachedSeconds sec \<Rightarrow> (\<exists>g meth t. k = timeoutCacheKey g meth \<and> timeout_in d g meth = Some t \<and> sec = quot64 t Second)))"

definition cache_fresh :: "(int \<times> config_db) list \<Rightarrow> config_state \<Rightarrow> bool" where
  "cache_fresh h s \<longleftrightarrow> (cs_now s, cs_db s) \<in> set h \<and> (\<forall>(t, d) \<in> set h. t \<le> cs_now s) \<and>
     (\<forall>k x. cs_kv s k = Some x \<longrightarrow> entry_ok h k x)"

lemma find_gateway_id: "find_gateway d g = Some c \<Longrightarrow> gcf_GatewayID c = g"
  by (auto simp: find_gateway_def scanGatewayConfig_def find_Some_iff)

lemma entry_ok_more: "entry_ok h k x \<Longrightarrow> set h \<subseteq> set h' \<Longrightarrow> entry_ok h' k x"
  unfolding entry_ok_def by blast

lemma cache_fresh_set:
  assumes "cache_fresh h s" "entry_ok h k (v, cs_now s + configCacheTTL)"
  shows "cache_fresh h (snd (valkey_set k v s))"
  using assms by (auto simp: cache_fresh_def valkey_set_def)

lemma cache_fresh_query: "cache_fresh h s \<Longrightarrow> cache_fresh h (snd (cfg_query f s))"
  by (simp add: cache_fresh_def cfg_query_def)

lemmas cfg_simps = bindE_def attempt_def wrapE_def ok_def throw_def lift_def reading_def changing_def

lemma cfg_query_cases:
  obtains e where "cfg_query f s = (Inl e, s)"
  | b where "cfg_query f s = (Inr (f (cs_db s)), s \<lparr> cs_budget := b \<rparr>)"
  by (cases "cs_budget s = Some 0") (auto simp: cfg_query_def)

lemma valkey_get_state: "snd (valkey_get k s) = s"
  by (simp add: valkey_get_def)

lemma cache_GetGatewayConfig_state: "snd (cache_GetGatewayConfig g s) = s"
  using valkey_get_state [of "configCacheKey g" s]
  by (auto simp: cache_GetGatewayConfig_def cfg_simps split: prod.splits sum.splits option.splits cached.splits)

lemma cache_GetProcessingTimeout_state: "snd (cache_GetProcessingTimeout g meth s) = s"
  using valkey_get_state [of "timeoutCacheKey g meth" s]
  by (auto simp: cache_GetProcessingTimeout_def cfg_simps split: prod.splits sum.splits option.splits cached.splits)

lemma attempt_ok: "bindE (attempt m) (\<lambda>_. ok c) s = (Inr c, snd (m s))"
  by (simp add: bindE_def attempt_def ok_def split: prod.splits)

text \<open>The three ways in which a read ends: from the cache, with an error, or from the tables.\<close>

lemma GetGatewayConfig_cases:
  assumes "GetGatewayConfig g s = (r, s')"
  obtains (hit) c expiry where "r = Inr c" "s' = s" "cs_kv s (configCacheKey g) = Some (CachedConfig c, expiry)" "cs_now s < expiry"
  | (failed) e b where "r = Inl e" "s' = s \<lparr> cs_budget := b \<rparr>"
  | (stored) c b where "r = Inr c" "gateway_in (cs_db s) g = Some c"
      "s' = snd (valkey_set (configCacheKey g) (CachedConfig c) (s \<lparr> cs_budget := b \<rparr>))"
proof -
  obtain x where x: "cache_GetGatewayConfig g s = (x, s)"
    using cache_GetGatewayConfig_state [of g s] by (metis prod.collapse)
  show ?thesis
  proof (cases "\<exists>c. x = Inr (Some c)")
    case True
    then obtain c where c: "x = Inr (Some c)" by blast
    from x c obtain expiry where "cs_kv s (configCacheKey g) = Some (CachedConfig c, expiry)" "cs_now s < expiry"
      by (auto simp: cache_GetGatewayConfig_def valkey_get_def cfg_simps split: prod.splits sum.splits option.splits cached.splits if_splits)
    moreover have "r = Inr c" "s' = s" using assms x c by (simp_all add: GetGatewayConfig_def cfg_simps)
    ultimately show ?thesis by (intro hit)
  next
    case False
    define m where "m = bindE (wrapE ''config_store: get gateway'' (cfg_query (\<lambda>d. find_gateway d g))) (\<lambda>row. case row of
        None \<Rightarrow> throw ErrGatewayNotFound
      | Some c0 \<Rightarrow> bindE (getTimeouts g) (\<lambda>timeouts.
          let c = c0 \<lparr> gcf_EstimatedTimeouts := timeouts \<rparr>
          in bindE (attempt (cache_SetGatewayConfig c)) (\<lambda>_. ok c)))"
    have m: "m s = (r, s')"
      using assms x False unfolding GetGatewayConfig_def m_def [symmetric]
      by (cases x) (auto simp: bindE_def attempt_def split: option.splits)
    have same: "s \<lparr> cs_budget := cs_budget s \<rparr> = s" by simp
    show ?thesis
    proof (cases rule: cfg_query_cases [of "\<lambda>d. find_gateway d g" s])
      case (1 e)
      then show ?thesis using m same by (intro failed [of _ "cs_budget s"]) (auto simp: m_def bindE_def wrapE_def)
    next
      case q: (2 b)
      show ?thesis
      proof (cases "find_gateway (cs_db s) g")
        case None
        then show ?thesis using m q by (intro failed [of ErrGatewayNotFound b]) (auto simp: m_def bindE_def wrapE_def throw_def)
      next
        case (Some c0)
        define c where "c = c0 \<lparr> gcf_EstimatedTimeouts := timeouts_of (cs_db s) g \<rparr>"
        have c: "gateway_in (cs_db s) g = Some c" "gcf_GatewayID c = g"
          using find_gateway_id [OF Some] by (simp_all add: gateway_in_def Some c_def)
        show ?thesis
        proof (cases rule: cfg_query_cases [of "\<lambda>d. timeouts_of d g" "s \<lparr> cs_budget := b \<rparr>"])
          case (1 e)
          then show ?thesis using m q Some
            by (intro failed [of _ b]) (auto simp: m_def bindE_def wrapE_def getTimeouts_def)
        next
          case (2 b')
          then show ?thesis using m q Some c find_gateway_id [OF Some]
            by (intro stored [of c b'])
              (auto simp: m_def bindE_def [of "wrapE _ _"] bindE_def [of "getTimeouts _"] wrapE_def getTimeouts_def c_def [symmetric] cache_SetGatewayConfig_def attempt_ok Let_def)
        qed
      qed
    qed
  qed
qed

lemma GetProcessingTimeout_cases:
  assumes "GetProcessingTimeout g meth s = (r, s')"
  obtains (hit) sec expiry where "r = Inr (wrap64 (sec * Second))" "s' = s"
      "cs_kv s (timeoutCacheKey g meth) = Some (CachedSeconds sec, expiry)" "cs_now s < expiry"
  | (failed) e b where "r = Inl e" "s' = s \<lparr> cs_budget := b \<rparr>"
  | (stored) t b where "r = Inr t" "timeout_in (cs_db s) g meth = Some t"
      "s' = snd (valkey_set (timeoutCacheKey g meth) (CachedSeconds (quot64 t Second)) (s \<lparr> cs_budget := b \<rparr>))"
proof -
  obtain x where x: "cache_GetProcessingTimeout g meth s = (x, s)"
    using cache_GetProcessingTimeout_state [of g meth s] by (metis prod.collapse)
  show ?thesis
  proof (cases "\<exists>t. x = Inr t \<and> 0 < t")
    case True
    then obtain t where t: "x = Inr t" "0 < t" by blast
    from x t obtain sec expiry where "cs_kv s (timeoutCacheKey g meth) = Some (CachedSeconds sec, expiry)" "cs_now s < expiry"
      and t': "t = wrap64 (sec * Second)"
      by (auto simp: cache_GetProcessingTimeout_def valkey_get_def cfg_simps split: prod.splits sum.splits option.splits cached.splits if_splits)
    moreover have "r = Inr t" "s' = s" using assms x t by (simp_all add: GetProcessingTimeout_def bindE_def attempt_def lift_def)
    ultimately show ?thesis by (intro hit) simp_all
  next
    case False
    define m where "m = bindE (wrapE ''config_store: get processing timeout'' (cfg_query (\<lambda>d. timeout_sec d g meth))) (\<lambda>row. case row of
        None \<Rightarrow> throw (Errorf ''config_store: no timeout configured'')
      | Some sec \<Rightarrow> (let t = wrap64 (sec * Second)
          in bindE (attempt (cache_SetProcessingTimeout g meth t)) (\<lambda>_. ok t)))"
    have m: "m s = (r, s')"
      using assms x False unfolding GetProcessingTimeout_def m_def [symmetric]
      by (cases x) (auto simp: bindE_def attempt_def)
    have same: "s \<lparr> cs_budget := cs_budget s \<rparr> = s" by simp
    show ?thesis
    proof (cases rule: cfg_query_cases [of "\<lambda>d. timeout_sec d g meth" s])
      case (1 e)
      then show ?thesis using m same by (intro failed [of _ "cs_budget s"]) (auto simp: m_def bindE_def wrapE_def)
    next
      case q: (2 b)
      show ?thesis
      proof (cases "timeout_sec (cs_db s) g meth")
        case None
        then show ?thesis using m q by (intro failed [of _ b]) (auto simp: m_def bindE_def wrapE_def throw_def)
      next
        case (Some sec)
        then show ?thesis using m q
          by (intro stored [of "wrap64 (sec * Second)" b])
            (auto simp: m_def bindE_def [of "wrapE _ _"] wrapE_def timeout_in_def cache_SetProcessingTimeout_def attempt_ok Let_def)
      qed
    qed
  qed
qed

text \<open>The invariant: every entry of the cache is what the tables said when it was made.\<close>

lemma metrics_RunOnce_frame: "keeps (\<lambda>s. cs_now s = t \<and> cs_kv s = kv) (metrics_RunOnce ids cbs)"
proof -
  have q: "keeps (\<lambda>s. cs_now s = t \<and> cs_kv s = kv) (cfg_query f)" for f by (simp add: keeps_def cfg_query_def)
  show ?thesis unfolding metrics_RunOnce_def UpsertCircuitBreakerState_def
    by (intro keeps_bindE keeps_reading keeps_forE keeps_case_sum keeps_ok keeps_attempt keeps_wrapE q keeps_if keeps_throw keeps_changing) simp_all
qed

lemma cache_fresh_more:
  assumes "cache_fresh h s" "cs_kv s' = cs_kv s" "cs_now s \<le> cs_now s'"
  shows "cache_fresh ((cs_now s', cs_db s') # h) s'"
  using assms by (force simp: cache_fresh_def intro: entry_ok_more)

lemma config_run_cache: "config_run h s \<Longrightarrow> cache_fresh h s"
proof (induction rule: config_run.induct)
  case (start s)
  then show ?case by (simp add: cache_fresh_def)
next
  case (wait h s t)
  then show ?case using cache_fresh_more [of h s "s \<lparr> cs_now := t \<rparr>"] by simp
next
  case (edit h s d)
  then show ?case using cache_fresh_more [of h s "s \<lparr> cs_db := d \<rparr>"] by simp
next
  case (fault h s s')
  then show ?case by (auto simp: cache_fresh_def forgets_def) (metis option.distinct(1))
next
  case (gateway h s g)
  obtain r s' where g: "GetGatewayConfig g s = (r, s')" by fastforce
  show ?case
    using g
  proof (cases rule: GetGatewayConfig_cases)
    case (stored c b)
    have "gcf_GatewayID c = g" using stored(2) by (auto simp: gateway_in_def dest: find_gateway_id)
    then have "entry_ok h (configCacheKey g) (CachedConfig c, cs_now (s \<lparr> cs_budget := b \<rparr>) + configCacheTTL)"
      using gateway.IH stored(2) by (auto simp: cache_fresh_def entry_ok_def)
    moreover have "cache_fresh h (s \<lparr> cs_budget := b \<rparr>)" using gateway.IH by (simp add: cache_fresh_def)
    ultimately show ?thesis using cache_fresh_set stored(3) g by simp
  qed (use gateway.IH g in \<open>auto simp: cache_fresh_def\<close>)
next
  case (timeout h s g meth)
  obtain r s' where g: "GetProcessingTimeout g meth s = (r, s')" by fastforce
  show ?case
    using g
  proof (cases rule: GetProcessingTimeout_cases)
    case (stored t b)
    then have "entry_ok h (timeoutCacheKey g meth) (CachedSeconds (quot64 t Second), cs_now (s \<lparr> cs_budget := b \<rparr>) + configCacheTTL)"
      using timeout.IH by (fastforce simp: cache_fresh_def entry_ok_def)
    moreover have "cache_fresh h (s \<lparr> cs_budget := b \<rparr>)" using timeout.IH by (simp add: cache_fresh_def)
    ultimately show ?thesis using cache_fresh_set stored(3) g by simp
  qed (use timeout.IH g in \<open>auto simp: cache_fresh_def\<close>)
next
  case (job h s s' ids cbs)
  then have "cs_now s' = cs_now s \<and> cs_kv s' = cs_kv s"
    using metrics_RunOnce_frame [of "cs_now s" "cs_kv s" ids cbs] by (simp add: keeps_def)
  then show ?case using cache_fresh_more [of h s s'] job.IH by simp
qed

text \<open>Identifiers of gateways without a colon, and seconds in the range of \<open>INT\<close>.\<close>

definition plain_timeouts :: "config_db \<Rightarrow> bool" where
  "plain_timeouts d \<longleftrightarrow> (\<forall>(g, meth, sec) \<in> set (cd_timeouts d). CHR '':'' \<notin> set g \<and> \<bar>sec\<bar> < 2 ^ 31)"

lemma recentlyI: "(t, d) \<in> set h \<Longrightarrow> now - configCacheTTL < t \<Longrightarrow> t \<le> now \<Longrightarrow> P d \<Longrightarrow> recently h now P"
  unfolding recently_def by blast

lemma recently_mono: "recently h now P \<Longrightarrow> (\<And>d. P d \<Longrightarrow> Q d) \<Longrightarrow> recently h now Q"
  unfolding recently_def by blast

lemma recently_now: "cache_fresh h s \<Longrightarrow> P (cs_db s) \<Longrightarrow> recently h (cs_now s) P"
  by (rule recentlyI [of "cs_now s" "cs_db s"]) (simp_all add: cache_fresh_def configCacheTTL_def)

lemma entry_recent:
  assumes "cache_fresh h s" "cs_kv s k = Some (v, expiry)" "cs_now s < expiry"
  obtains t d where "(t, d) \<in> set h" "cs_now s - configCacheTTL < t" "t \<le> cs_now s" "entry_ok [(t, d)] k (v, expiry)"
proof -
  from assms(1,2) have "entry_ok h k (v, expiry)" by (simp add: cache_fresh_def)
  then obtain t d where td: "(t, d) \<in> set h" "entry_ok [(t, d)] k (v, expiry)" unfolding entry_ok_def by fastforce
  moreover have "t \<le> cs_now s" using assms(1) td(1) by (auto simp: cache_fresh_def)
  moreover have "cs_now s - configCacheTTL < t" using td(2) assms(3) by (auto simp: entry_ok_def)
  ultimately show ?thesis by (intro that)
qed

lemma gateway_recent:
  assumes "config_run h s" "fst (GetGatewayConfig g s) = Inr c"
  shows "recently h (cs_now s) (\<lambda>d. gateway_in d g = Some c)"
proof -
  have ok: "cache_fresh h s" using assms(1) by (rule config_run_cache)
  obtain r s' where g: "GetGatewayConfig g s = (r, s')" by fastforce
  then show ?thesis
  proof (cases rule: GetGatewayConfig_cases)
    case (hit c' expiry)
    show ?thesis
    proof (rule entry_recent [OF ok hit(3,4)])
      fix t d assume td: "(t, d) \<in> set h" "cs_now s - configCacheTTL < t" "t \<le> cs_now s"
        and e: "entry_ok [(t, d)] (configCacheKey g) (CachedConfig c', expiry)"
      from e have "gateway_in d g = Some c'" by (auto simp: entry_ok_def configCacheKey_def)
      then show ?thesis using td hit(1) g assms(2) by (intro recentlyI [of t d]) simp_all
    qed
  next
    case (failed e b)
    then show ?thesis using g assms(2) by simp
  next
    case (stored c' b)
    then show ?thesis using g assms(2) by (intro recently_now [OF ok]) simp
  qed
qed

lemma timeout_key_inj:
  assumes "timeoutCacheKey g meth = timeoutCacheKey g' meth'" "CHR '':'' \<notin> set g" "CHR '':'' \<notin> set g'"
  shows "g = g' \<and> meth = meth'"
proof -
  have e: "g @ '':'' @ meth = g' @ '':'' @ meth'" using assms(1) by (simp add: timeoutCacheKey_def)
  have "takeWhile (\<lambda>c. c \<noteq> CHR '':'') (x @ '':'' @ y) = x" if "CHR '':'' \<notin> set x" for x y :: string
    using that by (simp add: takeWhile_append2 [of _ "\<lambda>c. c \<noteq> CHR '':''"] takeWhile_append)
  then have "g = g'" using e assms(2,3) by metis
  then show ?thesis using e by simp
qed

lemma plain_seconds:
  assumes "plain_timeouts d" "timeout_in d g meth = Some t"
  shows "wrap64 (quot64 t Second * Second) = t" "CHR '':'' \<notin> set g"
proof -
  from assms(2) obtain sec where sec: "(g, meth, sec) \<in> set (cd_timeouts d)" "t = wrap64 (sec * Second)"
    by (auto simp: timeout_in_def timeout_sec_def find_Some_iff) (metis nth_mem fst_conv snd_conv)
  with assms(1) have small: "\<bar>sec\<bar> < 2 ^ 31" and "CHR '':'' \<notin> set g" by (auto simp: plain_timeouts_def)
  then show "CHR '':'' \<notin> set g" by simp
  have i: "in64 (sec * Second)" "in64 sec" using small by (simp_all add: in64_def abs_less_iff)
  have "\<bar>sec * Second\<bar> div Second = \<bar>sec\<bar>" by (simp add: abs_mult)
  then have "quot64 (sec * Second) Second = sec" using i(2) by (simp add: quot64_def sgn_mult sgn_mult_abs)
  then show "wrap64 (quot64 t Second * Second) = t" using i(1) sec(2) by simp
qed

lemma timeout_recent:
  assumes "config_run h s" "\<forall>(t, d) \<in> set h. plain_timeouts d" "CHR '':'' \<notin> set g" "fst (GetProcessingTimeout g meth s) = Inr t"
  shows "recently h (cs_now s) (\<lambda>d. timeout_in d g meth = Some t)"
proof -
  have ok: "cache_fresh h s" using assms(1) by (rule config_run_cache)
  obtain r s' where g: "GetProcessingTimeout g meth s = (r, s')" by fastforce
  then show ?thesis
  proof (cases rule: GetProcessingTimeout_cases)
    case (hit sec expiry)
    show ?thesis
    proof (rule entry_recent [OF ok hit(3,4)])
      fix t' d assume td: "(t', d) \<in> set h" "cs_now s - configCacheTTL < t'" "t' \<le> cs_now s"
        and e: "entry_ok [(t', d)] (timeoutCacheKey g meth) (CachedSeconds sec, expiry)"
      have plain: "plain_timeouts d" using assms(2) td(1) by auto
      from e obtain g' meth' x where x: "timeoutCacheKey g meth = timeoutCacheKey g' meth'" "timeout_in d g' meth' = Some x" "sec = quot64 x Second"
        by (auto simp: entry_ok_def)
      have "g = g' \<and> meth = meth'" using timeout_key_inj [OF x(1) assms(3)] plain_seconds(2) [OF plain x(2)] by simp
      moreover have "wrap64 (sec * Second) = x" using plain_seconds(1) [OF plain x(2)] x(3) by simp
      ultimately show ?thesis using td hit(1) g assms(4) x(2) by (intro recentlyI [of t' d]) simp_all
    qed
  next
    case (failed e b)
    then show ?thesis using g assms(4) by simp
  next
    case (stored t' b)
    then show ?thesis using g assms(4) by (intro recently_now [OF ok]) simp
  qed
qed

lemma timeout_in64: "timeout_in d g meth = Some t \<Longrightarrow> in64 t"
  by (auto simp: timeout_in_def)

lemma quot64_pos:
  assumes "in64 t" "0 < quot64 t Second"
  shows "0 < t"
proof (rule ccontr)
  assume n: "\<not> 0 < t"
  define q where "q = \<bar>t\<bar> div Second"
  have q: "0 \<le> q" "q \<le> \<bar>t\<bar>" using zdiv_mono2 [of "\<bar>t\<bar>" 1 Second] by (simp_all add: q_def pos_imp_zdiv_nonneg_iff)
  have "quot64 t Second = wrap64 (- q)" using n by (cases "t = 0") (simp_all add: quot64_def q_def)
  moreover have "in64 (- q)" using q n assms(1) unfolding in64_def by linarith
  ultimately show False using assms(2) q(1) by simp
qed

lemma build_payment_config:
  assumes "build_payment ev inp w = (Inr x, w')"
  shows "ev_gateway_active ev (ci_GatewayID inp) = Inr True"
    "\<exists>t. ev_processing_timeout ev (ci_GatewayID inp) (ci_PaymentMethod inp) = Inr t \<and> 0 < quot64 t Second"
  using assms by (auto simp: build_payment_def Let_def run split: if_splits)

lemma keeps_build_payment: "keeps (\<lambda>w. w_db w = d \<and> w_calls w = cs) (build_payment ev inp)"
proof -
  have "keeps (\<lambda>w. w_db w = d \<and> w_calls w = cs) Now" "keeps (\<lambda>w. w_db w = d \<and> w_calls w = cs) (NewUUID ev)"
    by (simp_all add: keeps_def Now_def NewUUID_def go_defs)
  moreover have "keeps (\<lambda>w. w_db w = d \<and> w_calls w = cs) (GenerateToken ev)"
    by (simp add: keeps_def GenerateToken_def go_defs Let_def)
  ultimately show ?thesis unfolding build_payment_def Let_def by (intro hoare)
qed

text \<open>A payment is created only for a gateway that the configuration lists as active and with a positive timeout for the method of
  payment, at some instant of the last half minute: otherwise \<open>Create\<close> fails, and neither the database nor a gateway
  hears of it. The cache may serve a gateway that was switched off, but for no longer than that, whatever
  faults occur. Identifiers of gateways have no colon, since the cache joins them with the method by one.\<close>

theorem payments_need_active_gateway:
  assumes "config_run h s" "\<forall>(t, d) \<in> set h. plain_timeouts d" "CHR '':'' \<notin> set (ci_GatewayID inp)"
    and "Create (config_env s ev) inp w = (r, w')"
  shows "(\<exists>e. r = Inl e) \<and> w_db w' = w_db w \<and> w_calls w' = w_calls w \<or>
    recently h (cs_now s) (\<lambda>d. \<exists>c. gateway_in d (ci_GatewayID inp) = Some c \<and> gcf_IsActive c) \<and>
    recently h (cs_now s) (\<lambda>d. \<exists>t > 0. timeout_in d (ci_GatewayID inp) (ci_PaymentMethod inp) = Some t)"
proof -
  let ?ev = "config_env s ev" and ?g = "ci_GatewayID inp" and ?m = "ci_PaymentMethod inp"
  obtain b w1 where b: "build_payment ?ev inp w = (b, w1)" by fastforce
  show ?thesis
  proof (cases b)
    case (Inl e)
    have "w_db w1 = w_db w" "w_calls w1 = w_calls w"
      using keeps_build_payment [of "w_db w" "w_calls w" ?ev inp] unfolding keeps_def by (metis b snd_conv)+
    moreover have "r = Inl e" "w' = w1" using assms(4) by (simp_all add: Create_def bindE_def b Inl)
    ultimately show ?thesis by simp
  next
    case (Inr x)
    note c = build_payment_config [OF b [unfolded Inr]]
    from c(1) obtain cf where cf: "fst (GetGatewayConfig ?g s) = Inr cf" "gcf_IsActive cf"
      by (cases "fst (GetGatewayConfig ?g s)") (auto simp: config_env_def)
    from c(2) obtain t where t: "fst (GetProcessingTimeout ?g ?m s) = Inr t" "0 < quot64 t Second" by (auto simp: config_env_def)
    have "recently h (cs_now s) (\<lambda>d. \<exists>c. gateway_in d ?g = Some c \<and> gcf_IsActive c)"
      by (rule recently_mono [OF gateway_recent [OF assms(1) cf(1)]]) (simp add: cf(2))
    moreover have "0 < t" if "timeout_in d ?g ?m = Some t" for d
      using quot64_pos [OF timeout_in64 [OF that] t(2)] .
    then have "recently h (cs_now s) (\<lambda>d. \<exists>t > 0. timeout_in d ?g ?m = Some t)"
      by (intro recently_mono [OF timeout_recent [OF assms(1-3) t(1)]]) blast
    ultimately show ?thesis by simp
  qed
qed

text \<open>A gateway that is configured but switched off, and one without a timeout.\<close>

definition sample_gateway :: "string \<Rightarrow> bool \<Rightarrow> GatewayRow" where
  "sample_gateway g active = \<lparr> gr_gateway_id = g, gr_display_name = g, gr_is_active = active, gr_min_amount = 0, gr_max_amount = 1000000,
     gr_supported_currencies = [''USD''], gr_supported_methods = [''card''], gr_idempotency_capable = True, gr_supports_cancel = False,
     gr_supports_partial_refund = True, gr_priority = 100, gr_webhook_replay_window_sec = 300, gr_webhook_clock_skew_sec = 30,
     gr_updated_at = 0 \<rparr>"

definition sample_config_db :: config_db where
  "sample_config_db = \<lparr> cd_gateways = [sample_gateway ''stripe'' True, sample_gateway ''fib'' False], cd_breakers = [],
     cd_timeouts = [(''stripe'', ''card'', 30), (''fib'', ''card'', 60)], cd_fee_models = [], cd_rates = [], cd_schemas = [] \<rparr>"

definition sample_config_state :: config_state where
  "sample_config_state = \<lparr> cs_db = sample_config_db, cs_budget = None, cs_now = 0, cs_cache_up = True, cs_kv = (\<lambda>_. None) \<rparr>"

theorem payments_need_active_gateway_witness:
  "(\<exists>e. fst (Create (config_env sample_config_state sample_env) (manual_input \<lparr> ci_GatewayID := ''fib'' \<rparr>) sample_world) = Inl e) \<and>
   w_db (snd (Create (config_env sample_config_state sample_env) (manual_input \<lparr> ci_GatewayID := ''fib'' \<rparr>) sample_world)) = w_db sample_world"
proof -
  have start: "config_run [(0, sample_config_db)] sample_config_state"
    using config_run.start [of sample_config_state] by (simp add: sample_config_state_def)
  have plain: "\<forall>(t, d) \<in> set [(0, sample_config_db)]. plain_timeouts d" by (simp add: plain_timeouts_def sample_config_db_def)
  have off: "\<not> recently [(0, sample_config_db)] (cs_now sample_config_state) (\<lambda>d. \<exists>c. gateway_in d ''fib'' = Some c \<and> gcf_IsActive c)"
    by (simp add: recently_def gateway_in_def find_gateway_def sample_config_db_def sample_gateway_def scanGatewayConfig_def)
  show ?thesis
    using payments_need_active_gateway [OF start plain, of "manual_input \<lparr> ci_GatewayID := ''fib'' \<rparr>" sample_env sample_world,
        OF _ prod.collapse [symmetric]] off by auto
qed

subsection \<open>The metrics job\<close>

lemma find_upsert:
  "find (\<lambda>b. cbr_GatewayID b = g) (upsert_breaker r rows) =
     (if g = cbr_GatewayID r then Some r else find (\<lambda>b. cbr_GatewayID b = g) rows)"
proof -
  have app: "find P (xs @ ys) = (case find P xs of None \<Rightarrow> find P ys | Some x \<Rightarrow> Some x)" for P :: "CircuitBreakerStateRecord \<Rightarrow> bool" and xs ys
    by (induction xs) simp_all
  have upd: "find (\<lambda>b. cbr_GatewayID b = g) (map (\<lambda>x. if cbr_GatewayID x = cbr_GatewayID r then r else x) xs) =
      (if g = cbr_GatewayID r \<and> g \<in> cbr_GatewayID ` set xs then Some r else find (\<lambda>b. cbr_GatewayID b = g) xs)" for xs
    by (induction xs) auto
  show ?thesis
  proof (cases "cbr_GatewayID r \<in> cbr_GatewayID ` set rows")
    case True
    then show ?thesis using upd [of rows] by (simp add: upsert_breaker_def)
  next
    case False
    then have "find (\<lambda>b. cbr_GatewayID b = cbr_GatewayID r) rows = None" unfolding find_None_iff by (metis image_eqI)
    then show ?thesis using False by (simp add: upsert_breaker_def app split: option.splits)
  qed
qed

definition breaker_of :: "config_db \<Rightarrow> string \<Rightarrow> CircuitBreakerStateRecord option" where
  "breaker_of d g = find (\<lambda>b. cbr_GatewayID b = g) (cd_breakers d)"

text \<open>The body of the loop, with a database that answers.\<close>

lemma metrics_step:
  assumes "cs_budget s = None"
  shows "(case cb_Get gid cbs of Inl _ \<Rightarrow> ok () | Inr cb \<Rightarrow> bindE (attempt (UpsertCircuitBreakerState (breaker_record now cb gid))) (\<lambda>_. ok ())) s =
    (Inr (), case cb_Get gid cbs of Inl _ \<Rightarrow> s | Inr cb \<Rightarrow> if breaker_row_ok (breaker_record now cb gid) (cs_db s)
       then s \<lparr> cs_db := (cs_db s) \<lparr> cd_breakers := upsert_breaker (breaker_record now cb gid) (cd_breakers (cs_db s)) \<rparr> \<rparr> else s)"
proof (cases "cb_Get gid cbs")
  case (Inr cb)
  have "s \<lparr> cs_budget := None \<rparr> = s" using assms by simp
  then show ?thesis using assms
    by (simp add: Inr attempt_ok) (simp add: UpsertCircuitBreakerState_def wrapE_def bindE_def cfg_query_def changing_def throw_def)
qed (simp add: ok_def)

text \<open>After a round every gateway of the registry that is configured shows the breaker that Valkey has, and other rows are as
  before: the configuration then says of each of them whether its circuit is open.\<close>

theorem breakers_mirrored:
  assumes "cs_budget s = None" "metrics_RunOnce ids cbs s = (r, s')"
  shows "r = Inr () \<and> cd_gateways (cs_db s') = cd_gateways (cs_db s) \<and>
    breaker_of (cs_db s') g = (case cb_Get g cbs of
        Inr cb \<Rightarrow> if g \<in> set ids \<and> breaker_row_ok (breaker_record (cs_now s) cb g) (cs_db s)
          then Some (breaker_record (cs_now s) cb g) else breaker_of (cs_db s) g
      | Inl _ \<Rightarrow> breaker_of (cs_db s) g)"
proof -
  define now where "now = cs_now s"
  define body where "body = (\<lambda>gid. case cb_Get gid cbs of Inl _ \<Rightarrow> ok ()
    | Inr cb \<Rightarrow> bindE (attempt (UpsertCircuitBreakerState (breaker_record now cb gid))) (\<lambda>_. ok ()))"
  have "forE ids body s = (r, s')" using assms(2) unfolding body_def now_def by (simp add: metrics_RunOnce_def bindE_def [of "reading _"] reading_def)
  then have "r = Inr () \<and> cd_gateways (cs_db s') = cd_gateways (cs_db s) \<and>
    breaker_of (cs_db s') g = (case cb_Get g cbs of
        Inr cb \<Rightarrow> if g \<in> set ids \<and> breaker_row_ok (breaker_record now cb g) (cs_db s)
          then Some (breaker_record now cb g) else breaker_of (cs_db s) g
      | Inl _ \<Rightarrow> breaker_of (cs_db s) g)"
    using assms(1)
  proof (induction ids arbitrary: s)
    case Nil
    then show ?case by (auto simp: ok_def split: sum.splits)
  next
    case (Cons gid ids)
    obtain s1 where s1: "body gid s = (Inr (), s1)" "cs_budget s1 = None" "cd_gateways (cs_db s1) = cd_gateways (cs_db s)"
      "breaker_of (cs_db s1) g = (case cb_Get g cbs of
         Inr cb \<Rightarrow> if g = gid \<and> breaker_row_ok (breaker_record now cb g) (cs_db s) then Some (breaker_record now cb g) else breaker_of (cs_db s) g
       | Inl _ \<Rightarrow> breaker_of (cs_db s) g)"
      using Cons.prems(2) unfolding body_def
      by (simp add: metrics_step breaker_of_def find_upsert breaker_record_def split: sum.splits)
    have "breaker_row_ok x (cs_db s1) = breaker_row_ok x (cs_db s)" for x by (simp add: breaker_row_ok_def s1(3))
    moreover have "forE ids body s1 = (r, s')" using Cons.prems(1) s1(1) by (simp add: bindE_def)
    ultimately show ?case using Cons.IH [OF _ s1(2)] s1(3,4) by (auto split: sum.splits)
  qed
  then show ?thesis unfolding now_def .
qed

end
