(* ===== verification/Http.thy ===== *)
theory Http
  imports Gateways Encryption Rate_Limiter Clock_Text Config_Store
begin

section \<open>The HTTP server (internal/api/middleware, internal/api/response)\<close>

text \<open>
  Requests, responses, the state of the server and the middleware. A request holds what the code
  reads of \<open>*http.Request\<close> and of its context; the path is kept as the segments of the escaped path,
  which is what \<open>ServeMux\<close> matches, while the code looks at the unescaped \<open>URL.Path\<close>. A handler is a computation on the
  state of the server that yields the response; its error is a panic, which \<open>Recover\<close> turns into
  a 500. JSON that leaves is a tree. Logging, tracing and metrics have no effect here and are left out.

  The state \<open>api\<close> is the world of the services, the two tables of tenant configuration, the envelope
  encryption, the rate limiter, and the response cache. \<open>server\<close> is what is wired at start; \<open>sv_env\<close> gives
  the environment of the services for the present contents of the configuration tables.
\<close>

subsection \<open>Requests and responses\<close>

abbreviation RoleService :: string where "RoleService \<equiv> ''service''"
abbreviation RoleOps :: string where "RoleOps \<equiv> ''ops''"

record Principal =
  pr_Role :: string
  pr_TenantID :: string
  pr_UserID :: string

record request =
  r_Method :: string
  r_segments :: "string list"
  r_Query :: "(string \<times> string) list"
  r_Header :: "string \<Rightarrow> string"
  r_Body :: "string option"
  r_RemoteAddr :: string
  r_PathValues :: "(string \<times> string) list"
  r_RequestID :: string
  r_Principal :: "Principal option"
  r_TenantID :: string
  r_UserID :: string

datatype rs_body = NoBody | JsonBody doc | TextBody string | CsvBody "string list list"
  | PageBody string "(string \<times> doc) list" | EventStream uuid

record response =
  rs_Status :: int
  rs_Headers :: "(string \<times> string) list"
  rs_Body :: rs_body

text \<open>\<open>URL.Path\<close> and the pieces of it and of the query that handlers read; what is missing reads as
  the empty string.\<close>

fun PathUnescape :: "string \<Rightarrow> string" where
  "PathUnescape (a # b # c # rest) =
     (if a = CHR ''%'' then (case (hex_val b, hex_val c) of (Some x, Some y) \<Rightarrow> char_of (16 * x + y) # PathUnescape rest
        | _ \<Rightarrow> a # PathUnescape (b # c # rest))
      else a # PathUnescape (b # c # rest))"
| "PathUnescape s = s"

definition URL_Path :: "request \<Rightarrow> string" where
  "URL_Path r = concat (map (\<lambda>s. CHR ''/'' # PathUnescape s) (r_segments r))"

definition get_or_empty :: "(string \<times> string) list \<Rightarrow> string \<Rightarrow> string" where
  "get_or_empty kvs k = (case map_of kvs k of None \<Rightarrow> '''' | Some v \<Rightarrow> v)"

definition PathValue :: "request \<Rightarrow> string \<Rightarrow> string" where
  "PathValue r k = get_or_empty (r_PathValues r) k"

definition Query_Get :: "request \<Rightarrow> string \<Rightarrow> string" where
  "Query_Get r k = get_or_empty (r_Query r) k"

text \<open>\<open>json.NewDecoder(r.Body).Decode\<close>: the value with what could be read, and whether all went well.\<close>

definition Decode :: "codec \<Rightarrow> 'a decoder \<Rightarrow> request \<Rightarrow> 'a \<times> bool" where
  "Decode cd d r = (case Option.bind (r_Body r) (cd_stream cd) of None \<Rightarrow> (fst (d None), False) | Some v \<Rightarrow> d (Some v))"

text \<open>\<open>time.Parse(time.RFC3339, s)\<close>: \<open>Z\<close> or an offset of hours and minutes.\<close>

definition zone_offset :: "string \<Rightarrow> int option" where
  "zone_offset z = (case z of [sg, a, b, c, d, e] \<Rightarrow>
       (case (read_digits 0 [a, b], read_digits 0 [d, e]) of
          (Some h, Some m) \<Rightarrow> if c = CHR '':'' \<and> h < 24 \<and> m < 60 \<and> sg \<in> {CHR ''+'', CHR ''-''}
             then Some ((if sg = CHR ''-'' then - 1 else 1) * int (h * 3600 + m * 60) * Second) else None
        | _ \<Rightarrow> None)
     | _ \<Rightarrow> None)"

definition ParseRFC3339 :: "string \<Rightarrow> int option" where
  "ParseRFC3339 s = (if HasSuffix s ''Z'' then time_Parse s
     else Option.bind (zone_offset (drop (length s - 6) s)) (\<lambda>off.
       map_option (\<lambda>t. t - off) (time_Parse (take (length s - 6) s @ ''Z''))))"

subsection \<open>The server\<close>

record TenantGatewayRow =
  tgr_tenant_id :: uuid
  tgr_gateway_id :: string
  tgr_provider :: string
  tgr_encrypted_config :: string
  tgr_config_version :: int
  tgr_is_active :: bool

record api =
  a_world :: world
  a_gateway_rows :: "TenantGatewayRow list"
  a_webhook_rows :: "(uuid \<times> TenantWebhookConfig) list"
  a_envelope :: Envelope
  a_limiter :: RateLimiter
  a_limits :: limit_store
  a_cache_up :: bool
  a_cache :: "string \<Rightarrow> (int \<times> rs_body \<times> int) option"

record StaticTokenProvider =
  tp_service :: "string \<Rightarrow> Principal option"
  tp_ops :: "string \<Rightarrow> Principal option"

record server =
  sv_env :: "api \<Rightarrow> env"
  sv_codec :: codec
  sv_crypto :: "crypto option"
  sv_settlement :: settlement
  sv_tokens :: StaticTokenProvider
  sv_limit :: RateLimitConfig
  sv_gateways :: "go_error + GatewayConfig list"
  sv_template :: "string \<Rightarrow> bool"
  sv_static :: "string \<Rightarrow> response"

type_synonym 'a srv = "(api, 'a) comp"

definition on_world :: "(world, 'a) comp \<Rightarrow> 'a srv" where
  "on_world m s = (case m (a_world s) of (r, w') \<Rightarrow> (r, s \<lparr> a_world := w' \<rparr>))"

text \<open>A call whose error the handler looks at.\<close>

definition catch :: "'a srv \<Rightarrow> (go_error \<Rightarrow> 'b srv) \<Rightarrow> ('a \<Rightarrow> 'b srv) \<Rightarrow> 'b srv" where
  "catch m h k = bindE (attempt m) (\<lambda>r. case r of Inl e \<Rightarrow> h e | Inr a \<Rightarrow> k a)"

text \<open>\<open>errors.Is\<close> follows the chain of wrapped errors.\<close>

fun errors_Is :: "go_error \<Rightarrow> go_error \<Rightarrow> bool" where
  "errors_Is (Wrapf s e) target \<longleftrightarrow> Wrapf s e = target \<or> errors_Is e target"
| "errors_Is e target \<longleftrightarrow> e = target"

definition nil_panic :: "'a srv" where
  "nil_panic = throw (Errorf ''panic: nil pointer dereference'')"

subsection \<open>Envelopes (response/envelope.go, handlers/response.go)\<close>

definition json_header :: "(string \<times> string) list" where
  "json_header = [(''Content-Type'', ''application/json'')]"

definition omitempty :: "string \<Rightarrow> string \<Rightarrow> (string \<times> doc) list" where
  "omitempty k v = (if v = '''' then [] else [(k, DStr v)])"

definition writeJSON :: "request \<Rightarrow> int \<Rightarrow> doc \<Rightarrow> response srv" where
  "writeJSON r status data = ok \<lparr> rs_Status = status, rs_Headers = json_header, rs_Body = JsonBody
     (DObj ([(''success'', DBool True), (''data'', data)] @ omitempty ''request_id'' (r_RequestID r))) \<rparr>"

definition error_response :: "request \<Rightarrow> int \<Rightarrow> string \<Rightarrow> string \<Rightarrow> response" where
  "error_response r status code message = \<lparr> rs_Status = status, rs_Headers = json_header, rs_Body = JsonBody
     (DObj ([(''success'', DBool False), (''error'', DObj [(''code'', DStr code), (''message'', DStr message)])] @
       omitempty ''request_id'' (r_RequestID r))) \<rparr>"

definition writeError :: "request \<Rightarrow> int \<Rightarrow> string \<Rightarrow> string \<Rightarrow> response srv" where
  "writeError r status code message = ok (error_response r status code message)"

subsection \<open>Request identifiers and panics (middleware.go)\<close>

type_synonym handler = "request \<Rightarrow> response srv"

definition RequestID :: "server \<Rightarrow> handler \<Rightarrow> handler" where
  "RequestID sv next r = bindE (reading (sv_env sv)) (\<lambda>ev.
     bindE (if r_Header r ''X-Request-ID'' \<noteq> '''' then ok (r_Header r ''X-Request-ID'')
            else bindE (on_world (NewUUID ev)) (\<lambda>u. ok (ev_uuid_str ev u))) (\<lambda>i.
     bindE (next (r \<lparr> r_RequestID := i \<rparr>)) (\<lambda>res. ok (res \<lparr> rs_Headers := (''X-Request-ID'', i) # rs_Headers res \<rparr>))))"

definition Recover :: "handler \<Rightarrow> handler" where
  "Recover next r = catch (next r) (\<lambda>_. writeError r 500 ''internal_error'' ''internal server error'') ok"

definition Chain :: "handler \<Rightarrow> (handler \<Rightarrow> handler) list \<Rightarrow> handler" where
  "Chain h middlewares = foldr (\<lambda>m h. m h) middlewares h"

subsection \<open>Authentication (auth.go)\<close>

definition splitPrincipal :: "string \<Rightarrow> string \<times> string" where
  "splitPrincipal raw = (case SplitN2 (CHR '':'') raw of
       (a, None) \<Rightarrow> (TrimSpace a, '''')
     | (a, Some b) \<Rightarrow> (TrimSpace a, TrimSpace b))"

definition token_hash :: "codec \<Rightarrow> string \<Rightarrow> string" where
  "token_hash cd token = hex_EncodeToString (cd_sha256 cd token)"

text \<open>The tokens of the configuration in some order; of two with one hash the later counts.\<close>

definition servicePrincipals :: "codec \<Rightarrow> (string \<times> string) list \<Rightarrow> string \<Rightarrow> Principal option" where
  "servicePrincipals cd tokens = foldl (\<lambda>set (token, raw). if token = '''' then set
     else set(token_hash cd token \<mapsto> \<lparr> pr_Role = RoleService, pr_TenantID = fst (splitPrincipal raw),
                                        pr_UserID = snd (splitPrincipal raw) \<rparr>)) (\<lambda>_. None) tokens"

definition opsPrincipals :: "codec \<Rightarrow> string list \<Rightarrow> string \<Rightarrow> Principal option" where
  "opsPrincipals cd tokens = foldl (\<lambda>set token. if token = '''' then set
     else set(token_hash cd token \<mapsto> \<lparr> pr_Role = RoleOps, pr_TenantID = '''', pr_UserID = '''' \<rparr>)) (\<lambda>_. None) tokens"

definition NewStaticTokenProvider :: "codec \<Rightarrow> (string \<times> string) list \<Rightarrow> string list \<Rightarrow> StaticTokenProvider" where
  "NewStaticTokenProvider cd serviceTokens opsTokens =
     \<lparr> tp_service = servicePrincipals cd serviceTokens, tp_ops = opsPrincipals cd opsTokens \<rparr>"

definition Resolve :: "codec \<Rightarrow> StaticTokenProvider \<Rightarrow> string \<Rightarrow> string \<Rightarrow> Principal option" where
  "Resolve cd p role token = (if role = RoleOps then tp_ops p (token_hash cd token)
     else if role = RoleService then tp_service p (token_hash cd token) else None)"

definition authenticate :: "server \<Rightarrow> request \<Rightarrow> Principal option" where
  "authenticate sv r =
    (if r_Header r ''X-Ops-Token'' \<noteq> '''' then Resolve (sv_codec sv) (sv_tokens sv) RoleOps (r_Header r ''X-Ops-Token'')
     else if r_Header r ''X-Service-Token'' \<noteq> '''' then Resolve (sv_codec sv) (sv_tokens sv) RoleService (r_Header r ''X-Service-Token'')
     else None)"

definition setPrincipalContext :: "Principal \<Rightarrow> request \<Rightarrow> request" where
  "setPrincipalContext p r = r \<lparr> r_Principal := Some p,
     r_TenantID := (if pr_TenantID p \<noteq> '''' then pr_TenantID p else r_TenantID r),
     r_UserID := (if pr_UserID p \<noteq> '''' then pr_UserID p else r_UserID r) \<rparr>"

definition hard_exempt :: "string \<Rightarrow> bool" where
  "hard_exempt path \<longleftrightarrow> path = ''/'' \<or> path = ''/health'' \<or> path = ''/favicon.ico'' \<or>
     has_prefix ''/webhooks/'' path \<or> has_prefix ''/pay/'' path"

definition soft_exempt :: "string \<Rightarrow> string \<Rightarrow> bool" where
  "soft_exempt meth path \<longleftrightarrow> meth = ''GET'' \<and> has_prefix ''/api/v1/payments/'' path \<and>
     (let rest = drop (length ''/api/v1/payments/'') path
      in CHR ''/'' \<notin> set rest \<or> (length (filter (\<lambda>c. c = CHR ''/'') rest) = 1 \<and> HasSuffix rest ''/events''))"

definition Authenticate :: "server \<Rightarrow> handler \<Rightarrow> handler" where
  "Authenticate sv next r =
    (if hard_exempt (URL_Path r) then next r
     else if soft_exempt (r_Method r) (URL_Path r) then
       (case authenticate sv r of Some p \<Rightarrow> next (setPrincipalContext p r) | None \<Rightarrow> next r)
     else case authenticate sv r of
         None \<Rightarrow> writeError r 401 ''unauthorized'' ''missing or invalid service token''
       | Some p \<Rightarrow> next (setPrincipalContext p r))"

subsection \<open>Rate limiting (ratelimit.go)\<close>

definition tenantBucketID :: "request \<Rightarrow> string" where
  "tenantBucketID r = (if r_TenantID r \<noteq> '''' then r_TenantID r
     else case r_Principal r of Some p \<Rightarrow> ''principal:'' @ pr_Role p | None \<Rightarrow> '''')"

text \<open>\<open>net.SplitHostPort\<close>, for \<open>host:port\<close> and \<open>[host]:port\<close>.\<close>

definition SplitHostPort :: "string \<Rightarrow> string option" where
  "SplitHostPort s =
    (if CHR '':'' \<notin> set s then None
     else let host = rev (tl (dropWhile (\<lambda>c. c \<noteq> CHR '':'') (rev s)))
     in if host \<noteq> [] \<and> hd host = CHR ''['' then
          (if last host = CHR '']'' \<and> length (filter (\<lambda>c. c = CHR ''['' \<or> c = CHR '']'') s) = 2 then Some (butlast (tl host)) else None)
        else if CHR '':'' \<in> set host \<or> CHR ''['' \<in> set s \<or> CHR '']'' \<in> set s then None else Some host)"

definition clientIP :: "request \<Rightarrow> string" where
  "clientIP r = (if r_Header r ''X-Forwarded-For'' \<noteq> ''''
     then TrimSpace (fst (SplitN2 (CHR '','') (r_Header r ''X-Forwarded-For'')))
     else case SplitHostPort (r_RemoteAddr r) of None \<Rightarrow> r_RemoteAddr r | Some host \<Rightarrow> host)"

definition call_limiter :: "server \<Rightarrow> string \<Rightarrow> string \<Rightarrow> string \<Rightarrow> RateLimitResult srv" where
  "call_limiter sv userID tenantID ip s =
    (case Allow (sv_limit sv) (cd_sha256 (sv_codec sv)) userID tenantID ip (rlc_Capacity (sv_limit sv)) (rlc_RefillPerSec (sv_limit sv))
        (w_clock (a_world s)) (w_clock (a_world s) div (Second div 1000)) (a_limiter s, a_limits s) of
      (res, l, st) \<Rightarrow> (Inr res, s \<lparr> a_limiter := l, a_limits := st \<rparr>))"

definition RateLimit :: "server \<Rightarrow> handler \<Rightarrow> handler" where
  "RateLimit sv next r =
    (let userID = (if r_UserID r = '''' then r_Header r ''X-User-ID'' else r_UserID r)
     in bindE (call_limiter sv userID (tenantBucketID r) (clientIP r)) (\<lambda>decision.
       if \<not> rlr_Allowed decision then
         (let retrySec = max (\<lfloor>Seconds (rlr_RetryAfter decision)\<rfloor>) 1; res = error_response r 429 ''rate_limited'' ''too many requests''
          in ok (res \<lparr> rs_Headers := (''Retry-After'', FormatInt retrySec) # rs_Headers res \<rparr>))
       else next r))"

subsection \<open>The response cache (idempotency.go, valkey/response_cache.go)\<close>

definition respCacheTTL :: int where "respCacheTTL = 5 * 60 * Second"

definition respCacheKey :: "string \<Rightarrow> string" where
  "respCacheKey key = ''resp_cache:'' @ key"

definition cache_Get :: "string \<Rightarrow> (int \<times> rs_body) option srv" where
  "cache_Get key s = (if \<not> a_cache_up s then (Inl (Errorf ''valkey''), s)
     else (Inr (case a_cache s (respCacheKey key) of None \<Rightarrow> None
       | Some (status, body, expiry) \<Rightarrow> if expiry \<le> w_clock (a_world s) then None else Some (status, body)), s))"

definition cache_Put :: "string \<Rightarrow> int \<times> rs_body \<Rightarrow> unit srv" where
  "cache_Put key v s = (if \<not> a_cache_up s then (Inl (Errorf ''valkey''), s)
     else (Inr (), s \<lparr> a_cache := (a_cache s)(respCacheKey key \<mapsto> (fst v, snd v, w_clock (a_world s) + respCacheTTL)) \<rparr>))"

definition isMutating :: "string \<Rightarrow> bool" where
  "isMutating meth \<longleftrightarrow> meth \<in> {''POST'', ''PUT'', ''PATCH'', ''DELETE''}"

definition hashString :: "codec \<Rightarrow> string \<Rightarrow> string" where
  "hashString cd s = hex_EncodeToString (cd_sha256 cd s)"

definition readBodyHash :: "codec \<Rightarrow> request \<Rightarrow> string option" where
  "readBodyHash cd r = map_option (hashString cd) (r_Body r)"

definition response_cacheKey :: "codec \<Rightarrow> request \<Rightarrow> string \<Rightarrow> string \<Rightarrow> string" where
  "response_cacheKey cd r key bodyHash = hashString cd
     (r_TenantID r @ '':'' @ r_UserID r @ '':'' @ r_Method r @ '' '' @ URL_Path r @ '':'' @ key @ '':'' @ bodyHash)"

definition replayCached :: "int \<times> rs_body \<Rightarrow> response" where
  "replayCached v = \<lparr> rs_Status = fst v, rs_Headers = [(''Content-Type'', ''application/json''), (''Idempotent-Replayed'', ''true'')],
     rs_Body = snd v \<rparr>"

definition ResponseCache :: "server \<Rightarrow> handler \<Rightarrow> handler" where
  "ResponseCache sv next r =
    (let key = r_Header r ''Idempotency-Key''
     in if key = '''' \<or> \<not> isMutating (r_Method r) then next r
     else case readBodyHash (sv_codec sv) r of
         None \<Rightarrow> next r
       | Some bodyHash \<Rightarrow>
           let composite = response_cacheKey (sv_codec sv) r key bodyHash
           in bindE (attempt (cache_Get composite)) (\<lambda>found. case found of
                Inr (Some v) \<Rightarrow> ok (replayCached v)
              | _ \<Rightarrow> bindE (next r) (\<lambda>res.
                  if 200 \<le> rs_Status res \<and> rs_Status res < 300
                  then bindE (attempt (cache_Put composite (rs_Status res, rs_Body res))) (\<lambda>_. ok res)
                  else ok res)))"

end
