(* ===== verification/Tenant_Config.thy ===== *)
theory Tenant_Config
  imports Http
begin

section \<open>Configuration of tenants (postgres/tenant_config_store.go, postgres/tenant_webhook.go)\<close>

text \<open>
  The credentials of a tenant at its gateways, stored encrypted under the pair of tenant and gateway,
  and the endpoints that tenants registered for webhooks. A payload is kept as its bytes;
  \<open>raw_config\<close> is what \<open>json.Unmarshal\<close> sees in them. The statements share the database of the services,
  which may stop answering.
\<close>

fun flat_value :: "doc \<Rightarrow> json_value" where
  "flat_value (DStr s) = JString s"
| "flat_value DNull = JNull"
| "flat_value _ = JOther"

definition raw_config :: "codec \<Rightarrow> string \<Rightarrow> raw_json" where
  "raw_config cd bytes = (if bytes = '''' then RawEmpty
     else case cd_json cd bytes of
         Some (DObj fs) \<Rightarrow> RawObject (map (\<lambda>(k, v). (k, flat_value v)) fs)
       | Some DNull \<Rightarrow> RawObject []
       | _ \<Rightarrow> RawMalformed)"

definition aad :: "env \<Rightarrow> uuid \<Rightarrow> string \<Rightarrow> string" where
  "aad ev tenantID gatewayID = ev_uuid_str ev tenantID @ '':'' @ gatewayID"

definition on_envelope :: "(Envelope, 'a) comp \<Rightarrow> 'a srv" where
  "on_envelope m s = (case m (a_envelope s \<lparr> en_now := w_clock (a_world s) \<rparr>) of (r, e') \<Rightarrow> (r, s \<lparr> a_envelope := e' \<rparr>))"

definition decryptConfig :: "server \<Rightarrow> env \<Rightarrow> TenantGatewayRow \<Rightarrow> string srv" where
  "decryptConfig sv ev row = (case sv_crypto sv of
       None \<Rightarrow> ok (tgr_encrypted_config row)
     | Some c \<Rightarrow> if tgr_encrypted_config row = '''' then ok ''''
         else wrapE ''tenant_config: decrypt''
           (on_envelope (Decrypt c (tgr_encrypted_config row) (aad ev (tgr_tenant_id row) (tgr_gateway_id row)))))"

definition scanTenantGatewayConfig :: "server \<Rightarrow> env \<Rightarrow> TenantGatewayRow \<Rightarrow> TenantGatewayConfig srv" where
  "scanTenantGatewayConfig sv ev row = bindE (decryptConfig sv ev row) (\<lambda>bytes.
     ok \<lparr> tgc_TenantID = tgr_tenant_id row, tgc_GatewayID = tgr_gateway_id row, tgc_Provider = tgr_provider row,
          tgc_Config = raw_config (sv_codec sv) bytes, tgc_ConfigVersion = tgr_config_version row, tgc_IsActive = tgr_is_active row \<rparr>)"

definition config_row :: "uuid \<Rightarrow> string \<Rightarrow> TenantGatewayRow list \<Rightarrow> TenantGatewayRow option" where
  "config_row tenantID gatewayID rows = lookup_row (\<lambda>r. (tgr_tenant_id r, tgr_gateway_id r)) (tenantID, gatewayID) rows"

definition tenant_Get :: "server \<Rightarrow> env \<Rightarrow> uuid \<Rightarrow> string \<Rightarrow> TenantGatewayConfig srv" where
  "tenant_Get sv ev tenantID gatewayID = bindE (wrapE ''tenant_config: get'' (on_world answer)) (\<lambda>_.
     bindE (reading (\<lambda>s. config_row tenantID gatewayID (a_gateway_rows s))) (\<lambda>row. case row of
         None \<Rightarrow> throw ErrGatewayNotFound
       | Some r \<Rightarrow> scanTenantGatewayConfig sv ev r))"

fun scan_all :: "server \<Rightarrow> env \<Rightarrow> TenantGatewayRow list \<Rightarrow> TenantGatewayConfig list srv" where
  "scan_all sv ev [] = ok []"
| "scan_all sv ev (r # rs) = bindE (scanTenantGatewayConfig sv ev r) (\<lambda>c. bindE (scan_all sv ev rs) (\<lambda>cs. ok (c # cs)))"

definition tenant_list :: "server \<Rightarrow> env \<Rightarrow> (TenantGatewayRow list \<Rightarrow> TenantGatewayRow list) \<Rightarrow> TenantGatewayConfig list srv" where
  "tenant_list sv ev sel = bindE (wrapE ''tenant_config: list'' (on_world answer)) (\<lambda>_.
     bindE (reading (\<lambda>s. sel (a_gateway_rows s))) (scan_all sv ev))"

definition tenant_ListByTenant :: "server \<Rightarrow> env \<Rightarrow> uuid \<Rightarrow> TenantGatewayConfig list srv" where
  "tenant_ListByTenant sv ev tenantID = tenant_list sv ev (\<lambda>rows.
     sort_key tgr_gateway_id (filter (\<lambda>r. tgr_tenant_id r = tenantID) rows))"

definition ListActiveByTenant :: "server \<Rightarrow> env \<Rightarrow> uuid \<Rightarrow> TenantGatewayConfig list srv" where
  "ListActiveByTenant sv ev tenantID = tenant_list sv ev (\<lambda>rows.
     sort_key tgr_gateway_id (filter (\<lambda>r. tgr_tenant_id r = tenantID \<and> tgr_is_active r) rows))"

definition ListByGateway :: "server \<Rightarrow> env \<Rightarrow> string \<Rightarrow> TenantGatewayConfig list srv" where
  "ListByGateway sv ev gatewayID = tenant_list sv ev (\<lambda>rows.
     sort_key tgr_tenant_id (filter (\<lambda>r. tgr_gateway_id r = gatewayID) rows))"

text \<open>\<open>INSERT .. ON CONFLICT (tenant_id, gateway_id) DO UPDATE .. RETURNING config_version\<close>\<close>

definition upsert_row :: "TenantGatewayRow \<Rightarrow> TenantGatewayRow list \<Rightarrow> int \<times> TenantGatewayRow list" where
  "upsert_row new rows = (case config_row (tgr_tenant_id new) (tgr_gateway_id new) rows of
       None \<Rightarrow> (tgr_config_version new, rows @ [new])
     | Some old \<Rightarrow> (tgr_config_version old + 1,
         update_row (\<lambda>r. (tgr_tenant_id r, tgr_gateway_id r)) (tgr_tenant_id new, tgr_gateway_id new)
           (\<lambda>r. new \<lparr> tgr_config_version := tgr_config_version r + 1 \<rparr>) rows))"

definition seal_config :: "server \<Rightarrow> env \<Rightarrow> TenantGatewayRow \<Rightarrow> string srv" where
  "seal_config sv ev cfg = (case sv_crypto sv of
       None \<Rightarrow> ok (tgr_encrypted_config cfg)
     | Some c \<Rightarrow> wrapE ''tenant_config: encrypt''
         (on_envelope (Encrypt c (tgr_encrypted_config cfg) (aad ev (tgr_tenant_id cfg) (tgr_gateway_id cfg)))))"

definition store_config :: "TenantGatewayRow \<Rightarrow> string \<Rightarrow> int srv" where
  "store_config cfg encrypted s =
    (let configVersion = (if tgr_config_version cfg = 0 then 1 else tgr_config_version cfg);
         (version, rows) = upsert_row (cfg \<lparr> tgr_encrypted_config := encrypted, tgr_config_version := configVersion \<rparr>) (a_gateway_rows s)
     in (Inr version, s \<lparr> a_gateway_rows := rows \<rparr>))"

definition tenant_Upsert :: "server \<Rightarrow> env \<Rightarrow> TenantGatewayRow \<Rightarrow> int srv" where
  "tenant_Upsert sv ev cfg =
    (if \<not> ValidProvider (tgr_provider cfg) then throw (Errorf ''tenant_config: invalid provider'')
     else bindE (wrapE ''tenant_config: validate config''
            (lift (ParseProviderConfig (tgr_provider cfg) (raw_config (sv_codec sv) (tgr_encrypted_config cfg))))) (\<lambda>_.
     bindE (seal_config sv ev cfg) (\<lambda>encrypted.
     bindE (wrapE ''tenant_config: upsert'' (on_world answer)) (\<lambda>_. store_config cfg encrypted))))"

definition tenant_SetActive :: "uuid \<Rightarrow> string \<Rightarrow> bool \<Rightarrow> unit srv" where
  "tenant_SetActive tenantID gatewayID active = bindE (wrapE ''tenant_config: set active'' (on_world answer)) (\<lambda>_.
     changing (\<lambda>s. s \<lparr> a_gateway_rows := update_row (\<lambda>r. (tgr_tenant_id r, tgr_gateway_id r)) (tenantID, gatewayID)
       (\<lambda>r. r \<lparr> tgr_is_active := active \<rparr>) (a_gateway_rows s) \<rparr>))"

definition tenant_Delete :: "uuid \<Rightarrow> string \<Rightarrow> unit srv" where
  "tenant_Delete tenantID gatewayID = bindE (wrapE ''tenant_config: delete'' (on_world answer)) (\<lambda>_.
     changing (\<lambda>s. s \<lparr> a_gateway_rows :=
       filter (\<lambda>r. \<not> (tgr_tenant_id r = tenantID \<and> tgr_gateway_id r = gatewayID)) (a_gateway_rows s) \<rparr>))"

subsection \<open>Webhook endpoints (tenant_webhook.go)\<close>

definition twc_Get :: "uuid \<Rightarrow> TenantWebhookConfig option srv" where
  "twc_Get tenantID = bindE (on_world answer) (\<lambda>_. reading (\<lambda>s. map_of (a_webhook_rows s) tenantID))"

definition twc_Upsert :: "uuid \<Rightarrow> TenantWebhookConfig \<Rightarrow> unit srv" where
  "twc_Upsert tenantID cfg = bindE (on_world answer) (\<lambda>_. changing (\<lambda>s. s \<lparr> a_webhook_rows :=
     (if map_of (a_webhook_rows s) tenantID = None then a_webhook_rows s @ [(tenantID, cfg)]
      else map (\<lambda>(t, c). if t = tenantID then (t, cfg) else (t, c)) (a_webhook_rows s)) \<rparr>))"

definition twc_List :: "(uuid \<times> TenantWebhookConfig) list srv" where
  "twc_List = bindE (on_world answer) (\<lambda>_. reading (\<lambda>s. sort_key fst (a_webhook_rows s)))"

definition twc_ListByTenant :: "uuid \<Rightarrow> (uuid \<times> TenantWebhookConfig) list srv" where
  "twc_ListByTenant tenantID = bindE (on_world answer) (\<lambda>_.
     reading (\<lambda>s. sort_key fst (filter (\<lambda>(t, _). t = tenantID) (a_webhook_rows s))))"

subsection \<open>What was stored is read back\<close>

definition envelope_ok :: "server \<Rightarrow> api \<Rightarrow> bool" where
  "envelope_ok sv s = (case sv_crypto sv of None \<Rightarrow> True
     | Some c \<Rightarrow> crypto_ok c \<and> inj (cr_sha256 c) \<and> dek_ok c (a_envelope s) \<and> cache_ok c (a_envelope s))"

lemma on_world_answer_Inr:
  "on_world answer s = (Inr x, s') \<longleftrightarrow> w_budget (a_world s) \<noteq> Some 0 \<and>
     s' = s \<lparr> a_world := a_world s \<lparr> w_budget := map_option (\<lambda>n. n - 1) (w_budget (a_world s)) \<rparr> \<rparr>"
  by (auto simp: on_world_def answer_def)

lemma config_row_upsert:
  assumes "upsert_row new rows = (v, rows')"
  shows "config_row (tgr_tenant_id new) (tgr_gateway_id new) rows' = Some (new \<lparr> tgr_config_version := v \<rparr>)"
    "(t, g) \<noteq> (tgr_tenant_id new, tgr_gateway_id new) \<Longrightarrow> config_row t g rows' = config_row t g rows"
proof -
  let ?k = "\<lambda>r. (tgr_tenant_id r, tgr_gateway_id r)"
  have upd: "lookup_row ?k x (update_row ?k k f rs) = (if x = k then map_option f (lookup_row ?k x rs) else lookup_row ?k x rs)"
    if "\<And>r. ?k (f r) = k" for f x k rs
    using that by (induction rs) (auto simp: lookup_row_def update_row_def)
  have app: "lookup_row ?k x (rs @ [r]) = (case lookup_row ?k x rs of None \<Rightarrow> if ?k r = x then Some r else None | y \<Rightarrow> y)" for x rs r
    by (induction rs) (auto simp: lookup_row_def)
  show "config_row (tgr_tenant_id new) (tgr_gateway_id new) rows' = Some (new \<lparr> tgr_config_version := v \<rparr>)"
    using assms by (auto simp: upsert_row_def config_row_def upd app split: option.splits)
  show "config_row t g rows' = config_row t g rows" if "(t, g) \<noteq> (tgr_tenant_id new, tgr_gateway_id new)"
    using assms that by (auto simp: upsert_row_def config_row_def upd app split: option.splits)
qed

lemma envelope_clock [simp]:
  "dek_ok c (e \<lparr> en_now := n \<rparr>) \<longleftrightarrow> dek_ok c e" "cache_ok c (e \<lparr> en_now := n \<rparr>) \<longleftrightarrow> cache_ok c e"
  by (simp_all add: dek_ok_def cache_ok_def)

text \<open>What an upsert that succeeded has done: the row, and an envelope that can open it.\<close>

lemma tenant_Upsert_Inr:
  assumes "envelope_ok sv s" "tenant_Upsert sv ev cfg s = (Inr v, s')"
  obtains blob where "config_row (tgr_tenant_id cfg) (tgr_gateway_id cfg) (a_gateway_rows s') =
      Some (cfg \<lparr> tgr_encrypted_config := blob, tgr_config_version := v \<rparr>)" "envelope_ok sv s'"
    "\<And>t g. (t, g) \<noteq> (tgr_tenant_id cfg, tgr_gateway_id cfg) \<Longrightarrow> config_row t g (a_gateway_rows s') = config_row t g (a_gateway_rows s)"
    "tgr_encrypted_config cfg \<noteq> ''''"
    "case sv_crypto sv of None \<Rightarrow> blob = tgr_encrypted_config cfg
     | Some c \<Rightarrow> \<exists>e. dek_ok c e \<and> en_km e = en_km (a_envelope s') \<and>
         fst (Encrypt c (tgr_encrypted_config cfg) (aad ev (tgr_tenant_id cfg) (tgr_gateway_id cfg)) e) = Inr blob"
proof -
  obtain cfg' where pc: "ParseProviderConfig (tgr_provider cfg) (raw_config (sv_codec sv) (tgr_encrypted_config cfg)) = Inr cfg'"
    using assms(2) by (auto simp: tenant_Upsert_def run split: if_splits)
  then have ne: "tgr_encrypted_config cfg \<noteq> ''''" by (auto simp: ParseProviderConfig_def raw_config_def split: if_splits)
  obtain blob s1 where enc: "seal_config sv ev cfg s = (Inr blob, s1)"
    and up: "store_config cfg blob (s1 \<lparr> a_world := a_world s1 \<lparr> w_budget := map_option (\<lambda>n. n - 1) (w_budget (a_world s1)) \<rparr> \<rparr>) = (Inr v, s')"
    using assms(2) by (auto simp: tenant_Upsert_def run on_world_answer_Inr split: if_splits)
  have rows1: "a_gateway_rows s1 = a_gateway_rows s"
    using enc by (auto simp: seal_config_def ok_def wrapE_def on_envelope_def split: option.splits prod.splits sum.splits)
  let ?new = "cfg \<lparr> tgr_encrypted_config := blob, tgr_config_version := (if tgr_config_version cfg = 0 then 1 else tgr_config_version cfg) \<rparr>"
  obtain rows where u: "upsert_row ?new (a_gateway_rows s) = (v, rows)" and s': "a_gateway_rows s' = rows" "a_envelope s' = a_envelope s1"
    using up by (auto simp: store_config_def Let_def rows1 split: prod.splits)
  have env: "envelope_ok sv s' \<and> (case sv_crypto sv of None \<Rightarrow> blob = tgr_encrypted_config cfg
     | Some c \<Rightarrow> \<exists>e. dek_ok c e \<and> en_km e = en_km (a_envelope s') \<and>
         fst (Encrypt c (tgr_encrypted_config cfg) (aad ev (tgr_tenant_id cfg) (tgr_gateway_id cfg)) e) = Inr blob)"
  proof (cases "sv_crypto sv")
    case None
    then show ?thesis using enc by (simp add: envelope_ok_def seal_config_def ok_def)
  next
    case (Some c)
    let ?e = "a_envelope s \<lparr> en_now := w_clock (a_world s) \<rparr>"
    have c: "crypto_ok c" "inj (cr_sha256 c)" "dek_ok c ?e" "cache_ok c ?e" using assms(1) Some by (auto simp: envelope_ok_def)
    obtain e' where e': "Encrypt c (tgr_encrypted_config cfg) (aad ev (tgr_tenant_id cfg) (tgr_gateway_id cfg)) ?e = (Inr blob, e')"
      and "a_envelope s1 = e'"
      using enc Some by (auto simp: seal_config_def run on_envelope_def split: prod.splits)
    moreover have "dek_ok c e'" using keepsD [OF keeps_dek_Encrypt [OF c(1)] c(3) e'] .
    moreover have "cache_ok c e'" using cache_ok_Encrypt [OF c(1,4)] e' by (metis snd_conv)
    moreover have "built_as (en_km ?e) (en_maxUses ?e) e'"
      by (rule keepsD [OF keeps_built_Encrypt _ e']) (simp add: built_as_def)
    ultimately show ?thesis using Some c s'(2) by (auto simp: envelope_ok_def built_as_def intro!: exI [of _ ?e])
  qed
  show thesis
    by (rule that [of blob]) (use config_row_upsert [OF u] s'(1) env ne in auto)
qed

lemma Encrypt_nonempty: "fst (Encrypt c pt a e) = Inr blob \<Longrightarrow> blob \<noteq> ''''"
  by (auto simp: Encrypt_def bindE_def wrapE_def read_rand_def Let_def ok_def encode_def split: prod.splits sum.splits option.splits)

text \<open>A configuration that was stored is read back: same provider, payload and activity, and the
  version that the upsert returned, whether or not payloads are encrypted, as long as the database answers.
  (The hash that names cached data keys has no collisions.)\<close>

theorem config_roundtrip:
  assumes "envelope_ok sv s" "tenant_Upsert sv ev cfg s = (Inr v, s')" "w_budget (a_world s') \<noteq> Some 0"
  shows "fst (tenant_Get sv ev (tgr_tenant_id cfg) (tgr_gateway_id cfg) s') = Inr \<lparr> tgc_TenantID = tgr_tenant_id cfg,
     tgc_GatewayID = tgr_gateway_id cfg, tgc_Provider = tgr_provider cfg,
     tgc_Config = raw_config (sv_codec sv) (tgr_encrypted_config cfg), tgc_ConfigVersion = v, tgc_IsActive = tgr_is_active cfg \<rparr>"
proof -
  obtain blob where row: "config_row (tgr_tenant_id cfg) (tgr_gateway_id cfg) (a_gateway_rows s') =
      Some (cfg \<lparr> tgr_encrypted_config := blob, tgr_config_version := v \<rparr>)" and env: "envelope_ok sv s'"
    and enc: "case sv_crypto sv of None \<Rightarrow> blob = tgr_encrypted_config cfg
     | Some c \<Rightarrow> \<exists>e. dek_ok c e \<and> en_km e = en_km (a_envelope s') \<and>
         fst (Encrypt c (tgr_encrypted_config cfg) (aad ev (tgr_tenant_id cfg) (tgr_gateway_id cfg)) e) = Inr blob"
    by (rule tenant_Upsert_Inr [OF assms(1,2)]) blast
  define s1 where "s1 = s' \<lparr> a_world := a_world s' \<lparr> w_budget := map_option (\<lambda>n. n - 1) (w_budget (a_world s')) \<rparr> \<rparr>"
  have ans: "on_world answer s' = (Inr (), s1)" using assms(3) by (simp add: on_world_answer_Inr s1_def)
  have "fst (decryptConfig sv ev (cfg \<lparr> tgr_encrypted_config := blob, tgr_config_version := v \<rparr>) s1) = Inr (tgr_encrypted_config cfg)"
  proof (cases "sv_crypto sv")
    case None
    then show ?thesis using enc by (simp add: decryptConfig_def ok_def)
  next
    case (Some c)
    with enc obtain e where e: "dek_ok c e" "en_km e = en_km (a_envelope s')"
      "fst (Encrypt c (tgr_encrypted_config cfg) (aad ev (tgr_tenant_id cfg) (tgr_gateway_id cfg)) e) = Inr blob" by auto
    have c: "crypto_ok c" "inj (cr_sha256 c)" "cache_ok c (a_envelope s' \<lparr> en_now := w_clock (a_world s') \<rparr>)"
      using env Some by (auto simp: envelope_ok_def)
    have "fst (Decrypt c blob (aad ev (tgr_tenant_id cfg) (tgr_gateway_id cfg)) (a_envelope s' \<lparr> en_now := w_clock (a_world s') \<rparr>)) =
        Inr (tgr_encrypted_config cfg)"
      by (rule decrypt_encrypt(1) [OF c(1,2) e(1) c(3) _ e(3)]) (simp add: e(2))
    with Some Encrypt_nonempty [OF e(3)] show ?thesis
      by (auto simp: decryptConfig_def wrapE_def on_envelope_def s1_def split: prod.splits)
  qed
  then show ?thesis
    using row ans by (auto simp: tenant_Get_def bindE_def wrapE_def reading_def scanTenantGatewayConfig_def ok_def s1_def
        split: prod.splits sum.splits)
qed



subsection \<open>Examples\<close>

text \<open>A cipher that appends sixteen bytes of the additional data, and a payload that is its own key.\<close>

definition tagged_crypto :: crypto where
  "tagged_crypto = \<lparr> cr_seal = (\<lambda>k n p a. p @ take 16 (a @ replicate 16 (CHR '' ''))),
     cr_open = (\<lambda>k n ct a. if drop (length ct - 16) ct = take 16 (a @ replicate 16 (CHR '' '')) then Some (take (length ct - 16) ct) else None),
     cr_rand = (\<lambda>i n. Some (replicate n (CHR ''r''))), cr_sha256 = (\<lambda>s. s) \<rparr>"

definition sample_server :: server where
  "sample_server = \<lparr> sv_env = (\<lambda>_. sample_env \<lparr> ev_uuid_str := (\<lambda>u. if u = 7 then ''seven'' else ''other'') \<rparr>),
     sv_codec = plain_codec \<lparr> cd_json := (\<lambda>s. Some (DObj [(''api_key'', DStr s)])) \<rparr>,
     sv_crypto = Some tagged_crypto, sv_settlement = (\<lambda>_. None), sv_tokens = \<lparr> tp_service = (\<lambda>_. None), tp_ops = (\<lambda>_. None) \<rparr>,
     sv_limit = \<lparr> rlc_FallbackMultiplier = 1, rlc_LocalMaxBuckets = 10, rlc_HealthCheckIntervalMS = 0, rlc_Capacity = 10, rlc_RefillPerSec = 1 \<rparr>,
     sv_gateways = Inr [], sv_template = (\<lambda>_. True), sv_static = (\<lambda>_. \<lparr> rs_Status = 200, rs_Headers = [], rs_Body = NoBody \<rparr>) \<rparr>"

definition sample_api :: "world \<Rightarrow> api" where
  "sample_api w = \<lparr> a_world = w, a_gateway_rows = [], a_webhook_rows = [],
     a_envelope = NewEnvelope \<lparr> km_keyID = ''k'', km_aead = replicate 32 (CHR ''m'') \<rparr> 0 0 0, a_limiter = NewRateLimiter,
     a_limits = \<lparr> ls_up = True, ls_hashes = (\<lambda>_. None) \<rparr>, a_cache_up = True, a_cache = (\<lambda>_. None) \<rparr>"

definition stripe_row :: TenantGatewayRow where
  "stripe_row = \<lparr> tgr_tenant_id = 7, tgr_gateway_id = ''stripe'', tgr_provider = ''stripe'', tgr_encrypted_config = ''sk_test_0123'',
     tgr_config_version = 0, tgr_is_active = True \<rparr>"

lemma tagged_crypto_ok: "crypto_ok tagged_crypto"
  by (simp add: crypto_ok_def tagged_crypto_def min_def)

lemma sample_envelope_ok: "envelope_ok sample_server (sample_api w)"
  by (simp add: envelope_ok_def sample_server_def sample_api_def tagged_crypto_ok dek_ok_new)
     (simp add: tagged_crypto_def cache_ok_def NewEnvelope_def inj_def)

lemma sample_upsert:
  assumes "w_budget w = None"
  shows "\<exists>s'. tenant_Upsert sample_server (sv_env sample_server (sample_api w)) stripe_row (sample_api w) = (Inr 1, s') \<and> w_budget (a_world s') = None"
  using assms
  by (simp add: tenant_Upsert_def seal_config_def store_config_def upsert_row_def config_row_def lookup_row_def sample_server_def sample_api_def
      stripe_row_def ValidProvider_def ParseProviderConfig_def unmarshal_config_def raw_config_def plain_codec_def EqualFold_def ToUpper_def upper_char_def
      bindE_def wrapE_def lift_def on_world_def answer_def on_envelope_def Encrypt_def currentDEK_def renew_dek_def GenerateDataKey_def
      NewEnvelope_def read_rand_def tagged_crypto_def changing_def reading_def ok_def new_cipher_def dekSize_def NonceSize_def Let_def cache_put_def)

theorem config_roundtrip_witness:
  "case tenant_Upsert sample_server (sv_env sample_server (sample_api sample_world)) stripe_row (sample_api sample_world) of
     (Inl _, _) \<Rightarrow> False
   | (Inr v, s') \<Rightarrow> (case fst (tenant_Get sample_server (sv_env sample_server (sample_api sample_world)) 7 ''stripe'' s') of
       Inl _ \<Rightarrow> False | Inr c \<Rightarrow> tgc_Config c = RawObject [(''api_key'', JString ''sk_test_0123'')] \<and> tgc_ConfigVersion c = v)"
proof -
  have "w_budget sample_world = None" by (simp add: sample_world_def)
  from sample_upsert [OF this] obtain s' where u: "tenant_Upsert sample_server (sv_env sample_server (sample_api sample_world)) stripe_row
      (sample_api sample_world) = (Inr 1, s')" and "w_budget (a_world s') = None" by auto
  then have "w_budget (a_world s') \<noteq> Some 0" by simp
  from config_roundtrip [OF sample_envelope_ok u this] u show ?thesis
    by (simp add: stripe_row_def sample_server_def raw_config_def)
qed


end
