(* ===== verification/Payment_Api.thy ===== *)
theory Payment_Api
  imports Tenant_Config Cancellation Listing
begin

section \<open>Payment endpoints (internal/api/handlers: payment, cancel, refund, pay, sse)\<close>

text \<open>
  One definition per handler method, from the request to the response, over the services. JSON documents
  that are printed (\<open>doc\<close>) leave out what \<open>omitempty\<close> leaves out. The values of a payment's metadata are kept as
  strings by the services; a value that is none is kept as its text. A checkout page is the data that
  its template is given. What an event stream sends after it is opened is the event bus's business;
  here it is the stream of a payment.
\<close>

subsection \<open>Documents\<close>

definition summary_doc :: "Summary \<Rightarrow> doc" where
  "summary_doc s = DObj [(''amount'', DInt (s_Amount s)), (''fees'', DInt (s_Fees s)), (''total'', DInt (s_Total s)),
     (''currency'', DStr (s_Currency s))]"

definition fee_detail_doc :: "FeeDetail \<Rightarrow> doc" where
  "fee_detail_doc f = DObj ([(''service_fee'', DInt (fd_ServiceFee f)), (''fixed_charge'', DInt (fd_FixedCharge f)),
       (''total'', DInt (fd_Total f))] @
     (case fd_Exchange f of None \<Rightarrow> [] | Some x \<Rightarrow> [(''exchange'', DObj [(''base_rate'', DFloat (ex_BaseRate x)),
        (''markup_pct'', DFloat (ex_MarkupPct x)), (''effective'', DFloat (ex_Effective x))])]))"

definition breakdown_doc :: "Breakdown \<Rightarrow> doc" where
  "breakdown_doc b = DObj ([(''summary'', summary_doc (b_Summary b)), (''fees'', fee_detail_doc (b_Fees b))] @
     (case b_Gateway b of None \<Rightarrow> [] | Some g \<Rightarrow> [(''gateway'', DObj [(''amount'', DInt (gp_Amount g)), (''currency'', DStr (gp_Currency g))])]))"

definition breakdown_field :: "Breakdown option \<Rightarrow> (string \<times> doc) list" where
  "breakdown_field b = (case b of None \<Rightarrow> [] | Some x \<Rightarrow> [(''fee_breakdown'', breakdown_doc x)])"

definition toPaymentResponse :: "env \<Rightarrow> Txn \<Rightarrow> doc" where
  "toPaymentResponse ev t = DObj
     ([(''transaction_id'', DStr (ev_uuid_str ev (t_ID t))), (''status'', DStr (status_str (t_Status t))),
       (''amount'', DInt (t_Amount t)), (''currency'', DStr (t_Currency t)), (''payment_method'', DStr (t_PaymentMethod t))] @
      omitempty ''gateway_reference_id'' (t_GatewayReferenceID t) @
      (if t_CustomerID t = uuid_Nil then [] else omitempty ''customer_id'' (ev_uuid_str ev (t_CustomerID t))) @
      omitempty ''customer_email'' (t_CustomerEmail t) @ omitempty ''description'' (t_Description t) @
      (if t_Metadata t = [] then [] else [(''metadata'', DObj (map (\<lambda>(k, v). (k, DStr v)) (t_Metadata t)))]) @
      (case t_GatewayAmount t of None \<Rightarrow> [] | Some a \<Rightarrow> [(''gateway_amount'', DInt a)]) @
      omitempty ''gateway_currency'' (t_GatewayCurrency t) @ breakdown_field (t_FeeBreakdown t) @
      [(''created_at'', DStr (time_Format (t_CreatedAt t)))])"

subsection \<open>PaymentHandler.Create\<close>

record createPaymentRequest =
  cpr_GatewayID :: string
  cpr_Amount :: int
  cpr_Currency :: string
  cpr_PaymentMethod :: string
  cpr_CaptureMode :: string
  cpr_CustomerID :: string
  cpr_CustomerEmail :: string
  cpr_Description :: string
  cpr_Metadata :: "(string \<times> string) list"
  cpr_CallbackURL :: string
  cpr_RedirectURL :: string

fun any_text :: "codec \<Rightarrow> doc \<Rightarrow> string" where
  "any_text cd (DStr s) = s"
| "any_text cd v = cd_text cd v"

definition dec_createPaymentRequest :: "codec \<Rightarrow> createPaymentRequest decoder" where
  "dec_createPaymentRequest cd x = (case dec_fields x of (fs, g) \<Rightarrow>
     let (gid, g1) = dec_str (field ''gateway_id'' fs); (am, g2) = dec_int (field ''amount'' fs);
         (cur, g3) = dec_str (field ''currency'' fs); (pm, g4) = dec_str (field ''payment_method'' fs);
         (cm, g5) = dec_str (field ''capture_mode'' fs); (cust, g6) = dec_str (field ''customer_id'' fs);
         (em, g7) = dec_str (field ''customer_email'' fs); (ds, g8) = dec_str (field ''description'' fs);
         (md, g9) = dec_fields (field ''metadata'' fs); (cb, g10) = dec_str (field ''callback_url'' fs);
         (rd, g11) = dec_str (field ''redirect_url'' fs)
     in (\<lparr> cpr_GatewayID = gid, cpr_Amount = am, cpr_Currency = cur, cpr_PaymentMethod = pm, cpr_CaptureMode = cm,
          cpr_CustomerID = cust, cpr_CustomerEmail = em, cpr_Description = ds,
          cpr_Metadata = map (\<lambda>(k, v). (k, any_text cd v)) md, cpr_CallbackURL = cb, cpr_RedirectURL = rd \<rparr>,
         g \<and> g1 \<and> g2 \<and> g3 \<and> g4 \<and> g5 \<and> g6 \<and> g7 \<and> g8 \<and> g9 \<and> g10 \<and> g11))"

text \<open>\<open>uuid.Parse\<close> of a string that may be empty, which then is the zero value.\<close>

definition optional_uuid :: "env \<Rightarrow> string \<Rightarrow> uuid option" where
  "optional_uuid ev s = (if s = '''' then Some uuid_Nil else ev_uuid_parse ev s)"

definition create_response :: "env \<Rightarrow> request \<Rightarrow> int \<Rightarrow> CreateResult \<Rightarrow> response srv" where
  "create_response ev r status result = (case res_Transaction result of
       None \<Rightarrow> nil_panic
     | Some t \<Rightarrow> writeJSON r status (DObj ([(''transaction_id'', DStr (ev_uuid_str ev (t_ID t))), (''token'', DStr (res_Token result)),
         (''status'', DStr (status_str (t_Status t)))] @
         [(''fee_breakdown'', (case t_FeeBreakdown t of None \<Rightarrow> DNull | Some b \<Rightarrow> breakdown_doc b))])))"

definition create_error :: "request \<Rightarrow> go_error \<Rightarrow> response srv" where
  "create_error r e =
    (if errors_Is e ErrNoGateway then writeError r 422 ''no_eligible_gateway'' ''no gateway can process this payment''
     else if errors_Is e ErrKeyRequired then writeError r 400 ''missing_idempotency_key'' ''Idempotency-Key header is required''
     else writeError r 500 ''create_failed'' ''could not create payment'')"

definition create_verdict_response :: "env \<Rightarrow> request \<Rightarrow> CreateResult \<times> go_error option \<Rightarrow> response srv" where
  "create_verdict_response ev r x = (case x of
       (_, Some e) \<Rightarrow> create_error r e
     | (result, None) \<Rightarrow> (case res_Verdict result of
           Created \<Rightarrow> create_response ev r 201 result
         | Replayed \<Rightarrow> create_response ev r 200 result
         | InProgress \<Rightarrow> writeError r 409 ''idempotency_in_progress'' ''a request with this idempotency key is already in progress''
         | KeyReused \<Rightarrow> writeError r 409 ''idempotency_key_reused'' ''idempotency key reused with a different request body''))"

definition create_checked :: "env \<Rightarrow> request \<Rightarrow> uuid \<Rightarrow> uuid \<Rightarrow> createPaymentRequest \<Rightarrow> response srv" where
  "create_checked ev r tenantID userID req =
    (let idemKey = r_Header r ''Idempotency-Key'' in
     if cpr_GatewayID req = '''' then writeError r 400 ''missing_gateway_id'' ''gateway_id is required''
     else if cpr_Amount req \<le> 0 then writeError r 400 ''invalid_amount'' ''amount must be positive''
     else if cpr_Currency req = '''' \<or> cpr_PaymentMethod req = '''' then writeError r 400 ''missing_fields'' ''currency and payment_method are required''
     else if cpr_CallbackURL req = '''' then writeError r 400 ''missing_callback_url'' ''callback_url is required''
     else if cpr_RedirectURL req = '''' then writeError r 400 ''missing_redirect_url'' ''redirect_url is required''
     else if idemKey = '''' then writeError r 400 ''missing_idempotency_key'' ''Idempotency-Key header is required''
     else case optional_uuid ev (cpr_CustomerID req) of
         None \<Rightarrow> writeError r 400 ''invalid_customer_id'' ''customer_id must be a valid UUID''
       | Some customerID \<Rightarrow> catch (on_world (Create ev
           \<lparr> ci_TenantID = tenantID, ci_UserID = userID, ci_GatewayID = cpr_GatewayID req, ci_Amount = cpr_Amount req,
             ci_Currency = cpr_Currency req, ci_PaymentMethod = cpr_PaymentMethod req, ci_CaptureMode = cpr_CaptureMode req,
             ci_CustomerID = customerID, ci_CustomerEmail = cpr_CustomerEmail req, ci_Description = cpr_Description req,
             ci_Metadata = cpr_Metadata req, ci_CallbackURL = cpr_CallbackURL req, ci_RedirectURL = cpr_RedirectURL req,
             ci_IdempotencyKey = idemKey \<rparr>)) (create_error r) (create_verdict_response ev r))"

definition PaymentHandler_Create :: "server \<Rightarrow> env \<Rightarrow> handler" where
  "PaymentHandler_Create sv ev r =
    (if r_TenantID r = '''' then writeError r 401 ''unauthorized'' ''missing tenant''
     else case ev_uuid_parse ev (r_TenantID r) of
         None \<Rightarrow> writeError r 401 ''unauthorized'' ''invalid tenant''
       | Some tenantID \<Rightarrow> (case optional_uuid ev (r_UserID r) of
             None \<Rightarrow> writeError r 401 ''unauthorized'' ''invalid user''
           | Some userID \<Rightarrow> (case Decode (sv_codec sv) (dec_createPaymentRequest (sv_codec sv)) r of
                 (_, False) \<Rightarrow> writeError r 400 ''invalid_request_body'' ''request body is not valid JSON''
               | (req, True) \<Rightarrow> create_checked ev r tenantID userID req)))"

subsection \<open>PaymentHandler.Get, Authorize, Capture, Settle\<close>

text \<open>Who may see a payment, in \<open>Get\<close> and in \<open>SSEHandler.Events\<close>: its tenant, or the holder of its token.\<close>

definition may_see :: "env \<Rightarrow> request \<Rightarrow> Txn \<Rightarrow> bool" where
  "may_see ev r txn \<longleftrightarrow> (if r_TenantID r \<noteq> '''' then ev_uuid_str ev (t_TenantID txn) = r_TenantID r
     else Query_Get r ''token'' \<noteq> '''' \<and> VerifyToken ev (Query_Get r ''token'') (t_TokenHash txn))"

definition unseen :: "request \<Rightarrow> string \<Rightarrow> response srv" where
  "unseen r what = (if r_TenantID r \<noteq> '''' then writeError r 404 ''not_found'' (what @ '' not found'')
     else writeError r 401 ''unauthorized'' ''invalid or missing token'')"

definition PaymentHandler_Get :: "env \<Rightarrow> handler" where
  "PaymentHandler_Get ev r = (case ev_uuid_parse ev (PathValue r ''id'') of
       None \<Rightarrow> writeError r 400 ''invalid_id'' ''transaction id must be a valid UUID''
     | Some i \<Rightarrow> catch (on_world (Txn_GetByID i)) (\<lambda>_. writeError r 404 ''not_found'' ''payment not found'') (\<lambda>txn.
         if may_see ev r txn then writeJSON r 200 (toPaymentResponse ev txn) else unseen r ''payment''))"

definition move_handler :: "(uuid \<Rightarrow> (world, Txn) comp) \<Rightarrow> string \<Rightarrow> string \<Rightarrow> env \<Rightarrow> handler" where
  "move_handler op code message ev r = (case ev_uuid_parse ev (PathValue r ''id'') of
       None \<Rightarrow> writeError r 400 ''invalid_id'' ''transaction id must be a valid UUID''
     | Some i \<Rightarrow> catch (on_world (op i)) (\<lambda>e.
           if errors_Is e ErrInvalidTransition then writeError r 409 ''invalid_transition'' (err_msg e) else writeError r 500 code message)
         (\<lambda>txn. writeJSON r 200 (toPaymentResponse ev txn)))"

definition PaymentHandler_Authorize :: "env \<Rightarrow> handler" where
  "PaymentHandler_Authorize ev = move_handler (Authorize ev) ''authorize_failed'' ''could not authorize payment'' ev"

definition PaymentHandler_Capture :: "env \<Rightarrow> handler" where
  "PaymentHandler_Capture ev = move_handler (Capture ev) ''capture_failed'' ''could not capture payment'' ev"

definition PaymentHandler_Settle :: "env \<Rightarrow> handler" where
  "PaymentHandler_Settle ev = move_handler (Settle ev) ''settle_failed'' ''could not settle payment'' ev"

subsection \<open>CancelHandler, RefundHandler\<close>

definition cancel_result_response :: "env \<Rightarrow> request \<Rightarrow> uuid \<Rightarrow> CancelResult \<Rightarrow> response srv" where
  "cancel_result_response ev r transactionID res = (case res of
       (InProgress, _) \<Rightarrow> writeError r 409 ''idempotency_in_progress'' ''a request with this idempotency key is already in progress''
     | (KeyReused, _) \<Rightarrow> writeError r 409 ''idempotency_key_reused'' ''idempotency key reused with a different request body''
     | (_, oc) \<Rightarrow> writeJSON r 200 (DObj [(''transaction_id'', DStr (ev_uuid_str ev transactionID)),
         (''status'', DStr (case oc of None \<Rightarrow> '''' | Some (_, st) \<Rightarrow> status_str st))]))"

definition CancelHandler_Cancel :: "env \<Rightarrow> handler" where
  "CancelHandler_Cancel ev r = (case ev_uuid_parse ev (PathValue r ''id'') of
       None \<Rightarrow> writeError r 400 ''invalid_id'' ''transaction id must be a valid UUID''
     | Some transactionID \<Rightarrow> (case optional_uuid ev (r_TenantID r) of
         None \<Rightarrow> writeError r 401 ''unauthorized'' ''invalid tenant''
       | Some tenantID \<Rightarrow>
           if r_Header r ''Idempotency-Key'' = '''' then writeError r 400 ''missing_idempotency_key'' ''Idempotency-Key header is required''
           else catch (on_world (Cancel ev \<lparr> cn_TransactionID = transactionID, cn_TenantID = tenantID, cn_By = ''tenant'', cn_Via = ''api'',
                    cn_IdempotencyKey = r_Header r ''Idempotency-Key'' \<rparr>))
             (\<lambda>e. if errors_Is e ErrKeyRequired then writeError r 400 ''missing_idempotency_key'' ''Idempotency-Key header is required''
                  else if errors_Is e CancelErrNotFound then writeError r 404 ''not_found'' ''payment not found''
                  else writeError r 500 ''cancel_failed'' ''could not process cancellation'')
             (cancel_result_response ev r transactionID)))"

record initiateRefundRequest =
  irr_Amount :: int
  irr_Reason :: string

definition dec_initiateRefundRequest :: "initiateRefundRequest decoder" where
  "dec_initiateRefundRequest x = (case dec_fields x of (fs, g) \<Rightarrow>
     let (am, g1) = dec_int (field ''amount'' fs); (rs, g2) = dec_str (field ''reason'' fs)
     in (\<lparr> irr_Amount = am, irr_Reason = rs \<rparr>, g \<and> g1 \<and> g2))"

definition toInitiateRefundResponse :: "env \<Rightarrow> Refund \<Rightarrow> doc" where
  "toInitiateRefundResponse ev rf = DObj ([(''id'', DStr (ev_uuid_str ev (rf_ID rf))),
     (''transaction_id'', DStr (ev_uuid_str ev (rf_TransactionID rf))), (''status'', DStr (refund_status_str (rf_Status rf))),
     (''amount'', DInt (rf_Amount rf))] @ omitempty ''gateway_refund_id'' (rf_GatewayRefundID rf))"

definition refund_error :: "request \<Rightarrow> go_error \<Rightarrow> response srv" where
  "refund_error r e =
    (if errors_Is e ErrNotRefundable then writeError r 422 ''not_refundable'' ''transaction is not in a refundable state''
     else case as_OverRefund e of
         Some over \<Rightarrow> writeError r 422 ''over_refund'' (err_msg over)
       | None \<Rightarrow> if errors_Is e ErrKeyRequired then writeError r 400 ''missing_idempotency_key'' ''Idempotency-Key header is required''
           else writeError r 500 ''refund_failed'' ''could not initiate refund'')"

definition refund_result_response :: "env \<Rightarrow> request \<Rightarrow> Verdict \<times> Refund option \<Rightarrow> response srv" where
  "refund_result_response ev r res =
    (let show = (\<lambda>status. case snd res of None \<Rightarrow> nil_panic | Some rf \<Rightarrow> writeJSON r status (toInitiateRefundResponse ev rf))
     in case fst res of
          Created \<Rightarrow> show 202
        | Replayed \<Rightarrow> show 200
        | InProgress \<Rightarrow> writeError r 409 ''idempotency_in_progress'' ''a request with this idempotency key is already in progress''
        | KeyReused \<Rightarrow> writeError r 409 ''idempotency_key_reused'' ''idempotency key reused with a different request body'')"

definition refund_checked :: "server \<Rightarrow> env \<Rightarrow> request \<Rightarrow> uuid \<Rightarrow> response srv" where
  "refund_checked sv ev r transactionID = (case Decode (sv_codec sv) dec_initiateRefundRequest r of
       (_, False) \<Rightarrow> writeError r 400 ''invalid_request_body'' ''request body is not valid JSON''
     | (req, True) \<Rightarrow>
         if irr_Amount req \<le> 0 then writeError r 400 ''invalid_amount'' ''amount must be positive''
         else if irr_Reason req = '''' then writeError r 400 ''missing_reason'' ''reason is required''
         else if r_Header r ''Idempotency-Key'' = '''' then writeError r 400 ''missing_idempotency_key'' ''Idempotency-Key header is required''
         else catch (on_world (InitiateRefund ev \<lparr> ii_TransactionID = transactionID, ii_Amount = irr_Amount req, ii_Reason = irr_Reason req,
                  ii_InitiatedBy = ''api'', ii_IdempotencyKey = r_Header r ''Idempotency-Key'' \<rparr>))
           (refund_error r) (refund_result_response ev r))"

definition RefundHandler_Initiate :: "server \<Rightarrow> env \<Rightarrow> handler" where
  "RefundHandler_Initiate sv ev r = (case ev_uuid_parse ev (PathValue r ''id'') of
       None \<Rightarrow> writeError r 400 ''invalid_id'' ''transaction id must be a valid UUID''
     | Some transactionID \<Rightarrow> (case r_Principal r of
         Some p \<Rightarrow> if pr_Role p = RoleService
           then catch (on_world (Txn_GetByID transactionID)) (\<lambda>_. writeError r 404 ''not_found'' ''transaction not found'') (\<lambda>txn.
             if ev_uuid_str ev (t_TenantID txn) \<noteq> pr_TenantID p then writeError r 404 ''not_found'' ''transaction not found''
             else refund_checked sv ev r transactionID)
           else refund_checked sv ev r transactionID
       | None \<Rightarrow> refund_checked sv ev r transactionID))"

subsection \<open>PaymentHandler.List\<close>

text \<open>A query parameter that may be missing and that is rejected with a code and a message.\<close>

definition sum_bind :: "'e + 'a \<Rightarrow> ('a \<Rightarrow> 'e + 'b) \<Rightarrow> 'e + 'b" where
  "sum_bind x f = (case x of Inl e \<Rightarrow> Inl e | Inr a \<Rightarrow> f a)"

type_synonym rejection = "int \<times> string \<times> string"

definition param :: "request \<Rightarrow> string \<Rightarrow> (string \<Rightarrow> 'a option) \<Rightarrow> string \<Rightarrow> string \<Rightarrow> rejection + 'a option" where
  "param r name f code message = (if Query_Get r name = '''' then Inr None
     else case f (Query_Get r name) of None \<Rightarrow> Inl (400, code, message) | Some v \<Rightarrow> Inr (Some v))"

definition text_param :: "request \<Rightarrow> string \<Rightarrow> string option" where
  "text_param r name = (if Query_Get r name = '''' then None else Some (Query_Get r name))"

definition list_param :: "request \<Rightarrow> string \<Rightarrow> string list" where
  "list_param r name = (if Query_Get r name = '''' then [] else Split (CHR '','') (Query_Get r name))"

definition int_text :: "string \<Rightarrow> int option" where
  "int_text s = (case ParseInt s of (v, good) \<Rightarrow> if good then Some v else None)"

definition limit_text :: "string \<Rightarrow> int option" where
  "limit_text s = (case ParseInt s of (v, good) \<Rightarrow> if \<not> good \<or> v \<le> 0 \<or> v > 100 then None else Some v)"

text \<open>A service token queries its own tenant. The error of \<open>uuid.Parse\<close> on the tenant of the token is ignored and
  leaves the nil identifier.\<close>

definition tenant_filter :: "env \<Rightarrow> Principal \<Rightarrow> uuid option \<Rightarrow> rejection + uuid option" where
  "tenant_filter ev p wanted = (if pr_Role p = RoleService then
      (let authTenantID = (case ev_uuid_parse ev (pr_TenantID p) of None \<Rightarrow> uuid_Nil | Some u \<Rightarrow> u)
       in if wanted \<noteq> None \<and> wanted \<noteq> Some authTenantID
          then Inl (403, ''tenant_mismatch'', ''service token cannot query other tenants'') else Inr (Some authTenantID))
     else Inr wanted)"

definition list_filter :: "env \<Rightarrow> request \<Rightarrow> Principal \<Rightarrow> rejection + TransactionFilter" where
  "list_filter ev r p =
    sum_bind (param r ''tenant_id'' (ev_uuid_parse ev) ''invalid_tenant_id'' ''tenant_id must be a valid UUID'') (\<lambda>wanted.
    sum_bind (tenant_filter ev p wanted) (\<lambda>tenant.
    sum_bind (param r ''user_id'' (ev_uuid_parse ev) ''invalid_user_id'' ''user_id must be a valid UUID'') (\<lambda>user.
    sum_bind (param r ''min_amount'' int_text ''invalid_min_amount'' ''min_amount must be an integer'') (\<lambda>mn.
    sum_bind (param r ''max_amount'' int_text ''invalid_max_amount'' ''max_amount must be an integer'') (\<lambda>mx.
    sum_bind (param r ''date_from'' ParseRFC3339 ''invalid_date_from'' ''date_from must be RFC3339'') (\<lambda>from.
    sum_bind (param r ''date_to'' ParseRFC3339 ''invalid_date_to'' ''date_to must be RFC3339'') (\<lambda>to.
    sum_bind (param r ''limit'' limit_text ''invalid_limit'' ''limit must be between 1 and 100'') (\<lambda>lim.
    Inr \<lparr> tf_TenantID = tenant, tf_UserID = user, tf_Status = list_param r ''status'', tf_GatewayID = list_param r ''gateway_id'',
          tf_MinAmount = mn, tf_MaxAmount = mx, tf_MinGatewayAmount = None, tf_MaxGatewayAmount = None, tf_GatewayCurrency = None,
          tf_Currency = text_param r ''currency'', tf_PaymentMethod = list_param r ''payment_method'', tf_DateFrom = from, tf_DateTo = to,
          tf_Cursor = text_param r ''cursor'', tf_Limit = (case lim of None \<Rightarrow> 50 | Some v \<Rightarrow> v) \<rparr>))))))))"

definition list_item :: "env \<Rightarrow> TransactionSummary \<Rightarrow> doc" where
  "list_item ev t = DObj ([(''transaction_id'', DStr (ev_uuid_str ev (ts_ID t)))] @
     (case ts_UserID t of None \<Rightarrow> [] | Some u \<Rightarrow> omitempty ''user_id'' (ev_uuid_str ev u)) @
     [(''amount'', DInt (ts_Amount t)), (''currency'', DStr (ts_Currency t)), (''status'', DStr (ts_Status t))] @
     omitempty ''gateway_id'' (ts_GatewayID t) @ omitempty ''payment_method'' (ts_PaymentMethod t) @
     [(''created_at'', DStr (time_Format (ts_CreatedAt t)))])"

definition writeCSV :: "env \<Rightarrow> TransactionListResult \<Rightarrow> response srv" where
  "writeCSV ev result = ok \<lparr> rs_Status = 200,
     rs_Headers = [(''Content-Type'', ''text/csv''), (''Content-Disposition'', ''attachment;filename=transactions.csv'')],
     rs_Body = CsvBody ([''id'', ''user_id'', ''amount'', ''currency'', ''status'', ''gateway_id'', ''payment_method'', ''created_at''] #
       map (\<lambda>t. [ev_uuid_str ev (ts_ID t), (case ts_UserID t of None \<Rightarrow> '''' | Some u \<Rightarrow> ev_uuid_str ev u), FormatInt (ts_Amount t),
         ts_Currency t, ts_Status t, ts_GatewayID t, ts_PaymentMethod t, time_Format (ts_CreatedAt t)]) (lr_Transactions result)) \<rparr>"

definition PaymentHandler_List :: "env \<Rightarrow> handler" where
  "PaymentHandler_List ev r = (case r_Principal r of
       None \<Rightarrow> writeError r 401 ''unauthorized'' ''missing authentication''
     | Some p \<Rightarrow> (case list_filter ev r p of
         Inl (status, code, message) \<Rightarrow> writeError r status code message
       | Inr f \<Rightarrow> catch (on_world (Txn_List ev f)) (\<lambda>e. writeError r 500 ''list_failed'' (err_msg e)) (\<lambda>result.
           if contains ''text/csv'' (r_Header r ''Accept'') then writeCSV ev result
           else writeJSON r 200 (DObj [(''data'', DArr (map (list_item ev) (lr_Transactions result))), (''has_more'', DBool (lr_HasMore result)),
             (''next_cursor'', case lr_NextCursor result of None \<Rightarrow> DNull | Some c \<Rightarrow> DStr c)]))))"

subsection \<open>PayHandler and SSEHandler\<close>

definition http_Error :: "string \<Rightarrow> int \<Rightarrow> response srv" where
  "http_Error message status = ok \<lparr> rs_Status = status, rs_Headers = [(''Content-Type'', ''text/plain; charset=utf-8'')],
     rs_Body = TextBody message \<rparr>"

definition pay_auth :: "env \<Rightarrow> request \<Rightarrow> Txn srv" where
  "pay_auth ev r =
    (let txnIDStr = (if PathValue r ''transaction_id'' = '''' then Query_Get r ''transaction_id'' else PathValue r ''transaction_id'')
     in if txnIDStr = '''' then throw (Errorf ''missing transaction_id'')
     else case ev_uuid_parse ev txnIDStr of
         None \<Rightarrow> throw (Errorf ''invalid transaction_id'')
       | Some txnID \<Rightarrow> if Query_Get r ''token'' = '''' then throw (Errorf ''missing token'')
           else catch (on_world (Txn_GetByID txnID)) (\<lambda>_. throw (Errorf ''transaction not found'')) (\<lambda>txn.
             if VerifyToken ev (Query_Get r ''token'') (t_TokenHash txn) then ok txn else throw (Errorf ''invalid token'')))"

definition render :: "server \<Rightarrow> string \<Rightarrow> (string \<times> doc) list \<Rightarrow> response srv" where
  "render sv page data = (if sv_template sv page then ok \<lparr> rs_Status = 200, rs_Headers = [(''Content-Type'', ''text/html; charset=utf-8'')],
       rs_Body = PageBody page data \<rparr>
     else http_Error ''template error'' 500)"

fun json_doc :: "env \<Rightarrow> json \<Rightarrow> doc" where
  "json_doc ev (JStr s) = DStr s"
| "json_doc ev (JInt n) = DInt n"
| "json_doc ev (JUuid u) = DStr (ev_uuid_str ev u)"
| "json_doc ev (JTime t) = DStr (time_Format t)"
| "json_doc ev (JObj kvs) = DObj (map (\<lambda>(k, v). (k, json_doc ev v)) kvs)"
| "json_doc ev (JBool b) = DBool b"

text \<open>\<open>WebhookRepository.GetGatewayMetadata\<close>, the latest row of the payment, and \<open>Service.GetGatewayMetadata\<close>, which turns
  every error into no metadata. A webhook's row holds the bytes of its body.\<close>

definition repo_GetGatewayMetadata :: "uuid \<Rightarrow> (world, json) comp" where
  "repo_GetGatewayMetadata i = bindE answer (\<lambda>_. bindE (reading (\<lambda>w. filter (\<lambda>(t, _, _). t = i) (db_gateway_metadata (w_db w)))) (\<lambda>rows.
     case rows of [] \<Rightarrow> throw (Errorf ''webhook: get raw metadata'') | x # xs \<Rightarrow> ok (snd (snd (last (x # xs))))))"

definition GetGatewayMetadata :: "codec \<Rightarrow> env \<Rightarrow> uuid \<Rightarrow> (world, (string \<times> doc) list option) comp" where
  "GetGatewayMetadata cd ev i = bindE (attempt (repo_GetGatewayMetadata i)) (\<lambda>raw. ok (case raw of
       Inr (JObj kvs) \<Rightarrow> Some (map (\<lambda>(k, v). (k, json_doc ev v)) kvs)
     | Inr (JStr body) \<Rightarrow> (case cd_json cd body of Some (DObj fs) \<Rightarrow> Some fs | _ \<Rightarrow> None)
     | _ \<Rightarrow> None))"

definition PayHandler_ServeCheckout :: "server \<Rightarrow> env \<Rightarrow> handler" where
  "PayHandler_ServeCheckout sv ev r = catch (pay_auth ev r) (\<lambda>e. http_Error (err_msg e) 401) (\<lambda>txn.
     bindE (on_world (GetGatewayMetadata (sv_codec sv) ev (t_ID txn))) (\<lambda>meta.
       render sv ''checkout.html'' ([(''transactionId'', DStr (ev_uuid_str ev (t_ID txn))), (''redirectUrl'', DStr (t_RedirectURL txn)),
         (''token'', DStr (Query_Get r ''token''))] @ breakdown_field (t_FeeBreakdown txn) @
         (case meta of None \<Rightarrow> [] | Some m \<Rightarrow> [(''rawMetadata'', DObj m)]))))"

definition result_page :: "env \<Rightarrow> Txn \<Rightarrow> (string \<times> doc) list" where
  "result_page ev txn = [(''TransactionID'', DStr (ev_uuid_str ev (t_ID txn))), (''ReturnURL'', DStr (t_RedirectURL txn)),
     (''Amount'', DInt (t_Amount txn)), (''Currency'', DStr (t_Currency txn))]"

definition PayHandler_Success :: "server \<Rightarrow> env \<Rightarrow> handler" where
  "PayHandler_Success sv ev r = catch (pay_auth ev r) (\<lambda>e. http_Error (err_msg e) 401) (\<lambda>txn.
     render sv ''success.html'' (result_page ev txn))"

definition failure_message :: "Txn \<Rightarrow> string" where
  "failure_message txn = (let msg = (case t_FailureReason txn of None \<Rightarrow> '''' | Some f \<Rightarrow> fr_GatewayMessage f)
     in if msg = '''' then ''Your payment could not be processed.'' else msg)"

definition PayHandler_Failure :: "server \<Rightarrow> env \<Rightarrow> handler" where
  "PayHandler_Failure sv ev r = catch (pay_auth ev r) (\<lambda>e. http_Error (err_msg e) 401) (\<lambda>txn.
     render sv ''failure.html'' (result_page ev txn @ [(''Message'', DStr (failure_message txn))]))"

definition SSEHandler_Events :: "env \<Rightarrow> handler" where
  "SSEHandler_Events ev r = (case ev_uuid_parse ev (PathValue r ''id'') of
       None \<Rightarrow> writeError r 400 ''invalid_id'' ''transaction id must be a valid UUID''
     | Some i \<Rightarrow> catch (on_world (Txn_GetByID i)) (\<lambda>_. writeError r 404 ''not_found'' ''transaction not found'') (\<lambda>txn.
         if may_see ev r txn then ok \<lparr> rs_Status = 200, rs_Headers = [(''Content-Type'', ''text/event-stream''), (''Cache-Control'', ''no-cache''),
           (''Connection'', ''keep-alive'')], rs_Body = EventStream i \<rparr>
         else unseen r ''transaction''))"

subsection \<open>WebhookHandler (webhook.go)\<close>

fun normalizeStatus :: "GatewayPaymentStatus \<Rightarrow> string" where
  "normalizeStatus GatewayPaymentStatusSucceeded = ''succeeded''"
| "normalizeStatus GatewayPaymentStatusAuthorized = ''authorized''"
| "normalizeStatus GatewayPaymentStatusFailed = ''failed''"
| "normalizeStatus GatewayPaymentStatusCancelled = ''cancelled''"
| "normalizeStatus GatewayPaymentStatusRefunded = ''refunded''"
| "normalizeStatus _ = ''pending''"

text \<open>Whose credentials check the webhook: the tenant of the payment that the query names, or the only tenant
  that has the gateway configured.\<close>

definition webhook_tenant :: "server \<Rightarrow> env \<Rightarrow> request \<Rightarrow> string \<Rightarrow> (Txn option \<Rightarrow> uuid \<Rightarrow> response srv) \<Rightarrow> response srv" where
  "webhook_tenant sv ev r gatewayID k =
    (if Query_Get r ''transaction_id'' \<noteq> '''' then
       (case ev_uuid_parse ev (Query_Get r ''transaction_id'') of
          None \<Rightarrow> writeError r 400 ''invalid_transaction_id'' ''transaction_id must be a valid UUID''
        | Some txnID \<Rightarrow> catch (on_world (Txn_GetByID txnID)) (\<lambda>_. writeError r 404 ''transaction_not_found'' ''transaction not found'')
            (\<lambda>txn. k (Some txn) (t_TenantID txn)))
     else catch (ListByGateway sv ev gatewayID) (\<lambda>_. writeError r 401 ''unknown_tenant'' ''no tenant config for gateway'') (\<lambda>tcfg.
       case tcfg of
         [] \<Rightarrow> writeError r 401 ''unknown_tenant'' ''no tenant config for gateway''
       | [c] \<Rightarrow> k None (tgc_TenantID c)
       | _ \<Rightarrow> writeError r 400 ''ambiguous_tenant'' ''gateway is shared by multiple tenants; pass transaction_id''))"

text \<open>\<open>Registry.CheckStatus\<close> through the adapter of the environment; the gateway sees the call.\<close>

definition parsers_CheckStatus :: "env \<Rightarrow> string \<Rightarrow> GatewayStatusRequest \<Rightarrow> (world, GatewayPaymentResponse) comp" where
  "parsers_CheckStatus ev gatewayID req = (case ev_registry ev gatewayID of
       None \<Rightarrow> throw (Errorf ''gateways: no adapter registered'')
     | Some adapter \<Rightarrow> bindE (gateway_call (CallStatus gatewayID req) (\<lambda>calls. CheckStatus adapter calls req)) lift)"

definition webhook_deliver :: "env \<Rightarrow> request \<Rightarrow> string \<Rightarrow> GatewayWebhookEvent \<Rightarrow> string \<Rightarrow> response srv" where
  "webhook_deliver ev r gatewayID e rawBody = (case gwe_Dispute e of
       Some d \<Rightarrow> catch (on_world (IngestGatewayDispute ev gatewayID d))
           (\<lambda>_. writeError r 500 ''dispute_ingest_failed'' ''could not process dispute webhook'')
           (\<lambda>_. writeJSON r 200 (DObj [(''accepted'', DBool True)]))
     | None \<Rightarrow> catch (on_world (webhook_Process ev gatewayID \<lparr> we_EventID = gwe_EventID e, we_GatewayReferenceID = gwe_GatewayReferenceID e,
                  we_Status = normalizeStatus (gwe_Status e) \<rparr> (JStr rawBody)))
           (\<lambda>_. writeError r 500 ''webhook_processing_failed'' ''could not process webhook'')
           (\<lambda>outcome. writeJSON r 200 (DObj [(''duplicate'', DBool (wo_Duplicate outcome)), (''resolved'', DBool (wo_Resolved outcome)),
              (''unknown_txn'', DBool (wo_UnknownTxn outcome))])))"

text \<open>Gateways whose webhooks are not signed are asked for the status.\<close>

definition webhook_refetch :: "env \<Rightarrow> request \<Rightarrow> string \<Rightarrow> Txn option \<Rightarrow> GatewayWebhookEvent \<Rightarrow> string \<Rightarrow> response srv" where
  "webhook_refetch ev r gatewayID txn e rawBody =
     catch (on_world (GetByGatewayReference gatewayID (gwe_GatewayReferenceID e)))
       (\<lambda>_. writeError r 500 ''webhook_processing_failed'' ''could not resolve webhook transaction'') (\<lambda>found. case found of
       None \<Rightarrow> writeJSON r 200 (DObj [(''unknown_txn'', DBool True)])
     | Some refTxn \<Rightarrow>
         if (case txn of None \<Rightarrow> False | Some t \<Rightarrow> t_ID refTxn \<noteq> t_ID t)
         then writeError r 400 ''transaction_mismatch'' ''webhook reference does not match transaction''
         else catch (on_world (parsers_CheckStatus ev gatewayID \<lparr> gsr_TransactionID = t_ID refTxn, gsr_TenantID = t_TenantID refTxn,
                  gsr_GatewayReferenceID = gwe_GatewayReferenceID e, gsr_IdempotencyKey = t_GatewayIdempotencyKey refTxn \<rparr>))
           (\<lambda>_. writeError r 500 ''status_refetch_failed'' ''could not verify payment status'')
           (\<lambda>statusResp. webhook_deliver ev r gatewayID (e \<lparr> gwe_Status := gp_Status statusResp \<rparr>) rawBody))"

definition webhook_parsed :: "env \<Rightarrow> request \<Rightarrow> string \<Rightarrow> Txn option \<Rightarrow> string \<Rightarrow> go_error + GatewayWebhookEvent \<Rightarrow> response srv" where
  "webhook_parsed ev r gatewayID txn rawBody parsed = (case parsed of
       Inl e \<Rightarrow> if errors_Is e ErrWebhookSignature then writeError r 401 ''invalid_signature'' ''webhook signature verification failed''
         else writeError r 400 ''invalid_webhook'' ''could not parse webhook payload''
     | Inr e \<Rightarrow> if gwe_EventID e = '''' \<or> gwe_GatewayReferenceID e = '''' then writeError r 400 ''invalid_webhook'' ''event id and reference are required''
         else if WebhookRequiresRefetch gatewayID GatewayRegistry then webhook_refetch ev r gatewayID txn e rawBody
         else webhook_deliver ev r gatewayID e rawBody)"

definition webhook_checked :: "server \<Rightarrow> env \<Rightarrow> request \<Rightarrow> string \<Rightarrow> Txn option \<Rightarrow> string \<Rightarrow> response srv" where
  "webhook_checked sv ev r gatewayID txn secret = (case r_Body r of
       None \<Rightarrow> writeError r 400 ''invalid_body'' ''could not read webhook body''
     | Some body \<Rightarrow> let rawBody = take (2 ^ 20) body in (case WebhookParser gatewayID GatewayRegistry of
         None \<Rightarrow> writeError r 404 ''unknown_gateway'' ''no webhook parser for gateway''
       | Some parser \<Rightarrow>
           if (case txn of None \<Rightarrow> False | Some t \<Rightarrow> t_GatewayID t \<noteq> gatewayID \<and> t_ActualGateway t \<noteq> gatewayID)
           then writeError r 400 ''gateway_mismatch'' ''transaction belongs to a different gateway''
           else bindE (on_world Now) (\<lambda>now. webhook_parsed ev r gatewayID txn rawBody
                  (ParseWebhook parser (sv_codec sv) now rawBody (r_Header r) secret))))"

definition WebhookHandler_Handle :: "server \<Rightarrow> env \<Rightarrow> handler" where
  "WebhookHandler_Handle sv ev r = (let gatewayID = PathValue r ''gateway_id'' in
     webhook_tenant sv ev r gatewayID (\<lambda>txn tenantID.
       catch (tenant_Get sv ev tenantID gatewayID) (\<lambda>_. writeError r 401 ''unknown_tenant'' ''no tenant config for gateway'') (\<lambda>rawCfg.
       case ExtractWebhookSecret (tgc_Provider rawCfg) (tgc_Config rawCfg) of
         Inl _ \<Rightarrow> writeError r 401 ''invalid_config'' ''could not extract webhook secret''
       | Inr secret \<Rightarrow> webhook_checked sv ev r gatewayID txn secret)))"

end
