(* ===== verification/Ops_Api.thy ===== *)
theory Ops_Api
  imports Payment_Api Relay
begin

section \<open>Operations endpoints (internal/api/handlers: dead letters, disputes, reconciliation, tenants, gateways, health)\<close>

text \<open>
  The remaining handlers. \<open>tenantIDFromCtx\<close> gives the nil identifier to callers without a tenant, which the
  services take for an operator.
\<close>

definition tenantIDFromCtx :: "env \<Rightarrow> request \<Rightarrow> uuid" where
  "tenantIDFromCtx ev r = (if r_TenantID r = '''' then uuid_Nil
     else case ev_uuid_parse ev (r_TenantID r) of None \<Rightarrow> uuid_Nil | Some u \<Rightarrow> u)"

definition authenticated :: "request \<Rightarrow> (Principal \<Rightarrow> response srv) \<Rightarrow> response srv" where
  "authenticated r k = (case r_Principal r of None \<Rightarrow> writeError r 401 ''unauthorized'' ''missing authentication'' | Some p \<Rightarrow> k p)"

definition time_field :: "string \<Rightarrow> int option \<Rightarrow> (string \<times> doc) list" where
  "time_field k t = (case t of None \<Rightarrow> [] | Some x \<Rightarrow> [(k, DStr (time_Format x))])"

text \<open>\<open>Format(time.RFC3339)\<close> has no fraction.\<close>

definition seconds_field :: "string \<Rightarrow> int option \<Rightarrow> (string \<times> doc) list" where
  "seconds_field k t = time_field k (map_option (\<lambda>x. x div Second * Second) t)"

subsection \<open>Dead letters (dead_letter.go)\<close>

definition letterResponse :: "env \<Rightarrow> DeadLetterRow \<Rightarrow> doc" where
  "letterResponse ev l = DObj ([(''id'', DStr (ev_uuid_str ev (dl_id l))), (''aggregate_id'', DStr (ev_uuid_str ev (dl_aggregate_id l))),
     (''event_type'', DStr (dl_event_type l)), (''failure_reason'', DStr (dl_failure_reason l)),
     (''failed_at'', DStr (time_Format (dl_failed_at l)))] @
     time_field ''resolved_at'' (dl_resolved_at l) @ omitempty ''resolved_by'' (dl_resolved_by l))"

definition letter_filter :: "env \<Rightarrow> request \<Rightarrow> rejection + DeadLetterFilter" where
  "letter_filter ev r =
    sum_bind (param r ''date_from'' ParseRFC3339 ''invalid_date_from'' ''date_from must be RFC3339'') (\<lambda>from.
    sum_bind (param r ''date_to'' ParseRFC3339 ''invalid_date_to'' ''date_to must be RFC3339'') (\<lambda>to.
    sum_bind (param r ''limit'' limit_text ''invalid_limit'' ''limit must be between 1 and 100'') (\<lambda>lim.
    Inr (DeadLetterFilter.make (tenantIDFromCtx ev r)
      (if Query_Get r ''resolved'' = '''' then None else Some (Query_Get r ''resolved'' = ''true''))
      (text_param r ''event_type'') from to (case lim of None \<Rightarrow> 50 | Some v \<Rightarrow> v)))))"

definition DeadLetterHandler_List :: "env \<Rightarrow> handler" where
  "DeadLetterHandler_List ev r = authenticated r (\<lambda>_. case letter_filter ev r of
       Inl (status, code, message) \<Rightarrow> writeError r status code message
     | Inr f \<Rightarrow> catch (on_world (ListDeadLetters f)) (\<lambda>e. writeError r 500 ''list_failed'' (err_msg e))
         (\<lambda>letters. writeJSON r 200 (DArr (map (letterResponse ev) letters))))"

text \<open>The body is decoded for the reason, and an error in it is ignored; the reason is only logged.\<close>

definition DeadLetterHandler_Replay :: "env \<Rightarrow> handler" where
  "DeadLetterHandler_Replay ev r = authenticated r (\<lambda>p. case ev_uuid_parse ev (PathValue r ''id'') of
       None \<Rightarrow> writeError r 400 ''invalid_id'' ''id must be a valid UUID''
     | Some i \<Rightarrow> catch (on_world (ReplayDeadLetter ev (tenantIDFromCtx ev r) i (pr_UserID p)))
         (\<lambda>e. if contains ''not found'' (err_msg e) then writeError r 404 ''not_found'' ''dead letter not found''
              else writeError r 500 ''replay_failed'' (err_msg e))
         (\<lambda>newID. writeJSON r 200 (DObj [(''new_event_id'', DStr (ev_uuid_str ev newID))])))"

subsection \<open>Disputes (dispute.go)\<close>

definition toDisputeResponse :: "env \<Rightarrow> int \<Rightarrow> Dispute \<Rightarrow> doc" where
  "toDisputeResponse ev now d = DObj ([(''id'', DStr (ev_uuid_str ev (dp_ID d))), (''transaction_id'', DStr (ev_uuid_str ev (dp_TransactionID d))),
     (''gateway_id'', DStr (dp_GatewayID d)), (''reason'', DStr (dp_Reason d)), (''status'', DStr (dispute_status_str (dp_Status d))),
     (''amount'', DInt (dp_Amount d)), (''currency'', DStr (dp_Currency d))] @
     seconds_field ''evidence_due_by'' (dp_EvidenceDueBy d) @ seconds_field ''evidence_submitted_at'' (dp_EvidenceSubmittedAt d) @
     [(''created_at'', DStr (time_Format (dp_CreatedAt d)))] @ seconds_field ''resolved_at'' (dp_ResolvedAt d) @
     [(''is_urgent'', DBool (IsUrgent d 7 now))] @
     (case DaysUntilDue d now of None \<Rightarrow> [] | Some n \<Rightarrow> [(''days_until_due'', DInt n)]))"

definition toEvidenceResponse :: "env \<Rightarrow> Evidence \<Rightarrow> doc" where
  "toEvidenceResponse ev e = DObj ([(''id'', DStr (ev_uuid_str ev (evd_ID e))), (''dispute_id'', DStr (ev_uuid_str ev (evd_DisputeID e))),
     (''evidence_type'', DStr (evd_Type e)), (''file_url'', DStr (evd_FileURL e))] @ omitempty ''notes'' (evd_Notes e) @
     seconds_field ''submitted_at'' (Some (evd_SubmittedAt e)))"

definition dispute_filter :: "env \<Rightarrow> request \<Rightarrow> rejection + DisputeFilters" where
  "dispute_filter ev r =
    sum_bind (param r ''date_from'' ParseRFC3339 ''invalid_from'' ''from must be RFC3339'') (\<lambda>from.
    sum_bind (param r ''date_to'' ParseRFC3339 ''invalid_to'' ''to must be RFC3339'') (\<lambda>to.
    Inr (DisputeFilters.make (tenantIDFromCtx ev r) (map_option dispute_status (text_param r ''status'')) (text_param r ''gateway_id'')
      from to 50 0)))"

definition DisputeHandler_List :: "env \<Rightarrow> handler" where
  "DisputeHandler_List ev r = authenticated r (\<lambda>_. case dispute_filter ev r of
       Inl (status, code, message) \<Rightarrow> writeError r status code message
     | Inr f \<Rightarrow> catch (on_world (ListDisputes f)) (\<lambda>_. writeError r 500 ''list_failed'' ''could not list disputes'') (\<lambda>ds.
         bindE (on_world Now) (\<lambda>now. writeJSON r 200 (DArr (map (toDisputeResponse ev now) ds)))))"

definition with_id :: "env \<Rightarrow> request \<Rightarrow> (uuid \<Rightarrow> response srv) \<Rightarrow> response srv" where
  "with_id ev r k = (case ev_uuid_parse ev (PathValue r ''id'') of
       None \<Rightarrow> writeError r 400 ''invalid_id'' ''id must be a valid UUID'' | Some i \<Rightarrow> k i)"

definition DisputeHandler_Get :: "env \<Rightarrow> handler" where
  "DisputeHandler_Get ev r = authenticated r (\<lambda>_. with_id ev r (\<lambda>i.
     catch (on_world (GetDispute (tenantIDFromCtx ev r) i)) (\<lambda>_. writeError r 404 ''not_found'' ''dispute not found'') (\<lambda>d.
       bindE (on_world Now) (\<lambda>now. writeJSON r 200 (toDisputeResponse ev now d)))))"

record evidenceRequest =
  evq_Type :: string
  evq_FileURL :: string
  evq_Notes :: string

definition dec_evidenceRequest :: "evidenceRequest decoder" where
  "dec_evidenceRequest x = (case dec_fields x of (fs, g) \<Rightarrow>
     let (t, g1) = dec_str (field ''evidence_type'' fs); (u, g2) = dec_str (field ''file_url'' fs); (n, g3) = dec_str (field ''notes'' fs)
     in (\<lparr> evq_Type = t, evq_FileURL = u, evq_Notes = n \<rparr>, g \<and> g1 \<and> g2 \<and> g3))"

text \<open>\<open>SubmitEvidence\<close> sets the dispute of the evidence, which the response shows.\<close>

definition DisputeHandler_SubmitEvidence :: "server \<Rightarrow> env \<Rightarrow> handler" where
  "DisputeHandler_SubmitEvidence sv ev r = authenticated r (\<lambda>_. with_id ev r (\<lambda>i.
     case Decode (sv_codec sv) dec_evidenceRequest r of
       (_, False) \<Rightarrow> writeError r 400 ''invalid_json'' ''request body must be valid JSON''
     | (req, True) \<Rightarrow>
         if evq_Type req = '''' \<or> evq_FileURL req = '''' then writeError r 400 ''missing_fields'' ''evidence_type and file_url are required''
         else bindE (on_world (NewUUID ev)) (\<lambda>eid. bindE (on_world Now) (\<lambda>now.
           let e = \<lparr> evd_ID = eid, evd_DisputeID = uuid_Nil, evd_Type = evq_Type req, evd_FileURL = evq_FileURL req, evd_Notes = evq_Notes req,
                     evd_SubmittedAt = now \<rparr>
           in catch (on_world (SubmitEvidence (tenantIDFromCtx ev r) i e))
             (\<lambda>x. if errors_Is x ErrDisputeNotFound then writeError r 404 ''not_found'' ''dispute not found''
                  else writeError r 409 ''submit_failed'' (err_msg x))
             (\<lambda>_. writeJSON r 201 (toEvidenceResponse ev (e \<lparr> evd_DisputeID := i \<rparr>)))))))"

definition DisputeHandler_ListEvidence :: "env \<Rightarrow> handler" where
  "DisputeHandler_ListEvidence ev r = authenticated r (\<lambda>_. with_id ev r (\<lambda>i.
     catch (on_world (ListEvidence (tenantIDFromCtx ev r) i))
       (\<lambda>x. if errors_Is x ErrDisputeNotFound then writeError r 404 ''not_found'' ''dispute not found''
            else writeError r 500 ''list_failed'' ''could not list evidence'')
       (\<lambda>es. writeJSON r 200 (DArr (map (toEvidenceResponse ev) es)))))"

subsection \<open>Reconciliation (reconciliation.go)\<close>

definition reconActor :: "request \<Rightarrow> string" where
  "reconActor r = (case r_Principal r of None \<Rightarrow> ''ops''
     | Some p \<Rightarrow> if pr_Role p = RoleOps then ''ops'' else ''service:'' @ pr_TenantID p)"

definition reconcileTenantID :: "env \<Rightarrow> request \<Rightarrow> string option \<Rightarrow> uuid option" where
  "reconcileTenantID ev r requested =
    (case r_Principal r of
       Some p \<Rightarrow> if pr_Role p = RoleOps then Option.bind requested (ev_uuid_parse ev) else ev_uuid_parse ev (pr_TenantID p)
     | None \<Rightarrow> Option.bind requested (ev_uuid_parse ev))"

record createJobRequest =
  cjr_GatewayID :: string
  cjr_TenantID :: "string option"
  cjr_PeriodStart :: "string option"
  cjr_PeriodEnd :: "string option"
  cjr_TransactionID :: "string option"

definition dec_createJobRequest :: "createJobRequest decoder" where
  "dec_createJobRequest x = (case dec_fields x of (fs, g) \<Rightarrow>
     let (gid, g1) = dec_str (field ''gateway_id'' fs); (tn, g2) = dec_ptr dec_str (field ''tenant_id'' fs);
         (ps, g3) = dec_ptr dec_str (field ''period_start'' fs); (pe, g4) = dec_ptr dec_str (field ''period_end'' fs);
         (tx, g5) = dec_ptr dec_str (field ''transaction_id'' fs)
     in (\<lparr> cjr_GatewayID = gid, cjr_TenantID = tn, cjr_PeriodStart = ps, cjr_PeriodEnd = pe, cjr_TransactionID = tx \<rparr>,
         g \<and> g1 \<and> g2 \<and> g3 \<and> g4 \<and> g5))"

text \<open>The scope of a job: one payment, or a period.\<close>

definition job_scope :: "env \<Rightarrow> createJobRequest \<Rightarrow> rejection + (int option \<times> int option \<times> uuid option)" where
  "job_scope ev req = (case cjr_TransactionID req of
       Some t \<Rightarrow> (case ev_uuid_parse ev t of None \<Rightarrow> Inl (400, ''invalid_transaction_id'', ''invalid transaction_id'') | Some i \<Rightarrow> Inr (None, None, Some i))
     | None \<Rightarrow> (case (cjr_PeriodStart req, cjr_PeriodEnd req) of
           (Some a, Some b) \<Rightarrow> (case ParseRFC3339 a of
               None \<Rightarrow> Inl (400, ''invalid_period_start'', ''invalid period_start format'')
             | Some ps \<Rightarrow> (case ParseRFC3339 b of
                 None \<Rightarrow> Inl (400, ''invalid_period_end'', ''invalid period_end format'')
               | Some pe \<Rightarrow> Inr (Some ps, Some pe, None)))
         | _ \<Rightarrow> Inl (400, ''missing_period'', ''period_start and period_end are required for batch jobs'')))"

definition or_null :: "('a \<Rightarrow> doc) \<Rightarrow> 'a option \<Rightarrow> doc" where
  "or_null f x = (case x of None \<Rightarrow> DNull | Some a \<Rightarrow> f a)"

abbreviation time_doc :: "int \<Rightarrow> doc" where "time_doc t \<equiv> DStr (time_Format t)"

definition job_doc :: "env \<Rightarrow> ReconJob \<Rightarrow> doc" where
  "job_doc ev j = (let uid = (\<lambda>u. DStr (ev_uuid_str ev u)) in
     DObj [(''ID'', uid (rj_ID j)), (''GatewayID'', DStr (rj_GatewayID j)), (''TenantID'', or_null uid (rj_TenantID j)),
       (''TransactionID'', or_null uid (rj_TransactionID j)), (''PeriodStart'', or_null time_doc (rj_PeriodStart j)),
       (''PeriodEnd'', or_null time_doc (rj_PeriodEnd j)), (''Status'', DStr (rj_Status j)), (''TriggeredBy'', DStr (rj_TriggeredBy j)),
       (''Actor'', DStr (rj_Actor j)), (''MismatchCount'', DInt (rj_MismatchCount j)), (''Error'', DStr (rj_Error j)),
       (''StartedAt'', or_null time_doc (rj_StartedAt j)), (''CompletedAt'', or_null time_doc (rj_CompletedAt j)),
       (''CreatedAt'', time_doc (rj_CreatedAt j))])"

definition entry_doc :: "env \<Rightarrow> ReconEntry \<Rightarrow> doc" where
  "entry_doc ev e = (let uid = (\<lambda>u. DStr (ev_uuid_str ev u)) in
     DObj [(''ID'', uid (re_ID e)), (''JobID'', uid (re_JobID e)), (''TransactionID'', uid (re_TransactionID e)),
       (''InternalStatus'', DStr (re_InternalStatus e)), (''GatewayStatus'', DStr (re_GatewayStatus e)),
       (''InternalAmount'', DInt (re_InternalAmount e)), (''GatewayAmount'', DInt (re_GatewayAmount e)),
       (''InternalFees'', or_null DInt (re_InternalFees e)), (''GatewayFees'', or_null DInt (re_GatewayFees e)),
       (''FXRateApplied'', or_null DFloat (re_FXRateApplied e)), (''FXRateAtSettlement'', or_null DFloat (re_FXRateAtSettlement e)),
       (''FeeMismatchReason'', DStr (re_FeeMismatchReason e)), (''MismatchType'', DStr (mismatch_str (re_MismatchType e))),
       (''ResolutionStatus'', DStr (re_ResolutionStatus e)), (''ResolvedBy'', DStr (re_ResolvedBy e)),
       (''ResolvedAt'', or_null time_doc (re_ResolvedAt e)), (''Notes'', DStr (re_Notes e)),
       (''AutoResolutionAction'', DStr (re_AutoResolutionAction e)), (''AutoResolutionAt'', or_null time_doc (re_AutoResolutionAt e)),
       (''AutoResolutionBy'', DStr (re_AutoResolutionBy e)), (''CreatedAt'', time_doc (re_CreatedAt e))])"

text \<open>A slice without elements is \<open>nil\<close> there and prints as \<open>null\<close>.\<close>

definition slice_doc :: "doc list \<Rightarrow> doc" where
  "slice_doc xs = (if xs = [] then DNull else DArr xs)"

definition ReconciliationHandler_CreateJob :: "server \<Rightarrow> env \<Rightarrow> handler" where
  "ReconciliationHandler_CreateJob sv ev r = (case Decode (sv_codec sv) dec_createJobRequest r of
       (_, False) \<Rightarrow> writeError r 400 ''invalid_body'' ''invalid request body''
     | (req, True) \<Rightarrow>
         if cjr_GatewayID req = '''' then writeError r 400 ''missing_gateway_id'' ''gateway_id is required''
         else case job_scope ev req of
             Inl (status, code, message) \<Rightarrow> writeError r status code message
           | Inr (periodStart, periodEnd, txnID) \<Rightarrow> (case reconcileTenantID ev r (cjr_TenantID req) of
               None \<Rightarrow> writeError r 400 ''missing_tenant_id'' ''tenant_id is required for reconciliation jobs''
             | Some tenantID \<Rightarrow> catch (on_world (recon_CreateJob ev (cjr_GatewayID req) (Some tenantID) periodStart periodEnd txnID (reconActor r)))
                 (\<lambda>_. writeError r 500 ''create_job_failed'' ''could not create reconciliation job'')
                 (\<lambda>job. writeJSON r 201 (job_doc ev job))))"

definition with_job_id :: "env \<Rightarrow> request \<Rightarrow> (uuid \<Rightarrow> response srv) \<Rightarrow> response srv" where
  "with_job_id ev r k = (case ev_uuid_parse ev (PathValue r ''id'') of
       None \<Rightarrow> writeError r 400 ''invalid_id'' ''invalid job id'' | Some i \<Rightarrow> k i)"

definition ReconciliationHandler_RunJob :: "server \<Rightarrow> env \<Rightarrow> handler" where
  "ReconciliationHandler_RunJob sv ev r = with_job_id ev r (\<lambda>i.
     catch (on_world (RunJob ev (sv_settlement sv) (reconActor r) i))
       (\<lambda>e. if errors_Is e ErrJobNotFound then writeError r 404 ''not_found'' ''reconciliation job not found''
            else writeError r 500 ''run_job_failed'' ''could not run reconciliation job'')
       (\<lambda>_. writeJSON r 200 (DObj [(''status'', DStr ''completed'')])))"

definition ReconciliationHandler_GetJob :: "env \<Rightarrow> handler" where
  "ReconciliationHandler_GetJob ev r = with_job_id ev r (\<lambda>i.
     catch (on_world (recon_GetJob ev (reconActor r) i)) (\<lambda>_. writeError r 404 ''not_found'' ''reconciliation job not found'')
       (\<lambda>job. writeJSON r 200 (job_doc ev job)))"

definition ReconciliationHandler_ListJobs :: "env \<Rightarrow> handler" where
  "ReconciliationHandler_ListJobs ev r =
     catch (on_world (recon_ListJobs ev \<lparr> jf_Actor = (if reconActor r = ''ops'' then None else Some (reconActor r)), jf_TenantID = None,
         jf_GatewayID = text_param r ''gateway_id'', jf_Status = text_param r ''status'', jf_TransactionID = None,
         jf_DateFrom = None, jf_DateTo = None, jf_Limit = 50, jf_Offset = 0 \<rparr>))
       (\<lambda>_. writeError r 500 ''list_jobs_failed'' ''could not list reconciliation jobs'')
       (\<lambda>jobs. writeJSON r 200 (slice_doc (map (job_doc ev) jobs)))"

definition ReconciliationHandler_GetEntries :: "env \<Rightarrow> handler" where
  "ReconciliationHandler_GetEntries ev r = with_job_id ev r (\<lambda>i.
     catch (on_world (recon_GetEntries ev (reconActor r) i \<lparr> ef_MismatchType = text_param r ''mismatch_type'',
         ef_ResolutionStatus = text_param r ''resolution_status'', ef_Limit = 100, ef_Offset = 0 \<rparr>))
       (\<lambda>e. if errors_Is e ErrJobNotFound then writeError r 404 ''not_found'' ''reconciliation job not found''
            else writeError r 500 ''list_entries_failed'' ''could not list reconciliation entries'')
       (\<lambda>es. writeJSON r 200 (slice_doc (map (entry_doc ev) es))))"

definition dec_resolveEntryRequest :: "string decoder" where
  "dec_resolveEntryRequest x = (case dec_fields x of (fs, g) \<Rightarrow> case dec_str (field ''notes'' fs) of (n, g1) \<Rightarrow> (n, g \<and> g1))"

definition ReconciliationHandler_ResolveEntry :: "server \<Rightarrow> env \<Rightarrow> handler" where
  "ReconciliationHandler_ResolveEntry sv ev r = (case ev_uuid_parse ev (PathValue r ''entry_id'') of
       None \<Rightarrow> writeError r 400 ''invalid_entry_id'' ''invalid entry id''
     | Some entryID \<Rightarrow> (case Decode (sv_codec sv) dec_resolveEntryRequest r of
         (_, False) \<Rightarrow> writeError r 400 ''invalid_body'' ''invalid request body''
       | (notes, True) \<Rightarrow> catch (on_world (ResolveEntry ev (reconActor r) entryID (reconActor r) notes))
           (\<lambda>e. if errors_Is e ErrJobNotFound then writeError r 404 ''not_found'' ''reconciliation entry not found''
                else writeError r 500 ''resolve_failed'' ''could not resolve entry'')
           (\<lambda>_. writeJSON r 200 (DObj [(''status'', DStr ''resolved'')]))))"

subsection \<open>Webhook endpoints of tenants (tenant_webhook.go)\<close>

definition redactSecret :: "string \<Rightarrow> string" where
  "redactSecret secret = (if secret = '''' then '''' else if length secret \<le> 4 then ''****''
     else ''****'' @ drop (length secret - 4) secret)"

definition twhConfigResponse :: "env \<Rightarrow> uuid \<times> TenantWebhookConfig \<Rightarrow> doc" where
  "twhConfigResponse ev x = (case x of (t, c) \<Rightarrow> DObj [(''tenant_id'', DStr (ev_uuid_str ev t)), (''endpoint_url'', DStr (twc_EndpointURL c)),
     (''signing_secret'', DStr (redactSecret (twc_SigningSecret c))), (''is_active'', DBool (twc_IsActive c))])"

definition TenantWebhookConfigHandler_List :: "env \<Rightarrow> handler" where
  "TenantWebhookConfigHandler_List ev r = authenticated r (\<lambda>_.
     catch (if tenantIDFromCtx ev r \<noteq> uuid_Nil then twc_ListByTenant (tenantIDFromCtx ev r) else twc_List)
       (\<lambda>_. writeError r 500 ''list_failed'' ''could not list webhook configs'')
       (\<lambda>cs. writeJSON r 200 (DArr (map (twhConfigResponse ev) cs))))"

record twhConfigRequest =
  twq_EndpointURL :: string
  twq_SigningSecret :: string
  twq_IsActive :: "bool option"

definition dec_twhConfigRequest :: "twhConfigRequest decoder" where
  "dec_twhConfigRequest x = (case dec_fields x of (fs, g) \<Rightarrow>
     let (u, g1) = dec_str (field ''endpoint_url'' fs); (s, g2) = dec_str (field ''signing_secret'' fs);
         (a, g3) = dec_ptr dec_bool (field ''is_active'' fs)
     in (\<lparr> twq_EndpointURL = u, twq_SigningSecret = s, twq_IsActive = a \<rparr>, g \<and> g1 \<and> g2 \<and> g3))"

definition active_or_default :: "bool option \<Rightarrow> bool" where
  "active_or_default a = (case a of None \<Rightarrow> True | Some b \<Rightarrow> b)"

definition TenantWebhookConfigHandler_Upsert :: "server \<Rightarrow> env \<Rightarrow> handler" where
  "TenantWebhookConfigHandler_Upsert sv ev r = authenticated r (\<lambda>_. case ev_uuid_parse ev (PathValue r ''tenant_id'') of
       None \<Rightarrow> writeError r 400 ''invalid_tenant_id'' ''tenant_id must be a valid UUID''
     | Some tenantID \<Rightarrow>
         if tenantIDFromCtx ev r \<noteq> uuid_Nil \<and> tenantIDFromCtx ev r \<noteq> tenantID
         then writeError r 403 ''forbidden'' ''cannot manage another tenant's webhook config''
         else case Decode (sv_codec sv) dec_twhConfigRequest r of
             (_, False) \<Rightarrow> writeError r 400 ''invalid_json'' ''request body must be valid JSON''
           | (req, True) \<Rightarrow>
               if twq_EndpointURL req = '''' then writeError r 400 ''missing_endpoint_url'' ''endpoint_url is required''
               else let cfg = \<lparr> twc_EndpointURL = twq_EndpointURL req, twc_SigningSecret = twq_SigningSecret req,
                                twc_IsActive = active_or_default (twq_IsActive req) \<rparr>
                    in catch (twc_Upsert tenantID cfg) (\<lambda>_. writeError r 500 ''upsert_failed'' ''could not upsert webhook config'')
                         (\<lambda>_. writeJSON r 200 (twhConfigResponse ev (tenantID, cfg))))"

subsection \<open>Gateways of tenants (tenant_gateway.go)\<close>

definition checkAuth :: "request \<Rightarrow> string \<Rightarrow> response srv \<Rightarrow> response srv" where
  "checkAuth r tenantID k = (case r_Principal r of
       None \<Rightarrow> writeError r 401 ''unauthorized'' ''missing authentication''
     | Some p \<Rightarrow> if pr_Role p = RoleOps then k
         else if pr_TenantID p \<noteq> tenantID then writeError r 403 ''forbidden'' ''cannot access other tenant's resources'' else k)"

definition with_tenant_id :: "env \<Rightarrow> request \<Rightarrow> (uuid \<Rightarrow> response srv) \<Rightarrow> response srv" where
  "with_tenant_id ev r k = checkAuth r (PathValue r ''tenant_id'') (case ev_uuid_parse ev (PathValue r ''tenant_id'') of
       None \<Rightarrow> writeError r 400 ''invalid_tenant_id'' ''tenant_id must be a valid UUID'' | Some t \<Rightarrow> k t)"

definition tenantGatewayResponse :: "TenantGatewayConfig \<Rightarrow> doc" where
  "tenantGatewayResponse c = DObj [(''gateway_id'', DStr (tgc_GatewayID c)), (''provider'', DStr (tgc_Provider c)),
     (''is_active'', DBool (tgc_IsActive c))]"

definition TenantGatewayHandler_List :: "server \<Rightarrow> env \<Rightarrow> handler" where
  "TenantGatewayHandler_List sv ev r = with_tenant_id ev r (\<lambda>t.
     catch (tenant_ListByTenant sv ev t) (\<lambda>_. writeError r 500 ''list_failed'' ''could not list tenant gateways'')
       (\<lambda>cs. writeJSON r 200 (DArr (map tenantGatewayResponse cs))))"

definition with_gateway_id :: "request \<Rightarrow> (string \<Rightarrow> response srv) \<Rightarrow> response srv" where
  "with_gateway_id r k = (if PathValue r ''gateway_id'' = '''' then writeError r 400 ''missing_gateway_id'' ''gateway_id is required''
     else k (PathValue r ''gateway_id''))"

definition TenantGatewayHandler_Get :: "server \<Rightarrow> env \<Rightarrow> handler" where
  "TenantGatewayHandler_Get sv ev r = with_tenant_id ev r (\<lambda>t. with_gateway_id r (\<lambda>g.
     catch (tenant_Get sv ev t g) (\<lambda>_. writeError r 404 ''not_found'' ''tenant gateway config not found'')
       (\<lambda>c. writeJSON r 200 (tenantGatewayResponse c))))"

text \<open>\<open>json.RawMessage\<close> is the text of the value; a missing field leaves it empty.\<close>

record upsertTenantGatewayRequest =
  utg_GatewayID :: string
  utg_Provider :: string
  utg_Config :: string
  utg_IsActive :: "bool option"

definition dec_upsertTenantGatewayRequest :: "codec \<Rightarrow> upsertTenantGatewayRequest decoder" where
  "dec_upsertTenantGatewayRequest cd x = (case dec_fields x of (fs, g) \<Rightarrow>
     let (gid, g1) = dec_str (field ''gateway_id'' fs); (p, g2) = dec_str (field ''provider'' fs);
         c = (case field ''config'' fs of None \<Rightarrow> '''' | Some v \<Rightarrow> cd_text cd v); (a, g3) = dec_ptr dec_bool (field ''is_active'' fs)
     in (\<lparr> utg_GatewayID = gid, utg_Provider = p, utg_Config = c, utg_IsActive = a \<rparr>, g \<and> g1 \<and> g2 \<and> g3))"

definition upsert_gateway :: "server \<Rightarrow> env \<Rightarrow> request \<Rightarrow> uuid \<Rightarrow> upsertTenantGatewayRequest \<Rightarrow> response srv" where
  "upsert_gateway sv ev r tenantID req =
    (if utg_GatewayID req = '''' then writeError r 400 ''missing_gateway_id'' ''gateway_id is required''
     else if utg_Provider req = '''' then writeError r 400 ''missing_provider'' ''provider is required''
     else if \<not> ValidProvider (utg_Provider req) then writeError r 400 ''invalid_provider'' ''provider must be one of: stripe, razorpay''
     else if utg_Config req = '''' then writeError r 400 ''missing_config'' ''config payload is required''
     else let active = active_or_default (utg_IsActive req)
     in catch (tenant_Upsert sv ev \<lparr> tgr_tenant_id = tenantID, tgr_gateway_id = utg_GatewayID req, tgr_provider = utg_Provider req,
            tgr_encrypted_config = utg_Config req, tgr_config_version = 0, tgr_is_active = active \<rparr>)
          (\<lambda>_. writeError r 500 ''upsert_failed'' ''could not save tenant gateway config'')
          (\<lambda>_. writeJSON r 200 (DObj [(''gateway_id'', DStr (utg_GatewayID req)), (''provider'', DStr (utg_Provider req)), (''is_active'', DBool active)])))"

definition TenantGatewayHandler_Upsert :: "server \<Rightarrow> env \<Rightarrow> handler" where
  "TenantGatewayHandler_Upsert sv ev r = with_tenant_id ev r (\<lambda>t.
     case Decode (sv_codec sv) (dec_upsertTenantGatewayRequest (sv_codec sv)) r of
       (_, False) \<Rightarrow> writeError r 400 ''invalid_json'' ''request body must be valid JSON''
     | (req, True) \<Rightarrow> upsert_gateway sv ev r t req)"

definition TenantGatewayHandler_Delete :: "env \<Rightarrow> handler" where
  "TenantGatewayHandler_Delete ev r = with_tenant_id ev r (\<lambda>t. with_gateway_id r (\<lambda>g.
     catch (tenant_Delete t g) (\<lambda>_. writeError r 500 ''delete_failed'' ''could not delete tenant gateway config'')
       (\<lambda>_. ok \<lparr> rs_Status = 204, rs_Headers = [], rs_Body = NoBody \<rparr>)))"

subsection \<open>Gateways and health (gateway.go, health.go)\<close>

definition containsCurrency :: "string list \<Rightarrow> string \<Rightarrow> bool" where
  "containsCurrency currencies target = list_ex (\<lambda>c. EqualFold c target) currencies"

text \<open>\<open>gateway.Service.ListActiveGateways\<close>\<close>

definition ListActiveGateways :: "server \<Rightarrow> GatewayConfig list srv" where
  "ListActiveGateways sv = bindE (wrapE ''gateway: list active gateways'' (lift (sv_gateways sv))) (\<lambda>cfgs s.
     let w = a_world s in case routable_gateways gcf_GatewayID (w_clock w) (map Some cfgs) (w_cb w) of
       (out, cb) \<Rightarrow> (Inr out, s \<lparr> a_world := w \<lparr> w_cb := cb \<rparr> \<rparr>))"

definition method_fees :: "env \<Rightarrow> string \<Rightarrow> int \<Rightarrow> CurrencyRate list \<Rightarrow> string \<Rightarrow> string \<Rightarrow> (string \<times> doc) list" where
  "method_fees ev currency amount rates gid meth = (case ev_fee_model ev gid meth of
       Inr (Some fm) \<Rightarrow> (let (fixedFee, ratio) = model_fees fm
         in case Calculate amount currency (charges_currency fm currency) fixedFee ratio rates of
              Inl _ \<Rightarrow> []
            | Inr bd \<Rightarrow> (case Validate (Some bd) of Inl _ \<Rightarrow> [] | Inr _ \<Rightarrow> [(meth, breakdown_doc bd)]))
     | _ \<Rightarrow> [])"

definition gateway_doc :: "env \<Rightarrow> string \<Rightarrow> int \<Rightarrow> CurrencyRate list \<Rightarrow> GatewayConfig \<Rightarrow> doc" where
  "gateway_doc ev currency amount rates c =
    (let strs = (\<lambda>xs. slice_doc (map DStr xs));
         bds = (if currency \<noteq> '''' \<and> amount > 0 \<and> containsCurrency (gcf_SupportedCurrencies c) currency
                then concat (map (method_fees ev currency amount rates (gcf_GatewayID c)) (gcf_SupportedMethods c)) else [])
     in DObj ([(''gateway_id'', DStr (gcf_GatewayID c)), (''display_name'', DStr (gcf_DisplayName c)),
          (''supported_methods'', strs (gcf_SupportedMethods c)), (''supported_currencies'', strs (gcf_SupportedCurrencies c))] @
          (if bds = [] then [] else [(''fee_breakdowns'', DObj bds)])))"

definition GatewayHandler_List :: "server \<Rightarrow> env \<Rightarrow> handler" where
  "GatewayHandler_List sv ev r =
    (let currency = ToUpper (TrimSpace (Query_Get r ''currency''));
         amount = (if Query_Get r ''amount'' = '''' then 0 else fst (ParseInt (Query_Get r ''amount'')));
         tenantID = tenantIDFromCtx ev r;
         rates = (if currency \<noteq> '''' \<and> amount > 0 \<and> tenantID \<noteq> uuid_Nil
                  then (case ev_currency_rates ev tenantID of Inl _ \<Rightarrow> [] | Inr rs \<Rightarrow> rs) else [])
     in catch (ListActiveGateways sv) (\<lambda>_. writeError r 500 ''gateway_list_failed'' ''could not list gateways'')
          (\<lambda>cfgs. writeJSON r 200 (DArr (map (gateway_doc ev currency amount rates) cfgs))))"

text \<open>The checks that the server installs: the database, and the two clients of Valkey.\<close>

definition pings :: "(string \<times> unit srv) list" where
  "pings = [(''database'', on_world answer), (''valkey'', \<lambda>s. if \<not> ls_up (a_limits s) then (Inl (Errorf ''valkey: rate_limit ping''), s)
     else if \<not> a_cache_up s then (Inl (Errorf ''valkey: cache ping''), s) else (Inr (), s))]"

fun run_checks :: "(string \<times> unit srv) list \<Rightarrow> (string \<times> bool) list srv" where
  "run_checks [] = ok []"
| "run_checks ((name, ping) # cs) = bindE (attempt ping) (\<lambda>res. bindE (run_checks cs) (\<lambda>rest. ok ((name, res = Inr ()) # rest)))"

definition HealthHandler_Health :: handler where
  "HealthHandler_Health r = bindE (run_checks pings) (\<lambda>components.
     let healthy = list_all snd components; word = (\<lambda>b. DStr (if b then ''healthy'' else ''unhealthy''))
     in writeJSON r (if healthy then 200 else 503) (DObj [(''status'', word healthy),
          (''components'', DObj (map (\<lambda>(n, b). (n, word b)) components))]))"

subsection \<open>The server on the stored configuration\<close>

text \<open>The server whose services and gateway list are answered by the configuration store: what it offers is active.\<close>

definition config_server :: "config_state \<Rightarrow> server \<Rightarrow> server" where
  "config_server cs sv = sv \<lparr> sv_env := (\<lambda>s. config_env cs (sv_env sv s)), sv_gateways := fst (stored_ListActiveGateways cs) \<rparr>"

lemma routable_gateways_subset: "Some ` set (fst (routable_gateways gid now cfgs s)) \<subseteq> set cfgs"
proof (induction cfgs arbitrary: s)
  case (Cons x cfgs)
  show ?case
  proof (cases x)
    case (Some c)
    obtain y s1 where y: "IsRoutable (gid c) now s = (y, s1)" by fastforce
    from Cons.IH [of s1] show ?thesis by (cases y) (auto simp: Some y image_subset_iff split: prod.splits)
  qed (use Cons.IH in auto)
qed simp

lemma stored_gateways_active:
  assumes "fst (stored_ListActiveGateways cs) = Inr out" "c \<in> set out"
  shows "gcf_IsActive c \<and> (\<exists>row \<in> set (cd_gateways (cs_db cs)). gr_is_active row \<and> gr_gateway_id row = gcf_GatewayID c)"
  using assms
  by (auto 0 4 simp: stored_ListActiveGateways_def bindE_def wrapE_def cfg_query_def ok_def scanGatewayConfig_def split: if_splits prod.splits sum.splits)

lemma offered_gateways_active:
  assumes "fst (ListActiveGateways (config_server cs sv) s) = Inr out" "c \<in> set out"
  shows "gcf_IsActive c \<and> (\<exists>row \<in> set (cd_gateways (cs_db cs)). gr_is_active row \<and> gr_gateway_id row = gcf_GatewayID c)"
proof -
  from assms(1) obtain cfgs where cfgs: "fst (stored_ListActiveGateways cs) = Inr cfgs"
    and out: "fst (routable_gateways gcf_GatewayID (w_clock (a_world s)) (map Some cfgs) (w_cb (a_world s))) = out"
    by (auto simp: ListActiveGateways_def config_server_def bindE_def wrapE_def lift_def Let_def split: sum.splits prod.splits)
  have "c \<in> set cfgs" using routable_gateways_subset [of gcf_GatewayID "w_clock (a_world s)" "map Some cfgs" "w_cb (a_world s)"] assms(2)
    unfolding out by auto
  with stored_gateways_active [OF cfgs] show ?thesis .
qed

end
