(* ===== verification/Api.thy ===== *)
theory Api
  imports Ops_Api
begin

section \<open>The router (internal/api/router.go)\<close>

text \<open>
  The routes, how \<open>http.ServeMux\<close> picks one, and the chain of middleware around it. A pattern matches the
  unescaped segments of the path; a variable takes one segment that is neither empty nor a slash. Of two patterns that
  match, the one with the literal comes first, which concerns \<open>/pay/success\<close> and \<open>/pay/failure\<close> alone. \<open>HEAD\<close> may use a
  route for \<open>GET\<close>. \<open>GET /\<close> takes every other \<open>GET\<close>, so that any other method on an unknown path is not allowed. A path that
  is not clean is answered with a redirection (its \<open>Location\<close> and body are left out). \<open>TraceID\<close>, \<open>Tracing\<close> and
  \<open>RequestLog\<close> only observe and are not in the chain. The theorems say what a caller can reach with
  which token.
\<close>

datatype pattern_segment = Lit string | Var string

type_synonym pattern = "string \<times> pattern_segment list"

fun match_segments :: "pattern_segment list \<Rightarrow> string list \<Rightarrow> (string \<times> string) list option" where
  "match_segments [] [] = Some []"
| "match_segments (Lit l # ps) (s # ss) = (if s = l then match_segments ps ss else None)"
| "match_segments (Var v # ps) (s # ss) = (if s = '''' \<or> s = ''/'' then None else map_option (Cons (v, s)) (match_segments ps ss))"
| "match_segments _ _ = None"

definition method_allows :: "string \<Rightarrow> string \<Rightarrow> bool" where
  "method_allows meth m \<longleftrightarrow> m = meth \<or> (m = ''HEAD'' \<and> meth = ''GET'')"

fun find_route :: "(pattern \<times> 'h) list \<Rightarrow> string \<Rightarrow> string list \<Rightarrow> ((string \<times> string) list \<times> 'h) option" where
  "find_route [] m ss = None"
| "find_route (((meth, ps), h) # rest) m ss =
     (if method_allows meth m then (case match_segments ps ss of Some vs \<Rightarrow> Some (vs, h) | None \<Rightarrow> find_route rest m ss)
      else find_route rest m ss)"

definition favicon :: handler where
  "favicon r = ok \<lparr> rs_Status = 204, rs_Headers = [], rs_Body = NoBody \<rparr>"

abbreviation api_v1 :: "pattern_segment list \<Rightarrow> pattern_segment list" where
  "api_v1 ps \<equiv> Lit ''api'' # Lit ''v1'' # ps"

definition public_routes :: "server \<Rightarrow> (pattern \<times> (env \<Rightarrow> handler)) list" where
  "public_routes sv =
    [((''GET'', [Lit ''health'']), \<lambda>_. HealthHandler_Health),
     ((''GET'', [Lit ''favicon.ico'']), \<lambda>_. favicon),
     ((''GET'', [Lit ''pay'', Lit ''success'']), PayHandler_Success sv),
     ((''GET'', [Lit ''pay'', Lit ''failure'']), PayHandler_Failure sv),
     ((''GET'', [Lit ''pay'', Var ''transaction_id'']), PayHandler_ServeCheckout sv)]"

definition payment_routes :: "server \<Rightarrow> (pattern \<times> (env \<Rightarrow> handler)) list" where
  "payment_routes sv =
    [((''GET'', api_v1 [Lit ''payments'']), PaymentHandler_List),
     ((''POST'', api_v1 [Lit ''payments'']), PaymentHandler_Create sv),
     ((''GET'', api_v1 [Lit ''payments'', Var ''id'']), PaymentHandler_Get),
     ((''POST'', api_v1 [Lit ''payments'', Var ''id'', Lit ''authorize'']), PaymentHandler_Authorize),
     ((''POST'', api_v1 [Lit ''payments'', Var ''id'', Lit ''capture'']), PaymentHandler_Capture),
     ((''POST'', api_v1 [Lit ''payments'', Var ''id'', Lit ''settle'']), PaymentHandler_Settle)]"

definition tenant_routes :: "server \<Rightarrow> (pattern \<times> (env \<Rightarrow> handler)) list" where
  "tenant_routes sv =
    [((''GET'', api_v1 [Lit ''gateways'']), GatewayHandler_List sv),
     ((''GET'', api_v1 [Lit ''tenants'', Var ''tenant_id'', Lit ''gateways'']), TenantGatewayHandler_List sv),
     ((''GET'', api_v1 [Lit ''tenants'', Var ''tenant_id'', Lit ''gateways'', Var ''gateway_id'']), TenantGatewayHandler_Get sv),
     ((''POST'', api_v1 [Lit ''tenants'', Var ''tenant_id'', Lit ''gateways'']), TenantGatewayHandler_Upsert sv),
     ((''DELETE'', api_v1 [Lit ''tenants'', Var ''tenant_id'', Lit ''gateways'', Var ''gateway_id'']), TenantGatewayHandler_Delete)]"

definition action_routes :: "server \<Rightarrow> (pattern \<times> (env \<Rightarrow> handler)) list" where
  "action_routes sv =
    [((''POST'', api_v1 [Lit ''payments'', Var ''id'', Lit ''refunds'']), RefundHandler_Initiate sv),
     ((''POST'', api_v1 [Lit ''payments'', Var ''id'', Lit ''cancel'']), CancelHandler_Cancel),
     ((''GET'', api_v1 [Lit ''payments'', Var ''id'', Lit ''events'']), SSEHandler_Events),
     ((''POST'', [Lit ''webhooks'', Lit ''gateway'', Var ''gateway_id'']), WebhookHandler_Handle sv)]"

definition ops_routes :: "server \<Rightarrow> (pattern \<times> (env \<Rightarrow> handler)) list" where
  "ops_routes sv =
    [((''GET'', api_v1 [Lit ''disputes'']), DisputeHandler_List),
     ((''GET'', api_v1 [Lit ''disputes'', Var ''id'']), DisputeHandler_Get),
     ((''POST'', api_v1 [Lit ''disputes'', Var ''id'', Lit ''evidence'']), DisputeHandler_SubmitEvidence sv),
     ((''GET'', api_v1 [Lit ''disputes'', Var ''id'', Lit ''evidence'']), DisputeHandler_ListEvidence),
     ((''GET'', api_v1 [Lit ''dead-letters'']), DeadLetterHandler_List),
     ((''POST'', api_v1 [Lit ''dead-letters'', Var ''id'', Lit ''replay'']), DeadLetterHandler_Replay),
     ((''POST'', api_v1 [Lit ''reconciliation'', Lit ''jobs'']), ReconciliationHandler_CreateJob sv),
     ((''GET'', api_v1 [Lit ''reconciliation'', Lit ''jobs'']), ReconciliationHandler_ListJobs),
     ((''GET'', api_v1 [Lit ''reconciliation'', Lit ''jobs'', Var ''id'']), ReconciliationHandler_GetJob),
     ((''POST'', api_v1 [Lit ''reconciliation'', Lit ''jobs'', Var ''id'', Lit ''run'']), ReconciliationHandler_RunJob sv),
     ((''GET'', api_v1 [Lit ''reconciliation'', Lit ''jobs'', Var ''id'', Lit ''entries'']), ReconciliationHandler_GetEntries),
     ((''POST'', api_v1 [Lit ''reconciliation'', Lit ''jobs'', Var ''id'', Lit ''entries'', Var ''entry_id'', Lit ''resolve'']),
        ReconciliationHandler_ResolveEntry sv),
     ((''GET'', api_v1 [Lit ''tenant-webhooks'']), TenantWebhookConfigHandler_List),
     ((''POST'', api_v1 [Lit ''tenant-webhooks'', Var ''tenant_id'']), TenantWebhookConfigHandler_Upsert sv)]"

definition routes :: "server \<Rightarrow> (pattern \<times> (env \<Rightarrow> handler)) list" where
  "routes sv = public_routes sv @ payment_routes sv @ tenant_routes sv @ action_routes sv @ ops_routes sv"

text \<open>\<open>cleanPath\<close> removes empty segments but the last, and dot segments.\<close>

definition clean_path :: "request \<Rightarrow> bool" where
  "clean_path r \<longleftrightarrow> '''' \<notin> set (butlast (r_segments r)) \<and> ''.'' \<notin> set (r_segments r) \<and> ''..'' \<notin> set (r_segments r)"

definition other_path :: "server \<Rightarrow> handler" where
  "other_path sv r = (if method_allows ''GET'' (r_Method r) then ok (sv_static sv (URL_Path r))
     else http_Error ''Method Not Allowed'' 405)"

definition ServeMux :: "server \<Rightarrow> handler" where
  "ServeMux sv r =
    (if \<not> clean_path r \<and> r_Method r \<noteq> ''CONNECT'' then ok \<lparr> rs_Status = 301, rs_Headers = [], rs_Body = NoBody \<rparr>
     else bindE (reading (sv_env sv)) (\<lambda>ev. case find_route (routes sv) (r_Method r) (map PathUnescape (r_segments r)) of
         Some (vs, h) \<Rightarrow> h ev (r \<lparr> r_PathValues := vs \<rparr>)
       | None \<Rightarrow> other_path sv r))"

definition NewRouter :: "server \<Rightarrow> handler" where
  "NewRouter sv = Chain (ServeMux sv) [RequestID sv, Recover, Authenticate sv, RateLimit sv, ResponseCache sv]"

subsection \<open>What a request can change\<close>

text \<open>The part of the state that matters: the database, the calls to gateways, events, messages and audit of the services, and the
  two tables of tenant configuration; beside it the clock, and the key that wraps data keys, which no request changes.\<close>

definition effects :: "world \<Rightarrow> db \<times> gw_call list \<times> (uuid \<times> Status) list \<times> AuditEntry list \<times> intent_store \<times> sent_message list" where
  "effects w = (w_db w, w_calls w, w_bus w, w_audit w, w_intents w, w_sent w)"

definition same_state :: "api \<Rightarrow> api \<Rightarrow> bool" where
  "same_state s0 s \<longleftrightarrow> effects (a_world s) = effects (a_world s0) \<and> a_gateway_rows s = a_gateway_rows s0 \<and>
     a_webhook_rows s = a_webhook_rows s0 \<and> w_clock (a_world s) = w_clock (a_world s0) \<and>
     en_km (a_envelope s) = en_km (a_envelope s0)"

lemma same_state_refl [simp]: "same_state s s"
  by (simp add: same_state_def)

lemma same_state_outside [simp]:
  "same_state s0 (s \<lparr> a_limiter := l, a_limits := st \<rparr>) \<longleftrightarrow> same_state s0 s"
  "same_state s0 (s \<lparr> a_cache := c \<rparr>) \<longleftrightarrow> same_state s0 s"
  "same_state s0 (s \<lparr> a_envelope := e \<lparr> en_now := t \<rparr> \<rparr>) \<longleftrightarrow> same_state s0 (s \<lparr> a_envelope := e \<rparr>)"
  by (simp_all add: same_state_def)

text \<open>Reads of the services have no effects.\<close>

definition observes :: "(world, 'a) comp \<Rightarrow> bool" where
  "observes m \<longleftrightarrow> (\<forall>w. effects (snd (m w)) = effects w \<and> w_clock (snd (m w)) = w_clock w)"

lemma observesI: "(\<And>E c. keeps (\<lambda>w. effects w = E \<and> w_clock w = c) m) \<Longrightarrow> observes m"
  unfolding observes_def keeps_def by blast

lemma keeps_case_list [hoare]:
  "(xs = [] \<Longrightarrow> keeps I m) \<Longrightarrow> (\<And>y ys. xs = y # ys \<Longrightarrow> keeps I (f y ys)) \<Longrightarrow> keeps I (case xs of [] \<Rightarrow> m | y # ys \<Rightarrow> f y ys)"
  by (cases xs) simp_all

lemma keeps_effects_prims [hoare]:
  "keeps (\<lambda>w. effects w = E \<and> w_clock w = c) answer" "keeps (\<lambda>w. effects w = E \<and> w_clock w = c) (NewUUID ev)"
  "keeps (\<lambda>w. effects w = E \<and> w_clock w = c) (query f)" "keeps (\<lambda>w. effects w = E \<and> w_clock w = c) Now"
  by (simp_all add: keeps_def answer_def NewUUID_def Now_def query_def stmt_def effects_def go_defs split: prod.split sum.split)

lemma keeps_effects_GetByID [hoare]: "keeps (\<lambda>w. effects w = E \<and> w_clock w = c) (Txn_GetByID i)"
  unfolding Txn_GetByID_def by (intro hoare keeps_changing) (simp_all add: effects_def)

lemma observes_reads [hoare]: "observes answer" "observes (NewUUID ev)" "observes Now" "observes (Txn_GetByID i)"
  "observes (GetGatewayMetadata cd ev i)"
  unfolding GetGatewayMetadata_def repo_GetGatewayMetadata_def by (rule observesI, intro hoare)+

lemma keeps_on_world [hoare]: "observes m \<Longrightarrow> keeps (same_state s0) (on_world m)"
  unfolding observes_def keeps_def on_world_def same_state_def
  by (auto simp: case_prod_beta)

lemma keeps_catch [hoare]:
  "keeps I m \<Longrightarrow> (\<And>e. keeps I (h e)) \<Longrightarrow> (\<And>a. keeps I (k a)) \<Longrightarrow> keeps I (catch m h k)"
  unfolding catch_def by (intro hoare)

lemma keeps_answers [hoare]: "keeps I (writeJSON r st d)" "keeps I (writeError r st code msg)" "keeps I (http_Error m st)"
  "keeps I (render sv page xs)" "keeps I (unseen r what)" "keeps I (favicon r)" "keeps I (other_path sv r)"
  unfolding writeJSON_def writeError_def http_Error_def render_def unseen_def favicon_def other_path_def by (intro hoare)+

lemma keeps_pay_auth [hoare]: "keeps (same_state s0) (pay_auth ev r)"
  unfolding pay_auth_def Let_def by (intro hoare)

lemma keeps_checks [hoare]: "keeps (same_state s0) (run_checks pings)"
  by (simp add: pings_def) (intro hoare, simp add: keeps_def)

lemma keeps_public [hoare]:
  "keeps (same_state s0) (PaymentHandler_Get ev r)" "keeps (same_state s0) (SSEHandler_Events ev r)"
  "keeps (same_state s0) (PayHandler_ServeCheckout sv ev r)" "keeps (same_state s0) (PayHandler_Success sv ev r)"
  "keeps (same_state s0) (PayHandler_Failure sv ev r)" "keeps (same_state s0) (HealthHandler_Health r)"
  unfolding PaymentHandler_Get_def SSEHandler_Events_def PayHandler_ServeCheckout_def PayHandler_Success_def PayHandler_Failure_def
    HealthHandler_Health_def Let_def by (intro hoare)+

subsection \<open>Webhooks\<close>

text \<open>The body parses, with its signature, under the secret of a stored configuration of that gateway.\<close>

definition stored_secret :: "server \<Rightarrow> env \<Rightarrow> api \<Rightarrow> string \<Rightarrow> string \<Rightarrow> bool" where
  "stored_secret sv ev s gatewayID secret \<longleftrightarrow> (\<exists>row cfg s1. row \<in> set (a_gateway_rows s) \<and> tgr_gateway_id row = gatewayID \<and>
     en_km (a_envelope s1) = en_km (a_envelope s) \<and> fst (scanTenantGatewayConfig sv ev row s1) = Inr cfg \<and>
     ExtractWebhookSecret (tgc_Provider cfg) (tgc_Config cfg) = Inr secret)"

definition signed_webhook :: "server \<Rightarrow> env \<Rightarrow> api \<Rightarrow> request \<Rightarrow> string \<Rightarrow> bool" where
  "signed_webhook sv ev s r gatewayID \<longleftrightarrow> (\<exists>secret parser body e. stored_secret sv ev s gatewayID secret \<and>
     WebhookParser gatewayID GatewayRegistry = Some parser \<and> r_Body r = Some body \<and>
     ParseWebhook parser (sv_codec sv) (w_clock (a_world s)) (take (2 ^ 20) body) (r_Header r) secret = Inr e)"

lemma stored_secret_cong: "same_state s0 s \<Longrightarrow> stored_secret sv ev s = stored_secret sv ev s0"
  by (simp add: same_state_def stored_secret_def fun_eq_iff)

lemma keeps_on_envelope: "(\<And>km m. keeps (built_as km m) f) \<Longrightarrow> keeps (same_state s0) (on_envelope f)"
  unfolding keeps_def built_as_def on_envelope_def same_state_def by (auto simp: case_prod_beta)

lemma keeps_scan [hoare]: "keeps (same_state s0) (scanTenantGatewayConfig sv ev row)"
  unfolding scanTenantGatewayConfig_def decryptConfig_def by (intro hoare keeps_on_envelope keeps_built_Decrypt)

lemma keeps_scan_all [hoare]: "keeps (same_state s0) (scan_all sv ev rows)"
  by (induction rows) (simp_all add: hoare)

lemma keeps_tenant_reads [hoare]: "keeps (same_state s0) (tenant_Get sv ev t g)" "keeps (same_state s0) (ListByGateway sv ev g)"
  unfolding tenant_Get_def ListByGateway_def tenant_list_def by (intro hoare)+

lemma tenant_Get_stored:
  assumes "tenant_Get sv ev t g s = (Inr cfg, s')" "ExtractWebhookSecret (tgc_Provider cfg) (tgc_Config cfg) = Inr secret"
  shows "stored_secret sv ev s g secret"
proof -
  obtain s1 row where s1: "on_world answer s = (Inr (), s1)" and row: "config_row t g (a_gateway_rows s1) = Some row"
    and scan: "scanTenantGatewayConfig sv ev row s1 = (Inr cfg, s')"
    using assms(1) by (auto simp: tenant_Get_def run split: option.splits)
  have "same_state s s1" by (rule keepsD [OF keeps_on_world [OF observes_reads(1)] _ s1]) simp
  then have "a_gateway_rows s1 = a_gateway_rows s" "en_km (a_envelope s1) = en_km (a_envelope s)" by (simp_all add: same_state_def)
  moreover from row have "row \<in> set (a_gateway_rows s1)" "tgr_gateway_id row = g"
    by (auto simp: config_row_def dest: lookup_row_Some)
  ultimately show ?thesis using scan assms(2) unfolding stored_secret_def by (metis fst_conv)
qed

lemma keeps_catch_post:
  assumes "keeps I m" "\<And>e. keeps I (h e)" "\<And>a w. I w \<Longrightarrow> fst (m w) = Inr a \<Longrightarrow> keeps I (k a)"
  shows "keeps I (catch m h k)"
  unfolding catch_def
  by (rule keeps_bindE_post [OF keeps_attempt [OF assms(1)], where Q = "\<lambda>r. \<forall>a. r = Inr a \<longrightarrow> keeps I (k a)"])
     (auto simp: attempt_def case_prod_beta split: sum.splits intro!: assms intro: assms(3))

lemma keeps_webhook_parsed [hoare]: "keeps I (webhook_parsed ev r g txn body (Inl e))"
  by (simp add: webhook_parsed_def hoare)

lemma keeps_webhook_checked:
  assumes "\<not> signed_webhook sv ev s0 r g" "stored_secret sv ev s0 g secret"
  shows "keeps (same_state s0) (webhook_checked sv ev r g txn secret)"
proof -
  have "\<exists>e. ParseWebhook parser (sv_codec sv) (w_clock (a_world s0)) (take (2 ^ 20) body) (r_Header r) secret = Inl e"
    if "r_Body r = Some body" "WebhookParser g GatewayRegistry = Some parser" for body parser
    using assms that unfolding signed_webhook_def by (metis sumE)
  then have parsed: "keeps (same_state s0) (webhook_parsed ev r g txn (take (2 ^ 20) body)
      (ParseWebhook parser (sv_codec sv) (w_clock (a_world s0)) (take (2 ^ 20) body) (r_Header r) secret))"
    if "r_Body r = Some body" "WebhookParser g GatewayRegistry = Some parser" for body parser
    using that by (metis keeps_webhook_parsed)
  have now: "n = w_clock (a_world s0)" if "same_state s0 s" "on_world Now s = (Inr n, s')" for s n s'
    using that by (simp add: on_world_def Now_def reading_def same_state_def)
  show ?thesis
    unfolding webhook_checked_def Let_def
    by (intro keeps_case_option keeps_if keeps_answers keeps_bindE_post [where Q = "\<lambda>n. n = w_clock (a_world s0)"]
          keeps_on_world observes_reads) (simp_all only: now parsed)
qed

lemma keeps_webhook_tenant:
  "(\<And>t u. keeps (same_state s0) (k t u)) \<Longrightarrow> keeps (same_state s0) (webhook_tenant sv ev r g k)"
  unfolding webhook_tenant_def by (intro hoare; assumption)

lemma unsigned_webhook:
  assumes "\<not> signed_webhook sv ev s0 r (PathValue r ''gateway_id'')"
  shows "keeps (same_state s0) (WebhookHandler_Handle sv ev r)"
  unfolding WebhookHandler_Handle_def Let_def
proof (intro keeps_webhook_tenant keeps_catch_post keeps_tenant_reads keeps_answers keeps_case_sum)
  fix u cfg s secret
  assume s: "same_state s0 s" "fst (tenant_Get sv ev u (PathValue r ''gateway_id'') s) = Inr cfg"
    "ExtractWebhookSecret (tgc_Provider cfg) (tgc_Config cfg) = Inr secret"
  then have "stored_secret sv ev s (PathValue r ''gateway_id'') secret"
    by (intro tenant_Get_stored [of _ _ u _ _ cfg "snd (tenant_Get sv ev u (PathValue r ''gateway_id'') s)"]) (simp_all add: prod_eq_iff)
  then have "stored_secret sv ev s0 (PathValue r ''gateway_id'') secret" by (simp add: stored_secret_cong [OF s(1)])
  then show "keeps (same_state s0) (webhook_checked sv ev r (PathValue r ''gateway_id'') txn secret)" for txn
    by (rule keeps_webhook_checked [OF assms])
qed

subsection \<open>Routes without a token\<close>

lemma find_route_Some:
  "find_route rs m ss = Some (vs, h) \<Longrightarrow> \<exists>meth ps. ((meth, ps), h) \<in> set rs \<and> method_allows meth m \<and> match_segments ps ss = Some vs"
  by (induction rs m ss rule: find_route.induct) (auto split: if_splits option.splits)

lemma match_Lit: "match_segments (Lit l # ps) ss = Some vs \<longleftrightarrow> (\<exists>rest. ss = l # rest \<and> match_segments ps rest = Some vs)"
  by (cases ss) auto

lemma match_Var: "match_segments (Var v # ps) ss = Some vs \<longleftrightarrow>
    (\<exists>x rest vs'. ss = x # rest \<and> x \<noteq> '''' \<and> x \<noteq> ''/'' \<and> match_segments ps rest = Some vs' \<and> vs = (v, x) # vs')"
  by (cases ss) auto

lemma match_Nil: "match_segments [] ss = Some vs \<longleftrightarrow> ss = [] \<and> vs = []"
  by (cases ss) auto

lemmas match_simps = match_Lit match_Var match_Nil

definition slashed :: "string list \<Rightarrow> string" where
  "slashed ss = concat (map (Cons (CHR ''/'')) ss)"

lemma slashed_simps [simp]: "slashed [] = ''''" "slashed (s # ss) = CHR ''/'' # s @ slashed ss"
  by (simp_all add: slashed_def)

lemma URL_Path_slashed: "URL_Path r = slashed (map PathUnescape (r_segments r))"
  by (simp add: URL_Path_def slashed_def comp_def)

text \<open>The only routes for which \<open>Authenticate\<close> lets a request without a token pass.\<close>

definition open_handlers :: "server \<Rightarrow> (env \<Rightarrow> handler) list" where
  "open_handlers sv = [\<lambda>_. HealthHandler_Health, \<lambda>_. favicon, PayHandler_Success sv, PayHandler_Failure sv, PayHandler_ServeCheckout sv,
     PaymentHandler_Get, SSEHandler_Events]"

lemma exempt_prefix:
  "hard_exempt p \<or> soft_exempt m p \<Longrightarrow> p = ''/'' \<or> p = ''/health'' \<or> p = ''/favicon.ico'' \<or> has_prefix ''/webhooks/'' p \<or> has_prefix ''/pay/'' p \<or>
     (m = ''GET'' \<and> has_prefix ''/api/v1/payments/'' p)"
  unfolding hard_exempt_def soft_exempt_def by blast

lemma api_exempt:
  assumes "match_segments (api_v1 ps) ss = Some vs" "hard_exempt (slashed ss) \<or> soft_exempt m (slashed ss)"
  obtains rest where "m = ''GET''" "ss = ''api'' # ''v1'' # rest" "match_segments ps rest = Some vs" "has_prefix ''/payments/'' (slashed rest)"
  using exempt_prefix [OF assms(2)] assms(1) by (auto simp: match_simps)

lemma api_not_exempt:
  assumes "match_segments (api_v1 (Lit (c # x) # ps)) ss = Some vs" "c \<noteq> CHR ''p''"
  shows "\<not> (hard_exempt (slashed ss) \<or> soft_exempt m (slashed ss))"
  by (rule notI, rule api_exempt [OF assms(1)]) (use assms(2) in \<open>auto simp: match_simps\<close>)

lemma open_routes:
  assumes "find_route (routes sv) m ss = Some (vs, h)" "hard_exempt (slashed ss) \<or> soft_exempt m (slashed ss)"
  shows "h \<in> set (open_handlers sv) \<or> (h = WebhookHandler_Handle sv \<and> m = ''POST'' \<and>
     ss = [''webhooks'', ''gateway'', get_or_empty vs ''gateway_id''])"
proof -
  from find_route_Some [OF assms(1)] obtain meth ps where r: "((meth, ps), h) \<in> set (routes sv)" "method_allows meth m"
    "match_segments ps ss = Some vs" by blast
  from r(1) consider "((meth, ps), h) \<in> set (public_routes sv)" | "((meth, ps), h) \<in> set (payment_routes sv)"
    | "((meth, ps), h) \<in> set (tenant_routes sv)" | "((meth, ps), h) \<in> set (action_routes sv)" | "((meth, ps), h) \<in> set (ops_routes sv)"
    by (auto simp: routes_def)
  then show ?thesis
  proof cases
    case 1
    then show ?thesis by (auto simp: public_routes_def open_handlers_def)
  next
    case 2
    then obtain ps' where ps: "ps = api_v1 ps'" by (auto simp: payment_routes_def)
    then obtain rest where rest: "m = ''GET''" "match_segments ps' rest = Some vs" "has_prefix ''/payments/'' (slashed rest)"
      using api_exempt [OF _ assms(2), of ps' vs] r(3) by metis
    from 2 rest r(2) show ?thesis
      unfolding ps payment_routes_def open_handlers_def method_allows_def by (auto simp: match_simps)
  next
    case 3
    then obtain c x ps' where "ps = api_v1 (Lit (c # x) # ps')" "c \<noteq> CHR ''p''" by (auto simp: tenant_routes_def)
    with api_not_exempt [of c x ps' ss vs m] assms(2) r(3) show ?thesis by simp
  next
    case 4
    then consider ps' where "ps = api_v1 ps'" | "ps = [Lit ''webhooks'', Lit ''gateway'', Var ''gateway_id'']" "meth = ''POST''"
        "h = WebhookHandler_Handle sv"
      by (auto simp: action_routes_def)
    then show ?thesis
    proof cases
      case (1 ps')
      then obtain rest where rest: "m = ''GET''" "match_segments ps' rest = Some vs"
        using api_exempt [OF _ assms(2), of ps' vs] r(3) by metis
      from 4 rest r(2) show ?thesis
        unfolding 1 action_routes_def open_handlers_def method_allows_def by (auto simp: match_simps)
    next
      case 2
      then show ?thesis using r(2,3) by (auto simp: match_simps method_allows_def get_or_empty_def)
    qed
  next
    case 5
    then obtain c x ps' where "ps = api_v1 (Lit (c # x) # ps')" "c \<noteq> CHR ''p''" by (auto simp: ops_routes_def)
    with api_not_exempt [of c x ps' ss vs m] assms(2) r(3) show ?thesis by simp
  qed
qed

subsection \<open>Middleware\<close>

lemma keeps_RequestID [hoare]: "(\<And>i. keeps (same_state s0) (next (r \<lparr> r_RequestID := i \<rparr>))) \<Longrightarrow> keeps (same_state s0) (RequestID sv next r)"
  unfolding RequestID_def by (intro hoare; assumption)

lemma keeps_Recover [hoare]: "keeps I (next r) \<Longrightarrow> keeps I (Recover next r)"
  unfolding Recover_def by (intro hoare; assumption)

lemma keeps_call_limiter [hoare]: "keeps (same_state s0) (call_limiter sv u t ip)"
  by (simp add: keeps_def call_limiter_def split: prod.split)

lemma keeps_RateLimit [hoare]: "keeps (same_state s0) (next r) \<Longrightarrow> keeps (same_state s0) (RateLimit sv next r)"
  unfolding RateLimit_def Let_def by (intro hoare; assumption)

lemma keeps_cache [hoare]: "keeps (same_state s0) (cache_Get key)" "keeps (same_state s0) (cache_Put key v)"
  by (simp_all add: keeps_def cache_Get_def cache_Put_def)

lemma keeps_ResponseCache [hoare]: "keeps (same_state s0) (next r) \<Longrightarrow> keeps (same_state s0) (ResponseCache sv next r)"
  unfolding ResponseCache_def Let_def by (intro hoare; assumption)

lemma NewRouter_eq: "NewRouter sv = RequestID sv (Recover (Authenticate sv (RateLimit sv (ResponseCache sv (ServeMux sv)))))"
  by (simp add: NewRouter_def Chain_def)

lemma authenticate_cong [simp]: "authenticate sv (r \<lparr> r_RequestID := i \<rparr>) = authenticate sv r"
  by (simp add: authenticate_def)

lemma keeps_Authenticate:
  assumes "authenticate sv r = None"
    and "hard_exempt (URL_Path r) \<or> soft_exempt (r_Method r) (URL_Path r) \<Longrightarrow> keeps I (next r)"
  shows "keeps I (Authenticate sv next r)"
  unfolding Authenticate_def assms(1) by (auto intro!: hoare assms(2))

lemma signed_webhook_cong [simp]:
  "signed_webhook sv ev s (r \<lparr> r_PathValues := vs \<rparr>) = signed_webhook sv ev s r"
  "signed_webhook sv ev s (r \<lparr> r_RequestID := i \<rparr>) = signed_webhook sv ev s r"
  by (simp_all add: signed_webhook_def fun_eq_iff)

text \<open>The request asks for the webhook route and is signed, in the environment of a state like this one.\<close>

definition authentic_webhook :: "server \<Rightarrow> api \<Rightarrow> request \<Rightarrow> bool" where
  "authentic_webhook sv s r \<longleftrightarrow> r_Method r = ''POST'' \<and> (\<exists>g s1. map PathUnescape (r_segments r) = [''webhooks'', ''gateway'', g] \<and>
     same_state s s1 \<and> signed_webhook sv (sv_env sv s1) s r g)"

lemma keeps_open_handlers: "h \<in> set (open_handlers sv) \<Longrightarrow> keeps (same_state s0) (h ev r)"
  by (auto simp: open_handlers_def intro!: hoare)

lemma keeps_ServeMux_open:
  assumes "hard_exempt (URL_Path r) \<or> soft_exempt (r_Method r) (URL_Path r)" "\<not> authentic_webhook sv s0 r"
  shows "keeps (same_state s0) (ServeMux sv r)"
proof -
  have "keeps (same_state s0) (case find_route (routes sv) (r_Method r) (map PathUnescape (r_segments r)) of
      Some (vs, h) \<Rightarrow> h (sv_env sv s1) (r \<lparr> r_PathValues := vs \<rparr>) | None \<Rightarrow> other_path sv r)" if s1: "same_state s0 s1" for s1
  proof (intro keeps_case_option keeps_case_prod keeps_answers)
    fix x vs h
    assume "find_route (routes sv) (r_Method r) (map PathUnescape (r_segments r)) = Some x" "x = (vs, h)"
    then have "h \<in> set (open_handlers sv) \<or> (h = WebhookHandler_Handle sv \<and> r_Method r = ''POST'' \<and>
        map PathUnescape (r_segments r) = [''webhooks'', ''gateway'', get_or_empty vs ''gateway_id''])"
      using open_routes assms(1) by (simp add: URL_Path_slashed)
    then show "keeps (same_state s0) (h (sv_env sv s1) (r \<lparr> r_PathValues := vs \<rparr>))"
    proof (elim disjE conjE)
      assume "h \<in> set (open_handlers sv)"
      then show ?thesis by (rule keeps_open_handlers)
    next
      assume h: "h = WebhookHandler_Handle sv" "r_Method r = ''POST''"
        "map PathUnescape (r_segments r) = [''webhooks'', ''gateway'', get_or_empty vs ''gateway_id'']"
      then have "\<not> signed_webhook sv (sv_env sv s1) s0 (r \<lparr> r_PathValues := vs \<rparr>) (PathValue (r \<lparr> r_PathValues := vs \<rparr>) ''gateway_id'')"
        using assms(2) s1 unfolding authentic_webhook_def by (simp add: PathValue_def)
      then show ?thesis unfolding h(1) by (rule unsigned_webhook)
    qed
  qed
  then show ?thesis
    unfolding ServeMux_def
    by (intro keeps_if keeps_ok keeps_bindE_post [where Q = "\<lambda>ev. \<exists>s1. same_state s0 s1 \<and> ev = sv_env sv s1"] keeps_reading)
       (auto simp: reading_def)
qed

text \<open>C9. Without a valid token a caller changes nothing: whatever the request and its outcome, the database, the
  configuration of tenants, the calls to gateways and the events and messages sent stay as they are, unless it is a \<open>POST\<close> to the
  webhook route whose body parses, with its signature, under the secret of a stored configuration of that gateway. This
  holds for the whole chain, escaped and unclean paths included.\<close>

theorem unauthenticated_changes_nothing:
  assumes "authenticate sv r = None" "NewRouter sv r s = (res, s')"
  shows "same_state s s' \<or> authentic_webhook sv s r"
proof (cases "authentic_webhook sv s r")
  case False
  have "keeps (same_state s) (NewRouter sv r)"
    unfolding NewRouter_eq
  proof (intro keeps_RequestID keeps_Recover keeps_Authenticate keeps_RateLimit keeps_ResponseCache keeps_ServeMux_open)
    show "authenticate sv (r \<lparr> r_RequestID := i \<rparr>) = None" for i using assms(1) by simp
    show "\<not> authentic_webhook sv s (r \<lparr> r_RequestID := i \<rparr>)" for i using False by (simp add: authentic_webhook_def)
  qed
  from keepsD [OF this _ assms(2)] show ?thesis by simp
qed simp

text \<open>Every path but the five public ones asks for a token: without a valid one, the answer of the whole chain
  is 401, whatever the method, the route or the state. Only reading one payment and its events falls through to a check of its own.\<close>

theorem protected_paths_need_token:
  assumes "authenticate sv r = None" "\<not> hard_exempt (URL_Path r)" "\<not> soft_exempt (r_Method r) (URL_Path r)"
  shows "\<exists>res. fst (NewRouter sv r s) = Inr res \<and> rs_Status res = 401"
proof -
  have "Authenticate sv nxt (r \<lparr> r_RequestID := i \<rparr>) = writeError (r \<lparr> r_RequestID := i \<rparr>) 401 ''unauthorized'' ''missing or invalid service token''"
    for nxt i using assms by (simp add: Authenticate_def URL_Path_def)
  then show ?thesis
    by (simp add: NewRouter_eq RequestID_def Recover_def catch_def writeError_def error_response_def bindE_def ok_def attempt_def on_world_def
        reading_def NewUUID_def)
qed

definition bare_request :: "string \<Rightarrow> string list \<Rightarrow> request" where
  "bare_request meth segments = \<lparr> r_Method = meth, r_segments = segments, r_Query = [], r_Header = (\<lambda>_. ''''), r_Body = Some ''{}'',
     r_RemoteAddr = ''10.0.0.1:5000'', r_PathValues = [], r_RequestID = '''', r_Principal = None, r_TenantID = '''', r_UserID = '''' \<rparr>"

theorem protected_paths_need_token_witness:
  "\<exists>res. fst (NewRouter sample_server (bare_request ''POST'' [''api'', ''v1'', ''payments'', ''7'', ''capture'']) (sample_api sample_world)) = Inr res \<and>
     rs_Status res = 401"
  by (rule protected_paths_need_token)
     (simp_all add: bare_request_def authenticate_def URL_Path_def hard_exempt_def soft_exempt_def)

theorem unauthenticated_changes_nothing_witness:
  "same_state (sample_api sample_world)
     (snd (NewRouter sample_server (bare_request ''DELETE'' [''pay'', ''..'', ''api'', ''v1'', ''payments'']) (sample_api sample_world)))"
  using unauthenticated_changes_nothing [OF _ prod.collapse [symmetric], of sample_server
      "bare_request ''DELETE'' [''pay'', ''..'', ''api'', ''v1'', ''payments'']" "sample_api sample_world"]
  by (simp add: bare_request_def authenticate_def authentic_webhook_def)

subsection \<open>Tenants\<close>

text \<open>A clean path is dispatched by its segments.\<close>

definition asks :: "request \<Rightarrow> string \<Rightarrow> string list \<Rightarrow> bool" where
  "asks r meth ss \<longleftrightarrow> r_Method r = meth \<and> map PathUnescape (r_segments r) = ss \<and> clean_path r"

lemma setPrincipalContext_cong [simp]:
  "r_Method (setPrincipalContext p r) = r_Method r" "r_segments (setPrincipalContext p r) = r_segments r"
  "clean_path (setPrincipalContext p r) = clean_path r" "r_Principal (setPrincipalContext p r) = Some p"
  "r_Header (setPrincipalContext p r) = r_Header r" "r_Query (setPrincipalContext p r) = r_Query r"
  "asks (setPrincipalContext p r) m ss = asks r m ss" "r_RequestID (setPrincipalContext p r) = r_RequestID r"
  by (simp_all add: setPrincipalContext_def clean_path_def asks_def)

lemma ServeMux_asks:
  "asks r m ss \<Longrightarrow> find_route (routes sv) m ss = Some (vs, h) \<Longrightarrow> ServeMux sv r s = h (sv_env sv s) (r \<lparr> r_PathValues := vs \<rparr>) s"
  by (auto simp: asks_def ServeMux_def bindE_def reading_def)

lemmas route_tables = routes_def public_routes_def payment_routes_def tenant_routes_def action_routes_def ops_routes_def method_allows_def

lemma payment_route_handlers:
  assumes "x \<noteq> ''''" "x \<noteq> ''/''"
  shows "find_route (routes sv) ''GET'' [''api'', ''v1'', ''payments'', x] = Some ([(''id'', x)], PaymentHandler_Get)"
    "find_route (routes sv) ''GET'' [''api'', ''v1'', ''payments'', x, ''events''] = Some ([(''id'', x)], SSEHandler_Events)"
    "find_route (routes sv) ''POST'' [''api'', ''v1'', ''payments'', x, ''refunds''] = Some ([(''id'', x)], RefundHandler_Initiate sv)"
    "find_route (routes sv) ''POST'' [''api'', ''v1'', ''payments'', x, ''authorize''] = Some ([(''id'', x)], PaymentHandler_Authorize)"
    "find_route (routes sv) ''POST'' [''api'', ''v1'', ''payments'', x, ''capture''] = Some ([(''id'', x)], PaymentHandler_Capture)"
    "find_route (routes sv) ''POST'' [''api'', ''v1'', ''payments'', x, ''settle''] = Some ([(''id'', x)], PaymentHandler_Settle)"
  using assms by (simp_all add: route_tables)

lemma catch_Inr: "fst (m s) = Inr a \<Longrightarrow> catch m h k s = k a (snd (m s))"
  by (cases "m s") (simp add: catch_def bindE_def attempt_def)

lemma catch_fst: "fst (catch m h k s) = (case fst (m s) of Inl e \<Rightarrow> fst (h e (snd (m s))) | Inr a \<Rightarrow> fst (k a (snd (m s))))"
  by (cases "m s") (simp add: catch_def bindE_def attempt_def split: sum.split)

lemma on_world_fst: "fst (on_world m s) = fst (m (a_world s))"
  by (simp add: on_world_def case_prod_beta)

lemma PathValue_set [simp]: "PathValue (r \<lparr> r_PathValues := vs \<rparr>) k = get_or_empty vs k"
  by (simp add: PathValue_def)

text \<open>C10. A service token of one tenant learns nothing about a payment of another: reading it, its events, or asking
  for a refund of it are answered with 404, as if there was no such payment, and change nothing.\<close>

theorem foreign_payment_hidden:
  assumes "pr_Role p = RoleService" "pr_TenantID p \<noteq> ''''" "x \<noteq> ''''" "x \<noteq> ''/''"
    and "asks r ''GET'' [''api'', ''v1'', ''payments'', x] \<or> asks r ''GET'' [''api'', ''v1'', ''payments'', x, ''events''] \<or>
         asks r ''POST'' [''api'', ''v1'', ''payments'', x, ''refunds'']"
    and "ev_uuid_parse (sv_env sv s) x = Some i" "fst (Txn_GetByID i (a_world s)) = Inr txn"
    and "ev_uuid_str (sv_env sv s) (t_TenantID txn) \<noteq> pr_TenantID p"
  shows "\<exists>res s'. ServeMux sv (setPrincipalContext p r) s = (Inr res, s') \<and> rs_Status res = 404 \<and> same_state s s'"
proof -
  let ?r = "setPrincipalContext p r \<lparr> r_PathValues := [(''id'', x)] \<rparr>" and ?ev = "sv_env sv s"
  have t: "r_TenantID (setPrincipalContext p r) = pr_TenantID p" using assms(2) by (simp add: setPrincipalContext_def)
  have get: "fst (on_world (Txn_GetByID i) s) = Inr txn" using assms(7) by (simp add: on_world_fst)
  have same: "same_state s (snd (on_world (Txn_GetByID i) s))"
    using keeps_on_world [OF observes_reads(4)] by (simp add: keeps_def)
  have not_seen: "\<not> may_see ?ev ?r txn" using assms(2,8) t by (simp add: may_see_def)
  from assms(5) have "ServeMux sv (setPrincipalContext p r) s \<in>
      {PaymentHandler_Get ?ev ?r s, SSEHandler_Events ?ev ?r s, RefundHandler_Initiate sv ?ev ?r s}"
    using ServeMux_asks [OF _ payment_route_handlers(1) [OF assms(3,4)], of "setPrincipalContext p r" sv s]
      ServeMux_asks [OF _ payment_route_handlers(2) [OF assms(3,4)], of "setPrincipalContext p r" sv s]
      ServeMux_asks [OF _ payment_route_handlers(3) [OF assms(3,4)], of "setPrincipalContext p r" sv s] by auto
  then show ?thesis
    using assms(1,2,6,8) same not_seen t
    by (auto simp: PaymentHandler_Get_def SSEHandler_Events_def RefundHandler_Initiate_def get_or_empty_def catch_Inr [where m = "on_world m" for m, OF get]
        catch_Inr get unseen_def writeError_def ok_def error_response_def)
qed

text \<open>Authorizing, capturing and settling do not look at the caller: the answer and the effect are the same for every
  valid token, so that a service token of one tenant moves the payments of all others.\<close>

theorem moves_ignore_tenant:
  assumes "action \<in> {''authorize'', ''capture'', ''settle''}" "asks r ''POST'' [''api'', ''v1'', ''payments'', x, action]" "x \<noteq> ''''" "x \<noteq> ''/''"
  shows "ServeMux sv (setPrincipalContext p r) s = ServeMux sv (setPrincipalContext q r) s"
proof -
  have same: "move_handler op code msg ev (setPrincipalContext p r \<lparr> r_PathValues := vs \<rparr>) =
      move_handler op code msg ev (setPrincipalContext q r \<lparr> r_PathValues := vs \<rparr>)" for op code msg ev vs
    by (simp add: move_handler_def writeJSON_def writeError_def error_response_def cong: if_cong option.case_cong)
  from assms show ?thesis
    by (auto simp: ServeMux_asks [OF _ payment_route_handlers(4)] ServeMux_asks [OF _ payment_route_handlers(5)]
        ServeMux_asks [OF _ payment_route_handlers(6)] PaymentHandler_Authorize_def PaymentHandler_Capture_def PaymentHandler_Settle_def same)
qed

lemma sum_bind_Inr: "sum_bind x f = Inr c \<longleftrightarrow> (\<exists>a. x = Inr a \<and> f a = Inr c)"
  by (simp add: sum_bind_def split: sum.split)

lemma list_filter_tenant:
  assumes "list_filter ev r p = Inr f" "pr_Role p = RoleService" "ev_uuid_parse ev (pr_TenantID p) = Some u"
  shows "tf_TenantID f = Some u"
proof -
  from assms(1) obtain wanted tenant where "tenant_filter ev p wanted = Inr tenant" "tf_TenantID f = tenant"
    unfolding list_filter_def sum_bind_Inr by force
  with assms(2,3) show ?thesis by (auto simp: tenant_filter_def split: if_splits)
qed

text \<open>C11. The list that a service token gets depends on the payments of its own tenant alone: it is the same, page and cursor
  included, in any two databases that agree on those, whatever the query asks for.\<close>

theorem listing_of_own_tenant:
  assumes "r_Principal r = Some p" "pr_Role p = RoleService" "ev_uuid_parse ev (pr_TenantID p) = Some u"
    and "filter (\<lambda>t. t_TenantID t = u) (db_transactions (w_db (a_world s))) = filter (\<lambda>t. t_TenantID t = u) (db_transactions (w_db (a_world s')))"
    and "w_budget (a_world s) = w_budget (a_world s')"
  shows "fst (PaymentHandler_List ev r s) = fst (PaymentHandler_List ev r s')"
proof -
  have "fst (Txn_List ev f (a_world s)) = fst (Txn_List ev f (a_world s'))" if f: "tf_TenantID f = Some u" for f
  proof -
    have own: "filter (\<lambda>t. list_matches f t \<and> Q t) ts = filter (\<lambda>t. list_matches f t \<and> Q t) (filter (\<lambda>t. t_TenantID t = u) ts)" for Q ts
      using f by (auto simp: list_matches_def optional_def intro!: filter_cong)
    have "filter (\<lambda>t. list_matches f t \<and> Q t) (db_transactions (w_db (a_world s))) =
        filter (\<lambda>t. list_matches f t \<and> Q t) (db_transactions (w_db (a_world s')))" for Q by (subst (1 2) own) (simp only: assms(4))
    with assms(5) show ?thesis
      by (simp add: Txn_List_def bindE_def lift_def answer_def reading_def split: sum.split)
  qed
  then have same: "fst (catch (on_world (Txn_List ev f)) h k s) = fst (catch (on_world (Txn_List ev f)) h k s')"
    if "tf_TenantID f = Some u" "\<And>e a b. fst (h e a) = fst (h e b)" "\<And>x a b. fst (k x a) = fst (k x b)" for f h k
    using that(1) by (auto simp: catch_fst on_world_fst split: sum.split intro: that(2,3))
  show ?thesis
  proof (cases "list_filter ev r p")
    case (Inl x)
    then show ?thesis using assms(1) by (cases x) (simp add: PaymentHandler_List_def writeError_def ok_def)
  next
    case (Inr f)
    show ?thesis unfolding PaymentHandler_List_def assms(1) option.case Inr sum.case
      by (rule same [OF list_filter_tenant [OF Inr assms(2,3)]]) (simp_all add: writeError_def writeJSON_def writeCSV_def ok_def)
  qed
qed

text \<open>The configuration of a tenant at its gateways is closed to the service tokens of others: listing, reading, storing and
  deleting it through the API is answered with 403 and leaves the state as it is.\<close>

theorem foreign_config_forbidden:
  assumes "pr_Role p = RoleService" "t \<noteq> pr_TenantID p" "t \<noteq> ''''" "t \<noteq> ''/''" "g \<noteq> ''''" "g \<noteq> ''/''"
    and "asks r ''GET'' [''api'', ''v1'', ''tenants'', t, ''gateways''] \<or> asks r ''POST'' [''api'', ''v1'', ''tenants'', t, ''gateways''] \<or>
         asks r ''GET'' [''api'', ''v1'', ''tenants'', t, ''gateways'', g] \<or> asks r ''DELETE'' [''api'', ''v1'', ''tenants'', t, ''gateways'', g]"
  shows "\<exists>res. ServeMux sv (setPrincipalContext p r) s = (Inr res, s) \<and> rs_Status res = 403"
proof -
  have closed: "with_tenant_id ev (setPrincipalContext p r \<lparr> r_PathValues := (''tenant_id'', t) # vs \<rparr>) k s =
      (Inr (error_response (setPrincipalContext p r \<lparr> r_PathValues := (''tenant_id'', t) # vs \<rparr>) 403 ''forbidden'' ''cannot access other tenant's resources''), s)"
    for ev vs k using assms(1,2) by (simp add: with_tenant_id_def checkAuth_def get_or_empty_def writeError_def ok_def)
  have routes: "find_route (routes sv) ''GET'' [''api'', ''v1'', ''tenants'', t, ''gateways''] = Some ([(''tenant_id'', t)], TenantGatewayHandler_List sv)"
    "find_route (routes sv) ''POST'' [''api'', ''v1'', ''tenants'', t, ''gateways''] = Some ([(''tenant_id'', t)], TenantGatewayHandler_Upsert sv)"
    "find_route (routes sv) ''GET'' [''api'', ''v1'', ''tenants'', t, ''gateways'', g] =
       Some ([(''tenant_id'', t), (''gateway_id'', g)], TenantGatewayHandler_Get sv)"
    "find_route (routes sv) ''DELETE'' [''api'', ''v1'', ''tenants'', t, ''gateways'', g] =
       Some ([(''tenant_id'', t), (''gateway_id'', g)], TenantGatewayHandler_Delete)"
    using assms(3-6) by (simp_all add: route_tables)
  have "asks (setPrincipalContext p r) m ss = asks r m ss" for m ss by simp
  with assms(7) show ?thesis
    by (elim disjE) (simp_all add: ServeMux_asks [OF _ routes(1)] ServeMux_asks [OF _ routes(2)] ServeMux_asks [OF _ routes(3)]
      ServeMux_asks [OF _ routes(4)] TenantGatewayHandler_List_def TenantGatewayHandler_Upsert_def TenantGatewayHandler_Get_def
      TenantGatewayHandler_Delete_def closed error_response_def)
qed

subsection \<open>Replies that are repeated\<close>

text \<open>A client that repeats a mutating request under its idempotency key gets the first answer again, with the same
  status and body, for five minutes, and the handlers do not run: nothing changes, whatever happened in between, as long as the cache is reachable.\<close>

theorem replay_without_effect:
  assumes "r_Header r ''Idempotency-Key'' \<noteq> ''''" "isMutating (r_Method r)" "r_Body r = Some body"
    and "ResponseCache sv nxt r s = (Inr res, s1)" "200 \<le> rs_Status res" "rs_Status res < 300" "a_cache_up s1"
    and "fst (cache_Get (response_cacheKey (sv_codec sv) r (r_Header r ''Idempotency-Key'') (hashString (sv_codec sv) body)) s) = Inr None"
    and "a_cache s2 = a_cache s1" "a_cache_up s2" "w_clock (a_world s2) < w_clock (a_world s1) + respCacheTTL"
  shows "ResponseCache sv nxt' r s2 = (Inr (replayCached (rs_Status res, rs_Body res)), s2)"
proof -
  let ?key = "response_cacheKey (sv_codec sv) r (r_Header r ''Idempotency-Key'') (hashString (sv_codec sv) body)"
  from assms(8) have miss: "cache_Get ?key s = (Inr None, s)" by (auto simp: cache_Get_def split: if_splits)
  obtain s0 where "nxt r s = (Inr res, s0)" and put: "attempt (cache_Put ?key (rs_Status res, rs_Body res)) s0 = (Inr (Inr ()), s1)"
    using assms(1-7) miss
    by (auto simp: ResponseCache_def readBodyHash_def Let_def bindE_def attempt_def ok_def cache_Put_def split: prod.splits sum.splits if_splits)
  then have "a_cache s1 (respCacheKey ?key) = Some (rs_Status res, rs_Body res, w_clock (a_world s1) + respCacheTTL)"
    by (auto simp: attempt_def cache_Put_def split: if_splits)
  with assms show ?thesis
    by (simp add: ResponseCache_def readBodyHash_def Let_def bindE_def attempt_def ok_def cache_Get_def)
qed

subsection \<open>Examples\<close>

text \<open>Payment 1 belongs to tenant 7; the caller has the token of another tenant.\<close>

definition shop_env :: env where
  "shop_env = sample_env \<lparr> ev_uuid_str := (\<lambda>u. if u = 7 then ''seven'' else ''eight''),
     ev_uuid_parse := (\<lambda>x. map_of [(''one'', 1), (''seven'', 7), (''eight'', 8)] x) \<rparr>"

definition shop :: server where
  "shop = sample_server \<lparr> sv_env := (\<lambda>_. shop_env) \<rparr>"

definition tenant_of :: "string \<Rightarrow> Principal" where
  "tenant_of t = \<lparr> pr_Role = RoleService, pr_TenantID = t, pr_UserID = '''' \<rparr>"

theorem foreign_payment_hidden_witness:
  "\<exists>res s'. ServeMux shop (setPrincipalContext (tenant_of ''eight'') (bare_request ''POST'' [''api'', ''v1'', ''payments'', ''one'', ''refunds'']))
     (sample_api captured_world) = (Inr res, s') \<and> rs_Status res = 404 \<and> same_state (sample_api captured_world) s'"
proof (rule foreign_payment_hidden)
  show "fst (Txn_GetByID 1 (a_world (sample_api captured_world))) = Inr captured_payment"
    by (simp add: sample_api_def captured_world_def sample_world_def captured_payment_def db_eval)
  show "ev_uuid_parse (sv_env shop (sample_api captured_world)) ''one'' = Some 1" by (simp add: shop_def shop_env_def)
  show "ev_uuid_str (sv_env shop (sample_api captured_world)) (t_TenantID captured_payment) \<noteq> pr_TenantID (tenant_of ''eight'')"
    by (simp add: shop_def shop_env_def captured_payment_def tenant_of_def)
qed (simp_all add: tenant_of_def bare_request_def asks_def clean_path_def)

lemma settle_captured: "\<exists>t w'. Settle shop_env 1 captured_world = (Inr t, w') \<and> t_Status t = StatusSettled"
  by (simp add: Settle_def settle_tx_def mapE_def history_eval shop_env_def captured_world_def captured_payment_def zero_Txn_def)

theorem moves_ignore_tenant_witness:
  "\<exists>res s'. ServeMux shop (setPrincipalContext (tenant_of ''eight'') (bare_request ''POST'' [''api'', ''v1'', ''payments'', ''one'', ''settle'']))
     (sample_api captured_world) = (Inr res, s') \<and> rs_Status res = 200"
proof -
  let ?r = "bare_request ''POST'' [''api'', ''v1'', ''payments'', ''one'', ''settle'']"
  have r: "asks ?r ''POST'' [''api'', ''v1'', ''payments'', ''one'', ''settle'']" by (simp add: bare_request_def asks_def clean_path_def)
  then have "ServeMux shop (setPrincipalContext (tenant_of ''eight'') ?r) (sample_api captured_world) =
      ServeMux shop (setPrincipalContext (tenant_of ''seven'') ?r) (sample_api captured_world)"
    by (intro moves_ignore_tenant [of "''settle''" _ "''one''"]) simp_all
  also have "\<dots> = PaymentHandler_Settle shop_env (setPrincipalContext (tenant_of ''seven'') ?r \<lparr> r_PathValues := [(''id'', ''one'')] \<rparr>) (sample_api captured_world)"
    using r by (simp add: ServeMux_asks [OF _ payment_route_handlers(6)] shop_def)
  finally show ?thesis using settle_captured
    by (auto simp: PaymentHandler_Settle_def move_handler_def get_or_empty_def catch_def bindE_def attempt_def on_world_def writeJSON_def ok_def
        sample_api_def shop_env_def)
qed

theorem listing_of_own_tenant_witness:
  "fst (PaymentHandler_List shop_env (setPrincipalContext (tenant_of ''eight'') (bare_request ''GET'' [''api'', ''v1'', ''payments''])) (sample_api captured_world)) =
   fst (PaymentHandler_List shop_env (setPrincipalContext (tenant_of ''eight'') (bare_request ''GET'' [''api'', ''v1'', ''payments''])) (sample_api sample_world))"
  by (rule listing_of_own_tenant [of _ "tenant_of ''eight''" _ 8])
     (simp_all add: tenant_of_def shop_env_def sample_api_def captured_world_def sample_world_def sample_db_def captured_payment_def)

theorem foreign_config_forbidden_witness:
  "\<exists>res. ServeMux shop (setPrincipalContext (tenant_of ''eight'') (bare_request ''DELETE'' [''api'', ''v1'', ''tenants'', ''seven'', ''gateways'', ''stripe'']))
     (sample_api sample_world) = (Inr res, sample_api sample_world) \<and> rs_Status res = 403"
  by (rule foreign_config_forbidden [of _ "''seven''" "''stripe''"]) (simp_all add: tenant_of_def bare_request_def asks_def clean_path_def)

definition keyed_request :: request where
  "keyed_request = (bare_request ''POST'' [''api'', ''v1'', ''payments'']) \<lparr> r_Header := (\<lambda>h. if h = ''Idempotency-Key'' then ''k1'' else '''') \<rparr>"

definition created :: handler where
  "created r = ok \<lparr> rs_Status = 201, rs_Headers = [], rs_Body = TextBody ''first'' \<rparr>"

theorem replay_without_effect_witness:
  "ResponseCache shop (\<lambda>_. nil_panic) keyed_request (snd (ResponseCache shop created keyed_request (sample_api sample_world))) =
     (Inr (replayCached (201, TextBody ''first'')), snd (ResponseCache shop created keyed_request (sample_api sample_world)))"
proof -
  let ?s = "sample_api sample_world" let ?s1 = "snd (ResponseCache shop created keyed_request ?s)"
  let ?res = "\<lparr> rs_Status = 201, rs_Headers = [], rs_Body = TextBody ''first'' \<rparr>"
  let ?key = "response_cacheKey (sv_codec shop) keyed_request (r_Header keyed_request ''Idempotency-Key'') (hashString (sv_codec shop) ''{}'')"
  have miss: "fst (cache_Get ?key ?s) = Inr None" by (simp add: cache_Get_def sample_api_def)
  have run: "ResponseCache shop created keyed_request ?s = (Inr ?res, ?s1)" and up: "a_cache_up ?s1"
    by (simp_all add: ResponseCache_def keyed_request_def bare_request_def isMutating_def readBodyHash_def created_def cache_Get_def cache_Put_def
        bindE_def attempt_def ok_def sample_api_def Let_def)
  have "ResponseCache shop (\<lambda>_. nil_panic) keyed_request ?s1 = (Inr (replayCached (rs_Status ?res, rs_Body ?res)), ?s1)"
    by (rule replay_without_effect [OF _ _ _ run _ _ up miss refl up]) (simp_all add: keyed_request_def bare_request_def isMutating_def respCacheTTL_def)
  then show ?thesis by simp
qed

end
