(* ===== verification/Service_Config.thy ===== *)
theory Service_Config
  imports Http
begin

section \<open>Configuration of the service (config/config.go, and its use in cmd/server/api.go)\<close>

text \<open>
  The settings as the code reads them, their validation, the connection string for Postgres and the two formats
  in which tokens are given. Reading the file and the variables is left to viper: \<open>envBindings\<close> is the table it is given, and
  \<open>intSecondsToDurationHook\<close> the conversion it calls.
\<close>

record AppConfig =
  app_ServiceName :: string
  app_Environment :: string
  app_ServiceVersion :: string
  app_Port :: int
  app_MtlsStrictMode :: bool

record DatabaseConfig =
  dbc_PrimaryHost :: string
  dbc_ReplicaHost :: string
  dbc_Port :: int
  dbc_Name :: string
  dbc_User :: string
  dbc_Password :: string
  dbc_SSLMode :: string
  dbc_SearchPath :: string
  dbc_MaxOpenConns :: int
  dbc_MaxIdleConns :: int
  dbc_ConnMaxLifetime :: int
  dbc_ConnMaxIdleTime :: int
  dbc_HealthCheckPeriod :: int

record OutboxConfig =
  oc_ShardCount :: int
  oc_WALLagAlertThresholdMB :: int
  oc_WALLagCriticalThresholdMB :: int
  oc_PollIntervalSec :: int
  oc_MaxAttempts :: int
  oc_BatchSize :: int
  oc_ClaimTTLSec :: int
  oc_Publisher :: string
  oc_SNSAggregateVersionAttr :: bool
  oc_WorkerIndex :: int
  oc_WorkerCount :: int

record ObservabilityConfig =
  obs_Backend :: string
  obs_LogLevel :: string
  obs_OTLPEndpoint :: string
  obs_OTLPProtocol :: string

record SecurityConfig =
  sec_EncryptionKey :: string
  sec_TLSCertFile :: string
  sec_TLSKeyFile :: string
  sec_TLSCAFile :: string
  sec_CertRefreshIntervalSec :: int
  sec_ServiceTokens :: string
  sec_OpsTokens :: string

text \<open>The parts of \<open>Config\<close> that are validated or used below.\<close>

record ServiceConfig =
  cfg_App :: AppConfig
  cfg_Database :: DatabaseConfig
  cfg_SNS_PaymentEventsTopic :: string
  cfg_Outbox :: OutboxConfig
  cfg_RateLimit :: RateLimitConfig
  cfg_Observability :: ObservabilityConfig
  cfg_Security :: SecurityConfig

definition envBindings :: "(string \<times> string) list" where
  "envBindings = [
     (''app.service_name'', ''SERVICE_NAME''),
     (''app.environment'', ''ENVIRONMENT''),
     (''app.service_version'', ''SERVICE_VERSION''),
     (''app.port'', ''PORT''),
     (''app.mtls_strict_mode'', ''MTLS_STRICT_MODE''),
     (''database.primary_host'', ''DATABASE_PRIMARY_HOST''),
     (''database.replica_host'', ''DATABASE_REPLICA_HOST''),
     (''database.port'', ''DATABASE_PORT''),
     (''database.name'', ''DATABASE_NAME''),
     (''database.user'', ''DATABASE_USER''),
     (''database.password'', ''DATABASE_PASSWORD''),
     (''database.ssl_mode'', ''DATABASE_SSL_MODE''),
     (''database.max_open_conns'', ''DATABASE_MAX_OPEN_CONNS''),
     (''database.max_idle_conns'', ''DATABASE_MAX_IDLE_CONNS''),
     (''database.conn_max_lifetime_sec'', ''DATABASE_CONN_MAX_LIFETIME''),
     (''database.conn_max_idle_time_sec'', ''DATABASE_CONN_MAX_IDLE_TIME''),
     (''database.health_check_period_sec'', ''DATABASE_HEALTH_CHECK_PERIOD''),
     (''valkey.addrs'', ''VALKEY_ADDRS''),
     (''valkey.rate_limit_db'', ''VALKEY_RATE_LIMIT_DB''),
     (''valkey.cache_db'', ''VALKEY_CACHE_DB''),
     (''valkey.dial_timeout_sec'', ''VALKEY_DIAL_TIMEOUT''),
     (''valkey.read_timeout_sec'', ''VALKEY_READ_TIMEOUT''),
     (''valkey.write_timeout_sec'', ''VALKEY_WRITE_TIMEOUT''),
     (''sns.payment_events_topic'', ''SNS_PAYMENT_EVENTS_TOPIC''),
     (''aws.region'', ''AWS_REGION''),
     (''outbox.wal_lag_alert_threshold_mb'', ''OUTBOX_RELAY_WAL_LAG_ALERT_THRESHOLD_MB''),
     (''outbox.wal_lag_critical_threshold_mb'', ''OUTBOX_RELAY_WAL_LAG_CRITICAL_THRESHOLD_MB''),
     (''outbox.poll_interval_sec'', ''OUTBOX_RELAY_POLL_INTERVAL_SEC''),
     (''outbox.max_attempts'', ''OUTBOX_RELAY_MAX_ATTEMPTS''),
     (''outbox.batch_size'', ''OUTBOX_RELAY_BATCH_SIZE''),
     (''outbox.claim_ttl_sec'', ''OUTBOX_RELAY_CLAIM_TTL_SEC''),
     (''outbox.publisher'', ''OUTBOX_PUBLISHER''),
     (''outbox.shard_count'', ''OUTBOX_SHARD_COUNT''),
     (''outbox.sns_aggregate_version_attr'', ''OUTBOX_SNS_AGGREGATE_VERSION_ATTRIBUTE''),
     (''outbox.worker_index'', ''RELAY_WORKER_INDEX''),
     (''outbox.worker_count'', ''RELAY_WORKER_COUNT''),
     (''rate_limit.fallback_multiplier'', ''RATE_LIMIT_FALLBACK_MULTIPLIER''),
     (''rate_limit.local_max_buckets'', ''RATE_LIMIT_LOCAL_MAX_BUCKETS''),
     (''rate_limit.health_check_interval_ms'', ''RATE_LIMIT_VALKEY_HEALTH_CHECK_INTERVAL_MS''),
     (''rate_limit.capacity'', ''RATE_LIMIT_CAPACITY''),
     (''rate_limit.refill_per_sec'', ''RATE_LIMIT_REFILL_PER_SEC''),
     (''gateway.http_timeout_sec'', ''GATEWAY_HTTP_TIMEOUT''),
     (''gateway.circuit_breaker_threshold'', ''CIRCUIT_BREAKER_FAILURE_THRESHOLD''),
     (''notification.smtp.host'', ''SMTP_HOST''),
     (''notification.smtp.port'', ''SMTP_PORT''),
     (''notification.smtp.username'', ''SMTP_USERNAME''),
     (''notification.smtp.password'', ''SMTP_PASSWORD''),
     (''notification.smtp.from'', ''SMTP_FROM''),
     (''notification.sms.provider'', ''SMS_PROVIDER''),
     (''notification.sms.api_key'', ''SMS_API_KEY''),
     (''notification.sms.from'', ''SMS_FROM''),
     (''observability.backend'', ''OBSERVABILITY_BACKEND''),
     (''observability.log_level'', ''LOG_LEVEL''),
     (''observability.otlp_endpoint'', ''OTLP_ENDPOINT''),
     (''observability.otlp_protocol'', ''OTLP_PROTOCOL''),
     (''security.encryption_key'', ''ENCRYPTION_KEY''),
     (''security.tls_cert_file'', ''TLS_CERT_FILE''),
     (''security.tls_key_file'', ''TLS_KEY_FILE''),
     (''security.tls_ca_file'', ''TLS_CA_FILE''),
     (''security.cert_refresh_interval_sec'', ''TLS_CERT_REFRESH_INTERVAL_SECONDS''),
     (''security.service_tokens'', ''SERVICE_TOKENS''),
     (''security.ops_tokens'', ''OPS_TOKENS''),
     (''jobs.lease_expiry_interval_sec'', ''LEASE_EXPIRY_INTERVAL_SECONDS''),
     (''jobs.idempotency_processing_timeout_sec'', ''LEASE_REAPER_IDEMPOTENCY_TIMEOUT_SEC''),
     (''jobs.partition_weeks_ahead'', ''PARTITION_WEEKS_AHEAD''),
     (''jobs.partition_retention_weeks'', ''PARTITION_RETENTION_WEEKS''),
     (''jobs.partition_drop_after_days'', ''PARTITION_DROP_AFTER_DAYS''),
     (''jobs.reconciliation_interval_sec'', ''RECONCILIATION_INTERVAL_SECONDS''),
     (''startup.connect_max_attempts'', ''STARTUP_CONNECT_MAX_ATTEMPTS''),
     (''startup.connect_attempt_timeout_sec'', ''STARTUP_CONNECT_ATTEMPT_TIMEOUT''),
     (''startup.connect_backoff_sec'', ''STARTUP_CONNECT_BACKOFF'')]"

text \<open>What a decoder hands to the hook, for a setting of type \<open>time.Duration\<close> or of another type. Converting a \<open>float64\<close> to
  a \<open>Duration\<close> cuts off its fraction.\<close>

datatype setting = SetInt int | SetInt64 int | SetFloat rat | SetString string | SetDuration int | SetOther

definition trunc :: "rat \<Rightarrow> int" where
  "trunc x = (if 0 \<le> x then \<lfloor>x\<rfloor> else \<lceil>x\<rceil>)"

definition intSecondsToDurationHook :: "bool \<Rightarrow> setting \<Rightarrow> setting" where
  "intSecondsToDurationHook duration data = (if \<not> duration then data else case data of
      SetInt v \<Rightarrow> SetDuration (wrap64 (v * Second))
    | SetInt64 v \<Rightarrow> SetDuration (wrap64 (v * Second))
    | SetFloat v \<Rightarrow> SetDuration (wrap64 (trunc v * Second))
    | SetString v \<Rightarrow> (case ParseInt (TrimSpace v) of (n, valid) \<Rightarrow> if valid then SetDuration (wrap64 (n * Second)) else data)
    | _ \<Rightarrow> data)"

subsection \<open>Validation\<close>

definition quote :: char where
  "quote = CHR 0x27"

definition config_errors :: "ServiceConfig \<Rightarrow> string list" where
  "config_errors c = (let ob = cfg_Outbox c; v = cfg_Observability c; m = rlc_FallbackMultiplier (cfg_RateLimit c) in
     (if app_Environment (cfg_App c) \<notin> {''prod'', ''staging'', ''dev''} then [''app.environment must be one of: prod, staging, dev''] else []) @
     (if obs_LogLevel v \<notin> {''error'', ''warn'', ''info'', ''debug'', ''trace''}
      then [''observability.log_level must be one of: error, warn, info, debug, trace''] else []) @
     (if obs_OTLPEndpoint v \<noteq> '''' \<and> obs_OTLPProtocol v \<notin> {''http/protobuf'', ''grpc''}
      then [''observability.otlp_protocol must be \"http/protobuf\" or \"grpc\"''] else []) @
     (if oc_WALLagCriticalThresholdMB ob \<le> oc_WALLagAlertThresholdMB ob
      then [''outbox.wal_lag_alert_threshold_mb must be < outbox.wal_lag_critical_threshold_mb''] else []) @
     (if oc_ClaimTTLSec ob \<le> oc_PollIntervalSec ob then [''outbox.claim_ttl_sec must be > outbox.poll_interval_sec''] else []) @
     (if oc_Publisher ob \<notin> {'''', ''log'', ''sns''} then [''outbox.publisher must be '' @ [quote] @ ''log'' @ [quote] @ '' or '' @ [quote] @ ''sns'' @ [quote]] else []) @
     (if oc_Publisher ob = ''sns'' \<and> cfg_SNS_PaymentEventsTopic c = ''''
      then [''sns.payment_events_topic is required when outbox.publisher=sns''] else []) @
     (if oc_WorkerCount ob < 1 then [''outbox.worker_count must be >= 1''] else []) @
     (if oc_WorkerIndex ob < 0 \<or> oc_WorkerCount ob \<le> oc_WorkerIndex ob then [''outbox.worker_index must be in [0, worker_count)''] else []) @
     (if m \<le> 0 \<or> 1 < m then [''rate_limit.fallback_multiplier must be in (0, 1]''] else []))"

definition Validate_Config :: "ServiceConfig \<Rightarrow> go_error + unit" where
  "Validate_Config c = (let errs = config_errors c in
     if errs \<noteq> [] then Inl (Errorf (''config validation failed:'' @ concat (map (\<lambda>e. CHR 0x0A # ''  - '' @ e) errs))) else Inr ())"

subsection \<open>The connection string\<close>

text \<open>\<open>strings.ReplaceAll\<close> of a single character.\<close>

definition ReplaceAll :: "string \<Rightarrow> char \<Rightarrow> string \<Rightarrow> string" where
  "ReplaceAll s old new = concat (map (\<lambda>c. if c = old then new else [c]) s)"

definition backslash :: char where
  "backslash = CHR 0x5C"

definition quoteDSNValue :: "string \<Rightarrow> string" where
  "quoteDSNValue v = (let v = ReplaceAll v backslash [backslash, backslash]; v = ReplaceAll v quote [backslash, quote]
     in [quote] @ v @ [quote])"

definition dsn_text :: "string \<Rightarrow> DatabaseConfig \<Rightarrow> string" where
  "dsn_text host d =
     ''host='' @ quoteDSNValue host @ '' port='' @ FormatInt (dbc_Port d) @ '' dbname='' @ quoteDSNValue (dbc_Name d) @
     '' user='' @ quoteDSNValue (dbc_User d) @ '' password='' @ quoteDSNValue (dbc_Password d) @
     '' sslmode='' @ quoteDSNValue (dbc_SSLMode d) @
     (if dbc_SearchPath d \<noteq> '''' then '' search_path='' @ quoteDSNValue (dbc_SearchPath d) else '''')"

definition DSN :: "DatabaseConfig \<Rightarrow> string" where
  "DSN d = dsn_text (dbc_PrimaryHost d) d"

definition ReplicaDSN :: "DatabaseConfig \<Rightarrow> string option" where
  "ReplicaDSN d = (if dbc_ReplicaHost d = '''' then None else Some (dsn_text (dbc_ReplicaHost d) d))"

subsection \<open>Tokens\<close>

definition key_value :: "(string \<times> string) list \<Rightarrow> string \<Rightarrow> (string \<times> string) list" where
  "key_value out pair = (case SplitN2 (CHR ''='') (TrimSpace pair) of
      (k, Some v) \<Rightarrow> if k \<noteq> '''' then put_key k v out else out
    | (k, None) \<Rightarrow> out)"

definition ParseKeyValues :: "string \<Rightarrow> (string \<times> string) list" where
  "ParseKeyValues raw = (if raw = '''' then [] else foldl key_value [] (Split (CHR '','') raw))"

definition SplitEnv :: "string \<Rightarrow> string list" where
  "SplitEnv raw = (if raw = '''' then [] else filter (\<lambda>t. t \<noteq> '''') (map TrimSpace (Split (CHR '','') raw)))"

definition HasAny :: "(string \<times> string) list \<Rightarrow> string list \<Rightarrow> bool" where
  "HasAny service ops \<longleftrightarrow> list_ex (\<lambda>(t, _). t \<noteq> '''') service \<or> list_ex (\<lambda>t. t \<noteq> '''') ops"

text \<open>How the server starts its authentication.\<close>

definition auth_provider :: "codec \<Rightarrow> SecurityConfig \<Rightarrow> go_error + StaticTokenProvider" where
  "auth_provider cd sec = (let service = ParseKeyValues (sec_ServiceTokens sec); ops = SplitEnv (sec_OpsTokens sec)
     in if HasAny service ops then Inr (NewStaticTokenProvider cd service ops) else Inl (Errorf ''no auth tokens configured''))"

subsection \<open>What the settings guarantee\<close>

lemma env_bindings_distinct: "distinct (map fst envBindings) \<and> distinct (map snd envBindings)"
  by code_simp

text \<open>A configuration that passes gives a relay worker an index among the workers, claims that outlive a poll, and a fallback of
  the rate limiter between nothing and the full rate. (The number of shards is not checked.)\<close>

lemma validated_settings:
  assumes "Validate_Config c = Inr ()"
  shows "0 \<le> oc_WorkerIndex (cfg_Outbox c)" "oc_WorkerIndex (cfg_Outbox c) < oc_WorkerCount (cfg_Outbox c)"
    "oc_PollIntervalSec (cfg_Outbox c) < oc_ClaimTTLSec (cfg_Outbox c)"
    "0 < rlc_FallbackMultiplier (cfg_RateLimit c)" "rlc_FallbackMultiplier (cfg_RateLimit c) \<le> 1"
    "oc_Publisher (cfg_Outbox c) = ''sns'' \<Longrightarrow> cfg_SNS_PaymentEventsTopic c \<noteq> ''''"
  using assms by (auto simp: Validate_Config_def config_errors_def Let_def split: if_splits)

text \<open>A fraction of a second is lost: half a second, written as a number, is no time at all.\<close>

lemma half_second_is_zero: "intSecondsToDurationHook True (SetFloat (1 / 2)) = SetDuration 0"
proof -
  have "\<lfloor>1 / 2 :: rat\<rfloor> = 0" by (simp add: floor_eq_iff)
  then show ?thesis by (simp add: intSecondsToDurationHook_def trunc_def)
qed

subsection \<open>The connection string is read as it was meant\<close>

text \<open>The reader of connection strings as libpq documents it: settings \<open>key=value\<close> separated by blanks, a value in single quotes with
  backslash as escape, or bare up to the next blank.\<close>

fun read_quoted :: "string \<Rightarrow> (string \<times> string) option" where
  "read_quoted [] = None"
| "read_quoted (c # cs) = (if c = quote then Some ([], cs)
     else if c = backslash then (case cs of [] \<Rightarrow> None | x # xs \<Rightarrow> map_option (\<lambda>(v, rest). (x # v, rest)) (read_quoted xs))
     else map_option (\<lambda>(v, rest). (c # v, rest)) (read_quoted cs))"

definition read_value :: "string \<Rightarrow> (string \<times> string) option" where
  "read_value s = (case s of c # cs \<Rightarrow> if c = quote then read_quoted cs
       else Some (takeWhile (\<lambda>x. \<not> is_space x) s, dropWhile (\<lambda>x. \<not> is_space x) s)
     | [] \<Rightarrow> Some ([], []))"

fun read_settings :: "nat \<Rightarrow> string \<Rightarrow> (string \<times> string) list option" where
  "read_settings 0 s = (if s = [] then Some [] else None)"
| "read_settings (Suc n) s = (case dropWhile is_space s of [] \<Rightarrow> Some []
     | c # cs \<Rightarrow> (case SplitN2 (CHR ''='') (c # cs) of
          (k, None) \<Rightarrow> None
        | (k, Some r) \<Rightarrow> (case read_value r of
             None \<Rightarrow> None
           | Some (v, rest) \<Rightarrow> map_option ((#) (k, v)) (read_settings n rest))))"

lemma marks_differ [simp]: "quote \<noteq> backslash" "backslash \<noteq> quote"
  by (simp_all add: quote_def backslash_def)

lemma quoteDSNValue_parts:
  "quoteDSNValue v = quote # concat (map (\<lambda>c. if c = backslash \<or> c = quote then [backslash, c] else [c]) v) @ [quote]"
proof -
  have "ReplaceAll (ReplaceAll v backslash [backslash, backslash]) quote [backslash, quote] =
      concat (map (\<lambda>c. if c = backslash \<or> c = quote then [backslash, c] else [c]) v)"
    by (induction v) (auto simp: ReplaceAll_def)
  then show ?thesis by (simp add: quoteDSNValue_def Let_def)
qed

lemma read_value_quoted: "read_value (quoteDSNValue v @ rest) = Some (v, rest)"
proof -
  have "read_quoted (concat (map (\<lambda>c. if c = backslash \<or> c = quote then [backslash, c] else [c]) v) @ quote # rest) = Some (v, rest)"
    by (induction v) auto
  then show ?thesis by (simp add: read_value_def quoteDSNValue_parts)
qed

lemma read_value_number:
  assumes "rest = [] \<or> is_space (hd rest)"
  shows "read_value (FormatInt n @ rest) = Some (FormatInt n, rest)"
proof -
  have chars: "c \<noteq> quote \<and> \<not> is_space c" if "c \<in> set (FormatInt n)" for c
  proof -
    have "dec_val c \<noteq> None \<or> c = CHR ''-''" using FormatInt_no [of c n] that by blast
    then show ?thesis by (auto simp: dec_val_def is_space_def quote_def split: if_splits)
  qed
  obtain c cs where ne: "FormatInt n = c # cs" by (cases "FormatInt n") (auto simp: FormatInt_def format_nat.simps split: if_splits)
  have "takeWhile (\<lambda>x. \<not> is_space x) (FormatInt n @ rest) = FormatInt n" "dropWhile (\<lambda>x. \<not> is_space x) (FormatInt n @ rest) = rest"
    using assms chars by (cases rest; simp add: takeWhile_append2 dropWhile_append2)+
  moreover have "c \<noteq> quote" using chars ne by simp
  ultimately show ?thesis by (simp add: read_value_def ne)
qed

definition reads_as :: "string \<times> string \<times> string \<Rightarrow> bool" where
  "reads_as x \<longleftrightarrow> (case x of (k, shown, v) \<Rightarrow> k \<noteq> [] \<and> (\<forall>c \<in> set k. \<not> is_space c \<and> c \<noteq> CHR ''='') \<and>
     (\<forall>rest. rest = [] \<or> is_space (hd rest) \<longrightarrow> read_value (shown @ rest) = Some (v, rest)))"

lemma read_settings_all:
  assumes "\<forall>x \<in> set xs. reads_as x" "length xs \<le> n"
  shows "read_settings n (concat (map (\<lambda>(k, shown, v). CHR '' '' # k @ CHR ''='' # shown) xs)) = Some (map (\<lambda>(k, shown, v). (k, v)) xs)"
  using assms
proof (induction xs arbitrary: n)
  case Nil
  then show ?case by (cases n) simp_all
next
  case (Cons x xs)
  obtain k shown v where x: "x = (k, shown, v)" by (cases x)
  obtain m where n: "n = Suc m" using Cons.prems(2) by (cases n) simp_all
  define rest where "rest = concat (map (\<lambda>(k, shown, v). CHR '' '' # k @ CHR ''='' # shown) xs)"
  have r: "rest = [] \<or> is_space (hd rest)" by (cases xs) (auto simp: rest_def is_space_def split: prod.splits)
  have as: "k \<noteq> []" "\<forall>c \<in> set k. \<not> is_space c \<and> c \<noteq> CHR ''=''" "read_value (shown @ rest) = Some (v, rest)"
    using Cons.prems(1) r unfolding x reads_as_def by force+
  have "dropWhile is_space (CHR '' '' # k @ CHR ''='' # shown @ rest) = k @ CHR ''='' # shown @ rest"
    using as(1,2) by (cases k) (simp_all add: is_space_def)
  moreover have "SplitN2 (CHR ''='') (k @ CHR ''='' # shown @ rest) = (k, Some (shown @ rest))" using as(2) by (intro SplitN2_found) auto
  ultimately have "read_settings n (CHR '' '' # k @ CHR ''='' # shown @ rest) = map_option ((#) (k, v)) (read_settings m rest)"
    using as(1,3) n by (cases k) simp_all
  also have "read_settings m rest = Some (map (\<lambda>(k, shown, v). (k, v)) xs)"
    unfolding rest_def using Cons.prems n by (intro Cons.IH) simp_all
  finally show ?case by (simp add: x rest_def [symmetric])
qed

text \<open>Whatever characters names and passwords contain, the driver reads the settings that were meant, and no others.\<close>

theorem DSN_settings:
  "read_settings 7 (DSN d) = Some ([(''host'', dbc_PrimaryHost d), (''port'', FormatInt (dbc_Port d)), (''dbname'', dbc_Name d),
     (''user'', dbc_User d), (''password'', dbc_Password d), (''sslmode'', dbc_SSLMode d)] @
     (if dbc_SearchPath d \<noteq> '''' then [(''search_path'', dbc_SearchPath d)] else []))"
proof -
  define q where "q = (\<lambda>k v. (k, quoteDSNValue v, v) :: string \<times> string \<times> string)"
  define xs where "xs = [q ''host'' (dbc_PrimaryHost d), (''port'', FormatInt (dbc_Port d), FormatInt (dbc_Port d)), q ''dbname'' (dbc_Name d),
     q ''user'' (dbc_User d), q ''password'' (dbc_Password d), q ''sslmode'' (dbc_SSLMode d)] @
     (if dbc_SearchPath d \<noteq> '''' then [q ''search_path'' (dbc_SearchPath d)] else [])"
  have "CHR '' '' # DSN d = concat (map (\<lambda>(k, shown, v). CHR '' '' # k @ CHR ''='' # shown) xs)"
    by (simp add: DSN_def dsn_text_def xs_def q_def)
  moreover have "read_settings 7 (CHR '' '' # DSN d) = read_settings 7 (DSN d)" by (simp add: numeral_eq_Suc is_space_def)
  moreover have "\<forall>x \<in> set xs. reads_as x"
    by (auto simp: xs_def q_def reads_as_def read_value_quoted read_value_quoted [of _ "[]", simplified]
        read_value_number read_value_number [of "[]", simplified] is_space_def)
  moreover have "length xs \<le> 7" by (simp add: xs_def)
  ultimately have "read_settings 7 (DSN d) = Some (map (\<lambda>(k, shown, v). (k, v)) xs)" using read_settings_all by metis
  then show ?thesis by (simp add: xs_def q_def)
qed

subsection \<open>Configured tokens\<close>

text \<open>Tokens as an operator writes them: \<open>token=tenant:user\<close>, separated by commas. A token has no equals sign, since the text is
  cut at the first one.\<close>

definition token_text :: "string \<times> string \<times> string \<Rightarrow> string" where
  "token_text x = (case x of (token, tenant, user) \<Rightarrow> token @ CHR ''='' # tenant @ CHR '':'' # user)"

definition plain_word :: "char set \<Rightarrow> string \<Rightarrow> bool" where
  "plain_word bad s \<longleftrightarrow> (\<forall>c \<in> set s. \<not> is_space c \<and> c \<noteq> CHR '','' \<and> c \<notin> bad)"

definition plain_token :: "string \<times> string \<times> string \<Rightarrow> bool" where
  "plain_token x \<longleftrightarrow> (case x of (token, tenant, user) \<Rightarrow> token \<noteq> '''' \<and> plain_word {CHR ''=''} token \<and>
     plain_word {CHR '':''} tenant \<and> plain_word {} user)"

lemma Split_join: "\<forall>p \<in> set ps. c \<notin> set p \<Longrightarrow> ps \<noteq> [] \<Longrightarrow> Split c (join_with c ps) = ps"
proof (induction c ps rule: join_with.induct)
  case (3 c p q ps)
  then show ?case using Split_append [of c p "join_with c (q # ps)"] by simp
qed (simp_all add: Split_none)

lemma token_text_plain:
  assumes "plain_token x"
  shows "TrimSpace (token_text x) = token_text x" "CHR '','' \<notin> set (token_text x)"
    "key_value out (token_text x) = put_key (fst x) (fst (snd x) @ CHR '':'' # snd (snd x)) out"
proof -
  obtain token tenant user where x: "x = (token, tenant, user)" by (cases x)
  have sp: "\<not> is_space (CHR '':'')" "\<not> is_space (CHR ''='')" by (simp_all add: is_space_def)
  have "\<forall>c \<in> set (token_text x). \<not> is_space c" using assms sp by (auto simp: plain_token_def plain_word_def token_text_def x)
  then show trim: "TrimSpace (token_text x) = token_text x" by (rule TrimSpace_id)
  show "CHR '','' \<notin> set (token_text x)" using assms by (auto simp: plain_token_def plain_word_def token_text_def x)
  have "SplitN2 (CHR ''='') (token_text x) = (token, Some (tenant @ CHR '':'' # user))"
    unfolding token_text_def x prod.case using assms by (intro SplitN2_found) (auto simp: plain_token_def plain_word_def x)
  then show "key_value out (token_text x) = put_key (fst x) (fst (snd x) @ CHR '':'' # snd (snd x)) out"
    using assms trim by (simp add: key_value_def x plain_token_def)
qed

lemma principal_of_text:
  assumes "plain_token (token, tenant, user)"
  shows "splitPrincipal (tenant @ CHR '':'' # user) = (tenant, user)"
proof -
  have "\<forall>c \<in> set tenant. \<not> is_space c" "\<forall>c \<in> set user. \<not> is_space c" "CHR '':'' \<notin> set tenant"
    using assms unfolding plain_token_def plain_word_def prod.case by blast+
  then have "CHR '':'' \<notin> set tenant" "TrimSpace tenant = tenant" "TrimSpace user = user"
    using TrimSpace_id by blast+
  then show ?thesis by (simp add: splitPrincipal_def SplitN2_found)
qed

text \<open>With distinct tokens the map of the code is the list itself.\<close>

lemma ParseKeyValues_tokens:
  assumes "\<forall>x \<in> set ps. plain_token x" "distinct (map fst ps)"
  shows "ParseKeyValues (join_with (CHR '','') (map token_text ps)) = map (\<lambda>(t, tenant, user). (t, tenant @ CHR '':'' # user)) ps"
proof (cases "ps = []")
  case False
  have fold: "foldl key_value out (map token_text ps) = out @ map (\<lambda>(t, tenant, user). (t, tenant @ CHR '':'' # user)) ps"
    if "fst ` set out \<inter> fst ` set ps = {}" for out
    using assms that
  proof (induction ps arbitrary: out)
    case (Cons x ps)
    have "filter (\<lambda>(k', _). k' \<noteq> fst x) out = out" using Cons.prems(3) by (force simp: filter_id_conv)
    then have "key_value out (token_text x) = out @ [(fst x, fst (snd x) @ CHR '':'' # snd (snd x))]"
      using Cons.prems(1) by (simp add: token_text_plain put_key_def)
    moreover have "fst ` set (out @ [(fst x, fst (snd x) @ CHR '':'' # snd (snd x))]) \<inter> fst ` set ps = {}"
      using Cons.prems(2,3) by auto
    ultimately show ?case using Cons.IH Cons.prems(1,2) by (simp add: split_beta)
  qed simp
  have "join_with (CHR '','') (map token_text ps) \<noteq> ''''"
    using False by (cases ps rule: list.exhaust; cases "tl ps") (auto simp: token_text_def split: prod.splits)
  moreover have "Split (CHR '','') (join_with (CHR '','') (map token_text ps)) = map token_text ps"
    using assms(1) False token_text_plain(2) by (intro Split_join) auto
  ultimately show ?thesis using fold [of "[]"] by (simp add: ParseKeyValues_def)
qed (simp add: ParseKeyValues_def)

lemma servicePrincipals_lookup:
  assumes "\<forall>x \<in> set ps. plain_token x" "distinct (map fst ps)" "inj_on (token_hash cd) (insert token (fst ` set ps))"
  shows "servicePrincipals cd (map (\<lambda>(t, tenant, user). (t, tenant @ CHR '':'' # user)) ps) (token_hash cd token) =
    map_option (\<lambda>(tenant, user). \<lparr> pr_Role = RoleService, pr_TenantID = tenant, pr_UserID = user \<rparr>) (map_of ps token)"
  using assms
proof (induction ps rule: rev_induct)
  case Nil
  then show ?case by (simp add: servicePrincipals_def)
next
  case (snoc x ps)
  obtain t tenant user where x: "x = (t, tenant, user)" by (cases x)
  have plain: "plain_token (t, tenant, user)" using snoc.prems(1) x by simp
  have "inj_on (token_hash cd) (insert token (fst ` set ps))" by (rule inj_on_subset [OF snoc.prems(3)]) auto
  with snoc have IH: "servicePrincipals cd (map (\<lambda>(t, tenant, user). (t, tenant @ CHR '':'' # user)) ps) (token_hash cd token) =
    map_option (\<lambda>(tenant, user). \<lparr> pr_Role = RoleService, pr_TenantID = tenant, pr_UserID = user \<rparr>) (map_of ps token)" by simp
  have same: "token_hash cd token = token_hash cd t \<longleftrightarrow> token = t" using inj_on_eq_iff [OF snoc.prems(3)] x by simp
  have new: "t \<notin> fst ` set ps" using snoc.prems(2) x by simp
  then have "map_of (ps @ [x]) token = (if token = t then Some (tenant, user) else map_of ps token)"
    using map_of_eq_None_iff [of ps t] by (auto simp: x map_add_def split: option.splits)
  moreover have "t \<noteq> ''''" using plain by (simp add: plain_token_def)
  ultimately show ?case using IH same principal_of_text [OF plain] by (simp add: servicePrincipals_def x)
qed

text \<open>The server admits exactly the service tokens it is configured with, each for the tenant and the user written
  beside it: the variable \<open>SERVICE_TOKENS\<close> is read, hashed and looked up so that a presented token has the principal of the entry
  with that token, and no principal when there is none. Tokens are distinct, contain neither blanks nor commas nor equals signs, and the
  hash does not confuse the presented one with another.\<close>

theorem configured_tokens_exact:
  assumes "\<forall>x \<in> set ps. plain_token x" "distinct (map fst ps)" "ps \<noteq> []"
    and "inj_on (token_hash cd) (insert token (fst ` set ps))"
    and "sec_ServiceTokens sec = join_with (CHR '','') (map token_text ps)"
  shows "\<exists>p. auth_provider cd sec = Inr p \<and> Resolve cd p RoleService token =
    map_option (\<lambda>(tenant, user). \<lparr> pr_Role = RoleService, pr_TenantID = tenant, pr_UserID = user \<rparr>) (map_of ps token)"
proof -
  let ?ts = "map (\<lambda>(t, tenant, user). (t, tenant @ CHR '':'' # user)) ps"
  have ts: "ParseKeyValues (sec_ServiceTokens sec) = ?ts" using ParseKeyValues_tokens [OF assms(1,2)] assms(5) by simp
  have "HasAny ?ts ops" for ops
    using assms(1,3) by (cases ps) (auto simp: HasAny_def plain_token_def)
  then have "auth_provider cd sec = Inr (NewStaticTokenProvider cd ?ts (SplitEnv (sec_OpsTokens sec)))"
    by (simp add: auth_provider_def ts)
  moreover have "RoleService \<noteq> RoleOps" by simp
  ultimately show ?thesis using servicePrincipals_lookup [OF assms(1,2,4)] by (simp add: Resolve_def NewStaticTokenProvider_def)
qed

definition sample_security :: SecurityConfig where
  "sample_security = \<lparr> sec_EncryptionKey = '''', sec_TLSCertFile = '''', sec_TLSKeyFile = '''', sec_TLSCAFile = '''', sec_CertRefreshIntervalSec = 0,
     sec_ServiceTokens = ''alpha=t1:u1,beta=t2:u2'', sec_OpsTokens = ''root'' \<rparr>"

theorem configured_tokens_exact_witness:
  "\<exists>p. auth_provider plain_codec sample_security = Inr p \<and>
     Resolve plain_codec p RoleService ''beta'' = Some \<lparr> pr_Role = RoleService, pr_TenantID = ''t2'', pr_UserID = ''u2'' \<rparr>"
proof -
  let ?ps = "[(''alpha'', ''t1'', ''u1''), (''beta'', ''t2'', ''u2'')]"
  have "\<forall>x \<in> set ?ps. plain_token x" by (simp add: plain_token_def plain_word_def is_space_def)
  moreover have "distinct (map fst ?ps)" "?ps \<noteq> []" by simp_all
  moreover have "inj_on (token_hash plain_codec) (insert ''beta'' (fst ` set ?ps))"
    by (rule inj_on_inverseI [where g = "the \<circ> hex_DecodeString"]) (simp add: token_hash_def plain_codec_def hex_roundtrip)
  moreover have "sec_ServiceTokens sample_security = join_with (CHR '','') (map token_text ?ps)" by (simp add: sample_security_def token_text_def)
  ultimately show ?thesis using configured_tokens_exact [of ?ps plain_codec "''beta''" sample_security] by simp
qed


end
