(* ===== verification/Spec2Isabelle.thy ===== *)
theory Spec2Isabelle
  imports Charge_Keys Disputes Reconciliation Delivery Partitions Api Service_Config
begin

text \<open>
  A payment service in Go (\<open>src/internal\<close>, \<open>src/cmd/server\<close>). It creates payments, drives them through
  external gateways (Stripe, Razorpay, FIB), refunds and cancels them, handles webhooks, disputes and
  settlement reports, and announces what happened through an outbox table.

  \<^bold>\<open>The parts and how they interact.\<close> A request enters through the router and its middleware (request
  identifier, recovery from panics, authentication, rate limit, response cache) and reaches a handler,
  which calls a service. The services share one Postgres database and Valkey. A payment is inserted together
  with an outbox event; a relay worker, which a hash ring assigns to a shard of the events, hands the event to
  handlers, of which the initiators call \<open>ProcessGatewayInitiate\<close> and \<open>ProcessRefund\<close>. These take a lease or move
  the row, call the gateway through its circuit breaker, and record the outcome in a second transaction.
  Gateways report later by webhooks, which are applied once. Reapers take up what a crashed process left
  behind. Workers send notifications and tenant webhooks; further jobs reconcile payments with settlement
  reports and maintain the weekly partitions of the outbox.

  \<^bold>\<open>How the code becomes definitions.\<close> Every definition carries the name of the Go function or type it
  translates. A service operation is a computation \<open>world \<Rightarrow> (go_error + 'a) \<times> world\<close> (theories \<open>Prelude\<close> and
  \<open>Store\<close>): \<open>bindE\<close> is Go's early return on an error, \<open>WithinTx\<close> is a transaction whose tables are kept only when
  it commits, and \<open>w_budget\<close> counts the database calls that still succeed, so that a statement about all worlds
  covers the loss of the database at any point. The world holds the tables (\<open>db\<close>), Valkey, the caches of
  the process, the clock, and a log of the calls that gateways received, so that "charged twice" is a
  statement about a list. An \<open>int64\<close> is an integer with \<open>wrap64\<close> written out, identifiers are \<open>128 word\<close>, and
  \<open>float64\<close> is a rational that \<open>f64\<close> rounds after each operation. Code outside the repository (gateway
  servers, HMAC, AES-GCM, JSON parsing, UUID printing, random numbers) is a field of \<open>env\<close>, of \<open>server\<close> or of a
  record that the definitions take, and what a theorem needs of it stands among its hypotheses.

  \<^bold>\<open>Theories and sources.\<close>
  \<^item> \<open>Prelude\<close>, \<open>Go_Strings\<close>, \<open>Clock_Text\<close>, \<open>Float64\<close>: machine integers, errors, computations and their Hoare
    triples, tables; the string, time and float functions of Go's library that the code calls.
  \<^item> \<open>Transaction\<close>, \<open>Refund_Domain\<close>, \<open>Fees\<close>, \<open>Gateway_Domain\<close>, \<open>Dispute_Domain\<close>, \<open>Reconciliation_Domain\<close>: the packages
    of \<open>internal/domain\<close>, with their transition tables.
  \<^item> \<open>Ports\<close>, \<open>Store\<close>, \<open>Repositories\<close>, \<open>Listing\<close>, \<open>Config_Store\<close>, \<open>Tenant_Config\<close>, \<open>Partitions\<close>:
    \<open>internal/ports\<close> and \<open>internal/adapters/postgres\<close>; each SQL statement is a function on the tables. \<open>Partitions\<close> also has
    \<open>internal/jobs/partition_manager\<close>, \<open>Config_Store\<close> the configuration cache of \<open>valkey/client.go\<close> and
    \<open>internal/jobs/gateway_metrics\<close>.
  \<^item> \<open>Circuit_Store\<close>, \<open>Intents\<close>, \<open>Rate_Limiter\<close>: \<open>internal/adapters/valkey\<close> with its Lua scripts.
    \<open>Encryption\<close>: \<open>internal/adapters/encryption\<close>.
  \<^item> \<open>Gateway_Http\<close>, \<open>Stripe\<close>, \<open>Razorpay\<close>, \<open>Fib\<close>, \<open>Gateways\<close>: \<open>internal/adapters/gateways\<close> and the wiring of adapters
    in \<open>internal/bootstrap\<close>.
  \<^item> \<open>Idempotency\<close>, \<open>Payment\<close>, \<open>Refund_Service\<close>, \<open>Inbound_Webhook\<close>, \<open>Cancellation\<close>, \<open>Disputes\<close>, \<open>Reconciliation\<close>,
    \<open>Delivery\<close>: the services of \<open>internal/app\<close>, with the tables only they use and their jobs.
  \<^item> \<open>Ring\<close>, \<open>Relay\<close>, \<open>Jobs\<close>: \<open>internal/relay\<close>, the outbox handlers, and the reapers of \<open>internal/jobs\<close>.
  \<^item> \<open>Http\<close>, \<open>Payment_Api\<close>, \<open>Ops_Api\<close>, \<open>Api\<close>: \<open>internal/api\<close>, the middleware, one definition per handler, and the router.
    \<open>Service_Config\<close>: the settings of \<open>config/config.go\<close> and the tokens that the server starts with.
  \<^item> \<open>Store_Rules\<close>, \<open>Payment_Rules\<close>, \<open>Payment_Charges\<close>, \<open>Refund_Frame\<close>, \<open>Relay_Rules\<close>, \<open>Service_Steps\<close>, \<open>System_Steps\<close>, \<open>Row_Frame\<close>,
    \<open>Charge_Keys\<close>: no code of their own; rules for database code, invariants, and the step relations of the service
    and of the whole system with the properties of all reachable states.

  \<^bold>\<open>Interfaces.\<close> \<open>transition_table\<close> is what a status table promises (closed sets of statuses stay closed along runs);
  payments, refunds, disputes and circuit breakers implement it. \<open>claim_table\<close> is \<open>INSERT .. ON CONFLICT DO NOTHING\<close>:
  leases, idempotency keys and webhook events. \<open>optimistic_store\<close> is an update guarded by a version: payments and
  refunds. \<open>claim_queue\<close> is the locking of due rows by a worker: notifications and webhook deliveries.
  \<open>float_rounding\<close> is what the fee bounds need of rounding, and \<open>f64\<close> provides it. \<open>gateway_client\<close> is what an adapter
  promises; the three adapters implement it. The locales \<open>table_closed\<close>, \<open>refund_closed\<close>, \<open>cancel_closed\<close>, \<open>webhook_closed\<close>,
  \<open>relay_closed\<close>, \<open>system_closed\<close> and \<open>row_closed\<close> say what a property of the tables has to satisfy to be kept by a growing part
  of the system; each extends those before it (the last by \<open>sublocale\<close>), and they are interpreted on the
  properties behind the theorems below.

  \<^bold>\<open>What is shown.\<close>
  \<^item> Of the whole system, for all interleavings of operations and any loss of the database: refunds never add
    up to more than their payment (for amounts below 2^62, beyond which the check wraps); a payment is initiated
    at most once and captured at most once while its lease is kept, and always initiated under its own idempotency
    key; the creation and the outcome of a payment were announced; no event of the outbox is lost, and a dead
    letter that is replayed comes back whole and once.
  \<^item> Of webhooks, idempotency and responses: an event is applied once; a second request with the same
    key gets the first answer and has no effect.
  \<^item> Of access: nothing changes without a valid token; tenants see only their own payments, lists and disputes;
    a stored gateway configuration is read back as it was written and is unreadable in the row of another tenant.
  \<^item> Of specifications: the dispute service implements an abstract register of disputes and payments
    (\<open>spec_report\<close>), the scripts of the circuit breaker an abstract breaker that is closed, open or on trial
    (\<open>spec_step\<close>), and the transition script the table of the domain.
  \<^item> Of numbers: the charge is the exact reverse-inclusive price rounded up, up to the error of the doubles;
    prorated refunds stay within the charge while the product fits an \<open>int64\<close>; the rate
    limiter admits at most its capacity and refill; the percentage test of reconciliation is exact.
  \<^item> Of loops and background work: the listing of payments, the search in the ring and the deliveries of tenant webhooks end
    with the right result; the partition manager keeps unpublished events and has partitions ready for the weeks to come.
  \<^item> Of the places where the code does not do what it means to: a capture reported for a payment with a waiting
    cancel request deadlocks, an early webhook is lost, a refund that fails may leave its payment pending for good, no manual
    capture can succeed, notifications and reconciliation jobs fail on \<open>NULL\<close> columns, and the endpoints that move
    a payment ignore the tenant of the token.

  \<^bold>\<open>Bounds and fuel.\<close> The client loop over list pages takes one more than the number of payments as fuel, and
  \<open>listing_complete\<close> shows that this is enough. The settlement readers of the adapters stop after a hundred pages, as
  the code does. A walk along the ring ends after one turn. All other loops run over lists. \<open>f64\<close> has the 53-bit
  significand of a double and no bound on the exponent, which the amounts of the service do not reach. Times are
  nanoseconds since 1970 as integers.

  \<^bold>\<open>Concurrency.\<close> Operations of the step relations follow each other; within an operation the database may stop
  answering between any two calls, but two operations do not interleave inside a transaction. Row locks are
  modelled where a transaction waits for itself (a webhook and the cancellation it starts). That webhook, the one
  that reports a capture while a cancel request waits, is excluded from the step relations (\<open>cancel_waits\<close>): \<open>webhook_cancel_deadlock\<close>
  shows what becomes of it. The dispute, reconciliation, delivery and partition services are no steps of the
  system either; their properties are stated on runs of their own. The sweep of expired leases is a step of the
  system (\<open>system_step\<close>) and not of the service (\<open>service_step\<close>).

  \<^bold>\<open>Simplifications.\<close> A failed \<open>COMMIT\<close> rolls back; a commit whose acknowledgement is lost is not modelled. The
  cache of references always answers, where in the code a delete can fail and leave a stale row. \<open>ToUpper\<close> and
  \<open>ToLower\<close> treat ASCII letters only. \<open>sort.Slice\<close> leaves the order of equal elements open; the model sorts
  stably. Times are printed in UTC.

  \<^bold>\<open>What is not modelled.\<close> The reading and decoding of configuration files and environment variables, which viper does. The
  services see the stored configuration through fields of \<open>env\<close>; \<open>config_env\<close> and \<open>config_server\<close> are the environment and the server on
  the store of \<open>Config_Store\<close>, and a payment that they create has a gateway that was active within the last half minute. The
  clients for SNS, SMTP and SMS, the log publisher, the connections to Postgres and Valkey, TLS, logs, metrics and
  traces only call libraries. The delivery of events to open browser streams needs goroutines and channels; the model
  records what is published. The wiring
  in \<open>cmd/server\<close> is represented by the records that the definitions take, and the pages under \<open>web\<close>, the migrations
  (apart from their constraints, which the tables check) and the test support have no logic of the service.
\<close>

end
